(* ===== verification/Prelude.thy ===== *)
theory Prelude
  imports Complex_Main "HOL-Library.List_Lexorder" "HOL-Library.Char_ord"
begin

text \<open>The vocabulary the components share: the Go values that have no struct of their own
  (instants, dynamically typed JSON values, byte strings), the string helpers of the standard
  library the code calls, decimal rendering, and the generic facts on lists and maps that the
  component theories use.

  Strings are byte lists.  \<^term>\<open>ToLower\<close>, \<^term>\<open>TrimSpace\<close> and
  \<^term>\<open>EqualFold\<close> follow the ASCII behaviour of \<^verbatim>\<open>strings.ToLower\<close>,
  \<^verbatim>\<open>strings.TrimSpace\<close> and \<^verbatim>\<open>strings.EqualFold\<close>.  An instant is the number of
  nanoseconds since the zero \<^verbatim>\<open>time.Time\<close>, so the zero instant is 0; a handler that
  reads the clock takes the reading as an argument.  A \<^verbatim>\<open>float64\<close> is an exact
  rational: rounding and NaN are not modelled.\<close>

named_theorems zero_defs "zero values of the structs"
named_theorems guard_simps "the guards of the handlers, unfolded"

type_synonym time = int
type_synonym 'v table = "string \<rightharpoonup> 'v"

definition IsZero :: "time \<Rightarrow> bool" where
  "IsZero t = (t = 0)"

definition Second :: int where "Second = 1000000000"
definition Minute :: int where "Minute = 60 * Second"
definition Hour :: int where "Hour = 60 * Minute"

definition UnixNano :: "time \<Rightarrow> int" where
  "UnixNano t = t - 62135596800 * Second"

datatype any_value =
    AnyNil
  | ABool bool
  | AFloat rat
  | AInt int
  | AInt32 int
  | AInt64 int
  | ANumber string
  | AString string
  | ATime time
  | AList "any_value list"
  | AObject "(string \<times> any_value) list"
  | AnyOther string

section \<open>Maps and results\<close>

text \<open>Reading a Go map yields the zero value of the element type for an absent key.\<close>

definition mget :: "'v \<Rightarrow> ('k \<rightharpoonup> 'v) \<Rightarrow> 'k \<Rightarrow> 'v" where
  "mget z m k = (case m k of None \<Rightarrow> z | Some v \<Rightarrow> v)"

lemma mget_update [simp]: "mget z (m(k \<mapsto> v)) k' = (if k' = k then v else mget z m k')"
  by (simp add: mget_def)

lemma mget_empty [simp]: "mget z Map.empty k = z"
  by (simp add: mget_def)

lemma mget_Some [simp]: "m k = Some v \<Longrightarrow> mget z m k = v"
  by (simp add: mget_def)

lemma mget_None [simp]: "m k = None \<Longrightarrow> mget z m k = z"
  by (simp add: mget_def)

definition is_ok :: "'e + 'a \<Rightarrow> bool" where
  "is_ok r = (case r of Inl _ \<Rightarrow> False | Inr _ \<Rightarrow> True)"

lemma is_ok_simps [simp]: "is_ok (Inr a)" "\<not> is_ok (Inl e)"
  by (simp_all add: is_ok_def)

lemma is_ok_iff: "is_ok r \<longleftrightarrow> (\<exists>a. r = Inr a)"
  by (cases r) simp_all

lemma find_SomeD: "find P xs = Some x \<Longrightarrow> x \<in> set xs \<and> P x"
  by (induction xs) (auto split: if_splits)

text \<open>A guard of a handler: the reason code it adds when its condition holds.\<close>

definition code_if :: "bool \<Rightarrow> 'a \<Rightarrow> 'a list" where
  "code_if c r = (if c then [r] else [])"

lemma code_if_simps [simp]:
  "code_if c r = [] \<longleftrightarrow> \<not> c"
  "set (code_if c r) = (if c then {r} else {})"
  by (simp_all add: code_if_def)

section \<open>State machines with an invariant\<close>

text \<open>An object whose operations are applied one after the other: under a mutex every concurrent
  execution is such a sequence.  An invariant each operation keeps holds along every sequence.\<close>

locale invariant_machine =
  fixes step :: "'s \<Rightarrow> 'o \<Rightarrow> 's"
    and inv :: "'s \<Rightarrow> bool"
  assumes step_inv: "inv s \<Longrightarrow> inv (step s op)"
begin

lemma run_inv: "inv s \<Longrightarrow> inv (foldl step s ops)"
  by (induction ops arbitrary: s) (simp_all add: step_inv)

lemma prefix_inv: "inv s \<Longrightarrow> inv (foldl step s (take n ops))"
  by (rule run_inv)

end

section \<open>Byte strings\<close>

definition IsSpace :: "char \<Rightarrow> bool" where
  "IsSpace c = (c = CHR '' '' \<or> c = CHR 0x09 \<or> c = CHR 0x0A \<or> c = CHR 0x0B \<or> c = CHR 0x0C \<or> c = CHR 0x0D)"

definition TrimSpace :: "string \<Rightarrow> string" where
  "TrimSpace s = rev (dropWhile IsSpace (rev (dropWhile IsSpace s)))"

definition ToLowerChar :: "char \<Rightarrow> char" where
  "ToLowerChar c = (let n = of_char c :: nat in if 65 \<le> n \<and> n \<le> 90 then char_of (n + 32) else c)"

definition ToLower :: "string \<Rightarrow> string" where
  "ToLower = map ToLowerChar"

definition EqualFold :: "string \<Rightarrow> string \<Rightarrow> bool" where
  "EqualFold a b = (ToLower a = ToLower b)"

fun HasPrefix :: "string \<Rightarrow> string \<Rightarrow> bool" where
  "HasPrefix s [] = True"
| "HasPrefix [] (p # ps) = False"
| "HasPrefix (c # s) (p # ps) = (c = p \<and> HasPrefix s ps)"

definition TrimPrefix :: "string \<Rightarrow> string \<Rightarrow> string" where
  "TrimPrefix s p = (if HasPrefix s p then drop (length p) s else s)"

definition HasSuffix :: "string \<Rightarrow> string \<Rightarrow> bool" where
  "HasSuffix s p = HasPrefix (rev s) (rev p)"

fun Contains :: "string \<Rightarrow> string \<Rightarrow> bool" where
  "Contains [] p = (p = [])"
| "Contains (c # s) p = (HasPrefix (c # s) p \<or> Contains s p)"

fun Join :: "string list \<Rightarrow> string \<Rightarrow> string" where
  "Join [] sep = []"
| "Join [x] sep = x"
| "Join (x # y # zs) sep = x @ sep @ Join (y # zs) sep"

fun digits :: "nat \<Rightarrow> string" where
  "digits n = (if n < 10 then [char_of (48 + n)] else digits (n div 10) @ [char_of (48 + n mod 10)])"

declare digits.simps [simp del]

definition Itoa :: "int \<Rightarrow> string" where
  "Itoa i = (if i < 0 then ''-'' @ digits (nat (- i)) else digits (nat i))"

lemma HasPrefix_iff: "HasPrefix s p \<longleftrightarrow> (\<exists>t. s = p @ t)"
  by (induction s p rule: HasPrefix.induct) auto

lemma dropWhile_idem: "dropWhile P (dropWhile P xs) = dropWhile P xs"
  by (induction xs) auto

lemma dropWhile_append_keep:
  assumes "xs \<noteq> []" "\<not> P (hd xs)"
  shows "dropWhile P (xs @ ys) = xs @ ys"
  using assms by (cases xs) auto

lemma TrimSpace_empty [simp]: "TrimSpace [] = []"
  by (simp add: TrimSpace_def)

lemma trim_right_hd:
  assumes "rev (dropWhile P (rev xs)) \<noteq> []"
  shows "hd (rev (dropWhile P (rev xs))) = hd xs"
proof -
  let ?ys = "rev (dropWhile P (rev xs))"
  have "xs = ?ys @ rev (takeWhile P (rev xs))"
    by (metis rev_append rev_rev_ident takeWhile_dropWhile_id)
  then show ?thesis using assms by (metis hd_append2)
qed

lemma TrimSpace_idem [simp]: "TrimSpace (TrimSpace s) = TrimSpace s"
proof (cases "TrimSpace s = []")
  case False
  let ?d = "dropWhile IsSpace s"
  have ne: "rev (dropWhile IsSpace (rev ?d)) \<noteq> []" using False by (simp add: TrimSpace_def)
  then have dne: "?d \<noteq> []" by (metis dropWhile.simps(1) rev.simps(1))
  have "hd (TrimSpace s) = hd ?d"
    unfolding TrimSpace_def by (rule trim_right_hd [OF ne])
  moreover have "\<not> IsSpace (hd ?d)" using dne by (rule hd_dropWhile)
  ultimately have "dropWhile IsSpace (TrimSpace s) = TrimSpace s"
    using False dropWhile_append_keep [of "TrimSpace s" IsSpace "[]"] by simp
  then have "TrimSpace (TrimSpace s) = rev (dropWhile IsSpace (rev (TrimSpace s)))"
    by (simp add: TrimSpace_def [of "TrimSpace s"])
  also have "\<dots> = TrimSpace s"
    by (simp only: TrimSpace_def rev_rev_ident dropWhile_idem)
  finally show ?thesis .
qed simp

lemma ToLowerChar_idem [simp]: "ToLowerChar (ToLowerChar c) = ToLowerChar c"
  by (simp add: ToLowerChar_def Let_def)

lemma ToLower_idem [simp]: "ToLower (ToLower s) = ToLower s"
  by (simp add: ToLower_def)

lemma IsSpace_code: "IsSpace c \<longleftrightarrow> of_char c \<in> {32, 9, 10, 11, 12, 13 :: nat}"
  by (auto simp: IsSpace_def simp flip: of_char_eq_iff [where 'a = nat])

lemma IsSpace_lower: "IsSpace (ToLowerChar c) = IsSpace c"
  by (auto simp: IsSpace_code ToLowerChar_def Let_def)

lemma TrimSpace_ToLower: "TrimSpace (ToLower s) = ToLower (TrimSpace s)"
proof -
  have "IsSpace \<circ> ToLowerChar = IsSpace" by (auto simp: IsSpace_lower)
  then show ?thesis by (simp add: TrimSpace_def ToLower_def dropWhile_map rev_map)
qed

lemma EqualFold_refl [simp]: "EqualFold s s"
  by (simp add: EqualFold_def)

section \<open>Decimal rendering is injective\<close>

fun undigits :: "string \<Rightarrow> nat" where
  "undigits cs = foldl (\<lambda>a c. 10 * a + (of_char c - 48)) 0 cs"

lemma undigits_digits [simp]: "undigits (digits n) = n"
proof (induction n rule: digits.induct)
  case (1 n)
  show ?case
  proof (cases "n < 10")
    case True
    then show ?thesis by (simp add: digits.simps [of n])
  next
    case False
    have "of_char (char_of (48 + n mod 10)) = (48 + n mod 10 :: nat)" by simp
    then show ?thesis using False 1 by (simp add: digits.simps [of n])
  qed
qed

lemma digits_inject [simp]: "digits m = digits n \<longleftrightarrow> m = n"
  by (metis undigits_digits)

lemma digits_not_empty [simp]: "digits n \<noteq> []"
  by (simp add: digits.simps [of n])

lemma digits_chars: "c \<in> set (digits n) \<Longrightarrow> 48 \<le> (of_char c :: nat) \<and> (of_char c :: nat) \<le> 57"
proof (induction n rule: digits.induct)
  case (1 n)
  show ?case
  proof (cases "n < 10")
    case True
    then show ?thesis using "1.prems" by (simp add: digits.simps [of n])
  next
    case False
    have "n mod 10 \<le> 9" by simp
    then show ?thesis using False 1 by (auto simp: digits.simps [of n])
  qed
qed

lemma digits_no_dash: "digits n \<noteq> CHR ''-'' # cs"
proof
  assume "digits n = CHR ''-'' # cs"
  then have "CHR ''-'' \<in> set (digits n)" by simp
  from digits_chars [OF this] show False by simp
qed

lemma Itoa_inject [simp]: "Itoa i = Itoa j \<longleftrightarrow> i = j"
  using digits_no_dash [of "nat i" "digits (nat (- j))"] digits_no_dash [of "nat j" "digits (nat (- i))"]
  by (auto simp: Itoa_def dest: sym)

end
