(* ===== verification/Domain_Evidence.thy ===== *)
theory Domain_Evidence
  imports Prelude
begin

text \<open>The facts and recovery data of an incident: alerts, collected evidence with its typed
  signals, retrieval candidates and causal patterns, evidence requests and plans, and the
  recovery proposal, dry run, approval context, execution audit and verification records.\<close>

record Alert =
  al_Fingerprint :: "string"
  al_Name :: "string"
  al_Status :: "string"
  al_Labels :: "(string \<rightharpoonup> string)"
  al_Annotations :: "(string \<rightharpoonup> string)"
  al_StartsAt :: "time"
  al_EndsAt :: "time"

definition zero_Alert :: Alert where [zero_defs]:
  "zero_Alert = \<lparr>al_Fingerprint = [], al_Name = [], al_Status = [], al_Labels = Map.empty, al_Annotations = Map.empty, al_StartsAt = 0, al_EndsAt = 0\<rparr>"

record EvidenceRankBreakdown =
  erb_EvidenceID :: "string"
  erb_DeterministicScore :: "rat"
  erb_NeuralScore :: "rat"
  erb_DeterministicWeight :: "rat"
  erb_NeuralWeight :: "rat"
  erb_FinalScore :: "rat"
  erb_NeuralUsed :: "bool"
  erb_SignalStrength :: "rat"
  erb_SourceReliability :: "rat"
  erb_TemporalAlignment :: "rat"
  erb_EvidenceQuality :: "rat"
  erb_Factors :: "(string \<rightharpoonup> rat)"

definition zero_EvidenceRankBreakdown :: EvidenceRankBreakdown where [zero_defs]:
  "zero_EvidenceRankBreakdown = \<lparr>erb_EvidenceID = [], erb_DeterministicScore = 0, erb_NeuralScore = 0, erb_DeterministicWeight = 0, erb_NeuralWeight = 0, erb_FinalScore = 0, erb_NeuralUsed = False, erb_SignalStrength = 0, erb_SourceReliability = 0, erb_TemporalAlignment = 0, erb_EvidenceQuality = 0, erb_Factors = Map.empty\<rparr>"

record EvidenceAttribution =
  ea_TemporalAlignment :: "rat"
  ea_ServiceResourceMatch :: "rat"
  ea_TraceRequestPodMatch :: "rat"
  ea_CausalContribution :: "rat"
  ea_AnomalySpecificity :: "rat"
  ea_AttributionScore :: "rat"
  ea_Reasons :: "string list"

definition zero_EvidenceAttribution :: EvidenceAttribution where [zero_defs]:
  "zero_EvidenceAttribution = \<lparr>ea_TemporalAlignment = 0, ea_ServiceResourceMatch = 0, ea_TraceRequestPodMatch = 0, ea_CausalContribution = 0, ea_AnomalySpecificity = 0, ea_AttributionScore = 0, ea_Reasons = []\<rparr>"

record EvidenceSignal =
  sig_ID :: "string"
  sig_EvidenceID :: "string"
  sig_Source :: "string"
  sig_Category :: "string"
  sig_Signal :: "string"
  sig_Value :: "rat"
  sig_Strength :: "rat"
  sig_Direction :: "string"
  sig_Reliability :: "rat"
  sig_Independence :: "rat"
  sig_TemporalAlignment :: "rat"
  sig_DiagnosticWeight :: "rat"
  sig_Extraction :: "string"
  sig_WindowStart :: "time"
  sig_WindowEnd :: "time"
  sig_ObservedAt :: "time"
  sig_Namespace :: "string"
  sig_Service :: "string"
  sig_Resource :: "string"

definition zero_EvidenceSignal :: EvidenceSignal where [zero_defs]:
  "zero_EvidenceSignal = \<lparr>sig_ID = [], sig_EvidenceID = [], sig_Source = [], sig_Category = [], sig_Signal = [], sig_Value = 0, sig_Strength = 0, sig_Direction = [], sig_Reliability = 0, sig_Independence = 0, sig_TemporalAlignment = 0, sig_DiagnosticWeight = 0, sig_Extraction = [], sig_WindowStart = 0, sig_WindowEnd = 0, sig_ObservedAt = 0, sig_Namespace = [], sig_Service = [], sig_Resource = []\<rparr>"

record Evidence =
  ev_ID :: "string"
  ev_Source :: "string"
  ev_Type :: "string"
  ev_Kind :: "string"
  ev_Timestamp :: "time"
  ev_WindowStart :: "time"
  ev_WindowEnd :: "time"
  ev_Namespace :: "string"
  ev_Service :: "string"
  ev_Resource :: "string"
  ev_Content :: "(string \<rightharpoonup> any_value)"
  ev_Data :: "(string \<rightharpoonup> any_value)"
  ev_Facts :: "(string \<rightharpoonup> any_value)"
  ev_TruncatedFields :: "string list"
  ev_Summary :: "string"
  ev_Confidence :: "rat"
  ev_TraceID :: "string"
  ev_TemplateID :: "string"
  ev_CollectedAt :: "time"
  ev_ObservedAt :: "time"
  ev_RelevanceScore :: "rat"
  ev_NeuralScore :: "rat"
  ev_NeuralRanked :: "bool"
  ev_RankBreakdown :: "EvidenceRankBreakdown option"
  ev_Attribution :: "EvidenceAttribution option"
  ev_RankingReasons :: "string list"
  ev_CausalNodeIDs :: "string list"
  ev_AnomalyScore :: "rat"
  ev_Signals :: "EvidenceSignal list"
  ev_QualityScore :: "rat"

definition zero_Evidence :: Evidence where [zero_defs]:
  "zero_Evidence = \<lparr>ev_ID = [], ev_Source = [], ev_Type = [], ev_Kind = [], ev_Timestamp = 0, ev_WindowStart = 0, ev_WindowEnd = 0, ev_Namespace = [], ev_Service = [], ev_Resource = [], ev_Content = Map.empty, ev_Data = Map.empty, ev_Facts = Map.empty, ev_TruncatedFields = [], ev_Summary = [], ev_Confidence = 0, ev_TraceID = [], ev_TemplateID = [], ev_CollectedAt = 0, ev_ObservedAt = 0, ev_RelevanceScore = 0, ev_NeuralScore = 0, ev_NeuralRanked = False, ev_RankBreakdown = None, ev_Attribution = None, ev_RankingReasons = [], ev_CausalNodeIDs = [], ev_AnomalyScore = 0, ev_Signals = [], ev_QualityScore = 0\<rparr>"

record Hypothesis =
  h2_ID :: "string"
  h2_Cause :: "string"
  h2_Probability :: "rat"
  h2_SupportingEvidence :: "string list"
  h2_ContradictingEvidence :: "string list"
  h2_FalsificationConditions :: "string list"

definition zero_Hypothesis :: Hypothesis where [zero_defs]:
  "zero_Hypothesis = \<lparr>h2_ID = [], h2_Cause = [], h2_Probability = 0, h2_SupportingEvidence = [], h2_ContradictingEvidence = [], h2_FalsificationConditions = []\<rparr>"

datatype RecoveryAction =
    ActionRestartPod
  | ActionScaleDeployment
  | ActionRollbackDeployment
  | RecoveryAction_other string

record RecoveryProposal =
  rp_ID :: "string"
  rp_Action :: "RecoveryAction"
  rp_Namespace :: "string"
  rp_Target :: "string"
  rp_TargetUID :: "string"
  rp_ResourceVersion :: "string"
  rp_Parameters :: "(string \<rightharpoonup> any_value)"
  rp_Reason :: "string"
  rp_Risk :: "string"
  rp_Diff :: "string"
  rp_Rollback :: "string"
  rp_Confidence :: "rat"
  rp_ExpiresAt :: "time"

definition zero_RecoveryProposal :: RecoveryProposal where [zero_defs]:
  "zero_RecoveryProposal = \<lparr>rp_ID = [], rp_Action = RecoveryAction_other [], rp_Namespace = [], rp_Target = [], rp_TargetUID = [], rp_ResourceVersion = [], rp_Parameters = Map.empty, rp_Reason = [], rp_Risk = [], rp_Diff = [], rp_Rollback = [], rp_Confidence = 0, rp_ExpiresAt = 0\<rparr>"

record DryRunResult =
  dr_Success :: "bool"
  dr_Action :: "RecoveryAction"
  dr_Target :: "string"
  dr_Before :: "(string \<rightharpoonup> any_value)"
  dr_After :: "(string \<rightharpoonup> any_value)"
  dr_Risks :: "string list"
  dr_MutationSpecHash :: "string"
  dr_ValidatedAt :: "time"
  dr_Error :: "string"

definition zero_DryRunResult :: DryRunResult where [zero_defs]:
  "zero_DryRunResult = \<lparr>dr_Success = False, dr_Action = RecoveryAction_other [], dr_Target = [], dr_Before = Map.empty, dr_After = Map.empty, dr_Risks = [], dr_MutationSpecHash = [], dr_ValidatedAt = 0, dr_Error = []\<rparr>"

record ExecutionSnapshot =
  es_SkillSnapshotHash :: "string"
  es_ModelConfigHash :: "string"
  es_ToolSchemaHash :: "string"
  es_PolicyHash :: "string"

definition zero_ExecutionSnapshot :: ExecutionSnapshot where [zero_defs]:
  "zero_ExecutionSnapshot = \<lparr>es_SkillSnapshotHash = [], es_ModelConfigHash = [], es_ToolSchemaHash = [], es_PolicyHash = []\<rparr>"

record ExecutionContext =
  ec_NamespaceAllowlist :: "string list"
  ec_IncidentID :: "string"
  ec_ProposalID :: "string"
  ec_RecoveryPlanID :: "string"
  ec_DiagnosisVersion :: "string"
  ec_EvidenceSnapshotHash :: "string"
  ec_ExecutionSnapshot :: "ExecutionSnapshot option"
  ec_ApprovalID :: "string"
  ec_IdempotencyKey :: "string"
  ec_Operator :: "string"
  ec_TargetUID :: "string"
  ec_ResourceVersion :: "string"
  ec_MutationSpecHash :: "string"
  ec_DryRunValidatedAt :: "time"
  ec_ApprovedAt :: "time"
  ec_ExpiresAt :: "time"

definition zero_ExecutionContext :: ExecutionContext where [zero_defs]:
  "zero_ExecutionContext = \<lparr>ec_NamespaceAllowlist = [], ec_IncidentID = [], ec_ProposalID = [], ec_RecoveryPlanID = [], ec_DiagnosisVersion = [], ec_EvidenceSnapshotHash = [], ec_ExecutionSnapshot = None, ec_ApprovalID = [], ec_IdempotencyKey = [], ec_Operator = [], ec_TargetUID = [], ec_ResourceVersion = [], ec_MutationSpecHash = [], ec_DryRunValidatedAt = 0, ec_ApprovedAt = 0, ec_ExpiresAt = 0\<rparr>"

record RecoveryExecution =
  rx_Attempts :: "int"
  rx_ConfirmedMutations :: "int"
  rx_Namespace :: "string"
  rx_Target :: "string"
  rx_Action :: "string"
  rx_Outcome :: "string"
  rx_LastAttemptAt :: "time"
  rx_CompletedAt :: "time"

definition zero_RecoveryExecution :: RecoveryExecution where [zero_defs]:
  "zero_RecoveryExecution = \<lparr>rx_Attempts = 0, rx_ConfirmedMutations = 0, rx_Namespace = [], rx_Target = [], rx_Action = [], rx_Outcome = [], rx_LastAttemptAt = 0, rx_CompletedAt = 0\<rparr>"

record Verification =
  ver_Success :: "bool"
  ver_Checks :: "(string \<rightharpoonup> bool)"
  ver_Message :: "string"
  ver_RestartCount :: "int option"
  ver_CompletedAt :: "time"

definition zero_Verification :: Verification where [zero_defs]:
  "zero_Verification = \<lparr>ver_Success = False, ver_Checks = Map.empty, ver_Message = [], ver_RestartCount = None, ver_CompletedAt = 0\<rparr>"

record DependencyNode =
  dn_ID :: "string"
  dn_Kind :: "string"
  dn_Service :: "string"
  dn_Resource :: "string"
  dn_Role :: "string"
  dn_Metadata :: "(string \<rightharpoonup> string)"

definition zero_DependencyNode :: DependencyNode where [zero_defs]:
  "zero_DependencyNode = \<lparr>dn_ID = [], dn_Kind = [], dn_Service = [], dn_Resource = [], dn_Role = [], dn_Metadata = Map.empty\<rparr>"

record DependencyEdge =
  de_From :: "string"
  de_To :: "string"
  de_Kind :: "string"
  de_ErrorRate :: "rat"
  de_LatencyMS :: "rat"

definition zero_DependencyEdge :: DependencyEdge where [zero_defs]:
  "zero_DependencyEdge = \<lparr>de_From = [], de_To = [], de_Kind = [], de_ErrorRate = 0, de_LatencyMS = 0\<rparr>"

record IncidentDependencyGraph =
  idg_Nodes :: "DependencyNode list"
  idg_Edges :: "DependencyEdge list"
  idg_RootService :: "string"
  idg_SuspectedFailureNodes :: "string list"
  idg_ErrorPropagationPaths :: "string list list"

definition zero_IncidentDependencyGraph :: IncidentDependencyGraph where [zero_defs]:
  "zero_IncidentDependencyGraph = \<lparr>idg_Nodes = [], idg_Edges = [], idg_RootService = [], idg_SuspectedFailureNodes = [], idg_ErrorPropagationPaths = []\<rparr>"

record IncidentFeatures =
  if_IncidentID :: "string"
  if_Cluster :: "string"
  if_Namespace :: "string"
  if_Service :: "string"
  if_Resource :: "string"
  if_WindowStart :: "time"
  if_WindowEnd :: "time"
  if_Terms :: "string list"
  if_EvidenceTypes :: "string list"
  if_TraceIDs :: "string list"
  if_TemplateIDs :: "string list"
  if_TopologyServices :: "string list"
  if_TopologyGraph :: "IncidentDependencyGraph"
  if_CausalNodeIDs :: "string list"
  if_Revision :: "string"
  if_Observed :: "(string \<rightharpoonup> rat)"

definition zero_IncidentFeatures :: IncidentFeatures where [zero_defs]:
  "zero_IncidentFeatures = \<lparr>if_IncidentID = [], if_Cluster = [], if_Namespace = [], if_Service = [], if_Resource = [], if_WindowStart = 0, if_WindowEnd = 0, if_Terms = [], if_EvidenceTypes = [], if_TraceIDs = [], if_TemplateIDs = [], if_TopologyServices = [], if_TopologyGraph = zero_IncidentDependencyGraph, if_CausalNodeIDs = [], if_Revision = [], if_Observed = Map.empty\<rparr>"

record IncidentRankBreakdown =
  irb_IncidentID :: "string"
  irb_SemanticScore :: "rat"
  irb_LexicalScore :: "rat"
  irb_TopologyScore :: "rat"
  irb_CausalScore :: "rat"
  irb_MetadataScore :: "rat"
  irb_ReasoningScore :: "rat"
  irb_DeterministicScore :: "rat"
  irb_NeuralScore :: "rat"
  irb_DeterministicWeight :: "rat"
  irb_NeuralWeight :: "rat"
  irb_FinalScore :: "rat"
  irb_NeuralUsed :: "bool"
  irb_Factors :: "(string \<rightharpoonup> rat)"

definition zero_IncidentRankBreakdown :: IncidentRankBreakdown where [zero_defs]:
  "zero_IncidentRankBreakdown = \<lparr>irb_IncidentID = [], irb_SemanticScore = 0, irb_LexicalScore = 0, irb_TopologyScore = 0, irb_CausalScore = 0, irb_MetadataScore = 0, irb_ReasoningScore = 0, irb_DeterministicScore = 0, irb_NeuralScore = 0, irb_DeterministicWeight = 0, irb_NeuralWeight = 0, irb_FinalScore = 0, irb_NeuralUsed = False, irb_Factors = Map.empty\<rparr>"

record RankBreakdown =
  rb_SemanticScore :: "rat"
  rb_LexicalScore :: "rat"
  rb_TopologyScore :: "rat"
  rb_TemporalScore :: "rat"
  rb_MetricScore :: "rat"
  rb_CausalScore :: "rat"
  rb_MetadataScore :: "rat"
  rb_ReasoningScore :: "rat"
  rb_NormalizedRRF :: "rat"
  rb_TopologySimilarity :: "rat"
  rb_EvidenceFeatureOverlap :: "rat"
  rb_ServiceResourceProximity :: "rat"
  rb_CausalPathCoverage :: "rat"
  rb_RevisionTemporalContext :: "rat"
  rb_NeuralSimilarity :: "rat"
  rb_DeterministicScore :: "rat"
  rb_NeuralRanked :: "bool"
  rb_FinalScore :: "rat"
  rb_IncidentRank :: "IncidentRankBreakdown option"

definition zero_RankBreakdown :: RankBreakdown where [zero_defs]:
  "zero_RankBreakdown = \<lparr>rb_SemanticScore = 0, rb_LexicalScore = 0, rb_TopologyScore = 0, rb_TemporalScore = 0, rb_MetricScore = 0, rb_CausalScore = 0, rb_MetadataScore = 0, rb_ReasoningScore = 0, rb_NormalizedRRF = 0, rb_TopologySimilarity = 0, rb_EvidenceFeatureOverlap = 0, rb_ServiceResourceProximity = 0, rb_CausalPathCoverage = 0, rb_RevisionTemporalContext = 0, rb_NeuralSimilarity = 0, rb_DeterministicScore = 0, rb_NeuralRanked = False, rb_FinalScore = 0, rb_IncidentRank = None\<rparr>"

record RetrievalCandidate =
  rc_IncidentID :: "string"
  rc_Cluster :: "string"
  rc_Namespace :: "string"
  rc_Service :: "string"
  rc_Resource :: "string"
  rc_Category :: "string"
  rc_RootCause :: "string"
  rc_Summary :: "string"
  rc_Revision :: "string"
  rc_Features :: "IncidentFeatures"
  rc_SourceRanks :: "(string \<rightharpoonup> int)"
  rc_SourceScores :: "(string \<rightharpoonup> rat)"
  rc_RRFScore :: "rat"
  rc_Rank :: "RankBreakdown"
  rc_RankingReasons :: "string list"

definition zero_RetrievalCandidate :: RetrievalCandidate where [zero_defs]:
  "zero_RetrievalCandidate = \<lparr>rc_IncidentID = [], rc_Cluster = [], rc_Namespace = [], rc_Service = [], rc_Resource = [], rc_Category = [], rc_RootCause = [], rc_Summary = [], rc_Revision = [], rc_Features = zero_IncidentFeatures, rc_SourceRanks = Map.empty, rc_SourceScores = Map.empty, rc_RRFScore = 0, rc_Rank = zero_RankBreakdown, rc_RankingReasons = []\<rparr>"

record CausalNode =
  cn_ID :: "string"
  cn_Type :: "string"
  cn_Name :: "string"
  cn_Source :: "string"
  cn_Signals :: "string list"
  cn_Match :: "string list"
  cn_Confidence :: "rat"
  cn_SourceEvidenceIDs :: "string list"

definition zero_CausalNode :: CausalNode where [zero_defs]:
  "zero_CausalNode = \<lparr>cn_ID = [], cn_Type = [], cn_Name = [], cn_Source = [], cn_Signals = [], cn_Match = [], cn_Confidence = 0, cn_SourceEvidenceIDs = []\<rparr>"

record CausalEdge =
  ce_From :: "string"
  ce_To :: "string"
  ce_Relation :: "string"
  ce_Confidence :: "rat"

definition zero_CausalEdge :: CausalEdge where [zero_defs]:
  "zero_CausalEdge = \<lparr>ce_From = [], ce_To = [], ce_Relation = [], ce_Confidence = 0\<rparr>"

record CausalEvidencePattern =
  cep_Source :: "string"
  cep_Type :: "string"
  cep_Tokens :: "string list"

definition zero_CausalEvidencePattern :: CausalEvidencePattern where [zero_defs]:
  "zero_CausalEvidencePattern = \<lparr>cep_Source = [], cep_Type = [], cep_Tokens = []\<rparr>"

record CausalPattern =
  cp_ID :: "string"
  cp_Category :: "string"
  cp_Cause :: "string"
  cp_Nodes :: "CausalNode list"
  cp_Edges :: "CausalEdge list"
  cp_RequiredAdmissionNodeIDs :: "string list"
  cp_SupportingEvidence :: "CausalEvidencePattern list"
  cp_ContradictingEvidence :: "CausalEvidencePattern list"
  cp_SourceIncidents :: "string list"
  cp_Cluster :: "string"
  cp_Namespace :: "string"
  cp_Source :: "string"
  cp_Confidence :: "rat"
  cp_Status :: "string"
  cp_Version :: "int"
  cp_SupportCount :: "int"
  cp_CreatedAt :: "time"
  cp_UpdatedAt :: "time"

definition zero_CausalPattern :: CausalPattern where [zero_defs]:
  "zero_CausalPattern = \<lparr>cp_ID = [], cp_Category = [], cp_Cause = [], cp_Nodes = [], cp_Edges = [], cp_RequiredAdmissionNodeIDs = [], cp_SupportingEvidence = [], cp_ContradictingEvidence = [], cp_SourceIncidents = [], cp_Cluster = [], cp_Namespace = [], cp_Source = [], cp_Confidence = 0, cp_Status = [], cp_Version = 0, cp_SupportCount = 0, cp_CreatedAt = 0, cp_UpdatedAt = 0\<rparr>"

datatype StateAssertionStatus =
    StateAssertionActive
  | StateAssertionResolved
  | StateAssertionStale
  | StateAssertionContradicted
  | StateAssertionStatus_other string

record StateAssertion =
  sa_ID :: "string"
  sa_Subject :: "string"
  sa_Property :: "string"
  sa_State :: "string"
  sa_Confidence :: "rat"
  sa_SupportingSignalIDs :: "string list"
  sa_ContradictingSignalIDs :: "string list"
  sa_FirstSeen :: "time"
  sa_LastSeen :: "time"
  sa_Status :: "StateAssertionStatus"

definition zero_StateAssertion :: StateAssertion where [zero_defs]:
  "zero_StateAssertion = \<lparr>sa_ID = [], sa_Subject = [], sa_Property = [], sa_State = [], sa_Confidence = 0, sa_SupportingSignalIDs = [], sa_ContradictingSignalIDs = [], sa_FirstSeen = 0, sa_LastSeen = 0, sa_Status = StateAssertionStatus_other []\<rparr>"

record ResourceRef =
  ref_Namespace :: "string"
  ref_Service :: "string"
  ref_Resource :: "string"
  ref_Kind :: "string"

definition zero_ResourceRef :: ResourceRef where [zero_defs]:
  "zero_ResourceRef = \<lparr>ref_Namespace = [], ref_Service = [], ref_Resource = [], ref_Kind = []\<rparr>"

record EvidenceRequest =
  er_Source :: "string"
  er_Targets :: "ResourceRef list"
  er_SignalKinds :: "string list"
  er_WindowStart :: "time"
  er_WindowEnd :: "time"
  er_HypothesisIDs :: "string list"

definition zero_EvidenceRequest :: EvidenceRequest where [zero_defs]:
  "zero_EvidenceRequest = \<lparr>er_Source = [], er_Targets = [], er_SignalKinds = [], er_WindowStart = 0, er_WindowEnd = 0, er_HypothesisIDs = []\<rparr>"

record WorkerTask =
  task_ID :: "string"
  task_Source :: "string"
  task_Question :: "string"
  task_HypothesisIDs :: "string list"
  task_Request :: "EvidenceRequest"
  task_Required :: "bool"

definition zero_WorkerTask :: WorkerTask where [zero_defs]:
  "zero_WorkerTask = \<lparr>task_ID = [], task_Source = [], task_Question = [], task_HypothesisIDs = [], task_Request = zero_EvidenceRequest, task_Required = False\<rparr>"

record InvestigationPlan =
  ip_ID :: "string"
  ip_Version :: "int"
  ip_ParentID :: "string"
  ip_RevisionReason :: "string"
  ip_Objective :: "string"
  ip_Tasks :: "WorkerTask list"
  ip_StopConditions :: "string list"
  ip_RoundLimit :: "int"
  ip_CreatedAt :: "time"
  ip_UpdatedAt :: "time"

definition zero_InvestigationPlan :: InvestigationPlan where [zero_defs]:
  "zero_InvestigationPlan = \<lparr>ip_ID = [], ip_Version = 0, ip_ParentID = [], ip_RevisionReason = [], ip_Objective = [], ip_Tasks = [], ip_StopConditions = [], ip_RoundLimit = 0, ip_CreatedAt = 0, ip_UpdatedAt = 0\<rparr>"

record AuditEvent =
  ae_ID :: "string"
  ae_IncidentID :: "string"
  ae_Type :: "string"
  ae_Message :: "string"
  ae_Data :: "(string \<rightharpoonup> any_value)"
  ae_CreatedAt :: "time"

definition zero_AuditEvent :: AuditEvent where [zero_defs]:
  "zero_AuditEvent = \<lparr>ae_ID = [], ae_IncidentID = [], ae_Type = [], ae_Message = [], ae_Data = Map.empty, ae_CreatedAt = 0\<rparr>"

record ModelUsageEvent =
  mu_IncidentID :: "string"
  mu_Agent :: "string"
  mu_ParentAgent :: "string"
  mu_Phase :: "string"
  mu_InputTokens :: "int"
  mu_OutputTokens :: "int"
  mu_ReasoningTokens :: "int"
  mu_DurationMS :: "rat"
  mu_EstimatedCost :: "rat"
  mu_CreatedAt :: "time"

definition zero_ModelUsageEvent :: ModelUsageEvent where [zero_defs]:
  "zero_ModelUsageEvent = \<lparr>mu_IncidentID = [], mu_Agent = [], mu_ParentAgent = [], mu_Phase = [], mu_InputTokens = 0, mu_OutputTokens = 0, mu_ReasoningTokens = 0, mu_DurationMS = 0, mu_EstimatedCost = 0, mu_CreatedAt = 0\<rparr>"

datatype MemoryKind =
    MemoryWorking
  | MemoryEpisodic
  | MemorySemantic
  | MemoryProcedural
  | MemoryKind_other string

record MemoryScope =
  ms_Cluster :: "string"
  ms_Namespace :: "string"

definition zero_MemoryScope :: MemoryScope where [zero_defs]:
  "zero_MemoryScope = \<lparr>ms_Cluster = [], ms_Namespace = []\<rparr>"

record MemoryAccessResult =
  mar_ID :: "string"
  mar_Score :: "rat"
  mar_Version :: "string"

definition zero_MemoryAccessResult :: MemoryAccessResult where [zero_defs]:
  "zero_MemoryAccessResult = \<lparr>mar_ID = [], mar_Score = 0, mar_Version = []\<rparr>"

record MemoryAccessEvent =
  mae_IncidentID :: "string"
  mae_Agent :: "string"
  mae_Kind :: "MemoryKind"
  mae_Scope :: "MemoryScope"
  mae_QueryHash :: "string"
  mae_ResultIDs :: "string list"
  mae_Results :: "MemoryAccessResult list"
  mae_PolicyVersion :: "string"
  mae_CreatedAt :: "time"

definition zero_MemoryAccessEvent :: MemoryAccessEvent where [zero_defs]:
  "zero_MemoryAccessEvent = \<lparr>mae_IncidentID = [], mae_Agent = [], mae_Kind = MemoryKind_other [], mae_Scope = zero_MemoryScope, mae_QueryHash = [], mae_ResultIDs = [], mae_Results = [], mae_PolicyVersion = [], mae_CreatedAt = 0\<rparr>"

record MemoryResult =
  mr_ID :: "string"
  mr_Kind :: "MemoryKind"
  mr_Scope :: "MemoryScope"
  mr_Summary :: "string"
  mr_Score :: "rat"
  mr_Version :: "string"
  mr_Provenance :: "(string \<rightharpoonup> any_value)"
  mr_ObservedAt :: "time"

definition zero_MemoryResult :: MemoryResult where [zero_defs]:
  "zero_MemoryResult = \<lparr>mr_ID = [], mr_Kind = MemoryKind_other [], mr_Scope = zero_MemoryScope, mr_Summary = [], mr_Score = 0, mr_Version = [], mr_Provenance = Map.empty, mr_ObservedAt = 0\<rparr>"

record RecoveryPermission =
  perm_Level :: "string"
  perm_Allowed :: "bool"
  perm_Reason :: "string"

definition zero_RecoveryPermission :: RecoveryPermission where [zero_defs]:
  "zero_RecoveryPermission = \<lparr>perm_Level = [], perm_Allowed = False, perm_Reason = []\<rparr>"

record GraphNode =
  gn_ID :: "string"
  gn_Type :: "string"
  gn_Metadata :: "(string \<rightharpoonup> string)"

definition zero_GraphNode :: GraphNode where [zero_defs]:
  "zero_GraphNode = \<lparr>gn_ID = [], gn_Type = [], gn_Metadata = Map.empty\<rparr>"

record GraphEdge =
  ge_Source :: "string"
  ge_Target :: "string"
  ge_Relation :: "string"
  ge_Weight :: "rat"

definition zero_GraphEdge :: GraphEdge where [zero_defs]:
  "zero_GraphEdge = \<lparr>ge_Source = [], ge_Target = [], ge_Relation = [], ge_Weight = 0\<rparr>"

record IncidentGraph =
  ig_IncidentID :: "string"
  ig_Nodes :: "GraphNode list"
  ig_Edges :: "GraphEdge list"

definition zero_IncidentGraph :: IncidentGraph where [zero_defs]:
  "zero_IncidentGraph = \<lparr>ig_IncidentID = [], ig_Nodes = [], ig_Edges = []\<rparr>"

datatype HypothesisStatus =
    HypothesisProposed
  | HypothesisAdmitted
  | HypothesisInvestigating
  | HypothesisCreated
  | HypothesisEvidenceSearching
  | HypothesisSupported
  | HypothesisRefuted
  | HypothesisAccepted
  | HypothesisReplaced
  | HypothesisMerged
  | HypothesisAbandoned
  | HypothesisStatus_other string

end
