(* ===== verification/Domain_Diagnosis.thy ===== *)
theory Domain_Diagnosis
  imports Domain_Evidence
begin

text \<open>The records of the deterministic diagnosis path: hypotheses and their transitions, the
  diagnosis ledger, agent budgets, safety feedback, falsification and arbitration.\<close>

record HypothesisDraft =
  hd_ID :: "string"
  hd_Category :: "string"
  hd_Variant :: "string"
  hd_Cause :: "string"
  hd_Service :: "string"
  hd_Resource :: "string"
  hd_PriorProbability :: "rat"
  hd_SupportingEvidenceIDs :: "string list"
  hd_ContradictingEvidenceIDs :: "string list"
  hd_ExpectedCausalPath :: "string list"
  hd_ExpectedCausalNodeIDs :: "string list"
  hd_RequireCausalMechanism :: "bool"
  hd_FalsificationConditions :: "string list"

definition zero_HypothesisDraft :: HypothesisDraft where [zero_defs]:
  "zero_HypothesisDraft = \<lparr>hd_ID = [], hd_Category = [], hd_Variant = [], hd_Cause = [], hd_Service = [], hd_Resource = [], hd_PriorProbability = 0, hd_SupportingEvidenceIDs = [], hd_ContradictingEvidenceIDs = [], hd_ExpectedCausalPath = [], hd_ExpectedCausalNodeIDs = [], hd_RequireCausalMechanism = False, hd_FalsificationConditions = []\<rparr>"

record HypothesisConfidenceRecord =
  hcr_HypothesisID :: "string"
  hcr_Sequence :: "int"
  hcr_Score :: "rat"
  hcr_ObjectiveScore :: "rat"
  hcr_ObservationCoverage :: "rat"
  hcr_ModelPrior :: "rat"
  hcr_SupportingScore :: "rat"
  hcr_ContradictionScore :: "rat"
  hcr_CausalPathCoverage :: "rat"
  hcr_HistoricalRelevance :: "rat"
  hcr_TopologyRelevance :: "rat"
  hcr_TemporalConsistency :: "rat"
  hcr_AddedEvidenceIDs :: "string list"
  hcr_RemovedEvidenceIDs :: "string list"
  hcr_EvidenceSourceCount :: "int"
  hcr_ToolCallID :: "string"
  hcr_ComputedAt :: "time"

definition zero_HypothesisConfidenceRecord :: HypothesisConfidenceRecord where [zero_defs]:
  "zero_HypothesisConfidenceRecord = \<lparr>hcr_HypothesisID = [], hcr_Sequence = 0, hcr_Score = 0, hcr_ObjectiveScore = 0, hcr_ObservationCoverage = 0, hcr_ModelPrior = 0, hcr_SupportingScore = 0, hcr_ContradictionScore = 0, hcr_CausalPathCoverage = 0, hcr_HistoricalRelevance = 0, hcr_TopologyRelevance = 0, hcr_TemporalConsistency = 0, hcr_AddedEvidenceIDs = [], hcr_RemovedEvidenceIDs = [], hcr_EvidenceSourceCount = 0, hcr_ToolCallID = [], hcr_ComputedAt = 0\<rparr>"

record VerifiedHypothesis =
  vh_Draft :: "HypothesisDraft"
  vh_SupportingScore :: "rat"
  vh_ContradictionScore :: "rat"
  vh_CausalPathCoverage :: "rat"
  vh_HistoricalRelevance :: "rat"
  vh_TopologyRelevance :: "rat"
  vh_MissingCausalNodes :: "string list"
  vh_VerifiedEvidenceIDs :: "string list"
  vh_FinalScore :: "rat"
  vh_ObjectiveScore :: "rat"
  vh_ObservationCoverage :: "rat"
  vh_Status :: "HypothesisStatus"
  vh_ConfidenceHistory :: "HypothesisConfidenceRecord list"

definition zero_VerifiedHypothesis :: VerifiedHypothesis where [zero_defs]:
  "zero_VerifiedHypothesis = \<lparr>vh_Draft = zero_HypothesisDraft, vh_SupportingScore = 0, vh_ContradictionScore = 0, vh_CausalPathCoverage = 0, vh_HistoricalRelevance = 0, vh_TopologyRelevance = 0, vh_MissingCausalNodes = [], vh_VerifiedEvidenceIDs = [], vh_FinalScore = 0, vh_ObjectiveScore = 0, vh_ObservationCoverage = 0, vh_Status = HypothesisStatus_other [], vh_ConfidenceHistory = []\<rparr>"

record HypothesisTransition =
  ht_HypothesisID :: "string"
  ht_From :: "HypothesisStatus"
  ht_To :: "HypothesisStatus"
  ht_EvidenceIDs :: "string list"
  ht_ToolCallID :: "string"
  ht_Reason :: "string"
  ht_OccurredAt :: "time"

definition zero_HypothesisTransition :: HypothesisTransition where [zero_defs]:
  "zero_HypothesisTransition = \<lparr>ht_HypothesisID = [], ht_From = HypothesisStatus_other [], ht_To = HypothesisStatus_other [], ht_EvidenceIDs = [], ht_ToolCallID = [], ht_Reason = [], ht_OccurredAt = 0\<rparr>"

datatype SafetyScope =
    SafetyScopeSupervisor
  | SafetyScopeDiagnosis
  | SafetyScopeRecoveryProposal
  | SafetyScopeExecution
  | SafetyScopeVerification
  | SafetyScope_other string

datatype SafetyCategory =
    SafetyRepairable
  | SafetyFatal
  | SafetyHumanRequired
  | SafetyCategory_other string

record SafetyCheck =
  sc_Name :: "string"
  sc_Passed :: "bool"
  sc_Message :: "string"

definition zero_SafetyCheck :: SafetyCheck where [zero_defs]:
  "zero_SafetyCheck = \<lparr>sc_Name = [], sc_Passed = False, sc_Message = []\<rparr>"

record SafetyFeedback =
  sf_Allowed :: "bool"
  sf_Scope :: "SafetyScope"
  sf_Category :: "SafetyCategory"
  sf_Code :: "string"
  sf_Reason :: "string"
  sf_FailedChecks :: "SafetyCheck list"
  sf_MissingRequirements :: "string list"
  sf_RequiredCapabilities :: "string list"
  sf_Retryable :: "bool"
  sf_RequiresHuman :: "bool"
  sf_RemainingCorrections :: "int"

definition zero_SafetyFeedback :: SafetyFeedback where [zero_defs]:
  "zero_SafetyFeedback = \<lparr>sf_Allowed = False, sf_Scope = SafetyScope_other [], sf_Category = SafetyCategory_other [], sf_Code = [], sf_Reason = [], sf_FailedChecks = [], sf_MissingRequirements = [], sf_RequiredCapabilities = [], sf_Retryable = False, sf_RequiresHuman = False, sf_RemainingCorrections = 0\<rparr>"

record AgentDecisionEvent =
  ade_AgentID :: "string"
  ade_Iteration :: "int"
  ade_ObservationSummary :: "string"
  ade_SelectedAction :: "string"
  ade_ReasonCategory :: "string"
  ade_OccurredAt :: "time"

definition zero_AgentDecisionEvent :: AgentDecisionEvent where [zero_defs]:
  "zero_AgentDecisionEvent = \<lparr>ade_AgentID = [], ade_Iteration = 0, ade_ObservationSummary = [], ade_SelectedAction = [], ade_ReasonCategory = [], ade_OccurredAt = 0\<rparr>"

record DiagnosisLedger =
  led_EvidenceOriginalCount :: "int"
  led_EvidenceRetainedCount :: "int"
  led_EvidenceOriginalBytes :: "int"
  led_EvidenceRetainedBytes :: "int"
  led_Candidates :: "RetrievalCandidate list"
  led_CausalPatterns :: "CausalPattern list"
  led_Drafts :: "HypothesisDraft list"
  led_Verified :: "VerifiedHypothesis list"
  led_SelectedHypothesisID :: "string"
  led_AdditionalCollection :: "bool"
  led_InfrastructureErrors :: "string list"
  led_HypothesisTransitions :: "HypothesisTransition list"
  led_SafetyFeedback :: "SafetyFeedback list"
  led_AgentDecisions :: "AgentDecisionEvent list"

definition zero_DiagnosisLedger :: DiagnosisLedger where [zero_defs]:
  "zero_DiagnosisLedger = \<lparr>led_EvidenceOriginalCount = 0, led_EvidenceRetainedCount = 0, led_EvidenceOriginalBytes = 0, led_EvidenceRetainedBytes = 0, led_Candidates = [], led_CausalPatterns = [], led_Drafts = [], led_Verified = [], led_SelectedHypothesisID = [], led_AdditionalCollection = False, led_InfrastructureErrors = [], led_HypothesisTransitions = [], led_SafetyFeedback = [], led_AgentDecisions = []\<rparr>"

record AgentBudget =
  ab_MaxIterations :: "int"
  ab_MaxToolUses :: "int"
  ab_MaxTokens :: "int"
  ab_MaxCorrections :: "int"

definition zero_AgentBudget :: AgentBudget where [zero_defs]:
  "zero_AgentBudget = \<lparr>ab_MaxIterations = 0, ab_MaxToolUses = 0, ab_MaxTokens = 0, ab_MaxCorrections = 0\<rparr>"

record AgentBudgetUsage =
  abu_Iterations :: "int"
  abu_ToolUses :: "int"
  abu_ToolCost :: "int"
  abu_Tokens :: "int"
  abu_Corrections :: "int"

definition zero_AgentBudgetUsage :: AgentBudgetUsage where [zero_defs]:
  "zero_AgentBudgetUsage = \<lparr>abu_Iterations = 0, abu_ToolUses = 0, abu_ToolCost = 0, abu_Tokens = 0, abu_Corrections = 0\<rparr>"

record AgentBudgetState =
  abs_Limits :: "(string \<rightharpoonup> AgentBudget) option"
  abs_Usage :: "(string \<rightharpoonup> AgentBudgetUsage) option"
  abs_IncidentUses :: "int"
  abs_IncidentCost :: "int"
  abs_IncidentTokens :: "int"

definition zero_AgentBudgetState :: AgentBudgetState where [zero_defs]:
  "zero_AgentBudgetState = \<lparr>abs_Limits = None, abs_Usage = None, abs_IncidentUses = 0, abs_IncidentCost = 0, abs_IncidentTokens = 0\<rparr>"

record HypothesisGateResult =
  hgr_HypothesisID :: "string"
  hgr_ScoreBreakdown :: "HypothesisConfidenceRecord"
  hgr_FailedGates :: "string list"

definition zero_HypothesisGateResult :: HypothesisGateResult where [zero_defs]:
  "zero_HypothesisGateResult = \<lparr>hgr_HypothesisID = [], hgr_ScoreBreakdown = zero_HypothesisConfidenceRecord, hgr_FailedGates = []\<rparr>"

record ArbitrationResult =
  ar_SelectedHypothesisID :: "string"
  ar_DisplayHypothesisID :: "string"
  ar_RankedHypothesisIDs :: "string list"
  ar_SelectedScore :: "rat"
  ar_ScoreMargin :: "rat"
  ar_Accepted :: "bool"
  ar_NeedsMoreEvidence :: "bool"
  ar_Reason :: "string"
  ar_GateResults :: "HypothesisGateResult list"

definition zero_ArbitrationResult :: ArbitrationResult where [zero_defs]:
  "zero_ArbitrationResult = \<lparr>ar_SelectedHypothesisID = [], ar_DisplayHypothesisID = [], ar_RankedHypothesisIDs = [], ar_SelectedScore = 0, ar_ScoreMargin = 0, ar_Accepted = False, ar_NeedsMoreEvidence = False, ar_Reason = [], ar_GateResults = []\<rparr>"

record InvestigationIntent =
  ii_Focus :: "string list"
  ii_Priorities :: "string list"

definition zero_InvestigationIntent :: InvestigationIntent where [zero_defs]:
  "zero_InvestigationIntent = \<lparr>ii_Focus = [], ii_Priorities = []\<rparr>"

record CognitiveInterpretation =
  ci_CandidateIDs :: "string list"
  ci_MechanismLabels :: "string list"
  ci_SupportingAssertionIDs :: "string list"
  ci_ReasoningPredicates :: "string list"
  ci_RequiredObservations :: "string list"

definition zero_CognitiveInterpretation :: CognitiveInterpretation where [zero_defs]:
  "zero_CognitiveInterpretation = \<lparr>ci_CandidateIDs = [], ci_MechanismLabels = [], ci_SupportingAssertionIDs = [], ci_ReasoningPredicates = [], ci_RequiredObservations = []\<rparr>"

record TieBreakingPreference =
  tbp_PreferredCandidateID :: "string"
  tbp_OtherCandidateID :: "string"
  tbp_AssertionIDs :: "string list"
  tbp_Predicates :: "string list"

definition zero_TieBreakingPreference :: TieBreakingPreference where [zero_defs]:
  "zero_TieBreakingPreference = \<lparr>tbp_PreferredCandidateID = [], tbp_OtherCandidateID = [], tbp_AssertionIDs = [], tbp_Predicates = []\<rparr>"

record InvestigationPolicy =
  ip2_CandidateIDs :: "string list"
  ip2_ObservationKind :: "string"
  ip2_RationalePredicates :: "string list"
  ip2_ExpectedEntropyReduction :: "rat"
  ip2_DecisionImpact :: "rat"
  ip2_DiagnosticValue :: "rat"
  ip2_Status :: "string"

definition zero_InvestigationPolicy :: InvestigationPolicy where [zero_defs]:
  "zero_InvestigationPolicy = \<lparr>ip2_CandidateIDs = [], ip2_ObservationKind = [], ip2_RationalePredicates = [], ip2_ExpectedEntropyReduction = 0, ip2_DecisionImpact = 0, ip2_DiagnosticValue = 0, ip2_Status = []\<rparr>"

record CognitiveCounterargument =
  cc_CandidateID :: "string"
  cc_AssertionIDs :: "string list"
  cc_ObservationKinds :: "string list"

definition zero_CognitiveCounterargument :: CognitiveCounterargument where [zero_defs]:
  "zero_CognitiveCounterargument = \<lparr>cc_CandidateID = [], cc_AssertionIDs = [], cc_ObservationKinds = []\<rparr>"

record CognitiveReasoning =
  cr_Round :: "int"
  cr_Intent :: "InvestigationIntent option"
  cr_Interpretations :: "CognitiveInterpretation list"
  cr_TieBreakingPreferences :: "TieBreakingPreference list"
  cr_InvestigationPolicies :: "InvestigationPolicy list"
  cr_Counterarguments :: "CognitiveCounterargument list"
  cr_Accepted :: "bool"
  cr_RejectedReasons :: "string list"
  cr_OccurredAt :: "time"

definition zero_CognitiveReasoning :: CognitiveReasoning where [zero_defs]:
  "zero_CognitiveReasoning = \<lparr>cr_Round = 0, cr_Intent = None, cr_Interpretations = [], cr_TieBreakingPreferences = [], cr_InvestigationPolicies = [], cr_Counterarguments = [], cr_Accepted = False, cr_RejectedReasons = [], cr_OccurredAt = 0\<rparr>"

record FalsificationResult =
  fr_CandidateID :: "string"
  fr_SupportingAssertionIDs :: "string list"
  fr_ContradictingAssertionIDs :: "string list"
  fr_MissingObservationKinds :: "string list"
  fr_CounterfactualObservationKinds :: "string list"

definition zero_FalsificationResult :: FalsificationResult where [zero_defs]:
  "zero_FalsificationResult = \<lparr>fr_CandidateID = [], fr_SupportingAssertionIDs = [], fr_ContradictingAssertionIDs = [], fr_MissingObservationKinds = [], fr_CounterfactualObservationKinds = []\<rparr>"

record PairwiseFalsification =
  pf_PreferredCandidateID :: "string"
  pf_OtherCandidateID :: "string"
  pf_DiscriminatingAssertionIDs :: "string list"
  pf_Result :: "string"

definition zero_PairwiseFalsification :: PairwiseFalsification where [zero_defs]:
  "zero_PairwiseFalsification = \<lparr>pf_PreferredCandidateID = [], pf_OtherCandidateID = [], pf_DiscriminatingAssertionIDs = [], pf_Result = []\<rparr>"

record CandidateExpansionRequest =
  cer_AssertionIDs :: "string list"
  cer_RequiredObservations :: "string list"
  cer_Status :: "string"
  cer_Reason :: "string"

definition zero_CandidateExpansionRequest :: CandidateExpansionRequest where [zero_defs]:
  "zero_CandidateExpansionRequest = \<lparr>cer_AssertionIDs = [], cer_RequiredObservations = [], cer_Status = [], cer_Reason = []\<rparr>"

record HypothesisArgument =
  ha_Author :: "string"
  ha_Hypotheses :: "HypothesisDraft list"
  ha_EvidenceIDs :: "string list"
  ha_Uncertainty :: "string"

definition zero_HypothesisArgument :: HypothesisArgument where [zero_defs]:
  "zero_HypothesisArgument = \<lparr>ha_Author = [], ha_Hypotheses = [], ha_EvidenceIDs = [], ha_Uncertainty = []\<rparr>"

record Critique =
  c2_HypothesisID :: "string"
  c2_Challenge :: "string"
  c2_MissingEvidence :: "string list"
  c2_ContradictingIDs :: "string list"
  c2_RecommendedSources :: "string list"

definition zero_Critique :: Critique where [zero_defs]:
  "zero_Critique = \<lparr>c2_HypothesisID = [], c2_Challenge = [], c2_MissingEvidence = [], c2_ContradictingIDs = [], c2_RecommendedSources = []\<rparr>"

record DebateRound =
  dr2_Round :: "int"
  dr2_Primary :: "HypothesisArgument"
  dr2_Alternative :: "HypothesisArgument"
  dr2_Critiques :: "Critique list"
  dr2_OccurredAt :: "time"

definition zero_DebateRound :: DebateRound where [zero_defs]:
  "zero_DebateRound = \<lparr>dr2_Round = 0, dr2_Primary = zero_HypothesisArgument, dr2_Alternative = zero_HypothesisArgument, dr2_Critiques = [], dr2_OccurredAt = 0\<rparr>"

record WorkerFinding =
  wf_TaskID :: "string"
  wf_Worker :: "string"
  wf_Source :: "string"
  wf_Summary :: "string"
  wf_EvidenceIDs :: "string list"
  wf_SupportingHypothesisIDs :: "string list"
  wf_ContradictingHypothesisIDs :: "string list"
  wf_Unknowns :: "string list"
  wf_CompletedAt :: "time"

definition zero_WorkerFinding :: WorkerFinding where [zero_defs]:
  "zero_WorkerFinding = \<lparr>wf_TaskID = [], wf_Worker = [], wf_Source = [], wf_Summary = [], wf_EvidenceIDs = [], wf_SupportingHypothesisIDs = [], wf_ContradictingHypothesisIDs = [], wf_Unknowns = [], wf_CompletedAt = 0\<rparr>"

end
