(* ===== verification/Domain_Brain.thy ===== *)
theory Domain_Brain
  imports Domain_Evidence
begin

text \<open>The records of the KubePilot Brain: turns, skills, tool envelopes and results, hypotheses
  with admission, grounding and belief records, budgets, diagnosis, recovery plan and
  termination, and the operational world model handed to the Brain.\<close>

datatype ToolResultClass =
    ToolResultEvidence
  | ToolResultValidation
  | ToolResultConstraint
  | ToolResultError
  | ToolResultStateChange
  | ToolResultClass_other string

record ToolResultProvenance =
  prov_ToolCallID :: "string"
  prov_ToolName :: "string"
  prov_ToolSchemaHash :: "string"
  prov_Collector :: "string"
  prov_TargetRefs :: "ResourceRef list"
  prov_WindowStart :: "time"
  prov_WindowEnd :: "time"
  prov_ObservedAt :: "time"
  prov_RawArtifactHash :: "string"
  prov_ParserVersion :: "string"
  prov_EvidenceIDs :: "string list"
  prov_StateChangeID :: "string"
  prov_ApprovalID :: "string"
  prov_MutationSpecHash :: "string"
  prov_TargetUID :: "string"
  prov_ResourceVersion :: "string"

definition zero_ToolResultProvenance :: ToolResultProvenance where [zero_defs]:
  "zero_ToolResultProvenance = \<lparr>prov_ToolCallID = [], prov_ToolName = [], prov_ToolSchemaHash = [], prov_Collector = [], prov_TargetRefs = [], prov_WindowStart = 0, prov_WindowEnd = 0, prov_ObservedAt = 0, prov_RawArtifactHash = [], prov_ParserVersion = [], prov_EvidenceIDs = [], prov_StateChangeID = [], prov_ApprovalID = [], prov_MutationSpecHash = [], prov_TargetUID = [], prov_ResourceVersion = []\<rparr>"

record ToolResultRecord =
  trr_Class :: "ToolResultClass"
  trr_Provenance :: "ToolResultProvenance"
  trr_Status :: "string"
  trr_Summary :: "string"
  trr_ValidationIDs :: "string list"
  trr_NewInformation :: "bool"
  trr_ConstraintCode :: "string"
  trr_Infrastructure :: "bool"
  trr_OccurredAt :: "time"

definition zero_ToolResultRecord :: ToolResultRecord where [zero_defs]:
  "zero_ToolResultRecord = \<lparr>trr_Class = ToolResultClass_other [], trr_Provenance = zero_ToolResultProvenance, trr_Status = [], trr_Summary = [], trr_ValidationIDs = [], trr_NewInformation = False, trr_ConstraintCode = [], trr_Infrastructure = False, trr_OccurredAt = 0\<rparr>"

datatype BrainPhase =
    BrainPhaseIntake
  | BrainPhasePlanning
  | BrainPhaseInvestigation
  | BrainPhaseReflection
  | BrainPhaseDiagnosis
  | BrainPhaseRecovery
  | BrainPhaseVerification
  | BrainPhaseEscalation
  | BrainPhase_other string

datatype BrainToolCategory =
    BrainToolEvidence
  | BrainToolRetrieval
  | BrainToolReasoning
  | BrainToolRecovery
  | BrainToolControl
  | BrainToolCategory_other string

record SkillRef =
  sref_ID :: "string"
  sref_Version :: "string"
  sref_ContentHash :: "string"

definition zero_SkillRef :: SkillRef where [zero_defs]:
  "zero_SkillRef = \<lparr>sref_ID = [], sref_Version = [], sref_ContentHash = []\<rparr>"

record AgentActionIntent =
  intent_Intent :: "string"
  intent_TargetScope :: "ResourceRef list"
  intent_HypothesisIDs :: "string list"
  intent_EvidenceNeed :: "string list"
  intent_ExpectedObservation :: "string list"

definition zero_AgentActionIntent :: AgentActionIntent where [zero_defs]:
  "zero_AgentActionIntent = \<lparr>intent_Intent = [], intent_TargetScope = [], intent_HypothesisIDs = [], intent_EvidenceNeed = [], intent_ExpectedObservation = []\<rparr>"

record AgentActionEnvelope =
  env_ActionID :: "string"
  env_IncidentID :: "string"
  env_TurnID :: "string"
  env_Phase :: "BrainPhase"
  env_ToolName :: "string"
  env_ToolCategory :: "BrainToolCategory"
  env_RoutedToolCategory :: "BrainToolCategory"
  env_SkillRefs :: "SkillRef list"
  env_EvidenceSnapshotHash :: "string"
  env_IdempotencyKey :: "string"
  env_Intent :: "AgentActionIntent"

definition zero_AgentActionEnvelope :: AgentActionEnvelope where [zero_defs]:
  "zero_AgentActionEnvelope = \<lparr>env_ActionID = [], env_IncidentID = [], env_TurnID = [], env_Phase = BrainPhase_other [], env_ToolName = [], env_ToolCategory = BrainToolCategory_other [], env_RoutedToolCategory = BrainToolCategory_other [], env_SkillRefs = [], env_EvidenceSnapshotHash = [], env_IdempotencyKey = [], env_Intent = zero_AgentActionIntent\<rparr>"

record BrainToolExecution =
  bte_Envelope :: "AgentActionEnvelope"
  bte_Result :: "ToolResultRecord"

definition zero_BrainToolExecution :: BrainToolExecution where [zero_defs]:
  "zero_BrainToolExecution = \<lparr>bte_Envelope = zero_AgentActionEnvelope, bte_Result = zero_ToolResultRecord\<rparr>"

record BrainEvidenceView =
  bev_ID :: "string"
  bev_Source :: "string"
  bev_Kind :: "string"
  bev_Namespace :: "string"
  bev_Service :: "string"
  bev_Resource :: "string"
  bev_WindowStart :: "time"
  bev_WindowEnd :: "time"
  bev_ObservedAt :: "time"
  bev_Summary :: "string"
  bev_Signals :: "EvidenceSignal list"
  bev_CausalNodeIDs :: "string list"
  bev_ContextRelevance :: "rat"
  bev_AnomalyScore :: "rat"
  bev_QualityScore :: "rat"
  bev_HypothesisRevisionIDs :: "string list"
  bev_ToolCallIDs :: "string list"
  bev_RawArtifactHashes :: "string list"

definition zero_BrainEvidenceView :: BrainEvidenceView where [zero_defs]:
  "zero_BrainEvidenceView = \<lparr>bev_ID = [], bev_Source = [], bev_Kind = [], bev_Namespace = [], bev_Service = [], bev_Resource = [], bev_WindowStart = 0, bev_WindowEnd = 0, bev_ObservedAt = 0, bev_Summary = [], bev_Signals = [], bev_CausalNodeIDs = [], bev_ContextRelevance = 0, bev_AnomalyScore = 0, bev_QualityScore = 0, bev_HypothesisRevisionIDs = [], bev_ToolCallIDs = [], bev_RawArtifactHashes = []\<rparr>"

record AssistantTurnRecord =
  atr_TurnID :: "string"
  atr_ContentPresent :: "bool"
  atr_ToolCallPresent :: "bool"
  atr_ReasoningPresent :: "bool"
  atr_Persisted :: "bool"
  atr_ObservedAt :: "time"

definition zero_AssistantTurnRecord :: AssistantTurnRecord where [zero_defs]:
  "zero_AssistantTurnRecord = \<lparr>atr_TurnID = [], atr_ContentPresent = False, atr_ToolCallPresent = False, atr_ReasoningPresent = False, atr_Persisted = False, atr_ObservedAt = 0\<rparr>"

datatype EvidenceAttributionRelation =
    EvidenceSupports
  | EvidenceContradicts
  | EvidenceNeutral
  | EvidenceAttributionRelation_other string

record EvidenceAttributionIntent =
  eai_EvidenceID :: "string"
  eai_Relation :: "EvidenceAttributionRelation"
  eai_Weight :: "rat"
  eai_Reason :: "string"

definition zero_EvidenceAttributionIntent :: EvidenceAttributionIntent where [zero_defs]:
  "zero_EvidenceAttributionIntent = \<lparr>eai_EvidenceID = [], eai_Relation = EvidenceAttributionRelation_other [], eai_Weight = 0, eai_Reason = []\<rparr>"

record HypothesisEvidenceAttribution =
  att_ID :: "string"
  att_HypothesisRevisionID :: "string"
  att_EvidenceID :: "string"
  att_Relation :: "EvidenceAttributionRelation"
  att_Weight :: "rat"
  att_Reason :: "string"
  att_AttributedByTurn :: "string"
  att_EvidenceSnapshotHash :: "string"
  att_ValidatedAt :: "time"

definition zero_HypothesisEvidenceAttribution :: HypothesisEvidenceAttribution where [zero_defs]:
  "zero_HypothesisEvidenceAttribution = \<lparr>att_ID = [], att_HypothesisRevisionID = [], att_EvidenceID = [], att_Relation = EvidenceAttributionRelation_other [], att_Weight = 0, att_Reason = [], att_AttributedByTurn = [], att_EvidenceSnapshotHash = [], att_ValidatedAt = 0\<rparr>"

datatype GroundingLevel =
    GroundingSupported
  | GroundingPartial
  | GroundingRefuted
  | GroundingUnknown
  | GroundingLevel_other string

record GroundingEvidence =
  gre_SupportingEvidenceIDs :: "string list"
  gre_ContradictingEvidenceIDs :: "string list"
  gre_NeutralEvidenceIDs :: "string list"
  gre_AttributionIDs :: "string list"
  gre_IndependentSourceCount :: "int"
  gre_EvidenceSupport :: "rat"
  gre_ContradictionRatio :: "rat"

definition zero_GroundingEvidence :: GroundingEvidence where [zero_defs]:
  "zero_GroundingEvidence = \<lparr>gre_SupportingEvidenceIDs = [], gre_ContradictingEvidenceIDs = [], gre_NeutralEvidenceIDs = [], gre_AttributionIDs = [], gre_IndependentSourceCount = 0, gre_EvidenceSupport = 0, gre_ContradictionRatio = 0\<rparr>"

record GroundingCoverage =
  gcov_EvidenceNeedCoverage :: "rat"
  gcov_CausalPathCoverage :: "rat"
  gcov_TargetScopeCoverage :: "rat"
  gcov_TemporalCoverage :: "rat"

definition zero_GroundingCoverage :: GroundingCoverage where [zero_defs]:
  "zero_GroundingCoverage = \<lparr>gcov_EvidenceNeedCoverage = 0, gcov_CausalPathCoverage = 0, gcov_TargetScopeCoverage = 0, gcov_TemporalCoverage = 0\<rparr>"

record HypothesisGrounding =
  gr_ID :: "string"
  gr_HypothesisRevisionID :: "string"
  gr_Level :: "GroundingLevel"
  gr_Evidence :: "GroundingEvidence"
  gr_Coverage :: "GroundingCoverage"
  gr_MissingObservations :: "string list"
  gr_ValidatedAt :: "time"
  gr_EvidenceSnapshotHash :: "string"
  gr_CausalCoverageApplicable :: "bool"

definition zero_HypothesisGrounding :: HypothesisGrounding where [zero_defs]:
  "zero_HypothesisGrounding = \<lparr>gr_ID = [], gr_HypothesisRevisionID = [], gr_Level = GroundingLevel_other [], gr_Evidence = zero_GroundingEvidence, gr_Coverage = zero_GroundingCoverage, gr_MissingObservations = [], gr_ValidatedAt = 0, gr_EvidenceSnapshotHash = [], gr_CausalCoverageApplicable = False\<rparr>"

record HypothesisComparison =
  hc_HypothesisRevisionID :: "string"
  hc_Level :: "GroundingLevel"
  hc_Evidence :: "GroundingEvidence"
  hc_Coverage :: "GroundingCoverage"
  hc_MissingObservations :: "string list"
  hc_EvidenceSnapshotHash :: "string"

definition zero_HypothesisComparison :: HypothesisComparison where [zero_defs]:
  "zero_HypothesisComparison = \<lparr>hc_HypothesisRevisionID = [], hc_Level = GroundingLevel_other [], hc_Evidence = zero_GroundingEvidence, hc_Coverage = zero_GroundingCoverage, hc_MissingObservations = [], hc_EvidenceSnapshotHash = []\<rparr>"

record GroundingDelta =
  gd_HypothesisRevisionID :: "string"
  gd_EvidenceChange :: "string list"
  gd_PreviousLevel :: "GroundingLevel"
  gd_CurrentLevel :: "GroundingLevel"
  gd_PreviousCoverage :: "GroundingCoverage"
  gd_CurrentCoverage :: "GroundingCoverage"
  gd_NewSupportingEvidenceIDs :: "string list"
  gd_NewContradictingEvidenceIDs :: "string list"
  gd_ConflictDetected :: "bool"
  gd_SuggestedRevisionNeed :: "bool"
  gd_OccurredAt :: "time"

definition zero_GroundingDelta :: GroundingDelta where [zero_defs]:
  "zero_GroundingDelta = \<lparr>gd_HypothesisRevisionID = [], gd_EvidenceChange = [], gd_PreviousLevel = GroundingLevel_other [], gd_CurrentLevel = GroundingLevel_other [], gd_PreviousCoverage = zero_GroundingCoverage, gd_CurrentCoverage = zero_GroundingCoverage, gd_NewSupportingEvidenceIDs = [], gd_NewContradictingEvidenceIDs = [], gd_ConflictDetected = False, gd_SuggestedRevisionNeed = False, gd_OccurredAt = 0\<rparr>"

datatype BeliefDirection =
    BeliefIncrease
  | BeliefDecrease
  | BeliefDirection_other string

record BeliefDelta =
  bd_HypothesisRevisionID :: "string"
  bd_PreviousConfidence :: "rat"
  bd_NewConfidence :: "rat"
  bd_Direction :: "BeliefDirection"
  bd_EvidenceIDs :: "string list"
  bd_ValidationResultIDs :: "string list"
  bd_RevisionRequired :: "bool"
  bd_RevisionReason :: "string"
  bd_Committed :: "bool"
  bd_OccurredAt :: "time"

definition zero_BeliefDelta :: BeliefDelta where [zero_defs]:
  "zero_BeliefDelta = \<lparr>bd_HypothesisRevisionID = [], bd_PreviousConfidence = 0, bd_NewConfidence = 0, bd_Direction = BeliefDirection_other [], bd_EvidenceIDs = [], bd_ValidationResultIDs = [], bd_RevisionRequired = False, bd_RevisionReason = [], bd_Committed = False, bd_OccurredAt = 0\<rparr>"

datatype ReflectionTrigger =
    ReflectionCriticalEvidence
  | ReflectionHypothesisRefuted
  | ReflectionCandidateConflict
  | ReflectionToolFailure
  | ReflectionConstraintFailure
  | ReflectionGroundingFailure
  | ReflectionRecoveryFailure
  | ReflectionVerificationFail
  | ReflectionTrigger_other string

record ReflectionRecord =
  refl_ID :: "string"
  refl_Trigger :: "ReflectionTrigger"
  refl_TriggerToolCallID :: "string"
  refl_HypothesisRevisionIDs :: "string list"
  refl_EvidenceIDs :: "string list"
  refl_BeliefDeltas :: "BeliefDelta list"
  refl_NextGoal :: "string"
  refl_CostUnits :: "int"
  refl_Accepted :: "bool"
  refl_RejectedReason :: "string"
  refl_OccurredAt :: "time"

definition zero_ReflectionRecord :: ReflectionRecord where [zero_defs]:
  "zero_ReflectionRecord = \<lparr>refl_ID = [], refl_Trigger = ReflectionTrigger_other [], refl_TriggerToolCallID = [], refl_HypothesisRevisionIDs = [], refl_EvidenceIDs = [], refl_BeliefDeltas = [], refl_NextGoal = [], refl_CostUnits = 0, refl_Accepted = False, refl_RejectedReason = [], refl_OccurredAt = 0\<rparr>"

datatype WorkflowAttemptStatus =
    WorkflowAttemptActive
  | WorkflowAttemptInterrupted
  | WorkflowAttemptCompleted
  | WorkflowAttemptInvalidated
  | WorkflowAttemptStatus_other string

record WorkflowAttempt =
  wa_ID :: "string"
  wa_IncidentID :: "string"
  wa_Sequence :: "int"
  wa_CheckpointID :: "string"
  wa_Status :: "WorkflowAttemptStatus"
  wa_ExecutionSnapshot :: "ExecutionSnapshot"
  wa_EvidenceSnapshotHash :: "string"
  wa_MigratedFromAttemptID :: "string"
  wa_InvalidatedArtifactIDs :: "string list"
  wa_StartedAt :: "time"
  wa_InterruptedAt :: "time"
  wa_CompletedAt :: "time"

definition zero_WorkflowAttempt :: WorkflowAttempt where [zero_defs]:
  "zero_WorkflowAttempt = \<lparr>wa_ID = [], wa_IncidentID = [], wa_Sequence = 0, wa_CheckpointID = [], wa_Status = WorkflowAttemptStatus_other [], wa_ExecutionSnapshot = zero_ExecutionSnapshot, wa_EvidenceSnapshotHash = [], wa_MigratedFromAttemptID = [], wa_InvalidatedArtifactIDs = [], wa_StartedAt = 0, wa_InterruptedAt = 0, wa_CompletedAt = 0\<rparr>"

record SkillActivation =
  sact_SkillID :: "string"
  sact_Version :: "string"
  sact_ContentHash :: "string"
  sact_Phase :: "BrainPhase"
  sact_Reason :: "string"
  sact_Trigger :: "string"
  sact_RequestedBy :: "string"
  sact_RequestedTurn :: "string"
  sact_Status :: "string"
  sact_RejectedReason :: "string"
  sact_ActivatedAt :: "time"

definition zero_SkillActivation :: SkillActivation where [zero_defs]:
  "zero_SkillActivation = \<lparr>sact_SkillID = [], sact_Version = [], sact_ContentHash = [], sact_Phase = BrainPhase_other [], sact_Reason = [], sact_Trigger = [], sact_RequestedBy = [], sact_RequestedTurn = [], sact_Status = [], sact_RejectedReason = [], sact_ActivatedAt = 0\<rparr>"

datatype AdmissionGroundingLevel =
    AdmissionDirect
  | AdmissionIndirect
  | AdmissionUnresolved
  | AdmissionRejected
  | AdmissionGroundingLevel_other string

record ResourceScopeDecision =
  rsd_Requested :: "ResourceRef"
  rsd_Resolved :: "ResourceRef"
  rsd_Allowed :: "bool"
  rsd_Reason :: "string"

definition zero_ResourceScopeDecision :: ResourceScopeDecision where [zero_defs]:
  "zero_ResourceScopeDecision = \<lparr>rsd_Requested = zero_ResourceRef, rsd_Resolved = zero_ResourceRef, rsd_Allowed = False, rsd_Reason = []\<rparr>"

record HypothesisAdmission =
  adm_HypothesisRevisionID :: "string"
  adm_Decision :: "string"
  adm_GroundingLevel :: "AdmissionGroundingLevel"
  adm_ReasonCodes :: "string list"
  adm_AllowedToolCategories :: "BrainToolCategory list"
  adm_ResourceScope :: "ResourceScopeDecision list"
  adm_OccurredAt :: "time"

definition zero_HypothesisAdmission :: HypothesisAdmission where [zero_defs]:
  "zero_HypothesisAdmission = \<lparr>adm_HypothesisRevisionID = [], adm_Decision = [], adm_GroundingLevel = AdmissionGroundingLevel_other [], adm_ReasonCodes = [], adm_AllowedToolCategories = [], adm_ResourceScope = [], adm_OccurredAt = 0\<rparr>"

datatype HypothesisRelation =
    HypothesisRoot
  | HypothesisRefine
  | HypothesisReplace
  | HypothesisSplit
  | HypothesisMerge
  | HypothesisRelation_other string

record AgentHypothesis =
  hyp_ID :: "string"
  hyp_LineageID :: "string"
  hyp_Version :: "int"
  hyp_ParentIDs :: "string list"
  hyp_Relation :: "HypothesisRelation"
  hyp_RevisionReason :: "string"
  hyp_Statement :: "string"
  hyp_Category :: "string"
  hyp_Mechanism :: "string"
  hyp_TargetRefs :: "ResourceRef list"
  hyp_EvidenceNeeds :: "string list"
  hyp_FalsificationConditions :: "string list"
  hyp_ModelConfidence :: "rat"
  hyp_Status :: "HypothesisStatus"
  hyp_LastValidatedAt :: "time"
  hyp_LastValidatedSnapshotHash :: "string"
  hyp_CreatedByTurn :: "string"
  hyp_CreatedAt :: "time"

definition zero_AgentHypothesis :: AgentHypothesis where [zero_defs]:
  "zero_AgentHypothesis = \<lparr>hyp_ID = [], hyp_LineageID = [], hyp_Version = 0, hyp_ParentIDs = [], hyp_Relation = HypothesisRelation_other [], hyp_RevisionReason = [], hyp_Statement = [], hyp_Category = [], hyp_Mechanism = [], hyp_TargetRefs = [], hyp_EvidenceNeeds = [], hyp_FalsificationConditions = [], hyp_ModelConfidence = 0, hyp_Status = HypothesisStatus_other [], hyp_LastValidatedAt = 0, hyp_LastValidatedSnapshotHash = [], hyp_CreatedByTurn = [], hyp_CreatedAt = 0\<rparr>"

record ToolPolicyDecision =
  tpd_Allowed :: "bool"
  tpd_ReasonCodes :: "string list"
  tpd_Fingerprint :: "string"

definition zero_ToolPolicyDecision :: ToolPolicyDecision where [zero_defs]:
  "zero_ToolPolicyDecision = \<lparr>tpd_Allowed = False, tpd_ReasonCodes = [], tpd_Fingerprint = []\<rparr>"

record BrainTurn =
  turn_ID :: "string"
  turn_Sequence :: "int"
  turn_Phase :: "BrainPhase"
  turn_SkillRefs :: "SkillRef list"
  turn_ToolCategory :: "BrainToolCategory"
  turn_ModelUsage :: "ModelUsageEvent option"
  turn_StartedAt :: "time"
  turn_CompletedAt :: "time"

definition zero_BrainTurn :: BrainTurn where [zero_defs]:
  "zero_BrainTurn = \<lparr>turn_ID = [], turn_Sequence = 0, turn_Phase = BrainPhase_other [], turn_SkillRefs = [], turn_ToolCategory = BrainToolCategory_other [], turn_ModelUsage = None, turn_StartedAt = 0, turn_CompletedAt = 0\<rparr>"

record IncidentUnderstanding =
  iu_Summary :: "string"
  iu_AffectedTargets :: "ResourceRef list"
  iu_PossibleDomains :: "string list"
  iu_Unknowns :: "string list"
  iu_SubmittedAt :: "time"

definition zero_IncidentUnderstanding :: IncidentUnderstanding where [zero_defs]:
  "zero_IncidentUnderstanding = \<lparr>iu_Summary = [], iu_AffectedTargets = [], iu_PossibleDomains = [], iu_Unknowns = [], iu_SubmittedAt = 0\<rparr>"

record BrainBudget =
  bb_MaxTurns :: "int"
  bb_MaxActiveHypotheses :: "int"
  bb_MaxHypothesisBranches :: "int"
  bb_MaxRevisionsPerLineage :: "int"
  bb_MaxToolCalls :: "int"
  bb_MaxParallelReadTools :: "int"
  bb_MaxOptionalSkillsPerTurn :: "int"
  bb_MaxStructuredCorrections :: "int"
  bb_MaxReflectionCostUnits :: "int"

definition zero_BrainBudget :: BrainBudget where [zero_defs]:
  "zero_BrainBudget = \<lparr>bb_MaxTurns = 0, bb_MaxActiveHypotheses = 0, bb_MaxHypothesisBranches = 0, bb_MaxRevisionsPerLineage = 0, bb_MaxToolCalls = 0, bb_MaxParallelReadTools = 0, bb_MaxOptionalSkillsPerTurn = 0, bb_MaxStructuredCorrections = 0, bb_MaxReflectionCostUnits = 0\<rparr>"

record BrainBudgetUsage =
  bu_Turns :: "int"
  bu_ActiveHypotheses :: "int"
  bu_HypothesisBranches :: "int"
  bu_ToolCalls :: "int"
  bu_StructuredCorrections :: "int"
  bu_ReflectionCostUnits :: "int"

definition zero_BrainBudgetUsage :: BrainBudgetUsage where [zero_defs]:
  "zero_BrainBudgetUsage = \<lparr>bu_Turns = 0, bu_ActiveHypotheses = 0, bu_HypothesisBranches = 0, bu_ToolCalls = 0, bu_StructuredCorrections = 0, bu_ReflectionCostUnits = 0\<rparr>"

record BrainBudgetState =
  bbs_Limits :: "BrainBudget"
  bbs_Usage :: "BrainBudgetUsage"
  bbs_ToolCallsExhausted :: "bool"

definition zero_BrainBudgetState :: BrainBudgetState where [zero_defs]:
  "zero_BrainBudgetState = \<lparr>bbs_Limits = zero_BrainBudget, bbs_Usage = zero_BrainBudgetUsage, bbs_ToolCallsExhausted = False\<rparr>"

record ToolCallingPolicy =
  tcp_MaxSameToolRepeat :: "int"
  tcp_MaxNoInformationStreak :: "int"
  tcp_RequireReason :: "bool"
  tcp_RequireExpectedObservation :: "bool"
  tcp_RequireHypothesisBindingAfterAdmission :: "bool"
  tcp_RejectExactRequestRepeat :: "bool"
  tcp_RejectUnchangedConstraintRetry :: "bool"

definition zero_ToolCallingPolicy :: ToolCallingPolicy where [zero_defs]:
  "zero_ToolCallingPolicy = \<lparr>tcp_MaxSameToolRepeat = 0, tcp_MaxNoInformationStreak = 0, tcp_RequireReason = False, tcp_RequireExpectedObservation = False, tcp_RequireHypothesisBindingAfterAdmission = False, tcp_RejectExactRequestRepeat = False, tcp_RejectUnchangedConstraintRetry = False\<rparr>"

record RecoveryOption =
  ro_Action :: "RecoveryAction"
  ro_Target :: "string"
  ro_Parameters :: "(string \<rightharpoonup> any_value)"
  ro_Reason :: "string"

definition zero_RecoveryOption :: RecoveryOption where [zero_defs]:
  "zero_RecoveryOption = \<lparr>ro_Action = RecoveryAction_other [], ro_Target = [], ro_Parameters = Map.empty, ro_Reason = []\<rparr>"

record AgentRecoveryPlan =
  plan_ID :: "string"
  plan_Goal :: "string"
  plan_PrimaryAction :: "RecoveryOption"
  plan_Alternatives :: "RecoveryOption list"
  plan_ExpectedOutcome :: "string"
  plan_RollbackPlan :: "string"
  plan_VerificationPlan :: "string"
  plan_RiskReason :: "string"
  plan_DiagnosisVersion :: "string"
  plan_EvidenceSnapshotHash :: "string"
  plan_ExecutionSnapshot :: "ExecutionSnapshot"

definition zero_AgentRecoveryPlan :: AgentRecoveryPlan where [zero_defs]:
  "zero_AgentRecoveryPlan = \<lparr>plan_ID = [], plan_Goal = [], plan_PrimaryAction = zero_RecoveryOption, plan_Alternatives = [], plan_ExpectedOutcome = [], plan_RollbackPlan = [], plan_VerificationPlan = [], plan_RiskReason = [], plan_DiagnosisVersion = [], plan_EvidenceSnapshotHash = [], plan_ExecutionSnapshot = zero_ExecutionSnapshot\<rparr>"

record AgentDiagnosis =
  diag_ID :: "string"
  diag_HypothesisRevisionID :: "string"
  diag_Statement :: "string"
  diag_Category :: "string"
  diag_Mechanism :: "string"
  diag_TargetRefs :: "ResourceRef list"
  diag_ModelConfidence :: "rat"
  diag_EvidenceIDs :: "string list"
  diag_ValidationResultIDs :: "string list"
  diag_EvidenceSnapshotHash :: "string"
  diag_ExecutionSnapshot :: "ExecutionSnapshot"
  diag_GroundingLevel :: "GroundingLevel"
  diag_Provisional :: "bool"
  diag_SubmittedAt :: "time"

definition zero_AgentDiagnosis :: AgentDiagnosis where [zero_defs]:
  "zero_AgentDiagnosis = \<lparr>diag_ID = [], diag_HypothesisRevisionID = [], diag_Statement = [], diag_Category = [], diag_Mechanism = [], diag_TargetRefs = [], diag_ModelConfidence = 0, diag_EvidenceIDs = [], diag_ValidationResultIDs = [], diag_EvidenceSnapshotHash = [], diag_ExecutionSnapshot = zero_ExecutionSnapshot, diag_GroundingLevel = GroundingLevel_other [], diag_Provisional = False, diag_SubmittedAt = 0\<rparr>"

record DiagnosisValidation =
  dv_ID :: "string"
  dv_DiagnosisID :: "string"
  dv_HypothesisRevisionID :: "string"
  dv_Valid :: "bool"
  dv_Provisional :: "bool"
  dv_GroundingLevel :: "GroundingLevel"
  dv_ReasonCodes :: "string list"
  dv_EvidenceSnapshotHash :: "string"
  dv_ExecutionSnapshot :: "ExecutionSnapshot"
  dv_ValidatedAt :: "time"

definition zero_DiagnosisValidation :: DiagnosisValidation where [zero_defs]:
  "zero_DiagnosisValidation = \<lparr>dv_ID = [], dv_DiagnosisID = [], dv_HypothesisRevisionID = [], dv_Valid = False, dv_Provisional = False, dv_GroundingLevel = GroundingLevel_other [], dv_ReasonCodes = [], dv_EvidenceSnapshotHash = [], dv_ExecutionSnapshot = zero_ExecutionSnapshot, dv_ValidatedAt = 0\<rparr>"

datatype TerminationReason =
    TerminationDiagnosisConfident
  | TerminationDiagnosisProvisional
  | TerminationEvidenceSaturated
  | TerminationBudgetExhausted
  | TerminationHumanEscalation
  | TerminationSafetyBlocked
  | TerminationApprovalRejected
  | TerminationRecoverySucceeded
  | TerminationRecoveryFailed
  | TerminationExecutionOutcomeUnknown
  | TerminationFatalInfrastructure
  | TerminationReason_other string

record TerminationEvent =
  term_Reason :: "TerminationReason"
  term_TriggerTurnID :: "string"
  term_FinalHypothesisRevisionID :: "string"
  term_EvidenceSnapshotHash :: "string"
  term_ExecutionSnapshot :: "ExecutionSnapshot option"
  term_UnresolvedGaps :: "string list"
  term_RemainingBudget :: "BrainBudgetUsage"
  term_OccurredAt :: "time"

definition zero_TerminationEvent :: TerminationEvent where [zero_defs]:
  "zero_TerminationEvent = \<lparr>term_Reason = TerminationReason_other [], term_TriggerTurnID = [], term_FinalHypothesisRevisionID = [], term_EvidenceSnapshotHash = [], term_ExecutionSnapshot = None, term_UnresolvedGaps = [], term_RemainingBudget = zero_BrainBudgetUsage, term_OccurredAt = 0\<rparr>"

record RecoveryEligibility =
  re_Allowed :: "bool"
  re_ReasonCodes :: "string list"

definition zero_RecoveryEligibility :: RecoveryEligibility where [zero_defs]:
  "zero_RecoveryEligibility = \<lparr>re_Allowed = False, re_ReasonCodes = []\<rparr>"

record OperationalEntity =
  oe_ID :: "string"
  oe_Kind :: "string"
  oe_Namespace :: "string"
  oe_Service :: "string"
  oe_Resource :: "string"
  oe_State :: "string"
  oe_ObservedAt :: "time"
  oe_EvidenceIDs :: "string list"
  oe_Attributes :: "(string \<rightharpoonup> string)"

definition zero_OperationalEntity :: OperationalEntity where [zero_defs]:
  "zero_OperationalEntity = \<lparr>oe_ID = [], oe_Kind = [], oe_Namespace = [], oe_Service = [], oe_Resource = [], oe_State = [], oe_ObservedAt = 0, oe_EvidenceIDs = [], oe_Attributes = Map.empty\<rparr>"

record OperationalRelation =
  or_From :: "string"
  or_To :: "string"
  or_Kind :: "string"
  or_EvidenceIDs :: "string list"

definition zero_OperationalRelation :: OperationalRelation where [zero_defs]:
  "zero_OperationalRelation = \<lparr>or_From = [], or_To = [], or_Kind = [], or_EvidenceIDs = []\<rparr>"

record OperationalSignal =
  os_ID :: "string"
  os_EntityID :: "string"
  os_Category :: "string"
  os_Signal :: "string"
  os_Direction :: "string"
  os_Value :: "rat"
  os_Strength :: "rat"
  os_Reliability :: "rat"
  os_TemporalAlignment :: "rat"
  os_EvidenceID :: "string"
  os_ObservedAt :: "time"

definition zero_OperationalSignal :: OperationalSignal where [zero_defs]:
  "zero_OperationalSignal = \<lparr>os_ID = [], os_EntityID = [], os_Category = [], os_Signal = [], os_Direction = [], os_Value = 0, os_Strength = 0, os_Reliability = 0, os_TemporalAlignment = 0, os_EvidenceID = [], os_ObservedAt = 0\<rparr>"

record OperationalEvent =
  oe2_ID :: "string"
  oe2_EntityID :: "string"
  oe2_Kind :: "string"
  oe2_Summary :: "string"
  oe2_EvidenceID :: "string"
  oe2_OccurredAt :: "time"

definition zero_OperationalEvent :: OperationalEvent where [zero_defs]:
  "zero_OperationalEvent = \<lparr>oe2_ID = [], oe2_EntityID = [], oe2_Kind = [], oe2_Summary = [], oe2_EvidenceID = [], oe2_OccurredAt = 0\<rparr>"

record MetricSignature =
  ms2_Name :: "string"
  ms2_EntityID :: "string"
  ms2_Direction :: "string"
  ms2_Value :: "rat"
  ms2_Strength :: "rat"
  ms2_EvidenceID :: "string"
  ms2_ObservedAt :: "time"

definition zero_MetricSignature :: MetricSignature where [zero_defs]:
  "zero_MetricSignature = \<lparr>ms2_Name = [], ms2_EntityID = [], ms2_Direction = [], ms2_Value = 0, ms2_Strength = 0, ms2_EvidenceID = [], ms2_ObservedAt = 0\<rparr>"

record OperationalWorldModel =
  owm_IncidentID :: "string"
  owm_Cluster :: "string"
  owm_Namespace :: "string"
  owm_RootEntityID :: "string"
  owm_Entities :: "OperationalEntity list"
  owm_Relations :: "OperationalRelation list"
  owm_AbnormalSignals :: "OperationalSignal list"
  owm_Timeline :: "OperationalEvent list"
  owm_MetricSignatures :: "MetricSignature list"
  owm_EvidenceSnapshotHash :: "string"
  owm_BuiltAt :: "time"

definition zero_OperationalWorldModel :: OperationalWorldModel where [zero_defs]:
  "zero_OperationalWorldModel = \<lparr>owm_IncidentID = [], owm_Cluster = [], owm_Namespace = [], owm_RootEntityID = [], owm_Entities = [], owm_Relations = [], owm_AbnormalSignals = [], owm_Timeline = [], owm_MetricSignatures = [], owm_EvidenceSnapshotHash = [], owm_BuiltAt = 0\<rparr>"

record RetrievalTimeRange =
  rtr_Start :: "time"
  rtr_End :: "time"

definition zero_RetrievalTimeRange :: RetrievalTimeRange where [zero_defs]:
  "zero_RetrievalTimeRange = \<lparr>rtr_Start = 0, rtr_End = 0\<rparr>"

record HybridQueryUnderstanding =
  hqu_Entities :: "string list"
  hqu_Intent :: "string"
  hqu_Time :: "RetrievalTimeRange"
  hqu_Signals :: "string list"

definition zero_HybridQueryUnderstanding :: HybridQueryUnderstanding where [zero_defs]:
  "zero_HybridQueryUnderstanding = \<lparr>hqu_Entities = [], hqu_Intent = [], hqu_Time = zero_RetrievalTimeRange, hqu_Signals = []\<rparr>"

datatype RetrievalChannel =
    RetrievalBM25
  | RetrievalVector
  | RetrievalGraph
  | RetrievalTemporal
  | RetrievalMetric
  | RetrievalChannel_other string

record RetrievalFusionProfile =
  rfp_ChannelWeights :: "(RetrievalChannel \<rightharpoonup> rat)"
  rfp_Reasons :: "string list"

definition zero_RetrievalFusionProfile :: RetrievalFusionProfile where [zero_defs]:
  "zero_RetrievalFusionProfile = \<lparr>rfp_ChannelWeights = Map.empty, rfp_Reasons = []\<rparr>"

record HybridRetrievalChannelResult =
  hrcr_Channel :: "RetrievalChannel"
  hrcr_Candidates :: "RetrievalCandidate list"
  hrcr_Available :: "bool"
  hrcr_Error :: "string"

definition zero_HybridRetrievalChannelResult :: HybridRetrievalChannelResult where [zero_defs]:
  "zero_HybridRetrievalChannelResult = \<lparr>hrcr_Channel = RetrievalChannel_other [], hrcr_Candidates = [], hrcr_Available = False, hrcr_Error = []\<rparr>"

record HybridRetrievalResult =
  hrr_Query :: "HybridQueryUnderstanding"
  hrr_FusionProfile :: "RetrievalFusionProfile"
  hrr_Channels :: "HybridRetrievalChannelResult list"
  hrr_Fused :: "RetrievalCandidate list"
  hrr_Final :: "RetrievalCandidate list"
  hrr_RerankerUsed :: "bool"
  hrr_SnapshotHash :: "string"
  hrr_RetrievedAt :: "time"

definition zero_HybridRetrievalResult :: HybridRetrievalResult where [zero_defs]:
  "zero_HybridRetrievalResult = \<lparr>hrr_Query = zero_HybridQueryUnderstanding, hrr_FusionProfile = zero_RetrievalFusionProfile, hrr_Channels = [], hrr_Fused = [], hrr_Final = [], hrr_RerankerUsed = False, hrr_SnapshotHash = [], hrr_RetrievedAt = 0\<rparr>"

record SkillSearchResult =
  ssr_ID :: "string"
  ssr_Version :: "string"
  ssr_ContentHash :: "string"
  ssr_Description :: "string"
  ssr_BM25Score :: "rat"
  ssr_VectorScore :: "rat"
  ssr_PhaseScore :: "rat"
  ssr_NeuralScore :: "rat"
  ssr_FinalScore :: "rat"

definition zero_SkillSearchResult :: SkillSearchResult where [zero_defs]:
  "zero_SkillSearchResult = \<lparr>ssr_ID = [], ssr_Version = [], ssr_ContentHash = [], ssr_Description = [], ssr_BM25Score = 0, ssr_VectorScore = 0, ssr_PhaseScore = 0, ssr_NeuralScore = 0, ssr_FinalScore = 0\<rparr>"

record SkillRetrievalResult =
  srr_QueryHash :: "string"
  srr_Results :: "SkillSearchResult list"
  srr_VectorUsed :: "bool"
  srr_RerankerUsed :: "bool"
  srr_SnapshotHash :: "string"
  srr_RetrievedAt :: "time"

definition zero_SkillRetrievalResult :: SkillRetrievalResult where [zero_defs]:
  "zero_SkillRetrievalResult = \<lparr>srr_QueryHash = [], srr_Results = [], srr_VectorUsed = False, srr_RerankerUsed = False, srr_SnapshotHash = [], srr_RetrievedAt = 0\<rparr>"

record SkillRequest =
  sreq_SkillID :: "string"
  sreq_Reason :: "string"
  sreq_Trigger :: "string"
  sreq_RequestedBy :: "string"
  sreq_RequestedTurn :: "string"

definition zero_SkillRequest :: SkillRequest where [zero_defs]:
  "zero_SkillRequest = \<lparr>sreq_SkillID = [], sreq_Reason = [], sreq_Trigger = [], sreq_RequestedBy = [], sreq_RequestedTurn = []\<rparr>"

end
