(* ===== verification/Domain_Incident.thy ===== *)
theory Domain_Incident
  imports Domain_Diagnosis Domain_Brain
begin

text \<open>The incident aggregate, its investigation report, and the checkpointed state of the
  workflow: \<^verbatim>\<open>BrainState\<close> is embedded in \<^verbatim>\<open>WorkflowState\<close>, so the latter is a record extension.
  Pointers are options and hold values: \<^verbatim>\<open>WorkflowState.WorkflowAttempt\<close> and
  \<^verbatim>\<open>Incident.WorkflowAttempt\<close>, which the code sometimes makes the same object, are two fields that
  the handlers assign where the code assigns them.  The fields of \<^verbatim>\<open>WorkflowState\<close> that belong to the
  deterministic baselines are left out: no Brain or recovery handler reads them.\<close>

text \<open>The fields the code reads of the messages and tool calls of the model provider's package
  (\<^verbatim>\<open>schema.Message\<close>, \<^verbatim>\<open>schema.ToolCall\<close>).\<close>

datatype Role = RoleSystem | RoleUser | RoleAssistant | RoleTool | Role_other string

record ToolCall =
  call_ID :: string
  call_Name :: string
  call_Arguments :: string

record Message =
  msg_Role :: Role
  msg_Content :: string
  msg_ToolCalls :: "ToolCall list"
  msg_ToolCallID :: string
  msg_ToolName :: string
  msg_ReasoningContent :: string

definition zero_Message :: Message where [zero_defs]:
  "zero_Message = \<lparr>msg_Role = Role_other [], msg_Content = [], msg_ToolCalls = [], msg_ToolCallID = [],
     msg_ToolName = [], msg_ReasoningContent = []\<rparr>"

record Investigation =
  inv_Architecture :: "string"
  inv_Plan :: "InvestigationPlan"
  inv_PlanHistory :: "InvestigationPlan list"
  inv_Findings :: "WorkerFinding list"
  inv_Debate :: "DebateRound list"
  inv_Candidates :: "HypothesisDraft list"
  inv_Verified :: "VerifiedHypothesis list"
  inv_Signals :: "EvidenceSignal list"
  inv_Assertions :: "StateAssertion list"
  inv_CognitiveReasoning :: "CognitiveReasoning list"
  inv_Falsification :: "FalsificationResult list"
  inv_Pairwise :: "PairwiseFalsification list"
  inv_ExpansionRequests :: "CandidateExpansionRequest list"
  inv_Arbitration :: "ArbitrationResult option"
  inv_RecoveryPermission :: "RecoveryPermission option"
  inv_MemoryReads :: "MemoryAccessEvent list"
  inv_ModelUsage :: "ModelUsageEvent list"
  inv_BrainTurns :: "BrainTurn list"
  inv_AssistantTurns :: "AssistantTurnRecord list"
  inv_IncidentUnderstanding :: "IncidentUnderstanding option"
  inv_WorldModel :: "OperationalWorldModel option"
  inv_HybridRetrievals :: "HybridRetrievalResult list"
  inv_SkillRetrievals :: "SkillRetrievalResult list"
  inv_SkillActivations :: "SkillActivation list"
  inv_ToolExecutions :: "BrainToolExecution list"
  inv_EvidenceAttributions :: "HypothesisEvidenceAttribution list"
  inv_AgentHypotheses :: "AgentHypothesis list"
  inv_HypothesisAdmissions :: "HypothesisAdmission list"
  inv_HypothesisGroundings :: "HypothesisGrounding list"
  inv_HypothesisComparisons :: "HypothesisComparison list"
  inv_GroundingDeltas :: "GroundingDelta list"
  inv_BeliefDeltas :: "BeliefDelta list"
  inv_Reflections :: "ReflectionRecord list"
  inv_AgentDiagnosis :: "AgentDiagnosis option"
  inv_DiagnosisValidations :: "DiagnosisValidation list"
  inv_AgentRecoveryPlan :: "AgentRecoveryPlan option"
  inv_Termination :: "TerminationEvent option"
  inv_BrainBudget :: "BrainBudgetState option"
  inv_ExecutionSnapshot :: "ExecutionSnapshot option"
  inv_WorkflowAttempt :: "WorkflowAttempt option"
  inv_DiagnosisRounds :: "int"
  inv_StartedAt :: "time"
  inv_CompletedAt :: "time"

definition zero_Investigation :: Investigation where [zero_defs]:
  "zero_Investigation = \<lparr>inv_Architecture = [], inv_Plan = zero_InvestigationPlan, inv_PlanHistory = [], inv_Findings = [], inv_Debate = [], inv_Candidates = [], inv_Verified = [], inv_Signals = [], inv_Assertions = [], inv_CognitiveReasoning = [], inv_Falsification = [], inv_Pairwise = [], inv_ExpansionRequests = [], inv_Arbitration = None, inv_RecoveryPermission = None, inv_MemoryReads = [], inv_ModelUsage = [], inv_BrainTurns = [], inv_AssistantTurns = [], inv_IncidentUnderstanding = None, inv_WorldModel = None, inv_HybridRetrievals = [], inv_SkillRetrievals = [], inv_SkillActivations = [], inv_ToolExecutions = [], inv_EvidenceAttributions = [], inv_AgentHypotheses = [], inv_HypothesisAdmissions = [], inv_HypothesisGroundings = [], inv_HypothesisComparisons = [], inv_GroundingDeltas = [], inv_BeliefDeltas = [], inv_Reflections = [], inv_AgentDiagnosis = None, inv_DiagnosisValidations = [], inv_AgentRecoveryPlan = None, inv_Termination = None, inv_BrainBudget = None, inv_ExecutionSnapshot = None, inv_WorkflowAttempt = None, inv_DiagnosisRounds = 0, inv_StartedAt = 0, inv_CompletedAt = 0\<rparr>"

datatype IncidentStatus =
    StatusReceived
  | StatusCorrelating
  | StatusCollecting
  | StatusDiagnosing
  | StatusProposing
  | StatusAwaitingApproval
  | StatusRecovering
  | StatusVerifying
  | StatusResolved
  | StatusNeedsAttention
  | StatusRejected
  | StatusRecoveryFailed
  | StatusCancelled
  | IncidentStatus_other string

record Incident =
  inc_ID :: "string"
  inc_Status :: "IncidentStatus"
  inc_Severity :: "string"
  inc_Service :: "string"
  inc_Cluster :: "string"
  inc_Namespace :: "string"
  inc_Resource :: "string"
  inc_Summary :: "string"
  inc_DiagnosisMethod :: "string"
  inc_CausalMode :: "string"
  inc_DiagnosisError :: "string"
  inc_EvidenceStartAt :: "time"
  inc_RootCause :: "string"
  inc_RootCauseCategory :: "string"
  inc_RootCauseVariant :: "string"
  inc_RootCauseService :: "string"
  inc_RootCauseResource :: "string"
  inc_RootCauseEvidenceIDs :: "string list"
  inc_Confidence :: "rat"
  inc_ReasoningType :: "string"
  inc_ModelProtocol :: "string"
  inc_ModelName :: "string"
  inc_ModelConfigHash :: "string"
  inc_SkillSnapshotHash :: "string"
  inc_ExecutionSnapshot :: "ExecutionSnapshot option"
  inc_WorkflowAttempt :: "WorkflowAttempt option"
  inc_RankingPolicyHash :: "string"
  inc_RerankerConfigHash :: "string"
  inc_TraceID :: "string"
  inc_CreatedAt :: "time"
  inc_UpdatedAt :: "time"
  inc_Alerts :: "Alert list"
  inc_Evidence :: "Evidence list"
  inc_Hypotheses :: "Hypothesis list"
  inc_Proposal :: "RecoveryProposal option"
  inc_DryRun :: "DryRunResult option"
  inc_ExecutionContext :: "ExecutionContext option"
  inc_RecoveryExecution :: "RecoveryExecution option"
  inc_WorkflowInterruptID :: "string"
  inc_Verification :: "Verification option"
  inc_DiagnosisLedger :: "DiagnosisLedger option"
  inc_AgentBudget :: "AgentBudgetState option"
  inc_Investigation :: "Investigation option"

definition zero_Incident :: Incident where [zero_defs]:
  "zero_Incident = \<lparr>inc_ID = [], inc_Status = IncidentStatus_other [], inc_Severity = [], inc_Service = [], inc_Cluster = [], inc_Namespace = [], inc_Resource = [], inc_Summary = [], inc_DiagnosisMethod = [], inc_CausalMode = [], inc_DiagnosisError = [], inc_EvidenceStartAt = 0, inc_RootCause = [], inc_RootCauseCategory = [], inc_RootCauseVariant = [], inc_RootCauseService = [], inc_RootCauseResource = [], inc_RootCauseEvidenceIDs = [], inc_Confidence = 0, inc_ReasoningType = [], inc_ModelProtocol = [], inc_ModelName = [], inc_ModelConfigHash = [], inc_SkillSnapshotHash = [], inc_ExecutionSnapshot = None, inc_WorkflowAttempt = None, inc_RankingPolicyHash = [], inc_RerankerConfigHash = [], inc_TraceID = [], inc_CreatedAt = 0, inc_UpdatedAt = 0, inc_Alerts = [], inc_Evidence = [], inc_Hypotheses = [], inc_Proposal = None, inc_DryRun = None, inc_ExecutionContext = None, inc_RecoveryExecution = None, inc_WorkflowInterruptID = [], inc_Verification = None, inc_DiagnosisLedger = None, inc_AgentBudget = None, inc_Investigation = None\<rparr>"

record BrainState =
  bs_BrainMessages :: "Message option list"
  bs_BrainPhase :: "BrainPhase"
  bs_ResumeBrainPhase :: "BrainPhase"
  bs_BrainTurns :: "BrainTurn list"
  bs_AssistantTurns :: "AssistantTurnRecord list"
  bs_IncidentUnderstanding :: "IncidentUnderstanding option"
  bs_InvestigationPlan :: "InvestigationPlan option"
  bs_InvestigationPlanHistory :: "InvestigationPlan list"
  bs_SkillActivations :: "SkillActivation list"
  bs_ActiveSkillRefs :: "SkillRef list"
  bs_ActiveSkillPrompt :: "string"
  bs_ActiveSkillCategories :: "BrainToolCategory list"
  bs_LoadedSkillReferences :: "(string \<rightharpoonup> string)"
  bs_RequestedSkills :: "SkillRequest list"
  bs_ActiveToolCategory :: "BrainToolCategory"
  bs_ToolExecutions :: "BrainToolExecution list"
  bs_Observations :: "ToolResultRecord list"
  bs_EvidenceAttributions :: "HypothesisEvidenceAttribution list"
  bs_AgentHypotheses :: "AgentHypothesis list"
  bs_HypothesisAdmissions :: "HypothesisAdmission list"
  bs_HypothesisGroundings :: "HypothesisGrounding list"
  bs_HypothesisComparisons :: "HypothesisComparison list"
  bs_GroundingDeltas :: "GroundingDelta list"
  bs_GroundingDeltaCursor :: "int"
  bs_BeliefDeltas :: "BeliefDelta list"
  bs_BeliefDeltaCursor :: "int"
  bs_Reflections :: "ReflectionRecord list"
  bs_AgentDiagnosis :: "AgentDiagnosis option"
  bs_DiagnosisValidations :: "DiagnosisValidation list"
  bs_AgentRecoveryPlan :: "AgentRecoveryPlan option"
  bs_RecoveryPermission :: "RecoveryPermission option"
  bs_Termination :: "TerminationEvent option"
  bs_BrainBudget :: "BrainBudgetState"
  bs_ExecutionSnapshot :: "ExecutionSnapshot"
  bs_WorkflowAttempt :: "WorkflowAttempt option"
  bs_EvidenceSnapshotHash :: "string"
  bs_WorldModel :: "OperationalWorldModel option"
  bs_HybridRetrievals :: "HybridRetrievalResult list"
  bs_SkillRetrievals :: "SkillRetrievalResult list"
  bs_BrainCausalPatterns :: "CausalPattern list"
  bs_RuntimeEvidence :: "Evidence list"
  bs_RuntimeAssertions :: "StateAssertion list"
  bs_RuntimeFeatures :: "IncidentFeatures"
  bs_RuntimeTopology :: "IncidentGraph option"
  bs_PendingToolMessages :: "Message option list"
  bs_PendingReflection :: "ReflectionTrigger option"
  bs_PendingTermination :: "TerminationReason"
  bs_BrainToolPolicy :: "ToolCallingPolicy"

definition zero_BrainState :: BrainState where [zero_defs]:
  "zero_BrainState = \<lparr>bs_BrainMessages = [], bs_BrainPhase = BrainPhase_other [], bs_ResumeBrainPhase = BrainPhase_other [], bs_BrainTurns = [], bs_AssistantTurns = [], bs_IncidentUnderstanding = None, bs_InvestigationPlan = None, bs_InvestigationPlanHistory = [], bs_SkillActivations = [], bs_ActiveSkillRefs = [], bs_ActiveSkillPrompt = [], bs_ActiveSkillCategories = [], bs_LoadedSkillReferences = Map.empty, bs_RequestedSkills = [], bs_ActiveToolCategory = BrainToolCategory_other [], bs_ToolExecutions = [], bs_Observations = [], bs_EvidenceAttributions = [], bs_AgentHypotheses = [], bs_HypothesisAdmissions = [], bs_HypothesisGroundings = [], bs_HypothesisComparisons = [], bs_GroundingDeltas = [], bs_GroundingDeltaCursor = 0, bs_BeliefDeltas = [], bs_BeliefDeltaCursor = 0, bs_Reflections = [], bs_AgentDiagnosis = None, bs_DiagnosisValidations = [], bs_AgentRecoveryPlan = None, bs_RecoveryPermission = None, bs_Termination = None, bs_BrainBudget = zero_BrainBudgetState, bs_ExecutionSnapshot = zero_ExecutionSnapshot, bs_WorkflowAttempt = None, bs_EvidenceSnapshotHash = [], bs_WorldModel = None, bs_HybridRetrievals = [], bs_SkillRetrievals = [], bs_BrainCausalPatterns = [], bs_RuntimeEvidence = [], bs_RuntimeAssertions = [], bs_RuntimeFeatures = zero_IncidentFeatures, bs_RuntimeTopology = None, bs_PendingToolMessages = [], bs_PendingReflection = None, bs_PendingTermination = TerminationReason_other [], bs_BrainToolPolicy = zero_ToolCallingPolicy\<rparr>"

record brainCapabilityOutput =
  out_Class :: "ToolResultClass"
  out_Status :: "string"
  out_Summary :: "string"
  out_Provenance :: "ToolResultProvenance"
  out_NewInformation :: "bool"
  out_ConstraintCode :: "string"
  out_Infrastructure :: "bool"
  out_Evidence :: "Evidence list"
  out_EvidenceView :: "BrainEvidenceView list"
  out_Resources :: "ResourceRef list"
  out_Memory :: "MemoryResult list"
  out_HistoricalIncidents :: "RetrievalCandidate list"
  out_HybridRetrieval :: "HybridRetrievalResult option"
  out_Patterns :: "CausalPattern list"
  out_Hypotheses :: "AgentHypothesis list"
  out_Admissions :: "HypothesisAdmission list"
  out_Grounding :: "HypothesisGrounding option"
  out_GroundingDelta :: "GroundingDelta option"
  out_EvidenceAttributions :: "HypothesisEvidenceAttribution list"
  out_Comparisons :: "HypothesisComparison list"
  out_BeliefDelta :: "BeliefDelta option"
  out_Diagnosis :: "AgentDiagnosis option"
  out_DiagnosisValidation :: "DiagnosisValidation option"
  out_DiagnosisFinalized :: "bool"
  out_RecoveryPlan :: "AgentRecoveryPlan option"
  out_RequestedSkills :: "SkillRequest list"
  out_SkillActivations :: "SkillActivation list"
  out_SelectedCategory :: "BrainToolCategory"
  out_NextPhase :: "BrainPhase"
  out_Termination :: "TerminationEvent option"
  out_Understanding :: "IncidentUnderstanding option"
  out_InvestigationPlan :: "InvestigationPlan option"
  out_ReferenceContent :: "string"
  out_ReferenceID :: "string"

definition zero_brainCapabilityOutput :: brainCapabilityOutput where [zero_defs]:
  "zero_brainCapabilityOutput = \<lparr>out_Class = ToolResultClass_other [], out_Status = [], out_Summary = [], out_Provenance = zero_ToolResultProvenance, out_NewInformation = False, out_ConstraintCode = [], out_Infrastructure = False, out_Evidence = [], out_EvidenceView = [], out_Resources = [], out_Memory = [], out_HistoricalIncidents = [], out_HybridRetrieval = None, out_Patterns = [], out_Hypotheses = [], out_Admissions = [], out_Grounding = None, out_GroundingDelta = None, out_EvidenceAttributions = [], out_Comparisons = [], out_BeliefDelta = None, out_Diagnosis = None, out_DiagnosisValidation = None, out_DiagnosisFinalized = False, out_RecoveryPlan = None, out_RequestedSkills = [], out_SkillActivations = [], out_SelectedCategory = BrainToolCategory_other [], out_NextPhase = BrainPhase_other [], out_Termination = None, out_Understanding = None, out_InvestigationPlan = None, out_ReferenceContent = [], out_ReferenceID = []\<rparr>"

record VerificationState =
  vs_StartedAt :: "time"
  vs_ConsecutiveSuccess :: "int"
  vs_Attempts :: "int"

definition zero_VerificationState :: VerificationState where [zero_defs]:
  "zero_VerificationState = \<lparr>vs_StartedAt = 0, vs_ConsecutiveSuccess = 0, vs_Attempts = 0\<rparr>"

record WorkflowState = BrainState +
  ws_Workflow :: string
  ws_Incident :: "Incident option"
  ws_DryRun :: "DryRunResult option"
  ws_ExecutionContext :: "ExecutionContext option"
  ws_VerificationState :: VerificationState
  ws_ModelSnapshotHash :: string
  ws_Errors :: "string list"


end
