(* ===== verification/Incident_Lifecycle.thy ===== *)
theory Incident_Lifecycle
  imports Domain_Incident "HOL-Library.Sublist"
begin

text \<open>The incident state machine of \<^verbatim>\<open>internal/domain/incident.go\<close>: the transition table,
  \<^verbatim>\<open>CanTransition\<close> and \<^verbatim>\<open>Transition\<close>, and the diagnosis method names.  A run of transitions is
  recorded as the list of statuses the incident went through; the lemmas say which statuses a
  run must have visited and which can never be left.\<close>

section \<open>Diagnosis methods\<close>

definition WorkflowRuntimeName :: string where "WorkflowRuntimeName = ''eino-cognitive-diagnosis-runtime''"
definition BrainWorkflowRuntimeName :: string where "BrainWorkflowRuntimeName = ''eino-kubepilot-brain-runtime''"

definition NormalizeCausalMode :: "string \<Rightarrow> string \<times> bool" where
  "NormalizeCausalMode value =
     (if value = '''' \<or> value = ''full'' then (''full'', True)
      else if value \<in> {''no-causal'', ''static-causal'', ''learned-causal''} then (value, True)
      else ('''', False))"

definition NormalizeDiagnosisMethod :: "string \<Rightarrow> string \<times> bool" where
  "NormalizeDiagnosisMethod value =
     (if value = '''' then (''kubepilot'', True)
      else if value \<in> {''direct'', ''rag'', ''react'', ''rule-only'', ''evidence-only'', ''cognitive'', ''active-diagnosis'',
                      ''kubepilot'', ''kubepilot-no-reflection'', ''kubepilot-no-optional-skills''} then (value, True)
      else ('''', False))"

definition ValidDiagnosisMethod :: "string \<Rightarrow> bool" where
  "ValidDiagnosisMethod value = snd (NormalizeDiagnosisMethod value)"

definition IsKubePilotBrainMethod :: "string \<Rightarrow> bool" where
  "IsKubePilotBrainMethod value =
     (let (normalized, ok) = NormalizeDiagnosisMethod value in
      ok \<and> (normalized = ''kubepilot'' \<or> normalized = ''kubepilot-no-reflection'' \<or> normalized = ''kubepilot-no-optional-skills''))"

definition RuntimeNameForDiagnosisMethod :: "string \<Rightarrow> string" where
  "RuntimeNameForDiagnosisMethod value =
     (if IsKubePilotBrainMethod value then BrainWorkflowRuntimeName else WorkflowRuntimeName)"

lemma NormalizeDiagnosisMethod_idem:
  "NormalizeDiagnosisMethod v = (m, True) \<Longrightarrow> NormalizeDiagnosisMethod m = (m, True)"
  by (auto simp: NormalizeDiagnosisMethod_def split: if_splits)

section \<open>Transitions\<close>

fun transitions :: "IncidentStatus \<Rightarrow> IncidentStatus list" where
  "transitions StatusReceived = [StatusCorrelating, StatusNeedsAttention, StatusCancelled]"
| "transitions StatusCorrelating = [StatusCollecting, StatusNeedsAttention, StatusCancelled]"
| "transitions StatusCollecting = [StatusDiagnosing, StatusNeedsAttention, StatusCancelled]"
| "transitions StatusDiagnosing = [StatusCollecting, StatusProposing, StatusNeedsAttention, StatusCancelled]"
| "transitions StatusProposing = [StatusDiagnosing, StatusAwaitingApproval, StatusNeedsAttention, StatusCancelled]"
| "transitions StatusAwaitingApproval = [StatusRecovering, StatusNeedsAttention, StatusRejected, StatusCancelled]"
| "transitions StatusRecovering = [StatusVerifying, StatusNeedsAttention, StatusRecoveryFailed]"
| "transitions StatusVerifying = [StatusResolved, StatusNeedsAttention, StatusRecoveryFailed]"
| "transitions StatusNeedsAttention = [StatusReceived]"
| "transitions StatusRecoveryFailed = [StatusReceived]"
| "transitions _ = []"

definition CanTransition :: "IncidentStatus \<Rightarrow> IncidentStatus \<Rightarrow> bool" where
  "CanTransition from to = (to \<in> set (transitions from))"

datatype transition_error = IncidentRequired | InvalidTransition IncidentStatus IncidentStatus

definition Transition :: "Incident option \<Rightarrow> IncidentStatus \<Rightarrow> time \<Rightarrow> transition_error + Incident" where
  "Transition in0 to now =
     (case in0 of
        None \<Rightarrow> Inl IncidentRequired
      | Some i \<Rightarrow>
          if inc_Status i = to then Inr i
          else if \<not> CanTransition (inc_Status i) to then Inl (InvalidTransition (inc_Status i) to)
          else Inr (i\<lparr>inc_Status := to, inc_UpdatedAt := now\<rparr>))"

definition terminal_status :: "IncidentStatus \<Rightarrow> bool" where
  "terminal_status s = (transitions s = [])"

lemma terminal_statuses [simp]:
  "terminal_status StatusResolved" "terminal_status StatusRejected" "terminal_status StatusCancelled"
  by (simp_all add: terminal_status_def)

lemma Transition_None [simp]: "Transition None to now = Inl IncidentRequired"
  by (simp add: Transition_def)

lemma Transition_ok_iff:
  "Transition (Some i) to now = Inr j \<longleftrightarrow>
     (inc_Status i = to \<and> j = i) \<or>
     (inc_Status i \<noteq> to \<and> CanTransition (inc_Status i) to \<and> j = i\<lparr>inc_Status := to, inc_UpdatedAt := now\<rparr>)"
  by (auto simp: Transition_def)

lemma Transition_status: "Transition (Some i) to now = Inr j \<Longrightarrow> inc_Status j = to"
  by (auto simp: Transition_ok_iff)

lemma Transition_error_iff:
  "(\<exists>e. Transition (Some i) to now = Inl e) \<longleftrightarrow> inc_Status i \<noteq> to \<and> \<not> CanTransition (inc_Status i) to"
  by (auto simp: Transition_def)

lemma CanTransition_enter [simp]:
  "CanTransition s StatusRecovering \<longleftrightarrow> s = StatusAwaitingApproval"
  "CanTransition s StatusVerifying \<longleftrightarrow> s = StatusRecovering"
  "CanTransition s StatusResolved \<longleftrightarrow> s = StatusVerifying"
  "CanTransition s StatusAwaitingApproval \<longleftrightarrow> s = StatusProposing"
  "CanTransition s StatusRejected \<longleftrightarrow> s = StatusAwaitingApproval"
  "CanTransition s StatusRecoveryFailed \<longleftrightarrow> s = StatusRecovering \<or> s = StatusVerifying"
  "CanTransition s StatusProposing \<longleftrightarrow> s = StatusDiagnosing"
  by (cases s; simp add: CanTransition_def)+

lemma CanTransition_leave [simp]:
  "CanTransition StatusRecoveryFailed t \<longleftrightarrow> t = StatusReceived"
  "CanTransition StatusNeedsAttention t \<longleftrightarrow> t = StatusReceived"
  "terminal_status s \<Longrightarrow> \<not> CanTransition s t"
  by (auto simp: CanTransition_def terminal_status_def)

section \<open>Runs\<close>

inductive lifecycle :: "Incident \<Rightarrow> IncidentStatus list \<Rightarrow> Incident \<Rightarrow> bool" where
  lifecycle_start: "lifecycle i [inc_Status i] i"
| lifecycle_step: "lifecycle i ss j \<Longrightarrow> Transition (Some j) to now = Inr k \<Longrightarrow> lifecycle i (ss @ [to]) k"

inductive_cases lifecycle_snocE: "lifecycle i (ss @ [s]) k"

lemma lifecycle_last: "lifecycle i ss j \<Longrightarrow> ss \<noteq> [] \<and> last ss = inc_Status j"
  by (induction rule: lifecycle.induct) (auto dest: Transition_status)

lemma subseq_snoc: "subseq xs ys \<Longrightarrow> subseq (xs @ [a]) (ys @ [a])"
  by (simp add: list_emb_append_mono)

definition recovery_visited :: "IncidentStatus \<Rightarrow> IncidentStatus list \<Rightarrow> bool" where
  "recovery_visited s ss =
     ((s = StatusRecovering \<longrightarrow> subseq [StatusAwaitingApproval, StatusRecovering] ss) \<and>
      (s = StatusVerifying \<longrightarrow> subseq [StatusAwaitingApproval, StatusRecovering, StatusVerifying] ss) \<and>
      (s = StatusResolved \<longrightarrow> subseq [StatusAwaitingApproval, StatusRecovering, StatusVerifying, StatusResolved] ss))"

lemma lifecycle_recovery_visited:
  assumes "lifecycle i ss j" and "inc_Status i = StatusReceived"
  shows "recovery_visited (inc_Status j) ss \<and> (inc_Status j = StatusAwaitingApproval \<longrightarrow> StatusAwaitingApproval \<in> set ss)"
  using assms
proof (induction rule: lifecycle.induct)
  case (lifecycle_start i)
  then show ?case by (simp add: recovery_visited_def)
next
  case (lifecycle_step i ss j to now k)
  note IH = lifecycle_step.IH [OF lifecycle_step.prems]
  have last: "last ss = inc_Status j" "ss \<noteq> []" using lifecycle_last lifecycle_step.hyps(1) by auto
  have ext: "subseq xs (ss @ [to])" if "subseq xs ss" for xs
    using that by (meson subseq_order.trans subseq_rev_drop_many subseq_order.refl list_emb_append2)
  show ?case
  proof (cases "inc_Status j = to")
    case True
    then show ?thesis using IH lifecycle_step.hyps(2) by (auto simp: Transition_ok_iff recovery_visited_def ext)
  next
    case False
    then have can: "CanTransition (inc_Status j) to" and k: "inc_Status k = to"
      using lifecycle_step.hyps(2) by (auto simp: Transition_ok_iff)
    have aw: "subseq [StatusAwaitingApproval] ss" if "inc_Status j = StatusAwaitingApproval"
      using IH that by (simp add: subseq_singleton_left)
    show ?thesis
      using can k IH aw subseq_snoc [of "[StatusAwaitingApproval]" ss StatusRecovering]
        subseq_snoc [of "[StatusAwaitingApproval, StatusRecovering]" ss StatusVerifying]
        subseq_snoc [of "[StatusAwaitingApproval, StatusRecovering, StatusVerifying]" ss StatusResolved]
      by (auto simp: recovery_visited_def)
  qed
qed

lemma lifecycle_terminal_stays:
  assumes "lifecycle i ss j" and "terminal_status (inc_Status i)"
  shows "j = i"
  using assms by (induction rule: lifecycle.induct) (auto simp: Transition_ok_iff)

text \<open>C38. An incident is resolved only after a human approval stage, an execution stage and a
  verification stage, in this order: on every run of \<^verbatim>\<open>Transition\<close> calls from RECEIVED that
  ends in RESOLVED, the statuses AWAITING_APPROVAL, RECOVERING, VERIFYING, RESOLVED occur in
  this order.\<close>

theorem resolved_only_after_approval_recovery_verification:
  assumes "lifecycle i ss j" and "inc_Status i = StatusReceived" and "inc_Status j = StatusResolved"
  shows "subseq [StatusAwaitingApproval, StatusRecovering, StatusVerifying, StatusResolved] ss"
  using lifecycle_recovery_visited [OF assms(1,2)] assms(3) by (simp add: recovery_visited_def)

definition example_path :: "IncidentStatus list" where
  "example_path = [StatusReceived, StatusCorrelating, StatusCollecting, StatusDiagnosing, StatusProposing,
     StatusAwaitingApproval, StatusRecovering, StatusVerifying, StatusResolved]"

lemma lifecycle_consI:
  "lifecycle (i\<lparr>inc_Status := s\<rparr>) ss (i\<lparr>inc_Status := t\<rparr>) \<Longrightarrow> CanTransition t u \<Longrightarrow> t \<noteq> u \<Longrightarrow>
   lifecycle (i\<lparr>inc_Status := s\<rparr>) (ss @ [u]) (i\<lparr>inc_Status := u\<rparr>)"
  by (erule lifecycle_step [where now = "inc_UpdatedAt i"]) (simp add: Transition_def)

lemma example_lifecycle:
  "lifecycle (zero_Incident\<lparr>inc_Status := StatusReceived\<rparr>) example_path (zero_Incident\<lparr>inc_Status := StatusResolved\<rparr>)"
proof -
  let ?z = zero_Incident
  have "lifecycle (?z\<lparr>inc_Status := StatusReceived\<rparr>) [StatusReceived] (?z\<lparr>inc_Status := StatusReceived\<rparr>)"
    using lifecycle_start [of "?z\<lparr>inc_Status := StatusReceived\<rparr>"] by simp
  note lifecycle_consI [OF this, of StatusCorrelating]
  note lifecycle_consI [OF this, of StatusCollecting]
  note lifecycle_consI [OF this, of StatusDiagnosing]
  note lifecycle_consI [OF this, of StatusProposing]
  note lifecycle_consI [OF this, of StatusAwaitingApproval]
  note lifecycle_consI [OF this, of StatusRecovering]
  note lifecycle_consI [OF this, of StatusVerifying]
  note lifecycle_consI [OF this, of StatusResolved]
  then show ?thesis by (simp add: example_path_def CanTransition_def)
qed

lemma resolved_only_after_approval_witness:
  "subseq [StatusAwaitingApproval, StatusRecovering, StatusVerifying, StatusResolved] example_path"
  by (rule resolved_only_after_approval_recovery_verification [OF example_lifecycle]) simp_all

text \<open>RESOLVED, REJECTED and CANCELLED are final: no run of transitions changes an incident in
  one of them, not even its update time.\<close>

theorem terminal_incident_is_frozen:
  assumes "lifecycle i ss j" and "inc_Status i \<in> {StatusResolved, StatusRejected, StatusCancelled}"
  shows "j = i"
  using lifecycle_terminal_stays [OF assms(1)] assms(2) by auto

lemma terminal_incident_is_frozen_witness:
  "zero_Incident\<lparr>inc_Status := StatusResolved\<rparr> = zero_Incident\<lparr>inc_Status := StatusResolved\<rparr>"
  by (rule terminal_incident_is_frozen [OF lifecycle_start]) simp

end
