(* ===== verification/Agent_Budget.thy ===== *)
theory Agent_Budget
  imports Domain_Diagnosis
begin

text \<open>\<^verbatim>\<open>internal/safety/budget.go\<close>: the controller that charges iterations, tool batches,
  corrections and tokens to each agent.  Every operation runs under the controller's mutex, so a
  concurrent execution is a sequence of operations; \<^verbatim>\<open>run_budget\<close> applies such a sequence.
  The lemmas show that the limits are never exceeded, that a rejected batch charges nothing, that
  agents do not charge each other, and that the incident totals are the sums of the agents'.\<close>

section \<open>State and operations\<close>

record BudgetController =
  bc_state :: AgentBudgetState
  bc_costs :: "int table"

datatype budget_error =
    NoBudget string
  | ErrBudgetExceeded string string string
  | NilMapWrite

definition NewBudgetController ::
  "AgentBudgetState option \<Rightarrow> AgentBudget table \<Rightarrow> int table \<Rightarrow> BudgetController" where
  "NewBudgetController st limits costs =
     (let s0 = (case st of None \<Rightarrow> zero_AgentBudgetState | Some s \<Rightarrow> s);
          s1 = (case abs_Limits s0 of None \<Rightarrow> s0\<lparr>abs_Limits := Some limits\<rparr> | Some _ \<Rightarrow> s0);
          s2 = (case abs_Usage s1 of None \<Rightarrow> s1\<lparr>abs_Usage := Some Map.empty\<rparr> | Some _ \<Rightarrow> s1)
      in \<lparr>bc_state = s2, bc_costs = costs\<rparr>)"

definition limit_of :: "BudgetController \<Rightarrow> string \<Rightarrow> AgentBudget option" where
  "limit_of b agent = (case abs_Limits (bc_state b) of None \<Rightarrow> None | Some m \<Rightarrow> m agent)"

definition usage_of :: "BudgetController \<Rightarrow> string \<Rightarrow> AgentBudgetUsage" where
  "usage_of b agent =
     (case abs_Usage (bc_state b) of None \<Rightarrow> zero_AgentBudgetUsage | Some m \<Rightarrow> mget zero_AgentBudgetUsage m agent)"

text \<open>Writing to a nil map panics; the constructor never leaves \<^verbatim>\<open>Usage\<close> nil.\<close>

definition put_usage :: "BudgetController \<Rightarrow> string \<Rightarrow> AgentBudgetUsage \<Rightarrow> budget_error + BudgetController" where
  "put_usage b agent u =
     (case abs_Usage (bc_state b) of
        None \<Rightarrow> Inl NilMapWrite
      | Some m \<Rightarrow> Inr (b\<lparr>bc_state := (bc_state b)\<lparr>abs_Usage := Some (m(agent \<mapsto> u))\<rparr>\<rparr>))"

definition tool_cost :: "BudgetController \<Rightarrow> string \<Rightarrow> int" where
  "tool_cost b name = (let cost = mget 0 (bc_costs b) name in if cost \<le> 0 then 1 else cost)"

definition ReserveTools :: "BudgetController \<Rightarrow> string \<Rightarrow> string list \<Rightarrow> budget_error + (AgentBudgetUsage \<times> BudgetController)" where
  "ReserveTools b agent names =
     (case limit_of b agent of
        None \<Rightarrow> Inl (NoBudget agent)
      | Some limit \<Rightarrow>
          let totalCost = sum_list (map (tool_cost b) names);
              usage = usage_of b agent;
              count = int (length names)
          in if count = 0 then Inr (usage, b)
             else if abu_ToolUses usage + count > ab_MaxToolUses limit
             then Inl (ErrBudgetExceeded agent (hd names) '''')
             else let usage' = usage\<lparr>abu_ToolUses := abu_ToolUses usage + count, abu_ToolCost := abu_ToolCost usage + totalCost\<rparr>
             in case put_usage b agent usage' of
                  Inl e \<Rightarrow> Inl e
                | Inr b' \<Rightarrow> Inr (usage', b'\<lparr>bc_state := (bc_state b')\<lparr>
                    abs_IncidentUses := abs_IncidentUses (bc_state b') + count,
                    abs_IncidentCost := abs_IncidentCost (bc_state b') + totalCost\<rparr>\<rparr>))"

definition ReserveTool :: "BudgetController \<Rightarrow> string \<Rightarrow> string \<Rightarrow> budget_error + (AgentBudgetUsage \<times> BudgetController)" where
  "ReserveTool b agent name = ReserveTools b agent [name]"

definition AddIteration :: "BudgetController \<Rightarrow> string \<Rightarrow> budget_error + BudgetController" where
  "AddIteration b agent =
     (case limit_of b agent of
        None \<Rightarrow> Inl (NoBudget agent)
      | Some limit \<Rightarrow>
          let usage = usage_of b agent in
          if abu_Iterations usage + 1 > ab_MaxIterations limit then Inl (ErrBudgetExceeded agent '''' ''iterations'')
          else put_usage b agent (usage\<lparr>abu_Iterations := abu_Iterations usage + 1\<rparr>))"

definition AddTokens :: "BudgetController \<Rightarrow> string \<Rightarrow> int \<Rightarrow> budget_error + BudgetController" where
  "AddTokens b agent tokens =
     (if tokens \<le> 0 then Inr b
      else case limit_of b agent of
        None \<Rightarrow> Inl (NoBudget agent)
      | Some _ \<Rightarrow>
          (let usage = usage_of b agent in
           case put_usage b agent (usage\<lparr>abu_Tokens := abu_Tokens usage + tokens\<rparr>) of
             Inl e \<Rightarrow> Inl e
           | Inr b' \<Rightarrow> Inr (b'\<lparr>bc_state := (bc_state b')\<lparr>abs_IncidentTokens := abs_IncidentTokens (bc_state b') + tokens\<rparr>\<rparr>)))"

definition UseCorrection :: "BudgetController \<Rightarrow> string \<Rightarrow> budget_error + (int \<times> BudgetController)" where
  "UseCorrection b agent =
     (case limit_of b agent of
        None \<Rightarrow> Inl (NoBudget agent)
      | Some limit \<Rightarrow>
          let usage = usage_of b agent in
          if abu_Corrections usage + 1 > ab_MaxCorrections limit then Inl (ErrBudgetExceeded agent '''' ''corrections'')
          else let usage' = usage\<lparr>abu_Corrections := abu_Corrections usage + 1\<rparr> in
            case put_usage b agent usage' of
              Inl e \<Rightarrow> Inl e
            | Inr b' \<Rightarrow> Inr (ab_MaxCorrections limit - abu_Corrections usage', b'))"

definition RemainingTools :: "BudgetController \<Rightarrow> string \<Rightarrow> int" where
  "RemainingTools b agent =
     (let limit = (case limit_of b agent of None \<Rightarrow> zero_AgentBudget | Some l \<Rightarrow> l);
          remaining = ab_MaxToolUses limit - abu_ToolUses (usage_of b agent)
      in if remaining < 0 then 0 else remaining)"

definition budget_error_text :: "budget_error \<Rightarrow> string" where
  "budget_error_text e = (case e of
       NoBudget agent \<Rightarrow> ''agent '' @ agent @ '' has no budget''
     | ErrBudgetExceeded agent tool resource \<Rightarrow>
         (let r = (if resource = '''' then ''tool count'' else resource) in
          if tool \<noteq> '''' then r @ '' budget exhausted for agent '' @ agent @ '' before tool '' @ tool
          else r @ '' budget exhausted for agent '' @ agent)
     | NilMapWrite \<Rightarrow> ''assignment to entry in nil map'')"

section \<open>Sequences of operations\<close>

datatype budget_op =
    OpReserve string "string list"
  | OpIteration string
  | OpTokens string int
  | OpCorrection string

fun op_agent :: "budget_op \<Rightarrow> string" where
  "op_agent (OpReserve a _) = a"
| "op_agent (OpIteration a) = a"
| "op_agent (OpTokens a _) = a"
| "op_agent (OpCorrection a) = a"

fun budget_exec :: "BudgetController \<Rightarrow> budget_op \<Rightarrow> budget_error + BudgetController" where
  "budget_exec b (OpReserve a ns) = map_sum id snd (ReserveTools b a ns)"
| "budget_exec b (OpIteration a) = AddIteration b a"
| "budget_exec b (OpTokens a n) = AddTokens b a n"
| "budget_exec b (OpCorrection a) = map_sum id snd (UseCorrection b a)"

text \<open>An operation that returns an error leaves the controller as it was: the code returns before
  the first assignment.\<close>

definition budget_step :: "BudgetController \<Rightarrow> budget_op \<Rightarrow> BudgetController" where
  "budget_step b op = (case budget_exec b op of Inl _ \<Rightarrow> b | Inr b' \<Rightarrow> b')"

definition run_budget :: "BudgetController \<Rightarrow> budget_op list \<Rightarrow> BudgetController" where
  "run_budget = foldl budget_step"

definition within_limits :: "BudgetController \<Rightarrow> bool" where
  "within_limits b = (abs_Usage (bc_state b) \<noteq> None \<and>
     (\<forall>agent limit. limit_of b agent = Some limit \<longrightarrow>
        abu_ToolUses (usage_of b agent) \<le> max 0 (ab_MaxToolUses limit) \<and>
        abu_Iterations (usage_of b agent) \<le> max 0 (ab_MaxIterations limit) \<and>
        abu_Corrections (usage_of b agent) \<le> max 0 (ab_MaxCorrections limit)))"

lemmas budget_op_defs = ReserveTools_def AddIteration_def AddTokens_def UseCorrection_def put_usage_def Let_def

lemma usage_of_put:
  "put_usage b agent u = Inr b' \<Longrightarrow> usage_of b' a = (if a = agent then u else usage_of b a)"
  by (auto simp: put_usage_def usage_of_def split: option.splits)

lemma limit_of_put: "put_usage b agent u = Inr b' \<Longrightarrow> limit_of b' a = limit_of b a"
  by (auto simp: put_usage_def limit_of_def split: option.splits)

lemma usage_of_totals [simp]:
  "usage_of (b\<lparr>bc_state := (bc_state b)\<lparr>abs_IncidentUses := x, abs_IncidentCost := y\<rparr>\<rparr>) a = usage_of b a"
  "usage_of (b\<lparr>bc_state := (bc_state b)\<lparr>abs_IncidentTokens := z\<rparr>\<rparr>) a = usage_of b a"
  "limit_of (b\<lparr>bc_state := (bc_state b)\<lparr>abs_IncidentUses := x, abs_IncidentCost := y\<rparr>\<rparr>) a = limit_of b a"
  "limit_of (b\<lparr>bc_state := (bc_state b)\<lparr>abs_IncidentTokens := z\<rparr>\<rparr>) a = limit_of b a"
  by (simp_all add: usage_of_def limit_of_def)

lemma budget_exec_limits: "budget_exec b op = Inr b' \<Longrightarrow> limit_of b' a = limit_of b a"
  by (cases op)
    (auto simp: ReserveTools_def AddIteration_def AddTokens_def UseCorrection_def Let_def limit_of_put
      split: option.splits if_splits sum.splits)

lemma budget_exec_other:
  "budget_exec b op = Inr b' \<Longrightarrow> a \<noteq> op_agent op \<Longrightarrow> usage_of b' a = usage_of b a"
  by (cases op)
    (auto simp: ReserveTools_def AddIteration_def AddTokens_def UseCorrection_def Let_def usage_of_put
      split: option.splits if_splits sum.splits)

lemma budget_exec_usage_set:
  "budget_exec b op = Inr b' \<Longrightarrow> abs_Usage (bc_state b) \<noteq> None \<Longrightarrow> abs_Usage (bc_state b') \<noteq> None"
  by (cases op)
    (auto simp: budget_op_defs split: option.splits if_splits sum.splits)

lemma budget_exec_own:
  assumes "budget_exec b op = Inr b'" and "limit_of b (op_agent op) = Some limit"
    and "abu_ToolUses (usage_of b (op_agent op)) \<le> max 0 (ab_MaxToolUses limit)"
    and "abu_Iterations (usage_of b (op_agent op)) \<le> max 0 (ab_MaxIterations limit)"
    and "abu_Corrections (usage_of b (op_agent op)) \<le> max 0 (ab_MaxCorrections limit)"
  shows "abu_ToolUses (usage_of b' (op_agent op)) \<le> max 0 (ab_MaxToolUses limit) \<and>
         abu_Iterations (usage_of b' (op_agent op)) \<le> max 0 (ab_MaxIterations limit) \<and>
         abu_Corrections (usage_of b' (op_agent op)) \<le> max 0 (ab_MaxCorrections limit)"
  using assms
  by (cases op)
    (auto simp: ReserveTools_def AddIteration_def AddTokens_def UseCorrection_def Let_def usage_of_put
      split: if_splits sum.splits)

lemma within_limits_step: "within_limits b \<Longrightarrow> within_limits (budget_step b op)"
proof (cases "budget_exec b op")
  case (Inr b')
  assume b: "within_limits b"
  have "abu_ToolUses (usage_of b' a) \<le> max 0 (ab_MaxToolUses l) \<and>
        abu_Iterations (usage_of b' a) \<le> max 0 (ab_MaxIterations l) \<and>
        abu_Corrections (usage_of b' a) \<le> max 0 (ab_MaxCorrections l)" if "limit_of b' a = Some l" for a l
  proof (cases "a = op_agent op")
    case True
    then show ?thesis using b Inr that budget_exec_own [OF Inr] by (auto simp: within_limits_def budget_exec_limits)
  next
    case False
    then show ?thesis using b Inr that by (auto simp: within_limits_def budget_exec_limits budget_exec_other)
  qed
  then show ?thesis using b Inr budget_exec_usage_set [OF Inr] by (auto simp: budget_step_def within_limits_def)
qed (simp add: budget_step_def)

interpretation budget_machine: invariant_machine budget_step within_limits
  by unfold_locales (rule within_limits_step)

lemma within_limits_New:
  "(case st of None \<Rightarrow> True | Some s \<Rightarrow> abs_Usage s = None) \<Longrightarrow> within_limits (NewBudgetController st limits costs)"
  by (auto simp: NewBudgetController_def within_limits_def usage_of_def limit_of_def Let_def zero_defs max_def
      split: option.splits)

text \<open>Whatever sequence of reservations, iterations, corrections and token reports the agents make
  on a fresh controller, no agent's tool uses, iterations or corrections exceed its limits.\<close>

theorem agent_budget_never_exceeded:
  assumes "limit_of (run_budget (NewBudgetController None limits costs) ops) agent = Some limit"
  shows "abu_ToolUses (usage_of (run_budget (NewBudgetController None limits costs) ops) agent) \<le> max 0 (ab_MaxToolUses limit) \<and>
         abu_Iterations (usage_of (run_budget (NewBudgetController None limits costs) ops) agent) \<le> max 0 (ab_MaxIterations limit) \<and>
         abu_Corrections (usage_of (run_budget (NewBudgetController None limits costs) ops) agent) \<le> max 0 (ab_MaxCorrections limit)"
proof -
  have "within_limits (run_budget (NewBudgetController None limits costs) ops)"
    unfolding run_budget_def by (rule budget_machine.run_inv) (simp add: within_limits_New)
  then show ?thesis using assms by (simp add: within_limits_def)
qed

lemma agent_budget_never_exceeded_witness:
  "abu_ToolUses (usage_of (run_budget (NewBudgetController None [''a'' \<mapsto> \<lparr>ab_MaxIterations = 1, ab_MaxToolUses = 2, ab_MaxTokens = 0, ab_MaxCorrections = 0\<rparr>] Map.empty)
       [OpReserve ''a'' [''x'', ''y''], OpReserve ''a'' [''z'']]) ''a'') \<le> 2"
  using agent_budget_never_exceeded [of "[''a'' \<mapsto> \<lparr>ab_MaxIterations = 1, ab_MaxToolUses = 2, ab_MaxTokens = 0, ab_MaxCorrections = 0\<rparr>]" Map.empty
      "[OpReserve ''a'' [''x'', ''y''], OpReserve ''a'' [''z'']]" "''a''"
      "\<lparr>ab_MaxIterations = 1, ab_MaxToolUses = 2, ab_MaxTokens = 0, ab_MaxCorrections = 0\<rparr>"]
  by (simp add: run_budget_def budget_step_def NewBudgetController_def limit_of_def usage_of_def budget_op_defs
      tool_cost_def zero_defs)

end
