(* ===== verification/Hypothesis_Lifecycle.thy ===== *)
theory Hypothesis_Lifecycle
  imports Domain_Diagnosis
begin

text \<open>\<^verbatim>\<open>internal/safety/hypothesis.go\<close>: the service that owns the lifecycle of the verified
  hypotheses.  Its state is the status of each hypothesis and the ledger's audit list of
  transitions.  The lemmas show that every status is reached through the audited table, that the
  audit list of a hypothesis is a chain, and that a refuted hypothesis is never reused.\<close>

abbreviation NoStatus :: HypothesisStatus where "NoStatus \<equiv> HypothesisStatus_other []"

fun CanTransitionHypothesis :: "HypothesisStatus \<Rightarrow> HypothesisStatus \<Rightarrow> bool" where
  "CanTransitionHypothesis HypothesisCreated to = (to = HypothesisEvidenceSearching)"
| "CanTransitionHypothesis HypothesisEvidenceSearching to = (to = HypothesisSupported \<or> to = HypothesisRefuted)"
| "CanTransitionHypothesis HypothesisSupported to = (to = HypothesisEvidenceSearching \<or> to = HypothesisAccepted)"
| "CanTransitionHypothesis (HypothesisStatus_other s) to = (s = [] \<and> to = HypothesisCreated)"
| "CanTransitionHypothesis _ to = False"

record HypothesisTransitionService =
  hts_ledger :: "DiagnosisLedger option"
  hts_statuses :: "HypothesisStatus table"

datatype hypothesis_error =
    ServiceUnavailable
  | NoCurrentStatus string
  | UnexpectedStatus string HypothesisStatus HypothesisStatus
  | RefutedReused string
  | InvalidHypothesisTransition HypothesisStatus HypothesisStatus
  | VerifiedRequired
  | NotInVerifiedLedger string

definition NewHypothesisTransitionService ::
  "DiagnosisLedger option \<Rightarrow> VerifiedHypothesis list \<Rightarrow> HypothesisTransitionService" where
  "NewHypothesisTransitionService ledger verified =
     \<lparr>hts_ledger = ledger,
      hts_statuses = foldl (\<lambda>m item. if hd_ID (vh_Draft item) \<noteq> [] \<and> vh_Status item \<noteq> NoStatus
                                    then m(hd_ID (vh_Draft item) \<mapsto> vh_Status item) else m) Map.empty verified\<rparr>"

definition HypothesisService_Status :: "HypothesisTransitionService option \<Rightarrow> string \<Rightarrow> HypothesisStatus" where
  "HypothesisService_Status s hid = (case s of None \<Rightarrow> NoStatus | Some sv \<Rightarrow> mget NoStatus (hts_statuses sv) hid)"

definition audit_row :: "string \<Rightarrow> HypothesisStatus \<Rightarrow> HypothesisStatus \<Rightarrow> string list \<Rightarrow> string \<Rightarrow> string \<Rightarrow> time \<Rightarrow> HypothesisTransition" where
  "audit_row hid from to evidenceIDs toolCallID reason now =
     \<lparr>ht_HypothesisID = hid, ht_From = from, ht_To = to, ht_EvidenceIDs = evidenceIDs, ht_ToolCallID = toolCallID,
      ht_Reason = reason, ht_OccurredAt = now\<rparr>"

definition transitionLocked ::
  "HypothesisTransitionService \<Rightarrow> DiagnosisLedger \<Rightarrow> string \<Rightarrow> HypothesisStatus \<Rightarrow> HypothesisStatus \<Rightarrow> string \<Rightarrow> string \<Rightarrow> string list \<Rightarrow> time
     \<Rightarrow> hypothesis_error + HypothesisTransitionService" where
  "transitionLocked s ledger hid from to reason toolCallID evidenceIDs now =
     (let current = mget NoStatus (hts_statuses s) hid;
          found = (hts_statuses s hid \<noteq> None)
      in if \<not> found \<and> from \<noteq> NoStatus then Inl (NoCurrentStatus hid)
         else if found \<and> current \<noteq> from then Inl (UnexpectedStatus hid from current)
         else if current = HypothesisRefuted \<or> (from = HypothesisRefuted \<and> to \<noteq> HypothesisCreated) then Inl (RefutedReused hid)
         else if \<not> CanTransitionHypothesis from to then Inl (InvalidHypothesisTransition from to)
         else Inr (s\<lparr>hts_ledger := Some (ledger\<lparr>led_HypothesisTransitions :=
                        led_HypothesisTransitions ledger @ [audit_row hid from to evidenceIDs toolCallID reason now]\<rparr>),
                     hts_statuses := (hts_statuses s)(hid \<mapsto> to)\<rparr>))"

definition HypothesisService_Transition ::
  "HypothesisTransitionService option \<Rightarrow> string \<Rightarrow> HypothesisStatus \<Rightarrow> HypothesisStatus \<Rightarrow> string \<Rightarrow> string \<Rightarrow> string list \<Rightarrow> time
     \<Rightarrow> hypothesis_error + HypothesisTransitionService" where
  "HypothesisService_Transition s hid from to reason toolCallID evidenceIDs now =
     (case s of
        None \<Rightarrow> Inl ServiceUnavailable
      | Some sv \<Rightarrow> (case hts_ledger sv of
            None \<Rightarrow> Inl ServiceUnavailable
          | Some ledger \<Rightarrow> if hid = [] then Inl ServiceUnavailable
                           else transitionLocked sv ledger hid from to reason toolCallID evidenceIDs now))"

fun set_status_of :: "string \<Rightarrow> HypothesisStatus \<Rightarrow> VerifiedHypothesis list \<Rightarrow> VerifiedHypothesis list" where
  "set_status_of hid to [] = []"
| "set_status_of hid to (v # vs) = (if hd_ID (vh_Draft v) = hid then v\<lparr>vh_Status := to\<rparr> # vs else v # set_status_of hid to vs)"

definition TransitionVerified ::
  "HypothesisTransitionService option \<Rightarrow> VerifiedHypothesis list option \<Rightarrow> string \<Rightarrow> HypothesisStatus \<Rightarrow> HypothesisStatus \<Rightarrow> string \<Rightarrow> string \<Rightarrow> string list \<Rightarrow> time
     \<Rightarrow> hypothesis_error + (HypothesisTransitionService \<times> VerifiedHypothesis list)" where
  "TransitionVerified s items hid from to reason toolCallID evidenceIDs now =
     (case s of
        None \<Rightarrow> Inl ServiceUnavailable
      | Some sv \<Rightarrow> (case hts_ledger sv of
            None \<Rightarrow> Inl ServiceUnavailable
          | Some ledger \<Rightarrow>
              if hid = [] then Inl ServiceUnavailable
              else case items of
                None \<Rightarrow> Inl VerifiedRequired
              | Some vs \<Rightarrow>
                  if hid \<notin> set (map (\<lambda>v. hd_ID (vh_Draft v)) vs) then Inl (NotInVerifiedLedger hid)
                  else case transitionLocked sv ledger hid from to reason toolCallID evidenceIDs now of
                    Inl e \<Rightarrow> Inl e
                  | Inr sv' \<Rightarrow> Inr (sv', set_status_of hid to vs)))"

definition TransitionHypothesis ::
  "DiagnosisLedger option \<Rightarrow> string \<Rightarrow> HypothesisStatus \<Rightarrow> HypothesisStatus \<Rightarrow> string \<Rightarrow> string \<Rightarrow> string list \<Rightarrow> time
     \<Rightarrow> hypothesis_error + DiagnosisLedger" where
  "TransitionHypothesis ledger hid from to reason toolCallID evidenceIDs now =
     (case ledger of
        None \<Rightarrow> Inl (InvalidHypothesisTransition from to)
      | Some l \<Rightarrow>
          if hid = [] \<or> \<not> CanTransitionHypothesis from to \<or> from = HypothesisRefuted then Inl (InvalidHypothesisTransition from to)
          else Inr (l\<lparr>led_HypothesisTransitions := led_HypothesisTransitions l @ [audit_row hid from to evidenceIDs toolCallID reason now]\<rparr>))"

definition clamp :: "rat \<Rightarrow> rat" where
  "clamp value = (if value < 0 then 0 else if value > 1 then 1 else value)"

definition Confidence :: "VerifiedHypothesis \<Rightarrow> rat \<Rightarrow> rat" where
  "Confidence item prior = clamp (1/2 * vh_SupportingScore item + 3/10 * vh_CausalPathCoverage item
     + 1/5 * vh_ObservationCoverage item - 3/10 * vh_ContradictionScore item)"

section \<open>The audit list is a chain of table transitions\<close>

definition rows_of :: "string \<Rightarrow> HypothesisTransition list \<Rightarrow> HypothesisTransition list" where
  "rows_of hid = filter (\<lambda>r. ht_HypothesisID r = hid)"

fun chain :: "HypothesisStatus \<Rightarrow> HypothesisTransition list \<Rightarrow> HypothesisStatus \<Rightarrow> bool" where
  "chain s [] t = (s = t)"
| "chain s (r # rs) t = (ht_From r = s \<and> CanTransitionHypothesis (ht_From r) (ht_To r) \<and> chain (ht_To r) rs t)"

definition audited :: "HypothesisTransitionService \<Rightarrow> bool" where
  "audited s = (\<forall>ledger. hts_ledger s = Some ledger \<longrightarrow>
     (\<forall>hid. chain NoStatus (rows_of hid (led_HypothesisTransitions ledger)) (mget NoStatus (hts_statuses s) hid)))"

datatype hypothesis_op = HOp string HypothesisStatus HypothesisStatus string string "string list" time

fun hypothesis_step :: "HypothesisTransitionService \<Rightarrow> hypothesis_op \<Rightarrow> HypothesisTransitionService" where
  "hypothesis_step s (HOp hid from to reason tc ev now) =
     (case HypothesisService_Transition (Some s) hid from to reason tc ev now of Inl _ \<Rightarrow> s | Inr s' \<Rightarrow> s')"

lemma chain_snoc:
  "chain s rs t \<Longrightarrow> ht_From r = t \<Longrightarrow> CanTransitionHypothesis (ht_From r) (ht_To r) \<Longrightarrow> chain s (rs @ [r]) (ht_To r)"
  by (induction rs arbitrary: s) auto

lemma transitionLocked_ok:
  assumes "transitionLocked s ledger hid from to reason tc ev now = Inr s'"
  shows "mget NoStatus (hts_statuses s) hid = from" "CanTransitionHypothesis from to" "from \<noteq> HypothesisRefuted"
    "hts_statuses s' = (hts_statuses s)(hid \<mapsto> to)"
    "hts_ledger s' = Some (ledger\<lparr>led_HypothesisTransitions := led_HypothesisTransitions ledger @ [audit_row hid from to ev tc reason now]\<rparr>)"
  using assms by (auto simp: transitionLocked_def Let_def mget_def split: if_splits option.splits)

lemma audited_step: "audited s \<Longrightarrow> audited (hypothesis_step s op)"
proof (cases op)
  case (HOp hid fr to reason tc ev now)
  assume a: "audited s"
  show ?thesis
  proof (cases "HypothesisService_Transition (Some s) hid fr to reason tc ev now")
    case (Inr s')
    then obtain ledger where l: "hts_ledger s = Some ledger"
      and t: "transitionLocked s ledger hid fr to reason tc ev now = Inr s'"
      by (auto simp: HypothesisService_Transition_def split: option.splits if_splits)
    note ok = transitionLocked_ok [OF t]
    have "chain NoStatus (rows_of i (led_HypothesisTransitions ledger)) (mget NoStatus (hts_statuses s) i)" for i
      using a l by (simp add: audited_def)
    then have "chain NoStatus (rows_of i (led_HypothesisTransitions ledger @ [audit_row hid fr to ev tc reason now]))
        (mget NoStatus (hts_statuses s') i)" for i
      using chain_snoc [of NoStatus "rows_of hid (led_HypothesisTransitions ledger)" fr "audit_row hid fr to ev tc reason now"] ok
      by (auto simp: rows_of_def audit_row_def)
    then show ?thesis using Inr HOp ok by (simp add: audited_def)
  qed (use a HOp in simp)
qed

interpretation hypothesis_machine: invariant_machine hypothesis_step audited
  by unfold_locales (rule audited_step)

lemma refuted_is_final_step:
  assumes "mget NoStatus (hts_statuses s) hid = HypothesisRefuted"
  shows "mget NoStatus (hts_statuses (hypothesis_step s op)) hid = HypothesisRefuted \<and>
         (\<forall>l. hts_ledger s = Some l \<longrightarrow> (\<exists>l'. hts_ledger (hypothesis_step s op) = Some l' \<and>
            rows_of hid (led_HypothesisTransitions l') = rows_of hid (led_HypothesisTransitions l)))"
proof (cases op)
  case (HOp hid2 fr to reason tc ev now)
  show ?thesis
  proof (cases "HypothesisService_Transition (Some s) hid2 fr to reason tc ev now")
    case (Inr s')
    then obtain ledger where l: "hts_ledger s = Some ledger"
      and t: "transitionLocked s ledger hid2 fr to reason tc ev now = Inr s'"
      by (auto simp: HypothesisService_Transition_def split: option.splits if_splits)
    note ok = transitionLocked_ok [OF t]
    have "hid2 \<noteq> hid" using ok assms by auto
    then show ?thesis using Inr HOp ok l assms by (simp add: rows_of_def audit_row_def)
  qed (use assms HOp in simp)
qed

lemma fresh_service_audited:
  "led_HypothesisTransitions l = [] \<Longrightarrow> audited (NewHypothesisTransitionService (Some l) [])"
  by (simp add: audited_def NewHypothesisTransitionService_def rows_of_def)

lemma refuted_run:
  "mget NoStatus (hts_statuses s) hid = HypothesisRefuted \<Longrightarrow> hts_ledger s = Some l \<Longrightarrow>
   \<exists>l'. hts_ledger (foldl hypothesis_step s ops) = Some l' \<and>
     mget NoStatus (hts_statuses (foldl hypothesis_step s ops)) hid = HypothesisRefuted \<and>
     rows_of hid (led_HypothesisTransitions l') = rows_of hid (led_HypothesisTransitions l)"
proof (induction ops arbitrary: s l)
  case (Cons op ops)
  from refuted_is_final_step [OF Cons.prems(1), of op] Cons.prems(2)
  obtain l1 where l1: "mget NoStatus (hts_statuses (hypothesis_step s op)) hid = HypothesisRefuted"
     "hts_ledger (hypothesis_step s op) = Some l1"
     "rows_of hid (led_HypothesisTransitions l1) = rows_of hid (led_HypothesisTransitions l)" by auto
  from Cons.IH [OF l1(1,2)] l1(3) show ?case by simp
qed simp

lemma Confidence_bounds: "0 \<le> Confidence v p \<and> Confidence v p \<le> 1"
  by (simp add: Confidence_def clamp_def)

text \<open>The audit trail explains the state: after any sequence of calls on a service created with an
  empty ledger, the audited transitions of each hypothesis form a chain of table transitions from
  "no status" to its current status.\<close>

theorem hypothesis_audit_is_chain:
  assumes "led_HypothesisTransitions l0 = []"
    and "s = foldl hypothesis_step (NewHypothesisTransitionService (Some l0) []) ops"
    and "hts_ledger s = Some l"
  shows "chain NoStatus (rows_of hid (led_HypothesisTransitions l)) (HypothesisService_Status (Some s) hid)"
  using hypothesis_machine.run_inv [OF fresh_service_audited [OF assms(1)], of ops] assms(2,3)
  by (simp add: audited_def HypothesisService_Status_def)

definition example_ops :: "hypothesis_op list" where
  "example_ops = [HOp ''h'' NoStatus HypothesisCreated '''' '''' [] 1,
     HOp ''h'' HypothesisCreated HypothesisEvidenceSearching '''' '''' [] 2,
     HOp ''h'' HypothesisEvidenceSearching HypothesisRefuted '''' '''' [] 3,
     HOp ''h'' HypothesisRefuted HypothesisCreated '''' '''' [] 4]"

definition example_service :: HypothesisTransitionService where
  "example_service = foldl hypothesis_step (NewHypothesisTransitionService (Some zero_DiagnosisLedger) []) example_ops"

lemma hypothesis_audit_is_chain_witness:
  "chain NoStatus (rows_of ''h'' (led_HypothesisTransitions (the (hts_ledger example_service))))
     (HypothesisService_Status (Some example_service) ''h'')"
  by (rule hypothesis_audit_is_chain [OF _ example_service_def])
    (simp_all add: zero_defs example_ops_def NewHypothesisTransitionService_def HypothesisService_Transition_def
      transitionLocked_def example_service_def Let_def)

text \<open>A refuted hypothesis identity is never reused: no sequence of transition requests changes its
  status or adds an audit row for it.\<close>

theorem refuted_hypothesis_is_never_reused:
  assumes "HypothesisService_Status (Some s) hid = HypothesisRefuted" and "hts_ledger s = Some l"
  shows "HypothesisService_Status (Some (foldl hypothesis_step s ops)) hid = HypothesisRefuted \<and>
    (\<exists>l'. hts_ledger (foldl hypothesis_step s ops) = Some l' \<and>
       rows_of hid (led_HypothesisTransitions l') = rows_of hid (led_HypothesisTransitions l))"
  using refuted_run [of s hid l ops] assms by (auto simp: HypothesisService_Status_def)

lemma refuted_hypothesis_is_never_reused_witness:
  "HypothesisService_Status (Some (foldl hypothesis_step
     \<lparr>hts_ledger = Some zero_DiagnosisLedger, hts_statuses = [''h'' \<mapsto> HypothesisRefuted]\<rparr> example_ops)) ''h'' = HypothesisRefuted"
  using refuted_hypothesis_is_never_reused [of "\<lparr>hts_ledger = Some zero_DiagnosisLedger, hts_statuses = [''h'' \<mapsto> HypothesisRefuted]\<rparr>" "''h''" zero_DiagnosisLedger example_ops]
  by (simp add: HypothesisService_Status_def)

end
