(* ===== verification/String_Sets.thy ===== *)
theory String_Sets
  imports Prelude
begin

text \<open>The helpers that turn string slices into canonical sets: \<^verbatim>\<open>unique\<close>, \<^verbatim>\<open>nonEmpty\<close>,
  \<^verbatim>\<open>intersection\<close> and \<^verbatim>\<open>difference\<close> of \<^verbatim>\<open>internal/brainruntime/runtime.go\<close>,
  \<^verbatim>\<open>uniqueBrainValues\<close> of \<^verbatim>\<open>agent/brain_tools.go\<close> and \<^verbatim>\<open>appendUnique\<close> of
  \<^verbatim>\<open>agent/supervisor.go\<close>.  The locale states what their callers rely on: the result lists exactly the
  cleaned non-empty values, once each, in order, so it depends only on the set of the values.\<close>

section \<open>The code\<close>

fun unique_loop :: "string set \<Rightarrow> string list \<Rightarrow> string list" where
  "unique_loop seen [] = []"
| "unique_loop seen (v # vs) =
     (if v \<noteq> [] \<and> v \<notin> seen then v # unique_loop (insert v seen) vs else unique_loop seen vs)"

definition unique :: "string list \<Rightarrow> string list" where
  "unique vs = sort (unique_loop {} vs)"

definition nonEmpty :: "string list \<Rightarrow> string list" where
  "nonEmpty vs = unique (filter (\<lambda>v. v \<noteq> []) (map TrimSpace vs))"

definition intersection :: "string list \<Rightarrow> string list \<Rightarrow> string list" where
  "intersection left right = unique (filter (\<lambda>v. v \<in> set right) left)"

definition difference :: "string list \<Rightarrow> string list \<Rightarrow> string list" where
  "difference left right = unique (filter (\<lambda>v. v \<notin> set right) left)"

fun brain_values_loop :: "string list \<Rightarrow> string list \<Rightarrow> string list" where
  "brain_values_loop result [] = result"
| "brain_values_loop result (v # vs) =
     (let value = TrimSpace v in
      if value \<noteq> [] \<and> value \<notin> set result then brain_values_loop (result @ [value]) vs
      else brain_values_loop result vs)"

definition uniqueBrainValues :: "string list \<Rightarrow> string list" where
  "uniqueBrainValues vs = sort (brain_values_loop [] vs)"

definition appendUnique :: "'a list \<Rightarrow> 'a \<Rightarrow> 'a list" where
  "appendUnique vs v = (if v \<in> set vs then vs else vs @ [v])"

section \<open>Canonical sets of strings\<close>

locale canonical_set =
  fixes norm :: "string list \<Rightarrow> string list"
    and clean :: "string \<Rightarrow> string"
  assumes set_norm: "set (norm xs) = clean ` set xs - {[]}"
    and sorted_norm: "sorted (norm xs)"
    and distinct_norm: "distinct (norm xs)"
    and clean_idem: "clean (clean x) = clean x"
    and clean_empty: "clean [] = []"
begin

lemma norm_eq: "norm xs = sorted_list_of_set (clean ` set xs - {[]})"
proof (rule sorted_distinct_set_unique)
  show "sorted (norm xs)" by (rule sorted_norm)
  show "distinct (norm xs)" by (rule distinct_norm)
  show "sorted (sorted_list_of_set (clean ` set xs - {[]}))" by (rule sorted_list_of_set.sorted_sorted_key_list_of_set)
  show "distinct (sorted_list_of_set (clean ` set xs - {[]}))" by (rule sorted_list_of_set.distinct_sorted_key_list_of_set)
  show "set (norm xs) = set (sorted_list_of_set (clean ` set xs - {[]}))" by (simp add: set_norm)
qed

lemma norm_cong: "clean ` set xs - {[]} = clean ` set ys - {[]} \<Longrightarrow> norm xs = norm ys"
  by (simp add: norm_eq)

lemma norm_eq_iff: "norm xs = norm ys \<longleftrightarrow> clean ` set xs - {[]} = clean ` set ys - {[]}"
  by (metis norm_cong set_norm)

lemma clean_image_norm: "clean ` set (norm xs) - {[]} = clean ` set xs - {[]}"
proof -
  have "clean y = y" if "y \<in> clean ` set xs - {[]}" for y
    using that by (auto simp: clean_idem)
  then have "clean ` (clean ` set xs - {[]}) = (\<lambda>y. y) ` (clean ` set xs - {[]})"
    by (rule image_cong [OF refl])
  then show ?thesis by (simp add: set_norm)
qed

lemma norm_idem: "norm (norm xs) = norm xs"
  by (rule norm_cong) (rule clean_image_norm)

lemma norm_append_left: "norm (norm xs @ ys) = norm (xs @ ys)"
  using clean_image_norm [of xs] by (intro norm_cong) auto

lemma norm_empty_iff: "norm xs = [] \<longleftrightarrow> (\<forall>x\<in>set xs. clean x = [])"
proof -
  have "norm xs = [] \<longleftrightarrow> clean ` set xs - {[]} = {}" by (metis set_norm set_empty)
  then show ?thesis by auto
qed

lemma norm_no_empty: "[] \<notin> set (norm xs)"
  by (simp add: set_norm)

lemma norm_length: "length (norm xs) = card (clean ` set xs - {[]})"
  by (metis distinct_card distinct_norm set_norm)

lemma norm_length_le: "length (norm xs) \<le> length xs"
proof -
  have "card (clean ` set xs - {[]}) \<le> card (clean ` set xs)" by (intro card_mono) auto
  also have "\<dots> \<le> card (set xs)" by (rule card_image_le) simp
  also have "\<dots> \<le> length xs" by (rule card_length)
  finally show ?thesis by (simp add: norm_length)
qed

lemma norm_fixpoint: "sorted xs \<Longrightarrow> distinct xs \<Longrightarrow> (\<And>x. x \<in> set xs \<Longrightarrow> clean x = x \<and> x \<noteq> []) \<Longrightarrow> norm xs = xs"
  by (rule sorted_distinct_set_unique) (auto simp: set_norm sorted_norm distinct_norm image_iff)

end

lemma unique_loop_set: "set (unique_loop seen vs) = set vs - seen - {[]}"
  by (induction seen vs rule: unique_loop.induct) auto

lemma unique_loop_distinct: "distinct (unique_loop seen vs)"
  by (induction seen vs rule: unique_loop.induct) (auto simp: unique_loop_set)

lemma brain_values_loop_set:
  "set (brain_values_loop r vs) = set r \<union> (TrimSpace ` set vs - {[]})"
  by (induction r vs rule: brain_values_loop.induct) (auto simp: Let_def)

lemma brain_values_loop_distinct: "distinct r \<Longrightarrow> distinct (brain_values_loop r vs)"
  by (induction r vs rule: brain_values_loop.induct) (auto simp: Let_def)

interpretation uniq: canonical_set unique "\<lambda>v. v"
  by unfold_locales (simp_all add: unique_def unique_loop_set unique_loop_distinct)

interpretation trimmed: canonical_set nonEmpty TrimSpace
  by unfold_locales (auto simp: nonEmpty_def unique_def unique_loop_set unique_loop_distinct)

interpretation brain_values: canonical_set uniqueBrainValues TrimSpace
  by unfold_locales (auto simp: uniqueBrainValues_def brain_values_loop_set brain_values_loop_distinct)

lemmas canonical_sets = uniq.set_norm trimmed.set_norm brain_values.set_norm

lemma set_unique [simp]: "set (unique vs) = set vs - {[]}"
  by (simp add: uniq.set_norm)

lemma set_nonEmpty [simp]: "set (nonEmpty vs) = TrimSpace ` set vs - {[]}"
  by (simp add: trimmed.set_norm)

lemma unique_empty_iff: "unique vs = [] \<longleftrightarrow> set vs \<subseteq> {[]}"
  by (auto simp: uniq.norm_empty_iff)

lemma nonEmpty_empty_iff: "nonEmpty vs = [] \<longleftrightarrow> (\<forall>v\<in>set vs. TrimSpace v = [])"
  by (rule trimmed.norm_empty_iff)

lemma unique_Nil [simp]: "unique [] = []" and nonEmpty_Nil [simp]: "nonEmpty [] = []"
  by (simp_all add: unique_empty_iff nonEmpty_empty_iff)

lemma set_intersection [simp]: "set (intersection l r) = set l \<inter> set r - {[]}"
  by (auto simp: intersection_def)

lemma set_difference [simp]: "set (difference l r) = set l - set r - {[]}"
  by (auto simp: difference_def)

lemma distinct_unique [simp]: "distinct (unique vs)" "distinct (nonEmpty vs)"
  by (rule uniq.distinct_norm trimmed.distinct_norm)+

lemma unique_filter_unique [simp]: "unique (filter P (unique vs)) = filter P (unique vs)"
  by (intro uniq.norm_fixpoint) (auto simp: sorted_wrt_filter uniq.sorted_norm)

lemma nonEmpty_id: "(\<And>v. v \<in> set vs \<Longrightarrow> TrimSpace v = v) \<Longrightarrow> nonEmpty (unique vs) = unique vs"
  by (intro trimmed.norm_fixpoint) (auto simp: uniq.sorted_norm)

lemma set_appendUnique [simp]: "set (appendUnique vs v) = insert v (set vs)"
  by (auto simp: appendUnique_def)

lemma distinct_appendUnique [simp]: "distinct (appendUnique vs v) \<longleftrightarrow> distinct vs"
  by (auto simp: appendUnique_def)

text \<open>The two normalisers written separately in the runtime and in the tool layer agree: the
  accumulating loop of \<^verbatim>\<open>uniqueBrainValues\<close> and the trim, filter and \<^verbatim>\<open>unique\<close> pipeline of
  \<^verbatim>\<open>nonEmpty\<close> return the same list, the sorted list of the trimmed non-empty values.\<close>

theorem brain_values_agree:
  "uniqueBrainValues vs = nonEmpty vs \<and> nonEmpty vs = sorted_list_of_set (TrimSpace ` set vs - {[]})"
  by (simp add: brain_values.norm_eq trimmed.norm_eq)

end
