(* ===== verification/Runtime_Hash.thy ===== *)
theory Runtime_Hash
  imports Domain_Incident String_Sets "HOL-Library.Multiset"
begin

text \<open>\<^verbatim>\<open>internal/brainruntime/runtime.go\<close>, part 1: the defaults and the fingerprints.  \<^verbatim>\<open>Hash\<close> is
  SHA-256 of the JSON encoding; it is a parameter \<open>H\<close> of the definitions that use it, a function of
  the value that is encoded.  \<^verbatim>\<open>hash_input\<close> has one constructor for each shape of value the code
  hashes.  Slices are lists, so a nil slice and an empty slice are one value here.\<close>

record snapshotEvidence =
  snap_ID :: string
  snap_Source :: string
  snap_ObservedAt :: time
  snap_WindowStart :: time
  snap_WindowEnd :: time
  snap_Facts :: "any_value table"
  snap_Signals :: "EvidenceSignal list"

datatype hash_input =
    HSnapshot "snapshotEvidence list"
  | HAction string BrainToolCategory BrainToolCategory AgentActionIntent string
  | HTargets "ResourceRef list"
  | HEnvelope AgentActionEnvelope
  | HEvidence "Evidence list"
  | HDryRun "DryRunResult option"
  | HPolicy ToolCallingPolicy
  | HFlags "bool list"
  | HStrings "string list"
  | HString string
  | HStateChange string string
  | HCallKey string string
  | HEnvelopeKey string string string AgentActionIntent
  | HToolRejection string string string
  | HMutation RecoveryAction string string string string "any_value table" "any_value table"
  | HResources "ResourceRef list" "Evidence list"
  | HHypotheses "AgentHypothesis list"
  | HHypothesis AgentHypothesis
  | HRetrieval HybridRetrievalResult
  | HMemory "MemoryResult list"
  | HPatterns "CausalPattern list"
  | HPhase BrainPhase
  | HUnderstanding IncidentUnderstanding
  | HPlan InvestigationPlan
  | HGrounding HypothesisGrounding "HypothesisEvidenceAttribution list"
  | HComparisons "HypothesisComparison list"
  | HBelief BeliefDelta
  | HDiagnosis AgentDiagnosis
  | HDiagnosisValidation DiagnosisValidation
  | HActivations "SkillActivation list"
  | HRecoveryPlan AgentRecoveryPlan
  | HTermination TerminationEvent

type_synonym hasher = "hash_input \<Rightarrow> string"

definition DefaultMaxTurns :: int where "DefaultMaxTurns = 50"

definition DefaultBudget :: BrainBudget where
  "DefaultBudget = \<lparr>bb_MaxTurns = DefaultMaxTurns, bb_MaxActiveHypotheses = 5, bb_MaxHypothesisBranches = 8,
     bb_MaxRevisionsPerLineage = 3, bb_MaxToolCalls = 50, bb_MaxParallelReadTools = 4,
     bb_MaxOptionalSkillsPerTurn = 2, bb_MaxStructuredCorrections = 3, bb_MaxReflectionCostUnits = 16\<rparr>"

definition DefaultToolCallingPolicy :: ToolCallingPolicy where
  "DefaultToolCallingPolicy = \<lparr>tcp_MaxSameToolRepeat = 3, tcp_MaxNoInformationStreak = 2,
     tcp_RequireReason = True, tcp_RequireExpectedObservation = True,
     tcp_RequireHypothesisBindingAfterAdmission = True,
     tcp_RejectExactRequestRepeat = True, tcp_RejectUnchangedConstraintRetry = True\<rparr>"

definition snapshot_item :: "Evidence \<Rightarrow> snapshotEvidence" where
  "snapshot_item item = \<lparr>snap_ID = ev_ID item, snap_Source = ev_Source item,
     snap_ObservedAt = (if IsZero (ev_ObservedAt item) then ev_Timestamp item else ev_ObservedAt item),
     snap_WindowStart = ev_WindowStart item, snap_WindowEnd = ev_WindowEnd item,
     snap_Facts = ev_Facts item, snap_Signals = ev_Signals item\<rparr>"

text \<open>\<^verbatim>\<open>sort.Slice\<close> is not stable: the stable sort here is one of its outcomes, the only one when the
  keys are distinct.\<close>

definition EvidenceSnapshotHash :: "hasher \<Rightarrow> Evidence list \<Rightarrow> string" where
  "EvidenceSnapshotHash H evidence = H (HSnapshot (sort_key snap_ID (map snapshot_item evidence)))"

definition resourceKey :: "ResourceRef \<Rightarrow> string" where
  "resourceKey r = Join [ref_Namespace r, ref_Kind r, ref_Service r, ref_Resource r] ''|''"

definition actionFingerprint :: "hasher \<Rightarrow> AgentActionEnvelope \<Rightarrow> string" where
  "actionFingerprint H env = H (HAction (env_ToolName env) (env_ToolCategory env) (env_RoutedToolCategory env)
     (env_Intent env) (env_EvidenceSnapshotHash env))"

definition targetFingerprint :: "hasher \<Rightarrow> ResourceRef list \<Rightarrow> string" where
  "targetFingerprint H targets = H (HTargets (sort_key resourceKey targets))"

section \<open>The evidence snapshot does not depend on the order of collection\<close>

lemma EvidenceSnapshotHash_permute:
  assumes "mset es = mset fs" and "distinct (map ev_ID es)"
  shows "EvidenceSnapshotHash H es = EvidenceSnapshotHash H fs"
proof -
  let ?a = "map snapshot_item es" and ?b = "map snapshot_item fs"
  have id: "snap_ID (snapshot_item e) = ev_ID e" for e by (simp add: snapshot_item_def)
  have ms: "mset ?a = mset ?b" using assms(1) by simp
  have "inj_on ev_ID (set es)" using assms(2) by (simp add: distinct_map)
  then have "inj_on snap_ID (set ?a)" by (auto simp: inj_on_def id)
  then have "sort_key snap_ID ?a = sort_key snap_ID ?b"
    using ms by (intro sort_key_inj_key_eq) simp_all
  then show ?thesis by (simp add: EvidenceSnapshotHash_def)
qed

end
