(* ===== verification/Tool_Policy.thy ===== *)
theory Tool_Policy
  imports Runtime_Hash
begin

text \<open>\<^verbatim>\<open>internal/brainruntime/runtime.go\<close>, part 2: \<^verbatim>\<open>ToolPolicy.Validate\<close>, the gate every tool
  call of the model passes.  The reason codes are the code's, in its order; the lemmas give the exact
  condition under which a call is allowed, and bound what the histories built through the gate can
  contain: no allowed call repeats an earlier request, and no streak of the same tool on the same target,
  or of uninformative results, goes on beyond the policy's limits.\<close>

definition requiresHypothesisBinding :: "AgentActionEnvelope \<Rightarrow> bool" where
  "requiresHypothesisBinding env =
     (env_ToolCategory env = BrainToolEvidence \<or> env_ToolCategory env = BrainToolRetrieval \<or>
      env_ToolName env \<in> {''validate_hypothesis'', ''compare_hypotheses'', ''revise_hypothesis'',
        ''revise_investigation_plan'', ''commit_belief_delta'', ''submit_diagnosis'', ''validate_diagnosis''})"

definition effective_policy :: "ToolCallingPolicy \<Rightarrow> ToolCallingPolicy" where
  "effective_policy p = (if tcp_MaxSameToolRepeat p = 0 then DefaultToolCallingPolicy else p)"

definition same_tool_target :: "hasher \<Rightarrow> AgentActionEnvelope \<Rightarrow> BrainToolExecution \<Rightarrow> bool" where
  "same_tool_target H env previous =
     (env_ToolName (bte_Envelope previous) = env_ToolName env \<and>
      targetFingerprint H (intent_TargetScope (env_Intent (bte_Envelope previous))) =
        targetFingerprint H (intent_TargetScope (env_Intent env)))"

definition tool_repeats :: "hasher \<Rightarrow> AgentActionEnvelope \<Rightarrow> BrainToolExecution list \<Rightarrow> nat" where
  "tool_repeats H env history = length (takeWhile (same_tool_target H env) (rev history))"

definition no_information_streak :: "BrainToolExecution list \<Rightarrow> nat" where
  "no_information_streak history = length (takeWhile (\<lambda>e. \<not> trr_NewInformation (bte_Result e)) (rev history))"

definition ToolPolicy_reasons ::
  "hasher \<Rightarrow> ToolCallingPolicy \<Rightarrow> AgentActionEnvelope \<Rightarrow> BrainToolExecution list \<Rightarrow> bool \<Rightarrow> BrainToolCategory set \<Rightarrow> string list" where
  "ToolPolicy_reasons H policy env history admitted allowedCategories =
     (let fingerprint = actionFingerprint H env in
      code_if (TrimSpace (env_ToolName env) = [] \<or> TrimSpace (env_ActionID env) = [] \<or> TrimSpace (env_IncidentID env) = [])
        ''invalid_action_envelope''
    @ code_if (env_ToolCategory env \<notin> allowedCategories) ''tool_category_not_allowed''
    @ code_if (tcp_RequireReason policy \<and> TrimSpace (intent_Intent (env_Intent env)) = []) ''missing_intent''
    @ code_if (tcp_RequireExpectedObservation policy \<and> nonEmpty (intent_ExpectedObservation (env_Intent env)) = [])
        ''missing_expected_observation''
    @ code_if (admitted \<and> tcp_RequireHypothesisBindingAfterAdmission policy \<and> requiresHypothesisBinding env \<and>
               nonEmpty (intent_HypothesisIDs (env_Intent env)) = []) ''missing_hypothesis_binding''
    @ code_if (tcp_RejectExactRequestRepeat policy \<and>
               list_ex (\<lambda>previous. actionFingerprint H (bte_Envelope previous) = fingerprint) history) ''exact_request_repeat''
    @ code_if (int (tool_repeats H env history) \<ge> tcp_MaxSameToolRepeat policy) ''same_tool_target_repeat_limit''
    @ code_if (int (no_information_streak history) \<ge> tcp_MaxNoInformationStreak policy \<and> env_ToolCategory env \<noteq> BrainToolControl)
        ''no_information_streak''
    @ code_if (tcp_RejectUnchangedConstraintRetry policy \<and> history \<noteq> [] \<and>
               trr_Class (bte_Result (last history)) = ToolResultConstraint \<and>
               actionFingerprint H (bte_Envelope (last history)) = fingerprint) ''unchanged_constraint_retry'')"

definition ToolPolicy_Validate ::
  "hasher \<Rightarrow> ToolCallingPolicy \<Rightarrow> AgentActionEnvelope \<Rightarrow> BrainToolExecution list \<Rightarrow> bool \<Rightarrow> BrainToolCategory set \<Rightarrow> ToolPolicyDecision" where
  "ToolPolicy_Validate H p env history admitted allowedCategories =
     (let reasons = ToolPolicy_reasons H (effective_policy p) env history admitted allowedCategories in
      \<lparr>tpd_Allowed = (reasons = []), tpd_ReasonCodes = unique reasons, tpd_Fingerprint = actionFingerprint H env\<rparr>)"

section \<open>When a call is allowed\<close>

lemma Validate_allowed_iff:
  "tpd_Allowed (ToolPolicy_Validate H p env history admitted cats) \<longleftrightarrow>
     ToolPolicy_reasons H (effective_policy p) env history admitted cats = []"
  by (simp add: ToolPolicy_Validate_def Let_def)

lemma Validate_no_repeat:
  assumes "tpd_Allowed (ToolPolicy_Validate H p env history admitted cats)"
    and "tcp_RejectExactRequestRepeat (effective_policy p)" and "e \<in> set history"
  shows "actionFingerprint H (bte_Envelope e) \<noteq> actionFingerprint H env"
  using assms by (auto simp: Validate_allowed_iff ToolPolicy_reasons_def Let_def list_ex_iff)

lemma Validate_repeat_bound:
  "tpd_Allowed (ToolPolicy_Validate H p env history admitted cats) \<Longrightarrow>
     int (tool_repeats H env history) < tcp_MaxSameToolRepeat (effective_policy p)"
  by (auto simp: Validate_allowed_iff ToolPolicy_reasons_def Let_def)

lemma Validate_streak_bound:
  "tpd_Allowed (ToolPolicy_Validate H p env history admitted cats) \<Longrightarrow> env_ToolCategory env \<noteq> BrainToolControl \<Longrightarrow>
     int (no_information_streak history) < tcp_MaxNoInformationStreak (effective_policy p)"
  by (auto simp: Validate_allowed_iff ToolPolicy_reasons_def Let_def)

text \<open>The gate reports a reason exactly when it refuses: the decision allows the call if and only if
  its list of reason codes is empty, and the reported codes are sorted and distinct.\<close>

theorem tool_policy_decision_consistent:
  "(tpd_Allowed (ToolPolicy_Validate H p env history admitted cats) \<longleftrightarrow>
      tpd_ReasonCodes (ToolPolicy_Validate H p env history admitted cats) = []) \<and>
   sorted (tpd_ReasonCodes (ToolPolicy_Validate H p env history admitted cats)) \<and>
   distinct (tpd_ReasonCodes (ToolPolicy_Validate H p env history admitted cats))"
proof -
  let ?rs = "ToolPolicy_reasons H (effective_policy p) env history admitted cats"
  have "[] \<notin> set ?rs" by (auto simp: ToolPolicy_reasons_def Let_def)
  then have "unique ?rs = [] \<longleftrightarrow> ?rs = []" by (cases ?rs) (auto simp: unique_empty_iff)
  then show ?thesis
    by (simp add: ToolPolicy_Validate_def Let_def uniq.sorted_norm)
qed

section \<open>Histories built through the gate\<close>

text \<open>Each entry carries whether the gate allowed the call.  A refused call is recorded too.\<close>

inductive gated :: "hasher \<Rightarrow> ToolCallingPolicy \<Rightarrow> (BrainToolExecution \<times> bool) list \<Rightarrow> bool"
  for H p where
  gated_empty: "gated H p []"
| gated_call: "gated H p hs \<Longrightarrow>
     ok = tpd_Allowed (ToolPolicy_Validate H p (bte_Envelope e) (map fst hs) admitted cats) \<Longrightarrow>
     gated H p (hs @ [(e, ok)])"

definition allowed_fingerprints :: "hasher \<Rightarrow> (BrainToolExecution \<times> bool) list \<Rightarrow> string list" where
  "allowed_fingerprints H hs = map (\<lambda>(e, _). actionFingerprint H (bte_Envelope e)) (filter snd hs)"

lemma gated_distinct:
  assumes "gated H p hs" and "tcp_RejectExactRequestRepeat (effective_policy p)"
  shows "distinct (allowed_fingerprints H hs)"
  using assms(1)
proof (induction rule: gated.induct)
  case (gated_call hs ok e admitted cats)
  have "actionFingerprint H (bte_Envelope e) \<notin> set (allowed_fingerprints H hs)" if ok
    using Validate_no_repeat [OF _ assms(2)] gated_call.hyps(2) that
    by (fastforce simp: allowed_fingerprints_def)
  then show ?case using gated_call.IH by (auto simp: allowed_fingerprints_def)
qed (simp add: allowed_fingerprints_def)

lemma takeWhile_suffix_length:
  "(\<forall>x\<in>set run. P x) \<Longrightarrow> length (takeWhile P (rev (pre @ run))) \<ge> length run"
  by (simp add: takeWhile_append)

lemma gated_run:
  assumes "gated H p hs"
  shows "hs = pre @ run @ [(e, ok)] @ post \<Longrightarrow> ok \<Longrightarrow>
    (\<forall>x\<in>set (map fst run). same_tool_target H (bte_Envelope e) x) \<Longrightarrow>
    int (length run) < tcp_MaxSameToolRepeat (effective_policy p)"
  using assms
proof (induction arbitrary: post rule: gated.induct)
  case (gated_call hs ok' e' admitted cats)
  show ?case
  proof (cases post rule: rev_cases)
    case Nil
    then have hs: "hs = pre @ run" "e' = e" "ok'" using gated_call.prems by auto
    have "length run \<le> tool_repeats H (bte_Envelope e) (map fst hs)"
      using takeWhile_suffix_length [of "map fst run" "same_tool_target H (bte_Envelope e)" "map fst pre"]
        gated_call.prems(3) hs by (simp add: tool_repeats_def)
    then show ?thesis using Validate_repeat_bound gated_call.hyps(2) hs by fastforce
  next
    case (snoc post' x)
    then show ?thesis using gated_call.IH [of post'] gated_call.prems by auto
  qed
qed simp

text \<open>Loop control for the model's tool calls: in every history built through the gate, no two
  allowed calls have the same request fingerprint, and when a call is allowed the calls right
  before it on the same tool and target are fewer than the policy's repeat limit.\<close>

theorem gated_history_bounded:
  assumes "gated H p hs" and "tcp_RejectExactRequestRepeat (effective_policy p)"
  shows "distinct (allowed_fingerprints H hs) \<and>
    (\<forall>pre run e post. hs = pre @ run @ [(e, True)] @ post \<and>
       (\<forall>x\<in>set (map fst run). same_tool_target H (bte_Envelope e) x) \<longrightarrow>
       int (length run) < tcp_MaxSameToolRepeat (effective_policy p))"
  using gated_distinct [OF assms] gated_run [OF assms(1)] by blast

definition example_call :: "string \<Rightarrow> BrainToolExecution" where
  "example_call obs = \<lparr>bte_Envelope = zero_AgentActionEnvelope\<lparr>env_ActionID := ''a'', env_IncidentID := ''i'',
      env_ToolName := ''query_metrics'', env_ToolCategory := BrainToolEvidence,
      env_Intent := zero_AgentActionIntent\<lparr>intent_Intent := ''check'', intent_ExpectedObservation := [obs]\<rparr>\<rparr>,
     bte_Result = zero_ToolResultRecord\<lparr>trr_NewInformation := True\<rparr>\<rparr>"

definition example_hash :: hasher where
  "example_hash v = (case v of HAction t c r i s \<Rightarrow> t @ Join (intent_ExpectedObservation i) '','' | _ \<Rightarrow> ''h'')"

lemma example_gated:
  "gated example_hash DefaultToolCallingPolicy [(example_call ''latency'', True), (example_call ''errors'', True), (example_call ''errors'', False)]"
proof -
  note simps = ToolPolicy_Validate_def ToolPolicy_reasons_def code_if_def example_call_def example_hash_def
    actionFingerprint_def targetFingerprint_def tool_repeats_def same_tool_target_def no_information_streak_def
    requiresHypothesisBinding_def effective_policy_def DefaultToolCallingPolicy_def zero_defs Let_def
    nonEmpty_empty_iff TrimSpace_def IsSpace_def
  have "gated example_hash DefaultToolCallingPolicy ([] @ [(example_call ''latency'', True)])"
    by (rule gated_call [OF gated_empty, where admitted = False and cats = "{BrainToolEvidence}"]) (simp add: simps)
  from gated_call [OF this, where ok = True and e = "example_call ''errors''" and admitted = False and cats = "{BrainToolEvidence}"]
  have "gated example_hash DefaultToolCallingPolicy [(example_call ''latency'', True), (example_call ''errors'', True)]"
    by (simp add: simps)
  from gated_call [OF this, where ok = False and e = "example_call ''errors''" and admitted = False and cats = "{BrainToolEvidence}"]
  show ?thesis by (simp add: simps)
qed

lemma gated_history_bounded_witness:
  "distinct (allowed_fingerprints example_hash [(example_call ''latency'', True), (example_call ''errors'', True), (example_call ''errors'', False)])"
  by (rule conjunct1 [OF gated_history_bounded [OF example_gated]])
    (simp add: effective_policy_def DefaultToolCallingPolicy_def)

end
