(* ===== verification/Admission.thy ===== *)
theory Admission
  imports Runtime_Hash
begin

text \<open>\<^verbatim>\<open>internal/brainruntime/runtime.go\<close>, part 3: \<^verbatim>\<open>AdmissionService.Admit\<close> and
  \<^verbatim>\<open>resolveTarget\<close>, which decide on server-owned identities only whether a hypothesis may be
  investigated.  The lemmas state the scope of an admitted hypothesis: each target is the incident's own,
  one topology edge away from it, or a registered external resource.\<close>

record AdmissionContext =
  ctx_Incident :: "Incident option"
  ctx_Graph :: "IncidentGraph option"
  ctx_ExternalInventory :: "ResourceRef list"
  ctx_AvailableToolCategories :: "BrainToolCategory list"

definition matchesIncidentTarget :: "ResourceRef \<Rightarrow> Incident \<Rightarrow> bool" where
  "matchesIncidentTarget target i =
     list_ex (\<lambda>v. let value = TrimSpace v in value \<noteq> [] \<and> (value = inc_Service i \<or> value = inc_Resource i))
       [ref_Service target, ref_Resource target]"

definition isOneHopTarget :: "ResourceRef \<Rightarrow> Incident \<Rightarrow> IncidentGraph \<Rightarrow> bool" where
  "isOneHopTarget target i graph =
     (let wanted = {v. v \<in> {ref_Service target, ref_Resource target} \<and> v \<noteq> []};
          roots = {inc_Service i, inc_Resource i}
      in list_ex (\<lambda>edge. (ge_Source edge \<in> roots \<and> ge_Target edge \<in> wanted) \<or>
                         (ge_Target edge \<in> roots \<and> ge_Source edge \<in> wanted)) (ig_Edges graph))"

definition resourceRefMatches :: "ResourceRef \<Rightarrow> ResourceRef \<Rightarrow> bool" where
  "resourceRefMatches a b =
     (if ref_Namespace b \<noteq> [] \<and> ref_Namespace a \<noteq> [] \<and> ref_Namespace a \<noteq> ref_Namespace b then False
      else (ref_Service a \<noteq> [] \<and> ref_Service a = ref_Service b) \<or> (ref_Resource a \<noteq> [] \<and> ref_Resource a = ref_Resource b))"

definition resolveTarget :: "ResourceRef \<Rightarrow> AdmissionContext \<Rightarrow> ResourceScopeDecision" where
  "resolveTarget target ctx =
     (let decision = \<lparr>rsd_Requested = target, rsd_Resolved = target, rsd_Allowed = False, rsd_Reason = []\<rparr> in
      case ctx_Incident ctx of
        None \<Rightarrow> decision\<lparr>rsd_Reason := ''missing_incident''\<rparr>
      | Some i \<Rightarrow>
          if ref_Namespace target \<noteq> [] \<and> ref_Namespace target \<noteq> inc_Namespace i
          then decision\<lparr>rsd_Reason := ''cross_namespace_denied''\<rparr>
          else
            let namespace = (if ref_Namespace target = [] then inc_Namespace i else ref_Namespace target);
                decision = (if ref_Namespace target = [] then decision\<lparr>rsd_Resolved := target\<lparr>ref_Namespace := namespace\<rparr>\<rparr> else decision)
            in if namespace = inc_Namespace i \<and> matchesIncidentTarget target i
               then decision\<lparr>rsd_Allowed := True, rsd_Reason := ''incident_scope''\<rparr>
               else if (case ctx_Graph ctx of None \<Rightarrow> False | Some g \<Rightarrow> isOneHopTarget target i g)
               then decision\<lparr>rsd_Allowed := True, rsd_Reason := ''one_hop_dependency''\<rparr>
               else case find (resourceRefMatches target) (ctx_ExternalInventory ctx) of
                   Some registered \<Rightarrow> decision\<lparr>rsd_Allowed := True, rsd_Resolved := registered, rsd_Reason := ''registered_external_inventory''\<rparr>
                 | None \<Rightarrow> decision\<lparr>rsd_Reason := ''unresolved_target''\<rparr>)"

definition Admit_reasons :: "AgentHypothesis \<Rightarrow> AdmissionContext \<Rightarrow> ResourceScopeDecision list \<Rightarrow> string list" where
  "Admit_reasons h ctx scope =
     code_if (TrimSpace (hyp_ID h) = [] \<or> TrimSpace (hyp_Statement h) = [] \<or> TrimSpace (hyp_Mechanism h) = [] \<or>
              nonEmpty (hyp_EvidenceNeeds h) = [] \<or> nonEmpty (hyp_FalsificationConditions h) = [])
       ''invalid_hypothesis_contract''
   @ code_if (ctx_Incident ctx = None) ''missing_incident_scope''
   @ code_if (ctx_AvailableToolCategories ctx = []) ''no_validation_tool_path''
   @ code_if (hyp_TargetRefs h = []) ''missing_target''
   @ concat (map (\<lambda>d. code_if (\<not> rsd_Allowed d) ''target_out_of_scope'') scope)"

definition Admit :: "AgentHypothesis \<Rightarrow> AdmissionContext \<Rightarrow> time \<Rightarrow> HypothesisAdmission" where
  "Admit h ctx now =
     (let scope = map (\<lambda>t. resolveTarget t ctx) (hyp_TargetRefs h);
          reasons = Admit_reasons h ctx scope;
          level = (if list_ex (\<lambda>d. rsd_Reason d = ''one_hop_dependency'' \<or> rsd_Reason d = ''registered_external_inventory'') scope
                   then AdmissionIndirect else AdmissionDirect)
      in \<lparr>adm_HypothesisRevisionID = hyp_ID h,
          adm_Decision = (if reasons \<noteq> [] then ''REJECTED'' else ''ADMITTED''),
          adm_GroundingLevel = (if reasons \<noteq> [] then AdmissionRejected else level),
          adm_ReasonCodes = unique reasons,
          adm_AllowedToolCategories = foldl appendUnique [] (ctx_AvailableToolCategories ctx),
          adm_ResourceScope = scope,
          adm_OccurredAt = now\<rparr>)"

section \<open>The scope of a target\<close>

lemma wanted_code [simp]: "{v. v \<in> {a, b} \<and> v \<noteq> []} = (if a = [] then {} else {a}) \<union> (if b = [] then {} else {b})"
  by auto

text \<open>What an allowed target may be.\<close>

definition in_scope :: "AdmissionContext \<Rightarrow> Incident \<Rightarrow> ResourceScopeDecision \<Rightarrow> bool" where
  "in_scope ctx i d =
     (rsd_Resolved d \<in> set (ctx_ExternalInventory ctx) \<or>
      (ref_Namespace (rsd_Resolved d) = inc_Namespace i \<and>
        (matchesIncidentTarget (rsd_Requested d) i \<or>
         (\<exists>g. ctx_Graph ctx = Some g \<and> isOneHopTarget (rsd_Requested d) i g))))"

lemma resolveTarget_requested [simp]: "rsd_Requested (resolveTarget t ctx) = t"
  by (simp add: resolveTarget_def Let_def split: option.split)

lemma resolveTarget_in_scope:
  assumes "rsd_Allowed (resolveTarget t ctx)" and "ctx_Incident ctx = Some i"
  shows "in_scope ctx i (resolveTarget t ctx)"
  using assms
  by (auto simp: resolveTarget_def in_scope_def Let_def dest: find_SomeD split: option.splits if_splits)

lemma resolveTarget_cross_namespace:
  assumes "ctx_Incident ctx = Some i" and "ref_Namespace t \<noteq> []" and "ref_Namespace t \<noteq> inc_Namespace i"
  shows "\<not> rsd_Allowed (resolveTarget t ctx)"
  using assms by (simp add: resolveTarget_def)

lemma Admit_decision_iff:
  "adm_Decision (Admit h ctx now) = ''ADMITTED'' \<longleftrightarrow>
     Admit_reasons h ctx (map (\<lambda>t. resolveTarget t ctx) (hyp_TargetRefs h)) = []"
  by (simp add: Admit_def Let_def)

lemma Admit_codes_empty_iff:
  "adm_ReasonCodes (Admit h ctx now) = [] \<longleftrightarrow> adm_Decision (Admit h ctx now) = ''ADMITTED''"
proof -
  let ?rs = "Admit_reasons h ctx (map (\<lambda>t. resolveTarget t ctx) (hyp_TargetRefs h))"
  have "[] \<notin> set ?rs" by (auto simp: Admit_reasons_def)
  then have "unique ?rs = [] \<longleftrightarrow> ?rs = []" by (cases ?rs) (auto simp: unique_empty_iff)
  then show ?thesis by (simp add: Admit_def Let_def)
qed

lemma Admit_scope_map [simp]: "adm_ResourceScope (Admit h ctx now) = map (\<lambda>t. resolveTarget t ctx) (hyp_TargetRefs h)"
  by (simp add: Admit_def Let_def)

text \<open>An admitted hypothesis stays in scope: it has a target, every target was resolved to a registered
  external resource or to a resource in the incident's namespace that is the incident's own or one
  topology edge away, and a rejected hypothesis always carries a reason.\<close>

theorem admitted_hypothesis_in_scope:
  assumes "adm_Decision (Admit h ctx now) = ''ADMITTED''"
  shows "\<exists>i. ctx_Incident ctx = Some i \<and> adm_ResourceScope (Admit h ctx now) \<noteq> [] \<and>
    map rsd_Requested (adm_ResourceScope (Admit h ctx now)) = hyp_TargetRefs h \<and>
    list_all (in_scope ctx i) (adm_ResourceScope (Admit h ctx now)) \<and>
    list_all rsd_Allowed (adm_ResourceScope (Admit h ctx now)) \<and> adm_ReasonCodes (Admit h ctx now) = []"
proof -
  have none: "Admit_reasons h ctx (map (\<lambda>t. resolveTarget t ctx) (hyp_TargetRefs h)) = []"
    using assms by (simp add: Admit_decision_iff)
  then obtain i where i: "ctx_Incident ctx = Some i" by (cases "ctx_Incident ctx") (auto simp: Admit_reasons_def)
  have ok: "rsd_Allowed (resolveTarget t ctx)" if "t \<in> set (hyp_TargetRefs h)" for t
    using none that by (auto simp: Admit_reasons_def)
  have "hyp_TargetRefs h \<noteq> []" using none by (auto simp: Admit_reasons_def)
  then show ?thesis
    using i ok assms by (simp add: list_all_iff resolveTarget_in_scope Admit_codes_empty_iff map_idI)
qed

definition example_hypothesis :: AgentHypothesis where
  "example_hypothesis = zero_AgentHypothesis\<lparr>hyp_ID := ''h1'', hyp_LineageID := ''h1'', hyp_Version := 1,
     hyp_Statement := ''connection pool exhausted'', hyp_Mechanism := ''pool limit'',
     hyp_TargetRefs := [zero_ResourceRef\<lparr>ref_Service := ''checkout''\<rparr>],
     hyp_EvidenceNeeds := [''pool metrics''], hyp_FalsificationConditions := [''pool idle''],
     hyp_ModelConfidence := 1/2\<rparr>"

definition example_admission_context :: AdmissionContext where
  "example_admission_context = \<lparr>ctx_Incident = Some (zero_Incident\<lparr>inc_Namespace := ''shop'', inc_Service := ''checkout''\<rparr>),
     ctx_Graph = None, ctx_ExternalInventory = [], ctx_AvailableToolCategories = [BrainToolEvidence]\<rparr>"

lemma example_admitted: "adm_Decision (Admit example_hypothesis example_admission_context now) = ''ADMITTED''"
  by (simp add: Admit_decision_iff Admit_reasons_def example_hypothesis_def example_admission_context_def zero_defs
      nonEmpty_empty_iff TrimSpace_def IsSpace_def code_if_def resolveTarget_def matchesIncidentTarget_def Let_def)

lemma admitted_hypothesis_in_scope_witness:
  "\<exists>i. ctx_Incident example_admission_context = Some i \<and>
     list_all (in_scope example_admission_context i) (adm_ResourceScope (Admit example_hypothesis example_admission_context 0))"
  using admitted_hypothesis_in_scope [OF example_admitted] by blast

text \<open>A target named in another namespace than the incident's is never admitted, whatever the topology
  and the external inventory contain.\<close>

theorem foreign_namespace_never_admitted:
  assumes "ctx_Incident ctx = Some i" and "t \<in> set (hyp_TargetRefs h)"
    and "ref_Namespace t \<noteq> []" and "ref_Namespace t \<noteq> inc_Namespace i"
  shows "adm_Decision (Admit h ctx now) = ''REJECTED'' \<and> ''target_out_of_scope'' \<in> set (adm_ReasonCodes (Admit h ctx now))"
proof -
  have "\<not> rsd_Allowed (resolveTarget t ctx)" using resolveTarget_cross_namespace assms by blast
  then have "''target_out_of_scope'' \<in> set (Admit_reasons h ctx (map (\<lambda>t. resolveTarget t ctx) (hyp_TargetRefs h)))"
    using assms(2) by (auto simp: Admit_reasons_def)
  then show ?thesis by (auto simp: Admit_def Let_def)
qed

lemma foreign_namespace_never_admitted_witness:
  "adm_Decision (Admit (example_hypothesis\<lparr>hyp_TargetRefs := [zero_ResourceRef\<lparr>ref_Namespace := ''kube-system'', ref_Service := ''checkout''\<rparr>]\<rparr>)
     example_admission_context 0) = ''REJECTED''"
  by (rule conjunct1 [OF foreign_namespace_never_admitted
        [where i = "zero_Incident\<lparr>inc_Namespace := ''shop'', inc_Service := ''checkout''\<rparr>"
         and t = "zero_ResourceRef\<lparr>ref_Namespace := ''kube-system'', ref_Service := ''checkout''\<rparr>"]])
    (simp_all add: example_admission_context_def)

end
