(* ===== verification/Grounding.thy ===== *)
theory Grounding
  imports Runtime_Hash
begin

text \<open>\<^verbatim>\<open>internal/brainruntime/runtime.go\<close>, part 4: the validation of the model's evidence
  attributions (\<^verbatim>\<open>ValidateEvidenceAttributions\<close>) and the grounding of a hypothesis in the
  current evidence (\<^verbatim>\<open>Grounder.Validate\<close>).  The lemmas show that attributions cite each current
  evidence item at most once, that every coverage and support figure lies between 0 and 1, and
  what a SUPPORTED level certifies.\<close>

section \<open>Attributions\<close>

definition byID :: "Evidence list \<Rightarrow> Evidence table" where
  "byID evidence = foldl (\<lambda>m item. if ev_ID item \<noteq> [] then m(ev_ID item \<mapsto> item) else m) Map.empty evidence"

datatype attribution_error =
    HypothesisRevisionRequired
  | NoAttributions
  | NoEvidenceID nat
  | UnknownEvidence string
  | DuplicateAttribution string
  | InvalidRelation string EvidenceAttributionRelation
  | WeightOutOfRange string
  | ReasonRequired string

definition attribution_of :: "string \<Rightarrow> string \<Rightarrow> string \<Rightarrow> time \<Rightarrow> nat \<Rightarrow> EvidenceAttributionIntent \<Rightarrow> HypothesisEvidenceAttribution" where
  "attribution_of hid turn snapshot now index intent =
     \<lparr>att_ID = ''attribution:'' @ hid @ '':'' @ Itoa (UnixNano now) @ '':'' @ Itoa (int index),
      att_HypothesisRevisionID = hid, att_EvidenceID = TrimSpace (eai_EvidenceID intent),
      att_Relation = eai_Relation intent, att_Weight = eai_Weight intent, att_Reason = TrimSpace (eai_Reason intent),
      att_AttributedByTurn = turn, att_EvidenceSnapshotHash = snapshot, att_ValidatedAt = now\<rparr>"

fun attribution_loop ::
  "(nat \<Rightarrow> EvidenceAttributionIntent \<Rightarrow> HypothesisEvidenceAttribution) \<Rightarrow> Evidence table \<Rightarrow> string list \<Rightarrow> nat \<Rightarrow>
   EvidenceAttributionIntent list \<Rightarrow> attribution_error + HypothesisEvidenceAttribution list" where
  "attribution_loop mk ids seen index [] = Inr []"
| "attribution_loop mk ids seen index (intent # rest) =
     (let eid = TrimSpace (eai_EvidenceID intent) in
      if eid = [] then Inl (NoEvidenceID (index + 1))
      else if ids eid = None then Inl (UnknownEvidence eid)
      else if eid \<in> set seen then Inl (DuplicateAttribution eid)
      else if eai_Relation intent \<noteq> EvidenceSupports \<and> eai_Relation intent \<noteq> EvidenceContradicts \<and> eai_Relation intent \<noteq> EvidenceNeutral
      then Inl (InvalidRelation eid (eai_Relation intent))
      else if eai_Weight intent < 0 \<or> eai_Weight intent > 1 then Inl (WeightOutOfRange eid)
      else if TrimSpace (eai_Reason intent) = [] then Inl (ReasonRequired eid)
      else (case attribution_loop mk ids (eid # seen) (Suc index) rest of
              Inl e \<Rightarrow> Inl e
            | Inr out \<Rightarrow> Inr (mk index intent # out)))"

definition ValidateEvidenceAttributions ::
  "hasher \<Rightarrow> string \<Rightarrow> string \<Rightarrow> Evidence list \<Rightarrow> EvidenceAttributionIntent list \<Rightarrow> time
     \<Rightarrow> attribution_error + HypothesisEvidenceAttribution list" where
  "ValidateEvidenceAttributions H hid turn evidence intents now =
     (if TrimSpace hid = [] then Inl HypothesisRevisionRequired
      else if intents = [] then Inl NoAttributions
      else attribution_loop (attribution_of hid turn (EvidenceSnapshotHash H evidence) now) (byID evidence) [] 0 intents)"

definition AttributedEvidenceIDs :: "HypothesisEvidenceAttribution list \<Rightarrow> EvidenceAttributionRelation \<Rightarrow> string list" where
  "AttributedEvidenceIDs attributions relation = unique (map att_EvidenceID (filter (\<lambda>a. att_Relation a = relation) attributions))"

definition valid_attribution :: "Evidence table \<Rightarrow> HypothesisEvidenceAttribution \<Rightarrow> bool" where
  "valid_attribution ids a =
     (ids (att_EvidenceID a) \<noteq> None \<and> att_Relation a \<in> {EvidenceSupports, EvidenceContradicts, EvidenceNeutral} \<and>
      0 \<le> att_Weight a \<and> att_Weight a \<le> 1 \<and> att_Reason a \<noteq> [])"

lemma attribution_loop_ok:
  assumes "attribution_loop (attribution_of hid turn snapshot now) ids seen index intents = Inr out"
  shows "list_all (valid_attribution ids) out \<and> distinct (map att_EvidenceID out) \<and>
    set (map att_EvidenceID out) \<inter> set seen = {} \<and> length out = length intents"
  using assms
proof (induction intents arbitrary: seen index out)
  case (Cons intent rest)
  let ?eid = "TrimSpace (eai_EvidenceID intent)"
  from Cons.prems obtain out' where
    rec: "attribution_loop (attribution_of hid turn snapshot now) ids (?eid # seen) (Suc index) rest = Inr out'"
    and out: "out = attribution_of hid turn snapshot now index intent # out'"
    and guards: "ids ?eid \<noteq> None" "?eid \<notin> set seen" "0 \<le> eai_Weight intent" "eai_Weight intent \<le> 1"
      "TrimSpace (eai_Reason intent) \<noteq> []"
      "eai_Relation intent \<in> {EvidenceSupports, EvidenceContradicts, EvidenceNeutral}"
    by (auto simp: Let_def split: if_splits sum.splits)
  from Cons.IH [OF rec] guards show ?case
    by (auto simp: out attribution_of_def valid_attribution_def)
qed simp

text \<open>Accepted attributions are sound: each cites an item of the current evidence, no item is cited
  twice, relations are in the closed enumeration, weights lie in [0, 1], reasons are not empty, and
  every attribution carries the fingerprint of the evidence it was validated against.\<close>

theorem accepted_attributions_sound:
  assumes "ValidateEvidenceAttributions H hid turn evidence intents now = Inr out"
  shows "list_all (valid_attribution (byID evidence)) out \<and> distinct (map att_EvidenceID out) \<and> out \<noteq> [] \<and>
    length out = length intents \<and> length out \<le> length evidence"
proof -
  from assms have loop: "attribution_loop (attribution_of hid turn (EvidenceSnapshotHash H evidence) now) (byID evidence) [] 0 intents = Inr out"
    and ne: "intents \<noteq> []" by (auto simp: ValidateEvidenceAttributions_def split: if_splits)
  note ok = attribution_loop_ok [OF loop]
  have dom: "dom (foldl (\<lambda>m item. if ev_ID item \<noteq> [] then m(ev_ID item \<mapsto> item) else m) m es) \<subseteq> dom m \<union> ev_ID ` set es" for m es
    by (induction es arbitrary: m) (force split: if_splits)+
  have "set (map att_EvidenceID out) \<subseteq> ev_ID ` set evidence"
    using ok dom [of Map.empty evidence] by (force simp: list_all_iff valid_attribution_def byID_def)
  then have "card (set (map att_EvidenceID out)) \<le> card (ev_ID ` set evidence)" by (intro card_mono) auto
  also have "\<dots> \<le> length evidence" by (meson card_image_le card_length finite_set le_trans)
  finally have "length out \<le> length evidence" using ok distinct_card by fastforce
  then show ?thesis using ok ne by auto
qed

definition example_evidence :: "Evidence list" where
  "example_evidence = [zero_Evidence\<lparr>ev_ID := ''e1'', ev_Source := ''prometheus'', ev_QualityScore := 4/5\<rparr>,
     zero_Evidence\<lparr>ev_ID := ''e2'', ev_Source := ''k8s'', ev_QualityScore := 9/10\<rparr>]"

definition example_intents :: "EvidenceAttributionIntent list" where
  "example_intents = [\<lparr>eai_EvidenceID = ''e1'', eai_Relation = EvidenceSupports, eai_Weight = 1, eai_Reason = ''saturated''\<rparr>,
     \<lparr>eai_EvidenceID = ''e2'', eai_Relation = EvidenceSupports, eai_Weight = 1/2, eai_Reason = ''restarts''\<rparr>]"

definition example_attributions :: "HypothesisEvidenceAttribution list" where
  "example_attributions = map (\<lambda>(i, x). attribution_of ''h1'' ''t1'' ''s'' 0 i x) [(0, example_intents ! 0), (1, example_intents ! 1)]"

lemma example_validate:
  "ValidateEvidenceAttributions (\<lambda>_. ''s'') ''h1'' ''t1'' example_evidence example_intents 0 = Inr example_attributions"
  by (simp add: ValidateEvidenceAttributions_def example_evidence_def example_intents_def example_attributions_def
      byID_def zero_defs EvidenceSnapshotHash_def TrimSpace_def IsSpace_def Let_def)

lemma accepted_attributions_sound_witness:
  "list_all (valid_attribution (byID example_evidence)) example_attributions \<and> distinct (map att_EvidenceID example_attributions)"
  using accepted_attributions_sound [OF example_validate] by blast

section \<open>The grounder\<close>

record ValidationInput =
  vi_Attributions :: "HypothesisEvidenceAttribution list"
  vi_FulfilledEvidenceNeeds :: "string list"
  vi_MissingObservations :: "string list"
  vi_ExpectedCausalNodeIDs :: "string list"
  vi_CausalClaim :: bool
  vi_TargetScopeDecisions :: "ResourceScopeDecision list"
  vi_WindowStart :: time
  vi_WindowEnd :: time

definition existingIDs :: "string list \<Rightarrow> Evidence table \<Rightarrow> string list" where
  "existingIDs ids evidence = unique (filter (\<lambda>i. evidence i \<noteq> None) (nonEmpty ids))"

definition evidenceStrength :: "Evidence \<Rightarrow> rat" where
  "evidenceStrength item =
     (let value = ev_QualityScore item;
          value = (if value \<le> 0 then ev_Confidence item else value);
          value = (if value \<le> 0 then 1 else value)
      in if value > 1 then 1 else value)"

definition boundedIndependentSupport :: "rat list \<Rightarrow> rat" where
  "boundedIndependentSupport values = 1 - foldl (\<lambda>remaining value. remaining * (1 - value)) 1 values"

definition inWindow :: "Evidence \<Rightarrow> time \<Rightarrow> time \<Rightarrow> bool" where
  "inWindow item start end' =
     (if IsZero start \<and> IsZero end' then True
      else let observed = ev_ObservedAt item;
               observed = (if IsZero observed then ev_Timestamp item else observed);
               observed = (if IsZero observed then ev_CollectedAt item else observed)
           in (IsZero start \<or> \<not> observed < start) \<and> (IsZero end' \<or> \<not> observed > end'))"

definition ratio :: "int \<Rightarrow> int \<Rightarrow> rat" where
  "ratio numerator denominator =
     (if denominator = 0 then 0
      else let value = of_int numerator / of_int denominator in if value > 1 then 1 else value)"

definition canonicalSource :: "string \<Rightarrow> string" where
  "canonicalSource source0 =
     (let source = ToLower (TrimSpace source0) in
      if source \<in> {''prometheus'', ''metric'', ''metrics''} then ''metric''
      else if source \<in> {''loki'', ''log'', ''logs''} then ''log''
      else if source \<in> {''jaeger'', ''tempo'', ''trace'', ''traces''} then ''trace''
      else if source \<in> {''kubernetes'', ''k8s''} then ''kubernetes''
      else source)"

definition evidence_at :: "Evidence table \<Rightarrow> string \<Rightarrow> Evidence" where
  "evidence_at ids i = mget zero_Evidence ids i"

definition causalPathCoverage :: "string list \<Rightarrow> string list \<Rightarrow> Evidence table \<Rightarrow> rat" where
  "causalPathCoverage expected0 supportIDs evidence =
     (let expected = nonEmpty expected0 in
      if expected = [] then 0
      else let observed = set (concat (map (\<lambda>i. ev_CausalNodeIDs (evidence_at evidence i)) supportIDs))
           in ratio (int (length (filter (\<lambda>node. node \<in> observed) expected))) (int (length expected)))"

definition targetCoverage :: "ResourceScopeDecision list \<Rightarrow> int \<Rightarrow> rat" where
  "targetCoverage decisions targets =
     (if targets = 0 then 0 else ratio (int (length (filter rsd_Allowed decisions))) targets)"

text \<open>The map from canonical source to its strongest support is an association list; the product over
  its values does not depend on the iteration order.\<close>

fun bump :: "string \<Rightarrow> rat \<Rightarrow> (string \<times> rat) list \<Rightarrow> (string \<times> rat) list" where
  "bump source strength [] = (if strength > 0 then [(source, strength)] else [])"
| "bump source strength ((s, v) # rest) =
     (if s = source then (s, if strength > v then strength else v) # rest else (s, v) # bump source strength rest)"

definition source_support :: "Evidence table \<Rightarrow> string list \<Rightarrow> (string \<times> rat) list" where
  "source_support ids supportIDs =
     foldl (\<lambda>m i. bump (canonicalSource (ev_Source (evidence_at ids i))) (evidenceStrength (evidence_at ids i)) m) [] supportIDs"

definition grounding_level :: "string list \<Rightarrow> string list \<Rightarrow> rat \<Rightarrow> rat \<Rightarrow> rat \<Rightarrow> rat \<Rightarrow> bool \<Rightarrow> rat \<Rightarrow> GroundingLevel" where
  "grounding_level supportIDs contradictIDs contradictionRatio needs targets temporal causalClaim causal =
     (if contradictIDs \<noteq> [] \<and> (supportIDs = [] \<or> contradictionRatio > 1/2) then GroundingRefuted
      else if supportIDs \<noteq> [] \<and> needs \<ge> 1 \<and> targets \<ge> 1 \<and> temporal \<ge> 4/5 \<and> (\<not> causalClaim \<or> causal \<ge> 1) then GroundingSupported
      else if supportIDs \<noteq> [] \<or> contradictIDs \<noteq> [] then GroundingPartial
      else GroundingUnknown)"

definition attributed_ids :: "ValidationInput \<Rightarrow> Evidence list \<Rightarrow> EvidenceAttributionRelation \<Rightarrow> string list" where
  "attributed_ids input evidence relation = existingIDs (AttributedEvidenceIDs (vi_Attributions input) relation) (byID evidence)"

definition contradiction_ratio :: "string list \<Rightarrow> string list \<Rightarrow> rat" where
  "contradiction_ratio supportIDs contradictIDs =
     (let total = length supportIDs + length contradictIDs in
      if total > 0 then of_nat (length contradictIDs) / of_nat total else 0)"

definition evidence_need_coverage :: "AgentHypothesis \<Rightarrow> ValidationInput \<Rightarrow> rat" where
  "evidence_need_coverage hypothesis input =
     (let needs = nonEmpty (hyp_EvidenceNeeds hypothesis) in
      ratio (int (length (intersection needs (nonEmpty (vi_FulfilledEvidenceNeeds input))))) (int (length needs)))"

definition temporal_coverage :: "ValidationInput \<Rightarrow> Evidence table \<Rightarrow> string list \<Rightarrow> rat" where
  "temporal_coverage input ids supportIDs =
     (let currentSupport = length (filter (\<lambda>i. inWindow (evidence_at ids i) (vi_WindowStart input) (vi_WindowEnd input)) supportIDs)
      in ratio (int currentSupport) (int (length supportIDs)))"

definition Grounder_Validate ::
  "hasher \<Rightarrow> AgentHypothesis \<Rightarrow> Evidence list \<Rightarrow> ValidationInput \<Rightarrow> HypothesisGrounding option \<Rightarrow> time
     \<Rightarrow> HypothesisGrounding \<times> GroundingDelta" where
  "Grounder_Validate H hypothesis evidence input previous now =
     (let ids = byID evidence;
          supportIDs = attributed_ids input evidence EvidenceSupports;
          contradictIDs = attributed_ids input evidence EvidenceContradicts;
          neutralIDs = attributed_ids input evidence EvidenceNeutral;
          attributionIDs = map att_ID (vi_Attributions input);
          sourceSupport = source_support ids supportIDs;
          support = boundedIndependentSupport (map snd sourceSupport);
          contradictionRatio = contradiction_ratio supportIDs contradictIDs;
          evidenceNeedCoverage = evidence_need_coverage hypothesis input;
          causalCoverage = causalPathCoverage (vi_ExpectedCausalNodeIDs input) supportIDs ids;
          targets = targetCoverage (vi_TargetScopeDecisions input) (int (length (hyp_TargetRefs hypothesis)));
          temporalCoverage = temporal_coverage input ids supportIDs;
          coverage = \<lparr>gcov_EvidenceNeedCoverage = evidenceNeedCoverage, gcov_CausalPathCoverage = causalCoverage,
            gcov_TargetScopeCoverage = targets, gcov_TemporalCoverage = temporalCoverage\<rparr>;
          level = grounding_level supportIDs contradictIDs contradictionRatio evidenceNeedCoverage targets temporalCoverage
            (vi_CausalClaim input) causalCoverage;
          grounding = \<lparr>gr_ID = ''grounding:'' @ hyp_ID hypothesis @ '':'' @ Itoa (UnixNano now), gr_HypothesisRevisionID = hyp_ID hypothesis,
            gr_Level = level,
            gr_Evidence = \<lparr>gre_SupportingEvidenceIDs = supportIDs, gre_ContradictingEvidenceIDs = contradictIDs,
              gre_NeutralEvidenceIDs = neutralIDs, gre_AttributionIDs = unique attributionIDs,
              gre_IndependentSourceCount = int (length sourceSupport), gre_EvidenceSupport = support,
              gre_ContradictionRatio = contradictionRatio\<rparr>,
            gr_Coverage = coverage, gr_MissingObservations = nonEmpty (vi_MissingObservations input), gr_ValidatedAt = now,
            gr_EvidenceSnapshotHash = EvidenceSnapshotHash H evidence, gr_CausalCoverageApplicable = vi_CausalClaim input\<rparr>;
          delta = zero_GroundingDelta\<lparr>gd_HypothesisRevisionID := hyp_ID hypothesis, gd_CurrentLevel := level, gd_CurrentCoverage := coverage,
            gd_NewSupportingEvidenceIDs := supportIDs, gd_NewContradictingEvidenceIDs := contradictIDs,
            gd_EvidenceChange := supportIDs @ contradictIDs, gd_ConflictDetected := supportIDs \<noteq> [] \<and> contradictIDs \<noteq> [],
            gd_SuggestedRevisionNeed := (level = GroundingRefuted), gd_OccurredAt := now\<rparr>
      in (grounding,
          case previous of
            None \<Rightarrow> delta
          | Some p \<Rightarrow>
              let newSupport = difference supportIDs (gre_SupportingEvidenceIDs (gr_Evidence p));
                  newContra = difference contradictIDs (gre_ContradictingEvidenceIDs (gr_Evidence p))
              in delta\<lparr>gd_PreviousLevel := gr_Level p, gd_PreviousCoverage := gr_Coverage p,
                   gd_NewSupportingEvidenceIDs := newSupport, gd_NewContradictingEvidenceIDs := newContra,
                   gd_EvidenceChange := newSupport @ newContra\<rparr>))"

lemma Grounder_Validate_fields:
  assumes "(g, d) = Grounder_Validate H hypothesis evidence input previous now"
  shows "gre_SupportingEvidenceIDs (gr_Evidence g) = attributed_ids input evidence EvidenceSupports"
    and "gre_ContradictingEvidenceIDs (gr_Evidence g) = attributed_ids input evidence EvidenceContradicts"
    and "gre_IndependentSourceCount (gr_Evidence g) = int (length (source_support (byID evidence) (attributed_ids input evidence EvidenceSupports)))"
    and "gre_EvidenceSupport (gr_Evidence g) = boundedIndependentSupport (map snd (source_support (byID evidence) (attributed_ids input evidence EvidenceSupports)))"
    and "gre_ContradictionRatio (gr_Evidence g) = contradiction_ratio (attributed_ids input evidence EvidenceSupports) (attributed_ids input evidence EvidenceContradicts)"
    and "gcov_EvidenceNeedCoverage (gr_Coverage g) = evidence_need_coverage hypothesis input"
    and "gcov_CausalPathCoverage (gr_Coverage g) = causalPathCoverage (vi_ExpectedCausalNodeIDs input) (attributed_ids input evidence EvidenceSupports) (byID evidence)"
    and "gcov_TargetScopeCoverage (gr_Coverage g) = targetCoverage (vi_TargetScopeDecisions input) (int (length (hyp_TargetRefs hypothesis)))"
    and "gcov_TemporalCoverage (gr_Coverage g) = temporal_coverage input (byID evidence) (attributed_ids input evidence EvidenceSupports)"
    and "gr_Level g = grounding_level (attributed_ids input evidence EvidenceSupports) (attributed_ids input evidence EvidenceContradicts)
          (contradiction_ratio (attributed_ids input evidence EvidenceSupports) (attributed_ids input evidence EvidenceContradicts))
          (evidence_need_coverage hypothesis input) (targetCoverage (vi_TargetScopeDecisions input) (int (length (hyp_TargetRefs hypothesis))))
          (temporal_coverage input (byID evidence) (attributed_ids input evidence EvidenceSupports)) (vi_CausalClaim input)
          (causalPathCoverage (vi_ExpectedCausalNodeIDs input) (attributed_ids input evidence EvidenceSupports) (byID evidence))"
    and "gr_EvidenceSnapshotHash g = EvidenceSnapshotHash H evidence"
    and "gr_HypothesisRevisionID g = hyp_ID hypothesis"
    and "gr_CausalCoverageApplicable g = vi_CausalClaim input"
  using assms by (simp_all add: Grounder_Validate_def Let_def)

lemmas grounding_fields = Grounder_Validate_fields

section \<open>Bounds\<close>

lemma evidenceStrength_bounds: "0 < evidenceStrength e" "evidenceStrength e \<le> 1"
  by (auto simp: evidenceStrength_def Let_def)

lemma ratio_bounds: "0 \<le> n \<Longrightarrow> 0 \<le> d \<Longrightarrow> 0 \<le> ratio n d" "ratio n d \<le> 1"
  by (auto simp: ratio_def Let_def)

lemma ratio_ge_1_iff: "0 < d \<Longrightarrow> ratio n d \<ge> 1 \<longleftrightarrow> d \<le> n"
  by (auto simp: ratio_def Let_def le_divide_eq divide_less_eq)

definition unit_values :: "(string \<times> rat) list \<Rightarrow> bool" where
  "unit_values m = (\<forall>v\<in>snd ` set m. 0 < v \<and> v \<le> 1)"

lemma bump_unit: "unit_values m \<Longrightarrow> 0 < q \<Longrightarrow> q \<le> 1 \<Longrightarrow> unit_values (bump s q m)"
  by (induction s q m rule: bump.induct) (auto simp: unit_values_def)

lemma bump_keys: "0 < q \<Longrightarrow> fst ` set (bump s q m) = insert s (fst ` set m)"
  by (induction s q m rule: bump.induct) auto

lemma bump_distinct: "distinct (map fst m) \<Longrightarrow> 0 < q \<Longrightarrow> distinct (map fst (bump s q m))"
proof (induction s q m rule: bump.induct)
  case (2 source q s v rest)
  then show ?case by (auto simp: bump_keys)
qed simp

lemma source_support_props:
  "unit_values (source_support ids xs) \<and> distinct (map fst (source_support ids xs)) \<and>
   fst ` set (source_support ids xs) = (\<lambda>i. canonicalSource (ev_Source (evidence_at ids i))) ` set xs"
proof (induction xs rule: rev_induct)
  case Nil
  then show ?case by (simp add: source_support_def unit_values_def)
next
  case (snoc x xs)
  then show ?case
    by (auto simp: source_support_def bump_unit bump_distinct bump_keys evidenceStrength_bounds)
qed

lemma remaining_bounds:
  assumes "\<forall>v\<in>set vs. 0 \<le> v \<and> v \<le> (1::rat)" and "0 \<le> a" and "a \<le> 1"
  shows "0 \<le> foldl (\<lambda>r v. r * (1 - v)) a vs \<and> foldl (\<lambda>r v. r * (1 - v)) a vs \<le> 1"
  using assms
proof (induction vs arbitrary: a)
  case (Cons v vs)
  have "0 \<le> a * (1 - v)" using Cons.prems by simp
  moreover have "a * (1 - v) \<le> 1" using Cons.prems mult_le_one [of a "1 - v"] by simp
  ultimately show ?case using Cons.IH [of "a * (1 - v)"] Cons.prems by simp
qed simp

lemma support_bounds: "unit_values m \<Longrightarrow> 0 \<le> boundedIndependentSupport (map snd m) \<and> boundedIndependentSupport (map snd m) \<le> 1"
  using remaining_bounds [of "map snd m" 1] by (force simp: boundedIndependentSupport_def unit_values_def)

lemma source_support_length:
  "0 \<le> int (length (source_support ids xs)) \<and> int (length (source_support ids xs)) \<le> int (length xs)"
proof -
  have "length (source_support ids xs) = card (fst ` set (source_support ids xs))"
    using source_support_props [of ids xs] by (metis distinct_card length_map list.set_map)
  also have "\<dots> \<le> card (set xs)" using source_support_props [of ids xs] by (metis card_image_le finite_set)
  also have "\<dots> \<le> length xs" by (rule card_length)
  finally show ?thesis by simp
qed

text \<open>Every figure of a grounding is a proportion: evidence support, contradiction ratio and the four
  coverages all lie in [0, 1], and the number of independent sources does not exceed the number
  of supporting evidence items.\<close>

theorem grounding_figures_bounded:
  assumes "(g, d) = Grounder_Validate H hypothesis evidence input previous now"
  shows "gre_EvidenceSupport (gr_Evidence g) \<in> {0..1} \<and> gre_ContradictionRatio (gr_Evidence g) \<in> {0..1} \<and>
    gcov_EvidenceNeedCoverage (gr_Coverage g) \<in> {0..1} \<and> gcov_CausalPathCoverage (gr_Coverage g) \<in> {0..1} \<and>
    gcov_TargetScopeCoverage (gr_Coverage g) \<in> {0..1} \<and> gcov_TemporalCoverage (gr_Coverage g) \<in> {0..1} \<and>
    0 \<le> gre_IndependentSourceCount (gr_Evidence g) \<and>
    gre_IndependentSourceCount (gr_Evidence g) \<le> int (length (gre_SupportingEvidenceIDs (gr_Evidence g)))"
proof -
  have contra: "contradiction_ratio xs ys \<in> {0..1}" for xs ys
    by (auto simp: contradiction_ratio_def Let_def divide_le_eq)
  have needs: "evidence_need_coverage hypothesis input \<in> {0..1}"
    by (simp add: evidence_need_coverage_def Let_def ratio_bounds)
  have temporal: "temporal_coverage input ids xs \<in> {0..1}" for ids xs
    by (simp add: temporal_coverage_def Let_def ratio_bounds)
  have causal: "causalPathCoverage exp xs ids \<in> {0..1}" for exp xs ids
    by (simp add: causalPathCoverage_def Let_def ratio_bounds)
  have targets: "targetCoverage ds (int n) \<in> {0..1}" for ds n
    by (simp add: targetCoverage_def ratio_bounds)
  have support: "boundedIndependentSupport (map snd (source_support ids xs)) \<in> {0..1}" for ids xs
    using support_bounds source_support_props by auto
  show ?thesis
    unfolding grounding_fields [OF assms]
    using contra needs temporal causal targets support source_support_length by blast
qed

definition example_input :: ValidationInput where
  "example_input = \<lparr>vi_Attributions = example_attributions, vi_FulfilledEvidenceNeeds = [''pool metrics''], vi_MissingObservations = [],
     vi_ExpectedCausalNodeIDs = [], vi_CausalClaim = False,
     vi_TargetScopeDecisions = [zero_ResourceScopeDecision\<lparr>rsd_Allowed := True\<rparr>], vi_WindowStart = 0, vi_WindowEnd = 0\<rparr>"

definition grounded_hypothesis :: AgentHypothesis where
  "grounded_hypothesis = zero_AgentHypothesis\<lparr>hyp_ID := ''h1'', hyp_TargetRefs := [zero_ResourceRef\<lparr>ref_Service := ''checkout''\<rparr>],
     hyp_EvidenceNeeds := [''pool metrics'']\<rparr>"

definition example_grounding :: HypothesisGrounding where
  "example_grounding = fst (Grounder_Validate (\<lambda>_. ''s'') grounded_hypothesis example_evidence example_input None 0)"

lemma example_grounding_pair:
  "(example_grounding, snd (Grounder_Validate (\<lambda>_. ''s'') grounded_hypothesis example_evidence example_input None 0)) =
   Grounder_Validate (\<lambda>_. ''s'') grounded_hypothesis example_evidence example_input None 0"
  by (simp add: example_grounding_def)

lemma grounding_figures_bounded_witness:
  "gre_EvidenceSupport (gr_Evidence example_grounding) \<in> {0..1}"
  using grounding_figures_bounded [OF example_grounding_pair] by blast

section \<open>What SUPPORTED certifies\<close>

lemma need_coverage_complete:
  assumes "evidence_need_coverage h input \<ge> 1"
  shows "nonEmpty (hyp_EvidenceNeeds h) \<noteq> [] \<and> set (nonEmpty (hyp_EvidenceNeeds h)) \<subseteq> set (nonEmpty (vi_FulfilledEvidenceNeeds input))"
proof -
  let ?n = "nonEmpty (hyp_EvidenceNeeds h)" and ?f = "nonEmpty (vi_FulfilledEvidenceNeeds input)"
  have ne: "?n \<noteq> []" using assms by (auto simp: evidence_need_coverage_def ratio_def Let_def)
  then have "length ?n \<le> length (intersection ?n ?f)"
    using assms by (simp add: evidence_need_coverage_def Let_def ratio_ge_1_iff)
  also have "length (intersection ?n ?f) = card (set ?n \<inter> set ?f)"
    by (metis distinct_card intersection_def distinct_unique(1) set_intersection trimmed.norm_no_empty Diff_insert0 Diff_empty IntD1)
  finally have "card (set ?n) \<le> card (set ?n \<inter> set ?f)" by (simp only: distinct_card [OF distinct_unique(2)])
  then have "set ?n \<inter> set ?f = set ?n" by (intro card_seteq) auto
  then show ?thesis using ne by blast
qed

lemma attributed_ids_current:
  "i \<in> set (attributed_ids input evidence r) \<Longrightarrow>
     byID evidence i \<noteq> None \<and> (\<exists>a\<in>set (vi_Attributions input). att_Relation a = r \<and> TrimSpace (att_EvidenceID a) = i)"
  by (auto simp: attributed_ids_def existingIDs_def AttributedEvidenceIDs_def)

lemma grounding_level_supported_iff:
  "grounding_level ss cs cr needs targets temporal claim causal = GroundingSupported \<longleftrightarrow>
     ss \<noteq> [] \<and> \<not> (cs \<noteq> [] \<and> cr > 1/2) \<and> needs \<ge> 1 \<and> targets \<ge> 1 \<and> temporal \<ge> 4/5 \<and> (claim \<longrightarrow> causal \<ge> 1)"
  by (auto simp: grounding_level_def)

lemma target_coverage_complete:
  assumes "targetCoverage ds (int n) \<ge> 1"
  shows "0 < n \<and> n \<le> length (filter rsd_Allowed ds)"
  using assms ratio_ge_1_iff [of "int n" "int (length (filter rsd_Allowed ds))"]
  by (cases n) (auto simp: targetCoverage_def)

text \<open>A hypothesis is grounded as SUPPORTED only on current evidence: it has supporting items, each one an
  item of the evidence that was cited as support; it states evidence needs and all of them are fulfilled;
  at least as many allowed scope decisions as targets were supplied; contradicting items do not
  outnumber the supporting ones; and four fifths of the support fall inside the incident window.\<close>

theorem supported_grounding_certifies:
  assumes "(g, d) = Grounder_Validate H h evidence input previous now" and "gr_Level g = GroundingSupported"
  shows "gre_SupportingEvidenceIDs (gr_Evidence g) \<noteq> [] \<and>
    (\<forall>i\<in>set (gre_SupportingEvidenceIDs (gr_Evidence g)). byID evidence i \<noteq> None \<and>
       (\<exists>a\<in>set (vi_Attributions input). att_Relation a = EvidenceSupports \<and> TrimSpace (att_EvidenceID a) = i)) \<and>
    nonEmpty (hyp_EvidenceNeeds h) \<noteq> [] \<and> set (nonEmpty (hyp_EvidenceNeeds h)) \<subseteq> set (nonEmpty (vi_FulfilledEvidenceNeeds input)) \<and>
    length (hyp_TargetRefs h) \<le> length (filter rsd_Allowed (vi_TargetScopeDecisions input)) \<and> hyp_TargetRefs h \<noteq> [] \<and>
    length (gre_ContradictingEvidenceIDs (gr_Evidence g)) \<le> length (gre_SupportingEvidenceIDs (gr_Evidence g)) \<and>
    gcov_TemporalCoverage (gr_Coverage g) \<ge> 4/5"
proof -
  let ?ss = "attributed_ids input evidence EvidenceSupports" and ?cs = "attributed_ids input evidence EvidenceContradicts"
  from assms(2) have sup: "?ss \<noteq> []" "?cs \<noteq> [] \<Longrightarrow> contradiction_ratio ?ss ?cs \<le> 1/2" "evidence_need_coverage h input \<ge> 1"
    "targetCoverage (vi_TargetScopeDecisions input) (int (length (hyp_TargetRefs h))) \<ge> 1"
    "temporal_coverage input (byID evidence) ?ss \<ge> 4/5"
    by (auto simp: grounding_fields [OF assms(1)] grounding_level_supported_iff)
  have "length ?cs \<le> length ?ss"
  proof (cases "?cs = []")
    case False
    then have "2 * length ?cs \<le> length ?ss + length ?cs"
      using sup(2) by (simp add: contradiction_ratio_def Let_def divide_le_eq split: if_splits)
    then show ?thesis by simp
  qed simp
  then show ?thesis
    unfolding grounding_fields [OF assms(1)]
    using sup need_coverage_complete [OF sup(3)] target_coverage_complete [OF sup(4)] attributed_ids_current by auto
qed

lemma attributed_ids_trimmed:
  assumes "\<And>a. a \<in> set (vi_Attributions input) \<Longrightarrow> TrimSpace (att_EvidenceID a) = att_EvidenceID a"
  shows "attributed_ids input evidence r = filter (\<lambda>i. byID evidence i \<noteq> None) (AttributedEvidenceIDs (vi_Attributions input) r)"
proof -
  have "nonEmpty (AttributedEvidenceIDs (vi_Attributions input) r) = AttributedEvidenceIDs (vi_Attributions input) r"
    unfolding AttributedEvidenceIDs_def by (rule nonEmpty_id) (auto simp: assms)
  then show ?thesis by (simp add: attributed_ids_def existingIDs_def AttributedEvidenceIDs_def)
qed

lemma example_attributed_ids:
  "attributed_ids example_input example_evidence EvidenceSupports = [''e1'', ''e2'']"
  "attributed_ids example_input example_evidence EvidenceContradicts = []"
proof -
  have trim: "TrimSpace (att_EvidenceID a) = att_EvidenceID a" if "a \<in> set (vi_Attributions example_input)" for a
    using that by (auto simp: example_input_def example_attributions_def attribution_of_def)
  have eq: "attributed_ids example_input example_evidence r =
      filter (\<lambda>i. byID example_evidence i \<noteq> None) (AttributedEvidenceIDs (vi_Attributions example_input) r)" for r
    by (rule attributed_ids_trimmed) (rule trim)
  have u: "unique [''e1'', ''e2''] = [''e1'', ''e2'']" by (intro uniq.norm_fixpoint) auto
  show "attributed_ids example_input example_evidence EvidenceSupports = [''e1'', ''e2'']"
    unfolding eq
    by (simp add: AttributedEvidenceIDs_def example_input_def example_attributions_def
        example_intents_def attribution_of_def TrimSpace_def IsSpace_def u byID_def example_evidence_def)
  show "attributed_ids example_input example_evidence EvidenceContradicts = []"
    unfolding eq
    by (simp add: AttributedEvidenceIDs_def example_input_def example_attributions_def
        example_intents_def attribution_of_def)
qed

lemma example_grounding_supported: "gr_Level example_grounding = GroundingSupported"
proof -
  have u: "unique [''pool metrics''] = [''pool metrics'']" by (rule uniq.norm_fixpoint) auto
  have "nonEmpty [''pool metrics''] = [''pool metrics'']" "intersection [''pool metrics''] [''pool metrics''] = [''pool metrics'']"
    by (simp_all add: nonEmpty_def intersection_def TrimSpace_def IsSpace_def u)
  then show ?thesis
    unfolding grounding_fields [OF example_grounding_pair] example_attributed_ids grounding_level_supported_iff
    by (simp add: evidence_need_coverage_def temporal_coverage_def targetCoverage_def ratio_def example_input_def grounded_hypothesis_def
        zero_defs inWindow_def IsZero_def Let_def)
qed

lemma supported_grounding_certifies_witness:
  "gre_SupportingEvidenceIDs (gr_Evidence example_grounding) \<noteq> [] \<and> gcov_TemporalCoverage (gr_Coverage example_grounding) \<ge> 4/5"
  using supported_grounding_certifies [OF example_grounding_pair example_grounding_supported] by blast

end
