(* ===== verification/Belief.thy ===== *)
theory Belief
  imports Runtime_Hash
begin

text \<open>\<^verbatim>\<open>internal/brainruntime/runtime.go\<close>, part 5: stale hypotheses, belief commits, the
  eligibility of a diagnosis for recovery, reflection costs and termination events.  The lemmas say
  exactly what an accepted belief delta changes, which conditions an eligible recovery has met, and
  that the reported remaining budget is never negative.\<close>

definition InvalidateStaleHypotheses :: "AgentHypothesis list \<Rightarrow> string \<Rightarrow> AgentHypothesis list" where
  "InvalidateStaleHypotheses hypotheses snapshot =
     map (\<lambda>h. if hyp_Status h = HypothesisSupported \<and> hyp_LastValidatedSnapshotHash h \<noteq> snapshot
              then h\<lparr>hyp_Status := HypothesisInvestigating\<rparr> else h) hypotheses"

datatype belief_error =
    DifferentRevision
  | ConfidenceOutOfRange
  | PreviousConfidenceMismatch
  | ConfidenceUnchanged
  | IncreaseRequiresHigher
  | DecreaseRequiresLower
  | InvalidDirection
  | NewRevisionRequired

definition CommitBelief :: "AgentHypothesis \<Rightarrow> BeliefDelta \<Rightarrow> belief_error + AgentHypothesis" where
  "CommitBelief h delta =
     (if bd_HypothesisRevisionID delta \<noteq> hyp_ID h then Inl DifferentRevision
      else if bd_NewConfidence delta < 0 \<or> bd_NewConfidence delta > 1 then Inl ConfidenceOutOfRange
      else if bd_PreviousConfidence delta \<noteq> hyp_ModelConfidence h then Inl PreviousConfidenceMismatch
      else if bd_NewConfidence delta = bd_PreviousConfidence delta then Inl ConfidenceUnchanged
      else let accept = (if bd_RevisionRequired delta then Inl NewRevisionRequired
                         else Inr (h\<lparr>hyp_ModelConfidence := bd_NewConfidence delta\<rparr>)) in
        case bd_Direction delta of
          BeliefIncrease \<Rightarrow> if bd_NewConfidence delta \<le> bd_PreviousConfidence delta then Inl IncreaseRequiresHigher else accept
        | BeliefDecrease \<Rightarrow> if bd_NewConfidence delta \<ge> bd_PreviousConfidence delta then Inl DecreaseRequiresLower else accept
        | BeliefDirection_other _ \<Rightarrow> Inl InvalidDirection)"

definition recovery_reasons ::
  "AgentDiagnosis option \<Rightarrow> AgentHypothesis \<Rightarrow> HypothesisGrounding \<Rightarrow> HypothesisGrounding list \<Rightarrow> ExecutionSnapshot \<Rightarrow> bool \<Rightarrow> rat \<Rightarrow> int \<Rightarrow> string list" where
  "recovery_reasons diagnosis selected grounding allg execution kubernetesSourcePresent supportSeparation acceptedValidatedHypotheses =
     code_if (case diagnosis of None \<Rightarrow> True | Some d \<Rightarrow> diag_Provisional d) ''diagnosis_not_final''
   @ code_if (gr_Level grounding \<noteq> GroundingSupported) ''grounding_not_supported''
   @ code_if (gre_EvidenceSupport (gr_Evidence grounding) < 65/100) ''evidence_support_below_threshold''
   @ code_if (gre_ContradictionRatio (gr_Evidence grounding) > 10/100) ''contradiction_ratio_above_threshold''
   @ code_if (gcov_EvidenceNeedCoverage (gr_Coverage grounding) < 80/100 \<or> gcov_TargetScopeCoverage (gr_Coverage grounding) \<noteq> 1 \<or>
              gcov_TemporalCoverage (gr_Coverage grounding) < 80/100) ''grounding_coverage_incomplete''
   @ code_if (gr_CausalCoverageApplicable grounding \<and> gcov_CausalPathCoverage (gr_Coverage grounding) \<noteq> 1) ''causal_coverage_incomplete''
   @ code_if (gre_IndependentSourceCount (gr_Evidence grounding) < 2 \<or> \<not> kubernetesSourcePresent) ''independent_current_sources_incomplete''
   @ code_if (supportSeparation < 15/100) ''support_separation_below_threshold''
   @ code_if (acceptedValidatedHypotheses < 2 \<or> length allg < 2) ''insufficient_competing_hypothesis_validation''
   @ code_if (case diagnosis of None \<Rightarrow> False | Some d \<Rightarrow>
                diag_HypothesisRevisionID d \<noteq> hyp_ID selected \<or> diag_EvidenceSnapshotHash d \<noteq> gr_EvidenceSnapshotHash grounding \<or>
                diag_ExecutionSnapshot d \<noteq> execution \<or> hyp_LastValidatedSnapshotHash selected \<noteq> gr_EvidenceSnapshotHash grounding)
       ''snapshot_or_revision_mismatch''"

definition RecoveryAllowed ::
  "AgentDiagnosis option \<Rightarrow> AgentHypothesis \<Rightarrow> HypothesisGrounding \<Rightarrow> HypothesisGrounding list \<Rightarrow> ExecutionSnapshot \<Rightarrow> bool \<Rightarrow> rat \<Rightarrow> int \<Rightarrow> RecoveryEligibility" where
  "RecoveryAllowed diagnosis selected grounding allg execution kubernetesSourcePresent supportSeparation acceptedValidatedHypotheses =
     (let reasons = recovery_reasons diagnosis selected grounding allg execution kubernetesSourcePresent supportSeparation acceptedValidatedHypotheses
      in \<lparr>re_Allowed = (reasons = []), re_ReasonCodes = unique reasons\<rparr>)"

definition ReflectionCost :: "ReflectionTrigger \<Rightarrow> int" where
  "ReflectionCost trigger =
     (if trigger = ReflectionToolFailure \<or> trigger = ReflectionConstraintFailure then 1
      else if trigger = ReflectionRecoveryFailure \<or> trigger = ReflectionVerificationFail then 3
      else 2)"

abbreviation NoTermination :: TerminationReason where "NoTermination \<equiv> TerminationReason_other []"

definition remaining_budget :: "BrainBudgetState \<Rightarrow> BrainBudgetUsage" where
  "remaining_budget budget =
     (let l = bbs_Limits budget; u = bbs_Usage budget in
      \<lparr>bu_Turns = max 0 (bb_MaxTurns l - bu_Turns u),
       bu_ActiveHypotheses = max 0 (bb_MaxActiveHypotheses l - bu_ActiveHypotheses u),
       bu_HypothesisBranches = max 0 (bb_MaxHypothesisBranches l - bu_HypothesisBranches u),
       bu_ToolCalls = max 0 (bb_MaxToolCalls l - bu_ToolCalls u),
       bu_StructuredCorrections = max 0 (bb_MaxStructuredCorrections l - bu_StructuredCorrections u),
       bu_ReflectionCostUnits = max 0 (bb_MaxReflectionCostUnits l - bu_ReflectionCostUnits u)\<rparr>)"

definition NewTermination ::
  "TerminationReason \<Rightarrow> string \<Rightarrow> string \<Rightarrow> string \<Rightarrow> ExecutionSnapshot option \<Rightarrow> string list \<Rightarrow> BrainBudgetState \<Rightarrow> time \<Rightarrow> string + TerminationEvent" where
  "NewTermination reason turnID hypothesisID evidenceSnapshot execution gaps budget now =
     (if reason = NoTermination then Inl ''termination reason is required''
      else Inr \<lparr>term_Reason = reason, term_TriggerTurnID = turnID, term_FinalHypothesisRevisionID = hypothesisID,
             term_EvidenceSnapshotHash = evidenceSnapshot, term_ExecutionSnapshot = execution, term_UnresolvedGaps = nonEmpty gaps,
             term_RemainingBudget = remaining_budget budget, term_OccurredAt = now\<rparr>)"

section \<open>Properties\<close>

lemma InvalidateStale_idem:
  "InvalidateStaleHypotheses (InvalidateStaleHypotheses hs s) s = InvalidateStaleHypotheses hs s"
  by (simp add: InvalidateStaleHypotheses_def)

lemma InvalidateStale_fresh:
  "h \<in> set (InvalidateStaleHypotheses hs s) \<Longrightarrow> hyp_Status h = HypothesisSupported \<Longrightarrow> hyp_LastValidatedSnapshotHash h = s"
  by (auto simp: InvalidateStaleHypotheses_def split: if_splits)

lemma InvalidateStale_ids [simp]: "map hyp_ID (InvalidateStaleHypotheses hs s) = map hyp_ID hs"
  by (simp add: InvalidateStaleHypotheses_def)

lemma ReflectionCost_bounds: "1 \<le> ReflectionCost t" "ReflectionCost t \<le> 3"
  by (simp_all add: ReflectionCost_def)

lemma NewTermination_ok_iff:
  "is_ok (NewTermination reason t h e x gaps budget now) \<longleftrightarrow> reason \<noteq> NoTermination"
  by (simp add: NewTermination_def)

lemma RecoveryAllowed_iff:
  "re_Allowed (RecoveryAllowed d sel g allg ex k sep acc) \<longleftrightarrow> recovery_reasons d sel g allg ex k sep acc = []"
  by (simp add: RecoveryAllowed_def Let_def)

text \<open>A belief commit changes the subjective confidence and nothing else: it is accepted exactly when the
  delta is for this revision, starts from its current confidence, moves it within [0, 1] in the
  declared direction and needs no new revision; the result differs in the confidence only.\<close>

theorem commit_belief_exact:
  "CommitBelief h delta = Inr h' \<longleftrightarrow>
     bd_HypothesisRevisionID delta = hyp_ID h \<and> 0 \<le> bd_NewConfidence delta \<and> bd_NewConfidence delta \<le> 1 \<and>
     bd_PreviousConfidence delta = hyp_ModelConfidence h \<and> \<not> bd_RevisionRequired delta \<and>
     ((bd_Direction delta = BeliefIncrease \<and> hyp_ModelConfidence h < bd_NewConfidence delta) \<or>
      (bd_Direction delta = BeliefDecrease \<and> bd_NewConfidence delta < hyp_ModelConfidence h)) \<and>
     h' = h\<lparr>hyp_ModelConfidence := bd_NewConfidence delta\<rparr>"
  by (cases "bd_Direction delta") (auto simp: CommitBelief_def Let_def)

text \<open>The gate between diagnosis and recovery: recovery is allowed exactly when the diagnosis is final
  and matches the selected revision, its evidence snapshot and the execution snapshot, the grounding is
  SUPPORTED with support at least 0.65, contradiction at most 0.10 and complete coverage, at least two
  independent sources including Kubernetes support it, and with two validated hypotheses the support
  separation is at least 0.15.\<close>

theorem recovery_allowed_exact:
  "re_Allowed (RecoveryAllowed diagnosis sel g allg ex k8s sep acc) \<longleftrightarrow>
     (\<exists>d. diagnosis = Some d \<and> \<not> diag_Provisional d \<and> diag_HypothesisRevisionID d = hyp_ID sel \<and>
        diag_EvidenceSnapshotHash d = gr_EvidenceSnapshotHash g \<and> diag_ExecutionSnapshot d = ex \<and>
        hyp_LastValidatedSnapshotHash sel = gr_EvidenceSnapshotHash g) \<and>
     gr_Level g = GroundingSupported \<and> 65/100 \<le> gre_EvidenceSupport (gr_Evidence g) \<and>
     gre_ContradictionRatio (gr_Evidence g) \<le> 10/100 \<and>
     80/100 \<le> gcov_EvidenceNeedCoverage (gr_Coverage g) \<and> gcov_TargetScopeCoverage (gr_Coverage g) = 1 \<and>
     80/100 \<le> gcov_TemporalCoverage (gr_Coverage g) \<and>
     (\<not> gr_CausalCoverageApplicable g \<or> gcov_CausalPathCoverage (gr_Coverage g) = 1) \<and>
     2 \<le> gre_IndependentSourceCount (gr_Evidence g) \<and> k8s \<and> 15/100 \<le> sep \<and> 2 \<le> acc \<and> 2 \<le> length allg"
  by (cases diagnosis) (auto simp: RecoveryAllowed_iff recovery_reasons_def code_if_def)

lemma recovery_allowed_exact_witness:
  "re_Allowed (RecoveryAllowed (Some (zero_AgentDiagnosis\<lparr>diag_HypothesisRevisionID := ''h1'', diag_EvidenceSnapshotHash := ''s''\<rparr>))
     (zero_AgentHypothesis\<lparr>hyp_ID := ''h1'', hyp_LastValidatedSnapshotHash := ''s''\<rparr>)
     (zero_HypothesisGrounding\<lparr>gr_Level := GroundingSupported, gr_EvidenceSnapshotHash := ''s'',
        gr_Evidence := zero_GroundingEvidence\<lparr>gre_EvidenceSupport := 9/10, gre_IndependentSourceCount := 2\<rparr>,
        gr_Coverage := \<lparr>gcov_EvidenceNeedCoverage = 1, gcov_CausalPathCoverage = 0, gcov_TargetScopeCoverage = 1, gcov_TemporalCoverage = 1\<rparr>\<rparr>)
     [zero_HypothesisGrounding, zero_HypothesisGrounding] zero_ExecutionSnapshot True (1/2) 2)"
  unfolding recovery_allowed_exact by (simp add: zero_defs)

text \<open>A termination event never reports a negative remaining budget: every component of the remaining
  budget is at least 0; the event has a reason and its open gaps are non-empty strings.\<close>

theorem remaining_budget_bounds:
  assumes "NewTermination reason t h e x gaps budget now = Inr event"
  shows "0 \<le> bu_Turns (term_RemainingBudget event) \<and> 0 \<le> bu_ToolCalls (term_RemainingBudget event) \<and>
    0 \<le> bu_ActiveHypotheses (term_RemainingBudget event) \<and> 0 \<le> bu_HypothesisBranches (term_RemainingBudget event) \<and>
    0 \<le> bu_StructuredCorrections (term_RemainingBudget event) \<and> 0 \<le> bu_ReflectionCostUnits (term_RemainingBudget event) \<and>
    term_Reason event \<noteq> NoTermination \<and> [] \<notin> set (term_UnresolvedGaps event)"
  using assms by (auto simp: NewTermination_def remaining_budget_def Let_def split: if_splits)

lemma remaining_budget_bounds_witness:
  "0 \<le> bu_Turns (remaining_budget (zero_BrainBudgetState\<lparr>bbs_Limits := DefaultBudget\<rparr>))"
  using remaining_budget_bounds [of TerminationBudgetExhausted "[]" "[]" "[]" None "[]" "zero_BrainBudgetState\<lparr>bbs_Limits := DefaultBudget\<rparr>" 0]
  by (simp add: NewTermination_def)

end
