(* ===== verification/Skill_Order.thy ===== *)
theory Skill_Order
  imports Prelude
begin

text \<open>The depth-first search behind \<^verbatim>\<open>topologicalOrder\<close> and \<^verbatim>\<open>validateCatalog\<close> of
  \<^verbatim>\<open>agent/brain_skills.go\<close>, and the traversal of \<^verbatim>\<open>dependencyClosure\<close>.  The code's
  \<^verbatim>\<open>visiting\<close> set is emptied of an id when its visit returns, so it is the parameter \<open>V\<close> here; its
  \<^verbatim>\<open>seen\<close> set always holds the ids of the output list \<open>out\<close>.  \<open>ks\<close> are the ids of the catalog: an id
  outside it has the zero package and so no dependencies.  The lemmas show that the search ends,
  that a successful search lists dependencies before dependents, once each, and that the search fails
  only on a cycle.\<close>

section \<open>The search\<close>

definition known_deps :: "string list \<Rightarrow> (string \<Rightarrow> string list) \<Rightarrow> string \<Rightarrow> string list" where
  "known_deps ks deps i = (if i \<in> set ks then deps i else [])"

definition search_measure :: "string list \<Rightarrow> string set \<Rightarrow> nat" where
  "search_measure ks V = card (set ks - V)"

lemma search_measure_insert:
  "i \<notin> V \<Longrightarrow> i \<in> set ks \<Longrightarrow> search_measure ks (insert i V) < search_measure ks V"
  unfolding search_measure_def by (rule psubset_card_mono) auto

lemma search_measure_insert_le: "search_measure ks (insert i V) \<le> search_measure ks V"
  unfolding search_measure_def by (rule card_mono) auto

function (sequential) dfs :: "string list \<Rightarrow> (string \<Rightarrow> string list) \<Rightarrow> string set \<Rightarrow> string \<Rightarrow> string list \<Rightarrow> string + string list"
  and dfs_all :: "string list \<Rightarrow> (string \<Rightarrow> string list) \<Rightarrow> string set \<Rightarrow> string list \<Rightarrow> string list \<Rightarrow> string + string list" where
  "dfs ks deps V i out =
     (if i \<in> V then Inl i
      else if i \<in> set out then Inr out
      else case dfs_all ks deps (insert i V) (known_deps ks deps i) out of
             Inl e \<Rightarrow> Inl e
           | Inr out' \<Rightarrow> Inr (out' @ [i]))"
| "dfs_all ks deps V [] out = Inr out"
| "dfs_all ks deps V (d # ds) out =
     (case dfs ks deps V d out of
        Inl e \<Rightarrow> Inl e
      | Inr out' \<Rightarrow> dfs_all ks deps V ds out')"
  by pat_completeness auto

termination
proof (relation "measures [\<lambda>x. case x of Inl (ks, deps, V, i, out) \<Rightarrow> search_measure ks V
                                     | Inr (ks, deps, V, ds, out) \<Rightarrow> search_measure ks V,
                           \<lambda>x. case x of Inl (ks, deps, V, i, out) \<Rightarrow> 1
                                     | Inr (ks, deps, V, ds, out) \<Rightarrow> 2 * length ds]", goal_cases)
  case (2 ks deps V i out)
  show ?case
  proof (cases "i \<in> set ks")
    case True
    then show ?thesis using 2 search_measure_insert by simp
  next
    case False
    then show ?thesis using search_measure_insert_le [of ks i V] by (auto simp: known_deps_def le_less)
  qed
qed simp_all

declare dfs.simps [simp del]

section \<open>A successful search is a topological order\<close>

definition deps_first :: "(string \<Rightarrow> string list) \<Rightarrow> string list \<Rightarrow> bool" where
  "deps_first dep out = (\<forall>xs i ys. out = xs @ i # ys \<longrightarrow> set (dep i) \<subseteq> set xs)"

lemma deps_first_Nil [simp]: "deps_first dep []"
  by (simp add: deps_first_def)

lemma deps_first_snoc:
  assumes "deps_first dep out" and "set (dep i) \<subseteq> set out"
  shows "deps_first dep (out @ [i])"
  unfolding deps_first_def
proof (intro allI impI)
  fix xs j ys
  assume eq: "out @ [i] = xs @ j # ys"
  show "set (dep j) \<subseteq> set xs"
  proof (cases ys rule: rev_cases)
    case Nil
    then show ?thesis using eq assms(2) by simp
  next
    case (snoc ys' y)
    then have "out = xs @ j # ys'" using eq by simp
    then show ?thesis using assms(1) by (simp add: deps_first_def)
  qed
qed

lemma deps_first_append: "deps_first dep (xs @ i # ys) \<Longrightarrow> set (dep i) \<subseteq> set xs"
  by (auto simp: deps_first_def)

lemma deps_first_closed: "deps_first dep out \<Longrightarrow> i \<in> set out \<Longrightarrow> set (dep i) \<subseteq> set out"
  by (fastforce simp: deps_first_def dest: split_list)

text \<open>What a visit adds to the output: \<open>S\<close> is any set closed under dependencies.\<close>

definition good_extension :: "(string \<Rightarrow> string list) \<Rightarrow> string set \<Rightarrow> string set \<Rightarrow> string list \<Rightarrow> string list \<Rightarrow> bool" where
  "good_extension dep S V out out' =
     (\<exists>zs. out' = out @ zs \<and> deps_first dep out' \<and> distinct out' \<and> set zs \<inter> V = {} \<and> set zs \<subseteq> S)"

lemma good_extension_trans:
  "good_extension dep S V a b \<Longrightarrow> good_extension dep S V b c \<Longrightarrow> good_extension dep S V a c"
  unfolding good_extension_def
proof (elim exE conjE)
  fix zs zs'
  assume "b = a @ zs" "c = b @ zs'" "deps_first dep c" "distinct c"
    "set zs \<inter> V = {}" "set zs \<subseteq> S" "set zs' \<inter> V = {}" "set zs' \<subseteq> S"
  then show "\<exists>zs. c = a @ zs \<and> deps_first dep c \<and> distinct c \<and> set zs \<inter> V = {} \<and> set zs \<subseteq> S"
    by (intro exI [of _ "zs @ zs'"]) auto
qed

lemma dfs_sound:
  shows "dfs ks deps V i out = Inr out' \<Longrightarrow> deps_first (known_deps ks deps) out \<Longrightarrow> distinct out \<Longrightarrow> i \<in> S \<Longrightarrow>
      (\<And>j. j \<in> S \<Longrightarrow> set (known_deps ks deps j) \<subseteq> S) \<Longrightarrow>
      good_extension (known_deps ks deps) S V out out' \<and> i \<in> set out'"
    and "dfs_all ks deps V ds out = Inr out' \<Longrightarrow> deps_first (known_deps ks deps) out \<Longrightarrow> distinct out \<Longrightarrow> set ds \<subseteq> S \<Longrightarrow>
      (\<And>j. j \<in> S \<Longrightarrow> set (known_deps ks deps j) \<subseteq> S) \<Longrightarrow>
      good_extension (known_deps ks deps) S V out out' \<and> set ds \<subseteq> set out'"
proof (induction ks deps V i out and ks deps V ds out arbitrary: out' and out' rule: dfs_dfs_all.induct)
  case (1 ks deps V i out)
  show ?case
  proof (cases "i \<in> set out")
    case True
    then show ?thesis using 1 by (auto simp: dfs.simps [of ks deps V i out] good_extension_def split: if_splits)
  next
    case False
    with 1 obtain mid where iV: "i \<notin> V"
      and mid: "dfs_all ks deps (insert i V) (known_deps ks deps i) out = Inr mid" and out': "out' = mid @ [i]"
      by (auto simp: dfs.simps [of ks deps V i out] split: if_splits sum.splits)
    have "good_extension (known_deps ks deps) S (insert i V) out mid \<and> set (known_deps ks deps i) \<subseteq> set mid"
      using 1 False iV mid by simp
    then obtain zs where zs: "mid = out @ zs" "deps_first (known_deps ks deps) mid" "distinct mid"
        "set zs \<inter> insert i V = {}" "set zs \<subseteq> S" "set (known_deps ks deps i) \<subseteq> set mid"
      by (auto simp: good_extension_def)
    have "deps_first (known_deps ks deps) out'" unfolding out' using zs by (intro deps_first_snoc)
    moreover have "distinct out'" using zs False out' by auto
    ultimately show ?thesis unfolding good_extension_def
      using zs iV out' "1.prems"(4) by (intro conjI exI [of _ "zs @ [i]"]) auto
  qed
next
  case (2 ks deps V out)
  then show ?case by (simp add: good_extension_def)
next
  case (3 ks deps V d ds out)
  then obtain mid where mid: "dfs ks deps V d out = Inr mid" and rest: "dfs_all ks deps V ds mid = Inr out'"
    by (auto split: sum.splits)
  have a: "good_extension (known_deps ks deps) S V out mid" "d \<in> set mid"
    using 3 mid by auto
  then have "deps_first (known_deps ks deps) mid" "distinct mid" by (auto simp: good_extension_def)
  then have b: "good_extension (known_deps ks deps) S V mid out'" "set ds \<subseteq> set out'"
    using 3 mid rest by auto
  from b(1) a(2) have "d \<in> set out'" by (auto simp: good_extension_def)
  with a b show ?case by (auto intro: good_extension_trans)
qed

section \<open>Without a cycle the search succeeds\<close>

definition ranked :: "string list \<Rightarrow> (string \<Rightarrow> string list) \<Rightarrow> (string \<Rightarrow> nat) \<Rightarrow> bool" where
  "ranked ks deps rank = (\<forall>i d. d \<in> set (known_deps ks deps i) \<longrightarrow> rank d < rank i)"

lemma dfs_complete:
  shows "ranked ks deps rank \<Longrightarrow> (\<And>v. v \<in> V \<Longrightarrow> rank i < rank v) \<Longrightarrow> \<exists>out'. dfs ks deps V i out = Inr out'"
    and "ranked ks deps rank \<Longrightarrow> (\<And>v d. v \<in> V \<Longrightarrow> d \<in> set ds \<Longrightarrow> rank d < rank v) \<Longrightarrow> \<exists>out'. dfs_all ks deps V ds out = Inr out'"
proof (induction ks deps V i out and ks deps V ds out rule: dfs_dfs_all.induct)
  case (1 ks deps V i out)
  have iV: "i \<notin> V" using "1.prems" by blast
  show ?case
  proof (cases "i \<in> set out")
    case False
    have "rank d < rank v" if "v \<in> insert i V" "d \<in> set (known_deps ks deps i)" for v d
      using that "1.prems" unfolding ranked_def by (metis insertE less_trans)
    from "1.IH" [OF iV False "1.prems"(1) this]
    obtain mid where "dfs_all ks deps (insert i V) (known_deps ks deps i) out = Inr mid" by blast
    then show ?thesis using iV False by (simp add: dfs.simps [of ks deps V i out])
  qed (use iV in \<open>simp add: dfs.simps [of ks deps V i out]\<close>)
next
  case (3 ks deps V d ds out)
  then obtain mid where mid: "dfs ks deps V d out = Inr mid" by (metis list.set_intros(1))
  then show ?case using 3 by (metis dfs_all.simps(2) list.set_intros(2) sum.simps(6))
qed simp

text \<open>The position in a topological order is a rank.\<close>

lemma index_rank:
  assumes "deps_first dep out" and "distinct out" and "\<And>i. dep i \<noteq> [] \<Longrightarrow> i \<in> set out"
  shows "d \<in> set (dep i) \<Longrightarrow> length (takeWhile (\<lambda>x. x \<noteq> d) out) < length (takeWhile (\<lambda>x. x \<noteq> i) out)"
proof -
  assume d: "d \<in> set (dep i)"
  then have "i \<in> set out" using assms(3) by force
  then obtain xs ys where out: "out = xs @ i # ys" "i \<notin> set xs" by (meson split_list_first)
  then have "d \<in> set xs" using assms(1) d deps_first_append by blast
  then have "length (takeWhile (\<lambda>x. x \<noteq> d) out) < length xs"
  proof -
    obtain as bs where "xs = as @ d # bs" "d \<notin> set as" using \<open>d \<in> set xs\<close> by (meson split_list_first)
    then show ?thesis using out by (simp add: takeWhile_append)
  qed
  moreover have "takeWhile (\<lambda>x. x \<noteq> i) out = xs" using out by (simp add: takeWhile_append)
  ultimately show ?thesis by simp
qed

section \<open>Dependency closure\<close>

text \<open>The recursive traversal of \<^verbatim>\<open>dependencyClosure\<close>, with its call stack as the list of pending
  ids.\<close>

function closure :: "string list \<Rightarrow> (string \<Rightarrow> string list) \<Rightarrow> string set \<Rightarrow> string list \<Rightarrow> string set" where
  "closure ks deps seen [] = seen"
| "closure ks deps seen (c # pending) =
     (if c \<in> seen then closure ks deps seen pending
      else closure ks deps (insert c seen) (known_deps ks deps c @ pending))"
  by pat_completeness auto

termination
proof (relation "measures [\<lambda>(ks, deps, seen, pending). search_measure ks seen, \<lambda>(ks, deps, seen, pending). length pending]", goal_cases)
  case (3 ks deps seen c pending)
  show ?case
  proof (cases "c \<in> set ks")
    case True
    then show ?thesis using 3 search_measure_insert by simp
  next
    case False
    then show ?thesis using search_measure_insert_le [of ks c seen] by (auto simp: known_deps_def le_less)
  qed
qed simp_all

inductive needs :: "(string \<Rightarrow> string list) \<Rightarrow> string \<Rightarrow> string \<Rightarrow> bool" for dep where
  needs_self: "needs dep i i"
| needs_dep: "needs dep i j \<Longrightarrow> k \<in> set (dep j) \<Longrightarrow> needs dep i k"

lemma closure_sound:
  "(\<And>x. x \<in> seen \<union> set pending \<Longrightarrow> needs (known_deps ks deps) i x) \<Longrightarrow> x \<in> closure ks deps seen pending \<Longrightarrow>
   needs (known_deps ks deps) i x"
proof (induction ks deps seen pending rule: closure.induct)
  case (2 ks deps seen c pending)
  have c: "needs (known_deps ks deps) i c" using "2.prems" by simp
  show ?case
  proof (cases "c \<in> seen")
    case False
    have "needs (known_deps ks deps) i y" if "y \<in> insert c seen \<union> set (known_deps ks deps c @ pending)" for y
      using that c "2.prems"(1) by (auto intro: needs_dep)
    then show ?thesis using 2 False by simp
  qed (use 2 in simp)
qed simp

lemma closure_mono: "seen \<union> set pending \<subseteq> closure ks deps seen pending"
  by (induction ks deps seen pending rule: closure.induct) auto

lemma closure_closed:
  "(\<And>j. j \<in> seen \<Longrightarrow> set (known_deps ks deps j) \<subseteq> seen \<union> set pending) \<Longrightarrow>
   j \<in> closure ks deps seen pending \<Longrightarrow> set (known_deps ks deps j) \<subseteq> closure ks deps seen pending"
proof (induction ks deps seen pending rule: closure.induct)
  case (2 ks deps seen c pending)
  show ?case
  proof (cases "c \<in> seen")
    case True
    have "set (known_deps ks deps j) \<subseteq> seen \<union> set pending" if "j \<in> seen" for j
      using "2.prems"(1) [OF that] True by auto
    then show ?thesis using 2 True by simp
  next
    case False
    have "set (known_deps ks deps j) \<subseteq> insert c seen \<union> set (known_deps ks deps c @ pending)" if "j \<in> insert c seen" for j
      using "2.prems"(1) [of j] that by auto
    then show ?thesis using 2 False by simp
  qed
qed auto

lemma closure_iff: "x \<in> closure ks deps {} [i] \<longleftrightarrow> needs (known_deps ks deps) i x"
proof
  show "x \<in> closure ks deps {} [i] \<Longrightarrow> needs (known_deps ks deps) i x"
    by (rule closure_sound [of "{}" "[i]"]) (auto intro: needs_self)
  assume "needs (known_deps ks deps) i x"
  then show "x \<in> closure ks deps {} [i]"
  proof (induction rule: needs.induct)
    case (needs_self i)
    show ?case using closure_mono [of "{}" "[i]"] by auto
  next
    case (needs_dep i j k)
    then show ?case using closure_closed [of "{}" ks deps "[i]" j] by blast
  qed
qed

declare closure.simps [simp del] dfs_all.simps [simp del]

end
