(* ===== verification/Skills.thy ===== *)
theory Skills
  imports Runtime_Hash Skill_Order
begin

text \<open>\<^verbatim>\<open>agent/brain_skills.go\<close>: the skill catalog of the Brain.  \<^verbatim>\<open>validateCatalog\<close> checks it,
  \<^verbatim>\<open>Resolve\<close> computes the frozen bundle of a turn from the mandatory skills of the phase and the
  model's requests, \<^verbatim>\<open>ReadActiveReference\<close> serves references of active skills only.  The package map is an
  association list with distinct keys; where the code ranges over the map its results do not depend on the
  order, except for which of several errors is reported.  Reading the catalog files and their YAML is
  not modelled.  The lemmas show that a valid catalog always resolves without a cycle, that the
  active skills come with dependencies first and without conflicts, and that the optional budget is kept.\<close>

section \<open>Data\<close>

record brainSkillSpec =
  spec_ID :: "string"
  spec_Version :: "string"
  spec_Requires :: "string list"
  spec_Conflicts :: "string list"
  spec_Mandatory :: "bool"
  spec_CompatiblePhases :: "BrainPhase list"
  spec_AllowedToolCategories :: "BrainToolCategory list"
  spec_OutputContract :: "string"
  spec_References :: "string list"

definition zero_brainSkillSpec :: brainSkillSpec where [zero_defs]:
  "zero_brainSkillSpec = \<lparr>spec_ID = [], spec_Version = [], spec_Requires = [], spec_Conflicts = [], spec_Mandatory = False, spec_CompatiblePhases = [], spec_AllowedToolCategories = [], spec_OutputContract = [], spec_References = []\<rparr>"

record brainSkillPackage =
  pkg_Spec :: "brainSkillSpec"
  pkg_Description :: "string"
  pkg_Content :: "string"
  pkg_Hash :: "string"
  pkg_References :: "(string \<rightharpoonup> string)"

definition zero_brainSkillPackage :: brainSkillPackage where [zero_defs]:
  "zero_brainSkillPackage = \<lparr>pkg_Spec = zero_brainSkillSpec, pkg_Description = [], pkg_Content = [], pkg_Hash = [], pkg_References = Map.empty\<rparr>"

record ResolvedBrainSkills =
  rbs_Refs :: "SkillRef list"
  rbs_Prompt :: "string"
  rbs_AllowedCategories :: "BrainToolCategory set"
  rbs_Activations :: "SkillActivation list"
  rbs_active :: "(string \<times> brainSkillPackage) list"

record SkillSearchDocument =
  ssd_ID :: "string"
  ssd_Version :: "string"
  ssd_ContentHash :: "string"
  ssd_Description :: "string"
  ssd_Procedure :: "string"
  ssd_OutputContract :: "string"
  ssd_CompatiblePhases :: "BrainPhase list"
  ssd_AllowedToolCategories :: "BrainToolCategory list"

record BrainSkillResolver =
  bsr_version :: int
  bsr_packages :: "(string \<times> brainSkillPackage) list"
  bsr_policy :: ToolCallingPolicy
  bsr_hash :: string

datatype skill_error =
    ResolverRequired
  | ActivationTurnRequired
  | InvalidRepeatLimits
  | KernelRequired
  | UnknownDependency string string
  | UnknownConflict string string
  | DependencyCycle string
  | NoMandatorySkill BrainPhase
  | ActiveSkillsConflict string string
  | UnknownSkill string
  | SkillNotActive string
  | ReferenceNotDeclared string string

section \<open>Catalog\<close>

definition pkg_of :: "BrainSkillResolver \<Rightarrow> string \<Rightarrow> brainSkillPackage" where
  "pkg_of r i = mget zero_brainSkillPackage (map_of (bsr_packages r)) i"

definition skill_ids :: "BrainSkillResolver \<Rightarrow> string list" where
  "skill_ids r = map fst (bsr_packages r)"

definition requires_of :: "BrainSkillResolver \<Rightarrow> string \<Rightarrow> string list" where
  "requires_of r i = spec_Requires (pkg_Spec (pkg_of r i))"

definition SnapshotHash :: "BrainSkillResolver option \<Rightarrow> string" where
  "SnapshotHash r = (case r of None \<Rightarrow> [] | Some s \<Rightarrow> bsr_hash s)"

definition supportsPhase :: "brainSkillSpec \<Rightarrow> BrainPhase \<Rightarrow> bool" where
  "supportsPhase spec phase = (phase \<in> set (spec_CompatiblePhases spec))"

fun first_unknown :: "BrainSkillResolver \<Rightarrow> (string \<times> brainSkillPackage) list \<Rightarrow> skill_error option" where
  "first_unknown r [] = None"
| "first_unknown r ((i, pkg) # rest) =
     (case find (\<lambda>d. d \<notin> set (skill_ids r)) (spec_Requires (pkg_Spec pkg)) of
        Some d \<Rightarrow> Some (UnknownDependency i d)
      | None \<Rightarrow> (case find (\<lambda>c. c \<notin> set (skill_ids r)) (spec_Conflicts (pkg_Spec pkg)) of
            Some c \<Rightarrow> Some (UnknownConflict i c)
          | None \<Rightarrow> first_unknown r rest))"

definition validateCatalog :: "BrainSkillResolver \<Rightarrow> skill_error option" where
  "validateCatalog r =
     (if tcp_MaxSameToolRepeat (bsr_policy r) \<le> 0 \<or> tcp_MaxNoInformationStreak (bsr_policy r) \<le> 0 then Some InvalidRepeatLimits
      else if ''brain-kernel'' \<notin> set (skill_ids r) then Some KernelRequired
      else case first_unknown r (bsr_packages r) of
          Some e \<Rightarrow> Some e
        | None \<Rightarrow> (case dfs_all (skill_ids r) (requires_of r) {} (skill_ids r) [] of
              Inl i \<Rightarrow> Some (DependencyCycle i)
            | Inr _ \<Rightarrow> None))"

definition SkillDocuments :: "BrainSkillResolver option \<Rightarrow> BrainPhase \<Rightarrow> SkillSearchDocument list" where
  "SkillDocuments r0 phase = (case r0 of None \<Rightarrow> [] | Some r \<Rightarrow>
     sort_key ssd_ID (map (\<lambda>(i, pkg).
        \<lparr>ssd_ID = spec_ID (pkg_Spec pkg), ssd_Version = spec_Version (pkg_Spec pkg), ssd_ContentHash = pkg_Hash pkg,
         ssd_Description = pkg_Description pkg, ssd_Procedure = take 4096 (pkg_Content pkg),
         ssd_OutputContract = spec_OutputContract (pkg_Spec pkg), ssd_CompatiblePhases = spec_CompatiblePhases (pkg_Spec pkg),
         ssd_AllowedToolCategories = spec_AllowedToolCategories (pkg_Spec pkg)\<rparr>)
       (filter (\<lambda>(i, pkg). \<not> spec_Mandatory (pkg_Spec pkg) \<and> supportsPhase (pkg_Spec pkg) phase) (bsr_packages r))))"

definition ReadActiveReference :: "BrainSkillResolver \<Rightarrow> SkillRef list \<Rightarrow> string \<Rightarrow> string \<Rightarrow> skill_error + string" where
  "ReadActiveReference r active skillID name =
     (case map_of (bsr_packages r) skillID of
        None \<Rightarrow> Inl (UnknownSkill skillID)
      | Some pkg \<Rightarrow>
          let activeHash = (case find (\<lambda>ref. sref_ID ref = skillID) active of None \<Rightarrow> [] | Some ref \<Rightarrow> sref_ContentHash ref) in
          if activeHash = [] \<or> activeHash \<noteq> pkg_Hash pkg then Inl (SkillNotActive skillID)
          else (case pkg_References pkg name of
                  None \<Rightarrow> Inl (ReferenceNotDeclared name skillID)
                | Some content \<Rightarrow> Inr content))"

definition ReadReference :: "ResolvedBrainSkills \<Rightarrow> string \<Rightarrow> string \<Rightarrow> skill_error + string" where
  "ReadReference b skillID name =
     (case map_of (rbs_active b) skillID of
        None \<Rightarrow> Inl (SkillNotActive skillID)
      | Some pkg \<Rightarrow> (case pkg_References pkg name of
            None \<Rightarrow> Inl (ReferenceNotDeclared name skillID)
          | Some content \<Rightarrow> Inr content))"

definition unambiguousRequestedCategory :: "BrainSkillResolver \<Rightarrow> SkillRequest list \<Rightarrow> BrainToolCategory" where
  "unambiguousRequestedCategory r requests =
     (case remdups (filter (\<lambda>c. c \<noteq> BrainToolControl)
             (concat (map (\<lambda>q. spec_AllowedToolCategories (pkg_Spec (pkg_of r (sreq_SkillID q)))) requests))) of
        [c] \<Rightarrow> c
      | _ \<Rightarrow> BrainToolCategory_other [])"

section \<open>Resolution\<close>

definition topologicalOrder :: "BrainSkillResolver \<Rightarrow> string list \<Rightarrow> skill_error + string list" where
  "topologicalOrder r selected =
     map_sum DependencyCycle (\<lambda>out. out)
       (dfs_all (skill_ids r) (\<lambda>i. filter (\<lambda>d. d \<in> set selected) (sort (requires_of r i))) {} (sort selected) [])"

definition closure_ids :: "BrainSkillResolver \<Rightarrow> string \<Rightarrow> string list" where
  "closure_ids r i = sorted_list_of_set (closure (skill_ids r) (requires_of r) {} [i])"

definition dependencyClosure :: "BrainSkillResolver \<Rightarrow> string \<Rightarrow> string list" where
  "dependencyClosure r i = (case topologicalOrder r (closure_ids r i) of Inl _ \<Rightarrow> [] | Inr order \<Rightarrow> order)"

definition activationFor :: "brainSkillPackage \<Rightarrow> SkillRequest \<Rightarrow> BrainPhase \<Rightarrow> time \<Rightarrow> SkillActivation" where
  "activationFor pkg request phase now =
     \<lparr>sact_SkillID = spec_ID (pkg_Spec pkg), sact_Version = spec_Version (pkg_Spec pkg), sact_ContentHash = pkg_Hash pkg,
      sact_Phase = phase, sact_Reason = sreq_Reason request, sact_Trigger = sreq_Trigger request,
      sact_RequestedBy = sreq_RequestedBy request, sact_RequestedTurn = sreq_RequestedTurn request,
      sact_Status = ''ACTIVATED'', sact_RejectedReason = [], sact_ActivatedAt = now\<rparr>"

definition rejectedActivationFor ::
  "BrainSkillResolver option \<Rightarrow> SkillRequest \<Rightarrow> BrainPhase \<Rightarrow> string \<Rightarrow> time \<Rightarrow> SkillActivation" where
  "rejectedActivationFor resolver request phase reason now =
     (let plain = \<lparr>sact_SkillID = sreq_SkillID request, sact_Version = [], sact_ContentHash = [], sact_Phase = phase,
            sact_Reason = sreq_Reason request, sact_Trigger = sreq_Trigger request, sact_RequestedBy = sreq_RequestedBy request,
            sact_RequestedTurn = sreq_RequestedTurn request, sact_Status = [], sact_RejectedReason = [], sact_ActivatedAt = now\<rparr>;
          activation = (case resolver of
              None \<Rightarrow> plain
            | Some r \<Rightarrow> (case map_of (bsr_packages r) (sreq_SkillID request) of
                  Some pkg \<Rightarrow> activationFor pkg request phase now
                | None \<Rightarrow> plain\<lparr>sact_Version := ''catalog-v'' @ Itoa (bsr_version r) @ ''-unresolved'', sact_ContentHash := bsr_hash r\<rparr>))
      in activation\<lparr>sact_Status := ''REJECTED'', sact_RejectedReason := reason\<rparr>)"

record resolve_state =
  rs_selected :: "(string \<times> SkillRequest) list"
  rs_optional :: int
  rs_rejected :: "SkillActivation list"

definition mandatory_request :: "string \<Rightarrow> string \<Rightarrow> SkillRequest" where
  "mandatory_request turn i = \<lparr>sreq_SkillID = i, sreq_Reason = ''mandatory phase procedure'', sreq_Trigger = ''PHASE_ENTRY'',
     sreq_RequestedBy = ''RUNTIME'', sreq_RequestedTurn = turn\<rparr>"

definition mandatory_selection :: "BrainSkillResolver \<Rightarrow> BrainPhase \<Rightarrow> string \<Rightarrow> (string \<times> SkillRequest) list" where
  "mandatory_selection r phase turn =
     map (\<lambda>(i, pkg). (i, mandatory_request turn i))
       (filter (\<lambda>(i, pkg). spec_Mandatory (pkg_Spec pkg) \<and> supportsPhase (pkg_Spec pkg) phase) (bsr_packages r))"

definition dependency_request :: "SkillRequest \<Rightarrow> string \<Rightarrow> SkillRequest" where
  "dependency_request request i =
     (if i \<noteq> sreq_SkillID request
      then request\<lparr>sreq_SkillID := i, sreq_Reason := ''dependency of '' @ sreq_SkillID request, sreq_RequestedBy := ''RUNTIME''\<rparr>
      else request\<lparr>sreq_SkillID := i\<rparr>)"

definition add_selected :: "SkillRequest \<Rightarrow> (string \<times> SkillRequest) list \<Rightarrow> string \<Rightarrow> (string \<times> SkillRequest) list" where
  "add_selected request selected i =
     (if i \<in> set (map fst selected) then selected else selected @ [(i, dependency_request request i)])"

definition resolve_request ::
  "BrainSkillResolver \<Rightarrow> BrainPhase \<Rightarrow> int \<Rightarrow> string \<Rightarrow> time \<Rightarrow> resolve_state \<Rightarrow> SkillRequest \<Rightarrow> resolve_state" where
  "resolve_request r phase maxOptional turn now st requested =
     (let request = (if TrimSpace (sreq_RequestedTurn requested) = [] then requested\<lparr>sreq_RequestedTurn := turn\<rparr> else requested);
          reject = (\<lambda>activation. st\<lparr>rs_rejected := rs_rejected st @ [activation]\<rparr>)
      in case map_of (bsr_packages r) (sreq_SkillID request) of
           None \<Rightarrow> reject (rejectedActivationFor (Some r) request phase ''unknown_skill'' now)
         | Some pkg \<Rightarrow>
             let refused = (\<lambda>reason. reject ((activationFor pkg request phase now)\<lparr>sact_Status := ''REJECTED'', sact_RejectedReason := reason\<rparr>)) in
             if sreq_Reason request = [] \<or> sreq_Trigger request = [] \<or> sreq_RequestedBy request \<noteq> ''BRAIN''
             then refused ''invalid_selection_reason''
             else if \<not> supportsPhase (pkg_Spec pkg) phase then refused ''incompatible_phase''
             else
               let needed = dependencyClosure r (sreq_SkillID request);
                   newOptional = int (length (filter (\<lambda>i. i \<notin> set (map fst (rs_selected st)) \<and> \<not> spec_Mandatory (pkg_Spec (pkg_of r i))) needed))
               in if maxOptional \<ge> 0 \<and> rs_optional st + newOptional > maxOptional
                  then refused ''optional_skill_budget_exhausted''
                  else st\<lparr>rs_selected := foldl (add_selected request) (rs_selected st) needed, rs_optional := rs_optional st + newOptional\<rparr>)"

definition selected_conflict :: "BrainSkillResolver \<Rightarrow> string list \<Rightarrow> (string \<times> string) option" where
  "selected_conflict r selected =
     find (\<lambda>(i, c). c \<in> set selected) (concat (map (\<lambda>i. map (\<lambda>c. (i, c)) (spec_Conflicts (pkg_Spec (pkg_of r i)))) selected))"

definition quoted :: "string \<Rightarrow> string" where
  "quoted s = [CHR 0x22] @ s @ [CHR 0x22]"

definition skill_prompt :: "BrainSkillResolver \<Rightarrow> string \<Rightarrow> string" where
  "skill_prompt r i = [CHR 0x0A, CHR 0x0A] @ ''<skill id='' @ quoted i @ '' version='' @ quoted (spec_Version (pkg_Spec (pkg_of r i))) @
     '' hash='' @ quoted (pkg_Hash (pkg_of r i)) @ ''>'' @ [CHR 0x0A] @ pkg_Content (pkg_of r i) @ [CHR 0x0A] @ ''</skill>''"

definition allowed_categories :: "BrainSkillResolver \<Rightarrow> string list \<Rightarrow> BrainToolCategory set" where
  "allowed_categories r ordered =
     (let cats = set (concat (map (\<lambda>i. spec_AllowedToolCategories (pkg_Spec (pkg_of r i))) (filter (\<lambda>i. i \<noteq> ''brain-kernel'') ordered)))
      in if cats = {} then set (spec_AllowedToolCategories (pkg_Spec (pkg_of r ''brain-kernel''))) else cats)"

definition resolve_bundle :: "BrainSkillResolver \<Rightarrow> BrainPhase \<Rightarrow> time \<Rightarrow> resolve_state \<Rightarrow> string list \<Rightarrow> ResolvedBrainSkills" where
  "resolve_bundle r phase now st ordered =
     \<lparr>rbs_Refs = map (\<lambda>i. \<lparr>sref_ID = i, sref_Version = spec_Version (pkg_Spec (pkg_of r i)), sref_ContentHash = pkg_Hash (pkg_of r i)\<rparr>) ordered,
      rbs_Prompt = TrimSpace (concat (map (skill_prompt r) ordered)),
      rbs_AllowedCategories = allowed_categories r ordered,
      rbs_Activations = map (\<lambda>i. activationFor (pkg_of r i) (mget (mandatory_request [] []) (map_of (rs_selected st)) i) phase now) ordered
        @ rs_rejected st,
      rbs_active = map (\<lambda>i. (i, pkg_of r i)) ordered\<rparr>"

definition resolve_requests ::
  "BrainSkillResolver \<Rightarrow> BrainPhase \<Rightarrow> SkillRequest list \<Rightarrow> int \<Rightarrow> string \<Rightarrow> time \<Rightarrow> resolve_state" where
  "resolve_requests r phase requests maxOptional turn now =
     foldl (resolve_request r phase maxOptional turn now)
       \<lparr>rs_selected = mandatory_selection r phase turn, rs_optional = 0, rs_rejected = []\<rparr> requests"

definition Resolve ::
  "BrainSkillResolver option \<Rightarrow> BrainPhase \<Rightarrow> SkillRequest list \<Rightarrow> int \<Rightarrow> string \<Rightarrow> time \<Rightarrow> skill_error + ResolvedBrainSkills" where
  "Resolve r0 phase requests maxOptional turn now =
     (case r0 of
        None \<Rightarrow> Inl ResolverRequired
      | Some r \<Rightarrow>
          if TrimSpace turn = [] then Inl ActivationTurnRequired
          else
            let st = resolve_requests r phase requests maxOptional turn now;
                ids = map fst (rs_selected st)
            in if ids = [] then Inl (NoMandatorySkill phase)
               else case selected_conflict r ids of
                   Some (i, c) \<Rightarrow> Inl (ActiveSkillsConflict i c)
                 | None \<Rightarrow> (case topologicalOrder r ids of
                       Inl e \<Rightarrow> Inl e
                     | Inr ordered \<Rightarrow> Inr (resolve_bundle r phase now st ordered)))"

section \<open>A valid catalog has no dependency cycle\<close>

definition valid_catalog :: "BrainSkillResolver \<Rightarrow> bool" where
  "valid_catalog r = (distinct (skill_ids r) \<and> validateCatalog r = None)"

lemma valid_catalog_search:
  assumes "valid_catalog r"
  obtains out where "dfs_all (skill_ids r) (requires_of r) {} (skill_ids r) [] = Inr out"
  using assms by (auto simp: valid_catalog_def validateCatalog_def split: if_splits option.splits sum.splits)

lemma valid_catalog_rank:
  assumes "valid_catalog r"
  shows "\<exists>rank. ranked (skill_ids r) (requires_of r) rank"
proof -
  obtain out where "dfs_all (skill_ids r) (requires_of r) {} (skill_ids r) [] = Inr out"
    using assms by (rule valid_catalog_search)
  then have "good_extension (known_deps (skill_ids r) (requires_of r)) UNIV {} [] out \<and> set (skill_ids r) \<subseteq> set out"
    by (intro dfs_sound(2)) auto
  then have out: "deps_first (known_deps (skill_ids r) (requires_of r)) out" "distinct out" "set (skill_ids r) \<subseteq> set out"
    by (auto simp: good_extension_def)
  have "\<forall>i. known_deps (skill_ids r) (requires_of r) i \<noteq> [] \<longrightarrow> i \<in> set out"
    using out(3) by (auto simp: known_deps_def split: if_splits)
  then have "ranked (skill_ids r) (requires_of r) (\<lambda>j. length (takeWhile (\<lambda>x. x \<noteq> j) out))"
    unfolding ranked_def using index_rank [OF out(1,2)] by blast
  then show ?thesis by blast
qed

lemma ranked_subset:
  "ranked ks deps rank \<Longrightarrow> (\<And>i. set (deps' i) \<subseteq> set (deps i)) \<Longrightarrow> ranked ks deps' rank"
  by (fastforce simp: ranked_def known_deps_def)

lemma topologicalOrder_total:
  assumes "valid_catalog r"
  shows "\<exists>out. topologicalOrder r selected = Inr out"
proof -
  obtain rank where rank: "ranked (skill_ids r) (requires_of r) rank" using valid_catalog_rank [OF assms] by blast
  let ?deps = "\<lambda>i. filter (\<lambda>d. d \<in> set selected) (sort (requires_of r i))"
  have "ranked (skill_ids r) ?deps rank" by (rule ranked_subset [OF rank]) auto
  then have "\<exists>out. dfs_all (skill_ids r) ?deps {} (sort selected) [] = Inr out" by (rule dfs_complete(2)) simp
  then obtain out where "dfs_all (skill_ids r) ?deps {} (sort selected) [] = Inr out" ..
  then show ?thesis by (simp add: topologicalOrder_def)
qed

lemma topologicalOrder_sound:
  assumes "topologicalOrder r selected = Inr out"
  shows "distinct out" and "set out = set selected"
    and "deps_first (known_deps (skill_ids r) (\<lambda>i. filter (\<lambda>d. d \<in> set selected) (sort (requires_of r i)))) out"
proof -
  let ?deps = "\<lambda>i. filter (\<lambda>d. d \<in> set selected) (sort (requires_of r i))"
  have "dfs_all (skill_ids r) ?deps {} (sort selected) [] = Inr out"
    using assms by (cases "dfs_all (skill_ids r) ?deps {} (sort selected) []") (auto simp: topologicalOrder_def)
  then have "good_extension (known_deps (skill_ids r) ?deps) (set selected) {} [] out \<and> set (sort selected) \<subseteq> set out"
    by (rule dfs_sound(2)) (auto simp: known_deps_def)
  then have ext: "good_extension (known_deps (skill_ids r) ?deps) (set selected) {} [] out" and sub: "set selected \<subseteq> set out"
    by simp_all
  then show "distinct out" "set out = set selected"
    "deps_first (known_deps (skill_ids r) (\<lambda>i. filter (\<lambda>d. d \<in> set selected) (sort (requires_of r i)))) out"
    by (auto simp: good_extension_def)
qed

lemma finite_closure: "finite seen \<Longrightarrow> finite (closure ks deps seen pending)"
  by (induction ks deps seen pending rule: closure.induct) (auto simp: closure.simps)

lemma dependencyClosure_set:
  assumes "valid_catalog r"
  shows "set (dependencyClosure r i) = {x. needs (known_deps (skill_ids r) (requires_of r)) i x} \<and> distinct (dependencyClosure r i)"
proof -
  obtain out where out: "topologicalOrder r (closure_ids r i) = Inr out" using topologicalOrder_total [OF assms] by blast
  have "set (closure_ids r i) = closure (skill_ids r) (requires_of r) {} [i]"
    unfolding closure_ids_def by (rule sorted_list_of_set.set_sorted_key_list_of_set) (simp add: finite_closure)
  then show ?thesis using topologicalOrder_sound [OF out] by (auto simp: dependencyClosure_def out closure_iff)
qed

section \<open>The selection loop\<close>

text \<open>What holds of the selection after any number of requests.\<close>

definition is_optional :: "BrainSkillResolver \<Rightarrow> string \<Rightarrow> bool" where
  "is_optional r i = (\<not> spec_Mandatory (pkg_Spec (pkg_of r i)))"

definition selection_ok :: "BrainSkillResolver \<Rightarrow> BrainPhase \<Rightarrow> int \<Rightarrow> string \<Rightarrow> resolve_state \<Rightarrow> bool" where
  "selection_ok r phase maxOptional turn st =
     (let ids = map fst (rs_selected st) in
      distinct ids \<and> set (map fst (mandatory_selection r phase turn)) \<subseteq> set ids \<and>
      rs_optional st = int (card {i \<in> set ids. is_optional r i}) \<and>
      (maxOptional \<ge> 0 \<longrightarrow> rs_optional st \<le> maxOptional) \<and>
      (\<forall>i\<in>set ids. is_optional r i \<longrightarrow> set (known_deps (skill_ids r) (requires_of r) i) \<subseteq> set ids))"

lemma add_selected_fst:
  "map fst (foldl (add_selected q) sel needed) = foldl appendUnique (map fst sel) needed"
  by (induction needed arbitrary: sel) (auto simp: add_selected_def appendUnique_def)

lemma foldl_appendUnique_set: "set (foldl appendUnique xs ys) = set xs \<union> set ys"
  by (induction ys arbitrary: xs) auto

lemma foldl_appendUnique_distinct: "distinct (foldl appendUnique xs ys) \<longleftrightarrow> distinct xs"
  by (induction ys arbitrary: xs) auto

lemma mandatory_selection_optional:
  assumes "distinct (skill_ids r)" and "i \<in> set (map fst (mandatory_selection r phase turn))"
  shows "\<not> is_optional r i"
proof -
  obtain pkg where "(i, pkg) \<in> set (bsr_packages r)" "spec_Mandatory (pkg_Spec pkg)"
    using assms(2) by (auto simp: mandatory_selection_def)
  then show ?thesis using assms(1) by (simp add: is_optional_def pkg_of_def skill_ids_def map_of_is_SomeI)
qed

lemma selection_ok_start:
  assumes "distinct (skill_ids r)"
  shows "selection_ok r phase maxOptional turn \<lparr>rs_selected = mandatory_selection r phase turn, rs_optional = 0, rs_rejected = []\<rparr>"
proof -
  have "map fst (mandatory_selection r phase turn) =
      map fst (filter (\<lambda>(i, pkg). spec_Mandatory (pkg_Spec pkg) \<and> supportsPhase (pkg_Spec pkg) phase) (bsr_packages r))"
    by (simp add: mandatory_selection_def case_prod_beta comp_def)
  then have "distinct (map fst (mandatory_selection r phase turn))"
    using assms by (simp add: skill_ids_def distinct_map_filter)
  then show ?thesis using mandatory_selection_optional [OF assms] by (auto simp: selection_ok_def Let_def)
qed

lemma needs_step: "needs dep i j \<Longrightarrow> set (dep j) \<subseteq> {x. needs dep i x}"
  by (auto intro: needs_dep)

lemma selection_ok_grow:
  assumes valid: "valid_catalog r" and ok: "selection_ok r phase maxOptional turn st"
    and n: "n = int (length (filter (\<lambda>i. i \<notin> set (map fst (rs_selected st)) \<and> is_optional r i) (dependencyClosure r j)))"
    and bound: "maxOptional \<ge> 0 \<longrightarrow> rs_optional st + n \<le> maxOptional"
  shows "selection_ok r phase maxOptional turn
     (st\<lparr>rs_selected := foldl (add_selected q) (rs_selected st) (dependencyClosure r j), rs_optional := rs_optional st + n\<rparr>)"
proof -
  let ?ids = "map fst (rs_selected st)" and ?new = "dependencyClosure r j"
  let ?dep = "known_deps (skill_ids r) (requires_of r)"
  have new: "set ?new = {x. needs ?dep j x}" "distinct ?new" using dependencyClosure_set [OF valid] by blast+
  have "{i \<in> set ?ids \<union> set ?new. is_optional r i} =
      {i \<in> set ?ids. is_optional r i} \<union> set (filter (\<lambda>i. i \<notin> set ?ids \<and> is_optional r i) ?new)" by auto
  then have "card {i \<in> set ?ids \<union> set ?new. is_optional r i} =
      card {i \<in> set ?ids. is_optional r i} + card (set (filter (\<lambda>i. i \<notin> set ?ids \<and> is_optional r i) ?new))"
    by (simp only:) (rule card_Un_disjoint; auto)
  then have "int (card {i \<in> set ?ids \<union> set ?new. is_optional r i}) = rs_optional st + n"
    using ok n distinct_card [OF distinct_filter [OF new(2)]] by (simp only: selection_ok_def Let_def)
  moreover have "set (?dep i) \<subseteq> set ?ids \<union> set ?new" if "i \<in> set ?ids \<union> set ?new" "is_optional r i" for i
  proof (cases "i \<in> set ?new")
    case True
    then show ?thesis using needs_step [of ?dep j i] new(1) by auto
  next
    case False
    then show ?thesis using that ok unfolding selection_ok_def Let_def by blast
  qed
  ultimately show ?thesis using ok bound
    by (auto simp: selection_ok_def Let_def add_selected_fst foldl_appendUnique_set foldl_appendUnique_distinct simp del: list.set_map)
qed

lemma selection_ok_rejected [simp]:
  "selection_ok r phase m turn (st\<lparr>rs_rejected := x\<rparr>) = selection_ok r phase m turn st"
  by (simp add: selection_ok_def)

lemma selection_ok_step:
  assumes "valid_catalog r" and "selection_ok r phase maxOptional turn st"
  shows "selection_ok r phase maxOptional turn (resolve_request r phase maxOptional turn now st requested)"
proof -
  define request where "request = (if TrimSpace (sreq_RequestedTurn requested) = [] then requested\<lparr>sreq_RequestedTurn := turn\<rparr> else requested)"
  show ?thesis
    using assms selection_ok_grow [OF assms refl, of "sreq_SkillID request" request]
    unfolding resolve_request_def Let_def request_def [symmetric] is_optional_def
    by (auto split: option.split)
qed

lemma selection_ok_run:
  assumes "valid_catalog r"
  shows "selection_ok r phase maxOptional turn (resolve_requests r phase requests maxOptional turn now)"
proof -
  have "selection_ok r phase maxOptional turn (foldl (resolve_request r phase maxOptional turn now) st requests)"
    if "selection_ok r phase maxOptional turn st" for st
    using that by (induction requests arbitrary: st) (auto intro: selection_ok_step [OF assms])
  then show ?thesis using assms selection_ok_start unfolding resolve_requests_def valid_catalog_def by blast
qed

section \<open>The resolved bundle\<close>

lemma Resolve_ok:
  assumes "Resolve (Some r) phase requests m turn now = Inr b"
  obtains ordered where
    "topologicalOrder r (map fst (rs_selected (resolve_requests r phase requests m turn now))) = Inr ordered"
    "selected_conflict r (map fst (rs_selected (resolve_requests r phase requests m turn now))) = None"
    "map sref_ID (rbs_Refs b) = ordered"
    "b = resolve_bundle r phase now (resolve_requests r phase requests m turn now) ordered"
proof -
  from assms obtain ordered where
    "topologicalOrder r (map fst (rs_selected (resolve_requests r phase requests m turn now))) = Inr ordered"
    "selected_conflict r (map fst (rs_selected (resolve_requests r phase requests m turn now))) = None"
    "b = resolve_bundle r phase now (resolve_requests r phase requests m turn now) ordered"
    by (auto simp: Resolve_def Let_def split: if_splits option.splits sum.splits)
  moreover from this(3) have "map sref_ID (rbs_Refs b) = ordered" by (simp add: resolve_bundle_def comp_def)
  ultimately show ?thesis using that by blast
qed

lemma selected_conflict_None:
  assumes "selected_conflict r ids = None" and "i \<in> set ids" and "c \<in> set (spec_Conflicts (pkg_Spec (pkg_of r i)))"
  shows "c \<notin> set ids"
  using assms by (fastforce simp: selected_conflict_def find_None_iff)

definition example_catalog :: BrainSkillResolver where
  "example_catalog = \<lparr>bsr_version = 1,
     bsr_packages = [(''brain-kernel'', zero_brainSkillPackage\<lparr>pkg_Hash := ''k'', pkg_Spec := zero_brainSkillSpec\<lparr>spec_ID := ''brain-kernel'',
         spec_Mandatory := True, spec_CompatiblePhases := [BrainPhaseInvestigation], spec_AllowedToolCategories := [BrainToolControl]\<rparr>\<rparr>),
       (''inspect'', zero_brainSkillPackage\<lparr>pkg_Hash := ''i'', pkg_Spec := zero_brainSkillSpec\<lparr>spec_ID := ''inspect'',
         spec_Requires := [''brain-kernel''], spec_CompatiblePhases := [BrainPhaseInvestigation], spec_AllowedToolCategories := [BrainToolEvidence]\<rparr>\<rparr>)],
     bsr_policy = DefaultToolCallingPolicy, bsr_hash = ''c''\<rparr>"

lemma example_catalog_deps:
  "skill_ids example_catalog = [''brain-kernel'', ''inspect'']"
  "requires_of example_catalog ''brain-kernel'' = []" "requires_of example_catalog ''inspect'' = [''brain-kernel'']"
  by (simp_all add: example_catalog_def skill_ids_def requires_of_def pkg_of_def mget_def zero_defs)

lemma example_catalog_valid: "valid_catalog example_catalog"
proof -
  have "dfs_all (skill_ids example_catalog) (requires_of example_catalog) {} (skill_ids example_catalog) [] = Inr [''brain-kernel'', ''inspect'']"
    by (simp add: example_catalog_deps dfs.simps dfs_all.simps known_deps_def)
  moreover have "first_unknown example_catalog (bsr_packages example_catalog) = None"
    by (simp add: example_catalog_def skill_ids_def zero_defs)
  ultimately show ?thesis
    by (simp add: valid_catalog_def validateCatalog_def example_catalog_deps)
      (simp add: example_catalog_def DefaultToolCallingPolicy_def)
qed

text \<open>A catalog that passed validation always orders its skills: for every selection the topological
  sort succeeds, lists exactly the selected ids once each, and lists every selected dependency of
  a catalogued skill before it.\<close>

theorem valid_catalog_orders_every_selection:
  assumes "valid_catalog r"
  shows "\<exists>out. topologicalOrder r selected = Inr out \<and> distinct out \<and> set out = set selected \<and>
    (\<forall>xs i ys. out = xs @ i # ys \<longrightarrow> i \<in> set (skill_ids r) \<longrightarrow> set (requires_of r i) \<inter> set selected \<subseteq> set xs)"
proof -
  obtain out where out: "topologicalOrder r selected = Inr out" using topologicalOrder_total [OF assms] by blast
  note sound = topologicalOrder_sound [OF out]
  have "set (requires_of r i) \<inter> set selected \<subseteq> set xs" if "out = xs @ i # ys" "i \<in> set (skill_ids r)" for xs i ys
    using deps_first_append [of _ xs i ys] sound(3) that by (fastforce simp: known_deps_def)
  with out sound show ?thesis by blast
qed

lemma valid_catalog_orders_every_selection_witness:
  "\<exists>out. topologicalOrder example_catalog [''inspect'', ''brain-kernel''] = Inr out \<and> distinct out"
  using valid_catalog_orders_every_selection [OF example_catalog_valid, of "[''inspect'', ''brain-kernel'']"] by blast

text \<open>The bundle frozen for a turn is safe: with a valid catalog every successful resolution contains each
  mandatory skill of the phase, contains no two skills in conflict, has at most the allowed number of
  optional skills, and lists the dependencies of every optional skill before it.\<close>

theorem resolved_bundle_safe:
  assumes "valid_catalog r" and "Resolve (Some r) phase requests m turn now = Inr b"
  shows "distinct (map sref_ID (rbs_Refs b)) \<and>
    (\<forall>(i, pkg)\<in>set (bsr_packages r). spec_Mandatory (pkg_Spec pkg) \<and> supportsPhase (pkg_Spec pkg) phase \<longrightarrow> i \<in> set (map sref_ID (rbs_Refs b))) \<and>
    (\<forall>i\<in>set (map sref_ID (rbs_Refs b)). set (spec_Conflicts (pkg_Spec (pkg_of r i))) \<inter> set (map sref_ID (rbs_Refs b)) = {}) \<and>
    (m \<ge> 0 \<longrightarrow> int (length (filter (is_optional r) (map sref_ID (rbs_Refs b)))) \<le> m) \<and>
    (\<forall>xs i ys. map sref_ID (rbs_Refs b) = xs @ i # ys \<and> i \<in> set (skill_ids r) \<and> is_optional r i \<longrightarrow> set (requires_of r i) \<subseteq> set xs)"
proof -
  let ?st = "resolve_requests r phase requests m turn now"
  let ?ids = "map fst (rs_selected ?st)"
  obtain ordered where o: "topologicalOrder r ?ids = Inr ordered" "selected_conflict r ?ids = None" "map sref_ID (rbs_Refs b) = ordered"
    using assms(2) by (rule Resolve_ok)
  note sound = topologicalOrder_sound [OF o(1)]
  note ok = selection_ok_run [OF assms(1), of phase m turn requests now, unfolded selection_ok_def Let_def]
  have mandatory: "i \<in> set ?ids" if "(i, pkg) \<in> set (bsr_packages r)" "spec_Mandatory (pkg_Spec pkg)" "supportsPhase (pkg_Spec pkg) phase" for i pkg
    using ok that by (force simp: mandatory_selection_def)
  have count: "length (filter (is_optional r) ordered) = card {i \<in> set ?ids. is_optional r i}"
    using distinct_card [OF distinct_filter [OF sound(1)], of "is_optional r"] sound(2) by simp
  have deps: "set (requires_of r i) \<subseteq> set xs" if "ordered = xs @ i # ys" "i \<in> set (skill_ids r)" "is_optional r i" for xs i ys
  proof -
    have "i \<in> set ?ids" using that(1) sound(2) by (metis in_set_conv_decomp)
    then have "set (requires_of r i) \<subseteq> set ?ids" using ok that by (auto simp: known_deps_def)
    moreover have "set (requires_of r i) \<inter> set ?ids \<subseteq> set xs"
      using deps_first_append [of _ xs i ys] sound(3) that by (fastforce simp: known_deps_def)
    ultimately show ?thesis by blast
  qed
  show ?thesis unfolding o(3)
  proof (intro conjI)
    show "\<forall>(i, pkg)\<in>set (bsr_packages r). spec_Mandatory (pkg_Spec pkg) \<and> supportsPhase (pkg_Spec pkg) phase \<longrightarrow> i \<in> set ordered"
      using mandatory sound(2) by auto
    show "\<forall>i\<in>set ordered. set (spec_Conflicts (pkg_Spec (pkg_of r i))) \<inter> set ordered = {}"
      using selected_conflict_None [OF o(2)] sound(2) by blast
    show "m \<ge> 0 \<longrightarrow> int (length (filter (is_optional r) ordered)) \<le> m" unfolding count using ok by metis
    show "\<forall>xs i ys. ordered = xs @ i # ys \<and> i \<in> set (skill_ids r) \<and> is_optional r i \<longrightarrow> set (requires_of r i) \<subseteq> set xs"
      using deps by blast
  qed (rule sound(1))
qed

definition example_skill_request :: SkillRequest where
  "example_skill_request = \<lparr>sreq_SkillID = ''inspect'', sreq_Reason = ''look at pods'', sreq_Trigger = ''SYMPTOM'',
     sreq_RequestedBy = ''BRAIN'', sreq_RequestedTurn = ''t1''\<rparr>"

lemma example_resolves: "\<exists>b. Resolve (Some example_catalog) BrainPhaseInvestigation [example_skill_request] 2 ''t1'' 0 = Inr b"
proof -
  let ?ids = "map fst (rs_selected (resolve_requests example_catalog BrainPhaseInvestigation [example_skill_request] 2 ''t1'' 0))"
  have ne: "?ids \<noteq> []"
    using selection_ok_run [OF example_catalog_valid, of BrainPhaseInvestigation 2 "''t1''" "[example_skill_request]" 0]
    by (auto simp: selection_ok_def Let_def mandatory_selection_def example_catalog_def supportsPhase_def zero_defs)
  have "spec_Conflicts (pkg_Spec (pkg_of example_catalog i)) = []" for i
    by (simp add: pkg_of_def mget_def example_catalog_def zero_defs)
  then have "selected_conflict example_catalog ?ids = None" by (simp add: selected_conflict_def find_None_iff)
  then show ?thesis using ne topologicalOrder_total [OF example_catalog_valid, of ?ids]
    by (auto simp: Resolve_def Let_def TrimSpace_def IsSpace_def)
qed

lemma resolved_bundle_safe_witness:
  "\<exists>b. Resolve (Some example_catalog) BrainPhaseInvestigation [example_skill_request] 2 ''t1'' 0 = Inr b \<and>
     int (length (filter (is_optional example_catalog) (map sref_ID (rbs_Refs b)))) \<le> 2"
  using example_resolves resolved_bundle_safe [OF example_catalog_valid, of BrainPhaseInvestigation "[example_skill_request]" 2 "''t1''" 0] by fastforce

end
