(* ===== verification/Brain_Common.thy ===== *)
theory Brain_Common
  imports Tool_Policy Admission Grounding Belief Incident_Lifecycle
begin

text \<open>The helpers on the workflow state that the tools, the graph and the safety kernel of the Brain
  share (\<^verbatim>\<open>agent/brain_tools.go\<close>, \<^verbatim>\<open>agent/brain_state.go\<close>, \<^verbatim>\<open>agent/brain_graph.go\<close>): lookups,
  counters, the routing of tool categories, envelopes, the constraint kernel in front of each tool,
  termination, and the audit projection \<^verbatim>\<open>syncInvestigation\<close>.  A handler of the graph returns the
  state and an error, as the code does.  An identifier drawn from \<^verbatim>\<open>ulid.Make\<close> and a clock reading are
  arguments, and so is the decoder of the JSON arguments of a tool call.\<close>

datatype node_error =
    NilDereference
  | RefusedTransition transition_error
  | NodeError string

type_synonym node_result = "WorkflowState \<times> node_error option"

section \<open>Lookups and counters\<close>

definition findAgentHypothesis :: "AgentHypothesis list \<Rightarrow> string \<Rightarrow> AgentHypothesis option" where
  "findAgentHypothesis items hid = find (\<lambda>item. hyp_ID item = hid) (rev items)"

definition findHypothesisAdmission :: "HypothesisAdmission list \<Rightarrow> string \<Rightarrow> HypothesisAdmission option" where
  "findHypothesisAdmission items hid = find (\<lambda>item. adm_HypothesisRevisionID item = hid) (rev items)"

definition findHypothesisGrounding :: "HypothesisGrounding list \<Rightarrow> string \<Rightarrow> HypothesisGrounding option" where
  "findHypothesisGrounding items hid = find (\<lambda>item. gr_HypothesisRevisionID item = hid) (rev items)"

definition currentBrainTurnID :: "('a) BrainState_scheme \<Rightarrow> string" where
  "currentBrainTurnID s = (if bs_BrainTurns s = [] then [] else turn_ID (last (bs_BrainTurns s)))"

definition finalHypothesisID :: "('a) BrainState_scheme \<Rightarrow> string" where
  "finalHypothesisID s = (case bs_AgentDiagnosis s of None \<Rightarrow> [] | Some d \<Rightarrow> diag_HypothesisRevisionID d)"

definition unresolvedGaps :: "('a) BrainState_scheme \<Rightarrow> string list" where
  "unresolvedGaps s =
     (if bs_HypothesisGroundings s = [] then [''no hypothesis has a current grounding result'']
      else gr_MissingObservations (last (bs_HypothesisGroundings s)))"

definition replaceGrounding :: "HypothesisGrounding list \<Rightarrow> HypothesisGrounding \<Rightarrow> HypothesisGrounding list" where
  "replaceGrounding items value =
     filter (\<lambda>item. gr_HypothesisRevisionID item \<noteq> gr_HypothesisRevisionID value) items @ [value]"

definition activeHypothesisCount :: "AgentHypothesis list \<Rightarrow> int" where
  "activeHypothesisCount items =
     int (length (filter (\<lambda>h. hyp_Status h = HypothesisProposed \<or> hyp_Status h = HypothesisAdmitted \<or>
                             hyp_Status h = HypothesisInvestigating \<or> hyp_Status h = HypothesisSupported) items))"

definition hypothesisBranchCount :: "AgentHypothesis list \<Rightarrow> int" where
  "hypothesisBranchCount items = int (length (remdups (map hyp_LineageID items)))"

definition hasNewEvidence :: "Evidence list \<Rightarrow> Evidence list \<Rightarrow> bool" where
  "hasNewEvidence existing incoming =
     list_ex (\<lambda>item. ev_ID item \<noteq> [] \<and> ev_ID item \<notin> set (map ev_ID existing)) incoming"

definition evidenceIDs :: "Evidence list \<Rightarrow> string list" where
  "evidenceIDs items = sort (filter (\<lambda>x. x \<noteq> []) (map ev_ID items))"

definition collectSignals :: "Evidence list \<Rightarrow> EvidenceSignal list" where
  "collectSignals evidence = sort_key sig_ID (concat (map ev_Signals evidence))"

text \<open>Both lists are keyed by evidence identity, the later item winning; the map's entries come out sorted
  by their identities, which are distinct.\<close>

definition newest :: "Evidence list \<Rightarrow> string \<Rightarrow> Evidence" where
  "newest items k = the (find (\<lambda>item. ev_ID item = k) (rev items))"

definition mergeEvidence :: "Evidence list \<Rightarrow> Evidence list \<Rightarrow> Evidence list" where
  "mergeEvidence left right =
     (let items = filter (\<lambda>item. ev_ID item \<noteq> []) (left @ right)
      in map (newest items) (sort (remdups (map ev_ID items))))"

section \<open>Phases and tool categories\<close>

abbreviation NoPhase :: BrainPhase where "NoPhase \<equiv> BrainPhase_other []"
abbreviation NoCategory :: BrainToolCategory where "NoCategory \<equiv> BrainToolCategory_other []"

definition categoryForToolName :: "string \<Rightarrow> BrainToolCategory" where
  "categoryForToolName name =
     (if name \<in> {''query_metrics'', ''search_logs'', ''query_traces'', ''inspect_kubernetes'', ''discover_resources''} then BrainToolEvidence
      else if name \<in> {''retrieve_incidents'', ''retrieve_runbooks'', ''retrieve_patterns''} then BrainToolRetrieval
      else if name \<in> {''submit_hypotheses'', ''revise_hypothesis'', ''validate_hypothesis'', ''compare_hypotheses'',
        ''commit_belief_delta'', ''submit_diagnosis'', ''validate_diagnosis'', ''submit_investigation_plan'', ''revise_investigation_plan''}
        then BrainToolReasoning
      else if name = ''submit_recovery_plan'' then BrainToolRecovery
      else BrainToolControl)"

definition effectiveToolCategory :: "('a) BrainState_scheme \<Rightarrow> BrainToolCategory" where
  "effectiveToolCategory s = (case bs_BrainPhase s of
       BrainPhaseIntake \<Rightarrow> BrainToolControl
     | BrainPhaseEscalation \<Rightarrow> BrainToolControl
     | BrainPhaseVerification \<Rightarrow> BrainToolControl
     | BrainPhasePlanning \<Rightarrow> BrainToolReasoning
     | BrainPhaseDiagnosis \<Rightarrow> BrainToolReasoning
     | BrainPhaseReflection \<Rightarrow> BrainToolReasoning
     | BrainPhaseRecovery \<Rightarrow> BrainToolRecovery
     | _ \<Rightarrow> if bs_ActiveToolCategory s = NoCategory then BrainToolReasoning else bs_ActiveToolCategory s)"

definition defaultCategoryForPhase :: "BrainPhase \<Rightarrow> BrainToolCategory" where
  "defaultCategoryForPhase phase = (case phase of
       BrainPhaseIntake \<Rightarrow> BrainToolControl
     | BrainPhaseEscalation \<Rightarrow> BrainToolControl
     | BrainPhaseVerification \<Rightarrow> BrainToolControl
     | BrainPhaseRecovery \<Rightarrow> BrainToolRecovery
     | _ \<Rightarrow> BrainToolReasoning)"

definition categoryAllowed :: "BrainToolCategory list \<Rightarrow> BrainToolCategory \<Rightarrow> bool" where
  "categoryAllowed values wanted = (wanted = BrainToolControl \<or> wanted \<in> set values)"

definition currentBrainToolCategory :: "('a) BrainState_scheme \<Rightarrow> BrainToolCategory" where
  "currentBrainToolCategory s =
     (if bs_BrainTurns s \<noteq> [] \<and> turn_ToolCategory (last (bs_BrainTurns s)) \<noteq> NoCategory
      then turn_ToolCategory (last (bs_BrainTurns s)) else effectiveToolCategory s)"

definition brainRegistryNode :: "BrainToolCategory \<Rightarrow> string" where
  "brainRegistryNode category = (case category of
       BrainToolEvidence \<Rightarrow> ''brain_evidence_tools''
     | BrainToolRetrieval \<Rightarrow> ''brain_retrieval_tools''
     | BrainToolRecovery \<Rightarrow> ''brain_recovery_tools''
     | BrainToolControl \<Rightarrow> ''brain_control_tools''
     | _ \<Rightarrow> ''brain_reasoning_tools'')"

definition isToolBudgetClosingAction :: "string \<Rightarrow> bool" where
  "isToolBudgetClosingAction toolName = (toolName \<in> {''submit_diagnosis'', ''validate_diagnosis'', ''finish_investigation''})"

definition brainToolCallBudgetExhausted :: "('a) BrainState_scheme \<Rightarrow> bool" where
  "brainToolCallBudgetExhausted s =
     (let b = bs_BrainBudget s in 0 < bb_MaxToolCalls (bbs_Limits b) \<and> bb_MaxToolCalls (bbs_Limits b) \<le> bu_ToolCalls (bbs_Usage b))"

definition enterToolBudgetFinalization :: "('a) BrainState_scheme \<Rightarrow> ('a) BrainState_scheme" where
  "enterToolBudgetFinalization s =
     (let s1 = s\<lparr>bs_BrainBudget := (bs_BrainBudget s)\<lparr>bbs_ToolCallsExhausted := True\<rparr>, bs_PendingReflection := None, bs_RequestedSkills := []\<rparr>
      in if bs_AgentDiagnosis s1 = None then s1\<lparr>bs_BrainPhase := BrainPhaseDiagnosis, bs_ActiveToolCategory := BrainToolReasoning\<rparr>
         else s1\<lparr>bs_BrainPhase := BrainPhaseEscalation, bs_ActiveToolCategory := BrainToolControl\<rparr>)"

text \<open>\<^verbatim>\<open>tailGroundingDeltas\<close>, \<^verbatim>\<open>tailBrainToolExecutions\<close> and \<^verbatim>\<open>tailCausalPatterns\<close> are one function at three types;
  \<^verbatim>\<open>tailMemoryReads\<close> also reads a limit below 1 as no limit.\<close>

definition tail_values :: "'a list \<Rightarrow> int \<Rightarrow> 'a list" where
  "tail_values values limit = (if int (length values) \<le> limit then values else drop (nat (int (length values) - limit)) values)"

definition tailMemoryReads :: "'a list \<Rightarrow> int \<Rightarrow> 'a list" where
  "tailMemoryReads values limit = (if limit \<le> 0 then values else tail_values values limit)"

section \<open>Envelopes and provenance\<close>

text \<open>The fields of a tool call's JSON arguments that make up its intent, as the decoder fills them.\<close>

record action_input =
  ai_Intent :: string
  ai_ExpectedObservation :: "string list"
  ai_Targets :: "ResourceRef list"
  ai_HypothesisIDs :: "string list"
  ai_HypothesisID :: string
  ai_EvidenceNeed :: "string list"

definition intent_of_input :: "action_input \<Rightarrow> AgentActionIntent" where
  "intent_of_input input =
     \<lparr>intent_Intent = ai_Intent input, intent_TargetScope = ai_Targets input,
      intent_HypothesisIDs = ai_HypothesisIDs input @ (if ai_HypothesisID input \<noteq> [] then [ai_HypothesisID input] else []),
      intent_EvidenceNeed = ai_EvidenceNeed input, intent_ExpectedObservation = ai_ExpectedObservation input\<rparr>"

text \<open>The messages are scanned from the last to the first without an early exit, so the first message
  with the call (and in it the last such call) decides.  The dereference of a nil message is an error of
  the caller: the graph stores no nil message, and the model skips it.\<close>

definition calls_in_history :: "Message option list \<Rightarrow> ToolCall list" where
  "calls_in_history ms = concat (map (\<lambda>m. case m of None \<Rightarrow> [] | Some msg \<Rightarrow> msg_ToolCalls msg) (rev ms))"

definition intent_of_call :: "(string \<Rightarrow> action_input) \<Rightarrow> Message option list \<Rightarrow> string \<Rightarrow> AgentActionIntent" where
  "intent_of_call D ms callID =
     (case filter (\<lambda>c. call_ID c = callID) (calls_in_history ms) of
        [] \<Rightarrow> zero_AgentActionIntent
      | cs \<Rightarrow> intent_of_input (D (call_Arguments (last cs))))"

definition envelopeFromToolCall ::
  "hasher \<Rightarrow> (string \<Rightarrow> action_input) \<Rightarrow> WorkflowState \<Rightarrow> Incident \<Rightarrow> string \<Rightarrow> string \<Rightarrow> AgentActionEnvelope" where
  "envelopeFromToolCall H D s i callID toolName =
     \<lparr>env_ActionID = callID, env_IncidentID = inc_ID i, env_TurnID = currentBrainTurnID s, env_Phase = bs_BrainPhase s,
      env_ToolName = toolName, env_ToolCategory = categoryForToolName toolName, env_RoutedToolCategory = currentBrainToolCategory s,
      env_SkillRefs = bs_ActiveSkillRefs s, env_EvidenceSnapshotHash = bs_EvidenceSnapshotHash s,
      env_IdempotencyKey = H (HCallKey (inc_ID i) callID), env_Intent = intent_of_call D (bs_BrainMessages s) callID\<rparr>"

definition newBrainEnvelope ::
  "hasher \<Rightarrow> WorkflowState \<Rightarrow> Incident \<Rightarrow> string \<Rightarrow> string \<Rightarrow> BrainToolCategory \<Rightarrow> AgentActionIntent \<Rightarrow> AgentActionEnvelope" where
  "newBrainEnvelope H s i ulid toolName category intent =
     \<lparr>env_ActionID = ulid, env_IncidentID = inc_ID i, env_TurnID = currentBrainTurnID s, env_Phase = bs_BrainPhase s,
      env_ToolName = toolName, env_ToolCategory = category, env_RoutedToolCategory = currentBrainToolCategory s,
      env_SkillRefs = bs_ActiveSkillRefs s, env_EvidenceSnapshotHash = bs_EvidenceSnapshotHash s,
      env_IdempotencyKey = H (HEnvelopeKey (inc_ID i) (currentBrainTurnID s) toolName intent), env_Intent = intent\<rparr>"

definition provenance_key :: "ResourceRef \<Rightarrow> string" where
  "provenance_key r = Join [ref_Namespace r, ref_Service r, ref_Resource r, ref_Kind r] [CHR 0x00]"

fun dedup_by :: "('a \<Rightarrow> 'k) \<Rightarrow> 'k list \<Rightarrow> 'a list \<Rightarrow> 'a list" where
  "dedup_by key seen [] = []"
| "dedup_by key seen (x # xs) =
     (if key x \<in> set seen then dedup_by key seen xs else x # dedup_by key (key x # seen) xs)"

definition hypothesis_targets :: "AgentHypothesis list \<Rightarrow> string \<Rightarrow> ResourceRef list" where
  "hypothesis_targets items hid = (case findAgentHypothesis items hid of None \<Rightarrow> [] | Some h \<Rightarrow> hyp_TargetRefs h)"

definition brainProvenanceTargets :: "WorkflowState \<Rightarrow> AgentActionEnvelope \<Rightarrow> ResourceRef list" where
  "brainProvenanceTargets s env =
     (let refs = intent_TargetScope (env_Intent env) @
                 concat (map (hypothesis_targets (bs_AgentHypotheses s)) (intent_HypothesisIDs (env_Intent env)));
          refs' = (if refs \<noteq> [] then refs else case ws_Incident s of None \<Rightarrow> []
                   | Some i \<Rightarrow> [zero_ResourceRef\<lparr>ref_Namespace := inc_Namespace i, ref_Service := inc_Service i,
                                  ref_Resource := inc_Resource i, ref_Kind := ''IncidentScope''\<rparr>])
      in dedup_by provenance_key [] refs')"

definition baseBrainProvenance :: "hasher \<Rightarrow> AgentActionEnvelope \<Rightarrow> string \<Rightarrow> hash_input \<Rightarrow> time \<Rightarrow> ToolResultProvenance" where
  "baseBrainProvenance H env collector artifact now =
     zero_ToolResultProvenance\<lparr>prov_ToolName := env_ToolName env, prov_Collector := collector,
       prov_TargetRefs := intent_TargetScope (env_Intent env), prov_ObservedAt := now,
       prov_RawArtifactHash := H artifact, prov_ParserVersion := ''brain-runtime-v1''\<rparr>"

definition constraintBrainOutput :: "hasher \<Rightarrow> AgentActionEnvelope \<Rightarrow> string \<Rightarrow> string \<Rightarrow> time \<Rightarrow> brainCapabilityOutput" where
  "constraintBrainOutput H env code summary now =
     zero_brainCapabilityOutput\<lparr>out_Class := ToolResultConstraint, out_Status := ''REJECTED'', out_Summary := summary,
       out_ConstraintCode := code, out_Provenance := baseBrainProvenance H env ''constraint-kernel-v1'' (HString code) now\<rparr>"

definition errorBrainOutput :: "hasher \<Rightarrow> AgentActionEnvelope \<Rightarrow> string \<Rightarrow> bool \<Rightarrow> time \<Rightarrow> brainCapabilityOutput" where
  "errorBrainOutput H env summary infrastructure now =
     zero_brainCapabilityOutput\<lparr>out_Class := ToolResultError, out_Status := ''ERROR'', out_Summary := summary,
       out_Infrastructure := infrastructure, out_Provenance := baseBrainProvenance H env ''tool-error-v1'' (HString summary) now\<rparr>"

section \<open>The constraint kernel in front of a tool\<close>

definition stateToolPolicy :: "('a) BrainState_scheme \<Rightarrow> ToolCallingPolicy" where
  "stateToolPolicy s =
     (if bb_MaxTurns (bbs_Limits (bs_BrainBudget s)) = 0 then DefaultToolCallingPolicy else bs_BrainToolPolicy s)"

definition allowedCategoriesForState :: "('a) BrainState_scheme \<Rightarrow> BrainToolCategory list" where
  "allowedCategoriesForState s =
     (if bs_ActiveToolCategory s = NoCategory then [BrainToolReasoning]
      else if bs_ActiveToolCategory s \<in> set (bs_ActiveSkillCategories s) then [bs_ActiveToolCategory s] else [])"

definition authorize_decision :: "hasher \<Rightarrow> ('a) BrainState_scheme \<Rightarrow> AgentActionEnvelope \<Rightarrow> ToolPolicyDecision" where
  "authorize_decision H s env =
     ToolPolicy_Validate H (stateToolPolicy s) env (bs_ToolExecutions s)
       (list_ex (\<lambda>item. adm_Decision item = ''ADMITTED'') (bs_HypothesisAdmissions s))
       (insert BrainToolControl (set (allowedCategoriesForState s)))"

definition authorizeBrainTool :: "hasher \<Rightarrow> ('a) BrainState_scheme \<Rightarrow> AgentActionEnvelope \<Rightarrow> time \<Rightarrow> brainCapabilityOutput option" where
  "authorizeBrainTool H s env now =
     (if bbs_ToolCallsExhausted (bs_BrainBudget s) \<and> \<not> isToolBudgetClosingAction (env_ToolName env)
      then Some (constraintBrainOutput H env ''tool_call_budget_exhausted''
        ''investigation ToolCall budget is exhausted; only submit_diagnosis, validate_diagnosis, or finish_investigation may use the existing state'' now)
      else let decision = authorize_decision H s env in
        if tpd_Allowed decision then None
        else Some (constraintBrainOutput H env (Join (tpd_ReasonCodes decision) '','') ''Tool Calling Policy rejected the request'' now))"

section \<open>Termination and the audit projection\<close>

text \<open>The handlers drop the error of \<^verbatim>\<open>NewTermination\<close>, which is nil for the reasons they give.\<close>

definition new_termination :: "('a) BrainState_scheme \<Rightarrow> TerminationReason \<Rightarrow> string list \<Rightarrow> time \<Rightarrow> TerminationEvent" where
  "new_termination s reason gaps now =
     (case NewTermination reason (currentBrainTurnID s) (finalHypothesisID s) (bs_EvidenceSnapshotHash s)
             (Some (bs_ExecutionSnapshot s)) gaps (bs_BrainBudget s) now of
        Inr event \<Rightarrow> event
      | Inl _ \<Rightarrow> zero_TerminationEvent)"

definition map_investigation :: "(Investigation \<Rightarrow> Investigation) \<Rightarrow> WorkflowState \<Rightarrow> WorkflowState" where
  "map_investigation f s =
     s\<lparr>ws_Incident := map_option (\<lambda>i. i\<lparr>inc_Investigation := map_option f (inc_Investigation i)\<rparr>) (ws_Incident s)\<rparr>"

definition setFinalBrainTermination :: "WorkflowState \<Rightarrow> TerminationReason \<Rightarrow> string list \<Rightarrow> time \<Rightarrow> WorkflowState" where
  "setFinalBrainTermination s reason gaps now =
     (case NewTermination reason (currentBrainTurnID s) (finalHypothesisID s) (bs_EvidenceSnapshotHash s)
             (Some (bs_ExecutionSnapshot s)) gaps (bs_BrainBudget s) now of
        Inl _ \<Rightarrow> s
      | Inr event \<Rightarrow> map_investigation (\<lambda>v. v\<lparr>inv_Termination := Some event\<rparr>) (s\<lparr>bs_Termination := Some event\<rparr>))"

definition sync_fields :: "WorkflowState \<Rightarrow> Incident \<Rightarrow> Investigation \<Rightarrow> Investigation" where
  "sync_fields s i v = v\<lparr>
     inv_Plan := (case bs_InvestigationPlan s of Some p \<Rightarrow> p | None \<Rightarrow> inv_Plan v),
     inv_PlanHistory := bs_InvestigationPlanHistory s,
     inv_BrainTurns := bs_BrainTurns s,
     inv_AssistantTurns := bs_AssistantTurns s,
     inv_IncidentUnderstanding := bs_IncidentUnderstanding s,
     inv_WorldModel := bs_WorldModel s,
     inv_HybridRetrievals := bs_HybridRetrievals s,
     inv_SkillRetrievals := bs_SkillRetrievals s,
     inv_SkillActivations := bs_SkillActivations s,
     inv_ToolExecutions := bs_ToolExecutions s,
     inv_EvidenceAttributions := bs_EvidenceAttributions s,
     inv_AgentHypotheses := bs_AgentHypotheses s,
     inv_HypothesisAdmissions := bs_HypothesisAdmissions s,
     inv_HypothesisGroundings := bs_HypothesisGroundings s,
     inv_HypothesisComparisons := bs_HypothesisComparisons s,
     inv_GroundingDeltas := bs_GroundingDeltas s,
     inv_BeliefDeltas := bs_BeliefDeltas s,
     inv_Reflections := bs_Reflections s,
     inv_AgentDiagnosis := bs_AgentDiagnosis s,
     inv_AgentRecoveryPlan := bs_AgentRecoveryPlan s,
     inv_RecoveryPermission := bs_RecoveryPermission s,
     inv_Termination := bs_Termination s,
     inv_DiagnosisValidations := bs_DiagnosisValidations s,
     inv_BrainBudget := Some (bs_BrainBudget s),
     inv_ExecutionSnapshot := Some (bs_ExecutionSnapshot s),
     inv_WorkflowAttempt := bs_WorkflowAttempt s,
     inv_Signals := collectSignals (inc_Evidence i),
     inv_Assertions := bs_RuntimeAssertions s\<rparr>"

definition syncInvestigation :: "WorkflowState \<Rightarrow> WorkflowState" where
  "syncInvestigation s = (case ws_Incident s of None \<Rightarrow> s
     | Some i \<Rightarrow> (case inc_Investigation i of None \<Rightarrow> s
         | Some v \<Rightarrow> s\<lparr>ws_Incident := Some (i\<lparr>inc_Investigation := Some (sync_fields s i v)\<rparr>)\<rparr>))"

definition terminationRouter :: "WorkflowState \<Rightarrow> time \<Rightarrow> node_result" where
  "terminationRouter s now = (case ws_Incident s of
       None \<Rightarrow> (s, Some (NodeError ''termination router requires WorkflowState and Incident''))
     | Some i \<Rightarrow>
         let l = bbs_Limits (bs_BrainBudget s); u = bbs_Usage (bs_BrainBudget s);
             s1 = (if bs_Termination s = None \<and> 0 < bb_MaxTurns l \<and> bb_MaxTurns l \<le> bu_Turns u
                   then s\<lparr>bs_Termination := Some (new_termination s TerminationBudgetExhausted (unresolvedGaps s) now)\<rparr> else s)
         in if bs_Termination s1 \<noteq> None \<and> inc_Investigation i \<noteq> None
            then (syncInvestigation (map_investigation (\<lambda>v. v\<lparr>inv_CompletedAt := now\<rparr>) s1), None)
            else (s1, None))"

definition brain_architecture :: string where "brain_architecture = ''eino-native-self-reflective-brain''"

definition finalizeGraphFailure :: "WorkflowState \<Rightarrow> time \<Rightarrow> WorkflowState" where
  "finalizeGraphFailure s now = (case ws_Incident s of None \<Rightarrow> s
     | Some i \<Rightarrow>
         let v = (case inc_Investigation i of Some v \<Rightarrow> v
                  | None \<Rightarrow> zero_Investigation\<lparr>inv_Architecture := brain_architecture, inv_StartedAt := now\<rparr>);
             s1 = (if bs_Termination s = None
                   then s\<lparr>bs_Termination := Some (new_termination s TerminationFatalInfrastructure
                            [''workflow graph execution failed before normal termination''] now)\<rparr> else s);
             attempt = map_option (\<lambda>a. a\<lparr>wa_Status := WorkflowAttemptCompleted, wa_CompletedAt := now,
                                       wa_EvidenceSnapshotHash := bs_EvidenceSnapshotHash s\<rparr>) (bs_WorkflowAttempt s);
             i1 = i\<lparr>inc_Investigation := Some (v\<lparr>inv_CompletedAt := now\<rparr>), inc_UpdatedAt := now,
                    inc_WorkflowAttempt := (if attempt = None then inc_WorkflowAttempt i else attempt)\<rparr>
         in syncInvestigation (s1\<lparr>bs_WorkflowAttempt := attempt, ws_Incident := Some i1\<rparr>))"

section \<open>Lookup lemmas\<close>

lemma findAgentHypothesis_SomeD: "findAgentHypothesis items hid = Some h \<Longrightarrow> h \<in> set items \<and> hyp_ID h = hid"
  by (auto simp: findAgentHypothesis_def dest: find_SomeD)

lemma findHypothesisAdmission_SomeD: "findHypothesisAdmission items hid = Some a \<Longrightarrow> a \<in> set items \<and> adm_HypothesisRevisionID a = hid"
  by (auto simp: findHypothesisAdmission_def dest: find_SomeD)

lemma findHypothesisGrounding_SomeD: "findHypothesisGrounding items hid = Some g \<Longrightarrow> g \<in> set items \<and> gr_HypothesisRevisionID g = hid"
  by (auto simp: findHypothesisGrounding_def dest: find_SomeD)

lemma find_replaced_grounding [simp]:
  "findHypothesisGrounding (replaceGrounding items value) (gr_HypothesisRevisionID value) = Some value"
  by (simp add: findHypothesisGrounding_def replaceGrounding_def)

lemma hypothesisBranchCount_card: "hypothesisBranchCount items = int (card (hyp_LineageID ` set items))"
  by (simp add: hypothesisBranchCount_def length_remdups_card_conv)

lemma authorize_None_iff:
  "authorizeBrainTool H s env now = None \<longleftrightarrow>
     (bbs_ToolCallsExhausted (bs_BrainBudget s) \<longrightarrow> isToolBudgetClosingAction (env_ToolName env)) \<and> tpd_Allowed (authorize_decision H s env)"
  by (auto simp: authorizeBrainTool_def Let_def)

section \<open>Merging evidence\<close>

definition named :: "Evidence list \<Rightarrow> Evidence list" where
  "named items = filter (\<lambda>item. ev_ID item \<noteq> []) items"

lemma mergeEvidence_alt:
  "mergeEvidence left right = map (newest (named (left @ right))) (sort (remdups (map ev_ID (named (left @ right)))))"
  by (simp add: mergeEvidence_def named_def Let_def)

lemma newest_in:
  assumes "k \<in> ev_ID ` set items"
  shows "newest items k \<in> set items \<and> ev_ID (newest items k) = k"
proof -
  have "find (\<lambda>item. ev_ID item = k) (rev items) \<noteq> None" using assms by (auto simp: find_None_iff)
  then obtain y where y: "find (\<lambda>item. ev_ID item = k) (rev items) = Some y" by blast
  from find_SomeD [OF y] y show ?thesis by (simp add: newest_def)
qed

lemma newest_distinct:
  assumes "distinct (map ev_ID new)" and "item \<in> set new"
  shows "newest (old @ new) (ev_ID item) = item"
proof -
  have ne: "find (\<lambda>i. ev_ID i = ev_ID item) (rev new) \<noteq> None" using assms(2) by (auto simp: find_None_iff)
  then obtain j where j: "find (\<lambda>i. ev_ID i = ev_ID item) (rev new) = Some j" by blast
  from find_SomeD [OF this] assms have "j = item" by (auto simp: distinct_map inj_on_def)
  moreover have "find P (xs @ ys) = (case find P xs of None \<Rightarrow> find P ys | r \<Rightarrow> r)" for P :: "Evidence \<Rightarrow> bool" and xs ys
    by (induction xs) auto
  ultimately show ?thesis using j by (simp add: newest_def)
qed

lemma mergeEvidence_ids:
  "map ev_ID (mergeEvidence left right) = sort (remdups (map ev_ID (named (left @ right))))"
proof -
  have "ev_ID (newest (named (left @ right)) k) = k" if "k \<in> set (sort (remdups (map ev_ID (named (left @ right)))))" for k
    using newest_in [of k "named (left @ right)"] that by auto
  then show ?thesis unfolding mergeEvidence_alt map_map by (intro map_idI) simp
qed

lemma mergeEvidence_subset: "set (mergeEvidence left right) \<subseteq> set left \<union> set right"
  unfolding mergeEvidence_alt using newest_in [of _ "named (left @ right)"] by (fastforce simp: named_def)

lemma mergeEvidence_canonical:
  "sorted (map ev_ID (mergeEvidence left right))" "distinct (map ev_ID (mergeEvidence left right))"
  "[] \<notin> set (map ev_ID (mergeEvidence left right))"
  unfolding mergeEvidence_ids by (auto simp: named_def)

text \<open>Merging evidence keeps the ledger canonical and loses no observation: the identities of the result are
  exactly the non-empty identities of both inputs, each once and in order, every item comes from an
  input, and an item of the right list (a newer observation) replaces its older version if identities of
  the right list are distinct.\<close>

theorem merged_evidence_complete:
  assumes "distinct (map ev_ID right)"
  shows "set (map ev_ID (mergeEvidence left right)) = set (map ev_ID (left @ right)) - {[]} \<and>
    sorted (map ev_ID (mergeEvidence left right)) \<and> distinct (map ev_ID (mergeEvidence left right)) \<and>
    set (mergeEvidence left right) \<subseteq> set left \<union> set right \<and>
    (\<forall>item\<in>set right. ev_ID item \<noteq> [] \<longrightarrow> item \<in> set (mergeEvidence left right))"
proof -
  have newer: "item \<in> set (mergeEvidence left right)" if item: "item \<in> set right" "ev_ID item \<noteq> []" for item
  proof -
    have "distinct (map ev_ID (named right))" using assms by (simp add: named_def distinct_map_filter)
    then have "newest (named left @ named right) (ev_ID item) = item"
      using item by (intro newest_distinct) (auto simp: named_def)
    then have "newest (named (left @ right)) (ev_ID item) = item" by (simp add: named_def)
    moreover have "ev_ID item \<in> set (sort (remdups (map ev_ID (named (left @ right)))))"
      using item by (auto simp: named_def)
    ultimately show ?thesis unfolding mergeEvidence_alt set_map by (metis image_eqI)
  qed
  have ids: "set (map ev_ID (mergeEvidence left right)) = set (map ev_ID (left @ right)) - {[]}"
    unfolding mergeEvidence_ids by (auto simp: named_def)
  show ?thesis by (intro conjI ballI impI ids newer mergeEvidence_canonical(1,2) mergeEvidence_subset)
qed

definition example_evidence :: "string \<Rightarrow> Evidence" where
  "example_evidence k = zero_Evidence\<lparr>ev_ID := k\<rparr>"

lemma example_evidence_ID [simp]: "ev_ID (example_evidence k) = k"
  by (simp add: example_evidence_def)

lemma merged_evidence_complete_witness:
  "set (map ev_ID (mergeEvidence [example_evidence ''b'', example_evidence ''a''] [example_evidence ''b''])) = {''a'', ''b''}"
proof -
  have "distinct (map ev_ID [example_evidence ''b''])" by simp
  from conjunct1 [OF merged_evidence_complete [OF this, of "[example_evidence ''b'', example_evidence ''a'']"]]
  have "set (map ev_ID (mergeEvidence [example_evidence ''b'', example_evidence ''a''] [example_evidence ''b''])) =
    set (map ev_ID ([example_evidence ''b'', example_evidence ''a''] @ [example_evidence ''b''])) - {[]}" .
  also have "\<dots> = {''a'', ''b''}" by auto
  finally show ?thesis .
qed

section \<open>The zero state\<close>

definition zero_WorkflowState :: WorkflowState where
  "zero_WorkflowState = BrainState.extend zero_BrainState (WorkflowState.fields [] None None None zero_VerificationState [] [])"

lemma zero_WorkflowState_fields [simp]:
  "bs_BrainMessages zero_WorkflowState = []"
  "bs_BrainPhase zero_WorkflowState = BrainPhase_other []"
  "bs_ResumeBrainPhase zero_WorkflowState = BrainPhase_other []"
  "bs_BrainTurns zero_WorkflowState = []"
  "bs_AssistantTurns zero_WorkflowState = []"
  "bs_IncidentUnderstanding zero_WorkflowState = None"
  "bs_InvestigationPlan zero_WorkflowState = None"
  "bs_InvestigationPlanHistory zero_WorkflowState = []"
  "bs_SkillActivations zero_WorkflowState = []"
  "bs_ActiveSkillRefs zero_WorkflowState = []"
  "bs_ActiveSkillPrompt zero_WorkflowState = []"
  "bs_ActiveSkillCategories zero_WorkflowState = []"
  "bs_LoadedSkillReferences zero_WorkflowState = Map.empty"
  "bs_RequestedSkills zero_WorkflowState = []"
  "bs_ActiveToolCategory zero_WorkflowState = BrainToolCategory_other []"
  "bs_ToolExecutions zero_WorkflowState = []"
  "bs_Observations zero_WorkflowState = []"
  "bs_EvidenceAttributions zero_WorkflowState = []"
  "bs_AgentHypotheses zero_WorkflowState = []"
  "bs_HypothesisAdmissions zero_WorkflowState = []"
  "bs_HypothesisGroundings zero_WorkflowState = []"
  "bs_HypothesisComparisons zero_WorkflowState = []"
  "bs_GroundingDeltas zero_WorkflowState = []"
  "bs_GroundingDeltaCursor zero_WorkflowState = 0"
  "bs_BeliefDeltas zero_WorkflowState = []"
  "bs_BeliefDeltaCursor zero_WorkflowState = 0"
  "bs_Reflections zero_WorkflowState = []"
  "bs_AgentDiagnosis zero_WorkflowState = None"
  "bs_DiagnosisValidations zero_WorkflowState = []"
  "bs_AgentRecoveryPlan zero_WorkflowState = None"
  "bs_RecoveryPermission zero_WorkflowState = None"
  "bs_Termination zero_WorkflowState = None"
  "bs_BrainBudget zero_WorkflowState = zero_BrainBudgetState"
  "bs_ExecutionSnapshot zero_WorkflowState = zero_ExecutionSnapshot"
  "bs_WorkflowAttempt zero_WorkflowState = None"
  "bs_EvidenceSnapshotHash zero_WorkflowState = []"
  "bs_WorldModel zero_WorkflowState = None"
  "bs_HybridRetrievals zero_WorkflowState = []"
  "bs_SkillRetrievals zero_WorkflowState = []"
  "bs_BrainCausalPatterns zero_WorkflowState = []"
  "bs_RuntimeEvidence zero_WorkflowState = []"
  "bs_RuntimeAssertions zero_WorkflowState = []"
  "bs_RuntimeFeatures zero_WorkflowState = zero_IncidentFeatures"
  "bs_RuntimeTopology zero_WorkflowState = None"
  "bs_PendingToolMessages zero_WorkflowState = []"
  "bs_PendingReflection zero_WorkflowState = None"
  "bs_PendingTermination zero_WorkflowState = TerminationReason_other []"
  "bs_BrainToolPolicy zero_WorkflowState = zero_ToolCallingPolicy"
  "ws_Workflow zero_WorkflowState = []" "ws_Incident zero_WorkflowState = None" "ws_DryRun zero_WorkflowState = None"
  "ws_ExecutionContext zero_WorkflowState = None" "ws_VerificationState zero_WorkflowState = zero_VerificationState"
  "ws_ModelSnapshotHash zero_WorkflowState = []" "ws_Errors zero_WorkflowState = []"
  by (simp_all add: zero_WorkflowState_def BrainState.defs WorkflowState.defs zero_BrainState_def)

end
