(* ===== verification/Recovery_Executor.thy ===== *)
theory Recovery_Executor
  imports Runtime_Hash
begin

text \<open>\<^verbatim>\<open>agent/recovery.go\<close>: the executor of approved recovery actions.  The Kubernetes client and
  the persistent action guard are services outside the repository.  An operation takes their answers
  as an argument and returns, with its result, the list of the calls it makes to them, in order; a
  call whose answer is an error is in the list too.  The lemmas show which conditions precede a mutation
  call, that an invocation makes at most one, and that a guard which grants a key once makes
  the mutation happen at most once however the invocations interleave.\<close>

section \<open>Calls and answers\<close>

datatype kube_call =
    CallTargetState string string
  | CallClaim string int
  | CallComplete string string int
  | CallRestartAt string string string
  | CallRestart string string
  | CallScale string string int
  | CallRollback string string
  | CallDryRunRestart string string string
  | CallDryRunScale string string int
  | CallDryRunRollback string string

fun is_mutation :: "kube_call \<Rightarrow> bool" where
  "is_mutation (CallRestartAt _ _ _) = True"
| "is_mutation (CallRestart _ _) = True"
| "is_mutation (CallScale _ _ _) = True"
| "is_mutation (CallRollback _ _) = True"
| "is_mutation _ = False"

text \<open>\<^verbatim>\<open>TargetState\<close> answers uid, resource version, readiness and restart count.\<close>

type_synonym target_state = "string + string \<times> string \<times> bool \<times> int"
type_synonym dry_run_answer = "string + any_value table \<times> any_value table"

record executor_answers =
  ans_TargetState :: target_state
  ans_SupportsDryRun :: bool
  ans_DryRun :: dry_run_answer
  ans_Guard :: bool
  ans_Claim :: "string + bool"
  ans_SupportsRestartAt :: bool
  ans_Mutation :: "string option"

datatype execute_error =
    TargetStateUnavailable string
  | PreconditionsMissing
  | TargetChanged
  | ExecutionContextRequired
  | GuardRequired
  | ClaimFailed string
  | ActionResultUnknown

section \<open>Proposal checks\<close>

text \<open>\<^verbatim>\<open>strconv.ParseInt(s, 10, 64)\<close>, behind \<^verbatim>\<open>json.Number.Int64\<close>.\<close>

definition is_digit :: "char \<Rightarrow> bool" where
  "is_digit c = (48 \<le> (of_char c :: nat) \<and> (of_char c :: nat) \<le> 57)"

definition ParseInt64 :: "string \<Rightarrow> int option" where
  "ParseInt64 s =
     (let (neg, body) = (case s of
            [] \<Rightarrow> (False, [])
          | c # cs \<Rightarrow> if c = CHR ''-'' then (True, cs) else if c = CHR ''+'' then (False, cs) else (False, s))
      in if body = [] \<or> \<not> list_all is_digit body then None
         else let n = (if neg then - int (undigits body) else int (undigits body))
              in if - (2 ^ 63) \<le> n \<and> n < 2 ^ 63 then Some n else None)"

text \<open>Conversion of a \<^verbatim>\<open>float64\<close> to \<^verbatim>\<open>int64\<close> drops the fraction.  Out of range the language leaves
  the result to the implementation; here it is the smallest integer, as on amd64.\<close>

definition int64_of_float :: "rat \<Rightarrow> int" where
  "int64_of_float x =
     (let n = (if x \<ge> 0 then \<lfloor>x\<rfloor> else \<lceil>x\<rceil>) in if - (2 ^ 63) \<le> n \<and> n < 2 ^ 63 then n else - (2 ^ 63))"

definition replicas_of :: "any_value \<Rightarrow> int option" where
  "replicas_of value = (case value of
       AFloat x \<Rightarrow> Some (int64_of_float x)
     | AInt n \<Rightarrow> Some n
     | AInt32 n \<Rightarrow> Some n
     | AInt64 n \<Rightarrow> Some n
     | ANumber s \<Rightarrow> ParseInt64 s
     | _ \<Rightarrow> None)"

definition proposalReplicas :: "any_value table \<Rightarrow> string + int" where
  "proposalReplicas parameters =
     (case parameters ''replicas'' of
        None \<Rightarrow> Inl ''replicas is required''
      | Some value \<Rightarrow> (case replicas_of value of
            None \<Rightarrow> Inl ''replicas must be an integer''
          | Some replicas \<Rightarrow> if replicas < 1 \<or> replicas > 10 then Inl ''replicas must be between 1 and 10'' else Inr replicas))"

text \<open>\<^verbatim>\<open>strings.Split(s, "/")\<close>.\<close>

fun split_slash :: "string \<Rightarrow> string list" where
  "split_slash [] = [[]]"
| "split_slash (c # cs) =
     (if c = CHR ''/'' then [] # split_slash cs
      else case split_slash cs of [] \<Rightarrow> [[c]] | p # ps \<Rightarrow> (c # p) # ps)"

definition canonicalProposalTarget :: "string \<Rightarrow> string \<Rightarrow> string \<Rightarrow> string + string" where
  "canonicalProposalTarget target namespace resource =
     (if target = [] \<or> target = resource then Inr resource
      else let parts = split_slash target in
        if length parts = 2 \<and> parts ! 0 = namespace \<and> parts ! 1 = resource then Inr resource
        else Inl ''proposal target does not match incident resource'')"

definition proposalMutationHash :: "hasher \<Rightarrow> RecoveryProposal option \<Rightarrow> any_value table \<Rightarrow> string" where
  "proposalMutationHash H p after = (case p of
       None \<Rightarrow> []
     | Some q \<Rightarrow> H (HMutation (rp_Action q) (rp_Namespace q) (rp_Target q) (rp_TargetUID q) (rp_ResourceVersion q) (rp_Parameters q) after))"

section \<open>Dry run\<close>

definition Prepare :: "target_state \<Rightarrow> RecoveryProposal \<Rightarrow> (string + RecoveryProposal) \<times> kube_call list" where
  "Prepare st p =
     (case st of
        Inl e \<Rightarrow> Inl e
      | Inr (uid, rv, _, _) \<Rightarrow> Inr (p\<lparr>rp_TargetUID := uid, rp_ResourceVersion := rv\<rparr>),
      [CallTargetState (rp_Namespace p) (rp_Target p)])"

definition failed_dry_run :: "RecoveryProposal \<Rightarrow> string \<Rightarrow> time \<Rightarrow> DryRunResult" where
  "failed_dry_run p e now = zero_DryRunResult\<lparr>dr_Action := rp_Action p, dr_Target := rp_Target p, dr_Error := e, dr_ValidatedAt := now\<rparr>"

text \<open>\<open>restartedAt\<close> is the clock reading in RFC 3339 format.  The result is the validation record, the
  proposal with its target preconditions (and restart stamp) filled in, the error if any, and the calls.\<close>

definition DryRun ::
  "hasher \<Rightarrow> executor_answers \<Rightarrow> string \<Rightarrow> RecoveryProposal \<Rightarrow> time \<Rightarrow> DryRunResult \<times> RecoveryProposal \<times> string option \<times> kube_call list" where
  "DryRun H ans restartedAt p0 now =
     (case Prepare (ans_TargetState ans) p0 of
        (Inl e, calls) \<Rightarrow> (failed_dry_run p0 e now, p0, Some e, calls)
      | (Inr p, calls) \<Rightarrow>
          if \<not> ans_SupportsDryRun ans
          then (failed_dry_run p ''Kubernetes DryRunAll is unavailable'' now, p, Some ''Kubernetes DryRunAll is unavailable'', calls)
          else
            let p' = (if rp_Action p = ActionRestartPod then p\<lparr>rp_Parameters := (rp_Parameters p)(''restarted_at'' \<mapsto> AString restartedAt)\<rparr> else p);
                (answer, more) =
                  (case rp_Action p of
                     ActionRestartPod \<Rightarrow> (ans_DryRun ans, [CallDryRunRestart (rp_Namespace p) (rp_Target p) restartedAt])
                   | ActionScaleDeployment \<Rightarrow> (case proposalReplicas (rp_Parameters p) of
                        Inl e \<Rightarrow> (Inl e, [])
                      | Inr n \<Rightarrow> (ans_DryRun ans, [CallDryRunScale (rp_Namespace p) (rp_Target p) n]))
                   | ActionRollbackDeployment \<Rightarrow> (ans_DryRun ans, [CallDryRunRollback (rp_Namespace p) (rp_Target p)])
                   | RecoveryAction_other a \<Rightarrow> (Inl ''unsupported recovery action'', []))
            in case answer of
                 Inl e \<Rightarrow> (failed_dry_run p' e now, p', Some e, calls @ more)
               | Inr (before, after) \<Rightarrow>
                   (zero_DryRunResult\<lparr>dr_Action := rp_Action p', dr_Target := rp_Target p', dr_Before := before, dr_After := after,
                      dr_ValidatedAt := now, dr_MutationSpecHash := proposalMutationHash H (Some p') after, dr_Success := True\<rparr>,
                    p', None, calls @ more))"

definition ValidateDryRunFreshness ::
  "hasher \<Rightarrow> target_state \<Rightarrow> RecoveryProposal option \<Rightarrow> DryRunResult option \<Rightarrow> time \<Rightarrow> string option" where
  "ValidateDryRunFreshness H st proposal dryRun now =
     (case (proposal, dryRun) of
        (Some p, Some d) \<Rightarrow>
          if \<not> dr_Success d \<or> now - dr_ValidatedAt d > 2 * Minute then Some ''proposal validation snapshot is missing or expired''
          else if dr_Action d \<noteq> rp_Action p \<or> dr_Target d \<noteq> rp_Target p \<or> dr_MutationSpecHash d = [] \<or>
                  dr_MutationSpecHash d \<noteq> proposalMutationHash H (Some p) (dr_After d)
          then Some ''proposal validation snapshot does not match the current proposal''
          else (case st of
                  Inl _ \<Rightarrow> Some ''current target state is unavailable''
                | Inr (uid, rv, _, _) \<Rightarrow>
                    if uid \<noteq> rp_TargetUID p \<or> rv \<noteq> rp_ResourceVersion p then Some ''target state changed after proposal validation'' else None)
      | _ \<Rightarrow> Some ''proposal validation snapshot is missing or expired'')"

section \<open>Execution\<close>

definition claim_ttl :: int where "claim_ttl = 24 * Hour"

text \<open>The mutation of a registered action, as a call, or the reason there is none.\<close>

definition mutation_call :: "executor_answers \<Rightarrow> RecoveryProposal \<Rightarrow> string + kube_call" where
  "mutation_call ans p =
     (case rp_Action p of
        ActionRestartPod \<Rightarrow>
          (case rp_Parameters p ''restarted_at'' of
             Some (AString stamp) \<Rightarrow> if ans_SupportsRestartAt ans then Inr (CallRestartAt (rp_Namespace p) (rp_Target p) stamp)
                                 else Inr (CallRestart (rp_Namespace p) (rp_Target p))
           | _ \<Rightarrow> Inr (CallRestart (rp_Namespace p) (rp_Target p)))
      | ActionScaleDeployment \<Rightarrow> (case proposalReplicas (rp_Parameters p) of
            Inl e \<Rightarrow> Inl e
          | Inr n \<Rightarrow> Inr (CallScale (rp_Namespace p) (rp_Target p) n))
      | ActionRollbackDeployment \<Rightarrow> Inr (CallRollback (rp_Namespace p) (rp_Target p))
      | RecoveryAction_other _ \<Rightarrow> Inl ''unsupported action'')"

definition action_key :: "Incident \<Rightarrow> ExecutionContext \<Rightarrow> string" where
  "action_key i c = inc_ID i @ '':'' @ ec_IdempotencyKey c"

definition Execute :: "executor_answers \<Rightarrow> Incident option \<Rightarrow> RecoveryProposal \<Rightarrow> execute_error option \<times> kube_call list" where
  "Execute ans in0 p =
     (let look = [CallTargetState (rp_Namespace p) (rp_Target p)] in
      case ans_TargetState ans of
        Inl e \<Rightarrow> (Some (TargetStateUnavailable e), look)
      | Inr (uid, rv, _, _) \<Rightarrow>
          if rp_TargetUID p = [] \<or> rp_ResourceVersion p = [] then (Some PreconditionsMissing, look)
          else if uid \<noteq> rp_TargetUID p \<or> rv \<noteq> rp_ResourceVersion p then (Some TargetChanged, look)
          else case in0 of
            None \<Rightarrow> (Some ExecutionContextRequired, look)
          | Some i \<Rightarrow> (case inc_ExecutionContext i of
              None \<Rightarrow> (Some ExecutionContextRequired, look)
            | Some c \<Rightarrow>
                if ec_IdempotencyKey c = [] then (Some ExecutionContextRequired, look)
                else if \<not> ans_Guard ans then (Some GuardRequired, look)
                else
                  let key = action_key i c; claim = look @ [CallClaim key claim_ttl] in
                  case ans_Claim ans of
                    Inl e \<Rightarrow> (Some (ClaimFailed e), claim)
                  | Inr False \<Rightarrow> (Some ActionResultUnknown, claim)
                  | Inr True \<Rightarrow>
                      (case mutation_call ans p of
                         Inl e \<Rightarrow> (Some ActionResultUnknown, claim @ [CallComplete key ''unknown'' claim_ttl])
                       | Inr call \<Rightarrow>
                           (case ans_Mutation ans of
                              None \<Rightarrow> (None, claim @ [call, CallComplete key ''succeeded'' claim_ttl])
                            | Some e \<Rightarrow> (Some ActionResultUnknown, claim @ [call, CallComplete key ''unknown'' claim_ttl])))))"

definition Verify :: "target_state \<Rightarrow> Incident \<Rightarrow> time \<Rightarrow> string + Verification" where
  "Verify st i now =
     (case st of
        Inl e \<Rightarrow> Inl e
      | Inr (_, _, ready, restarts) \<Rightarrow>
          Inr \<lparr>ver_Success = ready, ver_Checks = [''pod_ready'' \<mapsto> ready, ''deployment_available'' \<mapsto> ready],
               ver_Message = ''Kubernetes verification sample collected'', ver_RestartCount = Some restarts, ver_CompletedAt = now\<rparr>)"

definition verify_target :: "Incident \<Rightarrow> string" where
  "verify_target i = (case inc_Proposal i of
       Some p \<Rightarrow> if rp_Target p \<noteq> [] then rp_Target p else inc_Resource i
     | None \<Rightarrow> inc_Resource i)"

section \<open>Replica bounds\<close>

lemma proposalReplicas_bounds: "proposalReplicas ps = Inr n \<Longrightarrow> 1 \<le> n \<and> n \<le> 10"
  by (auto simp: proposalReplicas_def split: option.splits if_splits)

text \<open>A replica count that passes validation fits the executor's range: it lies between 1 and 10, whatever
  dynamic type the parameter has, and an integral parameter is taken unchanged.\<close>

theorem accepted_replicas_bounded:
  assumes "proposalReplicas ps = Inr n"
  shows "1 \<le> n \<and> n \<le> 10 \<and> (\<forall>m. ps ''replicas'' = Some (AFloat (of_int m)) \<longrightarrow> n = m)"
proof -
  have "n = m" if "ps ''replicas'' = Some (AFloat (of_int m))" for m
    using assms that by (auto simp: proposalReplicas_def replicas_of_def int64_of_float_def Let_def split: if_splits)
  then show ?thesis using proposalReplicas_bounds [OF assms] by blast
qed

lemma accepted_replicas_bounded_witness:
  "1 \<le> (3::int) \<and> (3::int) \<le> 10"
  using accepted_replicas_bounded [of "[''replicas'' \<mapsto> AFloat 3]" 3]
  by (simp add: proposalReplicas_def replicas_of_def int64_of_float_def)

text \<open>The validation does not require an integer: a fractional \<^verbatim>\<open>float64\<close>, which is what a JSON number
  decodes to, is truncated and accepted, although a value that is not an integer is meant to be refused.\<close>

theorem fractional_replicas_accepted:
  "proposalReplicas [''replicas'' \<mapsto> AFloat (19/10)] = Inr 1 \<and> proposalReplicas [''replicas'' \<mapsto> AFloat (109/10)] = Inr 10"
proof -
  have "\<lfloor>19/10 :: rat\<rfloor> = 1" "\<lfloor>109/10 :: rat\<rfloor> = 10" by (simp_all add: floor_eq_iff)
  then show ?thesis by (simp add: proposalReplicas_def replicas_of_def int64_of_float_def)
qed

section \<open>What precedes a mutation\<close>

definition approved_call :: "Incident option \<Rightarrow> RecoveryProposal \<Rightarrow> executor_answers \<Rightarrow> kube_call list \<Rightarrow> bool" where
  "approved_call in0 p ans calls =
     (\<exists>i c call status. in0 = Some i \<and> inc_ExecutionContext i = Some c \<and> ec_IdempotencyKey c \<noteq> [] \<and> ans_Guard ans \<and>
        ans_Claim ans = Inr True \<and> rp_TargetUID p \<noteq> [] \<and> rp_ResourceVersion p \<noteq> [] \<and>
        (\<exists>ready restarts. ans_TargetState ans = Inr (rp_TargetUID p, rp_ResourceVersion p, ready, restarts)) \<and>
        mutation_call ans p = Inr call \<and> status \<in> {''succeeded'', ''unknown''} \<and>
        calls = [CallTargetState (rp_Namespace p) (rp_Target p), CallClaim (action_key i c) claim_ttl, call,
                 CallComplete (action_key i c) status claim_ttl])"

lemma mutation_call_is_mutation: "mutation_call ans p = Inr call \<Longrightarrow> is_mutation call"
  by (auto simp: mutation_call_def split: RecoveryAction.splits option.splits any_value.splits sum.splits if_splits)

lemma mutation_call_target:
  "mutation_call ans p = Inr call \<Longrightarrow>
   (\<exists>stamp. call = CallRestartAt (rp_Namespace p) (rp_Target p) stamp) \<or> call = CallRestart (rp_Namespace p) (rp_Target p) \<or>
   (\<exists>n. call = CallScale (rp_Namespace p) (rp_Target p) n \<and> 1 \<le> n \<and> n \<le> 10) \<or> call = CallRollback (rp_Namespace p) (rp_Target p)"
  by (auto simp: mutation_call_def dest: proposalReplicas_bounds
      split: RecoveryAction.splits option.splits any_value.splits sum.splits if_splits)

lemma Execute_cases:
  "(filter is_mutation (snd (Execute ans in0 p)) = [] \<and> fst (Execute ans in0 p) \<noteq> None) \<or>
   (approved_call in0 p ans (snd (Execute ans in0 p)) \<and> (fst (Execute ans in0 p) = None \<longleftrightarrow> ans_Mutation ans = None))"
  by (auto simp: Execute_def Let_def approved_call_def dest: mutation_call_is_mutation
      split: sum.splits option.splits bool.splits if_splits)

lemma approved_call_one_mutation:
  "approved_call in0 p ans calls \<Longrightarrow> \<exists>call. filter is_mutation calls = [call] \<and> mutation_call ans p = Inr call"
  by (auto simp: approved_call_def dest: mutation_call_is_mutation)

text \<open>The mutation boundary: whenever an execution calls the mutation API, the proposal's target
  preconditions are set and equal the observed uid and resource version, the incident carries an approved
  execution context with an idempotency key, and the persistent guard granted the key before; there is
  exactly one mutation call, on the proposal's namespace and target, and with 1 to 10 replicas if it scales.\<close>

theorem mutation_requires_claim_and_preconditions:
  assumes "is_mutation m" and "m \<in> set (snd (Execute ans in0 p))"
  shows "\<exists>i c ready restarts. in0 = Some i \<and> inc_ExecutionContext i = Some c \<and> ec_IdempotencyKey c \<noteq> [] \<and>
    ans_TargetState ans = Inr (rp_TargetUID p, rp_ResourceVersion p, ready, restarts) \<and> rp_TargetUID p \<noteq> [] \<and>
    ans_Guard ans \<and> ans_Claim ans = Inr True \<and> filter is_mutation (snd (Execute ans in0 p)) = [m] \<and>
    CallClaim (action_key i c) claim_ttl \<in> set (takeWhile (\<lambda>call. call \<noteq> m) (snd (Execute ans in0 p))) \<and>
    (m = CallRestart (rp_Namespace p) (rp_Target p) \<or> (\<exists>stamp. m = CallRestartAt (rp_Namespace p) (rp_Target p) stamp) \<or>
     m = CallRollback (rp_Namespace p) (rp_Target p) \<or> (\<exists>n\<in>{1..10}. m = CallScale (rp_Namespace p) (rp_Target p) n))"
proof -
  have "filter is_mutation (snd (Execute ans in0 p)) \<noteq> []" using assms by (auto simp: filter_empty_conv)
  then have ap: "approved_call in0 p ans (snd (Execute ans in0 p))" using Execute_cases by blast
  from ap obtain i c call status ready restarts where facts: "in0 = Some i" "inc_ExecutionContext i = Some c" "ec_IdempotencyKey c \<noteq> []"
      "ans_Guard ans" "ans_Claim ans = Inr True" "rp_TargetUID p \<noteq> []"
      "ans_TargetState ans = Inr (rp_TargetUID p, rp_ResourceVersion p, ready, restarts)" "mutation_call ans p = Inr call"
    and calls: "snd (Execute ans in0 p) = [CallTargetState (rp_Namespace p) (rp_Target p), CallClaim (action_key i c) claim_ttl, call,
                 CallComplete (action_key i c) status claim_ttl]"
    unfolding approved_call_def by blast
  have mut: "is_mutation call" using facts(8) by (rule mutation_call_is_mutation)
  have m: "m = call" using assms mut calls by auto
  have "filter is_mutation (snd (Execute ans in0 p)) = [m]" using calls mut m by simp
  moreover have "CallClaim (action_key i c) claim_ttl \<in> set (takeWhile (\<lambda>call. call \<noteq> m) (snd (Execute ans in0 p)))"
    using calls mut m by (cases call) auto
  moreover note mutation_call_target [OF facts(8)]
  ultimately show ?thesis using facts m by (metis atLeastAtMost_iff)
qed

definition example_context :: ExecutionContext where
  "example_context = zero_ExecutionContext\<lparr>ec_IdempotencyKey := ''key-1''\<rparr>"

definition example_proposal :: RecoveryProposal where
  "example_proposal = zero_RecoveryProposal\<lparr>rp_Action := ActionScaleDeployment, rp_Namespace := ''shop'', rp_Target := ''checkout'',
     rp_TargetUID := ''u1'', rp_ResourceVersion := ''7'', rp_Parameters := [''replicas'' \<mapsto> AInt 4]\<rparr>"

definition example_answers :: executor_answers where
  "example_answers = \<lparr>ans_TargetState = Inr (''u1'', ''7'', True, 0), ans_SupportsDryRun = True, ans_DryRun = Inr (Map.empty, Map.empty),
     ans_Guard = True, ans_Claim = Inr True, ans_SupportsRestartAt = True, ans_Mutation = None\<rparr>"

lemma example_execute:
  "Execute example_answers (Some (zero_Incident\<lparr>inc_ID := ''i1'', inc_ExecutionContext := Some example_context\<rparr>)) example_proposal =
     (None, [CallTargetState ''shop'' ''checkout'', CallClaim ''i1:key-1'' claim_ttl, CallScale ''shop'' ''checkout'' 4,
             CallComplete ''i1:key-1'' ''succeeded'' claim_ttl])"
  by (simp add: Execute_def Let_def example_answers_def example_proposal_def example_context_def mutation_call_def proposalReplicas_def
      replicas_of_def action_key_def)

lemma mutation_requires_claim_and_preconditions_witness:
  "\<exists>i c ready restarts. Some (zero_Incident\<lparr>inc_ID := ''i1'', inc_ExecutionContext := Some example_context\<rparr>) = Some i \<and>
     inc_ExecutionContext i = Some c \<and> ans_TargetState example_answers = Inr (''u1'', ''7'', ready, restarts)"
  using mutation_requires_claim_and_preconditions [of "CallScale ''shop'' ''checkout'' 4" example_answers
      "Some (zero_Incident\<lparr>inc_ID := ''i1'', inc_ExecutionContext := Some example_context\<rparr>)" example_proposal]
  by (auto simp: example_execute example_answers_def)

section \<open>At most once\<close>

record invocation =
  iv_answers :: executor_answers
  iv_incident :: "Incident option"
  iv_proposal :: RecoveryProposal

definition calls_of :: "invocation \<Rightarrow> kube_call list" where
  "calls_of v = snd (Execute (iv_answers v) (iv_incident v) (iv_proposal v))"

definition key_of :: "invocation \<Rightarrow> string option" where
  "key_of v = (case iv_incident v of None \<Rightarrow> None | Some i \<Rightarrow> map_option (action_key i) (inc_ExecutionContext i))"

text \<open>The documented behaviour of the guard's \<^verbatim>\<open>SET key value NX\<close>: of all claims of a key within its
  lifetime, at most one is granted.\<close>

definition grants_once :: "invocation list \<Rightarrow> bool" where
  "grants_once vs = (\<forall>key. length (filter (\<lambda>v. key_of v = Some key \<and> ans_Claim (iv_answers v) = Inr True) vs) \<le> 1)"

lemma calls_of_mutation:
  "filter is_mutation (calls_of v) = [] \<or>
   (length (filter is_mutation (calls_of v)) = 1 \<and> key_of v \<noteq> None \<and> ans_Claim (iv_answers v) = Inr True)"
  using Execute_cases [of "iv_answers v" "iv_incident v" "iv_proposal v"]
  by (auto simp: calls_of_def key_of_def approved_call_def dest!: mutation_call_is_mutation)

lemma mutations_le_grants:
  "length (filter is_mutation (concat (map calls_of (filter (\<lambda>v. key_of v = Some key) vs)))) \<le>
   length (filter (\<lambda>v. key_of v = Some key \<and> ans_Claim (iv_answers v) = Inr True) vs)"
proof (induction vs)
  case (Cons v vs)
  then show ?case using calls_of_mutation [of v] by auto
qed simp

text \<open>At most one mutation per approval: whatever invocations of the executor happen, in whatever
  order, retried or concurrent, those that share an incident and idempotency key make together at most one
  mutation call, if the guard grants each key at most once.\<close>

theorem at_most_one_mutation_per_key:
  assumes "grants_once vs"
  shows "length (filter is_mutation (concat (map calls_of (filter (\<lambda>v. key_of v = Some key) vs)))) \<le> 1"
  using le_trans [OF mutations_le_grants] assms unfolding grants_once_def by blast

definition example_invocations :: "invocation list" where
  "example_invocations = [\<lparr>iv_answers = example_answers, iv_incident = Some (zero_Incident\<lparr>inc_ID := ''i1'', inc_ExecutionContext := Some example_context\<rparr>), iv_proposal = example_proposal\<rparr>,
     \<lparr>iv_answers = example_answers\<lparr>ans_Claim := Inr False\<rparr>, iv_incident = Some (zero_Incident\<lparr>inc_ID := ''i1'', inc_ExecutionContext := Some example_context\<rparr>), iv_proposal = example_proposal\<rparr>]"

lemma at_most_one_mutation_per_key_witness:
  "length (filter is_mutation (concat (map calls_of (filter (\<lambda>v. key_of v = Some ''i1:key-1'') example_invocations)))) \<le> 1"
  by (rule at_most_one_mutation_per_key) (simp add: grants_once_def example_invocations_def example_answers_def)

section \<open>Dry runs do not mutate\<close>

lemma DryRun_no_mutation: "DryRun H ans stamp p now = (r, p', e, calls) \<Longrightarrow> filter is_mutation calls = []"
  by (auto simp: DryRun_def Prepare_def Let_def filter_empty_conv
      split: sum.splits prod.splits if_splits RecoveryAction.splits)

lemma DryRun_success:
  assumes "DryRun H ans stamp p now = (r, p', e, calls)" and "dr_Success r"
  shows "e = None \<and> dr_Action r = rp_Action p' \<and> dr_Target r = rp_Target p' \<and> rp_Namespace p' = rp_Namespace p \<and>
    dr_MutationSpecHash r = proposalMutationHash H (Some p') (dr_After r) \<and> dr_ValidatedAt r = now \<and>
    (\<exists>ready restarts. ans_TargetState ans = Inr (rp_TargetUID p', rp_ResourceVersion p', ready, restarts))"
  using assms
  by (auto simp: DryRun_def Prepare_def Let_def failed_dry_run_def zero_defs
      split: sum.splits prod.splits if_splits RecoveryAction.splits)

text \<open>A successful dry run stays fresh while nothing changes: if the proposal it returns is checked within two
  minutes against an unchanged target, the freshness check accepts it; and the dry run itself
  never calls the mutation API.\<close>

theorem fresh_dry_run_accepted:
  assumes "DryRun H ans stamp p now = (r, p', e, calls)" and "dr_Success r" and "dr_MutationSpecHash r \<noteq> []"
    and "now' - now \<le> 2 * Minute"
  shows "ValidateDryRunFreshness H (ans_TargetState ans) (Some p') (Some r) now' = None \<and> filter is_mutation calls = []"
  using DryRun_success [OF assms(1,2)] DryRun_no_mutation [OF assms(1)] assms(2-4)
  by (auto simp: ValidateDryRunFreshness_def)

lemma fresh_dry_run_accepted_witness:
  "ValidateDryRunFreshness (\<lambda>_. ''h'') (ans_TargetState example_answers)
     (Some (fst (snd (DryRun (\<lambda>_. ''h'') example_answers ''t'' example_proposal 100))))
     (Some (fst (DryRun (\<lambda>_. ''h'') example_answers ''t'' example_proposal 100))) 200 = None"
  by (rule conjunct1 [OF fresh_dry_run_accepted [where now = 100 and p = example_proposal and stamp = "''t''"
        and e = None and calls = "snd (snd (snd (DryRun (\<lambda>_. ''h'') example_answers ''t'' example_proposal 100)))"]])
    (simp_all add: DryRun_def Prepare_def example_answers_def example_proposal_def proposalReplicas_def replicas_of_def
      proposalMutationHash_def Minute_def Second_def)

end
