(* ===== verification/Safety_Kernel.thy ===== *)
theory Safety_Kernel
  imports Brain_Common Recovery_Executor
begin

text \<open>The nodes of the outer graph that stand between the Brain's diagnosis and a mutation of the
  cluster, and after it: recovery permission, dry run, proposal validation, approval, execution and
  the finalizer, with the routes between them (\<^verbatim>\<open>agent/brain_recovery.go\<close>, \<^verbatim>\<open>agent/supervisor.go\<close>,
  \<^verbatim>\<open>internal/execution/action_executor.go\<close>).  A node takes the state and what it draws from outside: one
  clock reading for all the readings it makes, fresh identifiers, the answers of the executor.  The
  lemmas say which statuses and artefacts a node needs before it lets the next one run.\<close>

record fresh =
  fr_now :: time
  fr_id :: string
  fr_id2 :: string

section \<open>Status changes and the audit trail\<close>

definition step_status :: "WorkflowState \<Rightarrow> IncidentStatus \<Rightarrow> time \<Rightarrow> node_result" where
  "step_status s to now = (case Transition (ws_Incident s) to now of
       Inl e \<Rightarrow> (s, Some (RefusedTransition e))
     | Inr i \<Rightarrow> (s\<lparr>ws_Incident := Some i\<rparr>, None))"

text \<open>\<^verbatim>\<open>_ = transition(...)\<close>: the error is dropped.\<close>

definition try_status :: "WorkflowState \<Rightarrow> IncidentStatus \<Rightarrow> time \<Rightarrow> WorkflowState" where
  "try_status s to now = fst (step_status s to now)"

definition brainApprovalID :: "WorkflowState \<Rightarrow> string" where
  "brainApprovalID s = (case ws_ExecutionContext s of None \<Rightarrow> [] | Some c \<Rightarrow> ec_ApprovalID c)"

definition proposal_refs :: "RecoveryProposal \<Rightarrow> ResourceRef list" where
  "proposal_refs p = [zero_ResourceRef\<lparr>ref_Namespace := rp_Namespace p, ref_Resource := rp_Target p\<rparr>]"

definition state_change_class :: "string \<Rightarrow> ToolResultClass" where
  "state_change_class status =
     (if status = ''APPROVAL_REQUESTED'' then ToolResultValidation
      else if status = ''APPROVAL_REJECTED'' \<or> status = ''APPROVAL_CONTEXT_REJECTED'' then ToolResultConstraint
      else ToolResultStateChange)"

definition state_change_provenance :: "hasher \<Rightarrow> WorkflowState \<Rightarrow> Incident \<Rightarrow> string \<Rightarrow> string \<Rightarrow> string \<Rightarrow> string \<Rightarrow> fresh \<Rightarrow> ToolResultProvenance" where
  "state_change_provenance H s i toolName status summary approvalID fr =
     (let base = zero_ToolResultProvenance\<lparr>prov_ToolCallID := toolName @ '':'' @ fr_id fr, prov_ToolName := toolName,
            prov_ToolSchemaHash := es_ToolSchemaHash (bs_ExecutionSnapshot s), prov_Collector := ''safety-kernel'',
            prov_WindowStart := fr_now fr, prov_WindowEnd := fr_now fr, prov_ObservedAt := fr_now fr,
            prov_ParserVersion := ''state-change-v1'', prov_ApprovalID := approvalID\<rparr>;
          targeted = (case inc_Proposal i of None \<Rightarrow> base
            | Some p \<Rightarrow> base\<lparr>prov_TargetUID := rp_TargetUID p, prov_ResourceVersion := rp_ResourceVersion p, prov_TargetRefs := proposal_refs p\<rparr>);
          hashed = (case ws_DryRun s of None \<Rightarrow> targeted | Some d \<Rightarrow> targeted\<lparr>prov_MutationSpecHash := dr_MutationSpecHash d\<rparr>)
      in hashed\<lparr>prov_RawArtifactHash := H (HStateChange status summary),
                prov_StateChangeID := (if state_change_class status = ToolResultStateChange then ''state-change:'' @ fr_id2 fr else [])\<rparr>)"

definition safety_envelope :: "WorkflowState \<Rightarrow> Incident \<Rightarrow> string \<Rightarrow> BrainPhase \<Rightarrow> string \<Rightarrow> AgentActionEnvelope" where
  "safety_envelope s i actionID phase toolName =
     zero_AgentActionEnvelope\<lparr>env_ActionID := actionID, env_IncidentID := inc_ID i, env_TurnID := currentBrainTurnID s,
       env_Phase := phase, env_ToolName := toolName, env_ToolCategory := BrainToolRecovery,
       env_EvidenceSnapshotHash := bs_EvidenceSnapshotHash s\<rparr>"

definition appendBrainStateChange ::
  "hasher \<Rightarrow> WorkflowState \<Rightarrow> string \<Rightarrow> string \<Rightarrow> string \<Rightarrow> bool \<Rightarrow> string \<Rightarrow> fresh \<Rightarrow> WorkflowState" where
  "appendBrainStateChange H s toolName status summary newInformation approvalID fr =
     (case (ws_Incident s, bs_WorkflowAttempt s) of
        (Some i, Some _) \<Rightarrow>
          let class = state_change_class status;
              result = zero_ToolResultRecord\<lparr>trr_Class := class,
                trr_Provenance := state_change_provenance H s i toolName status summary approvalID fr,
                trr_Status := status, trr_Summary := summary, trr_NewInformation := newInformation, trr_OccurredAt := fr_now fr,
                trr_ConstraintCode := (if class = ToolResultConstraint then ''approval_rejected'' else [])\<rparr>;
              executions = bs_ToolExecutions s @
                [\<lparr>bte_Envelope = safety_envelope s i (toolName @ '':'' @ fr_id fr) (bs_BrainPhase s) toolName, bte_Result = result\<rparr>]
          in map_investigation (\<lambda>v. v\<lparr>inv_ToolExecutions := executions\<rparr>) (s\<lparr>bs_ToolExecutions := executions\<rparr>)
      | _ \<Rightarrow> s)"

definition finishBrainWithoutRecovery :: "WorkflowState \<Rightarrow> Incident \<Rightarrow> string \<Rightarrow> time \<Rightarrow> node_result" where
  "finishBrainWithoutRecovery s i reason now =
     (let preserve = (case bs_Termination s of None \<Rightarrow> False | Some t \<Rightarrow> term_Reason t \<noteq> TerminationDiagnosisConfident);
          terminationReason = (if (case bs_AgentDiagnosis s of None \<Rightarrow> False | Some d \<Rightarrow> diag_Provisional d)
                               then TerminationDiagnosisProvisional else TerminationSafetyBlocked);
          s1 = (if preserve then s else setFinalBrainTermination s terminationReason [reason] now)
      in if inc_Status i = StatusNeedsAttention then (s1, None)
         else let s2 = (if inc_Status i = StatusCollecting then try_status s1 StatusDiagnosing now else s1)
              in step_status s2 StatusNeedsAttention now)"

definition brainReflectionAvailable :: "WorkflowState \<Rightarrow> ReflectionTrigger \<Rightarrow> bool" where
  "brainReflectionAvailable s trigger = (case ws_Incident s of None \<Rightarrow> False
     | Some i \<Rightarrow> (let (m, valid) = NormalizeDiagnosisMethod (inc_DiagnosisMethod i) in
         valid \<and> m \<noteq> ''kubepilot-no-reflection'' \<and>
         bu_ReflectionCostUnits (bbs_Usage (bs_BrainBudget s)) + ReflectionCost trigger \<le> bb_MaxReflectionCostUnits (bbs_Limits (bs_BrainBudget s))))"

section \<open>Recovery permission\<close>

definition kubernetes_support :: "Evidence list \<Rightarrow> string list \<Rightarrow> bool" where
  "kubernetes_support evidence ids =
     list_ex (\<lambda>k. case find (\<lambda>item. ev_ID item = k) (rev evidence) of None \<Rightarrow> False
                 | Some item \<Rightarrow> EqualFold (ev_Source item) ''kubernetes'') ids"

definition validated_hypotheses :: "('a) BrainState_scheme \<Rightarrow> int" where
  "validated_hypotheses s =
     int (length (filter (\<lambda>g. case findHypothesisAdmission (bs_HypothesisAdmissions s) (gr_HypothesisRevisionID g) of
            None \<Rightarrow> False | Some a \<Rightarrow> adm_Decision a = ''ADMITTED'') (bs_HypothesisGroundings s)))"

definition other_support :: "HypothesisGrounding list \<Rightarrow> string \<Rightarrow> rat" where
  "other_support groundings selected =
     foldl (\<lambda>other g. if gr_HypothesisRevisionID g \<noteq> selected \<and> gre_EvidenceSupport (gr_Evidence g) > other
                       then gre_EvidenceSupport (gr_Evidence g) else other) 0 groundings"

definition recovery_eligibility ::
  "('a) BrainState_scheme \<Rightarrow> Incident \<Rightarrow> AgentHypothesis \<Rightarrow> HypothesisGrounding \<Rightarrow> RecoveryEligibility" where
  "recovery_eligibility s i selected grounding =
     (let e = RecoveryAllowed (bs_AgentDiagnosis s) selected grounding (bs_HypothesisGroundings s) (bs_ExecutionSnapshot s)
                (kubernetes_support (inc_Evidence i) (gre_SupportingEvidenceIDs (gr_Evidence grounding)))
                (gre_EvidenceSupport (gr_Evidence grounding) - other_support (bs_HypothesisGroundings s) (gr_HypothesisRevisionID grounding))
                (validated_hypotheses s)
      in case findHypothesisAdmission (bs_HypothesisAdmissions s) (hyp_ID selected) of
           Some a \<Rightarrow> if adm_Decision a \<noteq> ''ADMITTED'' \<or> adm_GroundingLevel a = AdmissionUnresolved
                     then e\<lparr>re_Allowed := False, re_ReasonCodes := re_ReasonCodes e @ [''hypothesis_admission_not_recovery_eligible'']\<rparr> else e
         | None \<Rightarrow> e\<lparr>re_Allowed := False, re_ReasonCodes := re_ReasonCodes e @ [''hypothesis_admission_not_recovery_eligible'']\<rparr>)"

definition recovery_permission :: "RecoveryEligibility \<Rightarrow> bool \<Rightarrow> RecoveryPermission" where
  "recovery_permission e planned =
     (let reason = Join (re_ReasonCodes e) '','' in
      if re_Allowed e
      then \<lparr>perm_Level = ''AUTO'', perm_Allowed = True,
             perm_Reason = (if \<not> planned \<and> reason = [] then ''LLM did not submit a recovery plan''
                            else ''complete grounded diagnosis chain and snapshot consistency'')\<rparr>
      else \<lparr>perm_Level = ''HUMAN'', perm_Allowed = False,
             perm_Reason = (if \<not> planned \<and> reason = [] then ''LLM did not submit a recovery plan'' else reason)\<rparr>)"

definition registered_action :: "RecoveryAction \<Rightarrow> bool" where
  "registered_action a = (a = ActionRestartPod \<or> a = ActionScaleDeployment \<or> a = ActionRollbackDeployment)"

definition proposal_of_plan :: "Incident \<Rightarrow> AgentRecoveryPlan \<Rightarrow> AgentDiagnosis \<Rightarrow> string \<Rightarrow> fresh \<Rightarrow> RecoveryProposal" where
  "proposal_of_plan i plan d target fr =
     zero_RecoveryProposal\<lparr>rp_ID := ''proposal:'' @ fr_id fr, rp_Action := ro_Action (plan_PrimaryAction plan),
       rp_Namespace := inc_Namespace i, rp_Target := target, rp_Parameters := ro_Parameters (plan_PrimaryAction plan),
       rp_Reason := ro_Reason (plan_PrimaryAction plan), rp_Risk := plan_RiskReason plan, rp_Diff := plan_ExpectedOutcome plan,
       rp_Rollback := plan_RollbackPlan plan, rp_Confidence := diag_ModelConfidence d, rp_ExpiresAt := fr_now fr + 5 * Minute\<rparr>"

definition propose_recovery :: "WorkflowState \<Rightarrow> AgentDiagnosis \<Rightarrow> AgentRecoveryPlan \<Rightarrow> fresh \<Rightarrow> node_result" where
  "propose_recovery s d plan fr = (case ws_Incident s of None \<Rightarrow> (s, Some NilDereference)
     | Some i \<Rightarrow>
         if plan_ExecutionSnapshot plan \<noteq> bs_ExecutionSnapshot s \<or> plan_EvidenceSnapshotHash plan \<noteq> bs_EvidenceSnapshotHash s \<or>
            plan_DiagnosisVersion plan \<noteq> diag_ID d
         then finishBrainWithoutRecovery s i ''recovery plan snapshot does not match the current diagnosis'' (fr_now fr)
         else (case canonicalProposalTarget (ro_Target (plan_PrimaryAction plan)) (inc_Namespace i) (inc_Resource i) of
             Inl e \<Rightarrow> finishBrainWithoutRecovery s i e (fr_now fr)
           | Inr target \<Rightarrow>
               if \<not> registered_action (ro_Action (plan_PrimaryAction plan))
               then finishBrainWithoutRecovery s i ''recovery action is not registered'' (fr_now fr)
               else
                 let s1 = s\<lparr>ws_Incident := Some (i\<lparr>inc_Proposal := Some (proposal_of_plan i plan d target fr)\<rparr>)\<rparr>;
                     (s2, e) = (if inc_Status i = StatusCollecting then step_status s1 StatusDiagnosing (fr_now fr) else (s1, None))
                 in if e \<noteq> None then (s2, e) else step_status s2 StatusProposing (fr_now fr)))"

definition brainRecoveryPermissionNode :: "WorkflowState \<Rightarrow> fresh \<Rightarrow> node_result" where
  "brainRecoveryPermissionNode s fr = (case ws_Incident s of None \<Rightarrow> (s, Some NilDereference)
     | Some i \<Rightarrow> (case bs_AgentDiagnosis s of
         None \<Rightarrow> finishBrainWithoutRecovery s i ''Brain terminated without a persisted diagnosis'' (fr_now fr)
       | Some d \<Rightarrow> (case (findHypothesisGrounding (bs_HypothesisGroundings s) (diag_HypothesisRevisionID d),
                           findAgentHypothesis (bs_AgentHypotheses s) (diag_HypothesisRevisionID d)) of
           (Some grounding, Some selected) \<Rightarrow>
             if inc_Investigation i = None then (s, Some NilDereference)
             else
               let e = recovery_eligibility s i selected grounding;
                   permission = recovery_permission e (bs_AgentRecoveryPlan s \<noteq> None);
                   s1 = map_investigation (\<lambda>v. v\<lparr>inv_RecoveryPermission := Some permission\<rparr>) (s\<lparr>bs_RecoveryPermission := Some permission\<rparr>)
               in (case (re_Allowed e, bs_AgentRecoveryPlan s) of
                     (True, Some plan) \<Rightarrow> propose_recovery s1 d plan fr
                   | _ \<Rightarrow> finishBrainWithoutRecovery s1 i (perm_Reason permission) (fr_now fr))
         | _ \<Rightarrow> finishBrainWithoutRecovery s i ''selected diagnosis has no matching hypothesis grounding'' (fr_now fr))))"

section \<open>Dry run\<close>

text \<open>Every executor the service wires in supports \<^verbatim>\<open>DryRun\<close>; the model takes \<^verbatim>\<open>KubernetesExecutor\<close>.\<close>

definition dryRunProposal ::
  "hasher \<Rightarrow> executor_answers \<Rightarrow> string \<Rightarrow> Incident \<Rightarrow> time \<Rightarrow> DryRunResult \<times> Incident \<times> string option \<times> kube_call list" where
  "dryRunProposal H ans stamp i now = (case inc_Proposal i of
       None \<Rightarrow> (zero_DryRunResult\<lparr>dr_Error := ''proposal missing''\<rparr>, i, Some ''proposal missing'', [])
     | Some p \<Rightarrow> (let (r, p', e, calls) = DryRun H ans stamp p now in (r, i\<lparr>inc_Proposal := Some p'\<rparr>, e, calls)))"

definition dry_run_provenance :: "hasher \<Rightarrow> ('a) BrainState_scheme \<Rightarrow> Incident \<Rightarrow> DryRunResult \<Rightarrow> fresh \<Rightarrow> ToolResultProvenance" where
  "dry_run_provenance H s i r fr =
     (let base = zero_ToolResultProvenance\<lparr>prov_ToolCallID := ''dry-run:'' @ fr_id fr, prov_ToolName := ''dry_run_recovery'',
            prov_ToolSchemaHash := es_ToolSchemaHash (bs_ExecutionSnapshot s), prov_Collector := ''safety-kernel'',
            prov_WindowStart := fr_now fr, prov_WindowEnd := fr_now fr, prov_ObservedAt := fr_now fr, prov_ParserVersion := ''dry-run-v1''\<rparr>;
          bound = (case inc_Proposal i of None \<Rightarrow> base
            | Some p \<Rightarrow> base\<lparr>prov_MutationSpecHash := dr_MutationSpecHash r, prov_TargetUID := rp_TargetUID p,
                             prov_ResourceVersion := rp_ResourceVersion p, prov_TargetRefs := proposal_refs p\<rparr>)
      in bound\<lparr>prov_RawArtifactHash := H (HDryRun (Some r))\<rparr>)"

definition brainDryRunNode :: "hasher \<Rightarrow> executor_answers \<Rightarrow> string \<Rightarrow> WorkflowState \<Rightarrow> fresh \<Rightarrow> node_result \<times> kube_call list" where
  "brainDryRunNode H ans stamp s fr = (case ws_Incident s of None \<Rightarrow> ((s, Some NilDereference), [])
     | Some i0 \<Rightarrow>
         (let (r, i1, e, calls) = dryRunProposal H ans stamp i0 (fr_now fr);
              s1 = s\<lparr>ws_DryRun := Some r, ws_Incident := Some (i1\<lparr>inc_DryRun := Some r\<rparr>)\<rparr>;
              provenance = dry_run_provenance H s1 i1 r fr;
              record0 = zero_ToolResultRecord\<lparr>trr_Class := ToolResultValidation, trr_Provenance := provenance,
                trr_NewInformation := True, trr_OccurredAt := fr_now fr\<rparr>;
              execution = (\<lambda>result. \<lparr>bte_Envelope = safety_envelope s1 i1 (''dry-run:'' @ fr_id fr) BrainPhaseRecovery ''dry_run_recovery'', bte_Result = result\<rparr>)
          in if e \<noteq> None \<or> \<not> dr_Success r
             then
               let failed = record0\<lparr>trr_Status := ''DRY_RUN_FAILED'', trr_Summary := ''Kubernetes server-side dry-run failed''\<rparr>;
                   s2 = s1\<lparr>bs_PendingReflection := Some ReflectionRecoveryFailure, bs_Termination := None, bs_BrainPhase := BrainPhaseRecovery,
                     bs_ActiveToolCategory := BrainToolRecovery, bs_AgentRecoveryPlan := None, bs_RecoveryPermission := None,
                     ws_Incident := Some (i1\<lparr>inc_DryRun := Some r, inc_Proposal := None\<rparr>)\<rparr>;
                   (s3, e3) = (if inc_Status i1 = StatusProposing then step_status s2 StatusDiagnosing (fr_now fr) else (s2, None))
               in if e3 \<noteq> None then ((s3, e3), calls)
                  else ((s3\<lparr>bs_ToolExecutions := bs_ToolExecutions s3 @ [execution failed]\<rparr>, None), calls)
             else ((s1\<lparr>bs_ToolExecutions := bs_ToolExecutions s1 @
                      [execution (record0\<lparr>trr_Status := ''DRY_RUN_SUCCEEDED'', trr_Summary := ''Kubernetes server-side dry-run completed''\<rparr>)]\<rparr>, None), calls)))"

section \<open>Proposal validation and approval\<close>

definition recovery_proposal_validator :: "WorkflowState \<Rightarrow> time \<Rightarrow> node_result" where
  "recovery_proposal_validator s now = (case ws_Incident s of None \<Rightarrow> (s, Some NilDereference)
     | Some i \<Rightarrow>
         if inc_Status i = StatusNeedsAttention then (s, None)
         else if inc_Status i \<noteq> StatusProposing \<or> inc_Proposal i = None \<or>
                 (case (ws_DryRun s, inc_DryRun i) of
                    (Some d, Some d') \<Rightarrow> \<not> dr_Success d \<or> dr_MutationSpecHash d' \<noteq> dr_MutationSpecHash d
                  | _ \<Rightarrow> True)
         then step_status (s\<lparr>ws_Errors := ws_Errors s @ [''diagnosis handoff did not contain a matching accepted proposal and dry-run'']\<rparr>)
                StatusNeedsAttention now
         else (s, None))"

text \<open>The versions an approval is bound to, and the check of an execution context against them.\<close>

definition frozen_diagnosis :: "AgentDiagnosis option \<Rightarrow> Incident \<Rightarrow> AgentDiagnosis option" where
  "frozen_diagnosis d i = (case d of Some x \<Rightarrow> Some x
     | None \<Rightarrow> (case inc_Investigation i of None \<Rightarrow> None | Some v \<Rightarrow> inv_AgentDiagnosis v))"

definition frozen_plan :: "AgentRecoveryPlan option \<Rightarrow> Incident \<Rightarrow> AgentRecoveryPlan option" where
  "frozen_plan d i = (case d of Some x \<Rightarrow> Some x
     | None \<Rightarrow> (case inc_Investigation i of None \<Rightarrow> None | Some v \<Rightarrow> inv_AgentRecoveryPlan v))"

definition frozen_snapshot :: "ExecutionSnapshot \<Rightarrow> Incident \<Rightarrow> ExecutionSnapshot" where
  "frozen_snapshot es i =
     (if es = zero_ExecutionSnapshot then (case inc_ExecutionSnapshot i of Some x \<Rightarrow> x | None \<Rightarrow> es) else es)"

definition version_error ::
  "ExecutionContext \<Rightarrow> Incident \<Rightarrow> DryRunResult \<Rightarrow> AgentDiagnosis \<Rightarrow> AgentRecoveryPlan \<Rightarrow> ExecutionSnapshot \<Rightarrow> string \<Rightarrow> time \<Rightarrow> string option" where
  "version_error e i d diagnosis plan es evidence now =
     (if ec_RecoveryPlanID e \<noteq> plan_ID plan \<or> ec_DiagnosisVersion e \<noteq> diag_ID diagnosis \<or> ec_DiagnosisVersion e \<noteq> plan_DiagnosisVersion plan
      then Some ''execution context does not match the frozen diagnosis and recovery plan versions''
      else if ec_EvidenceSnapshotHash e \<noteq> (if evidence = [] then plan_EvidenceSnapshotHash plan else evidence) \<or>
              ec_EvidenceSnapshotHash e \<noteq> plan_EvidenceSnapshotHash plan
      then Some ''execution context does not match the frozen Evidence snapshot''
      else if ec_ExecutionSnapshot e \<noteq> Some (frozen_snapshot es i) \<or> ec_ExecutionSnapshot e \<noteq> Some (plan_ExecutionSnapshot plan)
      then Some ''execution context does not match the frozen Execution snapshot''
      else if IsZero (ec_DryRunValidatedAt e) \<or> ec_DryRunValidatedAt e \<noteq> dr_ValidatedAt d
      then Some ''execution context does not match the approved dry-run version''
      else if ec_ApprovalID e = [] \<or> ec_IdempotencyKey e = [] \<or> now > ec_ExpiresAt e
      then Some ''approval context is missing or expired''
      else if inc_Namespace i \<notin> set (ec_NamespaceAllowlist e) then Some ''namespace is not approved''
      else None)"

definition context_error ::
  "ExecutionContext option \<Rightarrow> Incident \<Rightarrow> DryRunResult option \<Rightarrow> AgentDiagnosis option \<Rightarrow> AgentRecoveryPlan option \<Rightarrow> ExecutionSnapshot \<Rightarrow> string \<Rightarrow> time \<Rightarrow> string option" where
  "context_error context i dryRun diagnosis0 plan0 es evidence now =
     (case (context, inc_Proposal i, dryRun) of
        (Some e, Some p, Some d) \<Rightarrow>
          if ec_IncidentID e \<noteq> inc_ID i \<or> ec_ProposalID e \<noteq> rp_ID p \<or> ec_MutationSpecHash e \<noteq> dr_MutationSpecHash d
          then Some ''execution context does not match approved dry-run''
          else if ec_TargetUID e \<noteq> rp_TargetUID p \<or> ec_ResourceVersion e \<noteq> rp_ResourceVersion p
          then Some ''execution context target preconditions do not match proposal''
          else (case (frozen_diagnosis diagnosis0 i, frozen_plan plan0 i) of
              (Some diagnosis, Some plan) \<Rightarrow> version_error e i d diagnosis plan es evidence now
            | _ \<Rightarrow> Some ''Brain diagnosis and recovery plan are required for execution'')
      | _ \<Rightarrow> Some ''execution context, proposal and dry-run are required'')"

definition validateExecutionContext :: "WorkflowState \<Rightarrow> Incident \<Rightarrow> time \<Rightarrow> string option" where
  "validateExecutionContext s i now =
     context_error (ws_ExecutionContext s) i (ws_DryRun s) (bs_AgentDiagnosis s) (bs_AgentRecoveryPlan s)
       (bs_ExecutionSnapshot s) (bs_EvidenceSnapshotHash s) now"

definition set_attempt_status :: "WorkflowAttemptStatus \<Rightarrow> WorkflowState \<Rightarrow> WorkflowState" where
  "set_attempt_status st s = s\<lparr>bs_WorkflowAttempt := map_option (\<lambda>a. a\<lparr>wa_Status := st\<rparr>) (bs_WorkflowAttempt s)\<rparr>"

text \<open>The first run of the approval node asks for the approval and interrupts the graph.\<close>

datatype approval_result = Interrupted WorkflowState | Resumed node_result

definition request_approval :: "hasher \<Rightarrow> WorkflowState \<Rightarrow> fresh \<Rightarrow> approval_result" where
  "request_approval H s fr =
     (case step_status s StatusAwaitingApproval (fr_now fr) of
        (s1, Some e) \<Rightarrow> Resumed (s1, Some e)
      | (s1, None) \<Rightarrow>
          let s2 = s1\<lparr>bs_WorkflowAttempt := map_option (\<lambda>a. a\<lparr>wa_Status := WorkflowAttemptInterrupted, wa_InterruptedAt := fr_now fr\<rparr>) (bs_WorkflowAttempt s1)\<rparr>;
              s3 = appendBrainStateChange H s2 ''approval_interrupt'' ''APPROVAL_REQUESTED'' ''recovery approval requested'' True [] fr
          in (case ws_Incident s3 of None \<Rightarrow> Resumed (s3, Some NilDereference)
              | Some i \<Rightarrow> if inc_Proposal i = None then Resumed (s3, Some NilDereference) else Interrupted s3))"

record ApprovalResumeData =
  ard_Approved :: bool
  ard_Context :: ExecutionContext

text \<open>The second run works on the state of the checkpoint.  The identifier of a rejection is the second one drawn.\<close>

definition resume_approval :: "hasher \<Rightarrow> WorkflowState \<Rightarrow> ApprovalResumeData option \<Rightarrow> string \<Rightarrow> fresh \<Rightarrow> node_result" where
  "resume_approval H s data0 rejectionID fr =
     (case data0 of None \<Rightarrow> (s, Some (NodeError ''approval resume data is required''))
      | Some data \<Rightarrow>
          let s0 = set_attempt_status WorkflowAttemptActive s in
          if \<not> ard_Approved data then
            let s1 = appendBrainStateChange H s0 ''approval_interrupt'' ''APPROVAL_REJECTED'' ''operator rejected recovery approval'' True
                       (''approval:'' @ rejectionID) fr;
                s2 = setFinalBrainTermination s1 TerminationApprovalRejected [''operator rejected recovery approval''] (fr_now fr)
            in step_status s2 StatusRejected (fr_now fr)
          else (case ws_Incident s0 of None \<Rightarrow> (s0, Some NilDereference)
            | Some i0 \<Rightarrow>
                let i = i0\<lparr>inc_ExecutionContext := Some (ard_Context data)\<rparr>;
                    s1 = s0\<lparr>ws_ExecutionContext := Some (ard_Context data), ws_Incident := Some i\<rparr>
                in (case validateExecutionContext s1 i (fr_now fr) of
                    Some e \<Rightarrow>
                      let s2 = appendBrainStateChange H s1 ''approval_interrupt'' ''APPROVAL_CONTEXT_REJECTED''
                                 ''approval context did not match the frozen recovery chain'' False (ec_ApprovalID (ard_Context data)) fr;
                          s3 = setFinalBrainTermination s2 TerminationSafetyBlocked [e] (fr_now fr)
                      in step_status s3 StatusNeedsAttention (fr_now fr)
                  | None \<Rightarrow>
                      step_status (appendBrainStateChange H s1 ''approval_interrupt'' ''APPROVAL_GRANTED'' ''operator approved the frozen recovery plan''
                        True (ec_ApprovalID (ard_Context data)) fr) StatusRecovering (fr_now fr))))"

section \<open>Execution\<close>

fun action_name :: "RecoveryAction \<Rightarrow> string" where
  "action_name ActionRestartPod = ''restart_pod''"
| "action_name ActionScaleDeployment = ''scale_deployment''"
| "action_name ActionRollbackDeployment = ''rollback_deployment''"
| "action_name (RecoveryAction_other a) = a"

text \<open>\<^verbatim>\<open>ActionExecutor.Execute\<close> selects the capability registered for the proposal's action; the capability checks
  the context again, on the incident's own fields, and calls the backend.  The text of an error, which
  the tool package wraps, is a parameter of the node.\<close>

datatype action_error = ActionRefused string | BackendError execute_error

definition ActionExecutor_Execute ::
  "executor_answers \<Rightarrow> Incident \<Rightarrow> RecoveryProposal \<Rightarrow> time \<Rightarrow> action_error option \<times> kube_call list" where
  "ActionExecutor_Execute ans i p now =
     (if \<not> registered_action (rp_Action p) then (Some (ActionRefused ''approved recovery action is not registered''), [])
      else (case context_error (inc_ExecutionContext i) i (inc_DryRun i) None None zero_ExecutionSnapshot [] now of
          Some e \<Rightarrow> (Some (ActionRefused e), [])
        | None \<Rightarrow> (let (e, calls) = Execute ans (Some i) p in (map_option BackendError e, calls))))"

definition result_unknown :: "action_error \<Rightarrow> bool" where
  "result_unknown e = (e = BackendError ActionResultUnknown)"

definition set_execution :: "WorkflowState \<Rightarrow> Incident \<Rightarrow> RecoveryExecution \<Rightarrow> WorkflowState" where
  "set_execution s i x = s\<lparr>ws_Incident := Some (i\<lparr>inc_RecoveryExecution := Some x\<rparr>)\<rparr>"

definition attempt_execution :: "Incident \<Rightarrow> RecoveryProposal \<Rightarrow> time \<Rightarrow> RecoveryExecution" where
  "attempt_execution i p now =
     (let x = (case inc_RecoveryExecution i of Some x \<Rightarrow> x | None \<Rightarrow> zero_RecoveryExecution)
      in x\<lparr>rx_Attempts := rx_Attempts x + 1, rx_Namespace := rp_Namespace p, rx_Target := rp_Target p,
           rx_Action := action_name (rp_Action p), rx_Outcome := ''attempting'', rx_LastAttemptAt := now\<rparr>)"

definition pending_failure :: "ReflectionTrigger \<Rightarrow> WorkflowState \<Rightarrow> WorkflowState" where
  "pending_failure trigger s =
     map_investigation (\<lambda>v. v\<lparr>inv_Termination := None\<rparr>)
       (s\<lparr>bs_PendingReflection := Some trigger, bs_PendingTermination := TerminationRecoveryFailed, bs_BrainPhase := BrainPhaseReflection,
          bs_ResumeBrainPhase := BrainPhaseEscalation, bs_Termination := None\<rparr>)"

definition failed_execution :: "hasher \<Rightarrow> (action_error \<Rightarrow> string) \<Rightarrow> WorkflowState \<Rightarrow> Incident \<Rightarrow> RecoveryExecution \<Rightarrow> action_error \<Rightarrow> fresh \<Rightarrow> WorkflowState" where
  "failed_execution H wording s i x e fr =
     (let unknown = result_unknown e;
          s1 = set_execution s i (x\<lparr>rx_Outcome := (if unknown then ''unknown'' else ''failed'')\<rparr>);
          s2 = (if unknown then setFinalBrainTermination s1 TerminationExecutionOutcomeUnknown [''recovery mutation outcome could not be confirmed''] (fr_now fr)
                else if brainReflectionAvailable s1 ReflectionRecoveryFailure then pending_failure ReflectionRecoveryFailure s1
                else setFinalBrainTermination s1 TerminationRecoveryFailed [''registered recovery action failed''] (fr_now fr));
          s3 = s2\<lparr>ws_Errors := ws_Errors s2 @ [wording e]\<rparr>;
          s4 = appendBrainStateChange H s3 ''execute_recovery'' (if unknown then ''UNKNOWN'' else ''FAILED'')
                 ''recovery execution did not produce a confirmed mutation'' True (brainApprovalID s3) fr
      in try_status s4 (if unknown then StatusNeedsAttention else StatusRecoveryFailed) (fr_now fr))"

definition safety_action_executor ::
  "hasher \<Rightarrow> (action_error \<Rightarrow> string) \<Rightarrow> executor_answers \<Rightarrow> WorkflowState \<Rightarrow> fresh \<Rightarrow> node_result \<times> kube_call list" where
  "safety_action_executor H wording ans s fr = (case ws_Incident s of None \<Rightarrow> ((s, Some NilDereference), [])
     | Some i0 \<Rightarrow> (case validateExecutionContext s i0 (fr_now fr) of
         Some e \<Rightarrow> ((try_status (s\<lparr>ws_Errors := ws_Errors s @ [e]\<rparr>) StatusNeedsAttention (fr_now fr), None), [])
       | None \<Rightarrow> (case inc_Proposal i0 of None \<Rightarrow> ((s, Some NilDereference), [])
           | Some p \<Rightarrow>
               let x = attempt_execution i0 p (fr_now fr); i = i0\<lparr>inc_RecoveryExecution := Some x\<rparr>
               in (case ActionExecutor_Execute ans i p (fr_now fr) of
                   (Some e, calls) \<Rightarrow> ((failed_execution H wording s i x e fr, None), calls)
                 | (None, calls) \<Rightarrow>
                     let s1 = set_execution s i (x\<lparr>rx_ConfirmedMutations := rx_ConfirmedMutations x + 1, rx_Outcome := ''succeeded'', rx_CompletedAt := fr_now fr\<rparr>);
                         s2 = appendBrainStateChange H s1 ''execute_recovery'' ''MUTATION_CONFIRMED'' ''registered Kubernetes mutation completed'' True (brainApprovalID s1) fr
                     in (case step_status s2 StatusVerifying (fr_now fr) of
                         (s3, Some e) \<Rightarrow> ((s3, Some e), calls)
                       | (s3, None) \<Rightarrow> ((s3\<lparr>ws_VerificationState := (ws_VerificationState s3)\<lparr>vs_StartedAt := fr_now fr\<rparr>\<rparr>, None), calls))))))"

section \<open>Intake, finalizer and routes\<close>

text \<open>\<open>rerankerHash\<close> is the hash of the reranker's configuration, when there is one.\<close>

definition incident_intake :: "string \<Rightarrow> string option \<Rightarrow> WorkflowState \<Rightarrow> time \<Rightarrow> node_result" where
  "incident_intake skillHash rerankerHash s now = (case ws_Incident s of None \<Rightarrow> (s, Some NilDereference)
     | Some i \<Rightarrow> (let (m, valid) = NormalizeDiagnosisMethod (inc_DiagnosisMethod i) in
         if \<not> valid \<or> \<not> IsKubePilotBrainMethod m
         then (s, Some (NodeError ''diagnosis method is not supported by the KubePilot Brain runtime''))
         else
           let i1 = i\<lparr>inc_DiagnosisMethod := m, inc_SkillSnapshotHash := skillHash,
                      inc_RerankerConfigHash := (case rerankerHash of None \<Rightarrow> inc_RerankerConfigHash i | Some h \<Rightarrow> h)\<rparr>
           in (case step_status (s\<lparr>ws_Workflow := BrainWorkflowRuntimeName, ws_Incident := Some i1\<rparr>) StatusCorrelating now of
                 (s1, Some e) \<Rightarrow> (s1, Some e)
               | (s1, None) \<Rightarrow> step_status s1 StatusCollecting now)))"

definition incident_finalizer :: "WorkflowState \<Rightarrow> time \<Rightarrow> node_result" where
  "incident_finalizer s now = (case ws_Incident s of None \<Rightarrow> (s, Some NilDereference)
     | Some i \<Rightarrow>
         let attempt = map_option (\<lambda>a. a\<lparr>wa_Status := WorkflowAttemptCompleted, wa_CompletedAt := now\<rparr>) (bs_WorkflowAttempt s);
             i1 = i\<lparr>inc_UpdatedAt := now, inc_DiagnosisLedger := None\<rparr>
         in (case attempt of
               None \<Rightarrow> (s\<lparr>ws_Incident := Some i1\<rparr>, None)
             | Some _ \<Rightarrow> (s\<lparr>bs_WorkflowAttempt := attempt, ws_Incident := Some (i1\<lparr>inc_WorkflowAttempt := attempt,
                 inc_Investigation := map_option (\<lambda>v. v\<lparr>inv_WorkflowAttempt := attempt\<rparr>) (inc_Investigation i1)\<rparr>)\<rparr>, None)))"

datatype outer_node =
    Incident_Intake | Kubepilot_Brain | Recovery_Permission | Dry_Run | Proposal_Validator
  | Approval | Action_Executor | Verification_Controller | Finalizer | Outer_End

definition has_proposal :: "WorkflowState \<Rightarrow> bool" where
  "has_proposal s = (case ws_Incident s of None \<Rightarrow> False | Some i \<Rightarrow> inc_Proposal i \<noteq> None)"

definition status_of :: "WorkflowState \<Rightarrow> IncidentStatus option" where
  "status_of s = map_option inc_Status (ws_Incident s)"

text \<open>The edges and branches of the outer graph.\<close>

fun outer_route :: "outer_node \<Rightarrow> WorkflowState \<Rightarrow> outer_node" where
  "outer_route Incident_Intake s = Kubepilot_Brain"
| "outer_route Kubepilot_Brain s = Recovery_Permission"
| "outer_route Recovery_Permission s = (if status_of s = Some StatusProposing \<and> has_proposal s then Dry_Run else Finalizer)"
| "outer_route Dry_Run s = (if (case ws_DryRun s of None \<Rightarrow> False | Some d \<Rightarrow> dr_Success d) \<and> has_proposal s then Proposal_Validator else Kubepilot_Brain)"
| "outer_route Proposal_Validator s = (if status_of s = Some StatusNeedsAttention then Finalizer else Approval)"
| "outer_route Approval s = (if status_of s = Some StatusRejected \<or> status_of s = Some StatusNeedsAttention then Finalizer else Action_Executor)"
| "outer_route Action_Executor s = (if bs_PendingReflection s \<noteq> None then Kubepilot_Brain
     else if status_of s \<noteq> Some StatusVerifying then Finalizer else Verification_Controller)"
| "outer_route Verification_Controller s = (if bs_PendingReflection s \<noteq> None then Kubepilot_Brain else Finalizer)"
| "outer_route Finalizer s = Outer_End"
| "outer_route Outer_End s = Outer_End"

section \<open>The initial state\<close>

text \<open>The state \<^verbatim>\<open>Supervisor.Run\<close> starts the graph with.\<close>

definition initial_state :: "Incident \<Rightarrow> WorkflowState" where
  "initial_state i = zero_WorkflowState\<lparr>ws_Workflow := BrainWorkflowRuntimeName, ws_Incident := Some i,
     ws_ModelSnapshotHash := inc_ModelConfigHash i, bs_WorkflowAttempt := inc_WorkflowAttempt i,
     bs_ExecutionSnapshot := (case inc_ExecutionSnapshot i of Some x \<Rightarrow> x | None \<Rightarrow> zero_ExecutionSnapshot)\<rparr>"

definition Supervisor_Run_start :: "Incident option \<Rightarrow> string + WorkflowState" where
  "Supervisor_Run_start in0 = (case in0 of None \<Rightarrow> Inl ''incident is required''
     | Some i \<Rightarrow> (let (m, valid) = NormalizeDiagnosisMethod (inc_DiagnosisMethod i) in
         if \<not> valid \<or> \<not> IsKubePilotBrainMethod m then Inl ''diagnosis method is not supported by the KubePilot Brain runtime''
         else Inr (initial_state (i\<lparr>inc_DiagnosisMethod := m\<rparr>))))"

section \<open>What the helpers keep\<close>

lemma status_of_map_investigation [simp]: "status_of (map_investigation f s) = status_of s"
  by (simp add: status_of_def map_investigation_def option.map_comp comp_def)

lemma status_of_setFinal [simp]: "status_of (setFinalBrainTermination s reason gaps now) = status_of s"
  by (simp add: setFinalBrainTermination_def status_of_def map_investigation_def option.map_comp comp_def split: sum.split)

lemma status_of_append [simp]: "status_of (appendBrainStateChange H s tool status summary new approval fr) = status_of s"
  by (simp add: appendBrainStateChange_def Let_def status_of_def map_investigation_def option.map_comp comp_def split: option.split)

lemma map_investigation_fields [simp]:
  "bs_PendingReflection (map_investigation f s) = bs_PendingReflection s" "ws_DryRun (map_investigation f s) = ws_DryRun s"
  "ws_VerificationState (map_investigation f s) = ws_VerificationState s" "bs_Termination (map_investigation f s) = bs_Termination s"
  "bs_WorkflowAttempt (map_investigation f s) = bs_WorkflowAttempt s" "ws_Errors (map_investigation f s) = ws_Errors s"
  by (simp_all add: map_investigation_def)

lemma append_fields [simp]:
  "bs_PendingReflection (appendBrainStateChange H s tool status summary new approval fr) = bs_PendingReflection s"
  "bs_Termination (appendBrainStateChange H s tool status summary new approval fr) = bs_Termination s"
  "ws_VerificationState (appendBrainStateChange H s tool status summary new approval fr) = ws_VerificationState s"
  by (simp_all add: appendBrainStateChange_def Let_def split: option.split)

lemma setFinal_fields [simp]:
  "bs_PendingReflection (setFinalBrainTermination s reason gaps now) = bs_PendingReflection s"
  "ws_VerificationState (setFinalBrainTermination s reason gaps now) = ws_VerificationState s"
  by (simp_all add: setFinalBrainTermination_def split: sum.split)

lemma setFinal_reason:
  "reason \<noteq> NoTermination \<Longrightarrow> \<exists>t. bs_Termination (setFinalBrainTermination s reason gaps now) = Some t \<and> term_Reason t = reason"
  by (simp add: setFinalBrainTermination_def NewTermination_def)

lemma status_of_pending_failure [simp]: "status_of (pending_failure trigger s) = status_of s"
  by (simp only: pending_failure_def status_of_map_investigation) (simp add: status_of_def)

lemma pending_failure_fields [simp]: "bs_PendingReflection (pending_failure trigger s) = Some trigger"
  by (simp add: pending_failure_def)

lemma status_of_incident [simp]: "status_of (s\<lparr>ws_Incident := Some i\<rparr>) = Some (inc_Status i)"
  by (simp add: status_of_def)

lemma status_of_update [simp]:
  "status_of (s\<lparr>ws_Errors := e\<rparr>) = status_of s" "status_of (s\<lparr>ws_DryRun := d\<rparr>) = status_of s"
  "status_of (s\<lparr>ws_ExecutionContext := c\<rparr>) = status_of s" "status_of (s\<lparr>ws_VerificationState := v\<rparr>) = status_of s"
  "status_of (s\<lparr>bs_WorkflowAttempt := a\<rparr>) = status_of s" "status_of (s\<lparr>bs_RecoveryPermission := r\<rparr>) = status_of s"
  "status_of (s\<lparr>bs_ToolExecutions := t\<rparr>) = status_of s" "status_of (s\<lparr>bs_Termination := m\<rparr>) = status_of s"
  by (simp_all add: status_of_def)

lemma set_attempt_status_status [simp]: "status_of (set_attempt_status st s) = status_of s"
  by (simp add: set_attempt_status_def)

lemma step_status_unfold:
  "step_status s to now = (case ws_Incident s of None \<Rightarrow> (s, Some (RefusedTransition IncidentRequired))
     | Some i \<Rightarrow> if inc_Status i = to then (s\<lparr>ws_Incident := Some i\<rparr>, None)
         else if CanTransition (inc_Status i) to then (s\<lparr>ws_Incident := Some (i\<lparr>inc_Status := to, inc_UpdatedAt := now\<rparr>)\<rparr>, None)
         else (s, Some (RefusedTransition (InvalidTransition (inc_Status i) to))))"
  by (simp add: step_status_def Transition_def split: option.split)

lemma step_status_ok: "step_status s to now = (s', None) \<Longrightarrow> status_of s' = Some to"
  by (auto simp: step_status_unfold split: option.splits if_splits)

lemma step_status_from:
  "step_status s to now = (s', None) \<Longrightarrow> status_of s = Some st \<Longrightarrow> st = to \<or> CanTransition st to"
  by (auto simp: step_status_unfold status_of_def split: if_splits)

lemma step_status_refused:
  "status_of s = Some st \<Longrightarrow> st \<noteq> to \<Longrightarrow> \<not> CanTransition st to \<Longrightarrow> snd (step_status s to now) \<noteq> None"
  by (auto simp: step_status_unfold status_of_def)

lemma step_status_moves:
  "status_of s = Some st \<Longrightarrow> CanTransition st to \<Longrightarrow> snd (step_status s to now) = None \<and> status_of (fst (step_status s to now)) = Some to"
  by (auto simp: step_status_unfold status_of_def)

lemma step_status_keeps [simp]:
  "bs_PendingReflection (fst (step_status s to now)) = bs_PendingReflection s" "bs_Termination (fst (step_status s to now)) = bs_Termination s"
  "ws_VerificationState (fst (step_status s to now)) = ws_VerificationState s" "ws_DryRun (fst (step_status s to now)) = ws_DryRun s"
  by (simp_all add: step_status_unfold split: option.split)

lemma try_status_keeps [simp]:
  "bs_PendingReflection (try_status s to now) = bs_PendingReflection s" "bs_Termination (try_status s to now) = bs_Termination s"
  by (simp_all add: try_status_def)

lemma try_status_moved:
  "status_of s = Some st \<Longrightarrow> CanTransition st to \<Longrightarrow> status_of (try_status s to now) = Some to"
  by (simp add: try_status_def step_status_moves)

lemma finish_status: "finishBrainWithoutRecovery s i reason now = (s', None) \<Longrightarrow> status_of s = Some (inc_Status i) \<Longrightarrow> status_of s' = Some StatusNeedsAttention"
  by (auto simp: finishBrainWithoutRecovery_def Let_def dest: step_status_ok split: if_splits)

end
