(* ===== verification/Safety_Gates.thy ===== *)
theory Safety_Gates
  imports Safety_Kernel
begin

text \<open>What the nodes of the safety kernel guarantee, one after the other: which diagnoses become
  proposals, what a failed dry run takes back, what an approval is bound to, which conditions precede a
  mutation call, and what happens to a mutation without a confirmed result.\<close>

section \<open>From diagnosis to proposal\<close>

lemma finish_not_proposing:
  "finishBrainWithoutRecovery s i reason now = (s', None) \<Longrightarrow> status_of s = Some (inc_Status i) \<Longrightarrow> status_of s' \<noteq> Some StatusProposing"
  by (simp add: finish_status)

lemma propose_recovery_cases:
  assumes "propose_recovery s d plan fr = (s', None)" and "status_of s' = Some StatusProposing"
  shows "\<exists>i target. ws_Incident s = Some i \<and> plan_ExecutionSnapshot plan = bs_ExecutionSnapshot s \<and>
    plan_EvidenceSnapshotHash plan = bs_EvidenceSnapshotHash s \<and> plan_DiagnosisVersion plan = diag_ID d \<and>
    registered_action (ro_Action (plan_PrimaryAction plan)) \<and>
    canonicalProposalTarget (ro_Target (plan_PrimaryAction plan)) (inc_Namespace i) (inc_Resource i) = Inr target"
proof -
  from assms(1) obtain i where i: "ws_Incident s = Some i" by (auto simp: propose_recovery_def split: option.splits)
  have st: "status_of s = Some (inc_Status i)" using i by (simp add: status_of_def)
  have no: "finishBrainWithoutRecovery s i reason (fr_now fr) \<noteq> (s', None)" for reason
    using finish_not_proposing [OF _ st] assms(2) by blast
  show ?thesis using assms(1) i no by (auto simp: propose_recovery_def split: if_splits sum.splits)
qed

definition eligible_chain :: "WorkflowState \<Rightarrow> Incident \<Rightarrow> AgentDiagnosis \<Rightarrow> AgentHypothesis \<Rightarrow> HypothesisGrounding \<Rightarrow> AgentRecoveryPlan \<Rightarrow> bool" where
  "eligible_chain s i d h g plan =
     (\<not> diag_Provisional d \<and> diag_HypothesisRevisionID d = hyp_ID h \<and> gr_HypothesisRevisionID g = hyp_ID h \<and>
      (\<exists>a. findHypothesisAdmission (bs_HypothesisAdmissions s) (hyp_ID h) = Some a \<and> adm_Decision a = ''ADMITTED'' \<and> adm_GroundingLevel a \<noteq> AdmissionUnresolved) \<and>
      gr_Level g = GroundingSupported \<and> 65/100 \<le> gre_EvidenceSupport (gr_Evidence g) \<and> gre_ContradictionRatio (gr_Evidence g) \<le> 10/100 \<and>
      2 \<le> gre_IndependentSourceCount (gr_Evidence g) \<and> kubernetes_support (inc_Evidence i) (gre_SupportingEvidenceIDs (gr_Evidence g)) \<and>
      (\<forall>other\<in>set (bs_HypothesisGroundings s). gr_HypothesisRevisionID other \<noteq> hyp_ID h \<longrightarrow>
         gre_EvidenceSupport (gr_Evidence other) + 15/100 \<le> gre_EvidenceSupport (gr_Evidence g)) \<and>
      plan_DiagnosisVersion plan = diag_ID d \<and> plan_ExecutionSnapshot plan = bs_ExecutionSnapshot s \<and>
      plan_EvidenceSnapshotHash plan = bs_EvidenceSnapshotHash s \<and> registered_action (ro_Action (plan_PrimaryAction plan)))"

lemma other_support_ge:
  "g \<in> set gs \<Longrightarrow> gr_HypothesisRevisionID g \<noteq> hid \<Longrightarrow> gre_EvidenceSupport (gr_Evidence g) \<le> other_support gs hid"
proof -
  let ?f = "\<lambda>other g. if gr_HypothesisRevisionID g \<noteq> hid \<and> gre_EvidenceSupport (gr_Evidence g) > other then gre_EvidenceSupport (gr_Evidence g) else other"
  have mono: "x \<le> foldl ?f x l" for x and l :: "HypothesisGrounding list"
  proof (induction l arbitrary: x)
    case (Cons a l)
    have "x \<le> ?f x a" by simp
    also have "\<dots> \<le> foldl ?f (?f x a) l" by (rule Cons)
    finally show ?case by simp
  qed simp
  have "g \<in> set gs \<Longrightarrow> gr_HypothesisRevisionID g \<noteq> hid \<Longrightarrow> gre_EvidenceSupport (gr_Evidence g) \<le> foldl ?f x gs" for x
  proof (induction gs arbitrary: x)
    case (Cons a gs)
    show ?case
    proof (cases "g = a")
      case True
      have "gre_EvidenceSupport (gr_Evidence a) \<le> ?f x a" using Cons.prems True by auto
      then show ?thesis unfolding True foldl_Cons by (rule order_trans [OF _ mono])
    next
      case False
      then show ?thesis using Cons unfolding foldl_Cons by simp
    qed
  qed simp
  then show "g \<in> set gs \<Longrightarrow> gr_HypothesisRevisionID g \<noteq> hid \<Longrightarrow> ?thesis" by (simp add: other_support_def)
qed

lemma eligibility_allowed:
  assumes "re_Allowed (recovery_eligibility s i h g)"
  shows "(\<exists>a. findHypothesisAdmission (bs_HypothesisAdmissions s) (hyp_ID h) = Some a \<and> adm_Decision a = ''ADMITTED'' \<and> adm_GroundingLevel a \<noteq> AdmissionUnresolved) \<and>
    re_Allowed (RecoveryAllowed (bs_AgentDiagnosis s) h g (bs_HypothesisGroundings s) (bs_ExecutionSnapshot s)
      (kubernetes_support (inc_Evidence i) (gre_SupportingEvidenceIDs (gr_Evidence g)))
      (gre_EvidenceSupport (gr_Evidence g) - other_support (bs_HypothesisGroundings s) (gr_HypothesisRevisionID g)) (validated_hypotheses s))"
  using assms by (auto simp: recovery_eligibility_def Let_def split: option.splits if_splits)

lemma permission_node_proposes:
  assumes "brainRecoveryPermissionNode s fr = (s', None)" and "status_of s' = Some StatusProposing"
  shows "\<exists>i d h g plan s1. ws_Incident s = Some i \<and> bs_AgentDiagnosis s = Some d \<and> bs_AgentRecoveryPlan s = Some plan \<and>
    findHypothesisGrounding (bs_HypothesisGroundings s) (diag_HypothesisRevisionID d) = Some g \<and>
    findAgentHypothesis (bs_AgentHypotheses s) (diag_HypothesisRevisionID d) = Some h \<and>
    re_Allowed (recovery_eligibility s i h g) \<and> propose_recovery s1 d plan fr = (s', None) \<and>
    bs_ExecutionSnapshot s1 = bs_ExecutionSnapshot s \<and> bs_EvidenceSnapshotHash s1 = bs_EvidenceSnapshotHash s"
proof -
  from assms(1) obtain i where i: "ws_Incident s = Some i" by (auto simp: brainRecoveryPermissionNode_def split: option.splits)
  have st: "status_of s = Some (inc_Status i)" using i by (simp add: status_of_def)
  have no: "finishBrainWithoutRecovery t i reason (fr_now fr) \<noteq> (s', None)" if "status_of t = Some (inc_Status i)" for t reason
    using finish_not_proposing [OF _ that] assms(2) by blast
  show ?thesis using assms(1) i
    by (auto simp: brainRecoveryPermissionNode_def Let_def no st split: option.splits if_splits bool.splits)
       (auto simp: map_investigation_def)
qed

text \<open>C16. No proposal without a grounded diagnosis: whenever the permission node leaves an incident in
  PROPOSING, the diagnosis is final and has an admitted hypothesis whose grounding is SUPPORTED by at
  least two independent sources including Kubernetes, beats every other hypothesis by 0.15, and the plan
  is a registered action bound to this diagnosis, evidence snapshot and execution snapshot.\<close>

theorem proposal_needs_eligible_chain:
  assumes "brainRecoveryPermissionNode s fr = (s', None)" and "status_of s' = Some StatusProposing"
  shows "\<exists>i d h g plan. ws_Incident s = Some i \<and> bs_AgentDiagnosis s = Some d \<and> bs_AgentRecoveryPlan s = Some plan \<and>
    h \<in> set (bs_AgentHypotheses s) \<and> g \<in> set (bs_HypothesisGroundings s) \<and> eligible_chain s i d h g plan"
proof -
  from permission_node_proposes [OF assms] obtain i d h g plan s1 where n: "ws_Incident s = Some i" "bs_AgentDiagnosis s = Some d"
      "bs_AgentRecoveryPlan s = Some plan" "findHypothesisGrounding (bs_HypothesisGroundings s) (diag_HypothesisRevisionID d) = Some g"
      "findAgentHypothesis (bs_AgentHypotheses s) (diag_HypothesisRevisionID d) = Some h" "re_Allowed (recovery_eligibility s i h g)"
      "propose_recovery s1 d plan fr = (s', None)" "bs_ExecutionSnapshot s1 = bs_ExecutionSnapshot s"
      "bs_EvidenceSnapshotHash s1 = bs_EvidenceSnapshotHash s"
    by blast
  note g = findHypothesisGrounding_SomeD [OF n(4)] and h = findAgentHypothesis_SomeD [OF n(5)]
  note e = eligibility_allowed [OF n(6)] and p = propose_recovery_cases [OF n(7) assms(2)]
  have r: "recovery_reasons (Some d) h g (bs_HypothesisGroundings s) (bs_ExecutionSnapshot s)
      (kubernetes_support (inc_Evidence i) (gre_SupportingEvidenceIDs (gr_Evidence g)))
      (gre_EvidenceSupport (gr_Evidence g) - other_support (bs_HypothesisGroundings s) (gr_HypothesisRevisionID g)) (validated_hypotheses s) = []"
    using e n(2) by (simp add: RecoveryAllowed_iff)
  have "gre_EvidenceSupport (gr_Evidence other) + 15/100 \<le> gre_EvidenceSupport (gr_Evidence g)"
    if "other \<in> set (bs_HypothesisGroundings s)" "gr_HypothesisRevisionID other \<noteq> hyp_ID h" for other
    using other_support_ge [OF that(1), of "gr_HypothesisRevisionID g"] that(2) g h r by (simp add: recovery_reasons_def)
  then have "eligible_chain s i d h g plan"
    using g h e p r n(8,9) by (auto simp: eligible_chain_def recovery_reasons_def)
  then show ?thesis using n(1-3) g h by blast
qed

definition example_snapshot :: ExecutionSnapshot where
  "example_snapshot = \<lparr>es_SkillSnapshotHash = ''k'', es_ModelConfigHash = ''m'', es_ToolSchemaHash = ''t'', es_PolicyHash = ''p''\<rparr>"

definition example_grounding :: "string \<Rightarrow> rat \<Rightarrow> HypothesisGrounding" where
  "example_grounding hid support = zero_HypothesisGrounding\<lparr>gr_HypothesisRevisionID := hid, gr_Level := GroundingSupported, gr_EvidenceSnapshotHash := ''s'',
     gr_Evidence := zero_GroundingEvidence\<lparr>gre_EvidenceSupport := support, gre_IndependentSourceCount := 2, gre_SupportingEvidenceIDs := [''e1'']\<rparr>,
     gr_Coverage := \<lparr>gcov_EvidenceNeedCoverage = 1, gcov_CausalPathCoverage = 0, gcov_TargetScopeCoverage = 1, gcov_TemporalCoverage = 1\<rparr>\<rparr>"

definition example_diagnosis :: AgentDiagnosis where
  "example_diagnosis = zero_AgentDiagnosis\<lparr>diag_ID := ''d1'', diag_HypothesisRevisionID := ''h1'', diag_EvidenceSnapshotHash := ''s'',
     diag_ExecutionSnapshot := example_snapshot\<rparr>"

definition example_plan :: AgentRecoveryPlan where
  "example_plan = zero_AgentRecoveryPlan\<lparr>plan_ID := ''p1'', plan_PrimaryAction := zero_RecoveryOption\<lparr>ro_Action := ActionRestartPod, ro_Target := ''checkout''\<rparr>,
     plan_DiagnosisVersion := ''d1'', plan_EvidenceSnapshotHash := ''s'', plan_ExecutionSnapshot := example_snapshot\<rparr>"

definition example_incident :: Incident where
  "example_incident = zero_Incident\<lparr>inc_ID := ''i1'', inc_Status := StatusDiagnosing, inc_Namespace := ''shop'', inc_Resource := ''checkout'',
     inc_Evidence := [zero_Evidence\<lparr>ev_ID := ''e1'', ev_Source := ''kubernetes''\<rparr>], inc_Investigation := Some zero_Investigation\<rparr>"

definition example_admission :: "string \<Rightarrow> HypothesisAdmission" where
  "example_admission hid = zero_HypothesisAdmission\<lparr>adm_HypothesisRevisionID := hid, adm_Decision := ''ADMITTED'', adm_GroundingLevel := AdmissionDirect\<rparr>"

definition example_state :: WorkflowState where
  "example_state = zero_WorkflowState\<lparr>ws_Incident := Some example_incident, bs_AgentDiagnosis := Some example_diagnosis,
     bs_AgentRecoveryPlan := Some example_plan, bs_ExecutionSnapshot := example_snapshot, bs_EvidenceSnapshotHash := ''s'',
     bs_AgentHypotheses := [zero_AgentHypothesis\<lparr>hyp_ID := ''h1'', hyp_LastValidatedSnapshotHash := ''s''\<rparr>],
     bs_HypothesisAdmissions := [example_admission ''h1'', example_admission ''h2''],
     bs_HypothesisGroundings := [example_grounding ''h1'' (9/10), example_grounding ''h2'' (1/10)]\<rparr>"

lemma example_eligible:
  "re_Allowed (recovery_eligibility example_state example_incident (zero_AgentHypothesis\<lparr>hyp_ID := ''h1'', hyp_LastValidatedSnapshotHash := ''s''\<rparr>)
     (example_grounding ''h1'' (9/10)))"
proof -
  have k: "kubernetes_support (inc_Evidence example_incident) [''e1'']"
    by (simp add: kubernetes_support_def example_incident_def)
  have v: "validated_hypotheses example_state = 2"
    by (simp add: validated_hypotheses_def example_state_def findHypothesisAdmission_def example_admission_def example_grounding_def)
  have o: "other_support [example_grounding ''h1'' (9/10), example_grounding ''h2'' (1/10)] ''h1'' = 1/10"
    by (simp add: other_support_def example_grounding_def)
  show ?thesis using k v o
    by (simp add: recovery_eligibility_def RecoveryAllowed_def recovery_reasons_def example_state_def example_grounding_def
        findHypothesisAdmission_def example_admission_def example_diagnosis_def code_if_def Let_def zero_defs)
qed

lemma example_permission:
  "snd (brainRecoveryPermissionNode example_state \<lparr>fr_now = 10, fr_id = ''u'', fr_id2 = ''v''\<rparr>) = None \<and>
   status_of (fst (brainRecoveryPermissionNode example_state \<lparr>fr_now = 10, fr_id = ''u'', fr_id2 = ''v''\<rparr>)) = Some StatusProposing"
proof -
  have g: "findHypothesisGrounding (bs_HypothesisGroundings example_state) (diag_HypothesisRevisionID example_diagnosis) = Some (example_grounding ''h1'' (9/10))"
    and h: "findAgentHypothesis (bs_AgentHypotheses example_state) (diag_HypothesisRevisionID example_diagnosis) =
      Some (zero_AgentHypothesis\<lparr>hyp_ID := ''h1'', hyp_LastValidatedSnapshotHash := ''s''\<rparr>)"
    by (simp_all add: findHypothesisGrounding_def findAgentHypothesis_def example_state_def example_grounding_def example_diagnosis_def)
  have f: "ws_Incident example_state = Some example_incident" "bs_AgentDiagnosis example_state = Some example_diagnosis"
    "bs_AgentRecoveryPlan example_state = Some example_plan" "inc_Investigation example_incident = Some zero_Investigation"
    by (simp_all add: example_state_def example_incident_def)
  show ?thesis using example_eligible
    by (simp add: brainRecoveryPermissionNode_def f g h Let_def propose_recovery_def map_investigation_def)
       (simp add: example_state_def example_plan_def example_incident_def example_diagnosis_def canonicalProposalTarget_def registered_action_def
        step_status_unfold CanTransition_def)
qed

lemma proposal_needs_eligible_chain_witness:
  "\<exists>i d h g plan. ws_Incident example_state = Some i \<and> eligible_chain example_state i d h g plan"
  using proposal_needs_eligible_chain [of example_state "\<lparr>fr_now = 10, fr_id = ''u'', fr_id2 = ''v''\<rparr>"] example_permission
  by (metis prod.collapse)

text \<open>An incident whose recovery failed cannot be closed by the Brain: after a failed mutation or verification
  the graph goes back to the Brain with the status RECOVERY_FAILED, and the permission node that follows it then
  always ends the run with an error, because no transition out of RECOVERY_FAILED to PROPOSING or
  NEEDS_ATTENTION exists.\<close>

theorem recovery_failed_is_dead_end:
  assumes "status_of s = Some StatusRecoveryFailed"
  shows "snd (brainRecoveryPermissionNode s fr) \<noteq> None"
proof -
  from assms obtain i where i: "ws_Incident s = Some i" "inc_Status i = StatusRecoveryFailed" by (auto simp: status_of_def)
  have refuse: "snd (step_status t StatusNeedsAttention now) \<noteq> None" "snd (step_status t StatusProposing now) \<noteq> None"
    if "status_of t = Some StatusRecoveryFailed" for t now
    using step_status_refused [OF that, of StatusNeedsAttention now] step_status_refused [OF that, of StatusProposing now]
    by (simp_all add: CanTransition_def)
  have fin: "snd (finishBrainWithoutRecovery t j reason now) \<noteq> None"
    if "status_of t = Some StatusRecoveryFailed" "inc_Status j = StatusRecoveryFailed" for t j reason now
    using that refuse(1) by (simp add: finishBrainWithoutRecovery_def Let_def)
  have "snd (propose_recovery t d plan fr) \<noteq> None" if "status_of t = Some StatusRecoveryFailed" for t d plan
    using that fin [OF that] refuse(2)
    by (auto simp: propose_recovery_def Let_def status_of_def split: option.splits sum.splits)
  then show ?thesis using i fin assms
    by (auto simp: brainRecoveryPermissionNode_def Let_def split: option.splits bool.splits)
qed

lemma recovery_failed_is_dead_end_witness:
  "snd (brainRecoveryPermissionNode (example_state\<lparr>ws_Incident := Some (example_incident\<lparr>inc_Status := StatusRecoveryFailed\<rparr>)\<rparr>)
     \<lparr>fr_now = 10, fr_id = ''u'', fr_id2 = ''v''\<rparr>) \<noteq> None"
  by (rule recovery_failed_is_dead_end) simp

section \<open>The dry run\<close>

lemma dryRunProposal_facts:
  assumes "dryRunProposal H ans stamp i now = (r, i', e, calls)"
  shows "inc_Status i' = inc_Status i \<and> filter is_mutation calls = [] \<and> (dr_Success r \<longrightarrow> e = None \<and> inc_Proposal i' \<noteq> None)"
proof (cases "inc_Proposal i")
  case None
  then show ?thesis using assms by (auto simp: dryRunProposal_def zero_defs)
next
  case (Some p)
  obtain r' p' e' calls' where d: "DryRun H ans stamp p now = (r', p', e', calls')" by (metis prod_cases4)
  then show ?thesis using assms Some DryRun_no_mutation [OF d] DryRun_success [OF d] by (auto simp: dryRunProposal_def)
qed

text \<open>The dry run never mutates, and a failed one takes the whole version chain back: whatever the cluster
  answers, no call of the node is a mutation; if the graph then does not go on to the proposal validator,
  proposal, plan and permission are gone, a reflection is pending, and a proposing incident is
  back in DIAGNOSING.\<close>

theorem failed_dry_run_retracts:
  assumes "brainDryRunNode H ans stamp s fr = ((s', None), calls)"
  shows "filter is_mutation calls = [] \<and>
    (outer_route Dry_Run s' = Proposal_Validator \<or>
     (\<not> has_proposal s' \<and> bs_AgentRecoveryPlan s' = None \<and> bs_RecoveryPermission s' = None \<and> bs_Termination s' = None \<and>
      bs_PendingReflection s' = Some ReflectionRecoveryFailure \<and> outer_route Dry_Run s' = Kubepilot_Brain \<and>
      (status_of s = Some StatusProposing \<longrightarrow> status_of s' = Some StatusDiagnosing)))"
proof -
  from assms obtain i where i: "ws_Incident s = Some i" by (auto simp: brainDryRunNode_def split: option.splits)
  obtain r i1 e calls1 where d: "dryRunProposal H ans stamp i (fr_now fr) = (r, i1, e, calls1)" by (metis prod_cases4)
  note facts = dryRunProposal_facts [OF d]
  show ?thesis
  proof (cases "e = None \<and> dr_Success r")
    case True
    then have "s' = (fst (fst (brainDryRunNode H ans stamp s fr)))" using assms by simp
    then have "ws_DryRun s' = Some r" "has_proposal s'" using True facts i d
      by (auto simp: brainDryRunNode_def Let_def has_proposal_def)
    then show ?thesis using True facts assms i d by (auto simp: brainDryRunNode_def Let_def)
  next
    case False
    let ?failed = "fst (fst (brainDryRunNode H ans stamp s fr))"
    have s': "s' = ?failed" using assms by simp
    have "\<not> has_proposal s' \<and> bs_AgentRecoveryPlan s' = None \<and> bs_RecoveryPermission s' = None \<and> bs_Termination s' = None \<and>
      bs_PendingReflection s' = Some ReflectionRecoveryFailure \<and> (status_of s = Some StatusProposing \<longrightarrow> status_of s' = Some StatusDiagnosing)"
      using False assms i d facts unfolding s'
      by (auto simp: brainDryRunNode_def Let_def has_proposal_def status_of_def step_status_unfold CanTransition_def
          split: if_splits)
    moreover have "filter is_mutation calls = []" using assms i d facts
      by (auto simp: brainDryRunNode_def Let_def split: prod.splits if_splits)
    ultimately show ?thesis by simp
  qed
qed

lemma failed_dry_run_retracts_witness:
  "\<not> has_proposal (fst (fst (brainDryRunNode (\<lambda>_. ''h'') (example_answers\<lparr>ans_SupportsDryRun := False\<rparr>) ''t''
     (example_state\<lparr>ws_Incident := Some (example_incident\<lparr>inc_Status := StatusProposing, inc_Proposal := Some example_proposal\<rparr>)\<rparr>) \<lparr>fr_now = 10, fr_id = ''u'', fr_id2 = ''v''\<rparr>)))"
proof -
  let ?s = "example_state\<lparr>ws_Incident := Some (example_incident\<lparr>inc_Status := StatusProposing, inc_Proposal := Some example_proposal\<rparr>)\<rparr>"
  let ?fr = "\<lparr>fr_now = 10, fr_id = ''u'', fr_id2 = ''v''\<rparr>"
  let ?ans = "example_answers\<lparr>ans_SupportsDryRun := False\<rparr>"
  have ok: "snd (fst (brainDryRunNode (\<lambda>_. ''h'') ?ans ''t'' ?s ?fr)) = None"
    and r: "outer_route Dry_Run (fst (fst (brainDryRunNode (\<lambda>_. ''h'') ?ans ''t'' ?s ?fr))) \<noteq> Proposal_Validator"
    by (simp_all add: brainDryRunNode_def dryRunProposal_def DryRun_def Prepare_def example_answers_def example_proposal_def Let_def
        step_status_unfold CanTransition_def failed_dry_run_def zero_DryRunResult_def)
  from ok have "brainDryRunNode (\<lambda>_. ''h'') ?ans ''t'' ?s ?fr = ((fst (fst (brainDryRunNode (\<lambda>_. ''h'') ?ans ''t'' ?s ?fr)), None), snd (brainDryRunNode (\<lambda>_. ''h'') ?ans ''t'' ?s ?fr))"
    by (metis prod.collapse)
  from failed_dry_run_retracts [OF this] r show ?thesis by blast
qed

section \<open>Approval\<close>

definition bound_context :: "ExecutionContext \<Rightarrow> Incident \<Rightarrow> RecoveryProposal \<Rightarrow> DryRunResult \<Rightarrow> AgentDiagnosis \<Rightarrow> AgentRecoveryPlan \<Rightarrow> time \<Rightarrow> bool" where
  "bound_context e i p d diagnosis plan now =
     (ec_IncidentID e = inc_ID i \<and> ec_ProposalID e = rp_ID p \<and> ec_MutationSpecHash e = dr_MutationSpecHash d \<and>
      ec_TargetUID e = rp_TargetUID p \<and> ec_ResourceVersion e = rp_ResourceVersion p \<and>
      ec_RecoveryPlanID e = plan_ID plan \<and> ec_DiagnosisVersion e = diag_ID diagnosis \<and> ec_DiagnosisVersion e = plan_DiagnosisVersion plan \<and>
      ec_EvidenceSnapshotHash e = plan_EvidenceSnapshotHash plan \<and> ec_ExecutionSnapshot e = Some (plan_ExecutionSnapshot plan) \<and>
      ec_DryRunValidatedAt e = dr_ValidatedAt d \<and> \<not> IsZero (ec_DryRunValidatedAt e) \<and>
      ec_ApprovalID e \<noteq> [] \<and> ec_IdempotencyKey e \<noteq> [] \<and> now \<le> ec_ExpiresAt e \<and> inc_Namespace i \<in> set (ec_NamespaceAllowlist e))"

lemma bound_to_incident [simp]:
  "bound_context e (i\<lparr>inc_ExecutionContext := c\<rparr>) p d diagnosis plan now = bound_context e i p d diagnosis plan now"
  "bound_context e (i\<lparr>inc_RecoveryExecution := x\<rparr>) p d diagnosis plan now = bound_context e i p d diagnosis plan now"
  "frozen_diagnosis d0 (i\<lparr>inc_ExecutionContext := c\<rparr>) = frozen_diagnosis d0 i" "frozen_plan p0 (i\<lparr>inc_ExecutionContext := c\<rparr>) = frozen_plan p0 i"
  "frozen_diagnosis d0 (i\<lparr>inc_RecoveryExecution := x\<rparr>) = frozen_diagnosis d0 i" "frozen_plan p0 (i\<lparr>inc_RecoveryExecution := x\<rparr>) = frozen_plan p0 i"
  by (simp_all add: bound_context_def frozen_diagnosis_def frozen_plan_def split: option.split)

lemma context_error_None:
  assumes "context_error context i dryRun diagnosis0 plan0 es evidence now = None"
  shows "\<exists>e p d diagnosis plan. context = Some e \<and> inc_Proposal i = Some p \<and> dryRun = Some d \<and>
    frozen_diagnosis diagnosis0 i = Some diagnosis \<and> frozen_plan plan0 i = Some plan \<and>
    bound_context e i p d diagnosis plan now \<and> ec_ExecutionSnapshot e = Some (frozen_snapshot es i) \<and>
    (evidence \<noteq> [] \<longrightarrow> ec_EvidenceSnapshotHash e = evidence)"
  using assms
  by (auto simp: context_error_def version_error_def bound_context_def split: option.splits if_splits)

text \<open>C15. Execution needs an approval of exactly this recovery: after an interrupted run resumes, the graph goes on to
  the executor only if the operator approved and the submitted context is bound to this incident,
  proposal, dry run, plan, diagnosis and snapshots, is not expired and allows the namespace;
  the incident is then RECOVERING.  A rejection ends in REJECTED, whatever the context says.\<close>

theorem approval_binds_execution:
  assumes "status_of s = Some StatusAwaitingApproval" and "resume_approval H s data u fr = (s', None)"
  shows "(outer_route Approval s' = Action_Executor \<longrightarrow> status_of s' = Some StatusRecovering \<and>
      (\<exists>d i p r diagnosis plan. data = Some d \<and> ard_Approved d \<and> ws_Incident s = Some i \<and> inc_Proposal i = Some p \<and> ws_DryRun s = Some r \<and>
         bound_context (ard_Context d) i p r diagnosis plan (fr_now fr) \<and>
         frozen_diagnosis (bs_AgentDiagnosis s) i = Some diagnosis \<and> frozen_plan (bs_AgentRecoveryPlan s) i = Some plan)) \<and>
    (\<forall>d. data = Some d \<longrightarrow> \<not> ard_Approved d \<longrightarrow> status_of s' = Some StatusRejected \<and> outer_route Approval s' = Finalizer)"
proof -
  from assms(2) obtain d where d: "data = Some d" by (auto simp: resume_approval_def split: option.splits)
  from assms(1) obtain i where i: "ws_Incident s = Some i" "inc_Status i = StatusAwaitingApproval" by (auto simp: status_of_def)
  show ?thesis
  proof (cases "ard_Approved d")
    case False
    then have "status_of s' = Some StatusRejected" using assms(2) d by (auto simp: resume_approval_def Let_def dest: step_status_ok)
    then show ?thesis using False d by simp
  next
    case True
    let ?i = "i\<lparr>inc_ExecutionContext := Some (ard_Context d)\<rparr>"
    let ?s1 = "(set_attempt_status WorkflowAttemptActive s)\<lparr>ws_ExecutionContext := Some (ard_Context d), ws_Incident := Some ?i\<rparr>"
    have wi: "ws_Incident (set_attempt_status WorkflowAttemptActive s) = Some i" using i by (simp add: set_attempt_status_def)
    show ?thesis
    proof (cases "validateExecutionContext ?s1 ?i (fr_now fr)")
      case (Some e)
      then have "status_of s' = Some StatusNeedsAttention" using assms(2) d True wi
        by (auto simp: resume_approval_def Let_def dest: step_status_ok)
      then show ?thesis using True d by simp
    next
      case None
      then have st: "status_of s' = Some StatusRecovering" using assms(2) d True wi
        by (auto simp: resume_approval_def Let_def dest: step_status_ok)
      have "context_error (Some (ard_Context d)) ?i (ws_DryRun s) (bs_AgentDiagnosis s) (bs_AgentRecoveryPlan s) (bs_ExecutionSnapshot s)
          (bs_EvidenceSnapshotHash s) (fr_now fr) = None"
        using None by (simp add: validateExecutionContext_def set_attempt_status_def)
      from context_error_None [OF this] obtain p r diagnosis plan where "inc_Proposal i = Some p" "ws_DryRun s = Some r"
          "bound_context (ard_Context d) i p r diagnosis plan (fr_now fr)"
          "frozen_diagnosis (bs_AgentDiagnosis s) i = Some diagnosis" "frozen_plan (bs_AgentRecoveryPlan s) i = Some plan" by auto
      then show ?thesis using st True d i(1) by simp
    qed
  qed
qed

lemma approval_binds_execution_witness:
  "status_of (fst (resume_approval (\<lambda>_. ''h'') (example_state\<lparr>ws_Incident := Some (example_incident\<lparr>inc_Status := StatusAwaitingApproval\<rparr>)\<rparr>)
     (Some \<lparr>ard_Approved = False, ard_Context = zero_ExecutionContext\<rparr>) ''u'' \<lparr>fr_now = 10, fr_id = ''u'', fr_id2 = ''v''\<rparr>)) = Some StatusRejected"
proof -
  let ?s = "example_state\<lparr>ws_Incident := Some (example_incident\<lparr>inc_Status := StatusAwaitingApproval\<rparr>)\<rparr>"
  let ?data = "\<lparr>ard_Approved = False, ard_Context = zero_ExecutionContext\<rparr>"
  let ?r = "resume_approval (\<lambda>_. ''h'') ?s (Some ?data) ''u'' \<lparr>fr_now = 10, fr_id = ''u'', fr_id2 = ''v''\<rparr>"
  have "snd ?r = None"
    by (simp add: resume_approval_def Let_def)
       (intro conjunct1 [OF step_status_moves], simp, simp add: CanTransition_def)
  then have r: "?r = (fst ?r, None)" by (metis prod.collapse)
  have "status_of ?s = Some StatusAwaitingApproval" by simp
  from conjunct2 [OF approval_binds_execution [OF this r]] show ?thesis by simp
qed

section \<open>Execution\<close>

lemma ActionExecutor_calls:
  "ActionExecutor_Execute ans i p now = (e, calls) \<Longrightarrow> calls = [] \<and> e \<noteq> None \<or>
     (context_error (inc_ExecutionContext i) i (inc_DryRun i) None None zero_ExecutionSnapshot [] now = None \<and>
      registered_action (rp_Action p) \<and> calls = snd (Execute ans (Some i) p) \<and> e = map_option BackendError (fst (Execute ans (Some i) p)))"
  by (auto simp: ActionExecutor_Execute_def split: if_splits option.splits prod.splits)

lemma context_error_execution [simp]:
  "context_error c (i\<lparr>inc_RecoveryExecution := x\<rparr>) d d0 p0 es evidence now = context_error c i d d0 p0 es evidence now"
proof -
  let ?i = "i\<lparr>inc_RecoveryExecution := x\<rparr>"
  have same: "inc_Namespace ?i = inc_Namespace i" "inc_ID ?i = inc_ID i" "inc_Proposal ?i = inc_Proposal i"
    "frozen_snapshot es ?i = frozen_snapshot es i" "frozen_diagnosis d0 ?i = frozen_diagnosis d0 i" "frozen_plan p0 ?i = frozen_plan p0 i"
    by (simp_all add: frozen_snapshot_def)
  show ?thesis by (simp only: context_error_def version_error_def same)
qed

lemma executor_unfold:
  assumes "ws_Incident s = Some i" and "inc_Proposal i = Some p" and "validateExecutionContext s i (fr_now fr) = None"
  shows "snd (safety_action_executor H wording ans s fr) =
    snd (ActionExecutor_Execute ans (i\<lparr>inc_RecoveryExecution := Some (attempt_execution i p (fr_now fr))\<rparr>) p (fr_now fr))"
  using assms by (simp add: safety_action_executor_def Let_def split: prod.split option.split)

lemma executor_calls:
  assumes "snd (safety_action_executor H wording ans s fr) \<noteq> []"
  shows "\<exists>i p. ws_Incident s = Some i \<and> inc_Proposal i = Some p \<and> validateExecutionContext s i (fr_now fr) = None \<and>
    context_error (inc_ExecutionContext i) i (inc_DryRun i) None None zero_ExecutionSnapshot [] (fr_now fr) = None \<and>
    snd (safety_action_executor H wording ans s fr) = snd (Execute ans (Some (i\<lparr>inc_RecoveryExecution := Some (attempt_execution i p (fr_now fr))\<rparr>)) p)"
proof -
  from assms obtain i p where i: "ws_Incident s = Some i" "inc_Proposal i = Some p" "validateExecutionContext s i (fr_now fr) = None"
    by (auto simp: safety_action_executor_def split: option.splits)
  let ?i = "i\<lparr>inc_RecoveryExecution := Some (attempt_execution i p (fr_now fr))\<rparr>"
  obtain e calls where a: "ActionExecutor_Execute ans ?i p (fr_now fr) = (e, calls)" by fastforce
  have c: "snd (safety_action_executor H wording ans s fr) = calls" using executor_unfold [where fr = fr, OF i] a by simp
  from ActionExecutor_calls [OF a] c assms have "calls = snd (Execute ans (Some ?i) p)"
    "context_error (inc_ExecutionContext i) i (inc_DryRun i) None None zero_ExecutionSnapshot [] (fr_now fr) = None" by auto
  then show ?thesis using i c by blast
qed


definition approved_context :: ExecutionContext where
  "approved_context = zero_ExecutionContext\<lparr>ec_IncidentID := ''i1'', ec_ProposalID := ''pr1'', ec_MutationSpecHash := ''h'', ec_TargetUID := ''u1'',
     ec_ResourceVersion := ''7'', ec_RecoveryPlanID := ''p1'', ec_DiagnosisVersion := ''d1'', ec_EvidenceSnapshotHash := ''s'',
     ec_ExecutionSnapshot := Some example_snapshot, ec_DryRunValidatedAt := 5, ec_ApprovalID := ''a1'', ec_IdempotencyKey := ''key-1'',
     ec_ExpiresAt := 100, ec_NamespaceAllowlist := [''shop'']\<rparr>"

definition approved_dry_run :: DryRunResult where
  "approved_dry_run = zero_DryRunResult\<lparr>dr_Success := True, dr_MutationSpecHash := ''h'', dr_ValidatedAt := 5\<rparr>"

definition approved_incident :: Incident where
  "approved_incident = zero_Incident\<lparr>inc_ID := ''i1'', inc_Status := StatusRecovering, inc_Namespace := ''shop'', inc_Resource := ''checkout'',
     inc_Proposal := Some (example_proposal\<lparr>rp_ID := ''pr1''\<rparr>), inc_DryRun := Some approved_dry_run, inc_ExecutionContext := Some approved_context,
     inc_ExecutionSnapshot := Some example_snapshot,
     inc_Investigation := Some (zero_Investigation\<lparr>inv_AgentDiagnosis := Some example_diagnosis, inv_AgentRecoveryPlan := Some example_plan\<rparr>)\<rparr>"

definition approved_state :: WorkflowState where
  "approved_state = example_state\<lparr>ws_Incident := Some approved_incident, ws_DryRun := Some approved_dry_run, ws_ExecutionContext := Some approved_context\<rparr>"

lemma approved_contexts_valid:
  "context_error (Some approved_context) approved_incident (Some approved_dry_run) (Some example_diagnosis) (Some example_plan) example_snapshot ''s'' 10 = None"
  "context_error (Some approved_context) approved_incident (Some approved_dry_run) None None zero_ExecutionSnapshot [] 10 = None"
  by (simp_all add: context_error_def version_error_def approved_context_def approved_incident_def approved_dry_run_def example_proposal_def
      frozen_diagnosis_def frozen_plan_def frozen_snapshot_def example_diagnosis_def example_plan_def example_snapshot_def zero_ExecutionSnapshot_def IsZero_def)

definition example_fresh :: fresh where "example_fresh = \<lparr>fr_now = 10, fr_id = ''u'', fr_id2 = ''v''\<rparr>"

lemma approved_execution_calls:
  assumes "ans_Mutation ans = m" and "ans = example_answers\<lparr>ans_Mutation := m\<rparr>"
  shows "snd (safety_action_executor H wording ans approved_state example_fresh) =
    [CallTargetState ''shop'' ''checkout'', CallClaim ''i1:key-1'' claim_ttl, CallScale ''shop'' ''checkout'' 4,
     CallComplete ''i1:key-1'' (if m = None then ''succeeded'' else ''unknown'') claim_ttl]"
proof -
  have f: "ws_Incident approved_state = Some approved_incident" "ws_DryRun approved_state = Some approved_dry_run"
    "ws_ExecutionContext approved_state = Some approved_context" "bs_AgentDiagnosis approved_state = Some example_diagnosis"
    "bs_AgentRecoveryPlan approved_state = Some example_plan" "bs_ExecutionSnapshot approved_state = example_snapshot"
    "bs_EvidenceSnapshotHash approved_state = ''s''" by (simp_all add: approved_state_def example_state_def)
  have p: "inc_Proposal approved_incident = Some (example_proposal\<lparr>rp_ID := ''pr1''\<rparr>)" by (simp add: approved_incident_def)
  have v: "validateExecutionContext approved_state approved_incident (fr_now example_fresh) = None"
    using approved_contexts_valid(1) by (simp add: validateExecutionContext_def f example_fresh_def)
  have c: "context_error (inc_ExecutionContext approved_incident) approved_incident (inc_DryRun approved_incident) None None zero_ExecutionSnapshot [] (fr_now example_fresh) = None"
    using approved_contexts_valid(2) by (simp add: example_fresh_def) (simp add: approved_incident_def)
  show ?thesis unfolding executor_unfold [OF f(1) p v] using c assms(2)
    by (simp add: ActionExecutor_Execute_def)
       (auto simp: registered_action_def example_proposal_def Execute_def Let_def example_answers_def approved_incident_def approved_context_def
        mutation_call_def proposalReplicas_def replicas_of_def action_key_def split: option.splits)
qed


lemma Execute_mutated:
  assumes "filter is_mutation (snd (Execute ans in0 p)) \<noteq> []"
  shows "fst (Execute ans in0 p) = (if ans_Mutation ans = None then None else Some ActionResultUnknown) \<and> registered_action (rp_Action p)"
proof -
  have "approved_call in0 p ans (snd (Execute ans in0 p))" using Execute_cases assms by blast
  then obtain i c call ready restarts where f: "in0 = Some i" "inc_ExecutionContext i = Some c" "ec_IdempotencyKey c \<noteq> []" "ans_Guard ans"
      "ans_Claim ans = Inr True" "rp_TargetUID p \<noteq> []" "rp_ResourceVersion p \<noteq> []"
      "ans_TargetState ans = Inr (rp_TargetUID p, rp_ResourceVersion p, ready, restarts)" "mutation_call ans p = Inr call"
    unfolding approved_call_def by blast
  from f(9) have "registered_action (rp_Action p)" by (cases "rp_Action p") (simp_all add: mutation_call_def registered_action_def)
  moreover have "fst (Execute ans in0 p) = (if ans_Mutation ans = None then None else Some ActionResultUnknown)"
    by (simp add: Execute_def Let_def f split: option.split)
  ultimately show ?thesis by blast
qed

lemma executor_mutated:
  assumes "is_mutation m" and "m \<in> set (snd (safety_action_executor H wording ans s fr))"
  shows "\<exists>i p. ws_Incident s = Some i \<and> inc_Proposal i = Some p \<and> validateExecutionContext s i (fr_now fr) = None \<and>
    ActionExecutor_Execute ans (i\<lparr>inc_RecoveryExecution := Some (attempt_execution i p (fr_now fr))\<rparr>) p (fr_now fr) =
      (if ans_Mutation ans = None then None else Some (BackendError ActionResultUnknown),
       snd (Execute ans (Some (i\<lparr>inc_RecoveryExecution := Some (attempt_execution i p (fr_now fr))\<rparr>)) p))"
proof -
  have ne: "snd (safety_action_executor H wording ans s fr) \<noteq> []" using assms(2) by auto
  from executor_calls [OF ne] obtain i p where i: "ws_Incident s = Some i" "inc_Proposal i = Some p" "validateExecutionContext s i (fr_now fr) = None"
    and ctx: "context_error (inc_ExecutionContext i) i (inc_DryRun i) None None zero_ExecutionSnapshot [] (fr_now fr) = None"
    and calls: "snd (safety_action_executor H wording ans s fr) = snd (Execute ans (Some (i\<lparr>inc_RecoveryExecution := Some (attempt_execution i p (fr_now fr))\<rparr>)) p)"
    by blast
  let ?i = "i\<lparr>inc_RecoveryExecution := Some (attempt_execution i p (fr_now fr))\<rparr>"
  have "filter is_mutation (snd (Execute ans (Some ?i) p)) \<noteq> []" using assms calls by (auto simp: filter_empty_conv)
  from Execute_mutated [OF this] have "ActionExecutor_Execute ans ?i p (fr_now fr) =
      (if ans_Mutation ans = None then None else Some (BackendError ActionResultUnknown), snd (Execute ans (Some ?i) p))"
    using ctx by (simp add: ActionExecutor_Execute_def split_beta)
  then show ?thesis using i by blast
qed

lemma set_execution_status:
  "inc_Status i = st \<Longrightarrow> status_of (set_execution s (i\<lparr>inc_RecoveryExecution := z\<rparr>) y) = Some st"
  by (simp add: set_execution_def)

lemma executor_confirmed:
  assumes "is_mutation m" and "m \<in> set (snd (safety_action_executor H wording ans s fr))" and "ans_Mutation ans = None"
    and "status_of s = Some StatusRecovering" and "s' = fst (fst (safety_action_executor H wording ans s fr))"
  shows "status_of s' = Some StatusVerifying \<and> bs_PendingReflection s' = bs_PendingReflection s"
proof -
  from executor_mutated [OF assms(1,2)] assms(3) obtain i p where i: "ws_Incident s = Some i" "inc_Proposal i = Some p"
      "validateExecutionContext s i (fr_now fr) = None"
    and act: "ActionExecutor_Execute ans (i\<lparr>inc_RecoveryExecution := Some (attempt_execution i p (fr_now fr))\<rparr>) p (fr_now fr) =
      (None, snd (Execute ans (Some (i\<lparr>inc_RecoveryExecution := Some (attempt_execution i p (fr_now fr))\<rparr>)) p))" by auto
  let ?x = "attempt_execution i p (fr_now fr)"
  let ?s1 = "set_execution s (i\<lparr>inc_RecoveryExecution := Some ?x\<rparr>)
    (?x\<lparr>rx_ConfirmedMutations := rx_ConfirmedMutations ?x + 1, rx_Outcome := ''succeeded'', rx_CompletedAt := fr_now fr\<rparr>)"
  let ?s2 = "appendBrainStateChange H ?s1 ''execute_recovery'' ''MUTATION_CONFIRMED'' ''registered Kubernetes mutation completed'' True (brainApprovalID ?s1) fr"
  have "inc_Status i = StatusRecovering" using i(1) assms(4) by (simp add: status_of_def)
  then have "status_of ?s2 = Some StatusRecovering" by (simp add: set_execution_status)
  then have m: "snd (step_status ?s2 StatusVerifying (fr_now fr)) = None \<and> status_of (fst (step_status ?s2 StatusVerifying (fr_now fr))) = Some StatusVerifying"
    by (rule step_status_moves) (simp add: CanTransition_def)
  then obtain s3 where s3: "step_status ?s2 StatusVerifying (fr_now fr) = (s3, None)" by (metis prod.collapse)
  have "bs_PendingReflection (fst (step_status ?s2 StatusVerifying (fr_now fr))) = bs_PendingReflection s" by (simp add: set_execution_def)
  moreover have "s' = s3\<lparr>ws_VerificationState := (ws_VerificationState s3)\<lparr>vs_StartedAt := fr_now fr\<rparr>\<rparr>"
    using assms(5) i act s3 by (simp add: safety_action_executor_def Let_def)
  ultimately show ?thesis using m s3 by simp
qed

lemma executor_unconfirmed:
  assumes "is_mutation m" and "m \<in> set (snd (safety_action_executor H wording ans s fr))" and "ans_Mutation ans \<noteq> None"
    and "status_of s = Some StatusRecovering" and "s' = fst (fst (safety_action_executor H wording ans s fr))"
  shows "status_of s' = Some StatusNeedsAttention \<and> bs_PendingReflection s' = bs_PendingReflection s \<and>
    (\<exists>t. bs_Termination s' = Some t \<and> term_Reason t = TerminationExecutionOutcomeUnknown)"
proof -
  from executor_mutated [OF assms(1,2)] assms(3) obtain i p where i: "ws_Incident s = Some i" "inc_Proposal i = Some p"
      "validateExecutionContext s i (fr_now fr) = None"
    and act: "ActionExecutor_Execute ans (i\<lparr>inc_RecoveryExecution := Some (attempt_execution i p (fr_now fr))\<rparr>) p (fr_now fr) =
      (Some (BackendError ActionResultUnknown), snd (Execute ans (Some (i\<lparr>inc_RecoveryExecution := Some (attempt_execution i p (fr_now fr))\<rparr>)) p))" by auto
  let ?x = "attempt_execution i p (fr_now fr)" let ?i = "i\<lparr>inc_RecoveryExecution := Some ?x\<rparr>"
  have s': "s' = failed_execution H wording s ?i ?x (BackendError ActionResultUnknown) fr"
    using assms(5) i act by (simp add: safety_action_executor_def Let_def)
  have st: "status_of (set_execution s ?i y) = Some StatusRecovering" for y
    using i(1) assms(4) by (intro set_execution_status) (simp add: status_of_def)
  have "status_of s' = Some StatusNeedsAttention" unfolding s' failed_execution_def Let_def result_unknown_def
    by (simp, rule try_status_moved, simp add: st, simp add: CanTransition_def)
  moreover have "bs_PendingReflection s' = bs_PendingReflection s" unfolding s' failed_execution_def Let_def result_unknown_def
    by (simp add: set_execution_def)
  moreover have "\<exists>t. bs_Termination s' = Some t \<and> term_Reason t = TerminationExecutionOutcomeUnknown"
    unfolding s' failed_execution_def Let_def result_unknown_def using setFinal_reason by simp
  ultimately show ?thesis by blast
qed



end
