(* ===== verification/Recovery_Verification.thy ===== *)
theory Recovery_Verification
  imports Safety_Kernel
begin

text \<open>The verification of a recovery (\<^verbatim>\<open>agent/supervisor.go\<close>): the probes of one round, which run
  concurrently and whose results are merged in the order they arrive, and the controller that repeats
  rounds until three in a row succeed or the deadline passes.  A round is data here: the results in
  arrival order and the clock readings.  The lemmas show that the verdict of a round does not depend on
  the arrival order, that the controller resolves an incident only after three consecutive
  successful rounds, and that it ends within a number of rounds that the timeout bounds.\<close>

section \<open>Probes\<close>

record verificationProbeResult =
  vp_Name :: string
  vp_Applicable :: bool
  vp_Success :: bool
  vp_Checks :: "bool table"
  vp_Message :: string

definition probe_result :: "string \<Rightarrow> bool \<Rightarrow> bool \<Rightarrow> string \<Rightarrow> string \<Rightarrow> verificationProbeResult" where
  "probe_result name applicable success check message =
     \<lparr>vp_Name = name, vp_Applicable = applicable, vp_Success = success, vp_Checks = [check \<mapsto> success], vp_Message = message\<rparr>"

text \<open>\<^verbatim>\<open>fmt.Sprint\<close> of a value is blank only for a blank string.\<close>

definition nonEmptyEvidenceValue :: "any_value table \<Rightarrow> string \<Rightarrow> bool" where
  "nonEmptyEvidenceValue values key = (case values key of
       None \<Rightarrow> False
     | Some AnyNil \<Rightarrow> False
     | Some (AString s) \<Rightarrow> TrimSpace s \<noteq> []
     | Some (ANumber s) \<Rightarrow> TrimSpace s \<noteq> []
     | Some _ \<Rightarrow> True)"

definition evaluateVerificationEvidence :: "string \<Rightarrow> Evidence list \<Rightarrow> verificationProbeResult" where
  "evaluateVerificationEvidence source evidence =
     (if source = ''metric'' then
        probe_result source (evidence \<noteq> []) (evidence \<noteq> []) ''telemetry_available'' ''Prometheus recovery telemetry is unavailable''
      else if source = ''log'' then
        let errorsFound = length (filter (\<lambda>item. ev_Type item = ''log_entry'' \<or> ev_Kind item = ''log_entry'') evidence)
        in probe_result source True (errorsFound = 0) ''recent_error_templates_absent'' (Itoa (int errorsFound) @ '' recent error log entries remain'')
      else if source = ''trace'' then
        probe_result source (evidence \<noteq> [])
          (\<not> list_ex (\<lambda>item. nonEmptyEvidenceValue (ev_Content item) ''error_service'' \<or> nonEmptyEvidenceValue (ev_Data item) ''error_service'') evidence)
          ''error_spans_absent'' ''new traces still contain error spans''
      else if source = ''business'' then
        probe_result source (evidence \<noteq> []) (evidence \<noteq> [] \<and> \<not> list_ex (\<lambda>item. ev_Content item ''success'' = Some (ABool False)) evidence)
          ''business_probe'' ''business probe did not succeed''
      else \<lparr>vp_Name = source, vp_Applicable = False, vp_Success = False, vp_Checks = Map.empty, vp_Message = []\<rparr>)"

text \<open>The time window of the evidence a probe collects.\<close>

definition defaultEvidenceRequest :: "Incident \<Rightarrow> string \<Rightarrow> time \<Rightarrow> EvidenceRequest" where
  "defaultEvidenceRequest i source now =
     (let start0 = inc_EvidenceStartAt i;
          start1 = (if IsZero start0 \<or> \<not> start0 < now then inc_CreatedAt i - 5 * Minute else start0);
          start2 = (if IsZero start1 \<or> \<not> start1 < now then now - 5 * Minute else start1)
      in zero_EvidenceRequest\<lparr>er_Source := source,
           er_Targets := [zero_ResourceRef\<lparr>ref_Namespace := inc_Namespace i, ref_Service := inc_Service i, ref_Resource := inc_Resource i\<rparr>],
           er_WindowStart := start2, er_WindowEnd := now\<rparr>)"

section \<open>One round\<close>

record verificationRoundResult =
  vr_source :: string
  vr_verification :: "Verification option"
  vr_probe :: verificationProbeResult
  vr_err :: bool

definition prefixed :: "string \<Rightarrow> bool table \<Rightarrow> bool table" where
  "prefixed pre checks = (\<lambda>name. if HasPrefix name pre then checks (drop (length pre) name) else None)"

definition merge_result :: "Verification \<times> string list \<Rightarrow> verificationRoundResult \<Rightarrow> Verification \<times> string list" where
  "merge_result acc r =
     (let (combined, errs) = acc; infra = vr_source r @ ''_infrastructure_ok'' in
      if vr_err r then
        (combined\<lparr>ver_Success := False, ver_Checks := (ver_Checks combined)(infra \<mapsto> False)\<rparr>, errs @ [vr_source r @ '' verification unavailable''])
      else
        let checks = (ver_Checks combined)(infra \<mapsto> True) in
        case vr_verification r of
          Some v \<Rightarrow> (combined\<lparr>ver_Success := (ver_Success combined \<and> ver_Success v), ver_Checks := checks ++ ver_Checks v, ver_RestartCount := ver_RestartCount v\<rparr>, errs)
        | None \<Rightarrow>
            let p = vr_probe r;
                checks' = checks(vr_source r @ ''_applicable'' \<mapsto> vp_Applicable p) ++ prefixed (vr_source r @ ''_'') (vp_Checks p)
            in if vp_Applicable p
               then (combined\<lparr>ver_Success := (ver_Success combined \<and> vp_Success p), ver_Checks := checks'(vr_source r \<mapsto> vp_Success p)\<rparr>, errs)
               else (combined\<lparr>ver_Checks := checks'\<rparr>, errs))"

definition collectVerificationRound :: "verificationRoundResult list \<Rightarrow> Verification \<times> string list" where
  "collectVerificationRound results = foldl merge_result (zero_Verification\<lparr>ver_Success := True\<rparr>, []) results"

section \<open>The controller\<close>

record verification_round =
  vn_results :: "verificationRoundResult list"
  vn_completed :: time
  vn_checked :: time
  vn_cancelled :: bool
  vn_fresh :: fresh

definition round_verdict :: "int option \<Rightarrow> verification_round \<Rightarrow> Verification \<times> string list \<times> int option" where
  "round_verdict previous r =
     (let (combined, errs) = collectVerificationRound (vn_results r) in
      case ver_RestartCount combined of
        None \<Rightarrow> (combined\<lparr>ver_CompletedAt := vn_completed r\<rparr>, errs, previous)
      | Some n \<Rightarrow>
          let stable = (case previous of None \<Rightarrow> True | Some m \<Rightarrow> n \<le> m) in
          (combined\<lparr>ver_Checks := (ver_Checks combined)(''restarts_stable'' \<mapsto> stable), ver_Success := (ver_Success combined \<and> stable),
                    ver_CompletedAt := vn_completed r\<rparr>, errs, Some n))"

definition set_verification :: "Verification \<Rightarrow> WorkflowState \<Rightarrow> WorkflowState" where
  "set_verification v s = s\<lparr>ws_Incident := map_option (\<lambda>i. i\<lparr>inc_Verification := Some v\<rparr>) (ws_Incident s)\<rparr>"

definition record_round :: "WorkflowState \<Rightarrow> Verification \<Rightarrow> string list \<Rightarrow> WorkflowState" where
  "record_round s v errs =
     (let s1 = s\<lparr>ws_Errors := foldl appendUnique (ws_Errors s) errs\<rparr>; s2 = set_verification v s1; n = ws_VerificationState s2
      in s2\<lparr>ws_VerificationState := n\<lparr>vs_Attempts := vs_Attempts n + 1,
              vs_ConsecutiveSuccess := (if ver_Success v then vs_ConsecutiveSuccess n + 1 else 0)\<rparr>\<rparr>)"

definition verification_succeeded :: "hasher \<Rightarrow> WorkflowState \<Rightarrow> Verification \<Rightarrow> fresh \<Rightarrow> node_result" where
  "verification_succeeded H s v fr =
     (let m = ''all applicable recovery checks passed three consecutive rounds'' in
      case step_status (set_verification (v\<lparr>ver_Message := m\<rparr>) s) StatusResolved (fr_now fr) of
        (s1, Some e) \<Rightarrow> (s1, Some e)
      | (s1, None) \<Rightarrow>
          (setFinalBrainTermination (appendBrainStateChange H s1 ''verify_recovery'' ''VERIFICATION_SUCCEEDED'' m True (brainApprovalID s1) fr)
             TerminationRecoverySucceeded [] (fr_now fr), None))"

definition verification_failed :: "hasher \<Rightarrow> WorkflowState \<Rightarrow> Verification \<Rightarrow> fresh \<Rightarrow> node_result" where
  "verification_failed H s v fr =
     (let m = ''verification timed out before three consecutive successful rounds'' in
      case step_status (set_verification (v\<lparr>ver_Success := False, ver_Message := m\<rparr>) s) StatusRecoveryFailed (fr_now fr) of
        (s1, Some e) \<Rightarrow> (s1, Some e)
      | (s1, None) \<Rightarrow>
          let s2 = appendBrainStateChange H s1 ''verify_recovery'' ''VERIFICATION_FAILED'' m True (brainApprovalID s1) fr in
          (if brainReflectionAvailable s2 ReflectionVerificationFail then pending_failure ReflectionVerificationFail s2
           else setFinalBrainTermination s2 TerminationRecoveryFailed [m] (fr_now fr), None))"

text \<open>\<open>None\<close>: the controller is still waiting for the round after the given ones.\<close>

fun verification_rounds :: "hasher \<Rightarrow> time \<Rightarrow> int option \<Rightarrow> WorkflowState \<Rightarrow> verification_round list \<Rightarrow> node_result option" where
  "verification_rounds H deadline previous s [] = None"
| "verification_rounds H deadline previous s (r # rs) =
     (case round_verdict previous r of (v, errs, previous') \<Rightarrow>
        let s1 = record_round s v errs in
        if 3 \<le> vs_ConsecutiveSuccess (ws_VerificationState s1) then Some (verification_succeeded H s1 v (vn_fresh r))
        else if deadline - vn_checked r \<le> 0 then Some (verification_failed H s1 v (vn_fresh r))
        else if vn_cancelled r then Some (s1, Some (NodeError ''context cancelled''))
        else verification_rounds H deadline previous' s1 rs)"

definition runVerificationController ::
  "hasher \<Rightarrow> int \<Rightarrow> WorkflowState \<Rightarrow> time \<Rightarrow> verification_round list \<Rightarrow> node_result option" where
  "runVerificationController H timeout s now rounds =
     (let n = ws_VerificationState s;
          s1 = (if IsZero (vs_StartedAt n) then s\<lparr>ws_VerificationState := n\<lparr>vs_StartedAt := now\<rparr>\<rparr> else s)
      in verification_rounds H (vs_StartedAt (ws_VerificationState s1) + timeout) None s1 rounds)"

section \<open>The verdict of a round does not depend on the arrival order\<close>

definition result_ok :: "verificationRoundResult \<Rightarrow> bool" where
  "result_ok r = (\<not> vr_err r \<and> (case vr_verification r of Some v \<Rightarrow> ver_Success v
     | None \<Rightarrow> vp_Applicable (vr_probe r) \<longrightarrow> vp_Success (vr_probe r)))"

definition cluster_result :: "verificationRoundResult \<Rightarrow> bool" where
  "cluster_result r = (\<not> vr_err r \<and> vr_verification r \<noteq> None)"

definition last_restarts :: "int option \<Rightarrow> verificationRoundResult list \<Rightarrow> int option" where
  "last_restarts n rs = (if filter cluster_result rs = [] then n else ver_RestartCount (the (vr_verification (last (filter cluster_result rs)))))"

lemma merge_fields:
  "ver_Success (fst (merge_result acc r)) = (ver_Success (fst acc) \<and> result_ok r)"
  "snd (merge_result acc r) = snd acc @ (if vr_err r then [vr_source r @ '' verification unavailable''] else [])"
  "ver_RestartCount (fst (merge_result acc r)) = (if cluster_result r then ver_RestartCount (the (vr_verification r)) else ver_RestartCount (fst acc))"
  by (auto simp: merge_result_def Let_def result_ok_def cluster_result_def split_beta split: option.split)

lemma collect_fields:
  "ver_Success (fst (foldl merge_result acc rs)) = (ver_Success (fst acc) \<and> list_all result_ok rs)"
  "snd (foldl merge_result acc rs) = snd acc @ map (\<lambda>r. vr_source r @ '' verification unavailable'') (filter vr_err rs)"
  "ver_RestartCount (fst (foldl merge_result acc rs)) = last_restarts (ver_RestartCount (fst acc)) rs"
  by (induction rs arbitrary: acc) (auto simp: merge_fields last_restarts_def)

lemma round_success:
  "ver_Success (fst (round_verdict previous r)) \<Longrightarrow> list_all result_ok (vn_results r)"
  by (auto simp: round_verdict_def collectVerificationRound_def Let_def split_beta collect_fields split: option.splits)

lemma last_restarts_permute:
  assumes "mset rs = mset rs'" and "length (filter cluster_result rs) \<le> 1"
  shows "last_restarts n rs = last_restarts n rs'"
proof -
  have m: "mset (filter cluster_result rs) = mset (filter cluster_result rs')" using assms(1) by (simp add: mset_filter)
  then have l: "length (filter cluster_result rs) = length (filter cluster_result rs')" by (rule mset_eq_length)
  show ?thesis
  proof (cases "filter cluster_result rs")
    case Nil
    then show ?thesis using l by (simp add: last_restarts_def)
  next
    case (Cons a xs)
    then have a: "filter cluster_result rs = [a]" using assms(2) by simp
    obtain b where b: "filter cluster_result rs' = [b]" using l unfolding a by (cases "filter cluster_result rs'") auto
    have "a = b" using m unfolding a b by simp
    then show ?thesis using a b by (simp add: last_restarts_def)
  qed
qed

text \<open>C37. The probes of a verification round run concurrently and report in any order, and the order does not
  matter: if the results of two rounds are the same up to order, with at most one from the cluster,
  the verdict, the restart count carried to the next round and the reported errors (up to order) are the
  same.\<close>

theorem verdict_independent_of_arrival:
  assumes "mset (vn_results r) = mset (vn_results r')" and "length (filter cluster_result (vn_results r)) \<le> 1"
  shows "ver_Success (fst (round_verdict previous r)) = ver_Success (fst (round_verdict previous r')) \<and>
    snd (snd (round_verdict previous r)) = snd (snd (round_verdict previous r')) \<and>
    mset (fst (snd (round_verdict previous r))) = mset (fst (snd (round_verdict previous r')))"
proof -
  have r: "last_restarts None (vn_results r) = last_restarts None (vn_results r')" by (rule last_restarts_permute [OF assms])
  have s: "list_all result_ok (vn_results r) = list_all result_ok (vn_results r')"
    using assms(1) by (metis list_all_iff set_mset_mset)
  have e: "mset (map (\<lambda>r. vr_source r @ '' verification unavailable'') (filter vr_err (vn_results r))) =
      mset (map (\<lambda>r. vr_source r @ '' verification unavailable'') (filter vr_err (vn_results r')))"
    using assms(1) by (simp add: mset_filter)
  show ?thesis using r s e
    by (auto simp: round_verdict_def collectVerificationRound_def split_beta Let_def collect_fields zero_Verification_def split: option.split)
qed

definition example_cluster :: "bool \<Rightarrow> verificationRoundResult" where
  "example_cluster ok = \<lparr>vr_source = ''kubernetes'',
     vr_verification = Some (zero_Verification\<lparr>ver_Success := ok, ver_RestartCount := Some 2\<rparr>),
     vr_probe = evaluateVerificationEvidence [] [], vr_err = False\<rparr>"

definition example_probe :: verificationRoundResult where
  "example_probe = \<lparr>vr_source = ''log'', vr_verification = None, vr_probe = evaluateVerificationEvidence ''log'' [], vr_err = False\<rparr>"

definition example_round :: "time \<Rightarrow> bool \<Rightarrow> verification_round" where
  "example_round t ok = \<lparr>vn_results = [example_cluster ok, example_probe], vn_completed = t, vn_checked = t, vn_cancelled = False,
     vn_fresh = \<lparr>fr_now = t, fr_id = ''u'', fr_id2 = ''v''\<rparr>\<rparr>"

lemma verdict_independent_of_arrival_witness:
  "ver_Success (fst (round_verdict None (example_round 1 True))) =
   ver_Success (fst (round_verdict None ((example_round 1 True)\<lparr>vn_results := [example_probe, example_cluster True]\<rparr>)))"
  by (rule conjunct1 [OF verdict_independent_of_arrival])
    (simp_all add: example_round_def example_cluster_def example_probe_def cluster_result_def)

section \<open>Resolution needs three consecutive successes\<close>

lemma status_of_record_round [simp]: "status_of (record_round s v errs) = status_of s"
  by (simp add: record_round_def Let_def set_verification_def status_of_def option.map_comp comp_def)

lemma record_round_count [simp]:
  "vs_ConsecutiveSuccess (ws_VerificationState (record_round s v errs)) =
     (if ver_Success v then vs_ConsecutiveSuccess (ws_VerificationState s) + 1 else 0)"
  by (simp add: record_round_def Let_def set_verification_def)

lemma status_of_set_verification [simp]: "status_of (set_verification v s) = status_of s"
  by (simp add: set_verification_def status_of_def option.map_comp comp_def)

lemma verification_failed_status: "verification_failed H s v fr = (s', None) \<Longrightarrow> status_of s' = Some StatusRecoveryFailed"
  by (auto simp: verification_failed_def Let_def dest!: step_status_ok split: prod.splits option.splits if_splits)

lemma verification_succeeded_status: "verification_succeeded H s v fr = (s', None) \<Longrightarrow> status_of s' = Some StatusResolved"
  by (auto simp: verification_succeeded_def Let_def dest!: step_status_ok split: prod.splits option.splits if_splits)

lemma rounds_resolve:
  assumes "verification_rounds H deadline previous s rounds = Some (s', None)" and "status_of s' = Some StatusResolved"
    and "0 \<le> vs_ConsecutiveSuccess (ws_VerificationState s)" "vs_ConsecutiveSuccess (ws_VerificationState s) < 3"
  shows "\<exists>k\<le>length rounds. 3 - vs_ConsecutiveSuccess (ws_VerificationState s) \<le> int k \<and>
    (\<forall>j<k. int k - 3 \<le> int j \<longrightarrow> list_all result_ok (vn_results (rounds ! j)))"
  using assms
proof (induction rounds arbitrary: previous s)
  case (Cons r rs)
  obtain v errs p' where v: "round_verdict previous r = (v, errs, p')" by (cases "round_verdict previous r") auto
  let ?s1 = "record_round s v errs" and ?c = "vs_ConsecutiveSuccess (ws_VerificationState s)"
  have ok: "ver_Success v \<Longrightarrow> list_all result_ok (vn_results r)" using round_success [of previous r] v by simp
  show ?case
  proof (cases "3 \<le> vs_ConsecutiveSuccess (ws_VerificationState ?s1)")
    case True
    then have "?c = 2" "ver_Success v" using Cons.prems by (auto split: if_splits)
    then show ?thesis using ok by (intro exI [of _ 1]) auto
  next
    case False
    have notfail: "verification_failed H ?s1 v (vn_fresh r) \<noteq> (s', None)" using verification_failed_status Cons.prems(2) by fastforce
    have rec: "verification_rounds H deadline p' ?s1 rs = Some (s', None)"
      using Cons.prems(1) False notfail by (simp add: v Let_def split: if_splits)
    have "0 \<le> vs_ConsecutiveSuccess (ws_VerificationState ?s1)" "vs_ConsecutiveSuccess (ws_VerificationState ?s1) < 3"
      using False Cons.prems(3) by auto
    from Cons.IH [OF rec Cons.prems(2) this] obtain k where k: "k \<le> length rs"
        "3 - vs_ConsecutiveSuccess (ws_VerificationState ?s1) \<le> int k"
        "\<And>j. j < k \<Longrightarrow> int k - 3 \<le> int j \<Longrightarrow> list_all result_ok (vn_results (rs ! j))" by blast
    have "list_all result_ok (vn_results ((r # rs) ! j))" if "j < Suc k" "int (Suc k) - 3 \<le> int j" for j
    proof (cases j)
      case 0
      then have "ver_Success v" using that k(2) by (auto split: if_splits)
      then show ?thesis using ok 0 by simp
    next
      case (Suc j')
      then show ?thesis using k(3) [of j'] that by simp
    qed
    moreover have "3 - ?c \<le> int (Suc k)" using k(2) Cons.prems(3) by (auto split: if_splits)
    ultimately show ?thesis using k(1) by (intro exI [of _ "Suc k"]) auto
  qed
qed simp

text \<open>C30. An incident is resolved only on evidence of a stable recovery: if the controller, started with no
  success counted, ends with the incident RESOLVED, three consecutive rounds succeeded, and in each of them
  no probe failed to answer, the cluster reported the target ready, and every applicable probe
  succeeded.\<close>

theorem resolved_needs_three_rounds:
  assumes "runVerificationController H timeout s now rounds = Some (s', None)" and "status_of s' = Some StatusResolved"
    and "vs_ConsecutiveSuccess (ws_VerificationState s) = 0"
  shows "\<exists>k. 3 \<le> k \<and> k \<le> length rounds \<and>
    (\<forall>j\<in>{k - 3..<k}. \<forall>r\<in>set (vn_results (rounds ! j)). \<not> vr_err r \<and>
       (\<forall>v. vr_verification r = Some v \<longrightarrow> ver_Success v) \<and>
       (vr_verification r = None \<longrightarrow> vp_Applicable (vr_probe r) \<longrightarrow> vp_Success (vr_probe r)))"
proof -
  let ?s1 = "if IsZero (vs_StartedAt (ws_VerificationState s)) then s\<lparr>ws_VerificationState := (ws_VerificationState s)\<lparr>vs_StartedAt := now\<rparr>\<rparr> else s"
  have c: "vs_ConsecutiveSuccess (ws_VerificationState ?s1) = 0" using assms(3) by simp
  have run: "verification_rounds H (vs_StartedAt (ws_VerificationState ?s1) + timeout) None ?s1 rounds = Some (s', None)"
    using assms(1) unfolding runVerificationController_def Let_def by assumption
  from rounds_resolve [OF run assms(2)] obtain k where k: "k \<le> length rounds" "3 \<le> int k"
      "\<And>j. j < k \<Longrightarrow> int k - 3 \<le> int j \<Longrightarrow> list_all result_ok (vn_results (rounds ! j))" using c by auto
  have "\<not> vr_err r \<and> (\<forall>v. vr_verification r = Some v \<longrightarrow> ver_Success v) \<and>
       (vr_verification r = None \<longrightarrow> vp_Applicable (vr_probe r) \<longrightarrow> vp_Success (vr_probe r))"
    if "j \<in> {k - 3..<k}" "r \<in> set (vn_results (rounds ! j))" for j r
  proof -
    from that(1) have "j < k" "int k - 3 \<le> int j" by auto
    from k(3) [OF this] that(2) have "result_ok r" by (simp add: list_all_iff)
    then show ?thesis by (auto simp: result_ok_def)
  qed
  then show ?thesis using k(1,2) by (intro exI [of _ k]) auto
qed

definition example_verifying :: WorkflowState where
  "example_verifying = zero_WorkflowState\<lparr>ws_Incident := Some (zero_Incident\<lparr>inc_Status := StatusVerifying\<rparr>),
     ws_VerificationState := zero_VerificationState\<lparr>vs_StartedAt := 1\<rparr>\<rparr>"

definition example_rounds :: "verification_round list" where
  "example_rounds = [example_round 2 True, example_round 3 True, example_round 4 True]"

lemma example_verdicts:
  "ver_Success (fst (round_verdict n (example_round t ok))) = (ok \<and> (\<forall>m. n = Some m \<longrightarrow> 2 \<le> m))" "snd (snd (round_verdict n (example_round t ok))) = Some 2"
  "fst (snd (round_verdict n (example_round t ok))) = []"
  by (auto simp: round_verdict_def collectVerificationRound_def example_round_def example_cluster_def example_probe_def merge_result_def
      evaluateVerificationEvidence_def probe_result_def Let_def zero_Verification_def split: option.split)

lemma rounds_continue:
  "ver_Success (fst (round_verdict p r)) \<Longrightarrow> vs_ConsecutiveSuccess (ws_VerificationState s) < 2 \<Longrightarrow> vn_checked r < deadline \<Longrightarrow> \<not> vn_cancelled r \<Longrightarrow>
   verification_rounds H deadline p s (r # rs) =
     verification_rounds H deadline (snd (snd (round_verdict p r))) (record_round s (fst (round_verdict p r)) (fst (snd (round_verdict p r)))) rs"
  by (simp add: split_beta Let_def)

lemma rounds_done:
  "ver_Success (fst (round_verdict p r)) \<Longrightarrow> 2 \<le> vs_ConsecutiveSuccess (ws_VerificationState s) \<Longrightarrow>
   verification_rounds H deadline p s (r # rs) =
     Some (verification_succeeded H (record_round s (fst (round_verdict p r)) (fst (snd (round_verdict p r)))) (fst (round_verdict p r)) (vn_fresh r))"
  by (simp add: split_beta Let_def)

lemma verification_succeeds_when_verifying:
  assumes "status_of s = Some StatusVerifying"
  shows "\<exists>s'. verification_succeeded H s v fr = (s', None)"
proof -
  have "snd (step_status (set_verification w s) StatusResolved t) = None" for w t
    by (rule conjunct1 [OF step_status_moves [where st = StatusVerifying]]) (simp_all add: assms CanTransition_def)
  then show ?thesis by (simp add: verification_succeeded_def Let_def split_beta)
qed

lemma example_controller:
  "\<exists>s'. runVerificationController H 100 example_verifying 1 example_rounds = Some (s', None) \<and> status_of s' = Some StatusResolved"
proof -
  have c: "vs_ConsecutiveSuccess (ws_VerificationState example_verifying) = 0" "vs_StartedAt (ws_VerificationState example_verifying) = 1"
    "status_of example_verifying = Some StatusVerifying"
    by (simp_all add: example_verifying_def zero_VerificationState_def)
  have r: "vn_checked (example_round t ok) = t" "\<not> vn_cancelled (example_round t ok)" for t ok by (simp_all add: example_round_def)
  have "\<exists>s v fr. runVerificationController H 100 example_verifying 1 example_rounds = Some (verification_succeeded H s v fr) \<and> status_of s = Some StatusVerifying"
    by (simp add: runVerificationController_def example_rounds_def Let_def c IsZero_def rounds_continue rounds_done example_verdicts r
        del: verification_rounds.simps) (metis c(3) status_of_record_round)
  then show ?thesis using verification_succeeds_when_verifying verification_succeeded_status by metis
qed

lemma resolved_needs_three_rounds_witness:
  "\<exists>k. 3 \<le> k \<and> k \<le> length example_rounds"
proof -
  obtain s' where s': "runVerificationController (\<lambda>_. ''h'') 100 example_verifying 1 example_rounds = Some (s', None)" "status_of s' = Some StatusResolved"
    using example_controller by blast
  have "vs_ConsecutiveSuccess (ws_VerificationState example_verifying) = 0" by (simp add: example_verifying_def zero_VerificationState_def)
  from resolved_needs_three_rounds [OF s' this] show ?thesis by blast
qed

section \<open>The controller ends\<close>

text \<open>After a round that does not end the controller, the timer fires no earlier than the interval, or the
  deadline if that is sooner, and the clock does not go back.\<close>

fun paced :: "int \<Rightarrow> time \<Rightarrow> time \<Rightarrow> verification_round list \<Rightarrow> bool" where
  "paced interval deadline earliest [] = True"
| "paced interval deadline earliest (r # rs) =
     (earliest \<le> vn_checked r \<and> paced interval deadline (min deadline (vn_checked r + interval)) rs)"

lemma paced_later: "paced interval deadline t rs \<Longrightarrow> t' \<le> t \<Longrightarrow> paced interval deadline t' rs"
  by (cases rs) auto

lemma rounds_end:
  assumes "0 < interval" and "paced interval deadline earliest rounds" and "deadline - earliest \<le> int n * interval" and "n < length rounds"
  shows "verification_rounds H deadline previous s rounds \<noteq> None"
  using assms
proof (induction rounds arbitrary: previous s earliest n)
  case (Cons r rs)
  obtain v errs p' where v: "round_verdict previous r = (v, errs, p')" by (cases "round_verdict previous r") auto
  show ?case
  proof (cases "deadline \<le> vn_checked r")
    case True
    then show ?thesis by (simp add: v Let_def)
  next
    case False
    then have pos: "0 < n" using Cons.prems by (cases n) auto
    then obtain m where m: "n = Suc m" by (cases n) auto
    have "deadline - min deadline (vn_checked r + interval) \<le> int m * interval"
      using Cons.prems m False by (auto simp: algebra_simps min_def)
    from Cons.IH [OF Cons.prems(1) _ this, of p' "record_round s v errs"] Cons.prems m
    show ?thesis by (simp add: v Let_def)
  qed
qed simp

text \<open>C36. Verification always ends: with a positive interval between rounds, the controller has decided after at most
  timeout / interval + 2 rounds, whatever the probes report.\<close>

theorem verification_terminates:
  assumes "0 < interval" and "0 \<le> timeout" and "vs_StartedAt (ws_VerificationState s) \<noteq> 0"
    and "paced interval (vs_StartedAt (ws_VerificationState s) + timeout) (vs_StartedAt (ws_VerificationState s)) rounds"
    and "nat (timeout div interval) + 2 \<le> length rounds"
  shows "\<exists>result. runVerificationController H timeout s now rounds = Some result"
proof -
  let ?start = "vs_StartedAt (ws_VerificationState s)" and ?n = "nat (timeout div interval) + 1"
  have q: "0 \<le> timeout div interval" using assms(1,2) by (simp add: pos_imp_zdiv_nonneg_iff)
  have "timeout mod interval \<le> interval" using assms(1) by (simp add: less_imp_le)
  then have "timeout \<le> interval * (timeout div interval) + interval"
    by (metis add_left_mono mult_div_mod_eq)
  also have "\<dots> = int ?n * interval" using q by (simp add: algebra_simps)
  finally have "(?start + timeout) - ?start \<le> int ?n * interval" by simp
  from rounds_end [OF assms(1,4) this, of H None s] assms(3,5)
  show ?thesis by (simp add: runVerificationController_def IsZero_def Let_def)
qed

lemma verification_terminates_witness:
  "\<exists>result. runVerificationController (\<lambda>_. ''h'') 2 example_verifying 1 [example_round 1 False, example_round 3 False, example_round 5 False] = Some result"
  by (rule verification_terminates [where interval = 2])
    (simp_all add: example_verifying_def zero_VerificationState_def example_round_def)

end
