(* ===== verification/Outer_Graph.thy ===== *)
theory Outer_Graph
  imports Safety_Gates Recovery_Verification
begin

text \<open>Runs of the outer graph that \<^verbatim>\<open>NewSupervisor\<close> compiles (\<^verbatim>\<open>agent/supervisor.go\<close>): the node that runs
  next, the workflow state and the trace of what happened outside, as an inductive relation over the
  nodes of the safety kernel.  The Brain's own graph is one step of it that may change the state in any
  way that leaves the incident's status alone, which every node of it does; everything drawn
  from outside (answers of the cluster, operator's decisions, probe results, clock readings) is
  arbitrary.  An error of a node ends the run.  The lemmas bound the mutations of a whole run.\<close>

section \<open>Runs\<close>

datatype outer_event = Called kube_call | Decided ApprovalResumeData

inductive outer_run :: "hasher \<Rightarrow> (action_error \<Rightarrow> string) \<Rightarrow> WorkflowState \<Rightarrow> outer_node \<Rightarrow> WorkflowState \<Rightarrow> outer_event list \<Rightarrow> bool"
  for H :: hasher and wording :: "action_error \<Rightarrow> string" and s0 :: WorkflowState where
  start: "outer_run H wording s0 Incident_Intake s0 []"
| intake: "outer_run H wording s0 Incident_Intake s tr \<Longrightarrow> incident_intake skills rr s now = (s', None) \<Longrightarrow>
    outer_run H wording s0 (outer_route Incident_Intake s') s' tr"
| brain: "outer_run H wording s0 Kubepilot_Brain s tr \<Longrightarrow> status_of s' = status_of s \<Longrightarrow>
    outer_run H wording s0 (outer_route Kubepilot_Brain s') s' tr"
| permission: "outer_run H wording s0 Recovery_Permission s tr \<Longrightarrow> brainRecoveryPermissionNode s fr = (s', None) \<Longrightarrow>
    outer_run H wording s0 (outer_route Recovery_Permission s') s' tr"
| dry_run: "outer_run H wording s0 Dry_Run s tr \<Longrightarrow> brainDryRunNode H ans stamp s fr = ((s', None), calls) \<Longrightarrow>
    outer_run H wording s0 (outer_route Dry_Run s') s' (tr @ map Called calls)"
| validator: "outer_run H wording s0 Proposal_Validator s tr \<Longrightarrow> recovery_proposal_validator s now = (s', None) \<Longrightarrow>
    outer_run H wording s0 (outer_route Proposal_Validator s') s' tr"
| approval: "outer_run H wording s0 Approval s tr \<Longrightarrow> request_approval H s fr = Interrupted s1 \<Longrightarrow>
    resume_approval H s1 (Some data) u fr' = (s', None) \<Longrightarrow>
    outer_run H wording s0 (outer_route Approval s') s' (tr @ [Decided data])"
| executor: "outer_run H wording s0 Action_Executor s tr \<Longrightarrow> safety_action_executor H wording ans s fr = ((s', None), calls) \<Longrightarrow>
    outer_run H wording s0 (outer_route Action_Executor s') s' (tr @ map Called calls)"
| verification: "outer_run H wording s0 Verification_Controller s tr \<Longrightarrow>
    runVerificationController H timeout s now rounds = Some (s', None) \<Longrightarrow>
    outer_run H wording s0 (outer_route Verification_Controller s') s' tr"
| finalizer: "outer_run H wording s0 Finalizer s tr \<Longrightarrow> incident_finalizer s now = (s', None) \<Longrightarrow>
    outer_run H wording s0 (outer_route Finalizer s') s' tr"

definition mutations :: "outer_event list \<Rightarrow> kube_call list" where
  "mutations tr = filter is_mutation (concat (map (\<lambda>e. case e of Called c \<Rightarrow> [c] | Decided _ \<Rightarrow> []) tr))"

fun approves :: "outer_event \<Rightarrow> bool" where
  "approves (Decided d) = ard_Approved d"
| "approves (Called c) = False"

definition approved_before :: "outer_event list \<Rightarrow> bool" where
  "approved_before tr = list_ex approves tr"

definition unapproved_part :: "outer_event list \<Rightarrow> outer_event list" where
  "unapproved_part tr = takeWhile (\<lambda>e. \<not> approves e) tr"

lemma mutations_simps [simp]:
  "mutations [] = []" "mutations (tr @ map Called calls) = mutations tr @ filter is_mutation calls"
  "mutations (tr @ [Decided d]) = mutations tr"
  by (simp_all add: mutations_def comp_def)

lemma approved_simps [simp]:
  "approved_before (tr @ map Called calls) = approved_before tr" "approved_before (tr @ [Decided d]) = (approved_before tr \<or> ard_Approved d)"
  by (auto simp: approved_before_def list_ex_iff)

lemma unapproved_Nil [simp]: "unapproved_part [] = []"
  by (simp add: unapproved_part_def)

lemma unapproved_simps [simp]:
  "approved_before tr \<Longrightarrow> unapproved_part (tr @ es) = unapproved_part tr"
  "\<not> approved_before tr \<Longrightarrow> unapproved_part (tr @ map Called calls) = tr @ map Called calls"
  "\<not> approved_before tr \<Longrightarrow> unapproved_part (tr @ [Decided d]) = tr @ (if ard_Approved d then [] else [Decided d])"
proof -
  show "approved_before tr \<Longrightarrow> unapproved_part (tr @ es) = unapproved_part tr"
    by (auto simp: approved_before_def unapproved_part_def list_ex_iff intro: takeWhile_append1)
  assume "\<not> approved_before tr"
  then have "takeWhile (\<lambda>e. \<not> approves e) (tr @ es) = tr @ takeWhile (\<lambda>e. \<not> approves e) es" for es
    by (intro takeWhile_append2) (auto simp: approved_before_def list_ex_iff)
  moreover have "takeWhile (\<lambda>e. \<not> approves e) (map Called calls) = map Called calls" by (simp add: takeWhile_eq_all_conv)
  ultimately show "unapproved_part (tr @ map Called calls) = tr @ map Called calls"
    "unapproved_part (tr @ [Decided d]) = tr @ (if ard_Approved d then [] else [Decided d])"
    by (simp_all add: unapproved_part_def)
qed

section \<open>Statuses from which no proposal is reached\<close>

definition late :: "WorkflowState \<Rightarrow> bool" where
  "late s = (status_of s \<notin> {Some StatusCollecting, Some StatusDiagnosing, Some StatusProposing})"

lemma late_step: "late s \<Longrightarrow> to \<notin> {StatusCollecting, StatusDiagnosing, StatusProposing} \<Longrightarrow> late (fst (step_status s to now))"
  by (auto simp: late_def step_status_unfold status_of_def split: option.splits)

lemma late_try: "late s \<Longrightarrow> to \<notin> {StatusCollecting, StatusDiagnosing, StatusProposing} \<Longrightarrow> late (try_status s to now)"
  by (simp add: try_status_def late_step)

lemma late_cong: "status_of s = status_of t \<Longrightarrow> late s = late t"
  by (simp add: late_def)

lemma late_never_proposes:
  assumes "late s" and "brainRecoveryPermissionNode s fr = (s', None)"
  shows "outer_route Recovery_Permission s' = Finalizer \<and> late s'"
proof -
  from assms(2) obtain i where i: "ws_Incident s = Some i" by (auto simp: brainRecoveryPermissionNode_def split: option.splits)
  have st: "status_of s = Some (inc_Status i)" using i by (simp add: status_of_def)
  have l: "inc_Status i \<notin> {StatusCollecting, StatusDiagnosing, StatusProposing}" using assms(1) st by (simp add: late_def)
  have fin: "status_of t' = Some StatusNeedsAttention"
    if "finishBrainWithoutRecovery t i reason (fr_now fr) = (t', None)" "status_of t = Some (inc_Status i)" for t t' reason
    using finish_status that by blast
  have proposes: "status_of t' = Some StatusNeedsAttention" if p: "propose_recovery t d plan fr = (t', None)" "status_of t = Some (inc_Status i)" for t t' d plan
  proof -
    from that obtain j where j: "ws_Incident t = Some j" "inc_Status j = inc_Status i" by (auto simp: status_of_def)
    have fj: "status_of t' = Some StatusNeedsAttention" if "finishBrainWithoutRecovery t j reason (fr_now fr) = (t', None)" for reason
      using finish_status [OF that] p(2) j(2) by simp
    have no: "step_status x StatusProposing (fr_now fr) \<noteq> (t', None)" if "status_of x = Some (inc_Status i)" for x
      using step_status_from [OF _ that] l by (cases "inc_Status i") (auto simp: CanTransition_def)
    show ?thesis using p(1) j l fj no
      by (auto simp: propose_recovery_def Let_def split: if_splits sum.splits)
  qed
  have "status_of s' = Some StatusNeedsAttention"
    using assms(2) i fin proposes st
    by (auto simp: brainRecoveryPermissionNode_def Let_def split: option.splits if_splits bool.splits)
  then show ?thesis by (simp add: late_def)
qed

section \<open>One mutation per run\<close>

lemma resume_status:
  assumes "resume_approval H s (Some d) u fr = (s', None)"
  shows "outer_route Approval s' = Action_Executor \<longrightarrow> status_of s' = Some StatusRecovering \<and> ard_Approved d"
  using assms
  by (auto simp: resume_approval_def Let_def dest!: step_status_ok split: if_splits option.splits)

lemma executor_late:
  assumes "status_of s = Some StatusRecovering" and "safety_action_executor H wording ans s fr = ((s', None), calls)"
  shows "late s' \<and> length (filter is_mutation calls) \<le> 1"
proof -
  have ls: "late s" using assms(1) by (simp add: late_def)
  have fail: "late (failed_execution H wording s i x e fr)" if "inc_Status i = StatusRecovering" for i x e
  proof -
    have "status_of (set_execution s i y) = Some StatusRecovering" for y using that by (simp add: set_execution_def)
    then show ?thesis unfolding failed_execution_def Let_def by (intro late_try) (auto simp: late_def)
  qed
  from assms obtain i where i: "ws_Incident s = Some i" "inc_Status i = StatusRecovering" by (auto simp: status_of_def)
  have "late s'"
  proof (cases "validateExecutionContext s i (fr_now fr)")
    case (Some e)
    then have "s' = try_status (s\<lparr>ws_Errors := ws_Errors s @ [e]\<rparr>) StatusNeedsAttention (fr_now fr)"
      using assms(2) i by (simp add: safety_action_executor_def)
    moreover have "late (s\<lparr>ws_Errors := ws_Errors s @ [e]\<rparr>)" using ls by (simp add: late_def)
    ultimately show ?thesis by (simp add: late_try)
  next
    case None
    then show ?thesis using assms(2) i fail
      by (auto simp: safety_action_executor_def Let_def late_def dest!: step_status_ok split: option.splits prod.splits)
  qed
  moreover have "length (filter is_mutation calls) \<le> 1"
  proof (cases "calls = []")
    case False
    then obtain j p where "calls = snd (Execute ans j p)" using executor_calls [of H wording ans s fr] assms(2) by force
    then show ?thesis using Execute_cases [of ans j p] approved_call_one_mutation [of j p ans calls] by fastforce
  qed simp
  ultimately show ?thesis by blast
qed

lemma verification_rounds_late:
  "verification_rounds H deadline previous s rounds = Some (s', None) \<Longrightarrow> late s'"
proof (induction rounds arbitrary: previous s)
  case (Cons r rs)
  then show ?case
    by (auto simp: split_beta Let_def late_def dest: verification_succeeded_status verification_failed_status split: if_splits)
qed simp

lemma verification_late: "runVerificationController H timeout s now rounds = Some (s', None) \<Longrightarrow> late s'"
  by (auto simp: runVerificationController_def Let_def dest: verification_rounds_late)

definition run_inv :: "outer_node \<Rightarrow> WorkflowState \<Rightarrow> outer_event list \<Rightarrow> bool" where
  "run_inv n s tr =
     ((mutations tr = [] \<or> (length (mutations tr) = 1 \<and> approved_before tr \<and> late s \<and>
         n \<in> {Kubepilot_Brain, Recovery_Permission, Verification_Controller, Finalizer, Outer_End})) \<and>
      mutations (unapproved_part tr) = [] \<and>
      (n = Action_Executor \<longrightarrow> status_of s = Some StatusRecovering \<and> approved_before tr))"

lemma finalizer_status: "incident_finalizer s now = (s', None) \<Longrightarrow> status_of s' = status_of s"
  by (auto simp: incident_finalizer_def Let_def status_of_def split: option.splits)

lemma outer_run_inv: "outer_run H wording s0 n s tr \<Longrightarrow> run_inv n s tr"
proof (induction rule: outer_run.induct)
  case (brain s tr s')
  then show ?case using late_cong [of s' s] by (auto simp: run_inv_def)
next
  case (permission s tr fr s')
  then show ?case using late_never_proposes [of s fr s'] by (auto simp: run_inv_def)
next
  case (dry_run s tr ans stamp fr s' calls)
  have "filter is_mutation calls = []"
  proof -
    from dry_run(2) obtain i where i: "ws_Incident s = Some i" by (auto simp: brainDryRunNode_def split: option.splits)
    obtain r i1 e calls1 where d: "dryRunProposal H ans stamp i (fr_now fr) = (r, i1, e, calls1)" by (metis prod_cases4)
    then show ?thesis using dryRunProposal_facts [OF d] dry_run(2) i by (auto simp: brainDryRunNode_def Let_def split: prod.splits if_splits)
  qed
  then show ?case using dry_run(3) by (cases "approved_before tr") (auto simp: run_inv_def)
next
  case (approval s tr fr s1 data u fr' s')
  then show ?case using resume_status [of H s1 data u fr' s']
    by (cases "approved_before tr") (auto simp: run_inv_def simp del: outer_route.simps)
next
  case (executor s tr ans fr s' calls)
  then have st: "status_of s = Some StatusRecovering" "mutations tr = []" "approved_before tr" "mutations (unapproved_part tr) = []"
    by (auto simp: run_inv_def)
  have "length (filter is_mutation calls) = 0 \<or> length (filter is_mutation calls) = 1" and "late s'"
    using executor_late [OF st(1) executor(2)] by linarith+
  then show ?case using st by (auto simp: run_inv_def)
next
  case (verification s tr timeout now rounds s')
  then show ?case using verification_late [of H timeout s now rounds s'] by (auto simp: run_inv_def)
next
  case (finalizer s tr now s')
  then show ?case using late_cong [OF finalizer_status [of s now s']] by (auto simp: run_inv_def)
qed (auto simp: run_inv_def)

text \<open>C1. A run of the workflow mutates the cluster at most once, and never before the operator approved: in
  whatever way the Brain proceeds, however often it is re-entered after a failed dry run, recovery
  or verification, and whatever the cluster answers, the trace of a run has at most one mutation call,
  and the part of it before the first approval has none.\<close>

theorem run_mutates_at_most_once:
  assumes "outer_run H wording s0 n s tr"
  shows "length (mutations tr) \<le> 1 \<and> mutations (unapproved_part tr) = []"
  using outer_run_inv [OF assms] by (auto simp: run_inv_def)

definition received_incident :: Incident where
  "received_incident = zero_Incident\<lparr>inc_ID := ''i1'', inc_Status := StatusReceived, inc_DiagnosisMethod := ''kubepilot''\<rparr>"

lemma run_mutates_at_most_once_witness:
  "\<exists>s. outer_run (\<lambda>_. ''h'') (\<lambda>_. ''e'') (initial_state received_incident) Kubepilot_Brain s [] \<and> length (mutations []) \<le> 1"
proof -
  have "snd (incident_intake ''k'' None (initial_state received_incident) 5) = None"
    by (simp add: incident_intake_def initial_state_def received_incident_def NormalizeDiagnosisMethod_def IsKubePilotBrainMethod_def
        step_status_unfold CanTransition_def)
  then obtain s' where "incident_intake ''k'' None (initial_state received_incident) 5 = (s', None)" by (metis prod.collapse)
  from intake [OF start this] have run: "outer_run (\<lambda>_. ''h'') (\<lambda>_. ''e'') (initial_state received_incident) Kubepilot_Brain s' []" by simp
  from run_mutates_at_most_once [OF run] run show ?thesis by blast
qed

text \<open>A reflection left over from the diagnosis takes the place of the verification: nothing clears a pending
  reflection when the Brain's graph ends on a termination, so if one is pending when the executor
  confirms a mutation, the graph goes back to the Brain with the incident in VERIFYING, and the
  permission node that follows takes the incident to NEEDS_ATTENTION or fails; the recovery is
  never verified.\<close>

theorem stale_reflection_skips_verification:
  assumes "is_mutation m" and "m \<in> set (snd (safety_action_executor H wording ans s fr))" and "ans_Mutation ans = None"
    and "status_of s = Some StatusRecovering" and "bs_PendingReflection s = Some trigger"
    and "s' = fst (fst (safety_action_executor H wording ans s fr))"
  shows "outer_route Action_Executor s' = Kubepilot_Brain \<and> status_of s' = Some StatusVerifying \<and>
    (\<forall>s1 fr1 s2. status_of s1 = status_of s' \<longrightarrow> brainRecoveryPermissionNode s1 fr1 = (s2, None) \<longrightarrow>
       outer_route Recovery_Permission s2 = Finalizer)"
proof -
  have c: "status_of s' = Some StatusVerifying" "bs_PendingReflection s' = Some trigger"
    using executor_confirmed [OF assms(1,2,3,4,6)] assms(5) by auto
  have "outer_route Recovery_Permission s2 = Finalizer"
    if "status_of s1 = status_of s'" "brainRecoveryPermissionNode s1 fr1 = (s2, None)" for s1 fr1 s2
    using late_never_proposes [OF _ that(2)] that(1) c(1) by (simp add: late_def)
  then show ?thesis using c by (simp del: outer_route.simps(3))
qed

lemma stale_reflection_skips_verification_witness:
  "outer_route Action_Executor (fst (fst (safety_action_executor (\<lambda>_. ''h'') (\<lambda>_. ''e'') example_answers
     (approved_state\<lparr>bs_PendingReflection := Some ReflectionConstraintFailure\<rparr>) example_fresh))) = Kubepilot_Brain"
proof -
  let ?s = "approved_state\<lparr>bs_PendingReflection := Some ReflectionConstraintFailure\<rparr>"
  have f: "ws_Incident ?s = Some approved_incident" "inc_Proposal approved_incident = Some (example_proposal\<lparr>rp_ID := ''pr1''\<rparr>)"
    "validateExecutionContext ?s approved_incident (fr_now example_fresh) = None"
    "ws_Incident approved_state = Some approved_incident" "validateExecutionContext approved_state approved_incident (fr_now example_fresh) = None"
    using approved_contexts_valid(1)
    by (simp_all add: validateExecutionContext_def approved_state_def example_state_def approved_incident_def example_fresh_def)
  have "snd (safety_action_executor (\<lambda>_. ''h'') (\<lambda>_. ''e'') example_answers ?s example_fresh) =
    snd (safety_action_executor (\<lambda>_. ''h'') (\<lambda>_. ''e'') example_answers approved_state example_fresh)"
    unfolding executor_unfold [OF f(1,2,3)] executor_unfold [OF f(4,2,5)] ..
  then have m: "CallScale ''shop'' ''checkout'' 4 \<in> set (snd (safety_action_executor (\<lambda>_. ''h'') (\<lambda>_. ''e'') example_answers ?s example_fresh))"
    using approved_execution_calls [of example_answers None] by (simp add: example_answers_def)
  have "status_of ?s = Some StatusRecovering" "bs_PendingReflection ?s = Some ReflectionConstraintFailure"
    using f(1) by (simp_all add: status_of_def) (simp add: approved_incident_def)
  from stale_reflection_skips_verification [OF _ m _ this refl] show ?thesis by (simp add: example_answers_def)
qed

end
