(* ===== verification/Brain_Context.thy ===== *)
theory Brain_Context
  imports Brain_Common
begin

text \<open>What the model of the Brain is shown of the workflow state (\<^verbatim>\<open>agent/brain_context.go\<close> and the helpers it
  takes from \<^verbatim>\<open>agent/constrained_tools.go\<close>): evidence views bounded in number and in bytes, tails of the
  histories, compacted retrieval candidates, and the projection of a tool result.  The length of the
  JSON text of a list of views is a parameter.  Go copies a struct but not the array behind its slice:
  the projection of a hybrid retrieval therefore also compacts the candidates of the result it was
  taken from, and the model returns both.\<close>

definition truncateText :: "string \<Rightarrow> int \<Rightarrow> string" where
  "truncateText value maximumRunes =
     (if maximumRunes \<le> 0 \<or> int (length value) \<le> maximumRunes then value else take (nat maximumRunes) value)"

definition boundedSlice :: "'a list \<Rightarrow> int \<Rightarrow> 'a list" where
  "boundedSlice items limit = (if limit \<le> 0 \<or> items = [] then [] else tail_values items limit)"

definition compact_candidate :: "RetrievalCandidate \<Rightarrow> RetrievalCandidate" where
  "compact_candidate item = item\<lparr>rc_Summary := truncateText (rc_Summary item) 512, rc_RootCause := truncateText (rc_RootCause item) 256,
     rc_Features := (rc_Features item)\<lparr>if_Terms := [], if_EvidenceTypes := [], if_TraceIDs := [], if_TemplateIDs := [], if_Observed := Map.empty\<rparr>,
     rc_RankingReasons := take 4 (rc_RankingReasons item)\<rparr>"

definition compactToolCandidates :: "RetrievalCandidate list \<Rightarrow> int \<Rightarrow> RetrievalCandidate list" where
  "compactToolCandidates items limit =
     (let n = (if limit \<le> 0 \<or> int (length items) < limit then length items else nat limit)
      in map compact_candidate (take n items))"

section \<open>Evidence views\<close>

definition linked_hypotheses :: "WorkflowState \<Rightarrow> string \<Rightarrow> string list" where
  "linked_hypotheses s eid =
     sort (foldl appendUnique [] (map gr_HypothesisRevisionID (filter (\<lambda>g. eid \<in> set (gre_SupportingEvidenceIDs (gr_Evidence g)) \<or>
        eid \<in> set (gre_ContradictingEvidenceIDs (gr_Evidence g))) (bs_HypothesisGroundings s))))"

definition citing_results :: "WorkflowState \<Rightarrow> string \<Rightarrow> ToolResultProvenance list" where
  "citing_results s eid =
     filter (\<lambda>p. eid \<in> set (prov_EvidenceIDs p)) (map (\<lambda>x. trr_Provenance (bte_Result x)) (bs_ToolExecutions s))"

definition evidence_view :: "WorkflowState option \<Rightarrow> Evidence \<Rightarrow> BrainEvidenceView" where
  "evidence_view state item =
     (let hs = (case state of None \<Rightarrow> [] | Some s \<Rightarrow> linked_hypotheses s (ev_ID item));
          ps = (case state of None \<Rightarrow> [] | Some s \<Rightarrow> citing_results s (ev_ID item))
      in \<lparr>bev_ID = ev_ID item, bev_Source = ev_Source item, bev_Kind = (if ev_Type item = [] then ev_Kind item else ev_Type item),
          bev_Namespace = ev_Namespace item, bev_Service = ev_Service item, bev_Resource = ev_Resource item,
          bev_WindowStart = ev_WindowStart item, bev_WindowEnd = ev_WindowEnd item,
          bev_ObservedAt = (if ev_ObservedAt item = 0 then ev_Timestamp item else ev_ObservedAt item),
          bev_Summary = truncateText (ev_Summary item) 512, bev_Signals = take 8 (ev_Signals item),
          bev_CausalNodeIDs = take 8 (ev_CausalNodeIDs item), bev_ContextRelevance = ev_RelevanceScore item,
          bev_AnomalyScore = ev_AnomalyScore item, bev_QualityScore = ev_QualityScore item, bev_HypothesisRevisionIDs = hs,
          bev_ToolCallIDs = sort (foldl appendUnique [] (map prov_ToolCallID ps)),
          bev_RawArtifactHashes = sort (foldl appendUnique [] (filter (\<lambda>h. h \<noteq> []) (map prov_RawArtifactHash ps)))\<rparr>)"

fun fit_views :: "(BrainEvidenceView list \<Rightarrow> int) \<Rightarrow> int \<Rightarrow> int \<Rightarrow> BrainEvidenceView list \<Rightarrow> BrainEvidenceView list \<Rightarrow> BrainEvidenceView list" where
  "fit_views encoded maximumBytes maximumItems views [] = views"
| "fit_views encoded maximumBytes maximumItems views (v # rest) =
     (if maximumItems \<le> int (length views) then views
      else if 0 < maximumBytes \<and> maximumBytes < encoded (views @ [v]) then views
      else fit_views encoded maximumBytes maximumItems (views @ [v]) rest)"

definition brainEvidenceViews ::
  "(BrainEvidenceView list \<Rightarrow> int) \<Rightarrow> WorkflowState option \<Rightarrow> Evidence list \<Rightarrow> int \<Rightarrow> int \<Rightarrow> BrainEvidenceView list" where
  "brainEvidenceViews encoded state items maximumBytes maximumItems =
     (let limit = (if maximumItems \<le> 0 \<or> int (length items) < maximumItems then int (length items) else maximumItems)
      in fit_views encoded maximumBytes limit [] (map (evidence_view state) items))"

section \<open>World model, retrievals and tool results\<close>

definition brainWorldModelView :: "OperationalWorldModel option \<Rightarrow> OperationalWorldModel option" where
  "brainWorldModelView = map_option (\<lambda>m. m\<lparr>owm_Entities := boundedSlice (owm_Entities m) 20, owm_Relations := boundedSlice (owm_Relations m) 30,
     owm_AbnormalSignals := boundedSlice (owm_AbnormalSignals m) 20, owm_Timeline := boundedSlice (owm_Timeline m) 12,
     owm_MetricSignatures := boundedSlice (owm_MetricSignatures m) 12\<rparr>)"

record brainHybridRetrievalView =
  bhv_Channels :: "RetrievalChannel \<rightharpoonup> int"
  bhv_Unavailable :: "RetrievalChannel list"
  bhv_Errors :: "RetrievalChannel \<rightharpoonup> string"
  bhv_Final :: "RetrievalCandidate list"
  bhv_RerankerUsed :: bool
  bhv_SnapshotHash :: string
  bhv_RetrievedAt :: time

definition hybrid_view :: "HybridRetrievalResult \<Rightarrow> brainHybridRetrievalView" where
  "hybrid_view value =
     \<lparr>bhv_Channels = foldl (\<lambda>m c. m(hrcr_Channel c \<mapsto> int (length (hrcr_Candidates c)))) Map.empty (hrr_Channels value),
      bhv_Unavailable = map hrcr_Channel (filter (\<lambda>c. \<not> hrcr_Available c) (hrr_Channels value)),
      bhv_Errors = foldl (\<lambda>m c. if hrcr_Error c = [] then m else m(hrcr_Channel c \<mapsto> hrcr_Error c)) Map.empty (hrr_Channels value),
      bhv_Final = compactToolCandidates (hrr_Final value) 5, bhv_RerankerUsed = hrr_RerankerUsed value,
      bhv_SnapshotHash = hrr_SnapshotHash value, bhv_RetrievedAt = hrr_RetrievedAt value\<rparr>"

definition brainHybridRetrievalViews :: "HybridRetrievalResult list \<Rightarrow> int \<Rightarrow> brainHybridRetrievalView list" where
  "brainHybridRetrievalViews items limit =
     (if limit \<le> 0 \<or> items = [] then [] else map hybrid_view (tail_values items limit))"

definition compact_channels :: "HybridRetrievalResult \<Rightarrow> HybridRetrievalResult" where
  "compact_channels h = h\<lparr>hrr_Channels := map (\<lambda>c. c\<lparr>hrcr_Candidates := compactToolCandidates (hrcr_Candidates c) 5\<rparr>) (hrr_Channels h)\<rparr>"

text \<open>The projection and, second, the output after the projection has written to the channels the two share.\<close>

definition modelFacingBrainCapabilityOutput ::
  "(BrainEvidenceView list \<Rightarrow> int) \<Rightarrow> WorkflowState \<Rightarrow> brainCapabilityOutput \<Rightarrow> brainCapabilityOutput \<times> brainCapabilityOutput" where
  "modelFacingBrainCapabilityOutput encoded s result =
     (result\<lparr>out_EvidenceView := brainEvidenceViews encoded (Some s) (out_Evidence result) (32 * 1024) 12, out_Evidence := [],
        out_HistoricalIncidents := compactToolCandidates (out_HistoricalIncidents result) 5,
        out_HybridRetrieval := map_option (\<lambda>h. (compact_channels h)\<lparr>hrr_Fused := compactToolCandidates (hrr_Fused h) 10,
          hrr_Final := compactToolCandidates (hrr_Final h) 5\<rparr>) (out_HybridRetrieval result),
        out_Patterns := tail_values (out_Patterns result) 10\<rparr>,
      result\<lparr>out_HybridRetrieval := map_option compact_channels (out_HybridRetrieval result)\<rparr>)"

section \<open>Bounds\<close>

lemma fit_views_bounds:
  assumes "int (length views) \<le> n" "maximumBytes \<le> 0 \<or> views = [] \<or> encoded views \<le> maximumBytes"
  shows "int (length (fit_views encoded maximumBytes n views vs)) \<le> n"
    "maximumBytes \<le> 0 \<or> fit_views encoded maximumBytes n views vs = [] \<or> encoded (fit_views encoded maximumBytes n views vs) \<le> maximumBytes"
    "\<exists>k. fit_views encoded maximumBytes n views vs = views @ take k vs"
proof -
  show "int (length (fit_views encoded maximumBytes n views vs)) \<le> n"
    using assms by (induction vs arbitrary: views) auto
  show "maximumBytes \<le> 0 \<or> fit_views encoded maximumBytes n views vs = [] \<or> encoded (fit_views encoded maximumBytes n views vs) \<le> maximumBytes"
    using assms(2)
  proof (induction vs arbitrary: views)
    case (Cons v vs)
    then show ?case using Cons.IH [of "views @ [v]"]
      by (cases "0 < maximumBytes"; cases "maximumBytes < encoded (views @ [v])") auto
  qed simp
  show "\<exists>k. fit_views encoded maximumBytes n views vs = views @ take k vs"
  proof (induction vs arbitrary: views)
    case (Cons v vs)
    obtain k where "fit_views encoded maximumBytes n (views @ [v]) vs = (views @ [v]) @ take k vs" using Cons.IH by blast
    then show ?case by (auto intro: exI [of _ 0] exI [of _ "Suc k"])
  qed simp
qed

text \<open>The evidence shown to the model is a prefix of the evidence, one view per item and in order, with at most
  the allowed number of views and, when a limit on bytes is given, a JSON text within it.\<close>

theorem evidence_views_bounded:
  assumes "0 < maximumItems"
  shows "\<exists>k. brainEvidenceViews encoded state items maximumBytes maximumItems = map (evidence_view state) (take k items) \<and>
    int (length (brainEvidenceViews encoded state items maximumBytes maximumItems)) \<le> maximumItems \<and>
    (0 < maximumBytes \<longrightarrow> brainEvidenceViews encoded state items maximumBytes maximumItems = [] \<or>
       encoded (brainEvidenceViews encoded state items maximumBytes maximumItems) \<le> maximumBytes)"
proof -
  let ?n = "if maximumItems \<le> 0 \<or> int (length items) < maximumItems then int (length items) else maximumItems"
  have "0 \<le> ?n" "?n \<le> maximumItems" using assms by auto
  then show ?thesis
    using fit_views_bounds [of "[]" ?n maximumBytes encoded "map (evidence_view state) items"]
    by (fastforce simp: brainEvidenceViews_def Let_def take_map)
qed

lemma evidence_views_bounded_witness:
  "int (length (brainEvidenceViews (\<lambda>vs. 100 * int (length vs)) None [zero_Evidence, zero_Evidence, zero_Evidence] 250 8)) \<le> 8"
  using evidence_views_bounded [of 8 "\<lambda>vs. 100 * int (length vs)" None "[zero_Evidence, zero_Evidence, zero_Evidence]" 250] by auto

end
