(* ===== verification/Brain_State.thy ===== *)
theory Brain_State
  imports Brain_Context
begin

text \<open>The state updates of a Brain turn after the model has spoken (\<^verbatim>\<open>agent/brain_state.go\<close>): the results of
  tools are classified and recorded, their artefacts applied to the state, the observations derived
  again, grounding deltas read and belief deltas committed; malformed turns are recorded and
  corrected.  The incident and its investigation exist when these run: \<^verbatim>\<open>brainWorkflowState\<close> only
  returns a state with an incident, and the context builder creates the investigation before the
  first model call.  JSON encoding and decoding, and the derivations of other packages (ranking, assertions, features,
  topology, world model), are parameters.\<close>

record codec =
  cd_Intent :: "string \<Rightarrow> action_input"
  cd_Output :: "string \<Rightarrow> string + brainCapabilityOutput"
  cd_Encode :: "brainCapabilityOutput \<Rightarrow> string"
  cd_ViewSize :: "BrainEvidenceView list \<Rightarrow> int"
  cd_Rejection :: "ToolResultRecord \<Rightarrow> string"
  cd_Correction :: "WorkflowState \<Rightarrow> string \<Rightarrow> string"
  cd_RecordFails :: "MemoryAccessEvent \<Rightarrow> bool"

definition map_incident :: "(Incident \<Rightarrow> Incident) \<Rightarrow> WorkflowState \<Rightarrow> WorkflowState" where
  "map_incident f s = s\<lparr>ws_Incident := map_option f (ws_Incident s)\<rparr>"

section \<open>Applying the artefacts of a tool result\<close>

definition apply_evidence :: "brainCapabilityOutput \<Rightarrow> WorkflowState \<Rightarrow> WorkflowState" where
  "apply_evidence output s =
     (let s1 = (if out_Evidence output \<noteq> [] then map_incident (\<lambda>i. i\<lparr>inc_Evidence := mergeEvidence (inc_Evidence i) (out_Evidence output)\<rparr>) s else s)
      in if out_Patterns output \<noteq> [] then s1\<lparr>bs_BrainCausalPatterns := out_Patterns output\<rparr> else s1)"

definition retrieval_event :: "string \<Rightarrow> brainCapabilityOutput \<Rightarrow> MemoryAccessEvent \<Rightarrow> MemoryAccessEvent option" where
  "retrieval_event toolName output event =
     (if toolName = ''retrieve_incidents'' then
        Some (event\<lparr>mae_Kind := MemoryEpisodic, mae_ResultIDs := map rc_IncidentID (out_HistoricalIncidents output),
          mae_Results := map (\<lambda>c. \<lparr>mar_ID = rc_IncidentID c, mar_Score = rb_FinalScore (rc_Rank c), mar_Version = rc_Revision c\<rparr>) (out_HistoricalIncidents output)\<rparr>)
      else if toolName = ''retrieve_runbooks'' then
        Some (event\<lparr>mae_Kind := MemoryProcedural, mae_ResultIDs := map mr_ID (out_Memory output),
          mae_Results := map (\<lambda>m. \<lparr>mar_ID = mr_ID m, mar_Score = mr_Score m, mar_Version = mr_Version m\<rparr>) (out_Memory output)\<rparr>)
      else if toolName = ''retrieve_patterns'' then
        Some (event\<lparr>mae_Kind := MemorySemantic, mae_ResultIDs := map cp_ID (out_Patterns output),
          mae_Results := map (\<lambda>p. \<lparr>mar_ID = cp_ID p, mar_Score = cp_Confidence p, mar_Version = Itoa (cp_Version p)\<rparr>) (out_Patterns output)\<rparr>)
      else None)"

definition auditRetrieval :: "hasher \<Rightarrow> time \<Rightarrow> brainCapabilityOutput \<Rightarrow> WorkflowState \<Rightarrow> WorkflowState" where
  "auditRetrieval H now output s = (case ws_Incident s of None \<Rightarrow> s
     | Some i \<Rightarrow>
         if inc_Investigation i = None \<or> bs_ToolExecutions s = [] then s
         else
           let env = bte_Envelope (last (bs_ToolExecutions s));
               base = zero_MemoryAccessEvent\<lparr>mae_IncidentID := inc_ID i, mae_Agent := ''kubepilot-brain'',
                 mae_Scope := \<lparr>ms_Cluster = inc_Cluster i, ms_Namespace = inc_Namespace i\<rparr>, mae_QueryHash := H (HEnvelope env),
                 mae_PolicyVersion := es_PolicyHash (bs_ExecutionSnapshot s), mae_CreatedAt := now\<rparr>
           in (case retrieval_event (env_ToolName env) output base of None \<Rightarrow> s
               | Some event \<Rightarrow> map_investigation (\<lambda>v. v\<lparr>inv_MemoryReads := inv_MemoryReads v @ [event]\<rparr>) s))"

definition apply_retrieval :: "hasher \<Rightarrow> time \<Rightarrow> brainCapabilityOutput \<Rightarrow> WorkflowState \<Rightarrow> WorkflowState" where
  "apply_retrieval H now output s =
     (let s1 = (if bs_ToolExecutions s \<noteq> [] \<and> env_ToolCategory (bte_Envelope (last (bs_ToolExecutions s))) = BrainToolRetrieval \<and>
                   out_Class output = ToolResultValidation then auditRetrieval H now output s else s)
      in case out_HybridRetrieval output of None \<Rightarrow> s1 | Some h \<Rightarrow> s1\<lparr>bs_HybridRetrievals := bs_HybridRetrievals s1 @ [h]\<rparr>)"

definition retire_parents :: "AgentHypothesis \<Rightarrow> AgentHypothesis list \<Rightarrow> AgentHypothesis list" where
  "retire_parents h items =
     (if hyp_Relation h = HypothesisRoot then items
      else map (\<lambda>x. if hyp_ID x \<in> set (hyp_ParentIDs h)
                    then x\<lparr>hyp_Status := (if hyp_Relation h = HypothesisMerge then HypothesisMerged else HypothesisReplaced)\<rparr> else x) items)"

definition add_hypothesis :: "AgentHypothesis list \<Rightarrow> AgentHypothesis \<Rightarrow> AgentHypothesis list" where
  "add_hypothesis items h = retire_parents h items @ [h]"

definition apply_hypotheses :: "brainCapabilityOutput \<Rightarrow> WorkflowState \<Rightarrow> WorkflowState" where
  "apply_hypotheses output s =
     (let s1 = s\<lparr>bs_AgentHypotheses := foldl add_hypothesis (bs_AgentHypotheses s) (out_Hypotheses output)\<rparr>; b = bs_BrainBudget s1;
          s2 = (if out_Hypotheses output \<noteq> []
                then s1\<lparr>bs_BrainBudget := b\<lparr>bbs_Usage := (bbs_Usage b)\<lparr>bu_ActiveHypotheses := activeHypothesisCount (bs_AgentHypotheses s1),
                       bu_HypothesisBranches := hypothesisBranchCount (bs_AgentHypotheses s1)\<rparr>\<rparr>\<rparr> else s1)
      in s2\<lparr>bs_HypothesisAdmissions := bs_HypothesisAdmissions s2 @ out_Admissions output,
            bs_EvidenceAttributions := bs_EvidenceAttributions s2 @ out_EvidenceAttributions output\<rparr>)"

definition grounded_status :: "GroundingLevel \<Rightarrow> HypothesisStatus" where
  "grounded_status level = (case level of
       GroundingSupported \<Rightarrow> HypothesisSupported
     | GroundingRefuted \<Rightarrow> HypothesisRefuted
     | _ \<Rightarrow> HypothesisInvestigating)"

definition apply_grounding :: "brainCapabilityOutput \<Rightarrow> WorkflowState \<Rightarrow> WorkflowState" where
  "apply_grounding output s =
     (let s1 = (case out_Grounding output of None \<Rightarrow> s
            | Some g \<Rightarrow> s\<lparr>bs_HypothesisGroundings := replaceGrounding (bs_HypothesisGroundings s) g,
                bs_AgentHypotheses := map (\<lambda>h. if hyp_ID h = gr_HypothesisRevisionID g
                   then h\<lparr>hyp_LastValidatedAt := gr_ValidatedAt g, hyp_LastValidatedSnapshotHash := gr_EvidenceSnapshotHash g,
                          hyp_Status := grounded_status (gr_Level g)\<rparr> else h) (bs_AgentHypotheses s)\<rparr>);
          s2 = (case out_GroundingDelta output of None \<Rightarrow> s1 | Some d \<Rightarrow> s1\<lparr>bs_GroundingDeltas := bs_GroundingDeltas s1 @ [d]\<rparr>);
          s3 = s2\<lparr>bs_HypothesisComparisons := bs_HypothesisComparisons s2 @ out_Comparisons output\<rparr>
      in case out_BeliefDelta output of None \<Rightarrow> s3 | Some d \<Rightarrow> s3\<lparr>bs_BeliefDeltas := bs_BeliefDeltas s3 @ [d]\<rparr>)"

definition apply_plan :: "brainCapabilityOutput \<Rightarrow> WorkflowState \<Rightarrow> WorkflowState" where
  "apply_plan output s =
     (let s1 = (case out_Understanding output of None \<Rightarrow> s
            | Some u \<Rightarrow> s\<lparr>bs_IncidentUnderstanding := Some u, bs_BrainPhase := BrainPhasePlanning, bs_ActiveToolCategory := BrainToolReasoning\<rparr>)
      in case out_InvestigationPlan output of None \<Rightarrow> s1
         | Some plan \<Rightarrow> map_investigation (\<lambda>v. v\<lparr>inv_Plan := plan\<rparr>)
             (s1\<lparr>bs_InvestigationPlanHistory := bs_InvestigationPlanHistory s1 @ [plan], bs_InvestigationPlan := Some plan,
                 bs_BrainPhase := BrainPhaseInvestigation, bs_ActiveToolCategory := BrainToolReasoning\<rparr>))"

definition root_cause :: "AgentDiagnosis \<Rightarrow> Incident \<Rightarrow> Incident" where
  "root_cause d i =
     (let j = i\<lparr>inc_RootCause := diag_Statement d, inc_RootCauseCategory := diag_Category d, inc_RootCauseVariant := diag_Mechanism d,
                inc_RootCauseEvidenceIDs := diag_EvidenceIDs d, inc_Confidence := diag_ModelConfidence d\<rparr>
      in case diag_TargetRefs d of [] \<Rightarrow> j
         | t # _ \<Rightarrow> j\<lparr>inc_RootCauseService := (if ref_Service t = [] then ref_Resource t else ref_Service t),
                      inc_RootCauseResource := (if ref_Resource t = [] then ref_Service t else ref_Resource t)\<rparr>)"

definition apply_diagnosis :: "brainCapabilityOutput \<Rightarrow> WorkflowState \<Rightarrow> WorkflowState" where
  "apply_diagnosis output s =
     (let s1 = (case out_Diagnosis output of None \<Rightarrow> s
            | Some d \<Rightarrow>
                let t = map_incident (root_cause d) (s\<lparr>bs_AgentDiagnosis := Some d\<rparr>)
                in if out_DiagnosisFinalized output
                   then (if diag_Provisional d then t\<lparr>bs_BrainPhase := BrainPhaseEscalation, bs_ActiveToolCategory := BrainToolControl\<rparr>
                         else t\<lparr>bs_BrainPhase := BrainPhaseRecovery, bs_ActiveToolCategory := BrainToolRecovery\<rparr>)
                   else t);
          s2 = (case out_DiagnosisValidation output of None \<Rightarrow> s1
            | Some v \<Rightarrow> let t = s1\<lparr>bs_DiagnosisValidations := bs_DiagnosisValidations s1 @ [v]\<rparr>
                in if dv_Valid v then t else t\<lparr>bs_PendingReflection := Some ReflectionGroundingFailure\<rparr>)
      in case out_RecoveryPlan output of None \<Rightarrow> s2
         | Some plan \<Rightarrow> map_incident (\<lambda>i. i\<lparr>inc_Proposal := None, inc_DryRun := None\<rparr>)
             (s2\<lparr>bs_RecoveryPermission := None, ws_DryRun := None, bs_AgentRecoveryPlan := Some plan\<rparr>))"

definition apply_control :: "brainCapabilityOutput \<Rightarrow> WorkflowState \<Rightarrow> WorkflowState" where
  "apply_control output s =
     (let s1 = (if out_RequestedSkills output \<noteq> [] then s\<lparr>bs_RequestedSkills := out_RequestedSkills output\<rparr> else s);
          s2 = s1\<lparr>bs_SkillActivations := bs_SkillActivations s1 @ out_SkillActivations output\<rparr>;
          s3 = (if out_ReferenceContent output \<noteq> [] \<and> out_ReferenceID output \<noteq> []
                then s2\<lparr>bs_LoadedSkillReferences := (bs_LoadedSkillReferences s2)(out_ReferenceID output \<mapsto> out_ReferenceContent output)\<rparr> else s2);
          s4 = (if out_SelectedCategory output \<noteq> NoCategory then s3\<lparr>bs_ActiveToolCategory := out_SelectedCategory output\<rparr> else s3);
          s5 = (if out_NextPhase output \<noteq> NoPhase
                then s4\<lparr>bs_BrainPhase := out_NextPhase output, bs_ActiveToolCategory := defaultCategoryForPhase (out_NextPhase output)\<rparr> else s4)
      in case out_Termination output of None \<Rightarrow> s5 | Some t \<Rightarrow> s5\<lparr>bs_Termination := Some t\<rparr>)"

definition result_trigger :: "brainCapabilityOutput \<Rightarrow> ReflectionTrigger option" where
  "result_trigger output = (case out_Class output of
       ToolResultConstraint \<Rightarrow> Some ReflectionConstraintFailure
     | ToolResultError \<Rightarrow> Some ReflectionToolFailure
     | ToolResultEvidence \<Rightarrow> if out_NewInformation output then Some ReflectionCriticalEvidence else None
     | ToolResultValidation \<Rightarrow> (case out_Grounding output of
          Some g \<Rightarrow> if gr_Level g = GroundingRefuted then Some ReflectionHypothesisRefuted else None
        | None \<Rightarrow> None)
     | _ \<Rightarrow> None)"

definition apply_trigger :: "brainCapabilityOutput \<Rightarrow> WorkflowState \<Rightarrow> WorkflowState" where
  "apply_trigger output s = (case result_trigger output of None \<Rightarrow> s | Some t \<Rightarrow> s\<lparr>bs_PendingReflection := Some t\<rparr>)"

text \<open>A complete corrective reflection resumes the interrupted phase; a reflection owed to a failure after the
  mutation boundary ends the investigation with the pending reason.\<close>

definition reflection_resolved :: "brainCapabilityOutput \<Rightarrow> bool" where
  "reflection_resolved output = (out_BeliefDelta output \<noteq> None \<or> out_Hypotheses output \<noteq> [] \<or> out_RequestedSkills output \<noteq> [])"

definition accept_reflection :: "brainCapabilityOutput \<Rightarrow> ReflectionRecord \<Rightarrow> ReflectionRecord" where
  "accept_reflection output r =
     (let r1 = r\<lparr>refl_Accepted := True, refl_NextGoal := out_Summary output\<rparr>;
          r2 = (case out_BeliefDelta output of None \<Rightarrow> r1
                | Some d \<Rightarrow> r1\<lparr>refl_BeliefDeltas := refl_BeliefDeltas r1 @ [d],
                     refl_HypothesisRevisionIDs := appendUnique (refl_HypothesisRevisionIDs r1) (bd_HypothesisRevisionID d)\<rparr>)
      in r2\<lparr>refl_HypothesisRevisionIDs := foldl appendUnique (refl_HypothesisRevisionIDs r2) (map hyp_ID (out_Hypotheses output))\<rparr>)"

definition update_last :: "('a \<Rightarrow> 'a) \<Rightarrow> 'a list \<Rightarrow> 'a list" where
  "update_last f xs = (if xs = [] then [] else butlast xs @ [f (last xs)])"

definition apply_reflection :: "time \<Rightarrow> brainCapabilityOutput \<Rightarrow> WorkflowState \<Rightarrow> WorkflowState" where
  "apply_reflection now output s =
     (if bs_BrainPhase s = BrainPhaseReflection \<and> reflection_resolved output
      then let s1 = s\<lparr>bs_Reflections := update_last (accept_reflection output) (bs_Reflections s),
                      bs_BrainPhase := bs_ResumeBrainPhase s, bs_ResumeBrainPhase := NoPhase, bs_PendingReflection := None\<rparr>
           in if bs_PendingTermination s1 \<noteq> NoTermination
              then s1\<lparr>bs_Termination := Some (new_termination s1 (bs_PendingTermination s1)
                        [''recovery or verification failed after the mutation boundary''] now),
                      bs_PendingTermination := NoTermination\<rparr>
              else s1
      else s)"

definition applyCapabilityOutput :: "hasher \<Rightarrow> time \<Rightarrow> brainCapabilityOutput \<Rightarrow> WorkflowState \<Rightarrow> WorkflowState" where
  "applyCapabilityOutput H now output s =
     apply_reflection now output (apply_trigger output (apply_control output (apply_diagnosis output (apply_plan output
       (apply_grounding output (apply_hypotheses output (apply_retrieval H now output (apply_evidence output s))))))))"

section \<open>Classification of tool results\<close>

definition with_provenance :: "WorkflowState \<Rightarrow> AgentActionEnvelope \<Rightarrow> Message \<Rightarrow> time \<Rightarrow> ToolResultProvenance \<Rightarrow> ToolResultProvenance" where
  "with_provenance s env m now p =
     (let p1 = p\<lparr>prov_ToolCallID := msg_ToolCallID m, prov_ToolName := msg_ToolName m,
                 prov_ToolSchemaHash := es_ToolSchemaHash (bs_ExecutionSnapshot s),
                 prov_ObservedAt := (if prov_ObservedAt p = 0 then now else prov_ObservedAt p)\<rparr>;
          p2 = p1\<lparr>prov_WindowStart := (if prov_WindowStart p = 0 then prov_ObservedAt p1 else prov_WindowStart p),
                  prov_WindowEnd := (if prov_WindowEnd p = 0 then prov_ObservedAt p1 else prov_WindowEnd p)\<rparr>
      in if prov_TargetRefs p2 = [] then p2\<lparr>prov_TargetRefs := brainProvenanceTargets s env\<rparr> else p2)"

definition classified_output :: "hasher \<Rightarrow> codec \<Rightarrow> WorkflowState \<Rightarrow> AgentActionEnvelope \<Rightarrow> Message \<Rightarrow> time \<Rightarrow> brainCapabilityOutput" where
  "classified_output H C s env m now =
     (let raw = (case cd_Output C (msg_Content m) of Inr decoded \<Rightarrow> decoded
            | Inl err \<Rightarrow> errorBrainOutput H env (''tool result violated its structured output contract: '' @ err) False now)
      in raw\<lparr>out_Provenance := with_provenance s env m now (out_Provenance raw)\<rparr>)"

definition result_of_output :: "brainCapabilityOutput \<Rightarrow> time \<Rightarrow> ToolResultRecord" where
  "result_of_output output now =
     zero_ToolResultRecord\<lparr>trr_Class := out_Class output, trr_Provenance := out_Provenance output, trr_Status := out_Status output,
       trr_Summary := out_Summary output, trr_NewInformation := out_NewInformation output,
       trr_ConstraintCode := out_ConstraintCode output, trr_Infrastructure := out_Infrastructure output, trr_OccurredAt := now\<rparr>"

definition counted_call :: "BrainBudgetState \<Rightarrow> BrainBudgetState" where
  "counted_call b = (if bbs_ToolCallsExhausted b then b
     else b\<lparr>bbs_Usage := (bbs_Usage b)\<lparr>bu_ToolCalls := bu_ToolCalls (bbs_Usage b) + 1\<rparr>\<rparr>)"

definition count_tool_call :: "WorkflowState \<Rightarrow> WorkflowState" where
  "count_tool_call s = s\<lparr>bs_BrainBudget := counted_call (bs_BrainBudget s)\<rparr>"

definition record_tool_result :: "AgentActionEnvelope \<Rightarrow> ToolResultRecord \<Rightarrow> WorkflowState \<Rightarrow> WorkflowState" where
  "record_tool_result env result s =
     s\<lparr>bs_ToolExecutions := bs_ToolExecutions s @ [\<lparr>bte_Envelope = env, bte_Result = result\<rparr>],
       bs_Observations := bs_Observations s @ [result]\<rparr>"

definition memory_reads :: "WorkflowState \<Rightarrow> MemoryAccessEvent list" where
  "memory_reads s = (case ws_Incident s of None \<Rightarrow> []
     | Some i \<Rightarrow> (case inc_Investigation i of None \<Rightarrow> [] | Some v \<Rightarrow> inv_MemoryReads v))"

definition record_accesses :: "codec \<Rightarrow> nat \<Rightarrow> WorkflowState \<Rightarrow> WorkflowState" where
  "record_accesses C cursor s =
     s\<lparr>ws_Errors := ws_Errors s @ map (\<lambda>_. ''memory access audit persistence unavailable'')
         (filter (cd_RecordFails C) (drop cursor (memory_reads s)))\<rparr>"

text \<open>Up to the message that is shown to the model, and the output that is then applied.\<close>

definition begin_message :: "hasher \<Rightarrow> codec \<Rightarrow> time \<Rightarrow> WorkflowState \<Rightarrow> Incident \<Rightarrow> Message \<Rightarrow> WorkflowState \<times> brainCapabilityOutput" where
  "begin_message H C now s i m =
     (let env = envelopeFromToolCall H (cd_Intent C) s i (msg_ToolCallID m) (msg_ToolName m);
          result = classified_output H C s env m now;
          s1 = count_tool_call (record_tool_result env (result_of_output result now) s);
          (shown, applied) = modelFacingBrainCapabilityOutput (cd_ViewSize C) s1 result
      in (s1\<lparr>bs_BrainMessages := bs_BrainMessages s1 @ [Some (m\<lparr>msg_ReasoningContent := [], msg_Content := cd_Encode C shown\<rparr>)]\<rparr>, applied))"

definition classify_message :: "hasher \<Rightarrow> codec \<Rightarrow> time \<Rightarrow> WorkflowState \<Rightarrow> Message \<Rightarrow> WorkflowState" where
  "classify_message H C now s m = (case ws_Incident s of None \<Rightarrow> s
     | Some i \<Rightarrow> let (s2, applied) = begin_message H C now s i m
         in record_accesses C (length (memory_reads s2)) (applyCapabilityOutput H now applied s2))"

definition classifyToolResults :: "hasher \<Rightarrow> codec \<Rightarrow> time \<Rightarrow> WorkflowState \<Rightarrow> Message option list \<Rightarrow> WorkflowState" where
  "classifyToolResults H C now s messages =
     syncInvestigation (foldl (classify_message H C now) s
       (filter (\<lambda>m. msg_Role m = RoleTool) (concat (map (case_option [] (\<lambda>m. [m])) messages))))"

section \<open>Observation, grounding and belief\<close>

text \<open>The observations derived from the evidence: \<^verbatim>\<open>RankEvidence\<close> (None when it fails or no reasoning runtime is
  configured) with the runtime and the ranked evidence, the state assertions, the incident features,
  the topology graph and its dependency view, the world model, and whether storing the graph fails.\<close>

record derivations =
  der_Rank :: "Incident \<Rightarrow> Evidence list \<Rightarrow> (Evidence list \<times> Evidence list) option"
  der_Assertions :: "Incident \<Rightarrow> Evidence list \<Rightarrow> StateAssertion list \<Rightarrow> time \<Rightarrow> StateAssertion list"
  der_Features :: "Incident \<Rightarrow> Evidence list \<Rightarrow> IncidentFeatures"
  der_Topology :: "Incident \<Rightarrow> Evidence list \<Rightarrow> IncidentGraph"
  der_Dependencies :: "IncidentGraph \<Rightarrow> string \<Rightarrow> IncidentDependencyGraph"
  der_WorldModel :: "Incident \<Rightarrow> Evidence list \<Rightarrow> IncidentGraph \<Rightarrow> OperationalWorldModel"
  der_PutFails :: "IncidentGraph \<Rightarrow> bool"

definition rank_runtime :: "derivations \<Rightarrow> time \<Rightarrow> Incident \<Rightarrow> WorkflowState \<Rightarrow> WorkflowState" where
  "rank_runtime D now i s = (case (if inc_Evidence i = [] then None else der_Rank D i (inc_Evidence i)) of
       None \<Rightarrow> s
     | Some (runtime, ranked) \<Rightarrow>
         let evidence = (if runtime = [] then ranked else runtime);
             j = i\<lparr>inc_Evidence := mergeEvidence (inc_Evidence i) evidence\<rparr>
         in s\<lparr>bs_RuntimeEvidence := evidence, ws_Incident := Some j,
              bs_RuntimeAssertions := der_Assertions D j evidence (bs_RuntimeAssertions s) now,
              bs_RuntimeFeatures := der_Features D j evidence\<rparr>)"

definition observe_topology :: "derivations \<Rightarrow> Incident \<Rightarrow> IncidentGraph \<Rightarrow> WorkflowState \<Rightarrow> WorkflowState" where
  "observe_topology D i g s =
     (if ig_Nodes g \<noteq> [] \<or> ig_Edges g \<noteq> []
      then s\<lparr>bs_RuntimeTopology := Some g,
             bs_RuntimeFeatures := (bs_RuntimeFeatures s)\<lparr>if_TopologyGraph := der_Dependencies D g (inc_Service i)\<rparr>,
             ws_Errors := ws_Errors s @ (if der_PutFails D g then [''incident topology graph persistence unavailable''] else [])\<rparr>
      else s)"

definition invalidate_stale :: "string \<Rightarrow> WorkflowState \<Rightarrow> WorkflowState" where
  "invalidate_stale previous s =
     (if previous \<noteq> [] \<and> previous \<noteq> bs_EvidenceSnapshotHash s
      then let s1 = s\<lparr>bs_AgentHypotheses := InvalidateStaleHypotheses (bs_AgentHypotheses s) (bs_EvidenceSnapshotHash s)\<rparr>
           in (case bs_AgentDiagnosis s1 of
                 None \<Rightarrow> s1
               | Some d \<Rightarrow>
                   if diag_EvidenceSnapshotHash d \<noteq> bs_EvidenceSnapshotHash s
                   then map_incident (\<lambda>i. i\<lparr>inc_Proposal := None, inc_DryRun := None\<rparr>)
                          (s1\<lparr>bs_AgentDiagnosis := Some (d\<lparr>diag_Provisional := True\<rparr>), bs_AgentRecoveryPlan := None, ws_DryRun := None\<rparr>)
                   else s1)
      else s)"

definition observationUpdate :: "hasher \<Rightarrow> derivations \<Rightarrow> time \<Rightarrow> WorkflowState \<Rightarrow> WorkflowState" where
  "observationUpdate H D now s = (case ws_Incident s of None \<Rightarrow> s
     | Some i0 \<Rightarrow>
         let s1 = rank_runtime D now i0 s in
         (case ws_Incident s1 of None \<Rightarrow> s1
          | Some i \<Rightarrow>
              let g = der_Topology D i (inc_Evidence i);
                  s2 = observe_topology D i g s1;
                  s3 = s2\<lparr>bs_WorldModel := Some (der_WorldModel D i (inc_Evidence i) g),
                          bs_EvidenceSnapshotHash := EvidenceSnapshotHash H (inc_Evidence i)\<rparr>
              in syncInvestigation (invalidate_stale (bs_EvidenceSnapshotHash s) s3)))"

definition beliefUpdate :: "WorkflowState \<Rightarrow> WorkflowState" where
  "beliefUpdate s =
     (if bs_GroundingDeltaCursor s < int (length (bs_GroundingDeltas s))
      then let delta = last (bs_GroundingDeltas s); s1 = s\<lparr>bs_GroundingDeltaCursor := int (length (bs_GroundingDeltas s))\<rparr>
           in if gd_SuggestedRevisionNeed delta then s1\<lparr>bs_PendingReflection := Some ReflectionGroundingFailure\<rparr>
              else if gd_ConflictDetected delta then s1\<lparr>bs_PendingReflection := Some ReflectionCandidateConflict\<rparr>
              else s1
      else s)"

fun hypothesis_index :: "string \<Rightarrow> AgentHypothesis list \<Rightarrow> nat option" where
  "hypothesis_index hid [] = None"
| "hypothesis_index hid (h # hs) = (if hyp_ID h = hid then Some 0 else map_option Suc (hypothesis_index hid hs))"

definition quote_id :: "string \<Rightarrow> string" where "quote_id x = [CHR 0x22] @ x @ [CHR 0x22]"

definition advance_belief_cursor :: "WorkflowState \<Rightarrow> WorkflowState" where
  "advance_belief_cursor s = s\<lparr>bs_BeliefDeltaCursor := bs_BeliefDeltaCursor s + 1\<rparr>"

text \<open>The loop of \<^verbatim>\<open>beliefCommit\<close> over the deltas behind the cursor.\<close>

fun commit_deltas :: "BeliefDelta list \<Rightarrow> WorkflowState \<Rightarrow> node_result" where
  "commit_deltas [] s = (s, None)"
| "commit_deltas (delta # rest) s =
     (if \<not> bd_Committed delta then commit_deltas rest (advance_belief_cursor s)
      else case hypothesis_index (bd_HypothesisRevisionID delta) (bs_AgentHypotheses s) of
        None \<Rightarrow> (s, Some (NodeError (''belief commit references unknown hypothesis revision '' @ quote_id (bd_HypothesisRevisionID delta))))
      | Some n \<Rightarrow>
          if hyp_ModelConfidence (bs_AgentHypotheses s ! n) \<noteq> bd_PreviousConfidence delta
          then (s, Some (NodeError (''belief commit previous confidence does not match current revision '' @ quote_id (bd_HypothesisRevisionID delta))))
          else (case CommitBelief (bs_AgentHypotheses s ! n) delta of
                  Inl _ \<Rightarrow> (s, Some (NodeError ''commit Brain belief''))
                | Inr updated \<Rightarrow> commit_deltas rest (advance_belief_cursor (s\<lparr>bs_AgentHypotheses := (bs_AgentHypotheses s)[n := updated]\<rparr>))))"

definition beliefCommit :: "WorkflowState \<Rightarrow> node_result" where
  "beliefCommit s = (case commit_deltas (drop (nat (bs_BeliefDeltaCursor s)) (bs_BeliefDeltas s)) s of
       (t, None) \<Rightarrow> (syncInvestigation t, None)
     | failed \<Rightarrow> failed)"

section \<open>Malformed turns\<close>

definition grant_correction :: "string \<Rightarrow> (WorkflowState \<Rightarrow> string) \<Rightarrow> time \<Rightarrow> WorkflowState \<Rightarrow> WorkflowState" where
  "grant_correction gap wording now s =
     (let b = bs_BrainBudget s in
      if bb_MaxStructuredCorrections (bbs_Limits b) \<le> bu_StructuredCorrections (bbs_Usage b)
      then s\<lparr>bs_Termination := Some (new_termination s TerminationBudgetExhausted [gap] now)\<rparr>
      else let s1 = s\<lparr>bs_BrainBudget := b\<lparr>bbs_Usage := (bbs_Usage b)\<lparr>bu_StructuredCorrections := bu_StructuredCorrections (bbs_Usage b) + 1\<rparr>\<rparr>\<rparr>
           in s1\<lparr>bs_BrainMessages := bs_BrainMessages s1 @
                  [Some (zero_Message\<lparr>msg_Role := RoleUser, msg_Content := wording s1\<rparr>)]\<rparr>)"

definition guard_provenance :: "string \<Rightarrow> string \<Rightarrow> string \<Rightarrow> string \<Rightarrow> WorkflowState \<Rightarrow> AgentActionEnvelope \<Rightarrow> string \<Rightarrow> time \<Rightarrow> ToolResultProvenance" where
  "guard_provenance callID toolName collector parser s env artifact now =
     zero_ToolResultProvenance\<lparr>prov_ToolCallID := callID, prov_ToolName := toolName, prov_Collector := collector,
       prov_ToolSchemaHash := es_ToolSchemaHash (bs_ExecutionSnapshot s), prov_TargetRefs := brainProvenanceTargets s env,
       prov_WindowStart := now, prov_WindowEnd := now, prov_ObservedAt := now, prov_RawArtifactHash := artifact,
       prov_ParserVersion := parser\<rparr>"

definition unstructured_intent :: AgentActionIntent where
  "unstructured_intent = zero_AgentActionIntent\<lparr>intent_Intent := ''reject an unstructured Assistant turn'',
     intent_ExpectedObservation := [''one native call to an exposed structured tool on the corrective turn'']\<rparr>"

definition unstructured_summary :: string where
  "unstructured_summary = ''Brain turn ended without a native structured tool call; the corrective turn must call one exposed tool and may request only exact IDs from available_optional_skills''"

definition handleUnstructured :: "hasher \<Rightarrow> codec \<Rightarrow> string \<Rightarrow> time \<Rightarrow> WorkflowState \<Rightarrow> Message option \<Rightarrow> WorkflowState" where
  "handleUnstructured H C ulid now s message = (case ws_Incident s of None \<Rightarrow> s
     | Some i \<Rightarrow>
         let env = newBrainEnvelope H s i ulid ''structured_output_guard'' BrainToolControl unstructured_intent;
             flags = (case message of None \<Rightarrow> [False, False, False]
                      | Some m \<Rightarrow> [True, TrimSpace (msg_Content m) \<noteq> [], TrimSpace (msg_ReasoningContent m) \<noteq> []]);
             result = zero_ToolResultRecord\<lparr>trr_Class := ToolResultConstraint, trr_Status := ''REJECTED'',
               trr_Summary := unstructured_summary, trr_ConstraintCode := ''structured_action_required'', trr_OccurredAt := now,
               trr_Provenance := guard_provenance (env_ActionID env) (env_ToolName env) ''brain-action-gateway''
                 ''structured-output-guard-v2'' s env (H (HFlags flags)) now\<rparr>
         in syncInvestigation (grant_correction ''structured action correction budget exhausted''
              (\<lambda>t. cd_Correction C t (trr_Summary result)) now (record_tool_result env result s)))"

text \<open>\<^verbatim>\<open>invalid\<close> maps a call identity to the error of the last call with this identity whose arguments do not match
  the schema; \<^verbatim>\<open>check\<close> is \<^verbatim>\<open>ValidateArgumentsForNode\<close> of the active category, None for valid arguments.  Runs of white
  space in the message of the error are compacted by \<^verbatim>\<open>strings.Fields\<close>; the limit is 480 bytes.\<close>

definition invalid_calls :: "(ToolCall \<Rightarrow> string option) \<Rightarrow> ToolCall list \<Rightarrow> (string \<rightharpoonup> string)" where
  "invalid_calls check calls = foldl (\<lambda>m c. case check c of None \<Rightarrow> m | Some err \<Rightarrow> m(call_ID c \<mapsto> err)) Map.empty calls"

fun split_fields :: "string \<Rightarrow> string \<Rightarrow> string list" where
  "split_fields part [] = (if part = [] then [] else [rev part])"
| "split_fields part (c # cs) =
     (if IsSpace c then (if part = [] then [] else [rev part]) @ split_fields [] cs else split_fields (c # part) cs)"

definition Fields :: "string \<Rightarrow> string list" where "Fields s = split_fields [] s"

definition compactToolArgumentError :: "string option \<Rightarrow> string" where
  "compactToolArgumentError err = (case err of None \<Rightarrow> ''arguments do not match the exposed schema''
     | Some msg \<Rightarrow> let value = Join (Fields msg) '' '' in if length value > 480 then take 480 value @ ''...'' else value)"

definition rejection_code :: "(string \<rightharpoonup> string) \<Rightarrow> ToolCall \<Rightarrow> string" where
  "rejection_code invalid call = (if invalid (call_ID call) \<noteq> None then ''invalid_tool_arguments'' else ''atomic_tool_batch_invalid'')"

definition rejection_summary :: "(string \<rightharpoonup> string) \<Rightarrow> ToolCall \<Rightarrow> string" where
  "rejection_summary invalid call = (case invalid (call_ID call) of
       Some err \<Rightarrow> ''tool arguments were rejected before execution: '' @ compactToolArgumentError (Some err)
     | None \<Rightarrow> ''tool call was not executed because another call in the same Assistant batch had invalid arguments'')"

definition reject_call ::
  "hasher \<Rightarrow> codec \<Rightarrow> (string \<rightharpoonup> string) \<Rightarrow> Incident \<Rightarrow> time \<Rightarrow> WorkflowState \<Rightarrow> ToolCall \<Rightarrow> WorkflowState" where
  "reject_call H C invalid i now s call =
     (let env = envelopeFromToolCall H (cd_Intent C) s i (call_ID call) (call_Name call);
          code = rejection_code invalid call;
          result = zero_ToolResultRecord\<lparr>trr_Class := ToolResultError, trr_Status := ''REJECTED'',
            trr_Summary := rejection_summary invalid call, trr_ConstraintCode := code, trr_OccurredAt := now,
            trr_Provenance := guard_provenance (call_ID call) (call_Name call) ''brain-tool-argument-guard'' ''brain-tool-argument-guard-v1''
              s env (H (HToolRejection (call_Name call) (H (HString (call_Arguments call))) code)) now\<rparr>;
          s1 = count_tool_call (record_tool_result env result s)
      in s1\<lparr>bs_BrainMessages := bs_BrainMessages s1 @
             [Some (zero_Message\<lparr>msg_Role := RoleTool, msg_Content := cd_Rejection C result,
                      msg_ToolCallID := call_ID call, msg_ToolName := call_Name call\<rparr>)]\<rparr>)"

definition argument_correction_summary :: string where
  "argument_correction_summary = ''The previous native ToolCall batch was not executed. Every call received a Tool result. Retry with exactly one JSON object that matches the exposed tool schema.''"

definition handleInvalidToolArguments ::
  "hasher \<Rightarrow> codec \<Rightarrow> (BrainToolCategory \<Rightarrow> ToolCall \<Rightarrow> string option) \<Rightarrow> string \<Rightarrow> time \<Rightarrow> WorkflowState \<Rightarrow> Message option \<Rightarrow> node_result" where
  "handleInvalidToolArguments H C check ulid now s message = (case ws_Incident s of
       None \<Rightarrow> (s, Some (NodeError ''brain workflow state is unavailable''))
     | Some i \<Rightarrow> (case message of
         None \<Rightarrow> (handleUnstructured H C ulid now s None, None)
       | Some m \<Rightarrow>
           if msg_ToolCalls m = [] then (handleUnstructured H C ulid now s (Some m), None)
           else let invalid = invalid_calls (check (effectiveToolCategory s)) (msg_ToolCalls m) in
             if dom invalid = {} then (s, Some (NodeError ''tool argument guard invoked without an invalid ToolCall''))
             else let s1 = foldl (reject_call H C invalid i now) s (msg_ToolCalls m);
                      s2 = grant_correction ''structured action correction budget exhausted after invalid ToolCall arguments''
                             (\<lambda>t. cd_Correction C t argument_correction_summary) now s1
                  in (syncInvestigation (s2\<lparr>bs_PendingReflection := None\<rparr>), None)))"

section \<open>What the updates keep\<close>

lemma map_incident_fields [simp]:
  "bs_AgentHypotheses (map_incident f s) = bs_AgentHypotheses s" "bs_BeliefDeltas (map_incident f s) = bs_BeliefDeltas s"
  "bs_BeliefDeltaCursor (map_incident f s) = bs_BeliefDeltaCursor s" "bs_BrainBudget (map_incident f s) = bs_BrainBudget s"
  "bs_AgentDiagnosis (map_incident f s) = bs_AgentDiagnosis s" "bs_AgentRecoveryPlan (map_incident f s) = bs_AgentRecoveryPlan s"
  "bs_RecoveryPermission (map_incident f s) = bs_RecoveryPermission s" "ws_DryRun (map_incident f s) = ws_DryRun s"
  "bs_EvidenceSnapshotHash (map_incident f s) = bs_EvidenceSnapshotHash s" "bs_BrainPhase (map_incident f s) = bs_BrainPhase s"
  "bs_Termination (map_incident f s) = bs_Termination s" "bs_Reflections (map_incident f s) = bs_Reflections s"
  "bs_PendingReflection (map_incident f s) = bs_PendingReflection s" "bs_ResumeBrainPhase (map_incident f s) = bs_ResumeBrainPhase s"
  "bs_PendingTermination (map_incident f s) = bs_PendingTermination s" "bs_BrainMessages (map_incident f s) = bs_BrainMessages s"
  "bs_BrainTurns (map_incident f s) = bs_BrainTurns s" "bs_ToolExecutions (map_incident f s) = bs_ToolExecutions s"
  "ws_Incident (map_incident f s) = map_option f (ws_Incident s)"
  by (simp_all add: map_incident_def)

lemma map_inv_fields [simp]:
  "bs_AgentHypotheses (map_investigation f s) = bs_AgentHypotheses s" "bs_BeliefDeltas (map_investigation f s) = bs_BeliefDeltas s"
  "bs_BeliefDeltaCursor (map_investigation f s) = bs_BeliefDeltaCursor s" "bs_BrainBudget (map_investigation f s) = bs_BrainBudget s"
  "bs_AgentDiagnosis (map_investigation f s) = bs_AgentDiagnosis s" "bs_AgentRecoveryPlan (map_investigation f s) = bs_AgentRecoveryPlan s"
  "bs_RecoveryPermission (map_investigation f s) = bs_RecoveryPermission s" "ws_DryRun (map_investigation f s) = ws_DryRun s"
  "bs_EvidenceSnapshotHash (map_investigation f s) = bs_EvidenceSnapshotHash s" "bs_BrainPhase (map_investigation f s) = bs_BrainPhase s"
  "bs_Termination (map_investigation f s) = bs_Termination s" "bs_Reflections (map_investigation f s) = bs_Reflections s"
  "bs_PendingReflection (map_investigation f s) = bs_PendingReflection s" "bs_ResumeBrainPhase (map_investigation f s) = bs_ResumeBrainPhase s"
  "bs_PendingTermination (map_investigation f s) = bs_PendingTermination s" "bs_BrainMessages (map_investigation f s) = bs_BrainMessages s"
  "bs_BrainTurns (map_investigation f s) = bs_BrainTurns s" "bs_ToolExecutions (map_investigation f s) = bs_ToolExecutions s"
  by (simp_all add: map_investigation_def)

lemma sync_form: "\<exists>i. syncInvestigation s = s\<lparr>ws_Incident := i\<rparr>"
  by (cases "ws_Incident s"; cases "inc_Investigation (the (ws_Incident s))") (auto simp: syncInvestigation_def intro: exI [of _ "ws_Incident s"])

lemma sync_fields_kept [simp]:
  "bs_AgentHypotheses (syncInvestigation s) = bs_AgentHypotheses s" "bs_BeliefDeltas (syncInvestigation s) = bs_BeliefDeltas s"
  "bs_BeliefDeltaCursor (syncInvestigation s) = bs_BeliefDeltaCursor s" "bs_BrainBudget (syncInvestigation s) = bs_BrainBudget s"
  "bs_AgentDiagnosis (syncInvestigation s) = bs_AgentDiagnosis s" "bs_AgentRecoveryPlan (syncInvestigation s) = bs_AgentRecoveryPlan s"
  "bs_RecoveryPermission (syncInvestigation s) = bs_RecoveryPermission s" "ws_DryRun (syncInvestigation s) = ws_DryRun s"
  "bs_EvidenceSnapshotHash (syncInvestigation s) = bs_EvidenceSnapshotHash s" "bs_BrainPhase (syncInvestigation s) = bs_BrainPhase s"
  "bs_Termination (syncInvestigation s) = bs_Termination s" "bs_Reflections (syncInvestigation s) = bs_Reflections s"
  "bs_PendingReflection (syncInvestigation s) = bs_PendingReflection s" "bs_ResumeBrainPhase (syncInvestigation s) = bs_ResumeBrainPhase s"
  "bs_PendingTermination (syncInvestigation s) = bs_PendingTermination s" "bs_BrainMessages (syncInvestigation s) = bs_BrainMessages s"
  "bs_BrainTurns (syncInvestigation s) = bs_BrainTurns s" "bs_ToolExecutions (syncInvestigation s) = bs_ToolExecutions s"
  using sync_form [of s] by (auto)

lemma sync_incident:
  "ws_Incident (syncInvestigation s) = Some j \<Longrightarrow>
     \<exists>i. ws_Incident s = Some i \<and> inc_Proposal j = inc_Proposal i \<and> inc_DryRun j = inc_DryRun i \<and> inc_Evidence j = inc_Evidence i"
  by (auto simp: syncInvestigation_def split: option.splits)

section \<open>Properties\<close>

definition confidences :: "AgentHypothesis list \<Rightarrow> (string \<times> rat) list" where
  "confidences hs = map (\<lambda>h. (hyp_ID h, hyp_ModelConfidence h)) hs"

lemma confidences_map: "(\<And>h. hyp_ID (f h) = hyp_ID h \<and> hyp_ModelConfidence (f h) = hyp_ModelConfidence h) \<Longrightarrow> confidences (map f hs) = confidences hs"
  by (simp add: confidences_def)

lemma confidences_append [simp]: "confidences (xs @ ys) = confidences xs @ confidences ys"
  by (simp add: confidences_def)

lemma confidences_retire [simp]: "confidences (retire_parents h items) = confidences items"
  by (simp add: retire_parents_def confidences_map)

lemma confidences_add: "prefix (confidences items) (confidences (foldl add_hypothesis items hs))"
proof (induction hs arbitrary: items)
  case (Cons h hs)
  have "prefix (confidences items) (confidences (add_hypothesis items h))" by (simp add: add_hypothesis_def)
  from prefix_order.trans [OF this Cons.IH] show ?case by simp
qed simp

lemma confidences_stale [simp]: "confidences (InvalidateStaleHypotheses hs snapshot) = confidences hs"
  by (simp add: InvalidateStaleHypotheses_def confidences_map)

lemma retrieval_hypotheses [simp]: "bs_AgentHypotheses (apply_retrieval H now output s) = bs_AgentHypotheses s"
  by (simp add: apply_retrieval_def auditRetrieval_def Let_def split: option.split)

lemma evidence_hypotheses [simp]: "bs_AgentHypotheses (apply_evidence output s) = bs_AgentHypotheses s"
  by (simp add: apply_evidence_def Let_def)

lemma hypotheses_confidences: "prefix (confidences (bs_AgentHypotheses s)) (confidences (bs_AgentHypotheses (apply_hypotheses output s)))"
  by (simp add: apply_hypotheses_def Let_def confidences_add)

lemma grounding_confidences [simp]: "confidences (bs_AgentHypotheses (apply_grounding output s)) = confidences (bs_AgentHypotheses s)"
  by (simp add: apply_grounding_def Let_def confidences_map split: option.split)

lemma later_hypotheses [simp]:
  "bs_AgentHypotheses (apply_plan output s) = bs_AgentHypotheses s"
  "bs_AgentHypotheses (apply_diagnosis output s) = bs_AgentHypotheses s"
  "bs_AgentHypotheses (apply_control output s) = bs_AgentHypotheses s"
  "bs_AgentHypotheses (apply_trigger output s) = bs_AgentHypotheses s"
  "bs_AgentHypotheses (apply_reflection now output s) = bs_AgentHypotheses s"
  by (simp_all add: apply_plan_def apply_diagnosis_def apply_control_def apply_trigger_def apply_reflection_def Let_def split: option.split)

lemma output_confidences:
  "prefix (confidences (bs_AgentHypotheses s)) (confidences (bs_AgentHypotheses (applyCapabilityOutput H now output s)))"
  using hypotheses_confidences [of "apply_retrieval H now output (apply_evidence output s)" "output"]
  by (simp add: applyCapabilityOutput_def)

lemma confidences_of_appends [simp]:
  "bs_AgentHypotheses (record_tool_result env r s) = bs_AgentHypotheses s"
  "bs_AgentHypotheses (count_tool_call s) = bs_AgentHypotheses s"
  "bs_AgentHypotheses (record_accesses C n s) = bs_AgentHypotheses s"
  "bs_AgentHypotheses (grant_correction gap wording now s) = bs_AgentHypotheses s"
  "bs_AgentHypotheses (reject_call H C invalid i now s call) = bs_AgentHypotheses s"
  by (simp_all add: record_tool_result_def count_tool_call_def record_accesses_def grant_correction_def reject_call_def Let_def)

lemma begin_message_kept [simp]:
  "bs_AgentHypotheses (fst (begin_message H C now s i m)) = bs_AgentHypotheses s"
  "bs_HybridRetrievals (fst (begin_message H C now s i m)) = bs_HybridRetrievals s"
  "bs_BrainBudget (fst (begin_message H C now s i m)) = counted_call (bs_BrainBudget s)"
  "ws_Incident (fst (begin_message H C now s i m)) = ws_Incident s"
  by (simp_all add: begin_message_def Let_def modelFacingBrainCapabilityOutput_def count_tool_call_def record_tool_result_def)

lemma message_confidences:
  "prefix (confidences (bs_AgentHypotheses s)) (confidences (bs_AgentHypotheses (classify_message H C now s m)))"
proof (cases "ws_Incident s")
  case (Some i)
  then show ?thesis
    using output_confidences [of "fst (begin_message H C now s i m)" H now "snd (begin_message H C now s i m)"]
    by (simp add: classify_message_def split_beta)
qed (simp add: classify_message_def)

lemma fold_prefix:
  assumes "\<And>s m. prefix (f s) (f (g s m))"
  shows "prefix (f s) (f (foldl g s ms))"
  by (induction ms arbitrary: s) (auto intro: prefix_order.trans [OF assms])

lemma rejected_hypotheses [simp]: "bs_AgentHypotheses (foldl (reject_call H C invalid i now) s calls) = bs_AgentHypotheses s"
  by (induction calls arbitrary: s) simp_all

lemma unstructured_hypotheses [simp]: "bs_AgentHypotheses (handleUnstructured H C ulid now s m) = bs_AgentHypotheses s"
  by (simp add: handleUnstructured_def Let_def split: option.split)

lemma rank_runtime_hypotheses [simp]: "bs_AgentHypotheses (rank_runtime D now i s) = bs_AgentHypotheses s"
  by (simp add: rank_runtime_def Let_def split: option.split prod.split)

lemma observe_topology_hypotheses [simp]: "bs_AgentHypotheses (observe_topology D i g s) = bs_AgentHypotheses s"
  by (simp add: observe_topology_def)

lemma invalidate_confidences [simp]: "confidences (bs_AgentHypotheses (invalidate_stale previous s)) = confidences (bs_AgentHypotheses s)"
  by (simp add: invalidate_stale_def Let_def split: option.split)

text \<open>C10. The subjective confidence of a hypothesis belongs to the belief commit: no other state update of a turn
  changes the identity or the confidence of a hypothesis that is already there.  Classifying tool
  results may append hypotheses; the observation update, the grounding update and the two guards for
  malformed turns leave the list of confidences as it is.\<close>

theorem confidence_only_by_commit:
  "prefix (confidences (bs_AgentHypotheses s)) (confidences (bs_AgentHypotheses (classifyToolResults H C now s messages))) \<and>
   confidences (bs_AgentHypotheses (observationUpdate H D now s)) = confidences (bs_AgentHypotheses s) \<and>
   confidences (bs_AgentHypotheses (beliefUpdate s)) = confidences (bs_AgentHypotheses s) \<and>
   confidences (bs_AgentHypotheses (handleUnstructured H C ulid now s message)) = confidences (bs_AgentHypotheses s) \<and>
   confidences (bs_AgentHypotheses (fst (handleInvalidToolArguments H C check ulid now s message))) = confidences (bs_AgentHypotheses s)"
proof (intro conjI)
  show "prefix (confidences (bs_AgentHypotheses s)) (confidences (bs_AgentHypotheses (classifyToolResults H C now s messages)))"
    unfolding classifyToolResults_def sync_fields_kept
    by (rule fold_prefix [where f = "\<lambda>s. confidences (bs_AgentHypotheses s)"]) (rule message_confidences)
  show "confidences (bs_AgentHypotheses (observationUpdate H D now s)) = confidences (bs_AgentHypotheses s)"
    by (simp add: observationUpdate_def Let_def split: option.split)
  show "confidences (bs_AgentHypotheses (beliefUpdate s)) = confidences (bs_AgentHypotheses s)"
    by (simp add: beliefUpdate_def Let_def)
  show "confidences (bs_AgentHypotheses (fst (handleInvalidToolArguments H C check ulid now s message))) = confidences (bs_AgentHypotheses s)"
    by (simp add: handleInvalidToolArguments_def Let_def split: option.split)
qed simp

definition confidence_of :: "string \<Rightarrow> AgentHypothesis list \<Rightarrow> rat option" where
  "confidence_of hid hs = map_option (\<lambda>n. hyp_ModelConfidence (hs ! n)) (hypothesis_index hid hs)"

definition last_committed :: "string \<Rightarrow> BeliefDelta list \<Rightarrow> rat option" where
  "last_committed hid ds = map_option bd_NewConfidence (find (\<lambda>d. bd_Committed d \<and> bd_HypothesisRevisionID d = hid) (rev ds))"

lemma hypothesis_index_SomeD: "hypothesis_index hid hs = Some n \<Longrightarrow> n < length hs \<and> hyp_ID (hs ! n) = hid"
  by (induction hs arbitrary: n) (auto split: if_splits)

lemma hypothesis_index_ids: "map hyp_ID hs = map hyp_ID hs' \<Longrightarrow> hypothesis_index hid hs = hypothesis_index hid hs'"
proof (induction hs arbitrary: hs')
  case (Cons h hs)
  then show ?case by (cases hs') auto
qed simp

lemma find_append: "find P (xs @ ys) = (case find P xs of None \<Rightarrow> find P ys | r \<Rightarrow> r)"
  by (induction xs) auto

lemma last_committed_Cons:
  "last_committed hid (d # ds) = (case last_committed hid ds of Some c \<Rightarrow> Some c
     | None \<Rightarrow> if bd_Committed d \<and> bd_HypothesisRevisionID d = hid then Some (bd_NewConfidence d) else None)"
  by (simp add: last_committed_def find_append split: option.split)

lemma advance_belief_cursor_fields [simp]:
  "bs_AgentHypotheses (advance_belief_cursor s) = bs_AgentHypotheses s" "bs_BeliefDeltas (advance_belief_cursor s) = bs_BeliefDeltas s"
  "bs_BeliefDeltaCursor (advance_belief_cursor s) = bs_BeliefDeltaCursor s + 1"
  by (simp_all add: advance_belief_cursor_def)

lemma CommitBelief_result:
  "CommitBelief h delta = Inr u \<Longrightarrow> u = h\<lparr>hyp_ModelConfidence := bd_NewConfidence delta\<rparr> \<and> 0 \<le> bd_NewConfidence delta \<and> bd_NewConfidence delta \<le> 1"
  by (auto simp: CommitBelief_def Let_def split: if_splits BeliefDirection.splits)

text \<open>One committed delta: the hypothesis it names is the first with this identity, and only its confidence moves.\<close>

lemma commit_step:
  assumes "commit_deltas (d # ds) s = (t, None)" "bd_Committed d"
  obtains n where "hypothesis_index (bd_HypothesisRevisionID d) (bs_AgentHypotheses s) = Some n"
    "0 \<le> bd_NewConfidence d" "bd_NewConfidence d \<le> 1"
    "commit_deltas ds (advance_belief_cursor (s\<lparr>bs_AgentHypotheses := (bs_AgentHypotheses s)[n :=
        (bs_AgentHypotheses s ! n)\<lparr>hyp_ModelConfidence := bd_NewConfidence d\<rparr>]\<rparr>)) = (t, None)"
  using assms by (auto dest!: CommitBelief_result split: option.splits if_splits sum.splits)

lemma confidence_of_commit:
  assumes "hypothesis_index k hs = Some n"
  shows "confidence_of hid (hs[n := (hs ! n)\<lparr>hyp_ModelConfidence := c\<rparr>]) = (if hid = k then Some c else confidence_of hid hs)"
    and "map hyp_ID (hs[n := (hs ! n)\<lparr>hyp_ModelConfidence := c\<rparr>]) = map hyp_ID hs"
proof -
  have n: "n < length hs" "hyp_ID (hs ! n) = k" using hypothesis_index_SomeD [OF assms] by simp_all
  show ids: "map hyp_ID (hs[n := (hs ! n)\<lparr>hyp_ModelConfidence := c\<rparr>]) = map hyp_ID hs"
    using n by (simp add: map_update list_update_same_conv)
  show "confidence_of hid (hs[n := (hs ! n)\<lparr>hyp_ModelConfidence := c\<rparr>]) = (if hid = k then Some c else confidence_of hid hs)"
    using n assms hypothesis_index_SomeD [of hid hs]
    by (cases "hypothesis_index hid hs") (auto simp: confidence_of_def hypothesis_index_ids [OF ids] nth_list_update)
qed

lemma commit_deltas_ok:
  assumes "commit_deltas ds s = (t, None)"
  shows "bs_BeliefDeltaCursor t = bs_BeliefDeltaCursor s + int (length ds) \<and> bs_BeliefDeltas t = bs_BeliefDeltas s \<and>
    map hyp_ID (bs_AgentHypotheses t) = map hyp_ID (bs_AgentHypotheses s) \<and>
    confidence_of hid (bs_AgentHypotheses t) = (case last_committed hid ds of Some c \<Rightarrow> Some c | None \<Rightarrow> confidence_of hid (bs_AgentHypotheses s))"
  using assms
proof (induction ds arbitrary: s)
  case (Cons d ds)
  show ?case
  proof (cases "bd_Committed d")
    case True
    with Cons.prems obtain n where h: "hypothesis_index (bd_HypothesisRevisionID d) (bs_AgentHypotheses s) = Some n"
      and c: "commit_deltas ds (advance_belief_cursor (s\<lparr>bs_AgentHypotheses := (bs_AgentHypotheses s)[n :=
        (bs_AgentHypotheses s ! n)\<lparr>hyp_ModelConfidence := bd_NewConfidence d\<rparr>]\<rparr>)) = (t, None)" by (rule commit_step)
    from Cons.IH [OF c] confidence_of_commit [OF h] True show ?thesis
      by (simp add: last_committed_Cons split: option.split)
  next
    case False
    with Cons.prems Cons.IH [of "advance_belief_cursor s"] show ?thesis
      by (simp add: last_committed_Cons split: option.split)
  qed
qed (simp add: last_committed_def)

text \<open>C28. A belief commit that succeeds takes every delta behind the cursor exactly once and in order: the cursor
  ends behind the last delta, so that a second commit changes no belief; the identities of the
  hypotheses stay; and the confidence of each is the one its last committed delta declares, or the
  one it had when no delta names it.\<close>

theorem belief_commit_takes_each_delta:
  assumes "beliefCommit s = (t, None)" "0 \<le> bs_BeliefDeltaCursor s" "bs_BeliefDeltaCursor s \<le> int (length (bs_BeliefDeltas s))"
  shows "bs_BeliefDeltaCursor t = int (length (bs_BeliefDeltas t)) \<and> beliefCommit t = (syncInvestigation t, None) \<and>
    map hyp_ID (bs_AgentHypotheses t) = map hyp_ID (bs_AgentHypotheses s) \<and>
    confidence_of hid (bs_AgentHypotheses t) =
      (case last_committed hid (drop (nat (bs_BeliefDeltaCursor s)) (bs_BeliefDeltas s)) of
         Some c \<Rightarrow> Some c | None \<Rightarrow> confidence_of hid (bs_AgentHypotheses s))"
proof -
  obtain u where u: "commit_deltas (drop (nat (bs_BeliefDeltaCursor s)) (bs_BeliefDeltas s)) s = (u, None)" and t: "t = syncInvestigation u"
    using assms(1) by (auto simp: beliefCommit_def split: prod.splits option.splits)
  note r = commit_deltas_ok [OF u, of hid]
  have cursor: "bs_BeliefDeltaCursor t = int (length (bs_BeliefDeltas t))" using r assms(2,3) by (simp add: t)
  then have "beliefCommit t = (syncInvestigation t, None)" by (simp add: beliefCommit_def)
  with cursor r show ?thesis by (simp add: t)
qed

definition example_belief_state :: WorkflowState where
  "example_belief_state = zero_WorkflowState\<lparr>
     bs_AgentHypotheses := [zero_AgentHypothesis\<lparr>hyp_ID := ''h1'', hyp_ModelConfidence := 1/2\<rparr>],
     bs_BeliefDeltas := [zero_BeliefDelta\<lparr>bd_HypothesisRevisionID := ''h1'', bd_PreviousConfidence := 1/2,
       bd_NewConfidence := 3/4, bd_Direction := BeliefIncrease, bd_Committed := True\<rparr>]\<rparr>"

lemma belief_commit_takes_each_delta_witness:
  "confidence_of ''h1'' (bs_AgentHypotheses (fst (beliefCommit example_belief_state))) = Some (3/4)"
proof -
  have ok: "beliefCommit example_belief_state = (fst (beliefCommit example_belief_state), None)"
    and rest: "drop (nat (bs_BeliefDeltaCursor example_belief_state)) (bs_BeliefDeltas example_belief_state) =
      [zero_BeliefDelta\<lparr>bd_HypothesisRevisionID := ''h1'', bd_PreviousConfidence := 1/2, bd_NewConfidence := 3/4,
        bd_Direction := BeliefIncrease, bd_Committed := True\<rparr>]"
    and c: "0 \<le> bs_BeliefDeltaCursor example_belief_state" "bs_BeliefDeltaCursor example_belief_state \<le> int (length (bs_BeliefDeltas example_belief_state))"
    by (simp_all add: beliefCommit_def example_belief_state_def zero_AgentHypothesis_def
        zero_BeliefDelta_def CommitBelief_def syncInvestigation_def Let_def advance_belief_cursor_def)
  from belief_commit_takes_each_delta [OF ok c, of "''h1''"] show ?thesis
    by (simp add: rest last_committed_def zero_BeliefDelta_def)
qed

section \<open>Version chains\<close>

lemma later_chain [simp]:
  "bs_AgentRecoveryPlan (apply_reflection now output (apply_trigger output (apply_control output s))) = bs_AgentRecoveryPlan s"
  "bs_RecoveryPermission (apply_reflection now output (apply_trigger output (apply_control output s))) = bs_RecoveryPermission s"
  "ws_DryRun (apply_reflection now output (apply_trigger output (apply_control output s))) = ws_DryRun s"
  "ws_Incident (apply_reflection now output (apply_trigger output (apply_control output s))) = ws_Incident s"
  by (simp_all add: apply_control_def apply_trigger_def apply_reflection_def Let_def split: option.split)

text \<open>A recovery plan the model submits starts a new safety chain: after its result is applied, no permission,
  proposal or dry run of an earlier plan is left, in the state or in the incident.\<close>

theorem new_plan_starts_new_chain:
  assumes "out_RecoveryPlan output = Some plan" "t = applyCapabilityOutput H now output s"
  shows "bs_AgentRecoveryPlan t = Some plan \<and> bs_RecoveryPermission t = None \<and> ws_DryRun t = None \<and>
    (\<forall>i. ws_Incident t = Some i \<longrightarrow> inc_Proposal i = None \<and> inc_DryRun i = None)"
  using assms(1) by (auto simp: assms(2) applyCapabilityOutput_def apply_diagnosis_def Let_def)

lemma new_plan_starts_new_chain_witness:
  "\<exists>plan s. bs_RecoveryPermission s \<noteq> None \<and>
     bs_RecoveryPermission (applyCapabilityOutput (\<lambda>_. []) 0 (zero_brainCapabilityOutput\<lparr>out_RecoveryPlan := Some plan\<rparr>) s) = None"
  by (intro exI [of _ zero_AgentRecoveryPlan] exI [of _ "zero_WorkflowState\<lparr>bs_RecoveryPermission := Some zero_RecoveryPermission\<rparr>"])
    (simp add: new_plan_starts_new_chain [of "zero_brainCapabilityOutput\<lparr>out_RecoveryPlan := Some zero_AgentRecoveryPlan\<rparr>"
       zero_AgentRecoveryPlan _ "\<lambda>_. []" 0 "zero_WorkflowState\<lparr>bs_RecoveryPermission := Some zero_RecoveryPermission\<rparr>", OF _ refl])

lemma rank_runtime_snapshot [simp]: "bs_EvidenceSnapshotHash (rank_runtime D now i s) = bs_EvidenceSnapshotHash s"
  by (simp add: rank_runtime_def Let_def split: option.split prod.split)

lemma rank_runtime_incident: "ws_Incident s = Some i \<Longrightarrow> \<exists>j. ws_Incident (rank_runtime D now i s) = Some j"
  by (auto simp: rank_runtime_def Let_def split: option.split prod.split)

lemma invalidate_stale_snapshot [simp]: "bs_EvidenceSnapshotHash (invalidate_stale previous s) = bs_EvidenceSnapshotHash s"
  by (simp add: invalidate_stale_def Let_def split: option.split)

text \<open>What is left after an invalidation is current.\<close>

lemma invalidated_state:
  assumes "previous \<noteq> []" "previous \<noteq> bs_EvidenceSnapshotHash s" "t = invalidate_stale previous s"
  shows "h \<in> set (bs_AgentHypotheses t) \<Longrightarrow> hyp_Status h = HypothesisSupported \<Longrightarrow> hyp_LastValidatedSnapshotHash h = bs_EvidenceSnapshotHash t"
    and "bs_AgentDiagnosis t = Some d \<Longrightarrow> diag_EvidenceSnapshotHash d \<noteq> bs_EvidenceSnapshotHash t \<Longrightarrow>
      diag_Provisional d \<and> bs_AgentRecoveryPlan t = None \<and> ws_DryRun t = None \<and>
      (\<forall>i. ws_Incident t = Some i \<longrightarrow> inc_Proposal i = None \<and> inc_DryRun i = None)"
  using assms(1,2) InvalidateStale_fresh [of h "bs_AgentHypotheses s" "bs_EvidenceSnapshotHash s"]
  by (auto simp: assms(3) invalidate_stale_def Let_def split: option.splits if_splits)

text \<open>C9. New evidence takes back what rested on the old: when the observation update changes the evidence
  snapshot, every hypothesis that is still SUPPORTED was validated on the new snapshot, and a diagnosis
  of an older snapshot becomes provisional and loses its recovery plan, proposal and dry run, so that
  no recovery is allowed on it.\<close>

theorem changed_evidence_invalidates:
  assumes "t = observationUpdate H D now s" "ws_Incident s \<noteq> None"
    and "bs_EvidenceSnapshotHash s \<noteq> []" "bs_EvidenceSnapshotHash t \<noteq> bs_EvidenceSnapshotHash s"
  shows "(\<forall>h\<in>set (bs_AgentHypotheses t). hyp_Status h = HypothesisSupported \<longrightarrow>
      hyp_LastValidatedSnapshotHash h = bs_EvidenceSnapshotHash t) \<and>
    (\<forall>d. bs_AgentDiagnosis t = Some d \<and> diag_EvidenceSnapshotHash d \<noteq> bs_EvidenceSnapshotHash t \<longrightarrow>
      diag_Provisional d \<and> bs_AgentRecoveryPlan t = None \<and> ws_DryRun t = None \<and>
      (\<forall>i. ws_Incident t = Some i \<longrightarrow> inc_Proposal i = None \<and> inc_DryRun i = None) \<and>
      (\<forall>sel g allg ex k8s sep acc. \<not> re_Allowed (RecoveryAllowed (Some d) sel g allg ex k8s sep acc)))"
proof -
  obtain i where i: "ws_Incident s = Some i" using assms(2) by auto
  then obtain j where j: "ws_Incident (rank_runtime D now i s) = Some j" using rank_runtime_incident by blast
  obtain u where u: "t = syncInvestigation (invalidate_stale (bs_EvidenceSnapshotHash s) u)"
    using i j by (simp add: assms(1) observationUpdate_def Let_def)
  let ?v = "invalidate_stale (bs_EvidenceSnapshotHash s) u"
  have changed: "bs_EvidenceSnapshotHash s \<noteq> bs_EvidenceSnapshotHash u" using assms(4) by (simp add: u)
  note r = invalidated_state [OF assms(3) changed refl]
  have chain: "diag_Provisional d \<and> bs_AgentRecoveryPlan t = None \<and> ws_DryRun t = None \<and>
      (\<forall>i. ws_Incident t = Some i \<longrightarrow> inc_Proposal i = None \<and> inc_DryRun i = None)"
    if "bs_AgentDiagnosis t = Some d" "diag_EvidenceSnapshotHash d \<noteq> bs_EvidenceSnapshotHash t" for d
    using r(2) [of d] that sync_incident [of ?v] by (fastforce simp: u)
  have "\<not> re_Allowed (RecoveryAllowed (Some d) sel g allg ex k8s sep acc)" if "diag_Provisional d" for d sel g allg ex k8s sep acc
    using that by (simp add: RecoveryAllowed_iff recovery_reasons_def code_if_def)
  with chain r(1) show ?thesis by (simp add: u)
qed

definition plain_derivations :: derivations where
  "plain_derivations = \<lparr>der_Rank = \<lambda>_ _. None, der_Assertions = \<lambda>_ _ a _. a, der_Features = \<lambda>_ _. zero_IncidentFeatures,
     der_Topology = \<lambda>_ _. zero_IncidentGraph, der_Dependencies = \<lambda>_ _. zero_IncidentDependencyGraph,
     der_WorldModel = \<lambda>_ _ _. zero_OperationalWorldModel, der_PutFails = \<lambda>_. False\<rparr>"

definition example_diagnosed :: WorkflowState where
  "example_diagnosed = zero_WorkflowState\<lparr>ws_Incident := Some zero_Incident, bs_EvidenceSnapshotHash := ''old'',
     bs_AgentDiagnosis := Some (zero_AgentDiagnosis\<lparr>diag_EvidenceSnapshotHash := ''old''\<rparr>),
     bs_AgentRecoveryPlan := Some zero_AgentRecoveryPlan\<rparr>"

lemma example_diagnosed_updated:
  "bs_EvidenceSnapshotHash (observationUpdate (\<lambda>_. ''new'') plain_derivations now example_diagnosed) = ''new''"
  "bs_AgentDiagnosis (observationUpdate (\<lambda>_. ''new'') plain_derivations now example_diagnosed) =
     Some (zero_AgentDiagnosis\<lparr>diag_EvidenceSnapshotHash := ''old'', diag_Provisional := True\<rparr>)"
  by (simp_all add: observationUpdate_def example_diagnosed_def plain_derivations_def Let_def rank_runtime_def zero_Incident_def
      observe_topology_def zero_IncidentGraph_def invalidate_stale_def EvidenceSnapshotHash_def zero_AgentDiagnosis_def)

lemma changed_evidence_invalidates_witness:
  "bs_AgentRecoveryPlan (observationUpdate (\<lambda>_. ''new'') plain_derivations 5 example_diagnosed) = None"
proof -
  have "ws_Incident example_diagnosed \<noteq> None" "bs_EvidenceSnapshotHash example_diagnosed = ''old''"
    by (simp_all add: example_diagnosed_def)
  with changed_evidence_invalidates [of _ "\<lambda>_. ''new''" plain_derivations 5 example_diagnosed, OF refl]
  show ?thesis by (simp add: example_diagnosed_updated)
qed

section \<open>The audit of a hybrid retrieval\<close>

lemma hybrid_kept [simp]:
  "bs_HybridRetrievals (map_incident f s) = bs_HybridRetrievals s" "bs_HybridRetrievals (map_investigation g s) = bs_HybridRetrievals s"
  "bs_HybridRetrievals (apply_evidence result s) = bs_HybridRetrievals s" "bs_HybridRetrievals (apply_hypotheses result s) = bs_HybridRetrievals s"
  "bs_HybridRetrievals (apply_grounding result s) = bs_HybridRetrievals s" "bs_HybridRetrievals (apply_plan result s) = bs_HybridRetrievals s"
  "bs_HybridRetrievals (apply_diagnosis result s) = bs_HybridRetrievals s" "bs_HybridRetrievals (apply_control result s) = bs_HybridRetrievals s"
  "bs_HybridRetrievals (apply_trigger result s) = bs_HybridRetrievals s" "bs_HybridRetrievals (apply_reflection now result s) = bs_HybridRetrievals s"
  "bs_HybridRetrievals (record_accesses C n s) = bs_HybridRetrievals s" "bs_HybridRetrievals (count_tool_call s) = bs_HybridRetrievals s"
  "bs_HybridRetrievals (record_tool_result env r s) = bs_HybridRetrievals s"
  by (simp_all add: map_incident_def map_investigation_def apply_evidence_def apply_hypotheses_def apply_grounding_def apply_plan_def
      apply_diagnosis_def apply_control_def apply_trigger_def apply_reflection_def record_accesses_def count_tool_call_def
      record_tool_result_def Let_def split: option.split)

lemma hybrid_applied:
  "bs_HybridRetrievals (applyCapabilityOutput H now result s) =
     bs_HybridRetrievals s @ (case out_HybridRetrieval result of None \<Rightarrow> [] | Some h \<Rightarrow> [h])"
  by (simp add: applyCapabilityOutput_def apply_retrieval_def auditRetrieval_def Let_def split: option.split)

text \<open>What the workflow state keeps of a hybrid retrieval is not what the tool returned: the projection for the
  model compacts the candidates of each channel in place, in the array it shares with the result, before
  the result is applied.  The stored retrieval has at most five candidates per channel, with their
  feature terms removed, although only the model's view was meant to be bounded.\<close>

theorem stored_retrieval_is_compacted:
  assumes "ws_Incident s = Some i" "cd_Output C (msg_Content m) = Inr decoded" "out_HybridRetrieval decoded = Some h"
  shows "bs_HybridRetrievals (classify_message H C now s m) = bs_HybridRetrievals s @ [compact_channels h] \<and>
    (\<forall>c\<in>set (hrr_Channels (compact_channels h)). length (hrcr_Candidates c) \<le> 5 \<and>
       (\<forall>x\<in>set (hrcr_Candidates c). if_Terms (rc_Features x) = []))"
proof
  have "out_HybridRetrieval (snd (begin_message H C now s i m)) = Some (compact_channels h)"
    by (simp add: begin_message_def Let_def modelFacingBrainCapabilityOutput_def classified_output_def assms(2,3))
  then show "bs_HybridRetrievals (classify_message H C now s m) = bs_HybridRetrievals s @ [compact_channels h]"
    by (simp add: classify_message_def assms(1) split_beta hybrid_applied)
  show "\<forall>c\<in>set (hrr_Channels (compact_channels h)). length (hrcr_Candidates c) \<le> 5 \<and>
       (\<forall>x\<in>set (hrcr_Candidates c). if_Terms (rc_Features x) = [])"
    by (auto simp: compact_channels_def compactToolCandidates_def Let_def compact_candidate_def)
qed

definition silent_codec :: "brainCapabilityOutput \<Rightarrow> codec" where
  "silent_codec decoded = \<lparr>cd_Intent = \<lambda>_. \<lparr>ai_Intent = [], ai_ExpectedObservation = [], ai_Targets = [], ai_HypothesisIDs = [],
       ai_HypothesisID = [], ai_EvidenceNeed = []\<rparr>, cd_Output = \<lambda>_. Inr decoded, cd_Encode = \<lambda>_. [], cd_ViewSize = \<lambda>_. 0,
     cd_Rejection = \<lambda>_. [], cd_Correction = \<lambda>_ _. [], cd_RecordFails = \<lambda>_. False\<rparr>"

definition six_candidates :: HybridRetrievalResult where
  "six_candidates = zero_HybridRetrievalResult\<lparr>hrr_Channels :=
     [zero_HybridRetrievalChannelResult\<lparr>hrcr_Candidates := replicate 6 zero_RetrievalCandidate\<rparr>]\<rparr>"

lemma stored_retrieval_is_compacted_witness:
  "length (hrcr_Candidates (hd (hrr_Channels (hd (bs_HybridRetrievals
     (classify_message (\<lambda>_. []) (silent_codec (zero_brainCapabilityOutput\<lparr>out_HybridRetrieval := Some six_candidates\<rparr>)) 1
       (zero_WorkflowState\<lparr>ws_Incident := Some zero_Incident\<rparr>) zero_Message)))))) = 5"
proof -
  have *: "ws_Incident (zero_WorkflowState\<lparr>ws_Incident := Some zero_Incident\<rparr>) = Some zero_Incident"
    "cd_Output (silent_codec d) c = Inr d" "out_HybridRetrieval (zero_brainCapabilityOutput\<lparr>out_HybridRetrieval := Some h\<rparr>) = Some h" for d c h
    by (simp_all add: silent_codec_def)
  have sel: "hrr_Channels (h\<lparr>hrr_Channels := v\<rparr>) = v" "hrcr_Candidates (c\<lparr>hrcr_Candidates := u\<rparr>) = u"
    "bs_HybridRetrievals (s\<lparr>ws_Incident := x\<rparr>) = bs_HybridRetrievals s" for h v c u s x
    by simp_all
  have six: "hrr_Channels six_candidates = [zero_HybridRetrievalChannelResult\<lparr>hrcr_Candidates := replicate 6 zero_RetrievalCandidate\<rparr>]"
    by (simp only: six_candidates_def sel)
  have len: "length (compactToolCandidates (replicate 6 c) 5) = 5" for c
    by (simp only: compactToolCandidates_def Let_def length_replicate length_map length_take) simp
  have "length (hrcr_Candidates (hd (hrr_Channels (compact_channels six_candidates)))) = 5"
    by (simp only: compact_channels_def sel six list.map list.sel len)
  then show ?thesis using stored_retrieval_is_compacted [where H = "\<lambda>_. []" and now = 1 and m = zero_Message, OF *]
    by (simp only: zero_WorkflowState_fields sel append_Nil list.sel)
qed

end
