(* ===== verification/Brain_Messages.thy ===== *)
theory Brain_Messages
  imports Brain_Common
begin

text \<open>The conversation of the Brain with its chat model (\<^verbatim>\<open>agent/brain_graph.go\<close>): the normalisation of the messages
  before each call, the sanitised assistant output with its audit record, and the bounded history of
  complete request/result units.  The JSON operations are a parameter: whether a text decodes as an
  object, and the projection that stands for the content of a message with tool calls only.  The
  lemmas show what a model can be shown: no reasoning, no empty assistant message, no tool result
  without its request, and no more than the limits.\<close>

record message_codec =
  mc_IsObject :: "string \<Rightarrow> bool"
  mc_Projection :: "ToolCall list \<Rightarrow> string"

definition empty_tool_result :: string where
  "empty_tool_result = ''{'' @ [CHR 0x22] @ ''class'' @ [CHR 0x22] @ '':'' @ [CHR 0x22] @ ''ERROR'' @ [CHR 0x22] @ '','' @
     [CHR 0x22] @ ''status'' @ [CHR 0x22] @ '':'' @ [CHR 0x22] @ ''ERROR'' @ [CHR 0x22] @ '','' @
     [CHR 0x22] @ ''summary'' @ [CHR 0x22] @ '':'' @ [CHR 0x22] @ ''tool returned an empty result payload'' @ [CHR 0x22] @ ''}''"

definition blank :: "string \<Rightarrow> bool" where "blank text0 = (TrimSpace text0 = [])"

definition ensureBrainAssistantToolCallContent :: "message_codec \<Rightarrow> Message \<Rightarrow> Message" where
  "ensureBrainAssistantToolCallContent J m =
     (if msg_Role m \<noteq> RoleAssistant \<or> \<not> blank (msg_Content m) \<or> msg_ToolCalls m = [] then m
      else m\<lparr>msg_Content := mc_Projection J (msg_ToolCalls m)\<rparr>)"

definition repair_arguments :: "message_codec \<Rightarrow> ToolCall \<Rightarrow> ToolCall" where
  "repair_arguments J c =
     (let raw = TrimSpace (call_Arguments c) in if raw \<noteq> [] \<and> mc_IsObject J raw then c else c\<lparr>call_Arguments := ''{}''\<rparr>)"

definition normalizeBrainToolCallArgumentsForProvider :: "message_codec \<Rightarrow> Message \<Rightarrow> Message" where
  "normalizeBrainToolCallArgumentsForProvider J m =
     (if msg_Role m \<noteq> RoleAssistant then m else m\<lparr>msg_ToolCalls := map (repair_arguments J) (msg_ToolCalls m)\<rparr>)"

definition fill_tool_result :: "Message \<Rightarrow> Message" where
  "fill_tool_result m = (if blank (msg_Content m) \<and> msg_Role m = RoleTool then m\<lparr>msg_Content := empty_tool_result\<rparr> else m)"

definition normalize_message :: "message_codec \<Rightarrow> Message option \<Rightarrow> Message option" where
  "normalize_message J value = (case value of None \<Rightarrow> None
     | Some m0 \<Rightarrow> let m = m0\<lparr>msg_ReasoningContent := []\<rparr> in
         if msg_Role m = RoleAssistant \<and> blank (msg_Content m) \<and> msg_ToolCalls m = [] then None
         else Some (fill_tool_result (if msg_Role m = RoleAssistant
                then ensureBrainAssistantToolCallContent J (normalizeBrainToolCallArgumentsForProvider J m) else m)))"

definition normalizeBrainModelMessages :: "message_codec \<Rightarrow> Message option list \<Rightarrow> Message option list" where
  "normalizeBrainModelMessages J values = filter (\<lambda>m. m \<noteq> None) (map (normalize_message J) values)"

definition normalizeBrainAssistantOutput ::
  "message_codec \<Rightarrow> Message option \<Rightarrow> string \<Rightarrow> time \<Rightarrow> Message \<times> AssistantTurnRecord \<times> bool" where
  "normalizeBrainAssistantOutput J message turnID observedAt = (case message of
       None \<Rightarrow> (zero_Message\<lparr>msg_Role := RoleAssistant\<rparr>, zero_AssistantTurnRecord\<lparr>atr_TurnID := turnID, atr_ObservedAt := observedAt\<rparr>, False)
     | Some m \<Rightarrow>
         let content = \<not> blank (msg_Content m); calls = (msg_ToolCalls m \<noteq> []);
             record0 = \<lparr>atr_TurnID = turnID, atr_ContentPresent = content, atr_ToolCallPresent = calls,
               atr_ReasoningPresent = (\<not> blank (msg_ReasoningContent m)), atr_Persisted = (content \<or> calls), atr_ObservedAt = observedAt\<rparr>;
             m1 = m\<lparr>msg_ReasoningContent := [], msg_Role := (if msg_Role m = Role_other [] then RoleAssistant else msg_Role m)\<rparr>
         in (if calls then ensureBrainAssistantToolCallContent J m1 else m1, record0, atr_Persisted record0))"

text \<open>The slot of the turn is the last one with its identity.\<close>

fun replace_first :: "('a \<Rightarrow> bool) \<Rightarrow> 'a \<Rightarrow> 'a list \<Rightarrow> 'a list option" where
  "replace_first P y [] = None"
| "replace_first P y (x # xs) = (if P x then Some (y # xs) else map_option ((#) x) (replace_first P y xs))"

definition recordBrainAssistantTurn :: "WorkflowState \<Rightarrow> AssistantTurnRecord \<Rightarrow> node_result" where
  "recordBrainAssistantTurn s r =
     (case replace_first (\<lambda>x. atr_TurnID x = atr_TurnID r) r (rev (bs_AssistantTurns s)) of
        Some turns \<Rightarrow> (s\<lparr>bs_AssistantTurns := rev turns\<rparr>, None)
      | None \<Rightarrow> (s, Some (NodeError ''Assistant turn audit slot was not allocated by the Brain context builder'')))"

section \<open>Complete units and the bounded history\<close>

definition answers :: "Message \<Rightarrow> Message option \<Rightarrow> bool" where
  "answers request value = (case value of None \<Rightarrow> False
     | Some m \<Rightarrow> msg_Role m = RoleTool \<and> msg_ToolCallID m \<in> set (map call_ID (msg_ToolCalls request)))"

definition tool_result_copy :: "Message option \<Rightarrow> Message" where
  "tool_result_copy value = (let m = (the value)\<lparr>msg_ReasoningContent := []\<rparr>
     in if blank (msg_Content m) then m\<lparr>msg_Content := empty_tool_result\<rparr> else m)"

function completeBrainMessageUnits :: "message_codec \<Rightarrow> Message option list \<Rightarrow> Message list list" where
  "completeBrainMessageUnits J [] = []"
| "completeBrainMessageUnits J (None # values) = completeBrainMessageUnits J values"
| "completeBrainMessageUnits J (Some m0 # values) =
     (let m1 = m0\<lparr>msg_ReasoningContent := []\<rparr>; m = ensureBrainAssistantToolCallContent J m1 in
      if msg_Role m1 = RoleAssistant \<and> blank (msg_Content m1) \<and> msg_ToolCalls m1 = [] then completeBrainMessageUnits J values
      else if msg_Role m = RoleTool then completeBrainMessageUnits J values
      else if msg_Role m = RoleAssistant \<and> msg_ToolCalls m \<noteq> [] then
        let results = map tool_result_copy (takeWhile (answers m) values); rest = dropWhile (answers m) values
        in (if length results = length (msg_ToolCalls m) then [m # results] else []) @ completeBrainMessageUnits J rest
      else [m] # completeBrainMessageUnits J values)"
  by pat_completeness auto
termination
  by (relation "measure (\<lambda>(J, values). length values)") (auto simp: less_Suc_eq_le length_dropWhile_le)

text \<open>\<^verbatim>\<open>brainMessageSize\<close> truncates the message it measures in place; the projection is part of the unit from there on.\<close>

definition projected :: "Message \<Rightarrow> Message" where
  "projected m = (if 24 * 1024 < length (msg_Content m)
     then m\<lparr>msg_Content := take (24 * 1024) (msg_Content m) @ [CHR 0x0A] @ ''[tool result projection truncated]''\<rparr> else m)"

definition brainMessageSize :: "Message \<Rightarrow> nat" where
  "brainMessageSize m = length (msg_Content (projected m)) +
     sum_list (map (\<lambda>c. length (call_ID c) + length (call_Name c) + length (call_Arguments c)) (msg_ToolCalls m))"

fun select_units :: "Message list list \<Rightarrow> nat \<Rightarrow> nat \<Rightarrow> nat \<Rightarrow> nat \<Rightarrow> Message list list" where
  "select_units [] maxItems maxBytes items used = []"
| "select_units (unit # older) maxItems maxBytes items used =
     (let size = sum_list (map brainMessageSize unit) in
      if unit = [] \<or> maxItems < items + length unit then []
      else if maxBytes < used + size then []
      else map projected unit # select_units older maxItems maxBytes (items + length unit) (used + size))"

definition boundedBrainMessageHistory :: "message_codec \<Rightarrow> Message option list \<Rightarrow> nat \<Rightarrow> nat \<Rightarrow> Message list" where
  "boundedBrainMessageHistory J values maxItems maxBytes =
     (if maxItems = 0 \<or> maxBytes = 0 \<or> values = [] then []
      else concat (rev (select_units (rev (completeBrainMessageUnits J values)) maxItems maxBytes 0 0)))"

section \<open>Properties\<close>

definition closed_unit :: "Message list \<Rightarrow> bool" where
  "closed_unit unit = (case unit of [] \<Rightarrow> False
     | m # results \<Rightarrow>
         msg_Role m \<noteq> RoleTool \<and> length results = (if msg_Role m = RoleAssistant then length (msg_ToolCalls m) else 0) \<and>
         list_all (\<lambda>r. msg_Role r = RoleTool \<and> msg_ToolCallID r \<in> set (map call_ID (msg_ToolCalls m))) results)"

definition shown :: "Message \<Rightarrow> bool" where
  "shown m = (msg_ReasoningContent m = [])"

lemma ensure_fields [simp]:
  "msg_Role (ensureBrainAssistantToolCallContent J m) = msg_Role m" "msg_ToolCalls (ensureBrainAssistantToolCallContent J m) = msg_ToolCalls m"
  "msg_ReasoningContent (ensureBrainAssistantToolCallContent J m) = msg_ReasoningContent m"
  by (simp_all add: ensureBrainAssistantToolCallContent_def)

lemma projected_fields [simp]:
  "msg_Role (projected m) = msg_Role m" "msg_ToolCalls (projected m) = msg_ToolCalls m" "msg_ToolCallID (projected m) = msg_ToolCallID m"
  "msg_ReasoningContent (projected m) = msg_ReasoningContent m"
  by (simp_all add: projected_def)

lemma projected_idem [simp]: "projected (projected m) = projected m"
  by (simp add: projected_def)

lemma brainMessageSize_projected [simp]: "brainMessageSize (projected m) = brainMessageSize m"
  by (simp add: brainMessageSize_def)

lemma tool_result_copy_fields [simp]:
  "msg_Role (tool_result_copy (Some m)) = msg_Role m" "msg_ToolCallID (tool_result_copy (Some m)) = msg_ToolCallID m"
  "msg_ReasoningContent (tool_result_copy value) = []"
  by (simp_all add: tool_result_copy_def Let_def)

lemma answered_closed:
  assumes "msg_Role m = RoleAssistant" "list_all (answers m) values" "length values = length (msg_ToolCalls m)"
  shows "closed_unit (m # map tool_result_copy values)"
proof -
  have "msg_Role (tool_result_copy v) = RoleTool \<and> msg_ToolCallID (tool_result_copy v) \<in> set (map call_ID (msg_ToolCalls m))"
    if "v \<in> set values" for v
    using assms(2) that by (cases v) (auto simp: list_all_iff answers_def split: option.splits)
  then show ?thesis using assms(1,3) by (simp add: closed_unit_def list_all_iff)
qed

lemma units_skip [simp]:
  "msg_Role m = RoleTool \<Longrightarrow> completeBrainMessageUnits J (Some m # msgs) = completeBrainMessageUnits J msgs"
  "msg_Role m = RoleAssistant \<Longrightarrow> blank (msg_Content m) \<Longrightarrow> msg_ToolCalls m = [] \<Longrightarrow>
     completeBrainMessageUnits J (Some m # msgs) = completeBrainMessageUnits J msgs"
  by (simp_all add: Let_def)

lemma units_request:
  assumes "msg_Role m = RoleAssistant" "msg_ToolCalls m \<noteq> []" "r = ensureBrainAssistantToolCallContent J (m\<lparr>msg_ReasoningContent := []\<rparr>)"
  shows "completeBrainMessageUnits J (Some m # msgs) =
    (if length (takeWhile (answers r) msgs) = length (msg_ToolCalls m) then [r # map tool_result_copy (takeWhile (answers r) msgs)] else []) @
    completeBrainMessageUnits J (dropWhile (answers r) msgs)"
  using assms(1,2) by (simp add: Let_def assms(3))

lemma units_plain:
  assumes "msg_Role m \<noteq> RoleTool" "msg_Role m = RoleAssistant \<Longrightarrow> msg_ToolCalls m = [] \<and> \<not> blank (msg_Content m)"
  shows "completeBrainMessageUnits J (Some m # msgs) =
    [ensureBrainAssistantToolCallContent J (m\<lparr>msg_ReasoningContent := []\<rparr>)] # completeBrainMessageUnits J msgs"
  using assms by (auto simp: Let_def)

declare completeBrainMessageUnits.simps(3) [simp del]

lemma units_closed: "unit \<in> set (completeBrainMessageUnits J msgs) \<Longrightarrow> closed_unit unit \<and> list_all shown unit"
proof (induction msgs arbitrary: unit rule: measure_induct_rule [of length])
  case (less msgs)
  show ?case
  proof (cases msgs)
    case (Cons v rest)
    show ?thesis
    proof (cases v)
      case None
      with less.prems less.IH [of rest unit] Cons show ?thesis by simp
    next
      case (Some m)
      let ?r = "ensureBrainAssistantToolCallContent J (m\<lparr>msg_ReasoningContent := []\<rparr>)"
      consider (skip) "completeBrainMessageUnits J msgs = completeBrainMessageUnits J rest"
        | (request) "msg_Role m = RoleAssistant" "msg_ToolCalls m \<noteq> []"
        | (plain) "msg_Role m \<noteq> RoleTool" "msg_Role m = RoleAssistant \<Longrightarrow> msg_ToolCalls m = [] \<and> \<not> blank (msg_Content m)"
        using units_skip [of m J rest] Cons Some by blast
      then show ?thesis
      proof cases
        case skip
        with less.prems less.IH [of rest unit] Cons show ?thesis by simp
      next
        case request
        let ?vs = "takeWhile (answers ?r) rest"
        have "list_all (answers ?r) ?vs" by (auto simp: list_all_iff dest: set_takeWhileD)
        with answered_closed [of ?r ?vs] request(1)
        have u: "length ?vs = length (msg_ToolCalls m) \<Longrightarrow> closed_unit (?r # map tool_result_copy ?vs)" by simp
        have sh: "list_all shown (?r # map tool_result_copy ?vs)" by (simp add: shown_def list_all_iff)
        have "length (dropWhile (answers ?r) rest) < length msgs" using length_dropWhile_le [of "answers ?r" rest] Cons by simp
        note IH = less.IH [OF this]
        have "unit \<in> set (completeBrainMessageUnits J (Some m # rest))" using less.prems Cons Some by simp
        then have "unit = ?r # map tool_result_copy ?vs \<and> length ?vs = length (msg_ToolCalls m) \<or>
            unit \<in> set (completeBrainMessageUnits J (dropWhile (answers ?r) rest))"
          unfolding units_request [OF request refl] by (simp split: if_splits)
        with u sh IH show ?thesis by blast
      next
        case plain
        have one: "closed_unit [?r] \<and> list_all shown [?r]" using plain by (simp add: closed_unit_def shown_def)
        have "unit \<in> set (completeBrainMessageUnits J (Some m # rest))" using less.prems Cons Some by simp
        then have "unit = [?r] \<or> unit \<in> set (completeBrainMessageUnits J rest)"
          using units_plain [of m J rest] plain by auto
        with one less.IH [of rest] Cons show ?thesis by auto
      qed
    qed
  qed (use less in simp)
qed

lemma closed_projected: "closed_unit unit \<Longrightarrow> closed_unit (map projected unit)"
  by (auto simp: closed_unit_def list_all_iff split: list.splits)

lemma selected_units: "u \<in> set (select_units units maxItems maxBytes items used) \<Longrightarrow> \<exists>v\<in>set units. u = map projected v"
  by (induction units arbitrary: items used) (auto simp: Let_def split: if_splits)

lemma selected_closed:
  assumes "\<And>u. u \<in> set units \<Longrightarrow> closed_unit u \<and> list_all shown u"
    and "u \<in> set (select_units units maxItems maxBytes items used)"
  shows "closed_unit u \<and> list_all shown u"
  using selected_units [OF assms(2)] assms(1) closed_projected by (auto simp: list_all_iff shown_def)

lemma selected_bounds:
  assumes "items \<le> maxItems" "used \<le> maxBytes"
  shows "items + length (concat (select_units units maxItems maxBytes items used)) \<le> maxItems \<and>
    used + sum_list (map brainMessageSize (concat (select_units units maxItems maxBytes items used))) \<le> maxBytes"
  using assms
proof (induction units arbitrary: items used)
  case (Cons unit older)
  let ?size = "sum_list (map brainMessageSize unit)"
  show ?case
  proof (cases "unit = [] \<or> maxItems < items + length unit \<or> maxBytes < used + ?size")
    case False
    with Cons.IH [of "items + length unit" "used + ?size"] show ?thesis by (simp add: Let_def comp_def add.assoc)
  qed (use Cons.prems in \<open>auto simp: Let_def\<close>)
qed simp

lemma concat_rev_bounds:
  "length (concat (rev us)) = length (concat us)" "sum_list (map f (concat (rev us))) = (sum_list (map f (concat us)) :: nat)"
  by (induction us) simp_all

text \<open>C29. The history sent to the chat model consists of complete units, newest last: a message that is no tool
  result, or an assistant request with exactly as many tool results as it has calls, each answering
  one of its calls; so no tool result comes without its request.  It contains no hidden reasoning and
  respects both limits, on the number of messages and on their bytes.\<close>

theorem history_is_closed_and_bounded:
  "\<exists>units. boundedBrainMessageHistory J values maxItems maxBytes = concat units \<and> list_all (\<lambda>u. closed_unit u \<and> list_all shown u) units \<and>
     length (concat units) \<le> maxItems \<and> sum_list (map brainMessageSize (concat units)) \<le> maxBytes"
proof (cases "maxItems = 0 \<or> maxBytes = 0 \<or> values = []")
  case True
  then show ?thesis by (intro exI [of _ "[]"]) (auto simp: boundedBrainMessageHistory_def)
next
  case False
  let ?us = "select_units (rev (completeBrainMessageUnits J values)) maxItems maxBytes 0 0"
  have "\<forall>u\<in>set (rev ?us). closed_unit u \<and> list_all shown u"
    using selected_closed [of "rev (completeBrainMessageUnits J values)"] units_closed by (metis set_rev)
  then have "list_all (\<lambda>u. closed_unit u \<and> list_all shown u) (rev ?us)" by (simp add: list_all_iff)
  moreover have "length (concat (rev ?us)) \<le> maxItems \<and> sum_list (map brainMessageSize (concat (rev ?us))) \<le> maxBytes"
    using selected_bounds [of 0 maxItems 0 maxBytes "rev (completeBrainMessageUnits J values)"] by (simp add: concat_rev_bounds)
  ultimately show ?thesis using False
    by (intro exI [of _ "rev ?us"]) (simp add: boundedBrainMessageHistory_def)
qed

text \<open>With the limit the context builder passes (24 KiB), the truncation of an oversized message never saves
  its unit: the truncated text and its marker are longer than the whole budget.  When the newest
  complete unit holds a message of more than 24 KiB, the model is sent no history at all.\<close>

theorem oversized_unit_empties_history:
  assumes "completeBrainMessageUnits J values = older @ [unit]" "m \<in> set unit" "24 * 1024 < length (msg_Content m)"
  shows "boundedBrainMessageHistory J values 6 (24 * 1024) = []"
proof -
  have "24 * 1024 < brainMessageSize m" using assms(3) by (simp add: brainMessageSize_def projected_def)
  also have "\<dots> \<le> sum_list (map brainMessageSize unit)"
    using assms(2) by (intro member_le_sum_list) auto
  finally show ?thesis by (simp add: boundedBrainMessageHistory_def assms(1) Let_def)
qed

definition long_text :: string where "long_text = replicate (24 * 1024 + 1) CHR 0x61"

lemma length_long_text: "length long_text = 24 * 1024 + 1"
  unfolding long_text_def by (rule length_replicate)

definition oversized_request :: Message where
  "oversized_request = zero_Message\<lparr>msg_Role := RoleUser, msg_Content := long_text\<rparr>"

lemma oversized_unit_empties_history_witness:
  "boundedBrainMessageHistory \<lparr>mc_IsObject = \<lambda>_. True, mc_Projection = \<lambda>_. []\<rparr> [Some oversized_request] 6 (24 * 1024) = []"
proof (rule oversized_unit_empties_history [where older = "[]" and m = oversized_request])
  have "completeBrainMessageUnits J [Some oversized_request] =
      [[ensureBrainAssistantToolCallContent J (oversized_request\<lparr>msg_ReasoningContent := []\<rparr>)]]" for J
    by (subst units_plain) (simp_all add: oversized_request_def zero_Message_def)
  then show "completeBrainMessageUnits \<lparr>mc_IsObject = \<lambda>_. True, mc_Projection = \<lambda>_. []\<rparr> [Some oversized_request] = [] @ [[oversized_request]]"
    by (simp add: oversized_request_def zero_Message_def ensureBrainAssistantToolCallContent_def)
qed (simp_all add: oversized_request_def length_long_text)

lemma repair_idem [simp]: "repair_arguments J (repair_arguments J c) = repair_arguments J c"
  by (simp add: repair_arguments_def Let_def)

lemma repair_all_idem [simp]: "repair_arguments J \<circ> repair_arguments J = repair_arguments J"
  by (simp add: fun_eq_iff)

lemma normalized_message:
  assumes "normalize_message J v = Some m"
  shows "normalize_message J (Some m) = Some m" "msg_ReasoningContent m = []"
    "msg_Role m = RoleAssistant \<Longrightarrow> map (repair_arguments J) (msg_ToolCalls m) = msg_ToolCalls m"
    "msg_Role m = RoleTool \<Longrightarrow> \<not> blank (msg_Content m)"
proof -
  obtain m0 where v: "v = Some m0" using assms by (cases v) (auto simp: normalize_message_def)
  have full: "\<not> blank empty_tool_result" by (simp add: blank_def empty_tool_result_def TrimSpace_def IsSpace_def)
  show "msg_ReasoningContent m = []"
    using assms by (auto simp: v normalize_message_def Let_def fill_tool_result_def normalizeBrainToolCallArgumentsForProvider_def split: if_splits)
  show "map (repair_arguments J) (msg_ToolCalls m) = msg_ToolCalls m" if "msg_Role m = RoleAssistant"
    using assms that by (auto simp: v normalize_message_def Let_def fill_tool_result_def normalizeBrainToolCallArgumentsForProvider_def split: if_splits)
  show "\<not> blank (msg_Content m)" if "msg_Role m = RoleTool"
    using assms that full
    by (auto simp: v normalize_message_def Let_def fill_tool_result_def normalizeBrainToolCallArgumentsForProvider_def split: if_splits)
  show "normalize_message J (Some m) = Some m"
  proof (cases "msg_Role m0 = RoleAssistant")
    case True
    then show ?thesis using assms
      by (auto simp: v normalize_message_def Let_def fill_tool_result_def normalizeBrainToolCallArgumentsForProvider_def
          ensureBrainAssistantToolCallContent_def split: if_splits)
  next
    case False
    then show ?thesis using assms full
      by (auto simp: v normalize_message_def Let_def fill_tool_result_def split: if_splits)
  qed
qed

lemma normalized_in:
  "Some m \<in> set (normalizeBrainModelMessages J msgs) \<Longrightarrow> \<exists>v\<in>set msgs. normalize_message J v = Some m"
  unfolding normalizeBrainModelMessages_def set_filter set_map by (auto simp: image_iff dest: sym)

definition presentable :: "message_codec \<Rightarrow> Message option \<Rightarrow> bool" where
  "presentable J v = (case v of None \<Rightarrow> False
     | Some m \<Rightarrow> msg_ReasoningContent m = [] \<and> (msg_Role m = RoleTool \<longrightarrow> \<not> blank (msg_Content m)) \<and>
         (msg_Role m = RoleAssistant \<longrightarrow>
            list_all (\<lambda>c. call_Arguments c = ''{}'' \<or> mc_IsObject J (TrimSpace (call_Arguments c))) (msg_ToolCalls m)))"

lemma normalized_presentable:
  assumes "v \<in> set (normalizeBrainModelMessages J msgs)"
  shows "presentable J v"
proof -
  have "v \<noteq> None" using assms by (auto simp: normalizeBrainModelMessages_def)
  then obtain m where m: "v = Some m" by blast
  then obtain w where w: "normalize_message J w = Some m" using assms normalized_in by blast
  have "call_Arguments c = ''{}'' \<or> mc_IsObject J (TrimSpace (call_Arguments c))"
    if "msg_Role m = RoleAssistant" "c \<in> set (msg_ToolCalls m)" for c
  proof -
    have "c \<in> set (map (repair_arguments J) (msg_ToolCalls m))" using normalized_message(3) [OF w that(1)] that(2) by simp
    then show ?thesis by (auto simp: repair_arguments_def Let_def)
  qed
  then show ?thesis using m normalized_message(2,4) [OF w] by (simp add: presentable_def list_all_iff)
qed

text \<open>Normalising the conversation before a model call is stable and complete: a second pass changes nothing;
  no message is nil or carries reasoning; the calls of an assistant message have arguments that decode
  as an object, or the empty object; and no tool result is blank.  The context builder stores the
  normalised conversation back into the workflow state, so a malformed fragment of arguments is
  replaced there too.\<close>

theorem normalization_stable:
  "normalizeBrainModelMessages J (normalizeBrainModelMessages J msgs) = normalizeBrainModelMessages J msgs \<and>
   list_all (presentable J) (normalizeBrainModelMessages J msgs)"
proof
  have all_some: "v \<in> set (normalizeBrainModelMessages J msgs) \<Longrightarrow> \<exists>m. v = Some m" for v
    by (cases v) (auto simp: normalizeBrainModelMessages_def)
  have fix_all: "normalize_message J v = v" if "v \<in> set (normalizeBrainModelMessages J msgs)" for v
    using all_some [OF that] that normalized_in normalized_message(1) by fastforce
  then have "map (normalize_message J) (normalizeBrainModelMessages J msgs) = normalizeBrainModelMessages J msgs"
    by (intro map_idI) blast
  then show "normalizeBrainModelMessages J (normalizeBrainModelMessages J msgs) = normalizeBrainModelMessages J msgs"
    unfolding normalizeBrainModelMessages_def [of J "normalizeBrainModelMessages J msgs"]
    by (simp add: normalizeBrainModelMessages_def [of J msgs])
  show "list_all (presentable J) (normalizeBrainModelMessages J msgs)"
    by (simp add: list_all_iff normalized_presentable)
qed

end
