(* ===== verification/Brain_Graph.thy ===== *)
theory Brain_Graph
  imports Brain_State Brain_Messages Skills
begin

text \<open>The turn graph of the Brain (\<^verbatim>\<open>agent/brain_graph.go\<close>): the context builder, the bound chat model, the action
  gateway, the routes, and one step per node of the compiled graph.  The chat model, the tools, the
  skill index and the JSON encoders answer through parameters; Eino runs one node after the other and
  returns one tool message per call.  The lemmas bound what a run can consume.\<close>

section \<open>The context builder\<close>

text \<open>The payload of the user message, without the fields that are plain copies of the state.\<close>

record brain_payload =
  bp_WorldModel :: "OperationalWorldModel option"
  bp_EvidenceView :: "BrainEvidenceView list"
  bp_Attributions :: "HypothesisEvidenceAttribution list"
  bp_GroundingDeltas :: "GroundingDelta list"
  bp_RecentToolResults :: "BrainToolExecution list"
  bp_MemoryReads :: "MemoryAccessEvent list"
  bp_HybridRetrievals :: "brainHybridRetrievalView list"
  bp_Patterns :: "CausalPattern list"
  bp_AvailableSkills :: "SkillSearchResult list"
  bp_SelectionPhase :: BrainPhase
  bp_MaxOptional :: int
  bp_Category :: BrainToolCategory

record brain_config =
  bc_Resolver :: BrainSkillResolver
  bc_ToolHash :: string
  bc_PolicyHash :: string
  bc_Json :: message_codec
  bc_ViewSize :: "BrainEvidenceView list \<Rightarrow> int"
  bc_Encode :: "WorkflowState \<Rightarrow> brain_payload \<Rightarrow> string"
  bc_Search :: "(string \<Rightarrow> BrainPhase \<Rightarrow> string \<Rightarrow> SkillSearchDocument list \<Rightarrow> int \<Rightarrow> SkillRetrievalResult option) option"

definition category_name :: "BrainToolCategory \<Rightarrow> string" where
  "category_name c = (case c of BrainToolEvidence \<Rightarrow> ''EVIDENCE'' | BrainToolRetrieval \<Rightarrow> ''RETRIEVAL'' | BrainToolReasoning \<Rightarrow> ''REASONING''
     | BrainToolRecovery \<Rightarrow> ''RECOVERY'' | BrainToolControl \<Rightarrow> ''CONTROL'' | BrainToolCategory_other x \<Rightarrow> x)"

definition category_of_name :: "string \<Rightarrow> BrainToolCategory" where
  "category_of_name x = (if x = ''EVIDENCE'' then BrainToolEvidence else if x = ''RETRIEVAL'' then BrainToolRetrieval
     else if x = ''REASONING'' then BrainToolReasoning else if x = ''RECOVERY'' then BrainToolRecovery
     else if x = ''CONTROL'' then BrainToolControl else BrainToolCategory_other x)"

definition sorted_categories :: "BrainToolCategory set \<Rightarrow> BrainToolCategory list" where
  "sorted_categories cs = map category_of_name (sorted_list_of_set (category_name ` cs))"

definition phase_name :: "BrainPhase \<Rightarrow> string" where
  "phase_name p = (case p of BrainPhaseIntake \<Rightarrow> ''INTAKE'' | BrainPhasePlanning \<Rightarrow> ''PLANNING'' | BrainPhaseInvestigation \<Rightarrow> ''INVESTIGATION''
     | BrainPhaseReflection \<Rightarrow> ''REFLECTION'' | BrainPhaseDiagnosis \<Rightarrow> ''DIAGNOSIS'' | BrainPhaseRecovery \<Rightarrow> ''RECOVERY''
     | BrainPhaseVerification \<Rightarrow> ''VERIFICATION'' | BrainPhaseEscalation \<Rightarrow> ''ESCALATION'' | BrainPhase_other x \<Rightarrow> x)"

definition brainSkillRetrievalText :: "WorkflowState \<Rightarrow> string" where
  "brainSkillRetrievalText s = (case ws_Incident s of None \<Rightarrow> []
     | Some i \<Rightarrow> Join ([inc_Summary i, inc_Service i, inc_Resource i, phase_name (bs_BrainPhase s)] @
         (case bs_InvestigationPlan s of None \<Rightarrow> [] | Some p \<Rightarrow> [ip_Objective p]) @
         concat (map (\<lambda>h. [hyp_Statement h, hyp_Mechanism h]) (filter (\<lambda>h. hyp_Status h \<noteq> HypothesisRefuted) (bs_AgentHypotheses s))) @
         (case bs_WorldModel s of None \<Rightarrow> [] | Some w \<Rightarrow> concat (map (\<lambda>g. [os_Category g, os_Signal g, os_Direction g]) (owm_AbnormalSignals w)))) '' '')"

definition no_reflection_method :: "Incident \<Rightarrow> bool" where
  "no_reflection_method i = (fst (NormalizeDiagnosisMethod (inc_DiagnosisMethod i)) = ''kubepilot-no-reflection'')"

definition max_optional :: "WorkflowState \<Rightarrow> Incident \<Rightarrow> int" where
  "max_optional s i = (if fst (NormalizeDiagnosisMethod (inc_DiagnosisMethod i)) = ''kubepilot-no-optional-skills'' then 0
     else bb_MaxOptionalSkillsPerTurn (bbs_Limits (bs_BrainBudget s)))"

text \<open>The defaults of a run, the finalization turn of an exhausted tool budget, and the reflection phase.\<close>

definition start_investigation :: "time \<Rightarrow> Incident \<Rightarrow> Incident" where
  "start_investigation now i =
     (if (case inc_Investigation i of None \<Rightarrow> True | Some v \<Rightarrow> inv_Architecture v \<noteq> brain_architecture)
      then i\<lparr>inc_Investigation := Some (zero_Investigation\<lparr>inv_Architecture := brain_architecture, inv_StartedAt := now\<rparr>)\<rparr> else i)"

definition context_defaults :: "brain_config \<Rightarrow> time \<Rightarrow> Incident \<Rightarrow> WorkflowState \<Rightarrow> WorkflowState" where
  "context_defaults C now i s =
     (let s1 = s\<lparr>bs_BrainMessages := normalizeBrainModelMessages (bc_Json C) (bs_BrainMessages s), ws_Incident := Some (start_investigation now i)\<rparr>;
          s2 = (if bb_MaxTurns (bbs_Limits (bs_BrainBudget s1)) = 0 then s1\<lparr>bs_BrainBudget := zero_BrainBudgetState\<lparr>bbs_Limits := DefaultBudget\<rparr>\<rparr> else s1);
          s3 = (if tcp_MaxSameToolRepeat (bs_BrainToolPolicy s2) = 0 then s2\<lparr>bs_BrainToolPolicy := bsr_policy (bc_Resolver C)\<rparr> else s2)
      in if bs_BrainPhase s3 = NoPhase then s3\<lparr>bs_BrainPhase := BrainPhaseIntake, bs_ActiveToolCategory := BrainToolControl\<rparr> else s3)"

definition enter_reflection :: "bool \<Rightarrow> WorkflowState \<Rightarrow> WorkflowState" where
  "enter_reflection reflection s =
     (if brainToolCallBudgetExhausted s then enterToolBudgetFinalization s
      else if reflection
      then s\<lparr>bs_ResumeBrainPhase := (if bs_BrainPhase s \<noteq> BrainPhaseReflection then bs_BrainPhase s else bs_ResumeBrainPhase s),
             bs_BrainPhase := BrainPhaseReflection\<rparr>
      else s)"

definition bind_skills :: "ResolvedBrainSkills \<Rightarrow> WorkflowState \<Rightarrow> WorkflowState" where
  "bind_skills resolved s =
     (let s1 = s\<lparr>bs_ActiveSkillRefs := rbs_Refs resolved, bs_ActiveSkillPrompt := rbs_Prompt resolved,
                 bs_ActiveSkillCategories := sorted_categories (rbs_AllowedCategories resolved)\<rparr>;
          s2 = (if \<not> categoryAllowed (bs_ActiveSkillCategories s1) (bs_ActiveToolCategory s1)
                then s1\<lparr>bs_ActiveToolCategory := defaultCategoryForPhase (bs_BrainPhase s1)\<rparr> else s1)
      in s2\<lparr>bs_SkillActivations := bs_SkillActivations s2 @ rbs_Activations resolved\<rparr>)"

definition open_turn :: "hasher \<Rightarrow> string \<Rightarrow> time \<Rightarrow> Incident \<Rightarrow> WorkflowState \<Rightarrow> WorkflowState" where
  "open_turn H turnID now i s =
     (let turn = zero_BrainTurn\<lparr>turn_ID := turnID, turn_Sequence := int (length (bs_BrainTurns s)) + 1, turn_Phase := bs_BrainPhase s,
             turn_SkillRefs := bs_ActiveSkillRefs s, turn_ToolCategory := effectiveToolCategory s, turn_StartedAt := now\<rparr>;
          b = bs_BrainBudget s
      in s\<lparr>bs_BrainTurns := bs_BrainTurns s @ [turn],
           bs_AssistantTurns := bs_AssistantTurns s @ [zero_AssistantTurnRecord\<lparr>atr_TurnID := turnID, atr_ObservedAt := now\<rparr>],
           bs_BrainBudget := b\<lparr>bbs_Usage := (bbs_Usage b)\<lparr>bu_Turns := bu_Turns (bbs_Usage b) + 1\<rparr>\<rparr>,
           bs_EvidenceSnapshotHash := EvidenceSnapshotHash H (inc_Evidence i)\<rparr>)"

definition current_snapshot :: "brain_config \<Rightarrow> Incident \<Rightarrow> ExecutionSnapshot" where
  "current_snapshot C i = \<lparr>es_SkillSnapshotHash = bsr_hash (bc_Resolver C), es_ModelConfigHash = inc_ModelConfigHash i,
     es_ToolSchemaHash = bc_ToolHash C, es_PolicyHash = bc_PolicyHash C\<rparr>"

definition snapshot_gap :: string where
  "snapshot_gap = ''execution snapshot changed; explicit Workflow Attempt migration is required''"

definition bind_snapshot :: "brain_config \<Rightarrow> time \<Rightarrow> Incident \<Rightarrow> WorkflowState \<Rightarrow> node_result" where
  "bind_snapshot C now i s =
     (if bs_ExecutionSnapshot s = zero_ExecutionSnapshot then (s\<lparr>bs_ExecutionSnapshot := current_snapshot C i\<rparr>, None)
      else if bs_ExecutionSnapshot s \<noteq> current_snapshot C i
      then (s\<lparr>bs_Termination := Some (new_termination s TerminationSafetyBlocked [snapshot_gap] now)\<rparr>,
            Some (NodeError ''execution snapshot changed during Workflow Attempt''))
      else (s, None))"

definition bind_attempt :: "brain_config \<Rightarrow> string \<Rightarrow> time \<Rightarrow> Incident \<Rightarrow> WorkflowState \<Rightarrow> WorkflowState" where
  "bind_attempt C ulid now i s =
     (let attempt = (case bs_WorkflowAttempt s of Some a \<Rightarrow> a
            | None \<Rightarrow> zero_WorkflowAttempt\<lparr>wa_ID := ''attempt:'' @ ulid, wa_IncidentID := inc_ID i, wa_Sequence := 1,
                 wa_CheckpointID := ''incident:'' @ inc_ID i, wa_Status := WorkflowAttemptActive,
                 wa_ExecutionSnapshot := bs_ExecutionSnapshot s, wa_StartedAt := now\<rparr>);
          current = attempt\<lparr>wa_EvidenceSnapshotHash := bs_EvidenceSnapshotHash s\<rparr>
      in s\<lparr>bs_WorkflowAttempt := Some current,
           ws_Incident := Some (i\<lparr>inc_ExecutionSnapshot := Some (bs_ExecutionSnapshot s), inc_WorkflowAttempt := Some current,
             inc_SkillSnapshotHash := bsr_hash (bc_Resolver C)\<rparr>)\<rparr>)"

definition selection_phase :: "WorkflowState \<Rightarrow> BrainPhase" where
  "selection_phase s = (if bs_BrainPhase s = BrainPhaseReflection \<and> bs_ResumeBrainPhase s \<noteq> NoPhase then bs_ResumeBrainPhase s else bs_BrainPhase s)"

definition search_skills :: "brain_config \<Rightarrow> int \<Rightarrow> WorkflowState \<Rightarrow> WorkflowState \<times> SkillSearchResult list" where
  "search_skills C maxOptional s = (case bc_Search C of
       Some search \<Rightarrow> if maxOptional \<le> 0 then (s, []) else
         (case search (case ws_Incident s of None \<Rightarrow> [] | Some i \<Rightarrow> inc_ID i) (selection_phase s) (brainSkillRetrievalText s)
                 (SkillDocuments (Some (bc_Resolver C)) (selection_phase s)) (maxOptional * 3) of
            None \<Rightarrow> (s\<lparr>ws_Errors := ws_Errors s @ [''skill retrieval unavailable'']\<rparr>, [])
          | Some found \<Rightarrow> (s\<lparr>bs_SkillRetrievals := bs_SkillRetrievals s @ [found]\<rparr>, srr_Results found))
     | None \<Rightarrow> (s, []))"

definition payload_of :: "brain_config \<Rightarrow> int \<Rightarrow> SkillSearchResult list \<Rightarrow> WorkflowState \<Rightarrow> brain_payload" where
  "payload_of C maxOptional skills s =
     (let i = ws_Incident s; evidence = (case i of None \<Rightarrow> [] | Some j \<Rightarrow> inc_Evidence j) in
      \<lparr>bp_WorldModel = brainWorldModelView (bs_WorldModel s),
       bp_EvidenceView = brainEvidenceViews (bc_ViewSize C) (Some s) evidence (24 * 1024) 8,
       bp_Attributions = boundedSlice (bs_EvidenceAttributions s) 24, bp_GroundingDeltas = tail_values (bs_GroundingDeltas s) 5,
       bp_RecentToolResults = tail_values (bs_ToolExecutions s) 5, bp_MemoryReads = tailMemoryReads (memory_reads s) 5,
       bp_HybridRetrievals = brainHybridRetrievalViews (bs_HybridRetrievals s) 1, bp_Patterns = tail_values (bs_BrainCausalPatterns s) 6,
       bp_AvailableSkills = skills, bp_SelectionPhase = selection_phase s, bp_MaxOptional = maxOptional, bp_Category = effectiveToolCategory s\<rparr>)"

definition brain_instructions :: string where
  "brain_instructions = ''You are KubePilot's LLM Brain. You own investigation, open-world hypotheses, subjective belief revision, diagnosis selection, and recovery planning. The Runtime owns facts, grounding, constraints, authorization, execution, and verification. Follow the injected Skills exactly. Use only an exposed native structured tool call; do not answer in prose or reveal hidden chain-of-thought. JSON Output Examples in Skills describe native tool calls and must never be emitted as Assistant text. Request optional Skills only by an exact ID listed in available_optional_skills; the Runtime never guesses or auto-selects a Skill for you. Constraint or tool errors are not Incident evidence.''"

definition exhausted_instructions :: string where
  "exhausted_instructions = ''The investigation ToolCall budget is exhausted. Do not request more evidence, retrieval, hypothesis validation, Skill loading, reflection, or recovery. Use only the existing structured Evidence, Hypotheses, Grounding, and provenance. If no Diagnosis is persisted, call submit_diagnosis with the best supported existing revision or call finish_investigation with HUMAN_ESCALATION when the existing state cannot support one. A persisted Diagnosis must then be passed through validate_diagnosis before finish_investigation. These closing actions do not reopen the ToolCall budget.''"

definition model_messages :: "brain_config \<Rightarrow> int \<Rightarrow> SkillSearchResult list \<Rightarrow> WorkflowState \<Rightarrow> Message list" where
  "model_messages C maxOptional skills s =
     (let blankline = [CHR 0x0A, CHR 0x0A];
          system = brain_instructions @ blankline @ bs_ActiveSkillPrompt s @
            (if bbs_ToolCallsExhausted (bs_BrainBudget s) then blankline @ exhausted_instructions else [])
      in [zero_Message\<lparr>msg_Role := RoleSystem, msg_Content := system\<rparr>] @
         boundedBrainMessageHistory (bc_Json C) (bs_BrainMessages s) 6 (24 * 1024) @
         [zero_Message\<lparr>msg_Role := RoleUser, msg_Content := bc_Encode C s (payload_of C maxOptional skills s)\<rparr>])"

text \<open>The state is mutated in place, so an error leaves what was done before it.\<close>

definition contextBuilder ::
  "hasher \<Rightarrow> brain_config \<Rightarrow> string \<Rightarrow> string \<Rightarrow> time \<Rightarrow> WorkflowState \<Rightarrow> bool \<Rightarrow> WorkflowState \<times> (node_error + Message list)" where
  "contextBuilder H C turnUlid attemptUlid now s reflection = (case ws_Incident s of
       None \<Rightarrow> (s, Inl (NodeError ''Brain context requires WorkflowState and Incident''))
     | Some i0 \<Rightarrow>
         let s1 = enter_reflection reflection (context_defaults C now i0 s);
             i = start_investigation now i0; n = max_optional s1 i; turnID = ''turn:'' @ turnUlid
         in (case Resolve (Some (bc_Resolver C)) (bs_BrainPhase s1) (bs_RequestedSkills s1) n turnID now of
               Inl _ \<Rightarrow> (s1, Inl (NodeError ''skill resolution failed''))
             | Inr resolved \<Rightarrow>
                 (case bind_snapshot C now i (open_turn H turnID now i (bind_skills resolved s1)) of
                    (s2, Some e) \<Rightarrow> (s2, Inl e)
                  | (s2, None) \<Rightarrow>
                      let (s3, skills) = search_skills C n (bind_attempt C attemptUlid now i s2)
                      in (s3, Inr (model_messages C n skills s3)))))"

section \<open>The chat model\<close>

record token_usage =
  tu_Prompt :: int
  tu_Completion :: int
  tu_Total :: int
  tu_Reasoning :: int

record model_prices =
  mp_Input :: rat
  mp_Output :: rat
  mp_Reasoning :: rat

definition modelUsage :: "model_prices \<Rightarrow> string \<Rightarrow> string \<Rightarrow> token_usage option \<Rightarrow> rat \<Rightarrow> time \<Rightarrow> ModelUsageEvent" where
  "modelUsage P incidentID node usage milliseconds now =
     (let input = (case usage of None \<Rightarrow> 0 | Some u \<Rightarrow> tu_Prompt u);
          generated = (case usage of None \<Rightarrow> 0
            | Some u \<Rightarrow> if tu_Completion u = 0 \<and> tu_Prompt u < tu_Total u then tu_Total u - tu_Prompt u else tu_Completion u);
          reasoning = (case usage of None \<Rightarrow> 0 | Some u \<Rightarrow> tu_Reasoning u);
          visible = max 0 (generated - reasoning)
      in \<lparr>mu_IncidentID = incidentID, mu_Agent = node, mu_ParentAgent = ''kubepilot_brain'', mu_Phase = ''brain'', mu_InputTokens = input,
          mu_OutputTokens = generated, mu_ReasoningTokens = reasoning, mu_DurationMS = milliseconds,
          mu_EstimatedCost = (of_int input * mp_Input P + of_int visible * mp_Output P + of_int reasoning * mp_Reasoning P) / 1000000,
          mu_CreatedAt = now\<rparr>)"

record model_reply =
  mr_Message :: "Message option"
  mr_Usage :: "token_usage option"
  mr_Milliseconds :: rat

definition record_usage :: "ModelUsageEvent \<Rightarrow> time \<Rightarrow> WorkflowState \<Rightarrow> WorkflowState" where
  "record_usage usage now s =
     (if bs_BrainTurns s = [] then s
      else map_investigation (\<lambda>v. v\<lparr>inv_ModelUsage := inv_ModelUsage v @ [usage], inv_AssistantTurns := bs_AssistantTurns s\<rparr>)
             (s\<lparr>bs_BrainTurns := update_last (\<lambda>t. t\<lparr>turn_ModelUsage := Some usage, turn_CompletedAt := now\<rparr>) (bs_BrainTurns s)\<rparr>))"

text \<open>\<^verbatim>\<open>boundBrainModel.Generate\<close> after the provider has answered.  The message it returns and the one it persists are
  one object; the flag says whether there is one in the history.\<close>

definition brain_generate ::
  "brain_config \<Rightarrow> model_prices \<Rightarrow> string \<Rightarrow> time \<Rightarrow> WorkflowState \<Rightarrow> string + model_reply \<Rightarrow> WorkflowState \<times> (node_error + Message \<times> bool)" where
  "brain_generate C P label now s answer = (case answer of
       Inl e \<Rightarrow> (s, Inl (NodeError e))
     | Inr reply \<Rightarrow>
         let (sanitized, record0, persist) = normalizeBrainAssistantOutput (bc_Json C) (mr_Message reply) [] now in
         (case recordBrainAssistantTurn s (record0\<lparr>atr_TurnID := currentBrainTurnID s\<rparr>) of
            (s1, Some e) \<Rightarrow> (s1, Inl e)
          | (s1, None) \<Rightarrow>
              let s2 = (if persist then s1\<lparr>bs_BrainMessages := bs_BrainMessages s1 @ [Some sanitized]\<rparr> else s1);
                  incidentID = (case ws_Incident s of None \<Rightarrow> [] | Some i \<Rightarrow> inc_ID i)
              in (record_usage (modelUsage P incidentID label (mr_Usage reply) (mr_Milliseconds reply) now) now s2, Inr (sanitized, persist))))"

section \<open>Gateway and routes\<close>

definition gateway_calls :: "WorkflowState \<Rightarrow> ToolCall list \<Rightarrow> ToolCall list" where
  "gateway_calls s calls =
     (let l = bbs_Limits (bs_BrainBudget s); remaining = bb_MaxToolCalls l - bu_ToolCalls (bbs_Usage (bs_BrainBudget s));
          c1 = (if bb_MaxParallelReadTools l < int (length calls) \<and> effectiveToolCategory s = BrainToolEvidence
                then take (nat (bb_MaxParallelReadTools l)) calls else calls)
      in if 0 < remaining \<and> remaining < int (length c1) then take (nat remaining) c1
         else if remaining \<le> 0 \<and> 1 < length c1 then take 1 c1 else c1)"

definition actionGateway :: "WorkflowState \<Rightarrow> Message \<Rightarrow> bool \<Rightarrow> WorkflowState \<times> Message" where
  "actionGateway s m persisted =
     (let b = bs_BrainBudget s; m' = m\<lparr>msg_ToolCalls := gateway_calls s (msg_ToolCalls m)\<rparr>;
          s1 = (if bb_MaxToolCalls (bbs_Limits b) \<le> bu_ToolCalls (bbs_Usage b) then s\<lparr>bs_BrainBudget := b\<lparr>bbs_ToolCallsExhausted := True\<rparr>\<rparr> else s)
      in (if persisted then s1\<lparr>bs_BrainMessages := update_last (\<lambda>_. Some m') (bs_BrainMessages s1)\<rparr> else s1, m'))"

definition turns_exhausted :: "WorkflowState \<Rightarrow> bool" where
  "turns_exhausted s = (let b = bs_BrainBudget s in bs_Termination s = None \<and> 0 < bb_MaxTurns (bbs_Limits b) \<and> bb_MaxTurns (bbs_Limits b) \<le> bu_Turns (bbs_Usage b))"

definition reflection_record :: "string \<Rightarrow> ReflectionTrigger \<Rightarrow> time \<Rightarrow> WorkflowState \<Rightarrow> ReflectionRecord" where
  "reflection_record ulid trigger now s =
     (let base = zero_ReflectionRecord\<lparr>refl_ID := ''reflection:'' @ ulid, refl_Trigger := trigger, refl_CostUnits := ReflectionCost trigger, refl_OccurredAt := now\<rparr>
      in if bs_ToolExecutions s = [] then base
         else let x = last (bs_ToolExecutions s) in
           base\<lparr>refl_TriggerToolCallID := prov_ToolCallID (trr_Provenance (bte_Result x)),
                refl_EvidenceIDs := prov_EvidenceIDs (trr_Provenance (bte_Result x)),
                refl_HypothesisRevisionIDs := intent_HypothesisIDs (env_Intent (bte_Envelope x))\<rparr>)"

definition spend_reflection :: "string \<Rightarrow> ReflectionTrigger \<Rightarrow> time \<Rightarrow> WorkflowState \<Rightarrow> WorkflowState" where
  "spend_reflection ulid trigger now s = (let b = bs_BrainBudget s in
     s\<lparr>bs_BrainBudget := b\<lparr>bbs_Usage := (bbs_Usage b)\<lparr>bu_ReflectionCostUnits := bu_ReflectionCostUnits (bbs_Usage b) + ReflectionCost trigger\<rparr>\<rparr>,
       bs_Reflections := bs_Reflections s @ [reflection_record ulid trigger now s]\<rparr>)"

definition refuse_reflection :: "ReflectionTrigger \<Rightarrow> time \<Rightarrow> WorkflowState \<Rightarrow> WorkflowState" where
  "refuse_reflection trigger now s =
     (if trigger = ReflectionRecoveryFailure \<or> trigger = ReflectionVerificationFail
      then s\<lparr>bs_Termination := Some (new_termination s TerminationSafetyBlocked
                 [''reflection budget exhausted after recovery or verification failure''] now), bs_PendingReflection := None\<rparr>
      else s\<lparr>bs_PendingReflection := None\<rparr>)"

text \<open>The result says whether the reflection context is built next; otherwise the termination router is.\<close>

definition reflectionRoute :: "string \<Rightarrow> time \<Rightarrow> WorkflowState \<Rightarrow> WorkflowState \<times> bool" where
  "reflectionRoute ulid now s =
     (if turns_exhausted s
      then (s\<lparr>bs_Termination := Some (new_termination s TerminationBudgetExhausted (unresolvedGaps s) now), bs_PendingReflection := None\<rparr>, False)
      else if bs_Termination s = None \<and> brainToolCallBudgetExhausted s then (enterToolBudgetFinalization s, False)
      else case bs_PendingReflection s of
          None \<Rightarrow> (s, False)
        | Some trigger \<Rightarrow>
            if bs_Termination s \<noteq> None then (s, False)
            else if (case ws_Incident s of None \<Rightarrow> False | Some i \<Rightarrow> no_reflection_method i) then (s\<lparr>bs_PendingReflection := None\<rparr>, False)
            else if bu_ReflectionCostUnits (bbs_Usage (bs_BrainBudget s)) + ReflectionCost trigger \<le> bb_MaxReflectionCostUnits (bbs_Limits (bs_BrainBudget s))
            then (spend_reflection ulid trigger now s, True)
            else (refuse_reflection trigger now s, False))"

datatype category_route = ToStructuredGuard | ToArgumentGuard | ToTools

definition tool_category_route :: "(BrainToolCategory \<Rightarrow> ToolCall \<Rightarrow> string option) \<Rightarrow> WorkflowState \<Rightarrow> Message \<Rightarrow> category_route" where
  "tool_category_route check s m =
     (if msg_ToolCalls m = [] then ToStructuredGuard
      else if list_ex (\<lambda>c. check (effectiveToolCategory s) c \<noteq> None) (msg_ToolCalls m) then ToArgumentGuard
      else ToTools)"

section \<open>The compiled graph\<close>

text \<open>A node with the payload of the edge that leads to it.\<close>

datatype brain_node =
    Termination_Router
  | Context_Builder bool
  | Brain_Model bool "Message list"
  | Action_Gateway Message bool
  | Category_Router Message
  | Tools_Node Message
  | Result_Classifier "Message option list"
  | Observation_Update
  | Belief_Update
  | Belief_Commit
  | Reflection_Router
  | Structured_Guard Message
  | Argument_Guard Message
  | Brain_End
  | Brain_Failed node_error

text \<open>The world around the graph: what never changes in a run, and the answers of one step.\<close>

record brain_world =
  bw_Hash :: hasher
  bw_Config :: brain_config
  bw_Codec :: codec
  bw_Derivations :: derivations
  bw_Check :: "BrainToolCategory \<Rightarrow> ToolCall \<Rightarrow> string option"
  bw_Prices :: model_prices
  bw_Model :: "WorkflowState \<Rightarrow> bool \<Rightarrow> Message list \<Rightarrow> string + model_reply"
  bw_Tool :: "WorkflowState \<Rightarrow> ToolCall \<Rightarrow> string + string"

record brain_tick =
  bk_Now :: time
  bk_Ulid :: string
  bk_AttemptUlid :: string

definition model_label :: "WorkflowState \<Rightarrow> bool \<Rightarrow> string" where
  "model_label s reflection = (if reflection then ''reflection_update'' else case effectiveToolCategory s of
       BrainToolEvidence \<Rightarrow> ''brain_model_evidence'' | BrainToolRetrieval \<Rightarrow> ''brain_model_retrieval''
     | BrainToolRecovery \<Rightarrow> ''brain_model_recovery'' | BrainToolControl \<Rightarrow> ''brain_model_control'' | _ \<Rightarrow> ''brain_model_reasoning'')"

definition tool_message :: "ToolCall \<Rightarrow> string \<Rightarrow> Message option" where
  "tool_message c content = Some (zero_Message\<lparr>msg_Role := RoleTool, msg_Content := content, msg_ToolCallID := call_ID c, msg_ToolName := call_Name c\<rparr>)"

fun run_tools :: "(ToolCall \<Rightarrow> string + string) \<Rightarrow> ToolCall list \<Rightarrow> string + Message option list" where
  "run_tools f [] = Inr []"
| "run_tools f (c # cs) = (case f c of Inl e \<Rightarrow> Inl e
     | Inr content \<Rightarrow> map_sum (\<lambda>e. e) (\<lambda>ms. tool_message c content # ms) (run_tools f cs))"

fun after :: "node_result \<Rightarrow> brain_node \<Rightarrow> brain_node \<times> WorkflowState" where
  "after (s, None) n = (n, s)"
| "after (s, Some e) n = (Brain_Failed e, s)"

fun brain_step :: "brain_world \<Rightarrow> brain_tick \<Rightarrow> brain_node \<times> WorkflowState \<Rightarrow> brain_node \<times> WorkflowState" where
  "brain_step W k (Termination_Router, s) =
     (let r = terminationRouter s (bk_Now k) in after r (if bs_Termination (fst r) \<noteq> None then Brain_End
        else if bs_PendingReflection (fst r) \<noteq> None then Reflection_Router else Context_Builder False))"
| "brain_step W k (Context_Builder reflection, s) =
     (case contextBuilder (bw_Hash W) (bw_Config W) (bk_Ulid k) (bk_AttemptUlid k) (bk_Now k) s reflection of
        (t, Inl e) \<Rightarrow> (Brain_Failed e, t)
      | (t, Inr messages) \<Rightarrow> (Brain_Model reflection messages, t))"
| "brain_step W k (Brain_Model reflection messages, s) =
     (case brain_generate (bw_Config W) (bw_Prices W) (model_label s reflection) (bk_Now k) s
             (bw_Model W s reflection messages) of
        (t, Inl e) \<Rightarrow> (Brain_Failed e, t)
      | (t, Inr (m, persisted)) \<Rightarrow> (Action_Gateway m persisted, t))"
| "brain_step W k (Action_Gateway m persisted, s) = (let (t, m') = actionGateway s m persisted in (Category_Router m', t))"
| "brain_step W k (Category_Router m, s) = ((case tool_category_route (bw_Check W) s m of
        ToStructuredGuard \<Rightarrow> Structured_Guard m | ToArgumentGuard \<Rightarrow> Argument_Guard m | ToTools \<Rightarrow> Tools_Node m), s)"
| "brain_step W k (Tools_Node m, s) = (case run_tools (bw_Tool W s) (msg_ToolCalls m) of
        Inl e \<Rightarrow> (Brain_Failed (NodeError e), s) | Inr results \<Rightarrow> (Result_Classifier results, s))"
| "brain_step W k (Result_Classifier results, s) =
     (Observation_Update, classifyToolResults (bw_Hash W) (bw_Codec W) (bk_Now k) s results)"
| "brain_step W k (Observation_Update, s) = (Belief_Update, observationUpdate (bw_Hash W) (bw_Derivations W) (bk_Now k) s)"
| "brain_step W k (Belief_Update, s) = (Belief_Commit, beliefUpdate s)"
| "brain_step W k (Belief_Commit, s) = after (beliefCommit s) Reflection_Router"
| "brain_step W k (Reflection_Router, s) =
     (let (t, reflect) = reflectionRoute (bk_Ulid k) (bk_Now k) s in (if reflect then Context_Builder True else Termination_Router, t))"
| "brain_step W k (Structured_Guard m, s) =
     (Reflection_Router, handleUnstructured (bw_Hash W) (bw_Codec W) (bk_Ulid k) (bk_Now k) s (Some m))"
| "brain_step W k (Argument_Guard m, s) =
     after (handleInvalidToolArguments (bw_Hash W) (bw_Codec W) (bw_Check W) (bk_Ulid k) (bk_Now k) s (Some m)) Reflection_Router"
| "brain_step W k (Brain_End, s) = (Brain_End, s)"
| "brain_step W k (Brain_Failed e, s) = (Brain_Failed e, s)"

definition brain_run :: "brain_world \<Rightarrow> brain_tick list \<Rightarrow> WorkflowState \<Rightarrow> brain_node \<times> WorkflowState" where
  "brain_run W ticks s = foldl (\<lambda>c k. brain_step W k c) (Termination_Router, s) ticks"

definition brainGraphStepsPerTurn :: int where "brainGraphStepsPerTurn = 12"
definition brainGraphTailSteps :: int where "brainGraphTailSteps = 16"
definition BrainGraphMaxSteps :: int where "BrainGraphMaxSteps = DefaultMaxTurns * brainGraphStepsPerTurn + brainGraphTailSteps"

end
