(* ===== verification/Brain_Budget.thy ===== *)
theory Brain_Budget
  imports Brain_Graph
begin

text \<open>What a run of the turn graph can consume.  Each node changes the budget in one of a few ways, stated in the
  first section; the invariant bounds turns, tool calls, corrections and reflections at every node;
  the measure counts the steps left, so that a run ends on its own before the step limit of the graph
  engine.\<close>

section \<open>How the nodes change the budget\<close>

text \<open>\<^verbatim>\<open>spends n b c\<close>: limits and turns stay, at most \<open>n\<close> tool calls are counted, none after exhaustion.\<close>

definition spends :: "nat \<Rightarrow> BrainBudgetState \<Rightarrow> BrainBudgetState \<Rightarrow> bool" where
  "spends n b c = (bbs_Limits c = bbs_Limits b \<and> bu_Turns (bbs_Usage c) = bu_Turns (bbs_Usage b) \<and>
     bu_StructuredCorrections (bbs_Usage c) = bu_StructuredCorrections (bbs_Usage b) \<and>
     bu_ReflectionCostUnits (bbs_Usage c) = bu_ReflectionCostUnits (bbs_Usage b) \<and>
     bbs_ToolCallsExhausted c = bbs_ToolCallsExhausted b \<and>
     (if bbs_ToolCallsExhausted b then bu_ToolCalls (bbs_Usage c) = bu_ToolCalls (bbs_Usage b)
      else bu_ToolCalls (bbs_Usage b) \<le> bu_ToolCalls (bbs_Usage c) \<and> bu_ToolCalls (bbs_Usage c) \<le> bu_ToolCalls (bbs_Usage b) + int n))"

lemma spends_refl [simp]: "spends n b b" by (simp add: spends_def)

lemma spends_trans: "spends m a b \<Longrightarrow> spends n b c \<Longrightarrow> spends (m + n) a c"
  by (auto simp: spends_def split: if_splits)

lemma spends_mono: "spends m a b \<Longrightarrow> m \<le> n \<Longrightarrow> spends n a b"
  by (auto simp: spends_def split: if_splits)

lemma apply_budget [simp]:
  "bs_BrainBudget (apply_evidence result s) = bs_BrainBudget s" "bs_BrainBudget (apply_retrieval H now result s) = bs_BrainBudget s"
  "bs_BrainBudget (apply_grounding result s) = bs_BrainBudget s" "bs_BrainBudget (apply_plan result s) = bs_BrainBudget s"
  "bs_BrainBudget (apply_diagnosis result s) = bs_BrainBudget s" "bs_BrainBudget (apply_control result s) = bs_BrainBudget s"
  "bs_BrainBudget (apply_trigger result s) = bs_BrainBudget s" "bs_BrainBudget (apply_reflection now result s) = bs_BrainBudget s"
  "bs_BrainBudget (record_accesses C n s) = bs_BrainBudget s" "bs_BrainBudget (record_tool_result env r s) = bs_BrainBudget s"
  by (simp_all add: apply_evidence_def apply_retrieval_def auditRetrieval_def apply_grounding_def apply_plan_def apply_diagnosis_def
      apply_control_def apply_trigger_def apply_reflection_def record_accesses_def record_tool_result_def Let_def split: option.split)

lemma apply_hypotheses_spends: "spends n (bs_BrainBudget s) (bs_BrainBudget (apply_hypotheses result s))"
  by (simp add: spends_def apply_hypotheses_def Let_def)

lemma output_spends: "spends n (bs_BrainBudget s) (bs_BrainBudget (applyCapabilityOutput H now result s))"
  using apply_hypotheses_spends [of n "apply_retrieval H now result (apply_evidence result s)" result]
  by (simp add: applyCapabilityOutput_def)

lemma count_spends: "spends 1 b (counted_call b)"
  by (simp add: spends_def counted_call_def)

lemma message_spends: "spends 1 (bs_BrainBudget s) (bs_BrainBudget (classify_message H C now s m))"
proof (cases "ws_Incident s")
  case (Some i)
  let ?u = "fst (begin_message H C now s i m)"
  have "spends 1 (bs_BrainBudget s) (bs_BrainBudget ?u)" using count_spends by simp
  from spends_trans [OF this output_spends [of 0 ?u H now "snd (begin_message H C now s i m)"]] show ?thesis
    by (simp add: classify_message_def Some split_beta)
qed (simp add: classify_message_def)

lemma messages_spend: "spends (length ms) (bs_BrainBudget s) (bs_BrainBudget (foldl (classify_message H C now) s ms))"
proof (induction ms arbitrary: s)
  case (Cons m ms)
  from spends_trans [OF message_spends [of s H C now m] Cons.IH [of "classify_message H C now s m"]] show ?case by simp
qed simp

lemma classify_spends:
  assumes "length messages \<le> n"
  shows "spends n (bs_BrainBudget s) (bs_BrainBudget (classifyToolResults H C now s messages))"
proof -
  let ?ms = "filter (\<lambda>m. msg_Role m = RoleTool) (concat (map (case_option [] (\<lambda>m. [m])) messages))"
  have "length (concat (map (case_option [] (\<lambda>m. [m])) vs)) \<le> length vs" for vs :: "Message option list"
    by (induction vs) (auto split: option.split)
  then have "length ?ms \<le> n" using assms by (meson length_filter_le order.trans)
  then show ?thesis unfolding classifyToolResults_def sync_fields_kept by (rule spends_mono [OF messages_spend])
qed

lemma observation_parts [simp]:
  "bs_BrainBudget (rank_runtime D now i s) = bs_BrainBudget s" "bs_BrainBudget (observe_topology D i g s) = bs_BrainBudget s"
  "bs_BrainBudget (invalidate_stale previous s) = bs_BrainBudget s"
  by (simp_all add: rank_runtime_def observe_topology_def invalidate_stale_def Let_def split: option.split prod.split)

lemma observation_budget [simp]: "bs_BrainBudget (observationUpdate H D now s) = bs_BrainBudget s"
  by (simp add: observationUpdate_def Let_def split: option.split)

lemma belief_budget [simp]: "bs_BrainBudget (beliefUpdate s) = bs_BrainBudget s"
  by (simp add: beliefUpdate_def Let_def)

lemma commit_deltas_budget: "bs_BrainBudget (fst (commit_deltas ds s)) = bs_BrainBudget s"
  by (induction ds s rule: commit_deltas.induct) (auto simp: advance_belief_cursor_def split: option.split sum.split)

lemma commit_budget [simp]: "bs_BrainBudget (fst (beliefCommit s)) = bs_BrainBudget s"
proof -
  obtain t e where "commit_deltas (drop (nat (bs_BeliefDeltaCursor s)) (bs_BeliefDeltas s)) s = (t, e)" by fastforce
  with commit_deltas_budget [of "drop (nat (bs_BeliefDeltaCursor s)) (bs_BeliefDeltas s)" s] show ?thesis
    by (cases e) (simp_all add: beliefCommit_def)
qed

lemma router_budget [simp]: "bs_BrainBudget (fst (terminationRouter s now)) = bs_BrainBudget s"
  by (simp add: terminationRouter_def Let_def split: option.split)

lemma record_parts [simp]:
  "bs_BrainBudget (fst (recordBrainAssistantTurn s r)) = bs_BrainBudget s" "bs_BrainBudget (record_usage u now s) = bs_BrainBudget s"
  by (simp_all add: recordBrainAssistantTurn_def record_usage_def split: option.split)

text \<open>A context opens a turn, after the defaults of a run have been set.\<close>

definition started_budget :: "BrainBudgetState \<Rightarrow> BrainBudgetState" where
  "started_budget b = (if bb_MaxTurns (bbs_Limits b) = 0 then zero_BrainBudgetState\<lparr>bbs_Limits := DefaultBudget\<rparr> else b)"

definition opens :: "int \<Rightarrow> BrainBudgetState \<Rightarrow> BrainBudgetState \<Rightarrow> bool" where
  "opens k b c = (bbs_Limits c = bbs_Limits b \<and> bu_Turns (bbs_Usage c) = bu_Turns (bbs_Usage b) + k \<and>
     bu_ToolCalls (bbs_Usage c) = bu_ToolCalls (bbs_Usage b) \<and> bu_StructuredCorrections (bbs_Usage c) = bu_StructuredCorrections (bbs_Usage b) \<and>
     bu_ReflectionCostUnits (bbs_Usage c) = bu_ReflectionCostUnits (bbs_Usage b))"

lemma defaults_budget [simp]: "bs_BrainBudget (context_defaults C now i s) = started_budget (bs_BrainBudget s)"
  by (simp add: context_defaults_def started_budget_def Let_def)

lemma finalization_opens: "opens 0 (bs_BrainBudget s) (bs_BrainBudget (enterToolBudgetFinalization s))"
  by (simp add: enterToolBudgetFinalization_def opens_def Let_def)

lemma enter_reflection_opens: "opens 0 (bs_BrainBudget s) (bs_BrainBudget (enter_reflection reflection s))"
  using finalization_opens [of s] by (simp add: enter_reflection_def opens_def)

lemma bind_parts [simp]:
  "bs_BrainBudget (bind_skills resolved s) = bs_BrainBudget s" "bs_BrainBudget (bind_attempt C ulid now i s) = bs_BrainBudget s"
  "bs_BrainBudget (fst (bind_snapshot C now i s)) = bs_BrainBudget s" "bs_BrainBudget (fst (search_skills C n s)) = bs_BrainBudget s"
  by (simp_all add: bind_skills_def bind_attempt_def bind_snapshot_def search_skills_def Let_def split: option.split)

lemma open_turn_opens: "opens 1 (bs_BrainBudget s) (bs_BrainBudget (open_turn H turnID now i s))"
  by (simp add: open_turn_def opens_def Let_def)

lemma opens_trans: "opens j a b \<Longrightarrow> opens k b c \<Longrightarrow> opens (j + k) a c"
  by (simp add: opens_def)

lemma context_opens:
  assumes "contextBuilder H C turnUlid attemptUlid now s reflection = (t, r)"
  shows "(\<exists>messages. r = Inr messages \<and> opens 1 (started_budget (bs_BrainBudget s)) (bs_BrainBudget t)) \<or>
    (\<exists>e. r = Inl e \<and> (bs_BrainBudget t = bs_BrainBudget s \<or> opens 0 (started_budget (bs_BrainBudget s)) (bs_BrainBudget t) \<or>
       opens 1 (started_budget (bs_BrainBudget s)) (bs_BrainBudget t)))"
proof (cases "ws_Incident s")
  case None
  then show ?thesis using assms by (auto simp: contextBuilder_def)
next
  case (Some i0)
  let ?i = "start_investigation now i0" and ?s1 = "enter_reflection reflection (context_defaults C now i0 s)"
  have one: "opens 0 (started_budget (bs_BrainBudget s)) (bs_BrainBudget ?s1)"
    using enter_reflection_opens [of "context_defaults C now i0 s" reflection] by simp
  show ?thesis
  proof (cases "Resolve (Some (bc_Resolver C)) (bs_BrainPhase ?s1) (bs_RequestedSkills ?s1) (max_optional ?s1 ?i) (''turn:'' @ turnUlid) now")
    case (Inl e)
    then show ?thesis using assms one by (auto simp: contextBuilder_def Some Let_def)
  next
    case (Inr resolved)
    let ?u = "open_turn H (''turn:'' @ turnUlid) now ?i (bind_skills resolved ?s1)"
    have two: "opens 1 (started_budget (bs_BrainBudget s)) (bs_BrainBudget ?u)"
      using opens_trans [OF one] open_turn_opens [of "bind_skills resolved ?s1" H "''turn:'' @ turnUlid" now ?i] by fastforce
    obtain s2 e where b: "bind_snapshot C now ?i ?u = (s2, e)" by fastforce
    have s2: "bs_BrainBudget s2 = bs_BrainBudget ?u" using arg_cong [OF b, of "\<lambda>x. bs_BrainBudget (fst x)"] by simp
    obtain s3 skills where q: "search_skills C (max_optional ?s1 ?i) (bind_attempt C attemptUlid now ?i s2) = (s3, skills)" by fastforce
    have s3: "bs_BrainBudget s3 = bs_BrainBudget s2"
      using arg_cong [OF q, of "\<lambda>x. bs_BrainBudget (fst x)"] by simp
    show ?thesis using assms Inr b q two s2 s3 by (cases e) (auto simp: contextBuilder_def Some Let_def)
  qed
qed

lemma generate_budget:
  assumes "brain_generate C P label now s answer = (t, r)"
  shows "bs_BrainBudget t = bs_BrainBudget s"
  using assms
  by (auto simp: brain_generate_def recordBrainAssistantTurn_def Let_def split: sum.splits prod.splits option.splits if_splits)

text \<open>The gateway leaves room for every call it lets through, or has recorded the exhaustion.\<close>

definition room :: "nat \<Rightarrow> BrainBudgetState \<Rightarrow> bool" where
  "room n b = (bbs_ToolCallsExhausted b \<or> bu_ToolCalls (bbs_Usage b) + int n \<le> bb_MaxToolCalls (bbs_Limits b))"

lemma gateway_opens:
  assumes "actionGateway s m persisted = (t, m')"
  shows "opens 0 (bs_BrainBudget s) (bs_BrainBudget t)" "room (length (msg_ToolCalls m')) (bs_BrainBudget t)"
proof -
  show "opens 0 (bs_BrainBudget s) (bs_BrainBudget t)" using assms by (auto simp: actionGateway_def opens_def Let_def)
  have "length (gateway_calls s calls) \<le> nat (bb_MaxToolCalls (bbs_Limits (bs_BrainBudget s)) - bu_ToolCalls (bbs_Usage (bs_BrainBudget s)))"
    if "bu_ToolCalls (bbs_Usage (bs_BrainBudget s)) < bb_MaxToolCalls (bbs_Limits (bs_BrainBudget s))" for calls
    using that by (auto simp: gateway_calls_def Let_def min_def nat_le_eq_zle split: if_splits)
  from this [of "msg_ToolCalls m"] show "room (length (msg_ToolCalls m')) (bs_BrainBudget t)"
    using assms by (auto simp: actionGateway_def room_def Let_def split: if_splits)
qed

lemma reflection_route_budget:
  assumes "reflectionRoute ulid now s = (t, reflect)"
  shows "bbs_Limits (bs_BrainBudget t) = bbs_Limits (bs_BrainBudget s)" "bu_Turns (bbs_Usage (bs_BrainBudget t)) = bu_Turns (bbs_Usage (bs_BrainBudget s))"
    "bu_ToolCalls (bbs_Usage (bs_BrainBudget t)) = bu_ToolCalls (bbs_Usage (bs_BrainBudget s))"
    "bu_StructuredCorrections (bbs_Usage (bs_BrainBudget t)) = bu_StructuredCorrections (bbs_Usage (bs_BrainBudget s))"
    "bu_ReflectionCostUnits (bbs_Usage (bs_BrainBudget s)) \<le> bb_MaxReflectionCostUnits (bbs_Limits (bs_BrainBudget s)) \<Longrightarrow>
       bu_ReflectionCostUnits (bbs_Usage (bs_BrainBudget t)) \<le> bb_MaxReflectionCostUnits (bbs_Limits (bs_BrainBudget s))"
    "reflect \<Longrightarrow> bs_Termination s = None \<and> \<not> turns_exhausted s"
    "\<not> reflect \<Longrightarrow> bs_PendingReflection t = None \<or> bs_Termination t \<noteq> None"
  using assms
  by (auto simp: reflectionRoute_def enterToolBudgetFinalization_def spend_reflection_def refuse_reflection_def Let_def
      split: if_splits option.splits)

text \<open>The two guards for malformed turns grant at most the allowed corrections.\<close>

definition grants :: "BrainBudgetState \<Rightarrow> BrainBudgetState \<Rightarrow> bool" where
  "grants b c = (bbs_Limits c = bbs_Limits b \<and> bu_Turns (bbs_Usage c) = bu_Turns (bbs_Usage b) \<and>
     bu_ToolCalls (bbs_Usage c) = bu_ToolCalls (bbs_Usage b) \<and> bu_ReflectionCostUnits (bbs_Usage c) = bu_ReflectionCostUnits (bbs_Usage b) \<and>
     (bu_StructuredCorrections (bbs_Usage b) \<le> bb_MaxStructuredCorrections (bbs_Limits b) \<longrightarrow>
      bu_StructuredCorrections (bbs_Usage c) \<le> bb_MaxStructuredCorrections (bbs_Limits b)))"

lemma grant_correction_grants: "grants (bs_BrainBudget s) (bs_BrainBudget (grant_correction gap wording now s))"
  by (simp add: grants_def grant_correction_def Let_def)

lemma unstructured_grants: "grants (bs_BrainBudget s) (bs_BrainBudget (handleUnstructured H C ulid now s m))"
proof (cases "ws_Incident s")
  case (Some i)
  obtain gap wording env r where "bs_BrainBudget (handleUnstructured H C ulid now s m) =
      bs_BrainBudget (grant_correction gap wording now (record_tool_result env r s))"
    by (simp add: handleUnstructured_def Some Let_def)
  with grant_correction_grants [of "record_tool_result env r s" gap wording now] show ?thesis by simp
qed (simp add: handleUnstructured_def grants_def)

lemma reject_spends: "spends 1 (bs_BrainBudget s) (bs_BrainBudget (reject_call H C invalid i now s call))"
  using count_spends [of "bs_BrainBudget s"] by (simp add: reject_call_def Let_def count_tool_call_def)

lemma rejects_spend: "spends (length calls) (bs_BrainBudget s) (bs_BrainBudget (foldl (reject_call H C invalid i now) s calls))"
proof (induction calls arbitrary: s)
  case (Cons c cs)
  from spends_trans [OF reject_spends [of s H C invalid i now c] Cons.IH [of "reject_call H C invalid i now s c"]] show ?case by simp
qed simp

lemma invalid_arguments_budget:
  assumes "handleInvalidToolArguments H C check ulid now s (Some m) = (t, e)"
  shows "\<exists>c. spends (length (msg_ToolCalls m)) (bs_BrainBudget s) c \<and> grants c (bs_BrainBudget t)"
proof (cases "ws_Incident s")
  case None
  then show ?thesis using assms by (auto simp: handleInvalidToolArguments_def grants_def intro: exI [of _ "bs_BrainBudget s"])
next
  case (Some i)
  let ?invalid = "invalid_calls (check (effectiveToolCategory s)) (msg_ToolCalls m)"
  consider (prose) "msg_ToolCalls m = []" | (valid) "msg_ToolCalls m \<noteq> []" "dom ?invalid = {}" | (bad) "msg_ToolCalls m \<noteq> []" "dom ?invalid \<noteq> {}"
    by blast
  then show ?thesis
  proof cases
    case prose
    then have "t = handleUnstructured H C ulid now s (Some m)" using assms by (simp add: handleInvalidToolArguments_def Some)
    then show ?thesis using unstructured_grants [of s H C ulid now "Some m"] by (intro exI [of _ "bs_BrainBudget s"]) simp
  next
    case valid
    then have "t = s" using assms by (simp add: handleInvalidToolArguments_def Some)
    then show ?thesis by (intro exI [of _ "bs_BrainBudget s"]) (simp add: grants_def)
  next
    case bad
    let ?u = "foldl (reject_call H C ?invalid i now) s (msg_ToolCalls m)"
    obtain gap wording where "bs_BrainBudget t = bs_BrainBudget (grant_correction gap wording now ?u)"
      using assms bad by (auto simp: handleInvalidToolArguments_def Some Let_def)
    with grant_correction_grants [of ?u gap wording now] rejects_spend [of "msg_ToolCalls m" s H C ?invalid i now]
    show ?thesis by (intro exI [of _ "bs_BrainBudget ?u"]) simp
  qed
qed

section \<open>The invariant and the measure\<close>

definition limits_ok :: "BrainBudget \<Rightarrow> bool" where
  "limits_ok l = (0 \<le> bb_MaxTurns l \<and> 0 \<le> bb_MaxToolCalls l \<and> 0 \<le> bb_MaxStructuredCorrections l \<and> 0 \<le> bb_MaxReflectionCostUnits l)"

definition within_budget :: "BrainBudgetState \<Rightarrow> bool" where
  "within_budget b = (limits_ok (bbs_Limits b) \<and> bu_Turns (bbs_Usage b) \<le> bb_MaxTurns (bbs_Limits b) \<and>
     bu_ToolCalls (bbs_Usage b) \<le> bb_MaxToolCalls (bbs_Limits b) \<and>
     bu_StructuredCorrections (bbs_Usage b) \<le> bb_MaxStructuredCorrections (bbs_Limits b) \<and>
     bu_ReflectionCostUnits (bbs_Usage b) \<le> bb_MaxReflectionCostUnits (bbs_Limits b))"

fun node_ok :: "brain_node \<Rightarrow> BrainBudgetState \<Rightarrow> bool" where
  "node_ok (Context_Builder _) b = (bb_MaxTurns (bbs_Limits b) = 0 \<or> bu_Turns (bbs_Usage b) < bb_MaxTurns (bbs_Limits b))"
| "node_ok (Category_Router m) b = room (length (msg_ToolCalls m)) b"
| "node_ok (Tools_Node m) b = room (length (msg_ToolCalls m)) b"
| "node_ok (Argument_Guard m) b = room (length (msg_ToolCalls m)) b"
| "node_ok (Result_Classifier ms) b = room (length ms) b"
| "node_ok _ b = True"

definition brain_inv :: "brain_node \<times> WorkflowState \<Rightarrow> bool" where
  "brain_inv c = (within_budget (bs_BrainBudget (snd c)) \<and> node_ok (fst c) (bs_BrainBudget (snd c)))"

definition turns_left :: "BrainBudgetState \<Rightarrow> int" where
  "turns_left b = (if bb_MaxTurns (bbs_Limits b) = 0 then DefaultMaxTurns else bb_MaxTurns (bbs_Limits b) - bu_Turns (bbs_Usage b))"

fun final_node :: "brain_node \<Rightarrow> bool" where
  "final_node Brain_End = True"
| "final_node (Brain_Failed _) = True"
| "final_node _ = False"

fun node_rank :: "brain_node \<Rightarrow> WorkflowState \<Rightarrow> int" where
  "node_rank Termination_Router s = (if bs_PendingReflection s \<noteq> None \<and> bs_Termination s = None then 3 else 1)"
| "node_rank (Context_Builder _) s = 0"
| "node_rank (Brain_Model _ _) s = 10"
| "node_rank (Action_Gateway _ _) s = 9"
| "node_rank (Category_Router _) s = 8"
| "node_rank (Tools_Node _) s = 7"
| "node_rank (Result_Classifier _) s = 6"
| "node_rank Observation_Update s = 5"
| "node_rank Belief_Update s = 4"
| "node_rank Belief_Commit s = 3"
| "node_rank Reflection_Router s = 2"
| "node_rank (Structured_Guard _) s = 3"
| "node_rank (Argument_Guard _) s = 3"
| "node_rank _ s = 0"

definition steps_left :: "brain_node \<times> WorkflowState \<Rightarrow> int" where
  "steps_left c = (if final_node (fst c) then 0 else 11 * turns_left (bs_BrainBudget (snd c)) + node_rank (fst c) (snd c))"

text \<open>How each kind of change keeps the budget in its limits.\<close>

lemma within_spends: "within_budget b \<Longrightarrow> spends n b c \<Longrightarrow> room n b \<Longrightarrow> within_budget c \<and> turns_left c = turns_left b"
  by (auto simp: within_budget_def spends_def room_def turns_left_def split: if_splits)

lemma within_grants: "within_budget b \<Longrightarrow> grants b c \<Longrightarrow> within_budget c \<and> turns_left c = turns_left b"
  by (auto simp: within_budget_def grants_def turns_left_def)

lemma within_started: "within_budget b \<Longrightarrow> within_budget (started_budget b)"
  by (auto simp: within_budget_def started_budget_def limits_ok_def DefaultBudget_def DefaultMaxTurns_def zero_BrainBudgetState_def zero_BrainBudgetUsage_def)

lemma within_opens:
  assumes "within_budget b" "opens 1 (started_budget b) c" "node_ok (Context_Builder r) b"
  shows "within_budget c" "turns_left c = turns_left b - 1" "0 < turns_left b"
  using assms
  by (auto simp: within_budget_def started_budget_def opens_def limits_ok_def turns_left_def DefaultBudget_def DefaultMaxTurns_def
      zero_BrainBudgetState_def zero_BrainBudgetUsage_def split: if_splits)

lemma within_same_opens: "within_budget b \<Longrightarrow> opens 0 b c \<Longrightarrow> within_budget c \<and> turns_left c = turns_left b"
  by (auto simp: within_budget_def opens_def turns_left_def)

lemma tools_length: "run_tools f calls = Inr results \<Longrightarrow> length results = length calls"
proof (induction calls arbitrary: results)
  case (Cons c cs)
  then show ?case by (cases "f c"; cases "run_tools f cs") auto
qed simp

lemma after_eq: "after r n = (case snd r of None \<Rightarrow> n | Some e \<Rightarrow> Brain_Failed e, fst r)"
  by (cases r; cases "snd r") auto

definition progress :: "brain_node \<times> WorkflowState \<Rightarrow> brain_node \<times> WorkflowState \<Rightarrow> bool" where
  "progress c d = (brain_inv d \<and> steps_left d < steps_left c)"

text \<open>A step that changes the budget in a harmless way and goes on to a node of smaller rank, or fails.\<close>

lemma progress_down:
  assumes "within_budget (bs_BrainBudget t)" "turns_left (bs_BrainBudget t) = turns_left (bs_BrainBudget s)" "0 \<le> turns_left (bs_BrainBudget s)"
    and "\<not> final_node n" "0 < node_rank n s" "final_node n' \<or> node_rank n' t < node_rank n s" "node_ok n' (bs_BrainBudget t)"
  shows "progress (n, s) (n', t)"
  using assms by (auto simp: progress_def brain_inv_def steps_left_def)

lemma turns_left_nonneg: "within_budget b \<Longrightarrow> 0 \<le> turns_left b"
  by (auto simp: within_budget_def turns_left_def DefaultMaxTurns_def)

lemma final_node_ok [simp]: "node_ok (Brain_Failed e) b" "node_ok Brain_End b"
  by simp_all

lemma router_progress:
  assumes "within_budget (bs_BrainBudget s)"
  shows "progress (Termination_Router, s) (brain_step W k (Termination_Router, s))"
proof -
  let ?r = "terminationRouter s (bk_Now k)" and ?t = "fst (terminationRouter s (bk_Now k))"
  have b: "bs_BrainBudget ?t = bs_BrainBudget s" by simp
  have still: "bs_Termination s \<noteq> None \<Longrightarrow> bs_Termination ?t \<noteq> None" "bs_PendingReflection ?t = bs_PendingReflection s"
    by (auto simp: terminationRouter_def Let_def split: option.split)
  have open0: "node_ok (Context_Builder False) (bs_BrainBudget s)" if "snd ?r = None" "bs_Termination ?t = None"
    using that assms by (auto simp: terminationRouter_def Let_def within_budget_def limits_ok_def split: option.splits if_splits)
  let ?n = "case snd ?r of None \<Rightarrow> if bs_Termination ?t \<noteq> None then Brain_End
      else if bs_PendingReflection ?t \<noteq> None then Reflection_Router else Context_Builder False | Some e \<Rightarrow> Brain_Failed e"
  have step: "brain_step W k (Termination_Router, s) = (?n, ?t)" by (simp only: brain_step.simps Let_def after_eq)
  show ?thesis unfolding step
  proof (rule progress_down)
    show "final_node ?n \<or> node_rank ?n ?t < node_rank Termination_Router s"
      using still by (cases "bs_Termination s") (auto split: option.split)
    show "node_ok ?n (bs_BrainBudget ?t)" using open0 by (auto split: option.split)
  qed (use assms turns_left_nonneg in auto)
qed

lemma context_progress:
  assumes "brain_inv (Context_Builder r, s)"
  shows "progress (Context_Builder r, s) (brain_step W k (Context_Builder r, s))"
proof -
  obtain t x where c: "contextBuilder (bw_Hash W) (bw_Config W) (bk_Ulid k) (bk_AttemptUlid k) (bk_Now k) s r = (t, x)" by fastforce
  have w: "within_budget (bs_BrainBudget s)" and ok: "node_ok (Context_Builder r) (bs_BrainBudget s)" using assms by (simp_all add: brain_inv_def)
  note o1 = within_opens [OF w _ ok]
  have pos: "0 < turns_left (bs_BrainBudget s)" using w ok by (auto simp: turns_left_def DefaultMaxTurns_def within_budget_def)
  show ?thesis
  proof (cases x)
    case (Inr messages)
    then have "opens 1 (started_budget (bs_BrainBudget s)) (bs_BrainBudget t)" using context_opens [OF c] by simp
    from o1 [OF this] show ?thesis by (simp add: c Inr progress_def brain_inv_def steps_left_def)
  next
    case (Inl e)
    have "within_budget (bs_BrainBudget t)"
      using context_opens [OF c] w o1(1) within_same_opens [OF within_started [OF w]] by (auto simp: Inl)
    with pos show ?thesis by (simp add: c Inl progress_def brain_inv_def steps_left_def)
  qed
qed

lemma reflection_router_progress:
  assumes "within_budget (bs_BrainBudget s)"
  shows "progress (Reflection_Router, s) (brain_step W k (Reflection_Router, s))"
proof -
  obtain t reflect where r: "reflectionRoute (bk_Ulid k) (bk_Now k) s = (t, reflect)" by fastforce
  note f = reflection_route_budget [OF r]
  have "within_budget (bs_BrainBudget t)" "turns_left (bs_BrainBudget t) = turns_left (bs_BrainBudget s)"
    using assms f(1-5) by (auto simp: within_budget_def turns_left_def)
  moreover have "node_ok (Context_Builder True) (bs_BrainBudget t)" if reflect
    using f(6) [OF that] f(1,2) assms by (auto simp: turns_exhausted_def Let_def within_budget_def limits_ok_def)
  ultimately show ?thesis using f(7) turns_left_nonneg [OF assms] by (simp add: r) (auto intro!: progress_down)
qed

lemma commit_step_progress:
  assumes "within_budget (bs_BrainBudget s)"
  shows "progress (Belief_Commit, s) (brain_step W k (Belief_Commit, s))"
proof -
  have step: "brain_step W k (Belief_Commit, s) = (case snd (beliefCommit s) of None \<Rightarrow> Reflection_Router | Some e \<Rightarrow> Brain_Failed e, fst (beliefCommit s))"
    by (simp only: brain_step.simps after_eq)
  show ?thesis unfolding step using assms turns_left_nonneg [OF assms]
    by (intro progress_down) (auto split: option.split)
qed

lemma argument_guard_progress:
  assumes "brain_inv (Argument_Guard m, s)"
  shows "progress (Argument_Guard m, s) (brain_step W k (Argument_Guard m, s))"
proof -
  have w: "within_budget (bs_BrainBudget s)" "room (length (msg_ToolCalls m)) (bs_BrainBudget s)" using assms by (simp_all add: brain_inv_def)
  let ?r = "handleInvalidToolArguments (bw_Hash W) (bw_Codec W) (bw_Check W) (bk_Ulid k) (bk_Now k) s (Some m)"
  obtain c where "spends (length (msg_ToolCalls m)) (bs_BrainBudget s) c" "grants c (bs_BrainBudget (fst ?r))"
    using invalid_arguments_budget [OF surjective_pairing] by blast
  with w within_spends within_grants have t: "within_budget (bs_BrainBudget (fst ?r))"
    "turns_left (bs_BrainBudget (fst ?r)) = turns_left (bs_BrainBudget s)" by metis+
  have step: "brain_step W k (Argument_Guard m, s) = (case snd ?r of None \<Rightarrow> Reflection_Router | Some e \<Rightarrow> Brain_Failed e, fst ?r)"
    by (simp only: brain_step.simps after_eq)
  show ?thesis unfolding step using t turns_left_nonneg [OF w(1)] by (intro progress_down) (auto split: option.split)
qed

lemma brain_step_progress:
  assumes inv: "brain_inv (n, s)" and running: "\<not> final_node n"
  shows "progress (n, s) (brain_step W k (n, s))"
proof -
  have w: "within_budget (bs_BrainBudget s)" and ok: "node_ok n (bs_BrainBudget s)" using inv by (simp_all add: brain_inv_def)
  have nn: "0 \<le> turns_left (bs_BrainBudget s)" by (rule turns_left_nonneg [OF w])
  show ?thesis
  proof (cases n)
    case Termination_Router
    with w show ?thesis by (simp only: router_progress)
  next
    case (Context_Builder r)
    with inv show ?thesis by (simp only: context_progress)
  next
    case (Brain_Model r messages)
    obtain t x where g: "brain_generate (bw_Config W) (bw_Prices W) (model_label s r) (bk_Now k) s (bw_Model W s r messages) = (t, x)" by fastforce
    have "bs_BrainBudget t = bs_BrainBudget s" by (rule generate_budget [OF g])
    then show ?thesis using w nn by (cases x) (auto simp: Brain_Model g split: prod.split intro!: progress_down)
  next
    case (Action_Gateway m persisted)
    obtain t m' where g: "actionGateway s m persisted = (t, m')" by fastforce
    note f = gateway_opens [OF g] within_same_opens [OF w gateway_opens(1) [OF g]]
    show ?thesis using f nn by (auto simp: Action_Gateway g intro!: progress_down)
  next
    case (Category_Router m)
    then show ?thesis using w nn ok by (auto split: category_route.split intro!: progress_down)
  next
    case (Tools_Node m)
    then show ?thesis using w nn ok by (auto split: sum.split dest!: tools_length intro!: progress_down)
  next
    case (Result_Classifier results)
    have "within_budget (bs_BrainBudget (classifyToolResults (bw_Hash W) (bw_Codec W) (bk_Now k) s results)) \<and>
        turns_left (bs_BrainBudget (classifyToolResults (bw_Hash W) (bw_Codec W) (bk_Now k) s results)) = turns_left (bs_BrainBudget s)"
      using within_spends [OF w classify_spends [OF order.refl]] ok Result_Classifier by simp
    then show ?thesis using nn by (auto simp: Result_Classifier intro!: progress_down)
  next
    case Observation_Update
    then show ?thesis using w nn by (auto intro!: progress_down)
  next
    case Belief_Update
    then show ?thesis using w nn by (auto intro!: progress_down)
  next
    case Belief_Commit
    with w show ?thesis by (simp only: commit_step_progress)
  next
    case Reflection_Router
    with w show ?thesis by (simp only: reflection_router_progress)
  next
    case (Structured_Guard m)
    then show ?thesis using nn within_grants [OF w unstructured_grants] by (auto intro!: progress_down)
  next
    case (Argument_Guard m)
    with inv show ?thesis by (simp only: argument_guard_progress)
  qed (use running in simp_all)
qed

lemma final_stays: "final_node n \<Longrightarrow> brain_step W k (n, s) = (n, s)"
  by (cases n) simp_all

lemma brain_run_snoc: "brain_run W (ticks @ [k]) s = brain_step W k (brain_run W ticks s)"
  by (simp add: brain_run_def)

lemma brain_run_progress:
  assumes "within_budget (bs_BrainBudget s)"
  shows "brain_inv (brain_run W ticks s) \<and>
    (final_node (fst (brain_run W ticks s)) \<or> steps_left (brain_run W ticks s) + int (length ticks) \<le> 11 * turns_left (bs_BrainBudget s) + 3)"
proof (induction ticks rule: rev_induct)
  case Nil
  show ?case using assms by (simp add: brain_run_def brain_inv_def steps_left_def)
next
  case (snoc k ticks)
  obtain n t where c: "brain_run W ticks s = (n, t)" by fastforce
  show ?case
  proof (cases "final_node n")
    case True
    then show ?thesis using snoc by (simp add: brain_run_snoc c final_stays)
  next
    case False
    with brain_step_progress [of n t W k] snoc c have "progress (n, t) (brain_step W k (n, t))" by simp
    with snoc c False show ?thesis by (auto simp: brain_run_snoc progress_def)
  qed
qed

lemma steps_left_nonneg: "brain_inv c \<Longrightarrow> \<not> final_node (fst c) \<Longrightarrow> 0 < steps_left c"
proof -
  assume c: "brain_inv c" "\<not> final_node (fst c)"
  then have "0 \<le> turns_left (bs_BrainBudget (snd c))" by (simp add: brain_inv_def turns_left_nonneg)
  moreover have "0 < node_rank (fst c) (snd c) \<or> 0 < turns_left (bs_BrainBudget (snd c))"
    using c by (cases "fst c") (auto simp: brain_inv_def turns_left_def within_budget_def DefaultMaxTurns_def)
  moreover have "0 \<le> node_rank (fst c) (snd c)" by (cases "fst c") simp_all
  ultimately show ?thesis using c by (auto simp: steps_left_def)
qed

text \<open>C8. No run of the turn graph leaves its budget: from a budget within its limits, after any number of steps and
  whatever the chat model, the tools and the clock answer, the turns, the tool calls, the granted
  corrections and the reflection costs are at most their limits.\<close>

theorem brain_run_within_budget:
  assumes "within_budget (bs_BrainBudget s)" "b = bs_BrainBudget (snd (brain_run W ticks s))"
  shows "bu_Turns (bbs_Usage b) \<le> bb_MaxTurns (bbs_Limits b) \<and> bu_ToolCalls (bbs_Usage b) \<le> bb_MaxToolCalls (bbs_Limits b) \<and>
    bu_StructuredCorrections (bbs_Usage b) \<le> bb_MaxStructuredCorrections (bbs_Limits b) \<and>
    bu_ReflectionCostUnits (bbs_Usage b) \<le> bb_MaxReflectionCostUnits (bbs_Limits b)"
  using brain_run_progress [OF assms(1), of W ticks] by (simp add: assms(2) brain_inv_def within_budget_def)

lemma end_is_terminated:
  assumes "fst c = Brain_End \<Longrightarrow> bs_Termination (snd c) \<noteq> None" "fst (brain_step W k c) = Brain_End"
  shows "bs_Termination (snd (brain_step W k c)) \<noteq> None"
proof -
  obtain n s where c: "c = (n, s)" by fastforce
  show ?thesis using assms
    by (cases n) (auto simp: c after_eq Let_def split: option.splits if_splits sum.splits prod.splits category_route.splits)
qed

text \<open>C7. A run of the turn graph ends by itself, and before the step limit of the graph engine: with at most the
  default 50 turns, 553 steps are enough to reach an end, which is below the configured
  \<^verbatim>\<open>BrainGraphMaxSteps\<close> of 616; the run then has failed in a node, or ended with a termination event.\<close>

theorem brain_run_ends:
  assumes "within_budget (bs_BrainBudget s)" "0 \<le> bu_Turns (bbs_Usage (bs_BrainBudget s))"
    and "bb_MaxTurns (bbs_Limits (bs_BrainBudget s)) \<le> DefaultMaxTurns" "11 * DefaultMaxTurns + 3 \<le> int (length ticks)"
  shows "((\<exists>e. fst (brain_run W ticks s) = Brain_Failed e) \<or>
      fst (brain_run W ticks s) = Brain_End \<and> bs_Termination (snd (brain_run W ticks s)) \<noteq> None) \<and>
    11 * DefaultMaxTurns + 3 \<le> BrainGraphMaxSteps"
proof
  have "turns_left (bs_BrainBudget s) \<le> DefaultMaxTurns" using assms(2,3) by (simp add: turns_left_def)
  with brain_run_progress [OF assms(1), of W ticks] assms(4) steps_left_nonneg [of "brain_run W ticks s"]
  have final: "final_node (fst (brain_run W ticks s))" by linarith
  have "fst (brain_run W ticks s) = Brain_End \<Longrightarrow> bs_Termination (snd (brain_run W ticks s)) \<noteq> None"
  proof (induction ticks rule: rev_induct)
    case (snoc k ticks)
    show ?case unfolding brain_run_snoc by (rule end_is_terminated) (use snoc in \<open>simp_all add: brain_run_snoc\<close>)
  qed (simp add: brain_run_def)
  with final show "(\<exists>e. fst (brain_run W ticks s) = Brain_Failed e) \<or>
      fst (brain_run W ticks s) = Brain_End \<and> bs_Termination (snd (brain_run W ticks s)) \<noteq> None"
    by (cases "fst (brain_run W ticks s)") auto
  show "11 * DefaultMaxTurns + 3 \<le> BrainGraphMaxSteps"
    by (simp add: DefaultMaxTurns_def BrainGraphMaxSteps_def brainGraphStepsPerTurn_def brainGraphTailSteps_def)
qed

lemma zero_within_budget: "within_budget (bs_BrainBudget zero_WorkflowState)"
  by (simp add: within_budget_def limits_ok_def zero_BrainBudgetState_def zero_BrainBudget_def zero_BrainBudgetUsage_def)

definition idle_world :: brain_world where
  "idle_world = \<lparr>bw_Hash = \<lambda>_. [], bw_Config = \<lparr>bc_Resolver = \<lparr>bsr_version = 1, bsr_packages = [], bsr_policy = DefaultToolCallingPolicy, bsr_hash = ''s''\<rparr>,
       bc_ToolHash = ''t'', bc_PolicyHash = ''p'', bc_Json = \<lparr>mc_IsObject = \<lambda>_. True, mc_Projection = \<lambda>_. []\<rparr>, bc_ViewSize = \<lambda>_. 0,
       bc_Encode = \<lambda>_ _. [], bc_Search = None\<rparr>, bw_Codec = silent_codec zero_brainCapabilityOutput, bw_Derivations = plain_derivations,
     bw_Check = \<lambda>_ _. None, bw_Prices = \<lparr>mp_Input = 0, mp_Output = 0, mp_Reasoning = 0\<rparr>, bw_Model = \<lambda>_ _ _. Inl ''unavailable'',
     bw_Tool = \<lambda>_ _. Inl ''unavailable''\<rparr>"

definition first_tick :: brain_tick where "first_tick = \<lparr>bk_Now = 1, bk_Ulid = ''u'', bk_AttemptUlid = ''a''\<rparr>"

lemma brain_run_within_budget_witness:
  "bu_Turns (bbs_Usage (bs_BrainBudget (snd (brain_run idle_world [first_tick] zero_WorkflowState)))) \<le>
     bb_MaxTurns (bbs_Limits (bs_BrainBudget (snd (brain_run idle_world [first_tick] zero_WorkflowState))))"
  using brain_run_within_budget [OF zero_within_budget refl] by blast

lemma brain_run_ends_witness:
  "(\<exists>e. fst (brain_run idle_world (replicate 553 first_tick) zero_WorkflowState) = Brain_Failed e) \<or>
   fst (brain_run idle_world (replicate 553 first_tick) zero_WorkflowState) = Brain_End"
proof -
  have "0 \<le> bu_Turns (bbs_Usage (bs_BrainBudget zero_WorkflowState))"
    "bb_MaxTurns (bbs_Limits (bs_BrainBudget zero_WorkflowState)) \<le> DefaultMaxTurns" "11 * DefaultMaxTurns + 3 \<le> int (length (replicate 553 first_tick))"
    by (simp_all only: length_replicate) (simp_all add: DefaultMaxTurns_def zero_BrainBudgetState_def zero_BrainBudget_def zero_BrainBudgetUsage_def)
  from brain_run_ends [OF zero_within_budget this, of idle_world] show ?thesis by blast
qed

end
