(* ===== verification/Brain_Refinement.thy ===== *)
theory Brain_Refinement
  imports Brain_Budget Outer_Graph
begin

text \<open>The Brain inside the workflow.  The outer graph treats the Brain as one step that keeps the status of the
  incident; here every node of the turn graph is shown to do so, so that a finished run of the turn
  graph is such a step, and what was proved of the outer graph holds with the detailed Brain in it.\<close>

section \<open>The nodes keep the status\<close>

lemma status_incident [simp]:
  "status_of (map_incident f s) = map_option (\<lambda>i. inc_Status (f i)) (ws_Incident s)"
  by (simp add: status_of_def option.map_comp comp_def)

lemma status_of_root_cause [simp]: "inc_Status (root_cause d i) = inc_Status i"
  by (simp add: root_cause_def Let_def split: list.split)

lemma status_same: "ws_Incident t = ws_Incident s \<Longrightarrow> status_of t = status_of s"
  by (simp add: status_of_def)

lemma status_map: "ws_Incident t = map_option f (ws_Incident s) \<Longrightarrow> (\<And>i. inc_Status (f i) = inc_Status i) \<Longrightarrow> status_of t = status_of s"
  by (simp add: status_of_def option.map_comp comp_def)

lemma apply_status [simp]:
  "status_of (apply_evidence result s) = status_of s" "status_of (apply_retrieval H now result s) = status_of s"
  "status_of (apply_hypotheses result s) = status_of s" "status_of (apply_grounding result s) = status_of s"
  "status_of (apply_plan result s) = status_of s" "status_of (apply_diagnosis result s) = status_of s"
  "status_of (apply_control result s) = status_of s" "status_of (apply_trigger result s) = status_of s"
  "status_of (apply_reflection now result s) = status_of s"
  by (simp_all add: status_of_def apply_evidence_def apply_retrieval_def auditRetrieval_def apply_hypotheses_def apply_grounding_def
      apply_plan_def apply_diagnosis_def apply_control_def apply_trigger_def apply_reflection_def map_investigation_def Let_def
      option.map_comp comp_def split: option.split)

lemma sync_status [simp]: "status_of (syncInvestigation s) = status_of s"
  by (simp add: status_of_def syncInvestigation_def split: option.split)

lemma output_status [simp]: "status_of (applyCapabilityOutput H now result s) = status_of s"
  by (simp add: applyCapabilityOutput_def)

lemma plain_status [simp]:
  "status_of (record_accesses C n s) = status_of s" "status_of (record_tool_result env r s) = status_of s"
  "status_of (count_tool_call s) = status_of s" "status_of (grant_correction gap wording now s) = status_of s"
  "status_of (fst (begin_message H C now s i m)) = status_of s" "status_of (advance_belief_cursor s) = status_of s"
  "status_of (beliefUpdate s) = status_of s"
  by (simp_all add: status_of_def record_accesses_def record_tool_result_def count_tool_call_def grant_correction_def
      advance_belief_cursor_def beliefUpdate_def Let_def)

lemma message_status [simp]: "status_of (classify_message H C now s m) = status_of s"
  by (simp add: classify_message_def split_beta split: option.split)

lemma fold_status:
  assumes "\<And>s m. status_of (f s m) = status_of s"
  shows "status_of (foldl f s ms) = status_of s"
  by (induction ms arbitrary: s) (simp_all add: assms)

lemma classify_status [simp]: "status_of (classifyToolResults H C now s messages) = status_of s"
  by (simp add: classifyToolResults_def fold_status)

lemma observation_status [simp]: "status_of (observationUpdate H D now s) = status_of s"
proof (cases "ws_Incident s")
  case (Some i)
  have r: "status_of (rank_runtime D now i s) = status_of s"
    by (simp add: status_of_def rank_runtime_def Some Let_def split: option.split prod.split)
  have t: "status_of (observe_topology D j g u) = status_of u" for j g u by (simp add: status_of_def observe_topology_def)
  have v: "status_of (invalidate_stale previous u) = status_of u" for previous u
    by (simp add: status_of_def invalidate_stale_def Let_def option.map_comp comp_def split: option.split)
  have w: "status_of (u\<lparr>bs_WorldModel := a, bs_EvidenceSnapshotHash := b\<rparr>) = status_of u" for u a b by (simp add: status_of_def)
  show ?thesis using r t v w by (simp add: observationUpdate_def Some Let_def split: option.split)
qed (simp add: observationUpdate_def)

lemma commit_deltas_status: "status_of (fst (commit_deltas ds s)) = status_of s"
  by (induction ds s rule: commit_deltas.induct) (auto split: option.split sum.split intro: status_same)

lemma commit_status [simp]: "status_of (fst (beliefCommit s)) = status_of s"
proof -
  obtain t e where "commit_deltas (drop (nat (bs_BeliefDeltaCursor s)) (bs_BeliefDeltas s)) s = (t, e)" by fastforce
  with commit_deltas_status [of "drop (nat (bs_BeliefDeltaCursor s)) (bs_BeliefDeltas s)" s] show ?thesis
    by (cases e) (simp_all add: beliefCommit_def)
qed

lemma unstructured_status [simp]: "status_of (handleUnstructured H C ulid now s m) = status_of s"
  by (simp add: handleUnstructured_def Let_def split: option.split)

lemma reject_status: "status_of (reject_call H C invalid i now s call) = status_of s"
  by (simp add: reject_call_def Let_def status_of_def count_tool_call_def record_tool_result_def)

lemma invalid_arguments_status [simp]: "status_of (fst (handleInvalidToolArguments H C check ulid now s m)) = status_of s"
proof -
  have p: "status_of (u\<lparr>bs_PendingReflection := None\<rparr>) = status_of u" for u by (simp add: status_of_def)
  show ?thesis
    by (simp add: handleInvalidToolArguments_def Let_def p fold_status reject_status split: option.split)
qed

lemma router_status [simp]: "status_of (fst (terminationRouter s now)) = status_of s"
proof -
  have "status_of (u\<lparr>bs_Termination := x\<rparr>) = status_of u" for u x by (simp add: status_of_def)
  then show ?thesis by (simp add: terminationRouter_def Let_def split: option.split)
qed

lemma route_status: "reflectionRoute ulid now s = (t, reflect) \<Longrightarrow> status_of t = status_of s"
  by (auto simp: reflectionRoute_def enterToolBudgetFinalization_def spend_reflection_def refuse_reflection_def Let_def status_of_def
      split: if_splits option.splits)

lemma gateway_status: "actionGateway s m persisted = (t, m') \<Longrightarrow> status_of t = status_of s"
  by (auto simp: actionGateway_def Let_def status_of_def)

lemma generate_status: "brain_generate C P label now s answer = (t, r) \<Longrightarrow> status_of t = status_of s"
  by (auto simp: brain_generate_def recordBrainAssistantTurn_def record_usage_def Let_def status_of_def map_investigation_def
      option.map_comp comp_def split: sum.splits prod.splits option.splits if_splits)

lemma start_status [simp]: "inc_Status (start_investigation now i) = inc_Status i"
  by (simp add: start_investigation_def)

lemma context_parts [simp]:
  "ws_Incident (enter_reflection r s) = ws_Incident s" "ws_Incident (bind_skills resolved s) = ws_Incident s"
  "ws_Incident (open_turn H turnID now i s) = ws_Incident s" "ws_Incident (fst (bind_snapshot C now i s)) = ws_Incident s"
  "ws_Incident (fst (search_skills C n s)) = ws_Incident s"
  by (simp_all add: enter_reflection_def enterToolBudgetFinalization_def bind_skills_def open_turn_def bind_snapshot_def
      search_skills_def Let_def split: option.split)

lemma context_status:
  assumes "contextBuilder H C turnUlid attemptUlid now s r = (t, x)"
  shows "status_of t = status_of s"
proof (cases "ws_Incident s")
  case (Some i0)
  let ?i = "start_investigation now i0" and ?s1 = "enter_reflection r (context_defaults C now i0 s)"
  have one: "ws_Incident ?s1 = Some ?i" by (simp add: context_defaults_def Let_def)
  show ?thesis
  proof (cases "Resolve (Some (bc_Resolver C)) (bs_BrainPhase ?s1) (bs_RequestedSkills ?s1) (max_optional ?s1 ?i) (''turn:'' @ turnUlid) now")
    case (Inl e)
    then have "t = ?s1" using assms by (auto simp: contextBuilder_def Some Let_def)
    then show ?thesis using one by (simp add: status_of_def Some)
  next
    case (Inr resolved)
    let ?u = "open_turn H (''turn:'' @ turnUlid) now ?i (bind_skills resolved ?s1)"
    obtain s2 e where b: "bind_snapshot C now ?i ?u = (s2, e)" by fastforce
    have s2: "ws_Incident s2 = Some ?i" using arg_cong [OF b, of "\<lambda>x. ws_Incident (fst x)"] one by simp
    let ?v = "bind_attempt C attemptUlid now ?i s2"
    obtain s3 skills where q: "search_skills C (max_optional ?s1 ?i) ?v = (s3, skills)" by fastforce
    have "ws_Incident s3 = ws_Incident ?v" using arg_cong [OF q, of "\<lambda>x. ws_Incident (fst x)"] by simp
    then have "status_of s3 = Some (inc_Status ?i)" by (simp add: bind_attempt_def Let_def status_of_def)
    with s2 assms Inr b q show ?thesis by (cases e) (auto simp: contextBuilder_def Some Let_def status_of_def)
  qed
qed (use assms in \<open>auto simp: contextBuilder_def\<close>)

lemma brain_step_status: "status_of (snd (brain_step W k c)) = status_of (snd c)"
proof -
  obtain n s where c: "c = (n, s)" by fastforce
  show ?thesis
  proof (cases n)
    case (Context_Builder r)
    obtain t x where g: "contextBuilder (bw_Hash W) (bw_Config W) (bk_Ulid k) (bk_AttemptUlid k) (bk_Now k) s r = (t, x)" by fastforce
    then show ?thesis using context_status [OF g] by (cases x) (simp_all add: c Context_Builder)
  next
    case (Brain_Model r messages)
    obtain t x where g: "brain_generate (bw_Config W) (bw_Prices W) (model_label s r) (bk_Now k) s (bw_Model W s r messages) = (t, x)" by fastforce
    then show ?thesis using generate_status [OF g] by (cases x) (auto simp: c Brain_Model)
  next
    case (Action_Gateway m persisted)
    obtain t m' where g: "actionGateway s m persisted = (t, m')" by fastforce
    then show ?thesis using gateway_status [OF g] by (simp add: c Action_Gateway)
  next
    case Reflection_Router
    obtain t x where g: "reflectionRoute (bk_Ulid k) (bk_Now k) s = (t, x)" by fastforce
    then show ?thesis using route_status [OF g] by (simp add: c Reflection_Router)
  qed (simp_all add: c after_eq Let_def split: sum.split)
qed

lemma brain_run_status: "status_of (snd (brain_run W ticks s)) = status_of s"
proof (induction ticks rule: rev_induct)
  case (snoc k ticks)
  then show ?case by (simp only: brain_run_snoc brain_step_status)
qed (simp add: brain_run_def)

text \<open>C3. The detailed Brain refines the step the workflow takes for it: when the workflow stands at the Brain and the
  turn graph, started there, reaches its end, then the workflow continues with the state the turn graph
  left, without a mutation in between; so every property of workflow runs, such as that they mutate at
  most once, holds with the detailed Brain in place of the abstract one.\<close>

theorem brain_refines_outer_step:
  assumes "outer_run H wording s0 Kubepilot_Brain s tr" "brain_run W ticks s = (Brain_End, t)"
  shows "outer_run H wording s0 (outer_route Kubepilot_Brain t) t tr"
  using outer_run.brain [OF assms(1), of t] brain_run_status [of W ticks s] assms(2) by simp

definition ended_incident :: WorkflowState where
  "ended_incident = (initial_state received_incident)\<lparr>bs_Termination := Some zero_TerminationEvent\<rparr>"

lemma brain_refines_outer_step_witness:
  "\<exists>s. outer_run (\<lambda>_. ''h'') (\<lambda>_. ''e'') ended_incident (outer_route Kubepilot_Brain s) s []"
proof -
  have "snd (incident_intake ''k'' None ended_incident 5) = None"
    by (simp add: incident_intake_def ended_incident_def initial_state_def received_incident_def NormalizeDiagnosisMethod_def
        IsKubePilotBrainMethod_def step_status_unfold CanTransition_def)
  then obtain s' where s': "incident_intake ''k'' None ended_incident 5 = (s', None)" by (metis prod.collapse)
  from intake [OF start this] have run: "outer_run (\<lambda>_. ''h'') (\<lambda>_. ''e'') ended_incident Kubepilot_Brain s' []" by simp
  have "fst (brain_run idle_world [first_tick] s') = Brain_End"
    using s' by (auto simp: brain_run_def incident_intake_def ended_incident_def initial_state_def received_incident_def step_status_unfold
        NormalizeDiagnosisMethod_def IsKubePilotBrainMethod_def CanTransition_def terminationRouter_def idle_world_def Let_def
        split: if_splits option.splits)
  then have "brain_run idle_world [first_tick] s' = (Brain_End, snd (brain_run idle_world [first_tick] s'))" by (metis prod.collapse)
  from brain_refines_outer_step [OF run this] show ?thesis by blast
qed

end
