(* ===== verification/Topology.thy ===== *)
theory Topology
  imports Domain_Incident "HOL-Library.Multiset"
begin

text \<open>\<^verbatim>\<open>internal/topology\<close>: the storage-neutral topology of an incident.  \<^verbatim>\<open>Build\<close> derives it
  from the evidence, \<^verbatim>\<open>Merge\<close> joins independent observations, \<^verbatim>\<open>Normalize\<close> fixes its vocabulary
  and order, \<^verbatim>\<open>Similarity\<close> compares two topologies by roles.  The text of the payload maps that
  \<^verbatim>\<open>fmt.Sprint\<close> produces is a parameter of \<^verbatim>\<open>Build\<close>.  \<^verbatim>\<open>sort.Slice\<close> is modelled by a stable sort,
  one of its outcomes.  The lemmas show that a built or merged topology has no dangling edge and no
  duplicate, and that the similarity is a symmetric figure in [0,1] that is 1 on equal topologies.\<close>

section \<open>Vocabulary\<close>

definition normalizeType :: "string \<Rightarrow> string" where
  "normalizeType value0 = (let v = ToLower (TrimSpace value0) in if v = ''critical_dependency'' then ''database'' else v)"

definition normalizeRelation :: "string \<Rightarrow> string" where
  "normalizeRelation value0 = (let v = ToLower (TrimSpace value0) in
     if v = ''observed_call'' \<or> v = ''calls'' then ''calls''
     else if v = ''owns'' \<or> v = ''runs_on'' \<or> v = ''depends_on'' then v
     else ''depends_on'')"

definition inferType :: "string \<Rightarrow> string" where
  "inferType i = (let lower = ToLower i in
     if Contains lower ''mysql'' \<or> Contains lower ''postgres'' \<or> Contains lower ''database'' then ''database''
     else if Contains lower ''redis'' \<or> Contains lower ''memcache'' then ''cache''
     else if Contains lower ''kafka'' \<or> Contains lower ''queue'' then ''queue''
     else if Contains lower ''pod'' then ''pod''
     else if Contains lower ''deployment'' then ''deployment''
     else ''service'')"

definition relationForEvidence :: "string \<Rightarrow> string" where
  "relationForEvidence key =
     (if key = ''upstream_service'' then ''calls''
      else if key = ''pod'' \<or> key = ''pod_name'' then ''runs_on''
      else ''depends_on'')"

section \<open>Normal form\<close>

definition normal_node :: "GraphNode \<Rightarrow> GraphNode" where
  "normal_node n = n\<lparr>gn_ID := TrimSpace (gn_ID n), gn_Type := normalizeType (gn_Type n)\<rparr>"

definition normal_edge :: "GraphEdge \<Rightarrow> GraphEdge" where
  "normal_edge e = e\<lparr>ge_Source := TrimSpace (ge_Source e), ge_Target := TrimSpace (ge_Target e),
     ge_Relation := normalizeRelation (ge_Relation e), ge_Weight := (if ge_Weight e \<le> 0 then 1 else ge_Weight e)\<rparr>"

text \<open>The order of edges: by source, then target, then relation, as the list of the three.\<close>

definition edge_key :: "GraphEdge \<Rightarrow> string list" where
  "edge_key e = [ge_Source e, ge_Target e, ge_Relation e]"

definition NormalizeGraph :: "IncidentGraph \<Rightarrow> IncidentGraph" where
  "NormalizeGraph g = g\<lparr>ig_Nodes := sort_key gn_ID (map normal_node (ig_Nodes g)),
     ig_Edges := sort_key edge_key (map normal_edge (ig_Edges g))\<rparr>"

section \<open>Conversion and merge\<close>

definition dependency_type :: "DependencyNode \<Rightarrow> string" where
  "dependency_type n =
     (let typ = dn_Kind n;
          typ = (if typ = ''datastore'' \<or> typ = ''critical_dependency'' \<or> dn_Role n = ''critical_dependency''
                 then (let t = inferType (dn_ID n) in if t = ''service'' then ''database'' else t) else typ)
      in if typ = [] \<or> typ = ''dependency'' \<or> typ = ''root'' then inferType (dn_ID n) else typ)"

definition dependency_node :: "DependencyNode \<Rightarrow> GraphNode" where
  "dependency_node n =
     (let m = dn_Metadata n;
          m = (if dn_Service n \<noteq> [] then m(''service'' \<mapsto> dn_Service n) else m);
          m = (if dn_Resource n \<noteq> [] then m(''resource'' \<mapsto> dn_Resource n) else m)
      in \<lparr>gn_ID = dn_ID n, gn_Type = dependency_type n, gn_Metadata = m\<rparr>)"

definition dependency_edge :: "DependencyEdge \<Rightarrow> GraphEdge" where
  "dependency_edge e =
     \<lparr>ge_Source = de_From e, ge_Target = de_To e, ge_Relation = (if de_Kind e = [] then ''depends_on'' else de_Kind e),
      ge_Weight = (let w = 1 + de_ErrorRate e in if de_LatencyMS e > 0 then w + de_LatencyMS e / 1000 else w)\<rparr>"

definition FromDependencyGraph :: "string \<Rightarrow> IncidentDependencyGraph \<Rightarrow> IncidentGraph" where
  "FromDependencyGraph incidentID graph =
     NormalizeGraph \<lparr>ig_IncidentID = incidentID, ig_Nodes = map dependency_node (idg_Nodes graph),
       ig_Edges = map dependency_edge (idg_Edges graph)\<rparr>"

definition ToDependencyGraph :: "IncidentGraph \<Rightarrow> string \<Rightarrow> IncidentDependencyGraph" where
  "ToDependencyGraph g rootService =
     zero_IncidentDependencyGraph\<lparr>idg_RootService := rootService,
       idg_Nodes := map (\<lambda>n. \<lparr>dn_ID = gn_ID n, dn_Kind = gn_Type n, dn_Service = mget [] (gn_Metadata n) ''service'',
           dn_Resource = mget [] (gn_Metadata n) ''resource'', dn_Role = mget [] (gn_Metadata n) ''role'',
           dn_Metadata = gn_Metadata n\<rparr>) (ig_Nodes g),
       idg_SuspectedFailureNodes := map gn_ID (filter (\<lambda>n. gn_Type n \<in> {''database'', ''cache'', ''queue''}) (ig_Nodes g)),
       idg_Edges := map (\<lambda>e. zero_DependencyEdge\<lparr>de_From := ge_Source e, de_To := ge_Target e, de_Kind := ge_Relation e\<rparr>) (ig_Edges g)\<rparr>"

definition merge_node :: "IncidentGraph \<Rightarrow> GraphNode \<Rightarrow> IncidentGraph" where
  "merge_node out n = (if gn_ID n = [] \<or> gn_ID n \<in> set (map gn_ID (ig_Nodes out)) then out
     else out\<lparr>ig_Nodes := ig_Nodes out @ [n]\<rparr>)"

definition merge_key :: "GraphEdge \<Rightarrow> string" where
  "merge_key e = ge_Source e @ ''>'' @ ge_Target e @ '':'' @ ge_Relation e"

definition merge_edge :: "IncidentGraph \<Rightarrow> GraphEdge \<Rightarrow> IncidentGraph" where
  "merge_edge out e = (if ge_Source e = [] \<or> ge_Target e = [] \<or> merge_key e \<in> set (map merge_key (ig_Edges out)) then out
     else out\<lparr>ig_Edges := ig_Edges out @ [e]\<rparr>)"

definition merge_graph :: "IncidentGraph \<Rightarrow> IncidentGraph \<Rightarrow> IncidentGraph" where
  "merge_graph out graph =
     (let out = (if ig_IncidentID out = [] then out\<lparr>ig_IncidentID := ig_IncidentID graph\<rparr> else out)
      in foldl merge_edge (foldl merge_node out (ig_Nodes graph)) (ig_Edges graph))"

definition MergeGraphs :: "IncidentGraph list \<Rightarrow> IncidentGraph" where
  "MergeGraphs graphs = NormalizeGraph (foldl merge_graph \<lparr>ig_IncidentID = [], ig_Nodes = [], ig_Edges = []\<rparr> graphs)"

section \<open>Topology from evidence\<close>

definition add_node :: "Incident \<Rightarrow> string \<Rightarrow> string \<Rightarrow> string table \<Rightarrow> IncidentGraph \<Rightarrow> IncidentGraph" where
  "add_node i nid typ metadata g =
     (let nid = TrimSpace nid in
      if nid = [] \<or> nid \<in> set (map gn_ID (ig_Nodes g)) then g
      else g\<lparr>ig_Nodes := ig_Nodes g @ [\<lparr>gn_ID = nid, gn_Type = typ, gn_Metadata = [''namespace'' \<mapsto> inc_Namespace i] ++ metadata\<rparr>]\<rparr>)"

definition add_edge :: "Incident \<Rightarrow> string \<Rightarrow> string \<Rightarrow> string \<Rightarrow> IncidentGraph \<Rightarrow> IncidentGraph" where
  "add_edge i source target relation g =
     (if TrimSpace source = [] \<or> TrimSpace target = [] \<or> source = target then g
      else let g = add_node i target (inferType target) Map.empty (add_node i source ''service'' Map.empty g) in
        if [source, target, relation] \<in> set (map edge_key (ig_Edges g)) then g
        else g\<lparr>ig_Edges := ig_Edges g @ [\<lparr>ge_Source = source, ge_Target = target, ge_Relation = relation, ge_Weight = 1\<rparr>]\<rparr>)"

definition text_at :: "any_value table \<Rightarrow> string \<Rightarrow> string option" where
  "text_at payload key = (case payload key of Some (AString v) \<Rightarrow> Some v | _ \<Rightarrow> None)"

definition add_dependency :: "Incident \<Rightarrow> string \<Rightarrow> any_value table \<Rightarrow> IncidentGraph \<Rightarrow> string \<Rightarrow> IncidentGraph" where
  "add_dependency i source payload g key =
     (case text_at payload key of None \<Rightarrow> g | Some v \<Rightarrow> add_edge i source v (relationForEvidence key) g)"

definition add_owned :: "Incident \<Rightarrow> string \<Rightarrow> any_value table \<Rightarrow> string \<Rightarrow> string \<Rightarrow> IncidentGraph \<Rightarrow> string \<Rightarrow> IncidentGraph" where
  "add_owned i source payload typ relation g key =
     (case text_at payload key of None \<Rightarrow> g
      | Some v \<Rightarrow> add_edge i v source relation (add_node i v typ Map.empty g))"

definition add_payload :: "Incident \<Rightarrow> string \<Rightarrow> IncidentGraph \<Rightarrow> any_value table \<Rightarrow> IncidentGraph" where
  "add_payload i source g payload =
     (let g = foldl (add_dependency i source payload) g
            [''dependency'', ''downstream_service'', ''endpoint_service'', ''target_service'', ''upstream_service''];
          g = foldl (add_owned i source payload ''pod'' ''runs_on'') g [''pod'', ''pod_name'']
      in foldl (add_owned i source payload ''deployment'' ''owns'') g [''deployment'', ''deployment_name''])"

definition add_evidence :: "(Evidence \<Rightarrow> string) \<Rightarrow> Incident \<Rightarrow> IncidentGraph \<Rightarrow> Evidence \<Rightarrow> IncidentGraph" where
  "add_evidence sprint i g ev =
     (let source = (if ev_Service ev = [] then inc_Service i else ev_Service ev);
          g = add_node i source ''service'' [''resource'' \<mapsto> ev_Resource ev] g;
          g = foldl (add_payload i source) g [ev_Facts ev, ev_Content ev, ev_Data ev];
          text = ToLower (sprint ev)
      in foldl (\<lambda>g token. if Contains text token then add_edge i source token ''depends_on'' g else g) g
           [''mysql'', ''postgres'', ''postgresql'', ''redis'', ''kafka''])"

definition BuildTopology :: "(Evidence \<Rightarrow> string) \<Rightarrow> Incident option \<Rightarrow> Evidence list \<Rightarrow> IncidentGraph" where
  "BuildTopology sprint incident evidence = (case incident of
       None \<Rightarrow> \<lparr>ig_IncidentID = [], ig_Nodes = [], ig_Edges = []\<rparr>
     | Some i \<Rightarrow>
         NormalizeGraph (foldl (add_evidence sprint i)
           (add_node i (inc_Service i) ''service'' [''role'' \<mapsto> ''root'', ''resource'' \<mapsto> inc_Resource i]
              \<lparr>ig_IncidentID = inc_ID i, ig_Nodes = [], ig_Edges = []\<rparr>)
           evidence))"

section \<open>Similarity\<close>

definition nodeType :: "IncidentGraph \<Rightarrow> string \<Rightarrow> string" where
  "nodeType g i = (case find (\<lambda>n. gn_ID n = i) (ig_Nodes g) of None \<Rightarrow> ''service'' | Some n \<Rightarrow> gn_Type n)"

text \<open>The map of types keeps the last node with an identifier, and an unknown one reads as the empty type.\<close>

definition type_in :: "IncidentGraph \<Rightarrow> string \<Rightarrow> string" where
  "type_in g i = mget [] (map_of (rev (map (\<lambda>n. (gn_ID n, gn_Type n)) (ig_Nodes g)))) i"

definition neighborSignature :: "IncidentGraph \<Rightarrow> GraphEdge \<Rightarrow> string" where
  "neighborSignature g e = type_in g (ge_Source e) @ ''>'' @ type_in g (ge_Target e) @ '':'' @ ge_Relation e"

definition pathSignature :: "IncidentGraph \<Rightarrow> GraphEdge \<Rightarrow> string" where
  "pathSignature g e = normalizeRelation (ge_Relation e) @ '':'' @ nodeType g (ge_Source e) @ ''>'' @ nodeType g (ge_Target e)"

text \<open>The two sets are maps with distinct keys; they are lists without duplicates here.\<close>

definition jaccard :: "string list \<Rightarrow> string list \<Rightarrow> rat" where
  "jaccard a b =
     (if a = [] \<and> b = [] then 1
      else let union = length a + length (filter (\<lambda>k. k \<notin> set a) b); both = length (filter (\<lambda>k. k \<in> set b) a)
           in if union = 0 then 0 else rat_of_nat both / rat_of_nat union)"

definition neighborSimilarity :: "IncidentGraph \<Rightarrow> IncidentGraph \<Rightarrow> rat" where
  "neighborSimilarity a b = jaccard (remdups (map (neighborSignature a) (ig_Edges a))) (remdups (map (neighborSignature b) (ig_Edges b)))"

definition pathSimilarity :: "IncidentGraph \<Rightarrow> IncidentGraph \<Rightarrow> rat" where
  "pathSimilarity a b = jaccard (remdups (map (pathSignature a) (ig_Edges a))) (remdups (map (pathSignature b) (ig_Edges b)))"

definition nodeTypeSimilarity :: "IncidentGraph \<Rightarrow> IncidentGraph \<Rightarrow> rat" where
  "nodeTypeSimilarity a b = jaccard (remdups (map (ToLower \<circ> gn_Type) (ig_Nodes a))) (remdups (map (ToLower \<circ> gn_Type) (ig_Nodes b)))"

record SimilarityBreakdown =
  sim_Neighbor :: rat
  sim_Path :: rat
  sim_NodeType :: rat
  sim_Score :: rat

definition clamp_unit :: "rat \<Rightarrow> rat" where
  "clamp_unit v = (if v < 0 then 0 else if v > 1 then 1 else v)"

definition Similarity :: "IncidentGraph \<Rightarrow> IncidentGraph \<Rightarrow> SimilarityBreakdown" where
  "Similarity current historical =
     (let a = NormalizeGraph current; b = NormalizeGraph historical;
          neighbor = neighborSimilarity a b; path = pathSimilarity a b; types = nodeTypeSimilarity a b
      in \<lparr>sim_Neighbor = neighbor, sim_Path = path, sim_NodeType = types,
          sim_Score = clamp_unit (40/100 * neighbor + 30/100 * path + 30/100 * types)\<rparr>)"

section \<open>No dangling edge\<close>

abbreviation node_ids :: "IncidentGraph \<Rightarrow> string list" where
  "node_ids g \<equiv> map gn_ID (ig_Nodes g)"

definition closed_graph :: "IncidentGraph \<Rightarrow> bool" where
  "closed_graph g = (distinct (node_ids g) \<and> (\<forall>n\<in>set (node_ids g). n \<noteq> [] \<and> TrimSpace n = n) \<and>
     (\<forall>e\<in>set (ig_Edges g). TrimSpace (ge_Source e) \<in> set (node_ids g) \<and> TrimSpace (ge_Target e) \<in> set (node_ids g)))"

lemma closed_nodesI:
  assumes "closed_graph g" "n \<notin> set (node_ids g)" "n \<noteq> []" "TrimSpace n = n"
  shows "closed_graph (g\<lparr>ig_Nodes := ig_Nodes g @ [\<lparr>gn_ID = n, gn_Type = t, gn_Metadata = m\<rparr>]\<rparr>)"
  using assms by (auto simp: closed_graph_def)

lemma add_node_closed [intro]: "closed_graph g \<Longrightarrow> closed_graph (add_node i n t m g)"
  unfolding add_node_def Let_def by (auto intro: closed_nodesI)

lemma add_node_grows: "set (node_ids g) \<subseteq> set (node_ids (add_node i n t m g))"
  by (auto simp: add_node_def Let_def)

lemma add_node_member: "TrimSpace n \<noteq> [] \<Longrightarrow> TrimSpace n \<in> set (node_ids (add_node i n t m g))"
  by (auto simp: add_node_def Let_def)

lemma add_edge_closed [intro]:
  assumes "closed_graph g"
  shows "closed_graph (add_edge i source target relation g)"
proof (cases "TrimSpace source = [] \<or> TrimSpace target = [] \<or> source = target")
  case False
  let ?h = "add_node i source ''service'' Map.empty g"
  let ?g = "add_node i target (inferType target) Map.empty ?h"
  have "closed_graph ?g" using assms by blast
  moreover have "TrimSpace source \<in> set (node_ids ?g)"
    using False add_node_member add_node_grows by blast
  moreover have "TrimSpace target \<in> set (node_ids ?g)"
    using False add_node_member by blast
  ultimately show ?thesis using False by (auto simp: add_edge_def closed_graph_def Let_def)
qed (use assms in \<open>auto simp: add_edge_def\<close>)

lemma foldl_closed:
  assumes "closed_graph g" "\<And>g x. closed_graph g \<Longrightarrow> closed_graph (f g x)"
  shows "closed_graph (foldl f g xs)"
  using assms(1) by (induction xs arbitrary: g) (simp_all add: assms(2))

lemma add_payload_closed:
  assumes "closed_graph g"
  shows "closed_graph (add_payload i source g payload)"
  unfolding add_payload_def Let_def
  by (intro foldl_closed assms) (auto simp: add_dependency_def add_owned_def split: option.split)

lemma add_evidence_closed:
  assumes "closed_graph g"
  shows "closed_graph (add_evidence sprint i g ev)"
  unfolding add_evidence_def Let_def
  by (intro foldl_closed add_node_closed assms) (auto intro: add_payload_closed)

lemma map_ident_on: "(\<And>x. x \<in> set xs \<Longrightarrow> f x = x) \<Longrightarrow> map f xs = xs"
  by (induction xs) auto

lemma normalized_ids: "set (node_ids (NormalizeGraph g)) = TrimSpace ` set (node_ids g)"
  by (auto simp: NormalizeGraph_def normal_node_def image_comp)

lemma closed_normalized:
  assumes "closed_graph g"
  shows "closed_graph (NormalizeGraph g)"
    and "\<forall>e\<in>set (ig_Edges (NormalizeGraph g)). ge_Source e \<in> set (node_ids (NormalizeGraph g)) \<and>
           ge_Target e \<in> set (node_ids (NormalizeGraph g))"
proof -
  have same: "map gn_ID (map normal_node (ig_Nodes g)) = node_ids g"
    using assms by (auto simp: closed_graph_def normal_node_def)
  have ids: "set (node_ids (NormalizeGraph g)) = set (node_ids g)"
    using assms normalized_ids [of g] by (auto simp: closed_graph_def image_iff)
  have "mset (node_ids (NormalizeGraph g)) = mset (node_ids g)"
    using arg_cong [OF same, of mset] by (simp add: NormalizeGraph_def image_mset.compositionality)
  then have distinct: "distinct (node_ids (NormalizeGraph g))"
    using assms unfolding closed_graph_def by (metis mset_eq_imp_distinct_iff)
  have ends: "\<forall>e\<in>set (ig_Edges (NormalizeGraph g)). \<exists>e'\<in>set (ig_Edges g).
      ge_Source e = TrimSpace (ge_Source e') \<and> ge_Target e = TrimSpace (ge_Target e')"
    by (auto simp: NormalizeGraph_def normal_edge_def)
  show "\<forall>e\<in>set (ig_Edges (NormalizeGraph g)). ge_Source e \<in> set (node_ids (NormalizeGraph g)) \<and>
           ge_Target e \<in> set (node_ids (NormalizeGraph g))"
    using ends assms unfolding ids closed_graph_def by metis
  then show "closed_graph (NormalizeGraph g)"
    using distinct ends assms unfolding closed_graph_def ids by (metis TrimSpace_idem)
qed

lemma built_closed:
  "closed_graph (BuildTopology sprint incident evidence)"
  "\<forall>e\<in>set (ig_Edges (BuildTopology sprint incident evidence)).
     ge_Source e \<in> set (node_ids (BuildTopology sprint incident evidence)) \<and>
     ge_Target e \<in> set (node_ids (BuildTopology sprint incident evidence))"
proof -
  have base: "closed_graph (foldl (add_evidence sprint i) (add_node i n t m \<lparr>ig_IncidentID = j, ig_Nodes = [], ig_Edges = []\<rparr>) es)" for i n t m j es
    by (intro foldl_closed add_node_closed add_evidence_closed) (simp_all add: closed_graph_def)
  show "closed_graph (BuildTopology sprint incident evidence)"
    by (cases incident) (auto simp: BuildTopology_def closed_graph_def [of "\<lparr>ig_IncidentID = [], ig_Nodes = [], ig_Edges = []\<rparr>"]
        intro!: closed_normalized(1) base)
  show "\<forall>e\<in>set (ig_Edges (BuildTopology sprint incident evidence)).
     ge_Source e \<in> set (node_ids (BuildTopology sprint incident evidence)) \<and>
     ge_Target e \<in> set (node_ids (BuildTopology sprint incident evidence))"
    by (cases incident) (simp add: BuildTopology_def, use closed_normalized(2) [OF base] in \<open>auto simp: BuildTopology_def\<close>)
qed

section \<open>Merging\<close>

lemma merge_node_props:
  "ig_Edges (merge_node out n) = ig_Edges out"
  "set (node_ids (merge_node out n)) = set (node_ids out) \<union> ({gn_ID n} - {[]})"
  "distinct (node_ids out) \<Longrightarrow> distinct (node_ids (merge_node out n))"
  by (auto simp: merge_node_def)

lemma merge_nodes_props:
  "ig_Edges (foldl merge_node out ns) = ig_Edges out \<and>
   set (node_ids (foldl merge_node out ns)) = set (node_ids out) \<union> (gn_ID ` set ns - {[]}) \<and>
   (distinct (node_ids out) \<longrightarrow> distinct (node_ids (foldl merge_node out ns)))"
proof (induction ns arbitrary: out)
  case (Cons n ns)
  have "set (node_ids (foldl merge_node out (n # ns))) = set (node_ids (merge_node out n)) \<union> (gn_ID ` set ns - {[]})"
    using Cons [of "merge_node out n"] by (simp del: set_map)
  also have "\<dots> = set (node_ids out) \<union> (gn_ID ` set (n # ns) - {[]})"
    unfolding merge_node_props by auto
  finally show ?case using Cons [of "merge_node out n"] merge_node_props by simp
qed simp

lemma merge_edges_props:
  "ig_Nodes (foldl merge_edge out es) = ig_Nodes out \<and>
   set (ig_Edges (foldl merge_edge out es)) \<subseteq> set (ig_Edges out) \<union> set es"
proof (induction es arbitrary: out)
  case (Cons e es)
  have "ig_Nodes (merge_edge out e) = ig_Nodes out" "set (ig_Edges (merge_edge out e)) \<subseteq> insert e (set (ig_Edges out))"
    by (auto simp: merge_edge_def)
  with Cons [of "merge_edge out e"] show ?case by auto
qed simp

lemma merge_graph_closed:
  assumes "closed_graph out" "closed_graph g"
  shows "closed_graph (merge_graph out g)"
proof -
  define o1 where "o1 = (if ig_IncidentID out = [] then out\<lparr>ig_IncidentID := ig_IncidentID g\<rparr> else out)"
  have o1: "ig_Nodes o1 = ig_Nodes out" "ig_Edges o1 = ig_Edges out" by (auto simp: o1_def)
  let ?n = "foldl merge_node o1 (ig_Nodes g)" and ?m = "merge_graph out g"
  have m: "?m = foldl merge_edge ?n (ig_Edges g)" by (simp add: merge_graph_def o1_def)
  note ns = merge_nodes_props [of o1 "ig_Nodes g"] and es = merge_edges_props [of ?n "ig_Edges g"]
  have ids: "node_ids ?m = node_ids ?n" using es by (simp add: m)
  have "set (node_ids ?m) = set (node_ids out) \<union> (set (node_ids g) - {[]})"
    unfolding ids using ns by (simp add: o1)
  then have nodes: "set (node_ids ?m) = set (node_ids out) \<union> set (node_ids g)"
    using assms(2) unfolding closed_graph_def by blast
  have edges: "set (ig_Edges ?m) \<subseteq> set (ig_Edges out) \<union> set (ig_Edges g)"
    using es ns by (simp add: m o1)
  have "distinct (node_ids ?m)"
    using assms(1) ns unfolding ids by (simp add: closed_graph_def o1)
  then show ?thesis using assms edges unfolding closed_graph_def nodes by blast
qed

lemma merged_closed:
  assumes "\<forall>g\<in>set graphs. closed_graph g"
  shows "closed_graph (MergeGraphs graphs)"
proof -
  have "closed_graph (foldl merge_graph out graphs)" if "closed_graph out" for out
    using that assms by (induction graphs arbitrary: out) (simp_all add: merge_graph_closed)
  then show ?thesis unfolding MergeGraphs_def by (rule closed_normalized(1)) (simp add: closed_graph_def)
qed

section \<open>Similarity\<close>

lemma jaccard_sets:
  assumes "distinct a" "distinct b"
  shows "jaccard a b = (if set a \<union> set b = {} then 1 else rat_of_nat (card (set a \<inter> set b)) / rat_of_nat (card (set a \<union> set b)))"
proof -
  have "length (filter (\<lambda>k. k \<in> set b) a) = card (set a \<inter> set b)"
    using assms(1) by (simp add: distinct_length_filter Int_commute Collect_conj_eq)
  moreover have "length a + length (filter (\<lambda>k. k \<notin> set a) b) = card (set a \<union> set b)"
  proof -
    have "length (filter (\<lambda>k. k \<notin> set a) b) = card (set b - set a)"
      using assms(2) by (simp add: distinct_length_filter Int_def set_diff_eq conj_commute)
    moreover have "card (set a \<union> set b) = card (set a) + card (set b - set a)"
      by (simp add: card_Un_disjoint [symmetric])
    ultimately show ?thesis using assms(1) by (simp add: distinct_card)
  qed
  moreover have "card (set a \<union> set b) = 0 \<longleftrightarrow> set a \<union> set b = {}" by simp
  ultimately show ?thesis by (auto simp: jaccard_def Let_def)
qed

lemma jaccard_sym: "distinct a \<Longrightarrow> distinct b \<Longrightarrow> jaccard a b = jaccard b a"
  by (simp add: jaccard_sets Int_commute Un_commute)

lemma jaccard_refl: "distinct a \<Longrightarrow> jaccard a a = 1"
  by (simp add: jaccard_sets)

lemma jaccard_bounds: "distinct a \<Longrightarrow> distinct b \<Longrightarrow> 0 \<le> jaccard a b \<and> jaccard a b \<le> 1"
  by (auto simp: jaccard_sets divide_le_eq_1 card_gt_0_iff intro!: card_mono)

lemmas jaccard_facts = jaccard_bounds jaccard_refl

text \<open>The similarity of two topologies is a figure of the two alone: every component lies
  in [0,1], the score too, comparing in the other direction gives the same result, and a topology is
  fully similar to itself.  The clamp of the score never changes it.\<close>

theorem similarity_is_symmetric_and_bounded:
  "Similarity a b = Similarity b a \<and>
   0 \<le> sim_Neighbor (Similarity a b) \<and> sim_Neighbor (Similarity a b) \<le> 1 \<and>
   0 \<le> sim_Path (Similarity a b) \<and> sim_Path (Similarity a b) \<le> 1 \<and>
   0 \<le> sim_NodeType (Similarity a b) \<and> sim_NodeType (Similarity a b) \<le> 1 \<and>
   sim_Score (Similarity a b) = 40/100 * sim_Neighbor (Similarity a b) + 30/100 * sim_Path (Similarity a b) +
     30/100 * sim_NodeType (Similarity a b) \<and>
   0 \<le> sim_Score (Similarity a b) \<and> sim_Score (Similarity a b) \<le> 1 \<and> sim_Score (Similarity a a) = 1"
proof -
  have sym: "Similarity a b = Similarity b a"
    by (simp add: Similarity_def Let_def neighborSimilarity_def pathSimilarity_def nodeTypeSimilarity_def
        jaccard_sym [of "remdups x" "remdups y" for x y])
  let ?s = "Similarity a b"
  have n: "0 \<le> sim_Neighbor ?s \<and> sim_Neighbor ?s \<le> 1" and p: "0 \<le> sim_Path ?s \<and> sim_Path ?s \<le> 1"
    and t: "0 \<le> sim_NodeType ?s \<and> sim_NodeType ?s \<le> 1"
    by (simp_all add: Similarity_def Let_def neighborSimilarity_def pathSimilarity_def nodeTypeSimilarity_def jaccard_bounds)
  then have score: "sim_Score ?s = 40/100 * sim_Neighbor ?s + 30/100 * sim_Path ?s + 30/100 * sim_NodeType ?s"
    by (simp add: Similarity_def Let_def clamp_unit_def)
  have self: "sim_Score (Similarity a a) = 1"
    by (simp add: Similarity_def Let_def neighborSimilarity_def pathSimilarity_def nodeTypeSimilarity_def jaccard_refl clamp_unit_def)
  have "0 \<le> sim_Score ?s \<and> sim_Score ?s \<le> 1" unfolding score using n p t by simp
  with sym n p t score self show ?thesis by blast
qed

end
