(* ===== verification/World_Model.thy ===== *)
theory World_Model
  imports Runtime_Hash Topology
begin

text \<open>\<^verbatim>\<open>internal/worldmodel/builder.go\<close>: the operational world model, a projection of the evidence and
  the topology to entities, relations, signals and a timeline.  The maps of entities and relations
  under construction are the lists of the model itself, with one element per key, and are sorted at the
  end as the code sorts them; where the sort key of two relations is the same text, the order of a Go map
  leaves their order open and the model takes the order of insertion.  The text of a payload value
  (\<^verbatim>\<open>fmt.Sprint\<close>) and the parser of time stamps are parameters.  The lemmas show that the model
  is closed: its relations, signals and events refer to its entities only.\<close>

section \<open>Values of a payload\<close>

record payload_codec =
  pc_Sprint :: "any_value \<Rightarrow> string"
  pc_ParseTime :: "string \<Rightarrow> time"

definition sprint_value :: "payload_codec \<Rightarrow> any_value \<Rightarrow> string" where
  "sprint_value P v = (case v of AnyNil \<Rightarrow> ''<nil>'' | AString t \<Rightarrow> t | _ \<Rightarrow> pc_Sprint P v)"

definition textValue :: "payload_codec \<Rightarrow> any_value \<Rightarrow> string" where
  "textValue P v = (if v = AnyNil then [] else TrimSpace (sprint_value P v))"

definition stringMap :: "any_value \<Rightarrow> any_value table option" where
  "stringMap v = (case v of AObject kvs \<Rightarrow> Some (map_of kvs) | _ \<Rightarrow> None)"

definition mapSlice :: "any_value \<Rightarrow> any_value table list" where
  "mapSlice v = (case v of AList vs \<Rightarrow> List.map_filter stringMap vs | _ \<Rightarrow> [])"

definition stringSlice :: "payload_codec \<Rightarrow> any_value \<Rightarrow> string list" where
  "stringSlice P v = (case v of
       AList vs \<Rightarrow> foldl (\<lambda>out item. if textValue P item = [] then out else appendUnique out (textValue P item)) [] vs
     | _ \<Rightarrow> [])"

definition numericValue :: "any_value \<Rightarrow> rat" where
  "numericValue v = (case v of AInt n \<Rightarrow> of_int n | AInt32 n \<Rightarrow> of_int n | AInt64 n \<Rightarrow> of_int n | AFloat q \<Rightarrow> q | _ \<Rightarrow> 0)"

definition timeValue :: "payload_codec \<Rightarrow> any_value \<Rightarrow> time" where
  "timeValue P v = (case v of ATime t \<Rightarrow> t | AString text \<Rightarrow> pc_ParseTime P text | _ \<Rightarrow> 0)"

definition firstNonEmpty :: "string list \<Rightarrow> string" where
  "firstNonEmpty vs = (case find (\<lambda>v. TrimSpace v \<noteq> []) vs of None \<Rightarrow> [] | Some v \<Rightarrow> TrimSpace v)"

definition firstTime :: "time list \<Rightarrow> time" where
  "firstTime ts = (case find (\<lambda>t. \<not> IsZero t) ts of None \<Rightarrow> 0 | Some t \<Rightarrow> t)"

definition field_at :: "any_value table \<Rightarrow> string \<Rightarrow> any_value" where
  "field_at facts key = mget AnyNil facts key"

section \<open>Entities and relations\<close>

definition canonicalKind :: "string \<Rightarrow> string" where
  "canonicalKind kind0 = (let kind = ToLower (TrimSpace kind0) in
     if kind = ''deploy'' \<or> kind = ''deployment'' then ''deployment''
     else if kind = ''pod'' then ''pod''
     else if kind = ''container'' then ''container''
     else if kind = ''node'' then ''node''
     else if kind = ''database'' \<or> kind = ''cache'' \<or> kind = ''queue'' then kind
     else ''service'')"

definition entityID :: "string \<Rightarrow> string \<Rightarrow> string \<Rightarrow> string" where
  "entityID kind namespace name =
     (if TrimSpace name = [] then [] else canonicalKind kind @ ''/'' @ namespace @ ''/'' @ TrimSpace name)"

type_synonym builder = OperationalWorldModel

definition entity_at :: "builder \<Rightarrow> string \<Rightarrow> OperationalEntity" where
  "entity_at m i = (case find (\<lambda>e. oe_ID e = i) (owm_Entities m) of None \<Rightarrow> zero_OperationalEntity | Some e \<Rightarrow> e)"

definition put_entity :: "OperationalEntity \<Rightarrow> builder \<Rightarrow> builder" where
  "put_entity e m = m\<lparr>owm_Entities :=
     (if oe_ID e \<in> set (map oe_ID (owm_Entities m)) then map (\<lambda>x. if oe_ID x = oe_ID e then e else x) (owm_Entities m)
      else owm_Entities m @ [e])\<rparr>"

text \<open>The non-blank attributes are set; a state among them is also the state of the entity.\<close>

definition nonblank :: "string table \<Rightarrow> string table" where
  "nonblank attributes = (\<lambda>k. case attributes k of None \<Rightarrow> None | Some v \<Rightarrow> if TrimSpace v = [] then None else Some v)"

definition touch_entity ::
  "string \<Rightarrow> string \<Rightarrow> string \<Rightarrow> time \<Rightarrow> string table \<Rightarrow> OperationalEntity \<Rightarrow> OperationalEntity" where
  "touch_entity service resource evidenceID observedAt attributes c =
     c\<lparr>oe_Service := (if oe_Service c = [] then service else oe_Service c),
       oe_Resource := (if oe_Resource c = [] then resource else oe_Resource c),
       oe_ObservedAt := (if observedAt > oe_ObservedAt c then observedAt else oe_ObservedAt c),
       oe_EvidenceIDs := (if evidenceID = [] then oe_EvidenceIDs c else appendUnique (oe_EvidenceIDs c) evidenceID),
       oe_Attributes := oe_Attributes c ++ nonblank attributes,
       oe_State := (case nonblank attributes ''state'' of None \<Rightarrow> oe_State c | Some v \<Rightarrow> v)\<rparr>"

definition addEntity ::
  "string \<Rightarrow> string \<Rightarrow> string \<Rightarrow> string \<Rightarrow> string \<Rightarrow> string \<Rightarrow> time \<Rightarrow> string table \<Rightarrow> builder \<Rightarrow> builder" where
  "addEntity namespace i kind service resource evidenceID observedAt attributes m =
     (if i = [] then m
      else let current = entity_at m i;
               c = (if oe_ID current = [] then zero_OperationalEntity\<lparr>oe_ID := i, oe_Kind := canonicalKind kind,
                      oe_Namespace := namespace, oe_Service := service, oe_Resource := resource\<rparr> else current)
           in put_entity (touch_entity service resource evidenceID observedAt attributes c) m)"

definition relation_key :: "OperationalRelation \<Rightarrow> string list" where
  "relation_key r = [or_From r, or_To r, or_Kind r]"

definition cite :: "string \<Rightarrow> string list \<Rightarrow> string list" where
  "cite evidenceID ids = (if evidenceID = [] then ids else appendUnique ids evidenceID)"

definition addRelation :: "string \<Rightarrow> string \<Rightarrow> string \<Rightarrow> string \<Rightarrow> builder \<Rightarrow> builder" where
  "addRelation from' to' kind evidenceID m =
     (if from' = [] \<or> to' = [] \<or> from' = to' then m
      else m\<lparr>owm_Relations :=
        (if [from', to', kind] \<in> set (map relation_key (owm_Relations m))
         then map (\<lambda>r. if relation_key r = [from', to', kind] then r\<lparr>or_EvidenceIDs := cite evidenceID (or_EvidenceIDs r)\<rparr> else r) (owm_Relations m)
         else owm_Relations m @ [\<lparr>or_From = from', or_To = to', or_Kind = kind, or_EvidenceIDs = cite evidenceID []\<rparr>])\<rparr>)"

section \<open>Topology\<close>

definition graphNodeKind :: "IncidentGraph \<Rightarrow> string \<Rightarrow> string" where
  "graphNodeKind graph i = (case find (\<lambda>n. gn_ID n = i) (ig_Nodes graph) of None \<Rightarrow> ''service'' | Some n \<Rightarrow> gn_Type n)"

definition add_graph_node :: "string \<Rightarrow> builder \<Rightarrow> GraphNode \<Rightarrow> builder" where
  "add_graph_node namespace m node =
     (let service = mget [] (gn_Metadata node) ''service''; resource = mget [] (gn_Metadata node) ''resource''
      in addEntity namespace (entityID (gn_Type node) namespace (gn_ID node)) (gn_Type node)
           (if service = [] \<and> canonicalKind (gn_Type node) = ''service'' then gn_ID node else service)
           (if resource = [] then gn_ID node else resource) [] 0 (gn_Metadata node) m)"

definition add_graph_edge :: "string \<Rightarrow> IncidentGraph \<Rightarrow> builder \<Rightarrow> GraphEdge \<Rightarrow> builder" where
  "add_graph_edge namespace graph m edge =
     addRelation (entityID (graphNodeKind graph (ge_Source edge)) namespace (ge_Source edge))
       (entityID (graphNodeKind graph (ge_Target edge)) namespace (ge_Target edge)) (ge_Relation edge) [] m"

section \<open>One evidence record\<close>

definition evidenceEntityKind :: "Evidence \<Rightarrow> string" where
  "evidenceEntityKind item =
     (let text = ToLower (ev_Type item @ '' '' @ ev_Kind item @ '' '' @ ev_Resource item) in
      case find (Contains text) [''container'', ''deployment'', ''pod'', ''node'', ''database'', ''cache'', ''queue''] of
        None \<Rightarrow> ''service'' | Some kind \<Rightarrow> kind)"

definition evidenceTime :: "Evidence \<Rightarrow> time" where
  "evidenceTime item = firstTime [ev_Timestamp item, ev_ObservedAt item, ev_CollectedAt item, ev_WindowEnd item]"

definition observedState :: "payload_codec \<Rightarrow> Evidence \<Rightarrow> string" where
  "observedState P item =
     (let texts = concat (map (\<lambda>payload. map (\<lambda>key. TrimSpace (sprint_value P (field_at payload key))) [''state'', ''phase'', ''status'', ''reason''])
                    [ev_Facts item, ev_Content item, ev_Data item])
      in case find (\<lambda>t. t \<noteq> [] \<and> t \<noteq> ''<nil>'') texts of None \<Rightarrow> [] | Some t \<Rightarrow> t)"

definition isMetricSource :: "string \<Rightarrow> bool" where
  "isMetricSource source = (let s = ToLower source in s = ''metric'' \<or> s = ''prometheus'')"

definition signal_strength :: "Evidence \<Rightarrow> EvidenceSignal \<Rightarrow> rat" where
  "signal_strength item s =
     (let strength = sig_Strength s;
          strength = (if strength \<le> 0 then ev_AnomalyScore item else strength)
      in if strength \<le> 0 then ev_Confidence item else strength)"

definition operational_signal :: "Evidence \<Rightarrow> string \<Rightarrow> time \<Rightarrow> EvidenceSignal \<Rightarrow> OperationalSignal" where
  "operational_signal item i observedAt s =
     \<lparr>os_ID = firstNonEmpty [sig_ID s, ev_ID item @ '':'' @ sig_Signal s], os_EntityID = i, os_Category = sig_Category s,
      os_Signal = sig_Signal s, os_Direction = sig_Direction s, os_Value = sig_Value s,
      os_Strength = clamp_unit (signal_strength item s),
      os_Reliability = clamp_unit (if sig_Reliability s \<le> 0 then ev_QualityScore item else sig_Reliability s),
      os_TemporalAlignment = clamp_unit (sig_TemporalAlignment s), os_EvidenceID = ev_ID item,
      os_ObservedAt = firstTime [sig_ObservedAt s, observedAt]\<rparr>"

definition metric_signature :: "Evidence \<Rightarrow> string \<Rightarrow> time \<Rightarrow> EvidenceSignal \<Rightarrow> MetricSignature" where
  "metric_signature item i observedAt s =
     \<lparr>ms2_Name = sig_Signal s, ms2_EntityID = i, ms2_Direction = sig_Direction s, ms2_Value = sig_Value s,
      ms2_Strength = clamp_unit (signal_strength item s), ms2_EvidenceID = ev_ID item,
      ms2_ObservedAt = firstTime [sig_ObservedAt s, observedAt]\<rparr>"

definition add_signals :: "Evidence \<Rightarrow> string \<Rightarrow> time \<Rightarrow> builder \<Rightarrow> builder" where
  "add_signals item i observedAt m =
     m\<lparr>owm_AbnormalSignals := owm_AbnormalSignals m @ map (operational_signal item i observedAt) (ev_Signals item),
       owm_MetricSignatures := owm_MetricSignatures m @ map (metric_signature item i observedAt)
         (filter (\<lambda>s. isMetricSource (ev_Source item) \<or> Contains (ToLower (sig_Category s)) ''metric'') (ev_Signals item))\<rparr>"

definition add_event :: "OperationalEvent \<Rightarrow> builder \<Rightarrow> builder" where
  "add_event e m = m\<lparr>owm_Timeline := owm_Timeline m @ [e]\<rparr>"

definition observation_event :: "Evidence \<Rightarrow> string \<Rightarrow> time \<Rightarrow> OperationalEvent" where
  "observation_event item i observedAt =
     \<lparr>oe2_ID = ev_ID item, oe2_EntityID = i, oe2_Kind = firstNonEmpty [ev_Type item, ev_Kind item, ''observation''],
      oe2_Summary = ev_Summary item, oe2_EvidenceID = ev_ID item, oe2_OccurredAt = observedAt\<rparr>"

text \<open>The state is written to the map entry of the entity even when the identifier is empty.\<close>

definition set_state :: "string \<Rightarrow> string \<Rightarrow> builder \<Rightarrow> builder" where
  "set_state i state m = (if state = [] then m else put_entity ((entity_at m i)\<lparr>oe_State := state\<rparr>) m)"

section \<open>The objects of a Kubernetes payload\<close>

text \<open>The state of the expansion: the model and the entity of each named object.\<close>

type_synonym expansion = "builder \<times> string table"

record expansion_scope =
  xs_Namespace :: string
  xs_Service :: string
  xs_ServiceID :: string
  xs_EvidenceID :: string
  xs_ObservedAt :: time

definition canonicalEvidenceFacts :: "Evidence \<Rightarrow> any_value table" where
  "canonicalEvidenceFacts item =
     (case find (\<lambda>p. p \<noteq> Map.empty) [ev_Facts item, ev_Content item, ev_Data item] of None \<Rightarrow> Map.empty | Some p \<Rightarrow> p)"

definition expansion_of :: "Incident \<Rightarrow> Evidence \<Rightarrow> expansion_scope" where
  "expansion_of i item =
     (let serviceName = firstNonEmpty [ev_Service item, inc_Service i, ev_Resource item, inc_Resource i]
      in \<lparr>xs_Namespace = inc_Namespace i, xs_Service = serviceName, xs_ServiceID = entityID ''service'' (inc_Namespace i) serviceName,
          xs_EvidenceID = ev_ID item, xs_ObservedAt = evidenceTime item\<rparr>)"

definition observe :: "expansion_scope \<Rightarrow> string \<Rightarrow> string \<Rightarrow> string \<Rightarrow> string \<Rightarrow> string table \<Rightarrow> builder \<Rightarrow> builder" where
  "observe x i kind service resource attributes m =
     addEntity (xs_Namespace x) i kind service resource (xs_EvidenceID x) (xs_ObservedAt x) attributes m"

definition relate :: "expansion_scope \<Rightarrow> string \<Rightarrow> string \<Rightarrow> string \<Rightarrow> builder \<Rightarrow> builder" where
  "relate x from' to' kind m = addRelation from' to' kind (xs_EvidenceID x) m"

definition add_template_container :: "payload_codec \<Rightarrow> expansion_scope \<Rightarrow> string \<Rightarrow> string \<Rightarrow> builder \<Rightarrow> any_value table \<Rightarrow> builder" where
  "add_template_container P x name deploymentID m container =
     (let cname = textValue P (field_at container ''name'');
          cid = entityID ''container'' (xs_Namespace x) (name @ ''/template/'' @ cname)
      in relate x deploymentID cid ''defines''
           (observe x cid ''container'' (xs_Service x) cname
             [''image'' \<mapsto> textValue P (field_at container ''image''), ''role'' \<mapsto> ''pod_template''] m))"

definition add_deployment :: "payload_codec \<Rightarrow> expansion_scope \<Rightarrow> any_value table \<Rightarrow> expansion \<Rightarrow> string \<times> expansion" where
  "add_deployment P x facts mo = (case stringMap (field_at facts ''deployment'') of None \<Rightarrow> ([], mo)
     | Some d \<Rightarrow>
         let name = textValue P (field_at d ''name'') in
         if name = [] then ([], mo)
         else let did = entityID ''deployment'' (xs_Namespace x) name;
                  state = (if numericValue (field_at d ''unavailable_replicas'') > 0 then ''degraded'' else ''healthy'');
                  m = observe x did ''deployment'' (xs_Service x) name
                        [''state'' \<mapsto> state, ''revision'' \<mapsto> textValue P (field_at d ''revision''), ''uid'' \<mapsto> textValue P (field_at d ''uid''),
                         ''resource_version'' \<mapsto> textValue P (field_at d ''resource_version'')] (fst mo);
                  m = relate x (xs_ServiceID x) did ''implemented_by'' m
              in (did, foldl (add_template_container P x name did) m (mapSlice (field_at d ''containers'')), (snd mo)(name \<mapsto> did)))"

definition add_container :: "payload_codec \<Rightarrow> expansion_scope \<Rightarrow> string \<Rightarrow> string \<Rightarrow> builder \<Rightarrow> any_value table \<Rightarrow> builder" where
  "add_container P x name podID m container =
     (let cname = textValue P (field_at container ''name'') in
      if cname = [] then m
      else let cid = entityID ''container'' (xs_Namespace x) (name @ ''/'' @ cname)
           in relate x podID cid ''contains''
                (observe x cid ''container'' (xs_Service x) cname
                  [''state'' \<mapsto> firstNonEmpty [textValue P (field_at container ''state''), textValue P (field_at container ''reason'')],
                   ''image'' \<mapsto> textValue P (field_at container ''image'')] m))"

definition add_pod_node :: "payload_codec \<Rightarrow> expansion_scope \<Rightarrow> string \<Rightarrow> any_value table \<Rightarrow> builder \<Rightarrow> builder" where
  "add_pod_node P x podID pod m =
     (let nodeName = textValue P (field_at pod ''node'') in
      if nodeName = [] then m
      else let nid = entityID ''node'' (xs_Namespace x) nodeName
           in relate x podID nid ''runs_on'' (observe x nid ''node'' [] nodeName Map.empty m))"

definition add_pod :: "payload_codec \<Rightarrow> expansion_scope \<Rightarrow> string \<Rightarrow> expansion \<Rightarrow> any_value table \<Rightarrow> expansion" where
  "add_pod P x deploymentID mo pod =
     (let name = textValue P (field_at pod ''name'') in
      if name = [] then mo
      else let pid = entityID ''pod'' (xs_Namespace x) name;
               m = observe x pid ''pod'' (xs_Service x) name
                     [''state'' \<mapsto> textValue P (field_at pod ''phase''), ''uid'' \<mapsto> textValue P (field_at pod ''uid''),
                      ''resource_version'' \<mapsto> textValue P (field_at pod ''resource_version''), ''pod_ip'' \<mapsto> textValue P (field_at pod ''pod_ip'')] (fst mo);
               m = (if deploymentID \<noteq> [] then relate x deploymentID pid ''owns'' m else relate x (xs_ServiceID x) pid ''selects'' m);
               m = add_pod_node P x pid pod m
           in (foldl (add_container P x name pid) m (mapSlice (field_at pod ''containers'')), (snd mo)(name \<mapsto> pid)))"

definition add_discovered :: "expansion_scope \<Rightarrow> builder \<Rightarrow> string \<Rightarrow> builder" where
  "add_discovered x m dependency =
     (let did = entityID ''service'' (xs_Namespace x) dependency
      in relate x (xs_ServiceID x) did ''depends_on'' (observe x did ''service'' dependency dependency [''role'' \<mapsto> ''one_hop_dependency''] m))"

definition cluster_event :: "payload_codec \<Rightarrow> expansion_scope \<Rightarrow> string \<Rightarrow> string table \<Rightarrow> nat \<Rightarrow> any_value table \<Rightarrow> OperationalEvent" where
  "cluster_event P x rootID objects index event =
     (let entity = mget [] objects (textValue P (field_at event ''object''));
          occurred = timeValue P (field_at event ''last_timestamp'')
      in \<lparr>oe2_ID = xs_EvidenceID x @ '':event:'' @ Itoa (int index), oe2_EntityID = (if entity = [] then rootID else entity),
          oe2_Kind = firstNonEmpty [textValue P (field_at event ''reason''), textValue P (field_at event ''type''), ''kubernetes_event''],
          oe2_Summary = firstNonEmpty [textValue P (field_at event ''message''), textValue P (field_at event ''reason'')],
          oe2_EvidenceID = xs_EvidenceID x, oe2_OccurredAt = (if IsZero occurred then xs_ObservedAt x else occurred)\<rparr>)"

definition expandOperationalFacts :: "payload_codec \<Rightarrow> Incident \<Rightarrow> Evidence \<Rightarrow> any_value table \<Rightarrow> string \<Rightarrow> builder \<Rightarrow> builder" where
  "expandOperationalFacts P i item facts rootID m0 =
     (if facts = Map.empty then m0
      else let x = expansion_of i item;
               m = (if xs_ServiceID x = [] then m0 else observe x (xs_ServiceID x) ''service'' (xs_Service x) (xs_Service x) Map.empty m0);
               (did, mo) = add_deployment P x facts (m, [xs_Service x \<mapsto> xs_ServiceID x]);
               (m, objects) = foldl (add_pod P x did) mo (mapSlice (field_at facts ''pods''));
               m = foldl (add_discovered x) m (stringSlice P (field_at facts ''discovered_dependencies''));
               events = mapSlice (field_at facts ''events'')
           in foldl (\<lambda>m e. add_event e m) m
                (map (\<lambda>(n, e). cluster_event P x rootID objects n e) (enumerate 0 events)))"

section \<open>The builder\<close>

definition add_observation :: "payload_codec \<Rightarrow> Incident \<Rightarrow> builder \<Rightarrow> Evidence \<Rightarrow> builder" where
  "add_observation P i m0 item =
     (let kind = evidenceEntityKind item;
          name = firstNonEmpty [ev_Resource item, ev_Service item, inc_Resource i, inc_Service i];
          eid = entityID kind (inc_Namespace i) name;
          observedAt = evidenceTime item;
          m = addEntity (inc_Namespace i) eid kind (firstNonEmpty [ev_Service item, inc_Service i]) name (ev_ID item) observedAt Map.empty m0;
          m = (if owm_RootEntityID m \<noteq> eid then addRelation (owm_RootEntityID m) eid ''observed_on'' (ev_ID item) m else m);
          m = add_event (observation_event item eid observedAt) (add_signals item eid observedAt m);
          m = set_state eid (observedState P item) m
      in expandOperationalFacts P i item (canonicalEvidenceFacts item) (owm_RootEntityID m) m)"

definition root_name :: "Incident \<Rightarrow> string" where
  "root_name i = firstNonEmpty [inc_Service i, inc_Resource i]"

definition root_model :: "Incident \<Rightarrow> time \<Rightarrow> builder" where
  "root_model i now =
     (let rootID = entityID ''service'' (inc_Namespace i) (root_name i)
      in addEntity (inc_Namespace i) rootID ''service'' (firstNonEmpty [inc_Service i, root_name i])
           (firstNonEmpty [inc_Resource i, root_name i]) [] (inc_CreatedAt i) [''role'' \<mapsto> ''incident_root'']
           (zero_OperationalWorldModel\<lparr>owm_BuiltAt := now, owm_IncidentID := inc_ID i, owm_Cluster := inc_Cluster i,
              owm_Namespace := inc_Namespace i, owm_RootEntityID := rootID\<rparr>))"

definition build_graph :: "Incident \<Rightarrow> IncidentGraph \<Rightarrow> builder \<Rightarrow> builder" where
  "build_graph i graph m =
     foldl (add_graph_edge (inc_Namespace i) graph) (foldl (add_graph_node (inc_Namespace i)) m (ig_Nodes graph)) (ig_Edges graph)"

definition sort_model :: "builder \<Rightarrow> OperationalWorldModel" where
  "sort_model m = m\<lparr>owm_Entities := sort_key oe_ID (owm_Entities m),
     owm_Relations := sort_key (\<lambda>r. or_From r @ or_To r @ or_Kind r) (owm_Relations m),
     owm_AbnormalSignals := sort_key os_ID (owm_AbnormalSignals m),
     owm_Timeline := sort_key oe2_OccurredAt (sort_key oe2_ID (owm_Timeline m)),
     owm_MetricSignatures := sort_key (\<lambda>s. ms2_Name s @ ms2_EvidenceID s) (owm_MetricSignatures m)\<rparr>"

definition BuildWorldModel ::
  "payload_codec \<Rightarrow> hasher \<Rightarrow> Incident option \<Rightarrow> Evidence list \<Rightarrow> IncidentGraph \<Rightarrow> time \<Rightarrow> OperationalWorldModel" where
  "BuildWorldModel P H incident evidence graph now = (case incident of
       None \<Rightarrow> zero_OperationalWorldModel\<lparr>owm_BuiltAt := now\<rparr>
     | Some i \<Rightarrow>
         (sort_model (foldl (add_observation P i) (build_graph i graph (root_model i now)) evidence))
           \<lparr>owm_EvidenceSnapshotHash := EvidenceSnapshotHash H evidence\<rparr>)"

section \<open>The model is closed\<close>

abbreviation entity_ids :: "builder \<Rightarrow> string set" where
  "entity_ids m \<equiv> set (map oe_ID (owm_Entities m))"

definition in_unit :: "rat \<Rightarrow> bool" where
  "in_unit q = (0 \<le> q \<and> q \<le> 1)"

text \<open>The references of a model stay inside it, and what it cites is among the evidence identifiers \<^verbatim>\<open>E\<close>.\<close>

definition closed_relations :: "string set \<Rightarrow> builder \<Rightarrow> bool" where
  "closed_relations E m = (\<forall>r\<in>set (owm_Relations m).
     or_From r \<in> entity_ids m \<and> or_To r \<in> entity_ids m \<and> or_From r \<noteq> or_To r \<and> set (or_EvidenceIDs r) \<subseteq> E)"

definition closed_observations :: "string set \<Rightarrow> builder \<Rightarrow> bool" where
  "closed_observations E m =
     ((\<forall>x\<in>set (owm_AbnormalSignals m). os_EntityID x \<in> entity_ids m \<and> os_EvidenceID x \<in> E \<and>
         in_unit (os_Strength x) \<and> in_unit (os_Reliability x) \<and> in_unit (os_TemporalAlignment x)) \<and>
      (\<forall>x\<in>set (owm_MetricSignatures m). ms2_EntityID x \<in> entity_ids m \<and> ms2_EvidenceID x \<in> E \<and> in_unit (ms2_Strength x)) \<and>
      (\<forall>x\<in>set (owm_Timeline m). oe2_EntityID x \<in> entity_ids m \<and> oe2_EvidenceID x \<in> E))"

definition closed_model :: "string set \<Rightarrow> builder \<Rightarrow> bool" where
  "closed_model E m =
     (distinct (map oe_ID (owm_Entities m)) \<and> [] \<notin> entity_ids m \<and> owm_RootEntityID m \<in> entity_ids m \<and>
      (\<forall>e\<in>set (owm_Entities m). set (oe_EvidenceIDs e) \<subseteq> E) \<and> closed_relations E m \<and> closed_observations E m)"

text \<open>A step of the builder extends a closed model to a closed one and forgets no entity.\<close>

definition extends :: "string set \<Rightarrow> builder \<Rightarrow> builder \<Rightarrow> bool" where
  "extends E m m' = (closed_model E m' \<and> entity_ids m \<subseteq> entity_ids m' \<and> owm_RootEntityID m' = owm_RootEntityID m)"

lemma extends_refl: "closed_model E m \<Longrightarrow> extends E m m"
  by (simp add: extends_def)

lemma extends_trans: "extends E a b \<Longrightarrow> extends E b c \<Longrightarrow> extends E a c"
  by (auto simp: extends_def)

lemma extends_closed: "extends E m m' \<Longrightarrow> closed_model E m'"
  by (simp add: extends_def)

lemma extends_ids: "extends E m m' \<Longrightarrow> i \<in> entity_ids m \<Longrightarrow> i \<in> entity_ids m'"
  by (auto simp: extends_def)

lemma extends_root: "extends E m m' \<Longrightarrow> owm_RootEntityID m' = owm_RootEntityID m"
  by (simp add: extends_def)

lemma foldl_extends:
  assumes "closed_model E m" "\<And>m x. closed_model E m \<Longrightarrow> x \<in> set xs \<Longrightarrow> Q m \<Longrightarrow> extends E m (f m x)"
    and "Q m" "\<And>m m'. Q m \<Longrightarrow> extends E m m' \<Longrightarrow> Q m'"
  shows "extends E m (foldl f m xs)"
  using assms(1-3)
proof (induction xs arbitrary: m)
  case (Cons x xs)
  have 1: "extends E m (f m x)" using Cons.prems by simp
  have "extends E (f m x) (foldl f (f m x) xs)"
    by (rule Cons.IH) (use extends_closed [OF 1] assms(4) [OF Cons.prems(3) 1] Cons.prems(2) in auto)
  with 1 show ?case by (auto intro: extends_trans)
qed (simp add: extends_refl)

lemma put_entity_list:
  "owm_Entities (put_entity e m) = (if oe_ID e \<in> entity_ids m then map (\<lambda>x. if oe_ID x = oe_ID e then e else x) (owm_Entities m)
     else owm_Entities m @ [e])"
  "map oe_ID (owm_Entities (put_entity e m)) = (if oe_ID e \<in> entity_ids m then map oe_ID (owm_Entities m) else map oe_ID (owm_Entities m) @ [oe_ID e])"
  by (auto simp: put_entity_def)

lemma put_entity_other [simp]:
  "owm_Relations (put_entity e m) = owm_Relations m" "owm_AbnormalSignals (put_entity e m) = owm_AbnormalSignals m"
  "owm_MetricSignatures (put_entity e m) = owm_MetricSignatures m" "owm_Timeline (put_entity e m) = owm_Timeline m"
  "owm_RootEntityID (put_entity e m) = owm_RootEntityID m"
  by (simp_all add: put_entity_def)

lemma put_entity_ids: "entity_ids (put_entity e m) = insert (oe_ID e) (entity_ids m)"
  unfolding put_entity_list by auto

lemma closed_mono:
  assumes "entity_ids m \<subseteq> entity_ids m'" "owm_Relations m' = owm_Relations m" "owm_AbnormalSignals m' = owm_AbnormalSignals m"
    "owm_MetricSignatures m' = owm_MetricSignatures m" "owm_Timeline m' = owm_Timeline m"
  shows "closed_relations E m \<Longrightarrow> closed_relations E m'" "closed_observations E m \<Longrightarrow> closed_observations E m'"
  using assms(1) unfolding closed_relations_def closed_observations_def assms(2-5) by blast+

lemma put_entity_extends:
  assumes "closed_model E m" "oe_ID e \<noteq> []" "set (oe_EvidenceIDs e) \<subseteq> E"
  shows "extends E m (put_entity e m)"
proof -
  have "closed_relations E (put_entity e m)" "closed_observations E (put_entity e m)"
    using assms(1) closed_mono [of m "put_entity e m" E] unfolding put_entity_ids closed_model_def by auto
  moreover have "\<forall>x\<in>set (owm_Entities (put_entity e m)). set (oe_EvidenceIDs x) \<subseteq> E"
    using assms(1,3) unfolding put_entity_list closed_model_def by auto
  moreover have "distinct (map oe_ID (owm_Entities (put_entity e m)))"
    using assms(1) by (simp only: put_entity_list(2) closed_model_def) (simp split: if_split)
  ultimately show ?thesis
    using assms(1,2) unfolding extends_def closed_model_def put_entity_ids by auto
qed

lemma entity_at_props:
  assumes "closed_model E m"
  shows "set (oe_EvidenceIDs (entity_at m i)) \<subseteq> E" "oe_ID (entity_at m i) = i \<or> oe_ID (entity_at m i) = []"
    "i \<in> entity_ids m \<Longrightarrow> oe_ID (entity_at m i) = i"
  using assms by (auto simp: entity_at_def closed_model_def zero_OperationalEntity_def find_None_iff split: option.split dest: find_SomeD)

lemma appendUnique_in: "set (appendUnique xs x) = insert x (set xs)"
  by (auto simp: appendUnique_def)

lemma addEntity_extends:
  assumes "closed_model E m" "ev = [] \<or> ev \<in> E"
  shows "extends E m (addEntity ns i kind service resource ev t attributes m)"
    and "i \<noteq> [] \<Longrightarrow> i \<in> entity_ids (addEntity ns i kind service resource ev t attributes m)"
proof -
  let ?c = "if oe_ID (entity_at m i) = [] then zero_OperationalEntity\<lparr>oe_ID := i, oe_Kind := canonicalKind kind,
                      oe_Namespace := ns, oe_Service := service, oe_Resource := resource\<rparr> else entity_at m i"
  let ?e = "touch_entity service resource ev t attributes ?c"
  have c: "i \<noteq> [] \<Longrightarrow> oe_ID ?e = i" using entity_at_props(2) [OF assms(1), of i] by (auto simp: touch_entity_def)
  have s: "set (oe_EvidenceIDs ?e) \<subseteq> E"
    using assms(2) entity_at_props(1) [OF assms(1), of i] by (auto simp: touch_entity_def appendUnique_in zero_OperationalEntity_def)
  show "extends E m (addEntity ns i kind service resource ev t attributes m)"
    using put_entity_extends [OF assms(1) _ s] c extends_refl [OF assms(1)] by (auto simp: addEntity_def Let_def)
  show "i \<noteq> [] \<Longrightarrow> i \<in> entity_ids (addEntity ns i kind service resource ev t attributes m)"
    using c by (simp add: addEntity_def Let_def put_entity_ids del: set_map)
qed

lemma addRelation_extends:
  assumes "closed_model E m" "ev = [] \<or> ev \<in> E" "a = [] \<or> a \<in> entity_ids m" "b = [] \<or> b \<in> entity_ids m"
  shows "extends E m (addRelation a b kind ev m)"
proof (cases "a = [] \<or> b = [] \<or> a = b")
  case False
  let ?m = "addRelation a b kind ev m"
  have same: "owm_Entities ?m = owm_Entities m" "owm_AbnormalSignals ?m = owm_AbnormalSignals m"
    "owm_MetricSignatures ?m = owm_MetricSignatures m" "owm_Timeline ?m = owm_Timeline m" "owm_RootEntityID ?m = owm_RootEntityID m"
    by (auto simp: addRelation_def)
  have old: "closed_relations E m" using assms(1) by (simp add: closed_model_def)
  have "or_From r \<in> entity_ids m \<and> or_To r \<in> entity_ids m \<and> or_From r \<noteq> or_To r \<and> set (or_EvidenceIDs r) \<subseteq> E"
    if r_in: "r \<in> set (owm_Relations ?m)" for r
  proof (cases "r \<in> set (owm_Relations m)")
    case True
    then show ?thesis using old unfolding closed_relations_def by blast
  next
    case new: False
    have cited: "set (cite ev ids) \<subseteq> E" if "set ids \<subseteq> E" for ids
      using that assms(2) by (auto simp: cite_def appendUnique_in)
    show ?thesis
    proof (cases "[a, b, kind] \<in> set (map relation_key (owm_Relations m))")
      case True
      then obtain r0 where r0: "r0 \<in> set (owm_Relations m)" "r = r0\<lparr>or_EvidenceIDs := cite ev (or_EvidenceIDs r0)\<rparr>"
        using r_in False new by (auto simp: addRelation_def split: if_splits)
      then show ?thesis using old cited by (simp add: closed_relations_def)
    next
      case False
      then have "r = \<lparr>or_From = a, or_To = b, or_Kind = kind, or_EvidenceIDs = cite ev []\<rparr>"
        using r_in \<open>\<not> (a = [] \<or> b = [] \<or> a = b)\<close> new by (auto simp: addRelation_def split: if_splits)
      then show ?thesis using assms(3,4) \<open>\<not> (a = [] \<or> b = [] \<or> a = b)\<close> cited [of "[]"] by simp
    qed
  qed
  then have "closed_relations E ?m" unfolding closed_relations_def same by blast
  moreover have "closed_observations E ?m" using assms(1) unfolding closed_observations_def closed_model_def same by blast
  ultimately show ?thesis using assms(1) by (auto simp: extends_def closed_model_def same)
qed (use extends_refl [OF assms(1)] in \<open>auto simp: addRelation_def\<close>)

lemma add_event_extends:
  assumes "closed_model E m" "oe2_EntityID e \<in> entity_ids m" "oe2_EvidenceID e \<in> E"
  shows "extends E m (add_event e m)"
  using assms by (auto simp: extends_def closed_model_def closed_relations_def closed_observations_def add_event_def)

lemma in_unit_clamp [simp]: "in_unit (clamp_unit q)"
  by (simp add: in_unit_def clamp_unit_def)

lemma add_signals_extends:
  assumes "closed_model E m" "i \<in> entity_ids m" "ev_ID item \<in> E"
  shows "extends E m (add_signals item i t m)"
  using assms
  by (auto simp: extends_def closed_model_def closed_relations_def closed_observations_def add_signals_def operational_signal_def metric_signature_def)

lemma set_state_extends:
  assumes "closed_model E m" "i \<in> entity_ids m"
  shows "extends E m (set_state i state m)"
proof (cases "state = []")
  case False
  have "[] \<notin> entity_ids m" using assms(1) unfolding closed_model_def by blast
  then have "i \<noteq> []" using assms(2) by blast
  then have "extends E m (put_entity ((entity_at m i)\<lparr>oe_State := state\<rparr>) m)"
    using entity_at_props(1,3) [OF assms(1)] assms by (intro put_entity_extends) simp_all
  then show ?thesis using False by (simp add: set_state_def)
qed (use extends_refl [OF assms(1)] in \<open>simp add: set_state_def\<close>)

section \<open>The objects of a payload\<close>

text \<open>The state of an expansion is closed when the model is and its objects are entities of it.\<close>

definition closed_expansion :: "string set \<Rightarrow> expansion_scope \<Rightarrow> expansion \<Rightarrow> bool" where
  "closed_expansion E x mo =
     (closed_model E (fst mo) \<and> xs_EvidenceID x \<in> E \<and> (xs_ServiceID x = [] \<or> xs_ServiceID x \<in> entity_ids (fst mo)) \<and>
      (\<forall>n v. snd mo n = Some v \<longrightarrow> v = [] \<or> v \<in> entity_ids (fst mo)))"

lemma observe_extends:
  assumes "closed_model E m" "xs_EvidenceID x \<in> E"
  shows "extends E m (observe x i kind service resource attributes m)"
    and "i \<noteq> [] \<Longrightarrow> i \<in> entity_ids (observe x i kind service resource attributes m)"
  using addEntity_extends [OF assms(1) disjI2 [OF assms(2)]] unfolding observe_def by blast+

lemma relate_extends:
  assumes "closed_model E m" "xs_EvidenceID x \<in> E" "a = [] \<or> a \<in> entity_ids m" "b = [] \<or> b \<in> entity_ids m"
  shows "extends E m (relate x a b kind m)"
  unfolding relate_def by (rule addRelation_extends) (use assms in simp_all)

text \<open>An object is added and then related to one that is already there.\<close>

lemma observe_relate_extends:
  assumes "closed_model E m" "xs_EvidenceID x \<in> E" "a = [] \<or> a \<in> entity_ids m"
  shows "extends E m (relate x a i kind (observe x i k service resource attributes m))"
    and "i \<noteq> [] \<Longrightarrow> i \<in> entity_ids (relate x a i kind (observe x i k service resource attributes m))"
proof -
  let ?m = "observe x i k service resource attributes m"
  note o = observe_extends [OF assms(1,2), where i = i and kind = k and service = service and resource = resource and attributes = attributes]
  have r: "extends E ?m (relate x a i kind ?m)"
    by (rule relate_extends) (use extends_closed [OF o(1)] extends_ids [OF o(1)] o(2) assms(2,3) in blast)+
  show "extends E m (relate x a i kind ?m)" using o(1) r by (rule extends_trans)
  show "i \<noteq> [] \<Longrightarrow> i \<in> entity_ids (relate x a i kind ?m)" using o(2) extends_ids [OF r] by blast
qed

lemma add_template_containers_extend:
  assumes "closed_model E m" "xs_EvidenceID x \<in> E" "did = [] \<or> did \<in> entity_ids m"
  shows "extends E m (foldl (add_template_container P x name did) m cs)"
  by (rule foldl_extends [where Q = "\<lambda>m. did = [] \<or> did \<in> entity_ids m"])
    (use assms in \<open>auto simp: add_template_container_def Let_def extends_ids intro: observe_relate_extends(1) simp del: set_map\<close>)

lemma add_containers_extend:
  assumes "closed_model E m" "xs_EvidenceID x \<in> E" "pid = [] \<or> pid \<in> entity_ids m"
  shows "extends E m (foldl (add_container P x name pid) m cs)"
  by (rule foldl_extends [where Q = "\<lambda>m. pid = [] \<or> pid \<in> entity_ids m"])
    (use assms in \<open>auto simp: add_container_def Let_def extends_ids extends_refl intro: observe_relate_extends(1) simp del: set_map\<close>)

lemma add_discovered_extends:
  assumes "closed_model E m" "xs_EvidenceID x \<in> E" "xs_ServiceID x = [] \<or> xs_ServiceID x \<in> entity_ids m"
  shows "extends E m (foldl (add_discovered x) m ds)"
  by (rule foldl_extends [where Q = "\<lambda>m. xs_ServiceID x = [] \<or> xs_ServiceID x \<in> entity_ids m"])
    (use assms in \<open>auto simp: add_discovered_def Let_def extends_ids intro: observe_relate_extends(1) simp del: set_map\<close>)

lemma entityID_eq_Nil: "entityID kind ns name = [] \<longleftrightarrow> TrimSpace name = []"
  by (simp add: entityID_def)

text \<open>An expansion that extends its model and adds one named object stays closed.\<close>

lemma closed_expansionI:
  assumes "closed_expansion E x mo" "extends E (fst mo) m" "i = [] \<or> i \<in> entity_ids m"
  shows "closed_expansion E x (m, (snd mo)(name \<mapsto> i))"
  using assms extends_ids [OF assms(2)] unfolding closed_expansion_def by (auto simp: extends_closed simp del: set_map split: if_splits)

lemma add_deployment_closed:
  assumes "closed_expansion E x mo" "add_deployment P x facts mo = (did, mo')"
  shows "closed_expansion E x mo'" "did = [] \<or> did \<in> entity_ids (fst mo')" "extends E (fst mo) (fst mo')"
proof -
  have m: "closed_model E (fst mo)" "xs_EvidenceID x \<in> E" "xs_ServiceID x = [] \<or> xs_ServiceID x \<in> entity_ids (fst mo)"
    using assms(1) by (simp_all add: closed_expansion_def del: set_map)
  have "closed_expansion E x mo' \<and> (did = [] \<or> did \<in> entity_ids (fst mo')) \<and> extends E (fst mo) (fst mo')"
  proof (cases "did = []")
    case False
    from assms(2) False obtain d where d: "stringMap (field_at facts ''deployment'') = Some d"
      by (auto simp: add_deployment_def split: option.splits)
    let ?name = "textValue P (field_at d ''name'')"
    let ?m0 = "\<lambda>attrs. relate x (xs_ServiceID x) did ''implemented_by'' (observe x did ''deployment'' (xs_Service x) ?name attrs (fst mo))"
    from assms(2) d False obtain attrs where mo':
      "mo' = (foldl (add_template_container P x ?name did) (?m0 attrs) (mapSlice (field_at d ''containers'')), (snd mo)(?name \<mapsto> did))"
      by (auto simp: add_deployment_def Let_def split: if_splits)
    note 1 = observe_relate_extends [OF m, where i = did and kind = "''implemented_by''" and k = "''deployment''" and service = "xs_Service x"
        and resource = ?name and attributes = attrs]
    have 2: "extends E (?m0 attrs) (fst mo')"
      unfolding mo' fst_conv by (rule add_template_containers_extend) (use extends_closed [OF 1(1)] m(2) 1(2) in blast)+
    have 3: "extends E (fst mo) (fst mo')" using 1(1) 2 by (rule extends_trans)
    have 4: "did \<in> entity_ids (fst mo')" using extends_ids [OF 2] 1(2) False by blast
    have "closed_expansion E x (fst mo', (snd mo)(?name \<mapsto> did))" using assms(1) 3 4 by (intro closed_expansionI) blast+
    then show ?thesis using 3 4 by (simp add: mo' del: set_map)
  next
    case True
    then have "mo' = mo"
      using assms(2) by (auto simp: add_deployment_def Let_def entityID_eq_Nil textValue_def split: option.splits if_splits)
    then show ?thesis using True assms(1) m(1) by (simp add: extends_refl)
  qed
  then show "closed_expansion E x mo'" "did = [] \<or> did \<in> entity_ids (fst mo')" "extends E (fst mo) (fst mo')" by blast+
qed

lemma add_pod_node_extends:
  assumes "closed_model E m" "xs_EvidenceID x \<in> E" "pid = [] \<or> pid \<in> entity_ids m"
  shows "extends E m (add_pod_node P x pid pod m)"
  using observe_relate_extends(1) [OF assms] extends_refl [OF assms(1)] by (simp add: add_pod_node_def Let_def)

lemma add_pod_closed:
  assumes "closed_expansion E x mo" "did = [] \<or> did \<in> entity_ids (fst mo)"
  shows "closed_expansion E x (add_pod P x did mo pod)" "extends E (fst mo) (fst (add_pod P x did mo pod))"
proof -
  have m: "closed_model E (fst mo)" "xs_EvidenceID x \<in> E" "xs_ServiceID x = [] \<or> xs_ServiceID x \<in> entity_ids (fst mo)"
    using assms(1) by (simp_all add: closed_expansion_def del: set_map)
  let ?name = "textValue P (field_at pod ''name'')"
  have "closed_expansion E x (add_pod P x did mo pod) \<and> extends E (fst mo) (fst (add_pod P x did mo pod))"
  proof (cases "?name = []")
    case False
    let ?pid = "entityID ''pod'' (xs_Namespace x) ?name"
    obtain attrs owner kind where owner: "owner = [] \<or> owner \<in> entity_ids (fst mo)"
      and pod: "add_pod P x did mo pod =
        (foldl (add_container P x ?name ?pid) (add_pod_node P x ?pid pod
            (relate x owner ?pid kind (observe x ?pid ''pod'' (xs_Service x) ?name attrs (fst mo)))) (mapSlice (field_at pod ''containers'')),
         (snd mo)(?name \<mapsto> ?pid))"
      using False m(3) assms(2) by (cases "did = []") (auto simp: add_pod_def Let_def simp del: set_map)
    let ?m1 = "relate x owner ?pid kind (observe x ?pid ''pod'' (xs_Service x) ?name attrs (fst mo))"
    let ?m2 = "add_pod_node P x ?pid pod ?m1"
    let ?m3 = "foldl (add_container P x ?name ?pid) ?m2 (mapSlice (field_at pod ''containers''))"
    note 1 = observe_relate_extends [OF m(1,2) owner, where i = ?pid and kind = kind and k = "''pod''" and service = "xs_Service x"
        and resource = ?name and attributes = attrs]
    have 2: "extends E ?m1 ?m2" by (rule add_pod_node_extends) (use extends_closed [OF 1(1)] m(2) 1(2) in blast)+
    have 3: "extends E ?m2 ?m3"
      by (rule add_containers_extend) (use extends_closed [OF 2] m(2) 1(2) extends_ids [OF 2] in blast)+
    have 4: "extends E (fst mo) ?m3" using 1(1) 2 3 by (blast intro: extends_trans)
    have "?pid = [] \<or> ?pid \<in> entity_ids ?m3" using 1(2) extends_ids [OF 2] extends_ids [OF 3] by blast
    with 4 show ?thesis unfolding pod using closed_expansionI [OF assms(1) 4] by simp
  qed (use assms(1) m(1) in \<open>simp add: add_pod_def extends_refl\<close>)
  then show "closed_expansion E x (add_pod P x did mo pod)" "extends E (fst mo) (fst (add_pod P x did mo pod))" by blast+
qed

lemma add_pods_closed:
  assumes "closed_expansion E x mo" "did = [] \<or> did \<in> entity_ids (fst mo)"
  shows "closed_expansion E x (foldl (add_pod P x did) mo pods) \<and> extends E (fst mo) (fst (foldl (add_pod P x did) mo pods))"
  using assms
proof (induction pods arbitrary: mo)
  case Nil
  then show ?case by (simp add: extends_refl closed_expansion_def)
next
  case (Cons pod pods)
  note p = add_pod_closed [OF Cons.prems, of P pod]
  have "did = [] \<or> did \<in> entity_ids (fst (add_pod P x did mo pod))" using Cons.prems(2) extends_ids [OF p(2)] by blast
  from Cons.IH [OF p(1) this] p(2) show ?case by (auto intro: extends_trans)
qed

lemma add_events_extend:
  assumes "closed_model E m" "\<forall>e\<in>set es. oe2_EntityID e \<in> entity_ids m \<and> oe2_EvidenceID e \<in> E"
  shows "extends E m (foldl (\<lambda>m e. add_event e m) m es)"
  by (rule foldl_extends [where Q = "\<lambda>m. \<forall>e\<in>set es. oe2_EntityID e \<in> entity_ids m \<and> oe2_EvidenceID e \<in> E"])
    (use assms in \<open>auto simp: extends_ids intro: add_event_extends simp del: set_map\<close>)

lemma expansion_of_sel [simp]: "xs_EvidenceID (expansion_of i item) = ev_ID item"
  by (simp add: expansion_of_def Let_def)

lemma closed_expansion_start:
  assumes "closed_model E m" "xs_EvidenceID x \<in> E" "xs_ServiceID x = [] \<or> xs_ServiceID x \<in> entity_ids m"
  shows "closed_expansion E x (m, [n \<mapsto> xs_ServiceID x])"
  using assms by (auto simp: closed_expansion_def simp del: set_map split: if_splits)

lemma cluster_event_entity:
  assumes "rootID \<in> S" "\<And>k. mget [] objects k = [] \<or> mget [] objects k \<in> S"
  shows "oe2_EntityID (cluster_event P x rootID objects n e) \<in> S"
  using assms(1) assms(2) [of "textValue P (field_at e ''object'')"] by (auto simp: cluster_event_def Let_def)

lemma expandOperationalFacts_extends:
  assumes "closed_model E m0" "ev_ID item \<in> E" "rootID \<in> entity_ids m0"
  shows "extends E m0 (expandOperationalFacts P i item facts rootID m0)"
proof (cases "facts = Map.empty")
  case False
  let ?x = "expansion_of i item"
  let ?m = "if xs_ServiceID ?x = [] then m0 else observe ?x (xs_ServiceID ?x) ''service'' (xs_Service ?x) (xs_Service ?x) Map.empty m0"
  have x: "xs_EvidenceID ?x \<in> E" using assms(2) by simp
  have 1: "extends E m0 ?m" "xs_ServiceID ?x = [] \<or> xs_ServiceID ?x \<in> entity_ids ?m"
    using observe_extends [OF assms(1) x] extends_refl [OF assms(1)] by (simp_all del: set_map)
  have c0: "closed_expansion E ?x (?m, [xs_Service ?x \<mapsto> xs_ServiceID ?x])"
    by (rule closed_expansion_start [OF extends_closed [OF 1(1)] x 1(2)])
  obtain did mo where dep: "add_deployment P ?x facts (?m, [xs_Service ?x \<mapsto> xs_ServiceID ?x]) = (did, mo)" by (rule prod.exhaust)
  note 2 = add_deployment_closed [OF c0 dep]
  obtain m2 objects where pods: "foldl (add_pod P ?x did) mo (mapSlice (field_at facts ''pods'')) = (m2, objects)" by (rule prod.exhaust)
  note 3 = add_pods_closed [OF 2(1,2), of P "mapSlice (field_at facts ''pods'')", unfolded pods fst_conv]
  let ?m3 = "foldl (add_discovered ?x) m2 (stringSlice P (field_at facts ''discovered_dependencies''))"
  let ?es = "map (\<lambda>(n, e). cluster_event P ?x rootID objects n e) (enumerate 0 (mapSlice (field_at facts ''events'')))"
  have c2: "closed_model E m2" "xs_ServiceID ?x = [] \<or> xs_ServiceID ?x \<in> entity_ids m2"
    and obj: "\<And>n. mget [] objects n = [] \<or> mget [] objects n \<in> entity_ids m2"
    using 3 by (auto simp: closed_expansion_def mget_def simp del: set_map split: option.splits)
  have 4: "extends E m2 ?m3" by (rule add_discovered_extends [OF c2(1) x c2(2)])
  have 02: "extends E m0 m2" using 1(1) 2(3) 3 by (auto intro: extends_trans)
  have "rootID \<in> entity_ids ?m3" using extends_ids [OF 02 assms(3)] extends_ids [OF 4] by blast
  moreover have "mget [] objects n = [] \<or> mget [] objects n \<in> entity_ids ?m3" for n using obj [of n] extends_ids [OF 4] by blast
  ultimately have entry: "oe2_EntityID (cluster_event P ?x rootID objects n e) \<in> entity_ids ?m3" for n e
    by (rule cluster_event_entity)
  have "\<forall>e\<in>set ?es. oe2_EntityID e \<in> entity_ids ?m3 \<and> oe2_EvidenceID e \<in> E"
  proof
    fix e assume "e \<in> set ?es"
    then obtain nv where "e = (\<lambda>(n, v). cluster_event P ?x rootID objects n v) nv" unfolding set_map by blast
    then obtain n v where e: "e = cluster_event P ?x rootID objects n v" by (cases nv) simp
    have "oe2_EvidenceID e \<in> E" using assms(2) unfolding e by (simp add: cluster_event_def Let_def)
    with entry show "oe2_EntityID e \<in> entity_ids ?m3 \<and> oe2_EvidenceID e \<in> E" unfolding e by blast
  qed
  then have 5: "extends E ?m3 (foldl (\<lambda>m e. add_event e m) ?m3 ?es)" by (rule add_events_extend [OF extends_closed [OF 4]])
  have "expandOperationalFacts P i item facts rootID m0 = foldl (\<lambda>m e. add_event e m) ?m3 ?es"
    using False by (simp only: expandOperationalFacts_def Let_def dep pods prod.case if_False)
  then show ?thesis by (simp only:) (rule extends_trans [OF 02 extends_trans [OF 4 5]])
qed (use extends_refl [OF assms(1)] in \<open>simp add: expandOperationalFacts_def\<close>)

section \<open>The whole model\<close>

lemma firstNonEmpty_eq_Nil: "firstNonEmpty vs = [] \<longleftrightarrow> (\<forall>v\<in>set vs. TrimSpace v = [])"
  by (auto simp: firstNonEmpty_def find_None_iff split: option.split dest: find_SomeD)

lemma firstNonEmpty_trim: "TrimSpace (firstNonEmpty vs) = firstNonEmpty vs"
  by (simp add: firstNonEmpty_def split: option.split)

definition located :: "Incident \<Rightarrow> bool" where
  "located i = (TrimSpace (inc_Service i) \<noteq> [] \<or> TrimSpace (inc_Resource i) \<noteq> [])"

lemma add_observation_extends:
  assumes "closed_model E m0" "ev_ID item \<in> E" "located i"
  shows "extends E m0 (add_observation P i m0 item)"
proof -
  let ?kind = "evidenceEntityKind item" and ?name = "firstNonEmpty [ev_Resource item, ev_Service item, inc_Resource i, inc_Service i]"
  let ?id = "entityID ?kind (inc_Namespace i) ?name" and ?t = "evidenceTime item"
  have id: "?id \<noteq> []"
    using assms(3) by (auto simp: entityID_eq_Nil firstNonEmpty_trim firstNonEmpty_eq_Nil located_def)
  let ?m1 = "addEntity (inc_Namespace i) ?id ?kind (firstNonEmpty [ev_Service item, inc_Service i]) ?name (ev_ID item) ?t Map.empty m0"
  let ?m2 = "if owm_RootEntityID ?m1 \<noteq> ?id then addRelation (owm_RootEntityID ?m1) ?id ''observed_on'' (ev_ID item) ?m1 else ?m1"
  let ?m3 = "add_signals item ?id ?t ?m2"
  let ?m4 = "add_event (observation_event item ?id ?t) ?m3"
  let ?m5 = "set_state ?id (observedState P item) ?m4"
  note 1 = addEntity_extends [OF assms(1) disjI2 [OF assms(2)]]
  have e1: "extends E m0 ?m1" by (rule 1(1))
  have i1: "?id \<in> entity_ids ?m1" by (rule 1(2)) (rule id)
  have c1: "closed_model E ?m1" using e1 by (rule extends_closed)
  then have root: "owm_RootEntityID ?m1 \<in> entity_ids ?m1" unfolding closed_model_def by blast
  have e2: "extends E ?m1 ?m2"
    using addRelation_extends [OF c1, of "ev_ID item" "owm_RootEntityID ?m1" ?id] assms(2) root i1 extends_refl [OF c1] by simp
  have e3: "extends E ?m2 ?m3" by (rule add_signals_extends [OF extends_closed [OF e2] extends_ids [OF e2 i1] assms(2)])
  have i3: "?id \<in> entity_ids ?m3" by (rule extends_ids [OF e3 extends_ids [OF e2 i1]])
  have e4: "extends E ?m3 ?m4"
    by (rule add_event_extends [OF extends_closed [OF e3]]) (use i3 assms(2) in \<open>simp_all add: observation_event_def del: set_map\<close>)
  have e5: "extends E ?m4 ?m5" by (rule set_state_extends [OF extends_closed [OF e4] extends_ids [OF e4 i3]])
  have "owm_RootEntityID ?m5 \<in> entity_ids ?m5" using extends_closed [OF e5] unfolding closed_model_def by blast
  then have e6: "extends E ?m5 (expandOperationalFacts P i item (canonicalEvidenceFacts item) (owm_RootEntityID ?m5) ?m5)"
    by (rule expandOperationalFacts_extends [OF extends_closed [OF e5] assms(2)])
  have "add_observation P i m0 item = expandOperationalFacts P i item (canonicalEvidenceFacts item) (owm_RootEntityID ?m5) ?m5"
    by (simp only: add_observation_def Let_def)
  then show ?thesis using extends_trans [OF e1 extends_trans [OF e2 extends_trans [OF e3 extends_trans [OF e4 extends_trans [OF e5 e6]]]]] by simp
qed

lemma root_model_closed:
  assumes "located i"
  shows "closed_model E (root_model i now)"
proof -
  let ?id = "entityID ''service'' (inc_Namespace i) (root_name i)"
  have id: "?id \<noteq> []"
    using assms by (auto simp: entityID_eq_Nil root_name_def firstNonEmpty_trim firstNonEmpty_eq_Nil located_def)
  then show ?thesis
    by (simp add: root_model_def Let_def addEntity_def entity_at_def put_entity_def touch_entity_def zero_OperationalWorldModel_def
        zero_OperationalEntity_def closed_model_def closed_relations_def closed_observations_def)
qed

lemma graph_nodes_extend:
  assumes "closed_model E m"
  shows "extends E m (foldl (add_graph_node ns) m nodes)"
    and "n \<in> set nodes \<Longrightarrow> entityID (gn_Type n) ns (gn_ID n) = [] \<or> entityID (gn_Type n) ns (gn_ID n) \<in> entity_ids (foldl (add_graph_node ns) m nodes)"
proof -
  have step: "extends E m (add_graph_node ns m n)" if "closed_model E m" for m n
    unfolding add_graph_node_def Let_def by (rule addEntity_extends(1) [OF that]) simp
  have mem: "entityID (gn_Type n) ns (gn_ID n) = [] \<or> entityID (gn_Type n) ns (gn_ID n) \<in> entity_ids (add_graph_node ns m n)"
    if "closed_model E m" for m n
    unfolding add_graph_node_def Let_def using addEntity_extends(2) [OF that disjI1 [OF refl]] by blast
  show "extends E m (foldl (add_graph_node ns) m nodes)"
    by (rule foldl_extends [where Q = "\<lambda>_. True"]) (use assms step in auto)
  show "n \<in> set nodes \<Longrightarrow> entityID (gn_Type n) ns (gn_ID n) = [] \<or> entityID (gn_Type n) ns (gn_ID n) \<in> entity_ids (foldl (add_graph_node ns) m nodes)"
    using assms
  proof (induction nodes arbitrary: m)
    case (Cons a nodes)
    have rest: "extends E (add_graph_node ns m a) (foldl (add_graph_node ns) (add_graph_node ns m a) nodes)"
      by (rule foldl_extends [where Q = "\<lambda>_. True"]) (use extends_closed [OF step [OF Cons.prems(2)]] step in auto)
    show ?case
    proof (cases "n = a")
      case True
      then show ?thesis using mem [OF Cons.prems(2), of a] extends_ids [OF rest] by (simp del: set_map) blast
    next
      case False
      then show ?thesis using Cons.IH [OF _ extends_closed [OF step [OF Cons.prems(2)]]] Cons.prems(1) by simp
    qed
  qed simp
qed

lemma build_graph_extends:
  assumes "closed_model E m" "\<forall>e\<in>set (ig_Edges graph). ge_Source e \<in> set (node_ids graph) \<and> ge_Target e \<in> set (node_ids graph)"
  shows "extends E m (build_graph i graph m)"
proof -
  let ?ns = "inc_Namespace i" and ?m = "foldl (add_graph_node (inc_Namespace i)) m (ig_Nodes graph)"
  let ?tip = "\<lambda>a. entityID (graphNodeKind graph a) ?ns a"
  have nodes: "extends E m ?m" by (rule graph_nodes_extend(1) [OF assms(1)])
  have known: "?tip a = [] \<or> ?tip a \<in> entity_ids ?m" if "a \<in> set (node_ids graph)" for a
  proof -
    have "find (\<lambda>n. gn_ID n = a) (ig_Nodes graph) \<noteq> None" using that by (auto simp: find_None_iff)
    then obtain n where n: "find (\<lambda>n. gn_ID n = a) (ig_Nodes graph) = Some n" by blast
    then show ?thesis using find_SomeD [OF n] graph_nodes_extend(2) [OF assms(1), of n "ig_Nodes graph" ?ns] by (simp add: graphNodeKind_def)
  qed
  have "extends E ?m (foldl (add_graph_edge ?ns graph) ?m (ig_Edges graph))"
  proof (rule foldl_extends [where Q = "\<lambda>m'. entity_ids ?m \<subseteq> entity_ids m'"])
    fix m' e assume c: "closed_model E m'" "e \<in> set (ig_Edges graph)" "entity_ids ?m \<subseteq> entity_ids m'"
    have "?tip (ge_Source e) = [] \<or> ?tip (ge_Source e) \<in> entity_ids m'" "?tip (ge_Target e) = [] \<or> ?tip (ge_Target e) \<in> entity_ids m'"
      using known assms(2) c(2,3) by blast+
    then show "extends E m' (add_graph_edge ?ns graph m' e)"
      unfolding add_graph_edge_def by (intro addRelation_extends [OF c(1)]) simp_all
  next
    fix m1 m2 assume "entity_ids ?m \<subseteq> entity_ids m1" "extends E m1 m2"
    then show "entity_ids ?m \<subseteq> entity_ids m2" unfolding extends_def by blast
  qed (use extends_closed [OF nodes] in auto)
  with nodes show ?thesis unfolding build_graph_def by (rule extends_trans)
qed

lemma distinct_sort_key: "distinct (map f (sort_key g xs)) \<longleftrightarrow> distinct (map f xs)"
proof -
  have "mset (map f (sort_key g xs)) = mset (map f xs)" by simp
  then show ?thesis by (rule mset_eq_imp_distinct_iff)
qed

lemma sort_model_closed: "closed_model E (sort_model m) \<longleftrightarrow> closed_model E m"
  by (simp add: sort_model_def closed_model_def closed_relations_def closed_observations_def distinct_sort_key)


definition example_located :: Incident where
  "example_located = zero_Incident\<lparr>inc_ID := ''i1'', inc_Namespace := ''shop'', inc_Service := ''api''\<rparr>"


end
