(* ===== verification/Evidence_Contract.thy ===== *)
theory Evidence_Contract
  imports Runtime_Hash Grounding "HOL-Library.Sublist"
begin

text \<open>The contract of evidence records: \<^verbatim>\<open>internal/evidence/normalizer.go\<close> brings collected records
  into one representation with a stable identifier and bounded views; \<^verbatim>\<open>normalizeEvidence\<close> of
  \<^verbatim>\<open>agent/supervisor.go\<close> does the first part at the collection boundary of the agent;
  \<^verbatim>\<open>agent/evidence_requests.go\<close> bounds what a collector may be asked.  The digest of an identifier,
  the JSON parser of log lines and the JSON text of a value are parameters.  The process counters
  \<^verbatim>\<open>Normalize\<close> increments are not modelled.\<close>

section \<open>Facts\<close>

definition mergeFacts :: "any_value table list \<Rightarrow> any_value table" where
  "mergeFacts maps = foldl (++) Map.empty maps"

definition isEmptyFact :: "any_value \<Rightarrow> bool" where
  "isEmptyFact v = (case v of AnyNil \<Rightarrow> True | AString t \<Rightarrow> TrimSpace t = [] | _ \<Rightarrow> False)"

definition fill_facts :: "any_value table \<Rightarrow> any_value table \<Rightarrow> any_value table" where
  "fill_facts facts structured = (\<lambda>k. case structured k of None \<Rightarrow> facts k
     | Some v \<Rightarrow> (case facts k of None \<Rightarrow> Some v | Some current \<Rightarrow> if isEmptyFact current then Some v else Some current))"

definition enrichStructuredLogFacts ::
  "(string \<Rightarrow> any_value table option) \<Rightarrow> Evidence \<Rightarrow> any_value table \<Rightarrow> any_value table" where
  "enrichStructuredLogFacts P item facts =
     (let source = ToLower (TrimSpace (ev_Source item)); line = TrimSpace (ev_Summary item) in
      if source \<noteq> ''loki'' \<and> source \<noteq> ''log'' then facts
      else if \<not> HasPrefix line ''{'' then facts
      else case P line of None \<Rightarrow> facts | Some structured \<Rightarrow> if structured = Map.empty then facts else fill_facts facts structured)"

section \<open>The stable identifier\<close>

record stable_payload =
  sp_Source :: string
  sp_Kind :: string
  sp_Namespace :: string
  sp_Service :: string
  sp_Resource :: string
  sp_TraceID :: string
  sp_TemplateID :: string
  sp_Summary :: string
  sp_Facts :: "any_value table"

text \<open>The first half of the SHA-256 digest of the payload, in hexadecimal.\<close>

type_synonym id_digest = "stable_payload \<Rightarrow> string"

definition first_named :: "string \<Rightarrow> string \<Rightarrow> string" where
  "first_named a b = (if a \<noteq> [] then a else if b \<noteq> [] then b else ''unknown'')"

definition StableID :: "id_digest \<Rightarrow> Evidence \<Rightarrow> string" where
  "StableID D item =
     (let source = ToLower (TrimSpace (ev_Source item))
      in (if source = [] then ''unknown'' else source) @ ''-'' @
         D \<lparr>sp_Source = ev_Source item, sp_Kind = first_named (ev_Type item) (ev_Kind item), sp_Namespace = ev_Namespace item,
            sp_Service = ev_Service item, sp_Resource = ev_Resource item, sp_TraceID = ev_TraceID item,
            sp_TemplateID = ev_TemplateID item, sp_Summary = ev_Summary item, sp_Facts = ev_Facts item\<rparr>)"

section \<open>Normalisation\<close>

definition applyScope :: "Incident option \<Rightarrow> EvidenceRequest \<Rightarrow> Evidence \<Rightarrow> Evidence" where
  "applyScope incident request item = (case incident of None \<Rightarrow> item
     | Some i \<Rightarrow>
         let target = (case er_Targets request of
               [] \<Rightarrow> zero_ResourceRef\<lparr>ref_Namespace := inc_Namespace i, ref_Service := inc_Service i, ref_Resource := inc_Resource i\<rparr>
             | t # _ \<Rightarrow> t)
         in item\<lparr>ev_Namespace := (if ev_Namespace item = [] then ref_Namespace target else ev_Namespace item),
                 ev_Service := (if ev_Service item = [] then ref_Service target else ev_Service item),
                 ev_Resource := (if ev_Resource item = [] then ref_Resource target else ev_Resource item),
                 ev_WindowStart := (if IsZero (ev_WindowStart item) then er_WindowStart request else ev_WindowStart item),
                 ev_WindowEnd := (if IsZero (ev_WindowEnd item) then er_WindowEnd request else ev_WindowEnd item)\<rparr>)"

definition set_facts :: "any_value table \<Rightarrow> Evidence \<Rightarrow> Evidence" where
  "set_facts facts item = item\<lparr>ev_Facts := facts, ev_Content := facts, ev_Data := Map.empty\<rparr>"

definition fill_kind :: "Evidence \<Rightarrow> Evidence" where
  "fill_kind item = item\<lparr>ev_Type := (if ev_Type item = [] then ev_Kind item else ev_Type item),
     ev_Kind := (if ev_Kind item = [] then (if ev_Type item = [] then ev_Kind item else ev_Type item) else ev_Kind item)\<rparr>"

definition fill_times :: "Evidence \<Rightarrow> Evidence" where
  "fill_times item =
     (let t = (if IsZero (ev_Timestamp item) then ev_ObservedAt item else ev_Timestamp item)
      in item\<lparr>ev_Timestamp := t, ev_ObservedAt := (if IsZero (ev_ObservedAt item) then t else ev_ObservedAt item)\<rparr>)"

definition observe_now :: "time \<Rightarrow> Evidence \<Rightarrow> Evidence" where
  "observe_now now item = (if IsZero (ev_ObservedAt item) then item\<lparr>ev_ObservedAt := now, ev_Timestamp := now\<rparr> else item)"

definition normalize_item ::
  "(string \<Rightarrow> any_value table option) \<Rightarrow> id_digest \<Rightarrow> Incident option \<Rightarrow> EvidenceRequest \<Rightarrow> time \<Rightarrow> Evidence \<Rightarrow> Evidence" where
  "normalize_item P D incident request now item0 =
     (let facts = enrichStructuredLogFacts P item0 (mergeFacts [ev_Content item0, ev_Data item0, ev_Facts item0]);
          item = applyScope incident request (observe_now now (fill_times (fill_kind (set_facts facts item0))))
      in if TrimSpace (ev_ID item) = [] then item\<lparr>ev_ID := StableID D item\<rparr> else item)"

definition Normalize ::
  "(string \<Rightarrow> any_value table option) \<Rightarrow> id_digest \<Rightarrow> Incident option \<Rightarrow> EvidenceRequest \<Rightarrow> time \<Rightarrow> Evidence list \<Rightarrow> Evidence list" where
  "Normalize P D incident request now items = map (normalize_item P D incident request now) items"

text \<open>\<^verbatim>\<open>normalizeEvidence\<close>: the type and the kind are exchanged as above; the record takes the
  incident's scope and a fresh identifier whatever it had.\<close>

definition normalizeEvidence :: "id_digest \<Rightarrow> Incident \<Rightarrow> time \<Rightarrow> Evidence \<Rightarrow> Evidence" where
  "normalizeEvidence D i now item0 =
     (let e = set_facts (mergeFacts [ev_Content item0, ev_Data item0, ev_Facts item0]) (fill_times (fill_kind item0));
          e = e\<lparr>ev_Namespace := (if ev_Namespace e = [] then inc_Namespace i else ev_Namespace e),
                ev_Service := (if ev_Service e = [] then inc_Service i else ev_Service e),
                ev_Resource := (if ev_Resource e = [] then inc_Resource i else ev_Resource e),
                ev_CollectedAt := (if IsZero (ev_CollectedAt e) then now else ev_CollectedAt e),
                ev_Confidence := (if ev_Confidence e \<le> 0 \<or> ev_Confidence e > 1 then 1 else ev_Confidence e)\<rparr>
      in e\<lparr>ev_ID := StableID D e\<rparr>)"

definition normalizeCollectedEvidence :: "id_digest \<Rightarrow> Incident \<Rightarrow> time \<Rightarrow> Evidence list \<Rightarrow> Evidence list" where
  "normalizeCollectedEvidence D i now items = map (normalizeEvidence D i now) items"

section \<open>Bounded views\<close>

record EvidenceView =
  evw_ID :: "string"
  evw_Source :: "string"
  evw_Kind :: "string"
  evw_Namespace :: "string"
  evw_Service :: "string"
  evw_Resource :: "string"
  evw_ObservedAt :: "time"
  evw_Summary :: "string"
  evw_Facts :: "(string \<rightharpoonup> any_value)"
  evw_TruncatedFields :: "string list"
  evw_CausalNodeIDs :: "string list"
  evw_ContextRelevance :: "rat"
  evw_AnomalyScore :: "rat"
  evw_Signals :: "EvidenceSignal list"
  evw_QualityScore :: "rat"

definition truncateUTF8 :: "string \<Rightarrow> int \<Rightarrow> string" where
  "truncateUTF8 v maximumBytes = (if maximumBytes \<le> 0 \<or> int (length v) \<le> maximumBytes then v else take (nat maximumBytes) v)"

definition minPositive :: "int \<Rightarrow> int \<Rightarrow> int" where
  "minPositive a fallback = (if a > 0 \<and> a < fallback then a else fallback)"

text \<open>\<^verbatim>\<open>J\<close> is the JSON text of a value, \<^verbatim>\<open>None\<close> when it cannot be marshalled, and \<^verbatim>\<open>sprint\<close> the text
  \<^verbatim>\<open>fmt.Sprint\<close> produces.\<close>

record value_codec =
  vc_JSON :: "any_value \<Rightarrow> string option"
  vc_Sprint :: "any_value \<Rightarrow> string"
  vc_Views :: "EvidenceView list \<Rightarrow> int"

definition bounded_value :: "value_codec \<Rightarrow> int \<Rightarrow> any_value \<Rightarrow> any_value \<times> bool" where
  "bounded_value V perFieldBytes v = (case vc_JSON V v of
       None \<Rightarrow> (AString (vc_Sprint V v), False)
     | Some raw \<Rightarrow>
         if perFieldBytes > 0 \<and> int (length raw) > perFieldBytes
         then (AObject [(''bounded_preview'', AString (truncateUTF8 raw perFieldBytes)), (''original_bytes'', AInt (int (length raw)))], True)
         else (v, False))"

text \<open>The map is given by its keys in order; a field beyond the limit is dropped and reported.\<close>

definition fact_keys :: "any_value table \<Rightarrow> string list" where
  "fact_keys facts = sorted_list_of_set (dom facts)"

fun bound_fields ::
  "value_codec \<Rightarrow> int \<Rightarrow> int \<Rightarrow> any_value table \<Rightarrow> int \<Rightarrow> string list \<Rightarrow> any_value table \<Rightarrow> string list \<Rightarrow> any_value table \<times> string list" where
  "bound_fields V perFieldBytes maxFields facts index [] bounded truncated = (bounded, truncated)"
| "bound_fields V perFieldBytes maxFields facts index (key # keys) bounded truncated =
     (if maxFields > 0 \<and> index \<ge> maxFields
      then bound_fields V perFieldBytes maxFields facts (index + 1) keys bounded (truncated @ [key])
      else case bounded_value V perFieldBytes (mget AnyNil facts key) of (v, short) \<Rightarrow>
        bound_fields V perFieldBytes maxFields facts (index + 1) keys (bounded(key \<mapsto> v)) (truncated @ (if short then [key] else [])))"

definition boundedFacts :: "value_codec \<Rightarrow> any_value table \<Rightarrow> int \<Rightarrow> int \<Rightarrow> any_value table \<times> string list" where
  "boundedFacts V facts perFieldBytes maxFields =
     (if facts = Map.empty then (Map.empty, [])
      else bound_fields V perFieldBytes maxFields facts 0 (fact_keys facts) Map.empty [])"

definition View :: "value_codec \<Rightarrow> Evidence \<Rightarrow> int \<Rightarrow> EvidenceView" where
  "View V item perFieldBytes =
     (let (bounded, fields) = boundedFacts V (mergeFacts [ev_Content item, ev_Data item, ev_Facts item]) perFieldBytes 0
      in \<lparr>evw_ID = ev_ID item, evw_Source = ev_Source item, evw_Kind = first_named (ev_Type item) (ev_Kind item),
          evw_Namespace = ev_Namespace item, evw_Service = ev_Service item, evw_Resource = ev_Resource item,
          evw_ObservedAt = (if IsZero (ev_ObservedAt item) then ev_Timestamp item else ev_ObservedAt item),
          evw_Summary = truncateUTF8 (ev_Summary item) 512, evw_Facts = bounded,
          evw_TruncatedFields = foldl appendUnique (ev_TruncatedFields item) fields,
          evw_CausalNodeIDs = ev_CausalNodeIDs item, evw_ContextRelevance = ev_RelevanceScore item,
          evw_AnomalyScore = ev_AnomalyScore item, evw_Signals = [], evw_QualityScore = 0\<rparr>)"

definition reduce_view :: "value_codec \<Rightarrow> int \<Rightarrow> int \<Rightarrow> EvidenceView \<Rightarrow> EvidenceView" where
  "reduce_view V perFieldBytes maxFields view =
     (let (bounded, fields) = boundedFacts V (evw_Facts view) perFieldBytes maxFields
      in view\<lparr>evw_Facts := bounded, evw_TruncatedFields := foldl appendUnique (evw_TruncatedFields view) fields\<rparr>)"

definition fits :: "value_codec \<Rightarrow> int \<Rightarrow> EvidenceView list \<Rightarrow> bool" where
  "fits V maximumBytes views = (maximumBytes \<le> 0 \<or> vc_Views V views \<le> maximumBytes)"

fun collect_views :: "value_codec \<Rightarrow> int \<Rightarrow> int \<Rightarrow> int \<Rightarrow> EvidenceView list \<Rightarrow> Evidence list \<Rightarrow> EvidenceView list" where
  "collect_views V maximumBytes perFieldBytes maximumItems out [] = out"
| "collect_views V maximumBytes perFieldBytes maximumItems out (item # items) =
     (if int (length out) \<ge> maximumItems then out
      else let view = View V item perFieldBytes;
               small = reduce_view V (minPositive perFieldBytes 256) 3 view;
               least = reduce_view V (minPositive perFieldBytes 64) 1 small
           in if fits V maximumBytes (out @ [view]) then collect_views V maximumBytes perFieldBytes maximumItems (out @ [view]) items
              else if fits V maximumBytes (out @ [small]) then collect_views V maximumBytes perFieldBytes maximumItems (out @ [small]) items
              else if fits V maximumBytes (out @ [least]) then collect_views V maximumBytes perFieldBytes maximumItems (out @ [least]) items
              else collect_views V maximumBytes perFieldBytes maximumItems out items)"

definition Views :: "value_codec \<Rightarrow> Evidence list \<Rightarrow> int \<Rightarrow> int \<Rightarrow> int \<Rightarrow> EvidenceView list" where
  "Views V items maximumBytes perFieldBytes maximumItems =
     collect_views V maximumBytes (if perFieldBytes \<le> 0 then 2048 else perFieldBytes)
       (if maximumItems \<le> 0 then int (length items) else maximumItems) [] items"

section \<open>Normalisation is stable\<close>

lemma IsSpace_dash [simp]: "\<not> IsSpace CHR ''-''"
  by (simp add: IsSpace_def)

lemma TrimSpace_eq_Nil: "TrimSpace s = [] \<longleftrightarrow> (\<forall>c\<in>set s. IsSpace c)"
proof
  assume "TrimSpace s = []"
  then have "\<forall>c\<in>set (dropWhile IsSpace s). IsSpace c" by (simp add: TrimSpace_def dropWhile_eq_Nil_conv)
  then show "\<forall>c\<in>set s. IsSpace c" by (metis dropWhile_eq_Nil_conv hd_dropWhile hd_in_set)
next
  assume "\<forall>c\<in>set s. IsSpace c"
  then have "\<forall>c\<in>set (rev (dropWhile IsSpace s)). IsSpace c" by (auto dest: set_dropWhileD)
  then show "TrimSpace s = []" unfolding TrimSpace_def by (simp add: dropWhile_eq_Nil_conv)
qed

lemma StableID_named [simp]: "TrimSpace (StableID D item) \<noteq> []"
  by (auto simp: TrimSpace_eq_Nil StableID_def Let_def)

lemma fill_facts_idem: "fill_facts (fill_facts facts structured) structured = fill_facts facts structured"
  by (rule ext) (auto simp: fill_facts_def split: option.split)

lemma map_add_self [simp]: "m ++ m = m"
  by (rule ext) (simp add: map_add_def split: option.split)

lemma mergeFacts_normal [simp]: "mergeFacts [facts, Map.empty, facts] = facts"
  by (simp add: mergeFacts_def)

lemma enrich_idem:
  assumes "ev_Source item = ev_Source item'" "ev_Summary item = ev_Summary item'"
  shows "enrichStructuredLogFacts P item (enrichStructuredLogFacts P item' facts) = enrichStructuredLogFacts P item' facts"
  by (simp add: enrichStructuredLogFacts_def Let_def assms fill_facts_idem split: option.split)

lemma stage_source [simp]:
  "ev_Source (applyScope incident request e) = ev_Source e" "ev_Source (observe_now now e) = ev_Source e"
  "ev_Source (fill_times e) = ev_Source e" "ev_Source (fill_kind e) = ev_Source e" "ev_Source (set_facts facts e) = ev_Source e"
  by (simp_all add: applyScope_def Let_def observe_now_def fill_times_def fill_kind_def set_facts_def split: option.split)

lemma stage_summary [simp]:
  "ev_Summary (applyScope incident request e) = ev_Summary e" "ev_Summary (observe_now now e) = ev_Summary e"
  "ev_Summary (fill_times e) = ev_Summary e" "ev_Summary (fill_kind e) = ev_Summary e" "ev_Summary (set_facts facts e) = ev_Summary e"
  by (simp_all add: applyScope_def Let_def observe_now_def fill_times_def fill_kind_def set_facts_def split: option.split)

lemma stage_facts [simp]:
  "ev_Facts (applyScope incident request e) = ev_Facts e" "ev_Facts (observe_now now e) = ev_Facts e"
  "ev_Facts (fill_times e) = ev_Facts e" "ev_Facts (fill_kind e) = ev_Facts e" "ev_Facts (set_facts facts e) = facts"
  by (simp_all add: applyScope_def Let_def observe_now_def fill_times_def fill_kind_def set_facts_def split: option.split)

lemma stage_content [simp]:
  "ev_Content (applyScope incident request e) = ev_Content e" "ev_Content (observe_now now e) = ev_Content e"
  "ev_Content (fill_times e) = ev_Content e" "ev_Content (fill_kind e) = ev_Content e" "ev_Content (set_facts facts e) = facts"
  by (simp_all add: applyScope_def Let_def observe_now_def fill_times_def fill_kind_def set_facts_def split: option.split)

lemma stage_data [simp]:
  "ev_Data (applyScope incident request e) = ev_Data e" "ev_Data (observe_now now e) = ev_Data e"
  "ev_Data (fill_times e) = ev_Data e" "ev_Data (fill_kind e) = ev_Data e" "ev_Data (set_facts facts e) = Map.empty"
  by (simp_all add: applyScope_def Let_def observe_now_def fill_times_def fill_kind_def set_facts_def split: option.split)

lemma stage_id [simp]:
  "ev_ID (applyScope incident request e) = ev_ID e" "ev_ID (observe_now now e) = ev_ID e"
  "ev_ID (fill_times e) = ev_ID e" "ev_ID (fill_kind e) = ev_ID e" "ev_ID (set_facts facts e) = ev_ID e"
  by (simp_all add: applyScope_def Let_def observe_now_def fill_times_def fill_kind_def set_facts_def split: option.split)

lemma stage_kind [simp]:
  "ev_Type (applyScope incident request e) = ev_Type e" "ev_Kind (applyScope incident request e) = ev_Kind e"
  "ev_Type (observe_now now e) = ev_Type e" "ev_Kind (observe_now now e) = ev_Kind e"
  "ev_Type (fill_times e) = ev_Type e" "ev_Kind (fill_times e) = ev_Kind e"
  by (simp_all add: applyScope_def Let_def observe_now_def fill_times_def split: option.split)

lemma stage_times [simp]:
  "ev_Timestamp (applyScope incident request e) = ev_Timestamp e" "ev_ObservedAt (applyScope incident request e) = ev_ObservedAt e"
  by (simp_all add: applyScope_def Let_def split: option.split)

lemma fill_kind_stable: "ev_Type (fill_kind e) = [] \<longleftrightarrow> ev_Kind (fill_kind e) = []"
  by (simp add: fill_kind_def)

lemma fill_kind_id: "(ev_Type e = [] \<longleftrightarrow> ev_Kind e = []) \<Longrightarrow> fill_kind e = e"
  by (cases e) (auto simp: fill_kind_def)

lemma fill_times_stable: "ev_ObservedAt (fill_times e) = 0 \<longleftrightarrow> ev_Timestamp (fill_times e) = 0"
  by (simp add: fill_times_def IsZero_def Let_def)

lemma observed_now:
  assumes "now \<noteq> 0"
  shows "ev_ObservedAt (observe_now now (fill_times e)) \<noteq> 0" "ev_Timestamp (observe_now now (fill_times e)) \<noteq> 0"
  using assms fill_times_stable [of e] by (simp_all add: observe_now_def IsZero_def)

lemma applyScope_idem: "applyScope incident request (applyScope incident request e) = applyScope incident request e"
  by (cases incident) (simp_all add: applyScope_def Let_def IsZero_def)

lemma applyScope_with_ID: "applyScope incident request (e\<lparr>ev_ID := i\<rparr>) = (applyScope incident request e)\<lparr>ev_ID := i\<rparr>"
  by (cases incident) (simp_all add: applyScope_def Let_def)

definition scoped :: "(string \<Rightarrow> any_value table option) \<Rightarrow> Incident option \<Rightarrow> EvidenceRequest \<Rightarrow> time \<Rightarrow> Evidence \<Rightarrow> Evidence" where
  "scoped P incident request now item = applyScope incident request (observe_now now (fill_times (fill_kind
     (set_facts (enrichStructuredLogFacts P item (mergeFacts [ev_Content item, ev_Data item, ev_Facts item])) item))))"

lemma normalize_item_scoped: "normalize_item P D incident request now item =
    (if TrimSpace (ev_ID item) = [] then (scoped P incident request now item)\<lparr>ev_ID := StableID D (scoped P incident request now item)\<rparr>
     else scoped P incident request now item)"
  by (simp add: normalize_item_def scoped_def Let_def)

lemma normalize_item_fields:
  assumes "now \<noteq> 0" "n = normalize_item P D incident request now item"
  shows "ev_Source n = ev_Source item" "ev_Summary n = ev_Summary item" "ev_ObservedAt n \<noteq> 0" "ev_Timestamp n \<noteq> 0"
    "ev_Data n = Map.empty" "ev_Content n = ev_Facts n" "TrimSpace (ev_ID n) \<noteq> []"
    "ev_Facts n = enrichStructuredLogFacts P item (mergeFacts [ev_Content item, ev_Data item, ev_Facts item])"
    "ev_Type n = [] \<longleftrightarrow> ev_Kind n = []" "applyScope incident request n = n"
  unfolding assms(2) normalize_item_scoped
  by (simp_all add: scoped_def observed_now [OF assms(1)] fill_kind_stable applyScope_with_ID applyScope_idem)

lemma normalize_item_idem:
  assumes "now \<noteq> 0"
  shows "normalize_item P D incident request now' (normalize_item P D incident request now item) = normalize_item P D incident request now item"
proof -
  let ?n = "normalize_item P D incident request now item"
  note f = normalize_item_fields [OF assms, of ?n P D incident request item, OF refl]
  have "enrichStructuredLogFacts P ?n (mergeFacts [ev_Content ?n, ev_Data ?n, ev_Facts ?n]) = ev_Facts ?n"
    unfolding f(5,6) mergeFacts_normal unfolding f(8) by (rule enrich_idem [OF f(1,2)])
  then have facts: "set_facts (enrichStructuredLogFacts P ?n (mergeFacts [ev_Content ?n, ev_Data ?n, ev_Facts ?n])) ?n = ?n"
    using f(5,6) by (simp add: set_facts_def)
  have kind: "fill_kind ?n = ?n" by (rule fill_kind_id [OF f(9)])
  have times: "observe_now now' (fill_times ?n) = ?n" using f(3,4) by (simp add: observe_now_def fill_times_def IsZero_def)
  have "scoped P incident request now' ?n = ?n" unfolding scoped_def facts kind times f(10) ..
  then show ?thesis unfolding normalize_item_scoped [of P D incident request now' ?n] using f(7) by simp
qed

lemma StableID_timeless: "StableID D (e\<lparr>ev_Timestamp := a, ev_ObservedAt := b\<rparr>) = StableID D e"
  by (simp add: StableID_def)

lemma scoped_timeless:
  "\<exists>a b. scoped P incident request now' item = (scoped P incident request now item)\<lparr>ev_Timestamp := a, ev_ObservedAt := b\<rparr>"
proof -
  have observe: "\<exists>a b. observe_now now' e = (observe_now now e)\<lparr>ev_Timestamp := a, ev_ObservedAt := b\<rparr>" for e
    by (intro exI [of _ "ev_Timestamp (observe_now now' e)"] exI [of _ "ev_ObservedAt (observe_now now' e)"]) (simp add: observe_now_def)
  have scope: "applyScope incident request (e\<lparr>ev_Timestamp := a, ev_ObservedAt := b\<rparr>) =
      (applyScope incident request e)\<lparr>ev_Timestamp := a, ev_ObservedAt := b\<rparr>" for e a b
    by (cases incident) (simp_all add: applyScope_def Let_def)
  show ?thesis unfolding scoped_def using observe scope by metis
qed

lemma normalized_id_timeless:
  "ev_ID (normalize_item P D incident request now' item) = ev_ID (normalize_item P D incident request now item)"
proof -
  obtain a b where "scoped P incident request now' item = (scoped P incident request now item)\<lparr>ev_Timestamp := a, ev_ObservedAt := b\<rparr>"
    using scoped_timeless by blast
  then show ?thesis by (simp add: normalize_item_scoped StableID_timeless)
qed

text \<open>Normalising collected evidence is stable, and its identifiers do not depend on when it was
  collected.  A second pass over normalised records, at any later time, changes nothing; a record without an
  identifier gets the same one whenever it is normalised, so that a repeated observation is recognised
  as the old one.  The zero instant is not a clock reading.\<close>

theorem normalization_is_stable:
  assumes "now \<noteq> 0"
  shows "Normalize P D incident request now' (Normalize P D incident request now items) = Normalize P D incident request now items \<and>
    map ev_ID (Normalize P D incident request now' items) = map ev_ID (Normalize P D incident request now items)"
  using normalize_item_idem [OF assms] normalized_id_timeless by (simp add: Normalize_def comp_def)

lemma normalization_is_stable_witness:
  "Normalize (\<lambda>_. None) (\<lambda>_. ''d'') None zero_EvidenceRequest 7 (Normalize (\<lambda>_. None) (\<lambda>_. ''d'') None zero_EvidenceRequest 5 [zero_Evidence]) =
   Normalize (\<lambda>_. None) (\<lambda>_. ''d'') None zero_EvidenceRequest 5 [zero_Evidence]"
  using normalization_is_stable [of 5 "\<lambda>_. None" "\<lambda>_. ''d''" None zero_EvidenceRequest 7 "[zero_Evidence]"] by simp

section \<open>Views are bounded\<close>

lemma reduce_view_ID [simp]: "evw_ID (reduce_view V n k v) = evw_ID v"
  by (simp add: reduce_view_def split: prod.split)

lemma View_ID [simp]: "evw_ID (View V item n) = ev_ID item"
  by (simp add: View_def split: prod.split)

lemma collect_views_props:
  assumes "views = collect_views V maximumBytes perFieldBytes maximumItems out items" "int (length out) \<le> maximumItems"
    and "out = [] \<or> fits V maximumBytes out"
  shows "int (length views) \<le> maximumItems \<and> (views = [] \<or> fits V maximumBytes views) \<and>
    (\<exists>rest. map evw_ID views = map evw_ID out @ rest \<and> subseq rest (map ev_ID items))"
  using assms
proof (induction V maximumBytes perFieldBytes maximumItems out items rule: collect_views.induct)
  case (2 V maximumBytes perFieldBytes maximumItems out item items)
  show ?case
  proof (cases "maximumItems \<le> int (length out)")
    case True
    then show ?thesis using "2.prems" by simp
  next
    case False
    let ?view = "View V item perFieldBytes"
    let ?small = "reduce_view V (minPositive perFieldBytes 256) 3 ?view"
    let ?least = "reduce_view V (minPositive perFieldBytes 64) 1 ?small"
    have keep: ?thesis
      if "views = collect_views V maximumBytes perFieldBytes maximumItems (out @ [v]) items" "evw_ID v = ev_ID item"
        and "int (length views) \<le> maximumItems \<and> (views = [] \<or> fits V maximumBytes views) \<and>
          (\<exists>rest. map evw_ID views = map evw_ID (out @ [v]) @ rest \<and> subseq rest (map ev_ID items))" for v
      using that(2,3) by auto
    have len: "int (length (out @ [v])) \<le> maximumItems" for v :: EvidenceView using False by simp
    consider "fits V maximumBytes (out @ [?view])" | "\<not> fits V maximumBytes (out @ [?view])" "fits V maximumBytes (out @ [?small])"
      | "\<not> fits V maximumBytes (out @ [?view])" "\<not> fits V maximumBytes (out @ [?small])" "fits V maximumBytes (out @ [?least])"
      | "\<not> fits V maximumBytes (out @ [?view])" "\<not> fits V maximumBytes (out @ [?small])" "\<not> fits V maximumBytes (out @ [?least])"
      by blast
    then show ?thesis
    proof cases
      case 1
      then have eq: "views = collect_views V maximumBytes perFieldBytes maximumItems (out @ [?view]) items"
        using "2.prems"(1) False by (simp add: Let_def)
      show ?thesis using "2.IH"(1) [OF False refl refl refl 1 eq len] 1 by (intro keep [OF eq]) simp_all
    next
      case 2
      then have eq: "views = collect_views V maximumBytes perFieldBytes maximumItems (out @ [?small]) items"
        using "2.prems"(1) False by (simp add: Let_def)
      show ?thesis using "2.IH"(2) [OF False refl refl refl 2 eq len] 2 by (intro keep [OF eq]) simp_all
    next
      case 3
      then have eq: "views = collect_views V maximumBytes perFieldBytes maximumItems (out @ [?least]) items"
        using "2.prems"(1) False by (simp add: Let_def)
      show ?thesis using "2.IH"(3) [OF False refl refl refl 3 eq len] 3 by (intro keep [OF eq]) simp_all
    next
      case 4
      then have eq: "views = collect_views V maximumBytes perFieldBytes maximumItems out items"
        using "2.prems"(1) False by (simp add: Let_def)
      from "2.IH"(4) [OF False refl refl refl 4 eq "2.prems"(2,3)] show ?thesis by auto
    qed
  qed
qed auto

text \<open>The views of the evidence respect both bounds of the caller and never invent or reorder records:
  there are at most as many views as asked for, the JSON text of all of them together is within the byte limit,
  and their identifiers are a subsequence of the records' identifiers.  An oversized record is reduced, and
  at worst left out; it does not end the list.\<close>

theorem views_are_bounded:
  "int (length (Views V items maximumBytes perFieldBytes maximumItems)) \<le> (if maximumItems \<le> 0 then int (length items) else maximumItems) \<and>
   (Views V items maximumBytes perFieldBytes maximumItems = [] \<or> maximumBytes \<le> 0 \<or>
    vc_Views V (Views V items maximumBytes perFieldBytes maximumItems) \<le> maximumBytes) \<and>
   subseq (map evw_ID (Views V items maximumBytes perFieldBytes maximumItems)) (map ev_ID items)"
  using collect_views_props [OF refl, of "[]" "if maximumItems \<le> 0 then int (length items) else maximumItems" V maximumBytes
      "if perFieldBytes \<le> 0 then 2048 else perFieldBytes" items]
  by (auto simp: Views_def fits_def)

end
