(* ===== verification/Tool_Inputs.thy ===== *)
theory Tool_Inputs
  imports Brain_Common Skills
begin

text \<open>\<^verbatim>\<open>agent/brain_tools.go\<close>, part 1: the inputs of the tools as the model fills them, the services
  the tools may use, and what all handlers share.  A service is an optional function (a nil service is
  \<^verbatim>\<open>None\<close>) whose answer is optional (an error is \<^verbatim>\<open>None\<close>).  A stamp carries the clock reading and the
  identifiers a handler draws: one for the envelope, one for each object it creates.\<close>

section \<open>Inputs\<close>

record MemoryQuery =
  mq_IncidentID :: "string"
  mq_Agent :: "string"
  mq_Kind :: "MemoryKind"
  mq_Scope :: "MemoryScope"
  mq_Terms :: "string list"
  mq_Limit :: "int"

record HybridRetrievalQuery =
  hrq_IncidentID :: "string"
  hrq_Terms :: "string list"
  hrq_Understanding :: "HybridQueryUnderstanding"
  hrq_Features :: "IncidentFeatures"
  hrq_WorldModel :: "OperationalWorldModel option"
  hrq_Limit :: "int"

record brainEvidenceToolInput =
  bei_Intent :: "string"
  bei_ExpectedObservation :: "string list"
  bei_Targets :: "ResourceRef list"
  bei_HypothesisIDs :: "string list"
  bei_EvidenceNeed :: "string list"
  bei_SignalKinds :: "string list"
  bei_WindowMinutes :: "int"

record brainRetrievalToolInput =
  bri_Intent :: "string"
  bri_ExpectedObservation :: "string list"
  bri_HypothesisIDs :: "string list"
  bri_Terms :: "string list"
  bri_Limit :: "int"

record compareBrainHypothesesInput =
  cbh_Intent :: "string"
  cbh_ExpectedObservation :: "string list"
  cbh_HypothesisIDs :: "string list"

record validateBrainDiagnosisInput =
  vbd_Intent :: "string"
  vbd_ExpectedObservation :: "string list"
  vbd_DiagnosisID :: "string"

record submitIncidentUnderstandingInput =
  siu_Intent :: "string"
  siu_ExpectedObservation :: "string list"
  siu_Summary :: "string"
  siu_AffectedTargets :: "ResourceRef list"
  siu_PossibleDomains :: "string list"
  siu_Unknowns :: "string list"

record submitInvestigationPlanInput =
  sip_Intent :: "string"
  sip_ExpectedObservation :: "string list"
  sip_Objective :: "string"
  sip_Goals :: "string list"
  sip_StopConditions :: "string list"

record reviseInvestigationPlanInput =
  rip_Intent :: "string"
  rip_ExpectedObservation :: "string list"
  rip_ParentPlanID :: "string"
  rip_RevisionReason :: "string"
  rip_HypothesisIDs :: "string list"
  rip_Objective :: "string"
  rip_Goals :: "string list"
  rip_StopConditions :: "string list"

record proposedBrainHypothesis =
  pbh_Statement :: "string"
  pbh_Category :: "string"
  pbh_Mechanism :: "string"
  pbh_Targets :: "ResourceRef list"
  pbh_EvidenceNeeds :: "string list"
  pbh_FalsificationConditions :: "string list"
  pbh_ModelConfidence :: "rat"

record submitBrainHypothesesInput =
  sbh_Intent :: "string"
  sbh_ExpectedObservation :: "string list"
  sbh_Hypotheses :: "proposedBrainHypothesis list"

record reviseBrainHypothesisInput =
  rbh_Intent :: "string"
  rbh_ExpectedObservation :: "string list"
  rbh_ParentIDs :: "string list"
  rbh_Relation :: "HypothesisRelation"
  rbh_RevisionReason :: "string"
  rbh_Hypothesis :: "proposedBrainHypothesis"

record validateBrainHypothesisInput =
  vbh_Intent :: "string"
  vbh_ExpectedObservation :: "string list"
  vbh_HypothesisID :: "string"
  vbh_Attributions :: "EvidenceAttributionIntent list"
  vbh_MissingObservations :: "string list"
  vbh_ExpectedCausalNodeIDs :: "string list"

record commitBrainBeliefInput =
  cbb_Intent :: "string"
  cbb_ExpectedObservation :: "string list"
  cbb_HypothesisID :: "string"
  cbb_NewConfidence :: "rat"
  cbb_Direction :: "BeliefDirection"
  cbb_EvidenceIDs :: "string list"
  cbb_ValidationIDs :: "string list"
  cbb_RevisionRequired :: "bool"
  cbb_RevisionReason :: "string"

record submitBrainDiagnosisInput =
  sbd_Intent :: "string"
  sbd_ExpectedObservation :: "string list"
  sbd_HypothesisID :: "string"
  sbd_Statement :: "string"
  sbd_Category :: "string"
  sbd_Mechanism :: "string"
  sbd_Targets :: "ResourceRef list"
  sbd_ModelConfidence :: "rat"
  sbd_EvidenceIDs :: "string list"
  sbd_ValidationResultIDs :: "string list"

record requestBrainSkillsInput =
  rqs_Intent :: "string"
  rqs_ExpectedObservation :: "string list"
  rqs_SkillIDs :: "string list"
  rqs_Reason :: "string"
  rqs_Trigger :: "string"

record selectBrainCategoryInput =
  sbc_Intent :: "string"
  sbc_ExpectedObservation :: "string list"
  sbc_Category :: "BrainToolCategory"
  sbc_SkillIDs :: "string list"
  sbc_Reason :: "string"
  sbc_Trigger :: "string"

record advanceBrainPhaseInput =
  abp_Intent :: "string"
  abp_ExpectedObservation :: "string list"
  abp_NextPhase :: "BrainPhase"

record readBrainSkillReferenceInput =
  rsr_Intent :: "string"
  rsr_ExpectedObservation :: "string list"
  rsr_SkillID :: "string"
  rsr_Reference :: "string"

record finishBrainInput =
  fin_Intent :: "string"
  fin_ExpectedObservation :: "string list"
  fin_Reason :: "TerminationReason"
  fin_HypothesisID :: "string"
  fin_UnresolvedGaps :: "string list"

record submitBrainRecoveryInput =
  sbr_Intent :: "string"
  sbr_ExpectedObservation :: "string list"
  sbr_Goal :: "string"
  sbr_PrimaryAction :: "RecoveryOption"
  sbr_Alternatives :: "RecoveryOption list"
  sbr_ExpectedOutcome :: "string"
  sbr_RollbackPlan :: "string"
  sbr_VerificationPlan :: "string"
  sbr_RiskReason :: "string"

section \<open>Services\<close>

record brainRuntimeDeps =
  dep_Collectors :: "string \<Rightarrow> (Incident \<Rightarrow> EvidenceRequest \<Rightarrow> Evidence list option) option"
  dep_BrainRetrieval :: "(HybridRetrievalQuery \<Rightarrow> HybridRetrievalResult option) option"
  dep_Memory :: "(MemoryQuery \<Rightarrow> MemoryResult list option) option"
  dep_Knowledge :: "(string \<Rightarrow> CausalPattern list option) option"
  dep_BuildFeatures :: "(Incident \<Rightarrow> Evidence list \<Rightarrow> IncidentFeatures) option"
  dep_ExternalInventory :: "ResourceRef list"

record tool_stamp =
  ts_Now :: time
  ts_Action :: string
  ts_ID :: "nat \<Rightarrow> string"

type_synonym tool_answer = "string + brainCapabilityOutput"

text \<open>The state of the run: the one bound to the context, else the one registered for the incident.\<close>

definition has_incident :: "WorkflowState option \<Rightarrow> bool" where
  "has_incident s = (case s of None \<Rightarrow> False | Some t \<Rightarrow> ws_Incident t \<noteq> None)"

definition brainWorkflowState :: "WorkflowState option \<Rightarrow> (string \<Rightarrow> WorkflowState option) option \<Rightarrow> string \<Rightarrow> string + WorkflowState" where
  "brainWorkflowState bound registry incidentID =
     (if has_incident bound then Inr (the bound)
      else case registry of
          None \<Rightarrow> Inl ''brain workflow state is unavailable''
        | Some load \<Rightarrow> if incidentID \<noteq> [] \<and> has_incident (load incidentID) then Inr (the (load incidentID))
                       else Inl ''brain workflow state is unavailable'')"

definition with_incident :: "WorkflowState \<Rightarrow> (Incident \<Rightarrow> tool_answer) \<Rightarrow> tool_answer" where
  "with_incident s f = (case ws_Incident s of None \<Rightarrow> Inl ''brain workflow state is unavailable'' | Some i \<Rightarrow> f i)"

section \<open>What the handlers share\<close>

definition phase_text :: "BrainPhase \<Rightarrow> string" where
  "phase_text phase = (case phase of
       BrainPhaseIntake \<Rightarrow> ''INTAKE'' | BrainPhasePlanning \<Rightarrow> ''PLANNING'' | BrainPhaseInvestigation \<Rightarrow> ''INVESTIGATION''
     | BrainPhaseReflection \<Rightarrow> ''REFLECTION'' | BrainPhaseDiagnosis \<Rightarrow> ''DIAGNOSIS'' | BrainPhaseRecovery \<Rightarrow> ''RECOVERY''
     | BrainPhaseVerification \<Rightarrow> ''VERIFICATION'' | BrainPhaseEscalation \<Rightarrow> ''ESCALATION'' | BrainPhase_other t \<Rightarrow> t)"

definition category_text :: "BrainToolCategory \<Rightarrow> string" where
  "category_text c = (case c of
       BrainToolEvidence \<Rightarrow> ''EVIDENCE'' | BrainToolRetrieval \<Rightarrow> ''RETRIEVAL'' | BrainToolReasoning \<Rightarrow> ''REASONING''
     | BrainToolRecovery \<Rightarrow> ''RECOVERY'' | BrainToolControl \<Rightarrow> ''CONTROL'' | BrainToolCategory_other t \<Rightarrow> t)"

definition envelope_for ::
  "hasher \<Rightarrow> WorkflowState \<Rightarrow> Incident \<Rightarrow> tool_stamp \<Rightarrow> string \<Rightarrow> BrainToolCategory \<Rightarrow> AgentActionIntent \<Rightarrow> AgentActionEnvelope" where
  "envelope_for H s i st toolName category intent = newBrainEnvelope H s i (ts_Action st) toolName category intent"

definition refuse :: "hasher \<Rightarrow> AgentActionEnvelope \<Rightarrow> tool_stamp \<Rightarrow> string \<Rightarrow> string \<Rightarrow> tool_answer" where
  "refuse H env st code summary = Inr (constraintBrainOutput H env code summary (ts_Now st))"

definition unavailable :: "hasher \<Rightarrow> AgentActionEnvelope \<Rightarrow> tool_stamp \<Rightarrow> string \<Rightarrow> tool_answer" where
  "unavailable H env st summary = Inr (errorBrainOutput H env summary True (ts_Now st))"

definition phaseConstraintOutput ::
  "hasher \<Rightarrow> WorkflowState \<Rightarrow> Incident \<Rightarrow> tool_stamp \<Rightarrow> string \<Rightarrow> BrainToolCategory \<Rightarrow> string \<Rightarrow> BrainPhase \<Rightarrow> tool_answer" where
  "phaseConstraintOutput H s i st toolName category intent required =
     refuse H (envelope_for H s i st toolName category (zero_AgentActionIntent\<lparr>intent_Intent := intent\<rparr>)) st
       ''tool_incompatible_with_phase'' (toolName @ '' requires Brain phase '' @ phase_text required)"

text \<open>The handler goes on only when the constraint kernel does not deny the envelope.\<close>

definition authorized :: "hasher \<Rightarrow> WorkflowState \<Rightarrow> AgentActionEnvelope \<Rightarrow> tool_stamp \<Rightarrow> tool_answer \<Rightarrow> tool_answer" where
  "authorized H s env st go = (case authorizeBrainTool H s env (ts_Now st) of Some denied \<Rightarrow> Inr denied | None \<Rightarrow> go)"

definition validation_output ::
  "hasher \<Rightarrow> AgentActionEnvelope \<Rightarrow> tool_stamp \<Rightarrow> string \<Rightarrow> hash_input \<Rightarrow> string \<Rightarrow> string \<Rightarrow> bool \<Rightarrow> brainCapabilityOutput" where
  "validation_output H env st collector artifact status summary new =
     zero_brainCapabilityOutput\<lparr>out_Class := ToolResultValidation, out_Status := status, out_Summary := summary,
       out_NewInformation := new, out_Provenance := baseBrainProvenance H env collector artifact (ts_Now st)\<rparr>"

definition investigating :: "WorkflowState \<Rightarrow> bool" where
  "investigating s = (bs_BrainPhase s = BrainPhaseInvestigation \<or> bs_BrainPhase s = BrainPhaseReflection)"

definition availableBrainCategories :: "BrainToolCategory list" where
  "availableBrainCategories = [BrainToolEvidence, BrainToolRetrieval, BrainToolReasoning]"

definition admission_context :: "WorkflowState \<Rightarrow> Incident \<Rightarrow> brainRuntimeDeps \<Rightarrow> BrainToolCategory list \<Rightarrow> AdmissionContext" where
  "admission_context s i deps categories =
     \<lparr>ctx_Incident = Some i, ctx_Graph = bs_RuntimeTopology s, ctx_ExternalInventory = dep_ExternalInventory deps,
      ctx_AvailableToolCategories = categories\<rparr>"

lemmas tool_defs = with_incident_def authorized_def refuse_def unavailable_def phaseConstraintOutput_def validation_output_def

end
