(* ===== verification/Tool_Observation.thy ===== *)
theory Tool_Observation
  imports Tool_Inputs Evidence_Contract Topology
begin

text \<open>\<^verbatim>\<open>agent/brain_tools.go\<close>, part 2: the tools that read.  An evidence tool asks a collector for the
  targets in the incident's scope and normalises what it returns; the retrieval tools return bounded
  context that is no evidence.  The digest of an evidence identifier and the text of an evidence payload
  are the parameters of the theories they come from.\<close>

section \<open>Evidence\<close>

definition brainEvidenceToolName :: "string \<Rightarrow> string" where
  "brainEvidenceToolName source =
     (if source = ''metric'' then ''query_metrics'' else if source = ''log'' then ''search_logs''
      else if source = ''trace'' then ''query_traces'' else ''inspect_kubernetes'')"

definition scope_check :: "ResourceRef \<Rightarrow> AgentHypothesis" where
  "scope_check target = zero_AgentHypothesis\<lparr>hyp_ID := ''scope-check'', hyp_Statement := ''scope check'', hyp_Mechanism := ''scope check'',
     hyp_TargetRefs := [target], hyp_EvidenceNeeds := [''scope''], hyp_FalsificationConditions := [''scope invalid'']\<rparr>"

definition target_admitted :: "WorkflowState \<Rightarrow> Incident \<Rightarrow> brainRuntimeDeps \<Rightarrow> time \<Rightarrow> ResourceRef \<Rightarrow> bool" where
  "target_admitted s i deps now target =
     (adm_Decision (Admit (scope_check target) (admission_context s i deps [BrainToolEvidence]) now) = ''ADMITTED'')"

definition evidence_window :: "int \<Rightarrow> int" where
  "evidence_window minutes = (if minutes \<le> 0 \<or> minutes > 15 then 5 else minutes)"

definition evidence_request :: "string \<Rightarrow> brainEvidenceToolInput \<Rightarrow> time \<Rightarrow> EvidenceRequest" where
  "evidence_request source input now =
     \<lparr>er_Source = source, er_Targets = bei_Targets input, er_SignalKinds = bei_SignalKinds input,
      er_WindowStart = now - evidence_window (bei_WindowMinutes input) * Minute, er_WindowEnd = now,
      er_HypothesisIDs = bei_HypothesisIDs input\<rparr>"

definition evidence_intent :: "brainEvidenceToolInput \<Rightarrow> AgentActionIntent" where
  "evidence_intent input =
     \<lparr>intent_Intent = bei_Intent input, intent_TargetScope = bei_Targets input, intent_HypothesisIDs = bei_HypothesisIDs input,
      intent_EvidenceNeed = bei_EvidenceNeed input, intent_ExpectedObservation = bei_ExpectedObservation input\<rparr>"

definition collector_for :: "brainRuntimeDeps \<Rightarrow> string \<Rightarrow> (Incident \<Rightarrow> EvidenceRequest \<Rightarrow> Evidence list option) option" where
  "collector_for deps source =
     (if dep_Collectors deps source = None \<and> source = ''kubernetes'' then dep_Collectors deps ''topology'' else dep_Collectors deps source)"

definition evidence_output ::
  "hasher \<Rightarrow> Incident \<Rightarrow> string \<Rightarrow> string \<Rightarrow> EvidenceRequest \<Rightarrow> Evidence list \<Rightarrow> brainCapabilityOutput" where
  "evidence_output H i source toolName request items =
     zero_brainCapabilityOutput\<lparr>out_Class := (if items = [] then ToolResultValidation else ToolResultEvidence),
       out_Status := (if items = [] then ''NO_EVIDENCE'' else ''OK''),
       out_Summary := toolName @ '' returned '' @ Itoa (int (length items)) @ '' normalized evidence records'',
       out_NewInformation := hasNewEvidence (inc_Evidence i) items, out_Evidence := items,
       out_Provenance := zero_ToolResultProvenance\<lparr>prov_ToolName := toolName, prov_Collector := source,
         prov_TargetRefs := er_Targets request, prov_WindowStart := er_WindowStart request, prov_WindowEnd := er_WindowEnd request,
         prov_ObservedAt := er_WindowEnd request, prov_RawArtifactHash := H (HEvidence items),
         prov_ParserVersion := ''brain-evidence-v1'', prov_EvidenceIDs := evidenceIDs items\<rparr>\<rparr>"

definition runBrainEvidenceTool ::
  "hasher \<Rightarrow> id_digest \<Rightarrow> brainRuntimeDeps \<Rightarrow> WorkflowState \<Rightarrow> tool_stamp \<Rightarrow> string \<Rightarrow> string \<Rightarrow> brainEvidenceToolInput \<Rightarrow> tool_answer" where
  "runBrainEvidenceTool H D deps s st source toolName input = with_incident s (\<lambda>i.
     let env = envelope_for H s i st toolName BrainToolEvidence (evidence_intent input) in
     authorized H s env st
       (if \<not> list_all (target_admitted s i deps (ts_Now st)) (bei_Targets input)
        then refuse H env st ''target_scope_denied'' ''requested target is outside the Incident scope''
        else case collector_for deps source of
            None \<Rightarrow> unavailable H env st (source @ '' collector unavailable'')
          | Some collect \<Rightarrow>
              let request = evidence_request source input (ts_Now st) in
              (case collect (i\<lparr>inc_EvidenceStartAt := er_WindowStart request\<rparr>) request of
                 None \<Rightarrow> unavailable H env st (source @ '' collector failed'')
               | Some items \<Rightarrow> Inr (evidence_output H i source toolName request (normalizeCollectedEvidence D i (ts_Now st) items)))))"

definition ToUpperChar :: "char \<Rightarrow> char" where
  "ToUpperChar c = (let n = of_char c :: nat in if 97 \<le> n \<and> n \<le> 122 then char_of (n - 32) else c)"

definition capital :: "string \<Rightarrow> string" where
  "capital s = (case s of [] \<Rightarrow> [] | c # cs \<Rightarrow> ToUpperChar c # cs)"

definition resource_of_node :: "Incident \<Rightarrow> GraphNode \<Rightarrow> ResourceRef" where
  "resource_of_node i node =
     (let kind = TrimSpace (gn_Type node); kind = (if kind = [] then ''Service'' else capital kind);
          named = ToLower (gn_Type node) \<in> {''service'', ''database'', ''cache'', ''queue''};
          service = TrimSpace (mget [] (gn_Metadata node) ''service''); resource = TrimSpace (mget [] (gn_Metadata node) ''resource'')
      in \<lparr>ref_Namespace = inc_Namespace i, ref_Service = (if service \<noteq> [] then service else if named then gn_ID node else []),
          ref_Resource = (if resource \<noteq> [] then resource else gn_ID node), ref_Kind = kind\<rparr>)"

definition ref_key :: "ResourceRef \<Rightarrow> string" where
  "ref_key r = Join [ref_Namespace r, ref_Kind r, ref_Service r, ref_Resource r] [CHR 0x00]"

definition resourceRefsFromGraph :: "Incident option \<Rightarrow> IncidentGraph \<Rightarrow> ResourceRef list" where
  "resourceRefsFromGraph incident graph = (case incident of None \<Rightarrow> []
     | Some i \<Rightarrow> sort_key ref_key (dedup_by ref_key []
         (map (resource_of_node i) (filter (\<lambda>n. TrimSpace (gn_ID n) \<noteq> []) (ig_Nodes graph)))))"

definition discovered_output :: "hasher \<Rightarrow> (Evidence \<Rightarrow> string) \<Rightarrow> Incident \<Rightarrow> brainCapabilityOutput \<Rightarrow> brainCapabilityOutput" where
  "discovered_output H sprint i out =
     (let graph = BuildTopology sprint (Some i) (mergeEvidence (inc_Evidence i) (out_Evidence out));
          resources = resourceRefsFromGraph (Some i) graph
      in out\<lparr>out_Resources := resources, out_NewInformation := (out_NewInformation out \<or> resources \<noteq> []),
             out_Summary := ''discover_resources returned '' @ Itoa (int (length resources)) @ '' server-resolved resources and '' @
               Itoa (int (length (out_Evidence out))) @ '' normalized evidence records'',
             out_Provenance := (out_Provenance out)\<lparr>prov_RawArtifactHash := H (HResources resources (out_Evidence out))\<rparr>\<rparr>)"

definition runBrainDiscoverResources ::
  "hasher \<Rightarrow> id_digest \<Rightarrow> (Evidence \<Rightarrow> string) \<Rightarrow> brainRuntimeDeps \<Rightarrow> WorkflowState \<Rightarrow> tool_stamp \<Rightarrow> brainEvidenceToolInput \<Rightarrow> tool_answer" where
  "runBrainDiscoverResources H D sprint deps s st input =
     (case runBrainEvidenceTool H D deps s st ''kubernetes'' ''discover_resources'' input of
        Inl e \<Rightarrow> Inl e
      | Inr out \<Rightarrow>
          if out_Class out = ToolResultConstraint \<or> out_Class out = ToolResultError then Inr out
          else with_incident s (\<lambda>i. Inr (discovered_output H sprint i out)))"

section \<open>Retrieval\<close>

definition retrieval_intent :: "brainRetrievalToolInput \<Rightarrow> AgentActionIntent" where
  "retrieval_intent input = zero_AgentActionIntent\<lparr>intent_Intent := bri_Intent input,
     intent_HypothesisIDs := bri_HypothesisIDs input, intent_ExpectedObservation := bri_ExpectedObservation input\<rparr>"

definition retrieval_limit :: "int \<Rightarrow> int" where
  "retrieval_limit limit = (if limit \<le> 0 \<or> limit > 10 then 5 else limit)"

definition retrieval_features :: "brainRuntimeDeps \<Rightarrow> WorkflowState \<Rightarrow> Incident \<Rightarrow> IncidentFeatures" where
  "retrieval_features deps s i = (case dep_BuildFeatures deps of
       Some build \<Rightarrow> if if_Terms (bs_RuntimeFeatures s) = [] then build i (inc_Evidence i) else bs_RuntimeFeatures s
     | None \<Rightarrow> bs_RuntimeFeatures s)"

definition incident_query :: "brainRuntimeDeps \<Rightarrow> WorkflowState \<Rightarrow> Incident \<Rightarrow> brainRetrievalToolInput \<Rightarrow> time \<Rightarrow> HybridRetrievalQuery" where
  "incident_query deps s i input now =
     \<lparr>hrq_IncidentID = inc_ID i, hrq_Terms = uniqueBrainValues (bri_Terms input),
      hrq_Understanding = \<lparr>hqu_Entities = uniqueBrainValues [inc_Service i, inc_Resource i], hqu_Intent = bri_Intent input,
        hqu_Time = \<lparr>rtr_Start = inc_EvidenceStartAt i, rtr_End = now\<rparr>, hqu_Signals = uniqueBrainValues (bri_Terms input)\<rparr>,
      hrq_Features = retrieval_features deps s i, hrq_WorldModel = bs_WorldModel s, hrq_Limit = retrieval_limit (bri_Limit input)\<rparr>"

definition runBrainIncidentRetrieval :: "hasher \<Rightarrow> brainRuntimeDeps \<Rightarrow> WorkflowState \<Rightarrow> tool_stamp \<Rightarrow> brainRetrievalToolInput \<Rightarrow> tool_answer" where
  "runBrainIncidentRetrieval H deps s st input = with_incident s (\<lambda>i.
     let env = envelope_for H s i st ''retrieve_incidents'' BrainToolRetrieval (retrieval_intent input) in
     authorized H s env st (case dep_BrainRetrieval deps of
         None \<Rightarrow> unavailable H env st ''KubePilot hybrid retrieval unavailable''
       | Some retrieve \<Rightarrow> (case retrieve (incident_query deps s i input (ts_Now st)) of
             None \<Rightarrow> unavailable H env st ''hybrid historical retrieval failed''
           | Some result \<Rightarrow> Inr ((validation_output H env st ''hybrid-retrieval-v2'' (HRetrieval result)
                 (if hrr_Final result = [] then ''NO_RESULTS'' else ''OK'')
                 ''BM25, vector, graph, temporal, and metric historical context retrieved and fused; it is not current incident evidence''
                 (hrr_Final result \<noteq> []))
               \<lparr>out_HistoricalIncidents := hrr_Final result, out_HybridRetrieval := Some result\<rparr>))))"

definition runbook_query :: "Incident \<Rightarrow> brainRetrievalToolInput \<Rightarrow> MemoryQuery" where
  "runbook_query i input =
     (let terms = uniqueBrainValues (bri_Terms input)
      in \<lparr>mq_IncidentID = inc_ID i, mq_Agent = ''kubepilot-brain'', mq_Kind = MemoryProcedural,
          mq_Scope = \<lparr>ms_Cluster = inc_Cluster i, ms_Namespace = inc_Namespace i\<rparr>,
          mq_Terms = (if terms = [] then uniqueBrainValues [inc_Service i, inc_Resource i] else terms),
          mq_Limit = retrieval_limit (bri_Limit input)\<rparr>)"

definition runBrainRunbookRetrieval :: "hasher \<Rightarrow> brainRuntimeDeps \<Rightarrow> WorkflowState \<Rightarrow> tool_stamp \<Rightarrow> brainRetrievalToolInput \<Rightarrow> tool_answer" where
  "runBrainRunbookRetrieval H deps s st input = with_incident s (\<lambda>i.
     let env = envelope_for H s i st ''retrieve_runbooks'' BrainToolRetrieval (retrieval_intent input) in
     authorized H s env st (case dep_Memory deps of
         None \<Rightarrow> unavailable H env st ''runbook retrieval unavailable''
       | Some read \<Rightarrow> (case read (runbook_query i input) of
             None \<Rightarrow> unavailable H env st ''runbook retrieval failed''
           | Some items \<Rightarrow> Inr ((validation_output H env st ''procedural-memory'' (HMemory items)
                 (if items = [] then ''NO_RESULTS'' else ''OK'') ''procedural memory retrieved as non-factual context'' (items \<noteq> []))
               \<lparr>out_Memory := items\<rparr>))))"

definition causalPatternsForScope :: "CausalPattern list \<Rightarrow> string \<Rightarrow> string \<Rightarrow> int \<Rightarrow> CausalPattern list" where
  "causalPatternsForScope items cluster namespace limit =
     (let inside = filter (\<lambda>p. (cp_Cluster p = [] \<or> cp_Cluster p = cluster) \<and> (cp_Namespace p = [] \<or> cp_Namespace p = namespace)) items
      in if limit > 0 then take (nat limit) inside else inside)"

definition runBrainPatternRetrieval :: "hasher \<Rightarrow> brainRuntimeDeps \<Rightarrow> WorkflowState \<Rightarrow> tool_stamp \<Rightarrow> brainRetrievalToolInput \<Rightarrow> tool_answer" where
  "runBrainPatternRetrieval H deps s st input = with_incident s (\<lambda>i.
     let env = envelope_for H s i st ''retrieve_patterns'' BrainToolRetrieval (retrieval_intent input) in
     authorized H s env st (case dep_Knowledge deps of
         None \<Rightarrow> unavailable H env st ''causal pattern retrieval unavailable''
       | Some load \<Rightarrow> (case load ''active'' of
             None \<Rightarrow> unavailable H env st ''causal pattern retrieval failed''
           | Some loaded \<Rightarrow>
               let patterns = causalPatternsForScope loaded (inc_Cluster i) (inc_Namespace i) (bri_Limit input)
               in Inr ((validation_output H env st ''causal-pattern-store'' (HPatterns patterns) ''OK''
                    ''causal validation context retrieved; it is not current incident evidence'' (patterns \<noteq> []))
                  \<lparr>out_Patterns := patterns\<rparr>))))"

end
