(* ===== verification/Tool_Reasoning.thy ===== *)
theory Tool_Reasoning
  imports Tool_Inputs
begin

text \<open>\<^verbatim>\<open>agent/brain_tools.go\<close>, part 3: the tools that record reasoning.  None of them changes the state:
  each checks the phase, the constraint kernel and its own preconditions, and returns an output that the
  state updates of the turn apply.  The lemmas state what an accepted output certifies.\<close>

definition intent_on :: "string \<Rightarrow> string list \<Rightarrow> string list \<Rightarrow> AgentActionIntent" where
  "intent_on text hypothesisIDs expected =
     zero_AgentActionIntent\<lparr>intent_Intent := text, intent_HypothesisIDs := hypothesisIDs, intent_ExpectedObservation := expected\<rparr>"

section \<open>Understanding and plans\<close>

definition runBrainSubmitUnderstanding :: "hasher \<Rightarrow> WorkflowState \<Rightarrow> tool_stamp \<Rightarrow> submitIncidentUnderstandingInput \<Rightarrow> tool_answer" where
  "runBrainSubmitUnderstanding H s st input = with_incident s (\<lambda>i.
     if bs_BrainPhase s \<noteq> BrainPhaseIntake
     then phaseConstraintOutput H s i st ''submit_incident_understanding'' BrainToolControl (siu_Intent input) BrainPhaseIntake
     else let env = envelope_for H s i st ''submit_incident_understanding'' BrainToolControl
                      ((intent_on (siu_Intent input) [] (siu_ExpectedObservation input))\<lparr>intent_TargetScope := siu_AffectedTargets input\<rparr>);
              u = \<lparr>iu_Summary = siu_Summary input, iu_AffectedTargets = siu_AffectedTargets input,
                   iu_PossibleDomains = siu_PossibleDomains input, iu_Unknowns = siu_Unknowns input, iu_SubmittedAt = ts_Now st\<rparr>
          in authorized H s env st
               (Inr ((validation_output H env st ''incident-understanding-v1'' (HUnderstanding u) ''OK''
                        ''Incident understanding persisted without root-cause authority'' True)
                  \<lparr>out_Understanding := Some u\<rparr>)))"

definition plan_tasks :: "string \<Rightarrow> string list \<Rightarrow> string list \<Rightarrow> WorkerTask list" where
  "plan_tasks pre goals hypothesisIDs =
     map (\<lambda>(n, goal). zero_WorkerTask\<lparr>task_ID := pre @ Itoa (int n + 1), task_Question := goal, task_HypothesisIDs := hypothesisIDs\<rparr>)
       (enumerate 0 goals)"

definition runBrainSubmitPlan :: "hasher \<Rightarrow> WorkflowState \<Rightarrow> tool_stamp \<Rightarrow> submitInvestigationPlanInput \<Rightarrow> tool_answer" where
  "runBrainSubmitPlan H s st input = with_incident s (\<lambda>i.
     if bs_BrainPhase s \<noteq> BrainPhasePlanning
     then phaseConstraintOutput H s i st ''submit_investigation_plan'' BrainToolReasoning (sip_Intent input) BrainPhasePlanning
     else let env = envelope_for H s i st ''submit_investigation_plan'' BrainToolReasoning
                      (intent_on (sip_Intent input) [] (sip_ExpectedObservation input));
              plan = zero_InvestigationPlan\<lparr>ip_ID := ''plan:'' @ ts_ID st 0, ip_Version := 1, ip_Objective := sip_Objective input,
                ip_Tasks := plan_tasks ''brain-goal-'' (sip_Goals input) [], ip_StopConditions := sip_StopConditions input,
                ip_RoundLimit := bb_MaxTurns (bbs_Limits (bs_BrainBudget s)), ip_CreatedAt := ts_Now st, ip_UpdatedAt := ts_Now st\<rparr>
          in authorized H s env st
               (Inr ((validation_output H env st ''investigation-plan-v2'' (HPlan plan) ''OK'' ''versioned investigation plan persisted'' True)
                  \<lparr>out_InvestigationPlan := Some plan\<rparr>)))"

definition revised_plan :: "WorkflowState \<Rightarrow> InvestigationPlan \<Rightarrow> tool_stamp \<Rightarrow> reviseInvestigationPlanInput \<Rightarrow> InvestigationPlan" where
  "revised_plan s parent st input =
     (let version = ip_Version parent + 1
      in \<lparr>ip_ID = ''plan:'' @ ts_ID st 0, ip_Version = version, ip_ParentID = ip_ID parent,
          ip_RevisionReason = TrimSpace (rip_RevisionReason input), ip_Objective = rip_Objective input,
          ip_Tasks = plan_tasks (''brain-plan-'' @ Itoa version @ ''-goal-'') (rip_Goals input) (uniqueBrainValues (rip_HypothesisIDs input)),
          ip_StopConditions = rip_StopConditions input, ip_RoundLimit = bb_MaxTurns (bbs_Limits (bs_BrainBudget s)),
          ip_CreatedAt = ip_CreatedAt parent, ip_UpdatedAt = ts_Now st\<rparr>)"

definition known_hypothesis :: "WorkflowState \<Rightarrow> string \<Rightarrow> bool" where
  "known_hypothesis s hid = (findAgentHypothesis (bs_AgentHypotheses s) hid \<noteq> None)"

definition runBrainRevisePlan :: "hasher \<Rightarrow> WorkflowState \<Rightarrow> tool_stamp \<Rightarrow> reviseInvestigationPlanInput \<Rightarrow> tool_answer" where
  "runBrainRevisePlan H s st input = with_incident s (\<lambda>i.
     if \<not> investigating s
     then phaseConstraintOutput H s i st ''revise_investigation_plan'' BrainToolReasoning (rip_Intent input) BrainPhaseInvestigation
     else let ids = uniqueBrainValues (rip_HypothesisIDs input);
              env = envelope_for H s i st ''revise_investigation_plan'' BrainToolReasoning
                      (intent_on (rip_Intent input) ids (rip_ExpectedObservation input))
          in authorized H s env st (case bs_InvestigationPlan s of
               None \<Rightarrow> refuse H env st ''stale_investigation_plan'' ''plan revision must reference the current immutable parent plan''
             | Some parent \<Rightarrow>
                 if ip_ID parent = [] \<or> rip_ParentPlanID input \<noteq> ip_ID parent
                 then refuse H env st ''stale_investigation_plan'' ''plan revision must reference the current immutable parent plan''
                 else if \<not> list_all (known_hypothesis s) ids
                 then refuse H env st ''unknown_hypothesis_revision'' ''plan revision references an unknown hypothesis revision''
                 else if TrimSpace (rip_RevisionReason input) = []
                 then refuse H env st ''missing_plan_revision_reason'' ''plan revision reason is required''
                 else let plan = revised_plan s parent st input
                      in Inr ((validation_output H env st ''investigation-plan-v2'' (HPlan plan) ''OK''
                           ''immutable Investigation Plan revision persisted'' True)\<lparr>out_InvestigationPlan := Some plan\<rparr>)))"

section \<open>Hypotheses\<close>

definition admit_status :: "HypothesisAdmission \<Rightarrow> AgentHypothesis \<Rightarrow> AgentHypothesis" where
  "admit_status a h = (if adm_Decision a = ''ADMITTED'' then h\<lparr>hyp_Status := HypothesisAdmitted\<rparr> else h)"

definition proposed_hypothesis :: "WorkflowState \<Rightarrow> tool_stamp \<Rightarrow> string \<Rightarrow> string \<Rightarrow> int \<Rightarrow> proposedBrainHypothesis \<Rightarrow> AgentHypothesis" where
  "proposed_hypothesis s st hid lineage version p =
     zero_AgentHypothesis\<lparr>hyp_ID := hid, hyp_LineageID := lineage, hyp_Version := version, hyp_Relation := HypothesisRoot,
       hyp_Statement := pbh_Statement p, hyp_Category := pbh_Category p, hyp_Mechanism := pbh_Mechanism p,
       hyp_TargetRefs := pbh_Targets p, hyp_EvidenceNeeds := pbh_EvidenceNeeds p,
       hyp_FalsificationConditions := pbh_FalsificationConditions p, hyp_ModelConfidence := pbh_ModelConfidence p,
       hyp_Status := HypothesisProposed, hyp_CreatedByTurn := currentBrainTurnID s, hyp_CreatedAt := ts_Now st\<rparr>"

definition admit_proposal ::
  "WorkflowState \<Rightarrow> Incident \<Rightarrow> brainRuntimeDeps \<Rightarrow> tool_stamp \<Rightarrow> AgentHypothesis \<Rightarrow> AgentHypothesis \<times> HypothesisAdmission" where
  "admit_proposal s i deps st h =
     (let a = Admit h (admission_context s i deps availableBrainCategories) (ts_Now st) in (admit_status a h, a))"

definition submitted_hypotheses ::
  "WorkflowState \<Rightarrow> Incident \<Rightarrow> brainRuntimeDeps \<Rightarrow> tool_stamp \<Rightarrow> proposedBrainHypothesis list \<Rightarrow> (AgentHypothesis \<times> HypothesisAdmission) list" where
  "submitted_hypotheses s i deps st proposals =
     map (\<lambda>(n, p). let hid = ''hyp:'' @ ts_ID st n in admit_proposal s i deps st (proposed_hypothesis s st hid hid 1 p)) (enumerate 0 proposals)"

definition runBrainSubmitHypotheses :: "hasher \<Rightarrow> brainRuntimeDeps \<Rightarrow> WorkflowState \<Rightarrow> tool_stamp \<Rightarrow> submitBrainHypothesesInput \<Rightarrow> tool_answer" where
  "runBrainSubmitHypotheses H deps s st input = with_incident s (\<lambda>i.
     if \<not> investigating s
     then phaseConstraintOutput H s i st ''submit_hypotheses'' BrainToolReasoning (sbh_Intent input) BrainPhaseInvestigation
     else let env = envelope_for H s i st ''submit_hypotheses'' BrainToolReasoning (intent_on (sbh_Intent input) [] (sbh_ExpectedObservation input))
          in authorized H s env st
            (if bu_ActiveHypotheses (bbs_Usage (bs_BrainBudget s)) + int (length (sbh_Hypotheses input)) > bb_MaxActiveHypotheses (bbs_Limits (bs_BrainBudget s))
             then refuse H env st ''active_hypothesis_budget'' ''active hypothesis budget exceeded''
             else let pairs = submitted_hypotheses s i deps st (sbh_Hypotheses input); hyps = map fst pairs
                  in Inr ((validation_output H env st ''hypothesis-admission-v1'' (HHypotheses hyps) ''OK''
                       ''hypotheses received; admission checked structure, validation path, scope, permission, and safety only'' (hyps \<noteq> []))
                     \<lparr>out_Hypotheses := hyps, out_Admissions := map snd pairs\<rparr>)))"

text \<open>The next version of a lineage: one more than the largest version of the lineage, at least 1.\<close>

definition next_version :: "AgentHypothesis list \<Rightarrow> string \<Rightarrow> int" where
  "next_version items lineage =
     foldl (\<lambda>version h. if hyp_LineageID h = lineage \<and> hyp_Version h \<ge> version then hyp_Version h + 1 else version) 1 items"

definition hypothesis_revision :: "WorkflowState \<Rightarrow> tool_stamp \<Rightarrow> string \<Rightarrow> int \<Rightarrow> reviseBrainHypothesisInput \<Rightarrow> AgentHypothesis" where
  "hypothesis_revision s st lineage version input =
     (proposed_hypothesis s st (''hyp:'' @ ts_ID st 0) lineage version (rbh_Hypothesis input))
       \<lparr>hyp_ParentIDs := rbh_ParentIDs input, hyp_Relation := rbh_Relation input, hyp_RevisionReason := rbh_RevisionReason input\<rparr>"

definition runBrainReviseHypothesis :: "hasher \<Rightarrow> brainRuntimeDeps \<Rightarrow> WorkflowState \<Rightarrow> tool_stamp \<Rightarrow> reviseBrainHypothesisInput \<Rightarrow> tool_answer" where
  "runBrainReviseHypothesis H deps s st input = with_incident s (\<lambda>i.
     if \<not> investigating s
     then phaseConstraintOutput H s i st ''revise_hypothesis'' BrainToolReasoning (rbh_Intent input) BrainPhaseInvestigation
     else let env = envelope_for H s i st ''revise_hypothesis'' BrainToolReasoning
                      (intent_on (rbh_Intent input) (rbh_ParentIDs input) (rbh_ExpectedObservation input))
          in authorized H s env st
            (if \<not> list_all (known_hypothesis s) (rbh_ParentIDs input)
             then refuse H env st ''unknown_parent_revision'' ''hypothesis parent revision does not exist''
             else case List.map_filter (findAgentHypothesis (bs_AgentHypotheses s)) (rbh_ParentIDs input) of
                 [] \<Rightarrow> Inl ''index out of range''
               | parent # _ \<Rightarrow>
                   let lineage = hyp_LineageID parent; version = next_version (bs_AgentHypotheses s) lineage in
                   if version > bb_MaxRevisionsPerLineage (bbs_Limits (bs_BrainBudget s)) + 1
                   then refuse H env st ''lineage_revision_budget'' ''hypothesis lineage revision budget exceeded''
                   else let (h, a) = admit_proposal s i deps st (hypothesis_revision s st lineage version input)
                        in Inr ((validation_output H env st ''hypothesis-lineage-v1'' (HHypothesis h) ''OK'' ''immutable hypothesis revision created'' True)
                             \<lparr>out_Hypotheses := [h], out_Admissions := [a]\<rparr>)))"

section \<open>Grounding\<close>

definition serverBoundEvidenceIDs :: "WorkflowState \<Rightarrow> string \<Rightarrow> string list" where
  "serverBoundEvidenceIDs s hid =
     (if hid = [] then []
      else uniqueBrainValues (concat (map (\<lambda>x. prov_EvidenceIDs (trr_Provenance (bte_Result x)))
        (filter (\<lambda>x. trr_Class (bte_Result x) = ToolResultEvidence \<and> hid \<in> set (intent_HypothesisIDs (env_Intent (bte_Envelope x))))
           (bs_ToolExecutions s)))))"

text \<open>The needs of the hypothesis by their normalised text; the last of equal ones is kept.\<close>

definition wanted_needs :: "AgentHypothesis \<Rightarrow> string table" where
  "wanted_needs h = map_of (rev (map (\<lambda>need. (ToLower (TrimSpace need), need)) (hyp_EvidenceNeeds h)))"

definition serverFulfilledEvidenceNeeds :: "WorkflowState \<Rightarrow> AgentHypothesis \<Rightarrow> string list \<Rightarrow> string list" where
  "serverFulfilledEvidenceNeeds s h supportingIDs =
     uniqueBrainValues (concat (map (\<lambda>x. List.map_filter (\<lambda>declared. wanted_needs h (ToLower (TrimSpace declared)))
         (intent_EvidenceNeed (env_Intent (bte_Envelope x))))
       (filter (\<lambda>x. trr_Class (bte_Result x) = ToolResultEvidence \<and> hyp_ID h \<in> set (intent_HypothesisIDs (env_Intent (bte_Envelope x))) \<and>
           list_ex (\<lambda>i. i \<in> set supportingIDs) (prov_EvidenceIDs (trr_Provenance (bte_Result x))))
         (bs_ToolExecutions s))))"

definition serverValidatedCausalNodes :: "Evidence list \<Rightarrow> string list \<Rightarrow> string list \<Rightarrow> string list" where
  "serverValidatedCausalNodes evidence supportingIDs requested =
     uniqueBrainValues (filter (\<lambda>node. list_ex (\<lambda>item. ev_ID item \<in> set supportingIDs \<and> node \<in> set (ev_CausalNodeIDs item)) evidence) requested)"

definition grounding_input ::
  "WorkflowState \<Rightarrow> Incident \<Rightarrow> AgentHypothesis \<Rightarrow> HypothesisAdmission \<Rightarrow> HypothesisEvidenceAttribution list \<Rightarrow> tool_stamp
     \<Rightarrow> validateBrainHypothesisInput \<Rightarrow> ValidationInput" where
  "grounding_input s i h a attributions st input =
     (let supporting = AttributedEvidenceIDs attributions EvidenceSupports
      in \<lparr>vi_Attributions = attributions, vi_FulfilledEvidenceNeeds = serverFulfilledEvidenceNeeds s h supporting,
          vi_MissingObservations = vbh_MissingObservations input,
          vi_ExpectedCausalNodeIDs = serverValidatedCausalNodes (inc_Evidence i) supporting (vbh_ExpectedCausalNodeIDs input),
          vi_CausalClaim = (TrimSpace (hyp_Mechanism h) \<noteq> []), vi_TargetScopeDecisions = adm_ResourceScope a,
          vi_WindowStart = inc_EvidenceStartAt i, vi_WindowEnd = ts_Now st\<rparr>)"

definition is_admitted :: "HypothesisAdmission option \<Rightarrow> bool" where
  "is_admitted a = (case a of None \<Rightarrow> False | Some x \<Rightarrow> adm_Decision x = ''ADMITTED'')"

text \<open>The wording of an attribution error is the parameter \<^verbatim>\<open>wording\<close>.\<close>

definition grounded_output ::
  "hasher \<Rightarrow> WorkflowState \<Rightarrow> Incident \<Rightarrow> AgentHypothesis \<Rightarrow> HypothesisAdmission \<Rightarrow> HypothesisEvidenceAttribution list \<Rightarrow> tool_stamp
     \<Rightarrow> AgentActionEnvelope \<Rightarrow> validateBrainHypothesisInput \<Rightarrow> brainCapabilityOutput" where
  "grounded_output H s i h a attributions st env input =
     (let previous = findHypothesisGrounding (bs_HypothesisGroundings s) (hyp_ID h);
          (g, delta) = Grounder_Validate H h (inc_Evidence i) (grounding_input s i h a attributions st input) previous (ts_Now st)
      in (validation_output H env st ''hypothesis-grounding-v2'' (HGrounding g attributions) ''OK''
            ''explicit Evidence attribution persisted and server grounding calculated from current cited IDs''
            (gd_EvidenceChange delta \<noteq> [] \<or> (case previous of None \<Rightarrow> True | Some p \<Rightarrow> gr_Level p \<noteq> gr_Level g)))
          \<lparr>out_EvidenceAttributions := attributions, out_Grounding := Some g, out_GroundingDelta := Some delta\<rparr>)"

definition runBrainValidateHypothesis ::
  "hasher \<Rightarrow> (attribution_error \<Rightarrow> string) \<Rightarrow> WorkflowState \<Rightarrow> tool_stamp \<Rightarrow> validateBrainHypothesisInput \<Rightarrow> tool_answer" where
  "runBrainValidateHypothesis H wording s st input = with_incident s (\<lambda>i.
     if \<not> investigating s
     then phaseConstraintOutput H s i st ''validate_hypothesis'' BrainToolReasoning (vbh_Intent input) BrainPhaseInvestigation
     else let env = envelope_for H s i st ''validate_hypothesis'' BrainToolReasoning
                      (intent_on (vbh_Intent input) [vbh_HypothesisID input] (vbh_ExpectedObservation input))
          in authorized H s env st (case findAgentHypothesis (bs_AgentHypotheses s) (vbh_HypothesisID input) of
               None \<Rightarrow> refuse H env st ''unknown_hypothesis_revision'' ''hypothesis revision does not exist''
             | Some h \<Rightarrow>
                 if \<not> is_admitted (findHypothesisAdmission (bs_HypothesisAdmissions s) (hyp_ID h))
                 then refuse H env st ''hypothesis_not_admitted'' ''hypothesis is not admitted for validation''
                 else (case ValidateEvidenceAttributions H (hyp_ID h) (currentBrainTurnID s) (inc_Evidence i) (vbh_Attributions input) (ts_Now st) of
                         Inl e \<Rightarrow> refuse H env st ''invalid_evidence_attribution'' (wording e)
                       | Inr attributions \<Rightarrow>
                           if \<not> list_all (\<lambda>x. x \<in> set (map att_EvidenceID attributions)) (serverBoundEvidenceIDs s (hyp_ID h))
                           then refuse H env st ''unattributed_bound_evidence''
                             ''every current Evidence record collected for this hypothesis must be attributed as SUPPORT, CONTRADICT, or NEUTRAL''
                           else Inr (grounded_output H s i h (the (findHypothesisAdmission (bs_HypothesisAdmissions s) (hyp_ID h)))
                                       attributions st env input))))"

definition comparison_of :: "HypothesisGrounding \<Rightarrow> string \<Rightarrow> HypothesisComparison" where
  "comparison_of g hid = \<lparr>hc_HypothesisRevisionID = hid, hc_Level = gr_Level g, hc_Evidence = gr_Evidence g, hc_Coverage = gr_Coverage g,
     hc_MissingObservations = gr_MissingObservations g, hc_EvidenceSnapshotHash = gr_EvidenceSnapshotHash g\<rparr>"

text \<open>The first hypothesis that is unknown or not grounded decides the refusal.\<close>

fun comparisons :: "WorkflowState \<Rightarrow> string list \<Rightarrow> (string \<times> string) + HypothesisComparison list" where
  "comparisons s [] = Inr []"
| "comparisons s (hid # rest) =
     (if \<not> known_hypothesis s hid then Inl (''unknown_hypothesis_revision'', ''comparison references an unknown hypothesis revision'')
      else case findHypothesisGrounding (bs_HypothesisGroundings s) hid of
          None \<Rightarrow> Inl (''comparison_requires_validation'', ''every compared hypothesis must have a validation result'')
        | Some g \<Rightarrow> map_sum (\<lambda>e. e) ((#) (comparison_of g hid)) (comparisons s rest))"

definition runBrainCompareHypotheses :: "hasher \<Rightarrow> WorkflowState \<Rightarrow> tool_stamp \<Rightarrow> compareBrainHypothesesInput \<Rightarrow> tool_answer" where
  "runBrainCompareHypotheses H s st input = with_incident s (\<lambda>i.
     if \<not> investigating s
     then phaseConstraintOutput H s i st ''compare_hypotheses'' BrainToolReasoning (cbh_Intent input) BrainPhaseInvestigation
     else let ids = uniqueBrainValues (cbh_HypothesisIDs input);
              env = envelope_for H s i st ''compare_hypotheses'' BrainToolReasoning (intent_on (cbh_Intent input) ids (cbh_ExpectedObservation input))
          in authorized H s env st
            (if length ids < 2 then refuse H env st ''comparison_requires_competitors'' ''at least two distinct hypothesis revisions are required''
             else case comparisons s ids of
                 Inl (code, reason) \<Rightarrow> refuse H env st code reason
               | Inr cs \<Rightarrow> Inr ((validation_output H env st ''hypothesis-comparison-v1'' (HComparisons cs) ''OK''
                     ''grounding obligations compared without ranking or selecting a diagnosis'' True)\<lparr>out_Comparisons := cs\<rparr>)))"

section \<open>Belief\<close>

definition current_validation :: "WorkflowState \<Rightarrow> string \<Rightarrow> string \<Rightarrow> bool" where
  "current_validation s hid vid = list_ex (\<lambda>g. gr_HypothesisRevisionID g = hid \<and> gr_EvidenceSnapshotHash g = bs_EvidenceSnapshotHash s \<and> gr_ID g = vid)
     (bs_HypothesisGroundings s)"

definition belief_refusal :: "WorkflowState \<Rightarrow> Incident \<Rightarrow> AgentHypothesis \<Rightarrow> commitBrainBeliefInput \<Rightarrow> (string \<times> string) option" where
  "belief_refusal s i h input =
     (if cbb_NewConfidence input = hyp_ModelConfidence h
      then Some (''belief_delta_no_change'', ''reflection must change the subjective confidence or create a new hypothesis revision'')
      else if (cbb_Direction input = BeliefIncrease \<and> cbb_NewConfidence input < hyp_ModelConfidence h) \<or>
              (cbb_Direction input = BeliefDecrease \<and> cbb_NewConfidence input > hyp_ModelConfidence h)
      then Some (''belief_direction_mismatch'', ''belief direction must match the declared confidence change'')
      else if cbb_EvidenceIDs input = [] \<and> cbb_ValidationIDs input = []
      then Some (''belief_delta_ungrounded'', ''belief change must cite current Evidence or a hypothesis validation result'')
      else if \<not> list_all (\<lambda>x. x \<in> set (map ev_ID (inc_Evidence i))) (cbb_EvidenceIDs input)
      then Some (''belief_evidence_not_current'', ''belief change references Evidence outside the current Incident snapshot'')
      else if \<not> list_all (current_validation s (cbb_HypothesisID input)) (cbb_ValidationIDs input)
      then Some (''belief_validation_not_current'', ''belief change references a validation outside this hypothesis and Evidence snapshot'')
      else None)"

definition belief_delta :: "AgentHypothesis \<Rightarrow> tool_stamp \<Rightarrow> commitBrainBeliefInput \<Rightarrow> BeliefDelta" where
  "belief_delta h st input =
     \<lparr>bd_HypothesisRevisionID = cbb_HypothesisID input, bd_PreviousConfidence = hyp_ModelConfidence h,
      bd_NewConfidence = cbb_NewConfidence input, bd_Direction = cbb_Direction input, bd_EvidenceIDs = cbb_EvidenceIDs input,
      bd_ValidationResultIDs = cbb_ValidationIDs input, bd_RevisionRequired = cbb_RevisionRequired input,
      bd_RevisionReason = cbb_RevisionReason input, bd_Committed = False, bd_OccurredAt = ts_Now st\<rparr>"

definition runBrainCommitBelief :: "hasher \<Rightarrow> (belief_error \<Rightarrow> string) \<Rightarrow> WorkflowState \<Rightarrow> tool_stamp \<Rightarrow> commitBrainBeliefInput \<Rightarrow> tool_answer" where
  "runBrainCommitBelief H wording s st input = with_incident s (\<lambda>i.
     if bs_BrainPhase s \<noteq> BrainPhaseReflection
     then phaseConstraintOutput H s i st ''commit_belief_delta'' BrainToolReasoning (cbb_Intent input) BrainPhaseReflection
     else let env = envelope_for H s i st ''commit_belief_delta'' BrainToolReasoning
                      (intent_on (cbb_Intent input) [cbb_HypothesisID input] (cbb_ExpectedObservation input))
          in authorized H s env st (case findAgentHypothesis (bs_AgentHypotheses s) (cbb_HypothesisID input) of
               None \<Rightarrow> refuse H env st ''unknown_hypothesis_revision'' ''hypothesis revision does not exist''
             | Some h \<Rightarrow> (case belief_refusal s i h input of
                   Some (code, reason) \<Rightarrow> refuse H env st code reason
                 | None \<Rightarrow> (case CommitBelief h (belief_delta h st input) of
                       Inl e \<Rightarrow> refuse H env st ''belief_commit_requires_revision'' (wording e)
                     | Inr _ \<Rightarrow>
                         let delta = (belief_delta h st input)\<lparr>bd_Committed := True\<rparr>
                         in Inr ((validation_output H env st ''belief-commit-v1'' (HBelief delta) ''OK'' ''subjective belief delta accepted''
                                (bd_PreviousConfidence delta \<noteq> bd_NewConfidence delta))\<lparr>out_BeliefDelta := Some delta\<rparr>)))))"

end
