(* ===== verification/Tool_Control.thy ===== *)
theory Tool_Control
  imports Tool_Observation Tool_Reasoning
begin

text \<open>\<^verbatim>\<open>agent/brain_tools.go\<close>, part 4: the diagnosis, the recovery plan, the skills, the phases and the
  end of the loop, and the registry that binds each tool name to its handler.  The wordings of the errors
  of other packages are parameters.\<close>

section \<open>Diagnosis\<close>

definition same_semantics :: "hasher \<Rightarrow> string \<Rightarrow> string \<Rightarrow> string \<Rightarrow> ResourceRef list \<Rightarrow> AgentHypothesis \<Rightarrow> bool" where
  "same_semantics H statement category mechanism targets h =
     (statement = hyp_Statement h \<and> category = hyp_Category h \<and> mechanism = hyp_Mechanism h \<and>
      H (HTargets targets) = H (HTargets (hyp_TargetRefs h)))"

definition cites_grounding :: "WorkflowState \<Rightarrow> string \<Rightarrow> string list \<Rightarrow> bool" where
  "cites_grounding s hid validationIDs = (case findHypothesisGrounding (bs_HypothesisGroundings s) hid of
       None \<Rightarrow> False | Some g \<Rightarrow> gr_ID g \<in> set validationIDs)"

definition diagnosis_refusal :: "hasher \<Rightarrow> WorkflowState \<Rightarrow> Incident \<Rightarrow> submitBrainDiagnosisInput \<Rightarrow> AgentHypothesis \<Rightarrow> (string \<times> string) option" where
  "diagnosis_refusal H s i input h =
     (if \<not> same_semantics H (sbd_Statement input) (sbd_Category input) (sbd_Mechanism input) (sbd_Targets input) h
      then Some (''diagnosis_requires_hypothesis_revision'', ''diagnosis semantics must match the selected immutable hypothesis revision'')
      else if sbd_ModelConfidence input \<noteq> hyp_ModelConfidence h
      then Some (''diagnosis_requires_belief_commit'', ''diagnosis confidence must match the latest committed hypothesis belief'')
      else if \<not> cites_grounding s (sbd_HypothesisID input) (sbd_ValidationResultIDs input)
      then Some (''diagnosis_missing_current_validation'', ''diagnosis must cite the current hypothesis grounding result'')
      else if \<not> list_all (\<lambda>x. x \<in> set (map ev_ID (inc_Evidence i))) (sbd_EvidenceIDs input)
      then Some (''diagnosis_unknown_evidence'', ''diagnosis cited an evidence ID that is not in the current Runtime snapshot'')
      else None)"

definition submitted_diagnosis :: "WorkflowState \<Rightarrow> tool_stamp \<Rightarrow> submitBrainDiagnosisInput \<Rightarrow> AgentDiagnosis" where
  "submitted_diagnosis s st input =
     \<lparr>diag_ID = ''diagnosis:'' @ ts_ID st 0, diag_HypothesisRevisionID = sbd_HypothesisID input, diag_Statement = sbd_Statement input,
      diag_Category = sbd_Category input, diag_Mechanism = sbd_Mechanism input, diag_TargetRefs = sbd_Targets input,
      diag_ModelConfidence = sbd_ModelConfidence input, diag_EvidenceIDs = sbd_EvidenceIDs input,
      diag_ValidationResultIDs = sbd_ValidationResultIDs input, diag_EvidenceSnapshotHash = bs_EvidenceSnapshotHash s,
      diag_ExecutionSnapshot = bs_ExecutionSnapshot s, diag_GroundingLevel = GroundingUnknown, diag_Provisional = True,
      diag_SubmittedAt = ts_Now st\<rparr>"

definition runBrainSubmitDiagnosis :: "hasher \<Rightarrow> WorkflowState \<Rightarrow> tool_stamp \<Rightarrow> submitBrainDiagnosisInput \<Rightarrow> tool_answer" where
  "runBrainSubmitDiagnosis H s st input = with_incident s (\<lambda>i.
     if bs_BrainPhase s \<noteq> BrainPhaseDiagnosis
     then phaseConstraintOutput H s i st ''submit_diagnosis'' BrainToolReasoning (sbd_Intent input) BrainPhaseDiagnosis
     else let env = envelope_for H s i st ''submit_diagnosis'' BrainToolReasoning
                      ((intent_on (sbd_Intent input) [sbd_HypothesisID input] (sbd_ExpectedObservation input))\<lparr>intent_TargetScope := sbd_Targets input\<rparr>)
          in authorized H s env st (case findAgentHypothesis (bs_AgentHypotheses s) (sbd_HypothesisID input) of
               None \<Rightarrow> refuse H env st ''unknown_hypothesis_revision'' ''selected hypothesis revision does not exist''
             | Some h \<Rightarrow> (case diagnosis_refusal H s i input h of
                   Some (code, reason) \<Rightarrow> refuse H env st code reason
                 | None \<Rightarrow> let d = submitted_diagnosis s st input
                     in Inr ((validation_output H env st ''diagnosis-persistence-v1'' (HDiagnosis d) ''PERSISTED''
                          ''LLM diagnosis persisted unchanged; validate_diagnosis must append Runtime grounding before termination or recovery'' True)
                        \<lparr>out_Diagnosis := Some d\<rparr>))))"

definition diagnosis_reasons :: "hasher \<Rightarrow> WorkflowState \<Rightarrow> Incident \<Rightarrow> AgentDiagnosis \<Rightarrow> string list" where
  "diagnosis_reasons H s i d =
     (let hid = diag_HypothesisRevisionID d; h = findAgentHypothesis (bs_AgentHypotheses s) hid;
          g = findHypothesisGrounding (bs_HypothesisGroundings s) hid
      in code_if (h = None) ''hypothesis_not_found''
       @ code_if (\<not> is_admitted (findHypothesisAdmission (bs_HypothesisAdmissions s) hid)) ''hypothesis_not_admitted''
       @ code_if (\<not> cites_grounding s hid (diag_ValidationResultIDs d)) ''current_grounding_not_cited''
       @ code_if (case g of None \<Rightarrow> False | Some x \<Rightarrow> gr_EvidenceSnapshotHash x \<noteq> bs_EvidenceSnapshotHash s) ''grounding_snapshot_stale''
       @ code_if (diag_EvidenceSnapshotHash d \<noteq> bs_EvidenceSnapshotHash s) ''diagnosis_snapshot_stale''
       @ code_if (diag_ExecutionSnapshot d \<noteq> bs_ExecutionSnapshot s) ''execution_snapshot_mismatch''
       @ code_if (case h of None \<Rightarrow> False | Some x \<Rightarrow>
            diag_ModelConfidence d \<noteq> hyp_ModelConfidence x \<or>
            \<not> same_semantics H (diag_Statement d) (diag_Category d) (diag_Mechanism d) (diag_TargetRefs d) x) ''diagnosis_semantics_changed''
       @ code_if (\<not> list_all (\<lambda>x. x \<in> set (map ev_ID (inc_Evidence i))) (diag_EvidenceIDs d)) ''unknown_evidence_id'')"

definition fresh_validation :: "WorkflowState \<Rightarrow> tool_stamp \<Rightarrow> string \<Rightarrow> string \<Rightarrow> DiagnosisValidation" where
  "fresh_validation s st diagnosisID hid =
     \<lparr>dv_ID = ''diagnosis-validation:'' @ ts_ID st 0, dv_DiagnosisID = diagnosisID, dv_HypothesisRevisionID = hid, dv_Valid = False,
      dv_Provisional = True, dv_GroundingLevel = GroundingUnknown, dv_ReasonCodes = [], dv_EvidenceSnapshotHash = bs_EvidenceSnapshotHash s,
      dv_ExecutionSnapshot = bs_ExecutionSnapshot s, dv_ValidatedAt = ts_Now st\<rparr>"

definition validated :: "hasher \<Rightarrow> WorkflowState \<Rightarrow> Incident \<Rightarrow> tool_stamp \<Rightarrow> AgentDiagnosis \<Rightarrow> DiagnosisValidation" where
  "validated H s i st d =
     (let reasons = diagnosis_reasons H s i d;
          level = (case findHypothesisGrounding (bs_HypothesisGroundings s) (diag_HypothesisRevisionID d) of
                None \<Rightarrow> GroundingUnknown | Some g \<Rightarrow> gr_Level g)
      in (fresh_validation s st (diag_ID d) (diag_HypothesisRevisionID d))
           \<lparr>dv_ReasonCodes := reasons, dv_Valid := (reasons = []), dv_GroundingLevel := level,
            dv_Provisional := (reasons \<noteq> [] \<or> level \<noteq> GroundingSupported)\<rparr>)"

definition runBrainValidateDiagnosis :: "hasher \<Rightarrow> WorkflowState \<Rightarrow> tool_stamp \<Rightarrow> validateBrainDiagnosisInput \<Rightarrow> tool_answer" where
  "runBrainValidateDiagnosis H s st input = with_incident s (\<lambda>i.
     if bs_BrainPhase s \<noteq> BrainPhaseDiagnosis
     then phaseConstraintOutput H s i st ''validate_diagnosis'' BrainToolReasoning (vbd_Intent input) BrainPhaseDiagnosis
     else let hid = (case bs_AgentDiagnosis s of None \<Rightarrow> [] | Some d \<Rightarrow> diag_HypothesisRevisionID d);
              env = envelope_for H s i st ''validate_diagnosis'' BrainToolReasoning
                      (intent_on (vbd_Intent input) [hid] (vbd_ExpectedObservation input));
              missing = (let v = (fresh_validation s st (vbd_DiagnosisID input) hid)\<lparr>dv_ReasonCodes := [''diagnosis_not_found'']\<rparr>
                in Inr ((validation_output H env st ''diagnosis-validation-v1'' (HDiagnosisValidation v) ''REJECTED'' ''diagnosis validation failed'' False)
                     \<lparr>out_DiagnosisValidation := Some v\<rparr>))
          in authorized H s env st (case bs_AgentDiagnosis s of
               None \<Rightarrow> missing
             | Some d \<Rightarrow>
                 if diag_ID d \<noteq> vbd_DiagnosisID input then missing
                 else let v = validated H s i st d
                      in Inr ((validation_output H env st ''diagnosis-validation-v1'' (HDiagnosisValidation v)
                           (if dv_Valid v then ''VALIDATED'' else ''REJECTED'')
                           ''Runtime diagnosis validation appended without modifying LLM diagnosis semantics'' True)
                         \<lparr>out_Diagnosis := Some (d\<lparr>diag_GroundingLevel := dv_GroundingLevel v, diag_Provisional := dv_Provisional v\<rparr>),
                          out_DiagnosisValidation := Some v, out_DiagnosisFinalized := dv_Valid v\<rparr>)))"

section \<open>Recovery plan\<close>

definition submitted_plan :: "WorkflowState \<Rightarrow> AgentDiagnosis \<Rightarrow> tool_stamp \<Rightarrow> submitBrainRecoveryInput \<Rightarrow> AgentRecoveryPlan" where
  "submitted_plan s d st input =
     \<lparr>plan_ID = ''recovery-plan:'' @ ts_ID st 0, plan_Goal = sbr_Goal input, plan_PrimaryAction = sbr_PrimaryAction input,
      plan_Alternatives = sbr_Alternatives input, plan_ExpectedOutcome = sbr_ExpectedOutcome input, plan_RollbackPlan = sbr_RollbackPlan input,
      plan_VerificationPlan = sbr_VerificationPlan input, plan_RiskReason = sbr_RiskReason input, plan_DiagnosisVersion = diag_ID d,
      plan_EvidenceSnapshotHash = bs_EvidenceSnapshotHash s, plan_ExecutionSnapshot = bs_ExecutionSnapshot s\<rparr>"

definition runBrainSubmitRecovery :: "hasher \<Rightarrow> WorkflowState \<Rightarrow> tool_stamp \<Rightarrow> submitBrainRecoveryInput \<Rightarrow> tool_answer" where
  "runBrainSubmitRecovery H s st input = with_incident s (\<lambda>i.
     if bs_BrainPhase s \<noteq> BrainPhaseRecovery
     then phaseConstraintOutput H s i st ''submit_recovery_plan'' BrainToolRecovery (sbr_Intent input) BrainPhaseRecovery
     else let env = envelope_for H s i st ''submit_recovery_plan'' BrainToolRecovery (intent_on (sbr_Intent input) [] (sbr_ExpectedObservation input))
          in authorized H s env st (case bs_AgentDiagnosis s of
               None \<Rightarrow> refuse H env st ''diagnosis_required'' ''a persisted diagnosis is required before recovery planning''
             | Some d \<Rightarrow>
                 if length (sbr_Alternatives input) > 3
                 then refuse H env st ''too_many_recovery_alternatives'' ''at most three recovery alternatives are allowed''
                 else let plan = submitted_plan s d st input
                      in Inr ((validation_output H env st ''recovery-plan-v1'' (HRecoveryPlan plan) ''OK''
                           ''recovery plan recorded for Safety Kernel validation; no mutation executed'' True)\<lparr>out_RecoveryPlan := Some plan\<rparr>)))"

section \<open>Skills\<close>

definition retrieved_skills :: "WorkflowState \<Rightarrow> string list" where
  "retrieved_skills s = (if bs_SkillRetrievals s = [] then [] else map ssr_ID (srr_Results (last (bs_SkillRetrievals s))))"

definition resolution_phase :: "WorkflowState \<Rightarrow> BrainPhase" where
  "resolution_phase s = (if bs_BrainPhase s = BrainPhaseReflection \<and> bs_ResumeBrainPhase s \<noteq> NoPhase then bs_ResumeBrainPhase s else bs_BrainPhase s)"

definition skill_request :: "WorkflowState \<Rightarrow> requestBrainSkillsInput \<Rightarrow> string \<Rightarrow> SkillRequest" where
  "skill_request s input sid = \<lparr>sreq_SkillID = sid, sreq_Reason = rqs_Reason input, sreq_Trigger = rqs_Trigger input,
     sreq_RequestedBy = ''BRAIN'', sreq_RequestedTurn = currentBrainTurnID s\<rparr>"

definition optional_limit :: "WorkflowState \<Rightarrow> Incident \<Rightarrow> int" where
  "optional_limit s i = (if fst (NormalizeDiagnosisMethod (inc_DiagnosisMethod i)) = ''kubepilot-no-optional-skills'' then 0
     else bb_MaxOptionalSkillsPerTurn (bbs_Limits (bs_BrainBudget s)))"

text \<open>The decision for a request is the first activation of its skill in the resolved bundle.\<close>

definition decide_request ::
  "BrainSkillResolver option \<Rightarrow> BrainPhase \<Rightarrow> time \<Rightarrow> SkillActivation list \<Rightarrow> SkillRequest list \<times> SkillActivation list \<Rightarrow> SkillRequest
     \<Rightarrow> SkillRequest list \<times> SkillActivation list" where
  "decide_request r phase now activations acc q = (case find (\<lambda>a. sact_SkillID a = sreq_SkillID q) activations of
       None \<Rightarrow> (fst acc, snd acc @ [rejectedActivationFor r q phase ''activation_decision_missing'' now])
     | Some a \<Rightarrow> if sact_Status a = ''ACTIVATED'' then (fst acc @ [q], snd acc) else (fst acc, snd acc @ [a]))"

definition resolveBrainSkillRequests ::
  "BrainSkillResolver option \<Rightarrow> WorkflowState \<Rightarrow> Incident \<Rightarrow> tool_stamp \<Rightarrow> requestBrainSkillsInput
     \<Rightarrow> skill_error + SkillRequest list \<times> SkillActivation list \<times> SkillActivation list" where
  "resolveBrainSkillRequests r s i st input =
     (let phase = resolution_phase s; now = ts_Now st;
          requests = map (skill_request s input) (filter (\<lambda>sid. sid \<in> set (retrieved_skills s)) (rqs_SkillIDs input));
          rejected = map (\<lambda>sid. rejectedActivationFor r (skill_request s input sid) phase ''skill_not_retrieved_for_turn'' now)
            (filter (\<lambda>sid. sid \<notin> set (retrieved_skills s)) (rqs_SkillIDs input))
      in if requests = [] then Inr ([], rejected, rejected)
         else case Resolve r phase requests (optional_limit s i) (currentBrainTurnID s) now of
             Inl e \<Rightarrow> Inl e
           | Inr bundle \<Rightarrow>
               let (accepted, refused) = foldl (decide_request r phase now (rbs_Activations bundle)) ([], rejected) requests
               in Inr (accepted, refused, rbs_Activations bundle @ rejected))"

definition skillActivationSummary :: "SkillRequest list \<Rightarrow> SkillActivation list \<Rightarrow> string" where
  "skillActivationSummary accepted rejected =
     (let active = sort (map sreq_SkillID accepted);
          decisions = sort (map (\<lambda>a. sact_SkillID a @ '':'' @ sact_RejectedReason a) rejected);
          parts = code_if (active \<noteq> []) (''activated Skills: '' @ Join active '', '') @
                  code_if (decisions \<noteq> []) (''rejected Skills: '' @ Join decisions '', '')
      in if parts = [] then ''no Skill activation decision was produced'' else Join parts ''; '')"

definition not_activated :: "hasher \<Rightarrow> AgentActionEnvelope \<Rightarrow> tool_stamp \<Rightarrow> string \<Rightarrow> string \<Rightarrow> SkillActivation list \<Rightarrow> SkillActivation list \<Rightarrow> tool_answer" where
  "not_activated H env st collector code rejected activations =
     Inr (zero_brainCapabilityOutput\<lparr>out_Class := ToolResultConstraint, out_Status := ''REJECTED'',
       out_Summary := skillActivationSummary [] rejected, out_ConstraintCode := code, out_SkillActivations := rejected,
       out_Provenance := baseBrainProvenance H env collector (HActivations activations) (ts_Now st)\<rparr>)"

text \<open>The resolver is not nil here: its category of the accepted requests needs the catalog.\<close>

definition runBrainRequestSkills ::
  "hasher \<Rightarrow> (skill_error \<Rightarrow> string) \<Rightarrow> BrainSkillResolver \<Rightarrow> WorkflowState \<Rightarrow> tool_stamp \<Rightarrow> requestBrainSkillsInput \<Rightarrow> tool_answer" where
  "runBrainRequestSkills H wording r s st input = with_incident s (\<lambda>i.
     let env = envelope_for H s i st ''request_skills'' BrainToolControl (intent_on (rqs_Intent input) [] (rqs_ExpectedObservation input)) in
     authorized H s env st (case resolveBrainSkillRequests (Some r) s i st input of
         Inl e \<Rightarrow> refuse H env st ''skill_resolution_failed'' (wording e)
       | Inr (accepted, rejected, activations) \<Rightarrow>
           if accepted = [] then not_activated H env st ''skill-resolver-v1'' ''skill_request_not_activated'' rejected activations
           else Inr ((validation_output H env st ''skill-resolver-v1'' (HActivations activations) ''OK'' (skillActivationSummary accepted rejected) True)
                  \<lparr>out_RequestedSkills := accepted, out_SkillActivations := rejected,
                   out_SelectedCategory := unambiguousRequestedCategory r accepted\<rparr>)))"

definition runBrainReadSkillReference ::
  "hasher \<Rightarrow> (skill_error \<Rightarrow> string) \<Rightarrow> BrainSkillResolver \<Rightarrow> WorkflowState \<Rightarrow> tool_stamp \<Rightarrow> readBrainSkillReferenceInput \<Rightarrow> tool_answer" where
  "runBrainReadSkillReference H wording r s st input = with_incident s (\<lambda>i.
     let env = envelope_for H s i st ''read_skill_reference'' BrainToolControl (intent_on (rsr_Intent input) [] (rsr_ExpectedObservation input)) in
     authorized H s env st (case ReadActiveReference r (bs_ActiveSkillRefs s) (rsr_SkillID input) (rsr_Reference input) of
         Inl e \<Rightarrow> refuse H env st ''skill_reference_denied'' (wording e)
       | Inr content \<Rightarrow> Inr ((validation_output H env st ''skill-reference-v1'' (HString content) ''OK'' ''active Skill reference loaded'' True)
            \<lparr>out_ReferenceContent := content, out_ReferenceID := rsr_SkillID input @ ''/'' @ rsr_Reference input\<rparr>)))"

definition brainRequestedSkillsGrantCategory :: "BrainSkillResolver option \<Rightarrow> SkillRequest list \<Rightarrow> BrainToolCategory \<Rightarrow> bool" where
  "brainRequestedSkillsGrantCategory r0 requests category = (case r0 of None \<Rightarrow> False
     | Some r \<Rightarrow> list_ex (\<lambda>q. case map_of (bsr_packages r) (sreq_SkillID q) of None \<Rightarrow> False
           | Some pkg \<Rightarrow> category \<in> set (spec_AllowedToolCategories (pkg_Spec pkg))) requests)"

definition skills_of_selection :: "selectBrainCategoryInput \<Rightarrow> requestBrainSkillsInput" where
  "skills_of_selection input = \<lparr>rqs_Intent = sbc_Intent input, rqs_ExpectedObservation = sbc_ExpectedObservation input,
     rqs_SkillIDs = sbc_SkillIDs input, rqs_Reason = sbc_Reason input, rqs_Trigger = sbc_Trigger input\<rparr>"

definition runBrainSelectCategory ::
  "hasher \<Rightarrow> (skill_error \<Rightarrow> string) \<Rightarrow> BrainSkillResolver \<Rightarrow> WorkflowState \<Rightarrow> tool_stamp \<Rightarrow> selectBrainCategoryInput \<Rightarrow> tool_answer" where
  "runBrainSelectCategory H wording r s st input = with_incident s (\<lambda>i.
     let env = envelope_for H s i st ''select_tool_category'' BrainToolControl (intent_on (sbc_Intent input) [] (sbc_ExpectedObservation input)) in
     authorized H s env st (case resolveBrainSkillRequests (Some r) s i st (skills_of_selection input) of
         Inl e \<Rightarrow> refuse H env st ''skill_resolution_failed'' (wording e)
       | Inr (accepted, rejected, activations) \<Rightarrow>
           if accepted = [] then not_activated H env st ''skill-category-router-v1'' ''skill_request_not_activated'' rejected activations
           else if \<not> brainRequestedSkillsGrantCategory (Some r) accepted (sbc_Category input)
           then not_activated H env st ''skill-category-router-v1'' ''tool_category_not_granted_by_requested_skill''
                  (rejected @ map (\<lambda>q. rejectedActivationFor (Some r) q (bs_BrainPhase s) ''requested_skill_does_not_grant_category'' (ts_Now st)) accepted)
                  activations
           else Inr ((validation_output H env st ''skill-category-router-v1'' (HActivations activations) ''OK''
                    (skillActivationSummary accepted rejected @ ''; selected Tool Category: '' @ category_text (sbc_Category input)) True)
                  \<lparr>out_RequestedSkills := accepted, out_SkillActivations := rejected, out_SelectedCategory := sbc_Category input\<rparr>)))"

section \<open>Phases and the end\<close>

definition runBrainAdvancePhase :: "hasher \<Rightarrow> WorkflowState \<Rightarrow> tool_stamp \<Rightarrow> advanceBrainPhaseInput \<Rightarrow> tool_answer" where
  "runBrainAdvancePhase H s st input = with_incident s (\<lambda>i.
     let env = envelope_for H s i st ''advance_brain_phase'' BrainToolControl (intent_on (abp_Intent input) [] (abp_ExpectedObservation input)) in
     authorized H s env st
       (if bs_BrainPhase s \<noteq> BrainPhaseInvestigation \<or> abp_NextPhase input \<noteq> BrainPhaseDiagnosis
        then refuse H env st ''invalid_phase_transition'' ''only INVESTIGATION to DIAGNOSIS is available through this control boundary''
        else if length (filter (\<lambda>a. adm_Decision a = ''ADMITTED'') (bs_HypothesisAdmissions s)) < 2 \<or>
                length (filter (\<lambda>g. gr_Level g \<noteq> GroundingUnknown) (bs_HypothesisGroundings s)) < 2
        then refuse H env st ''diagnosis_phase_preconditions''
               ''at least two admitted and validated hypotheses are required before diagnosis synthesis''
        else Inr ((validation_output H env st ''phase-router-v1'' (HPhase (abp_NextPhase input)) ''OK'' ''diagnosis phase preconditions satisfied'' True)
               \<lparr>out_NextPhase := BrainPhaseDiagnosis\<rparr>)))"

definition trailing_no_information :: "BrainToolExecution list \<Rightarrow> nat" where
  "trailing_no_information executions =
     length (takeWhile (\<lambda>x. \<not> trr_NewInformation (bte_Result x))
       (filter (\<lambda>x. env_ToolCategory (bte_Envelope x) \<noteq> BrainToolControl) (rev executions)))"

definition validateBrainTerminationRequest :: "WorkflowState \<Rightarrow> finishBrainInput \<Rightarrow> (string \<times> string) option" where
  "validateBrainTerminationRequest s input = (case fin_Reason input of
       TerminationHumanEscalation \<Rightarrow> None
     | TerminationDiagnosisConfident \<Rightarrow> (case bs_AgentDiagnosis s of
           Some d \<Rightarrow> if diag_Provisional d \<or> fin_HypothesisID input \<noteq> diag_HypothesisRevisionID d
             then Some (''termination_preconditions'', ''confident termination requires the current non-provisional LLM diagnosis revision'') else None
         | None \<Rightarrow> Some (''termination_preconditions'', ''confident termination requires the current non-provisional LLM diagnosis revision''))
     | TerminationDiagnosisProvisional \<Rightarrow> (case bs_AgentDiagnosis s of
           Some d \<Rightarrow> if \<not> diag_Provisional d \<or> fin_HypothesisID input \<noteq> diag_HypothesisRevisionID d
             then Some (''termination_preconditions'', ''provisional termination requires the current provisional LLM diagnosis revision'') else None
         | None \<Rightarrow> Some (''termination_preconditions'', ''provisional termination requires the current provisional LLM diagnosis revision''))
     | TerminationEvidenceSaturated \<Rightarrow>
         if int (trailing_no_information (bs_ToolExecutions s)) < tcp_MaxNoInformationStreak (bs_BrainToolPolicy s) \<or> bs_RequestedSkills s \<noteq> []
         then Some (''evidence_not_saturated'', ''evidence saturation requires the configured no-information streak and no pending Skill request'') else None
     | _ \<Rightarrow> Some (''runtime_owned_termination_reason'',
         ''approval, safety, budget, recovery, verification, and infrastructure outcomes are owned by the Runtime''))"

definition runBrainFinish :: "hasher \<Rightarrow> WorkflowState \<Rightarrow> tool_stamp \<Rightarrow> finishBrainInput \<Rightarrow> tool_answer" where
  "runBrainFinish H s st input = with_incident s (\<lambda>i.
     let env = envelope_for H s i st ''finish_investigation'' BrainToolControl
                 (intent_on (fin_Intent input) [fin_HypothesisID input] (fin_ExpectedObservation input)) in
     authorized H s env st (case validateBrainTerminationRequest s input of
         Some (code, reason) \<Rightarrow> refuse H env st code reason
       | None \<Rightarrow> (case NewTermination (fin_Reason input) (currentBrainTurnID s) (fin_HypothesisID input) (bs_EvidenceSnapshotHash s)
                     (Some (bs_ExecutionSnapshot s)) (fin_UnresolvedGaps input) (bs_BrainBudget s) (ts_Now st) of
             Inl e \<Rightarrow> refuse H env st ''invalid_termination'' e
           | Inr t \<Rightarrow> Inr ((validation_output H env st ''termination-router-v1'' (HTermination t) ''OK'' ''Brain loop termination requested'' True)
               \<lparr>out_Termination := Some t\<rparr>))))"

section \<open>The registry\<close>

text \<open>A decoded tool call: one constructor per tool of \<^verbatim>\<open>buildBrainCapabilities\<close>.\<close>

datatype brain_call =
    CollectEvidence string brainEvidenceToolInput
  | DiscoverResources brainEvidenceToolInput
  | RetrieveIncidents brainRetrievalToolInput
  | RetrieveRunbooks brainRetrievalToolInput
  | RetrievePatterns brainRetrievalToolInput
  | CompareHypotheses compareBrainHypothesesInput
  | SubmitUnderstanding submitIncidentUnderstandingInput
  | ValidateDiagnosis validateBrainDiagnosisInput
  | SubmitPlan submitInvestigationPlanInput
  | RevisePlan reviseInvestigationPlanInput
  | SubmitHypotheses submitBrainHypothesesInput
  | ReviseHypothesis reviseBrainHypothesisInput
  | ValidateHypothesis validateBrainHypothesisInput
  | CommitBeliefDelta commitBrainBeliefInput
  | SubmitDiagnosis submitBrainDiagnosisInput
  | SubmitRecovery submitBrainRecoveryInput
  | RequestSkills requestBrainSkillsInput
  | ReadSkillReference readBrainSkillReferenceInput
  | SelectCategory selectBrainCategoryInput
  | AdvancePhase advanceBrainPhaseInput
  | FinishInvestigation finishBrainInput

record tool_wording =
  tw_Attribution :: "attribution_error \<Rightarrow> string"
  tw_Belief :: "belief_error \<Rightarrow> string"
  tw_Skill :: "skill_error \<Rightarrow> string"

fun runBrainTool ::
  "hasher \<Rightarrow> id_digest \<Rightarrow> (Evidence \<Rightarrow> string) \<Rightarrow> tool_wording \<Rightarrow> brainRuntimeDeps \<Rightarrow> BrainSkillResolver \<Rightarrow> WorkflowState \<Rightarrow> tool_stamp
     \<Rightarrow> brain_call \<Rightarrow> tool_answer" where
  "runBrainTool H D sprint W deps r s st (CollectEvidence source x) = runBrainEvidenceTool H D deps s st source (brainEvidenceToolName source) x"
| "runBrainTool H D sprint W deps r s st (DiscoverResources x) = runBrainDiscoverResources H D sprint deps s st x"
| "runBrainTool H D sprint W deps r s st (RetrieveIncidents x) = runBrainIncidentRetrieval H deps s st x"
| "runBrainTool H D sprint W deps r s st (RetrieveRunbooks x) = runBrainRunbookRetrieval H deps s st x"
| "runBrainTool H D sprint W deps r s st (RetrievePatterns x) = runBrainPatternRetrieval H deps s st x"
| "runBrainTool H D sprint W deps r s st (CompareHypotheses x) = runBrainCompareHypotheses H s st x"
| "runBrainTool H D sprint W deps r s st (SubmitUnderstanding x) = runBrainSubmitUnderstanding H s st x"
| "runBrainTool H D sprint W deps r s st (ValidateDiagnosis x) = runBrainValidateDiagnosis H s st x"
| "runBrainTool H D sprint W deps r s st (SubmitPlan x) = runBrainSubmitPlan H s st x"
| "runBrainTool H D sprint W deps r s st (RevisePlan x) = runBrainRevisePlan H s st x"
| "runBrainTool H D sprint W deps r s st (SubmitHypotheses x) = runBrainSubmitHypotheses H deps s st x"
| "runBrainTool H D sprint W deps r s st (ReviseHypothesis x) = runBrainReviseHypothesis H deps s st x"
| "runBrainTool H D sprint W deps r s st (ValidateHypothesis x) = runBrainValidateHypothesis H (tw_Attribution W) s st x"
| "runBrainTool H D sprint W deps r s st (CommitBeliefDelta x) = runBrainCommitBelief H (tw_Belief W) s st x"
| "runBrainTool H D sprint W deps r s st (SubmitDiagnosis x) = runBrainSubmitDiagnosis H s st x"
| "runBrainTool H D sprint W deps r s st (SubmitRecovery x) = runBrainSubmitRecovery H s st x"
| "runBrainTool H D sprint W deps r s st (RequestSkills x) = runBrainRequestSkills H (tw_Skill W) r s st x"
| "runBrainTool H D sprint W deps r s st (ReadSkillReference x) = runBrainReadSkillReference H (tw_Skill W) r s st x"
| "runBrainTool H D sprint W deps r s st (SelectCategory x) = runBrainSelectCategory H (tw_Skill W) r s st x"
| "runBrainTool H D sprint W deps r s st (AdvancePhase x) = runBrainAdvancePhase H s st x"
| "runBrainTool H D sprint W deps r s st (FinishInvestigation x) = runBrainFinish H s st x"

fun tool_name :: "brain_call \<Rightarrow> string" where
  "tool_name (CollectEvidence source _) = brainEvidenceToolName source"
| "tool_name (DiscoverResources _) = ''discover_resources''"
| "tool_name (RetrieveIncidents _) = ''retrieve_incidents''"
| "tool_name (RetrieveRunbooks _) = ''retrieve_runbooks''"
| "tool_name (RetrievePatterns _) = ''retrieve_patterns''"
| "tool_name (CompareHypotheses _) = ''compare_hypotheses''"
| "tool_name (SubmitUnderstanding _) = ''submit_incident_understanding''"
| "tool_name (ValidateDiagnosis _) = ''validate_diagnosis''"
| "tool_name (SubmitPlan _) = ''submit_investigation_plan''"
| "tool_name (RevisePlan _) = ''revise_investigation_plan''"
| "tool_name (SubmitHypotheses _) = ''submit_hypotheses''"
| "tool_name (ReviseHypothesis _) = ''revise_hypothesis''"
| "tool_name (ValidateHypothesis _) = ''validate_hypothesis''"
| "tool_name (CommitBeliefDelta _) = ''commit_belief_delta''"
| "tool_name (SubmitDiagnosis _) = ''submit_diagnosis''"
| "tool_name (SubmitRecovery _) = ''submit_recovery_plan''"
| "tool_name (RequestSkills _) = ''request_skills''"
| "tool_name (ReadSkillReference _) = ''read_skill_reference''"
| "tool_name (SelectCategory _) = ''select_tool_category''"
| "tool_name (AdvancePhase _) = ''advance_brain_phase''"
| "tool_name (FinishInvestigation _) = ''finish_investigation''"

end
