(* ===== verification/Tool_Contract.thy ===== *)
theory Tool_Contract
  imports Tool_Control
begin

text \<open>What holds of every tool of \<^verbatim>\<open>agent/brain_tools.go\<close>.  A tool contract is a property of answers
  that refusals and failures satisfy; the rules of its locale reduce a handler to the answer of its last
  branch, under the conditions the earlier ones established.  Interpreted on the authority an answer
  carries (a diagnosis, an end of the loop, hypotheses, a belief change, a plan, a grounding), they show
  which tool may give which; the constraint kernel stands in front of all of them.\<close>

section \<open>Contracts\<close>

definition answers :: "(brainCapabilityOutput \<Rightarrow> bool) \<Rightarrow> tool_answer \<Rightarrow> bool" where
  "answers Q a = (case a of Inl _ \<Rightarrow> True | Inr out \<Rightarrow> Q out)"

lemma answers_simps [simp]: "answers Q (Inl e)" "answers Q (Inr out) = Q out"
  by (simp_all add: answers_def)

lemma answersD: "answers Q a \<Longrightarrow> a = Inr out \<Longrightarrow> Q out"
  by simp

lemma answers_mono: "answers Q a \<Longrightarrow> (\<And>out. Q out \<Longrightarrow> R out) \<Longrightarrow> answers R a"
  by (cases a) simp_all

lemma answers_conj: "answers (\<lambda>out. Q out \<and> R out) a \<longleftrightarrow> answers Q a \<and> answers R a"
  by (cases a) simp_all

lemma authorize_SomeD: "authorizeBrainTool H s env now = Some denied \<Longrightarrow>
    \<exists>code summary. denied = constraintBrainOutput H env code summary now"
  by (auto simp: authorizeBrainTool_def Let_def split: if_splits)

locale tool_contract =
  fixes Q :: "brainCapabilityOutput \<Rightarrow> bool"
  assumes refused: "Q (constraintBrainOutput H env code summary now)"
    and failed: "Q (errorBrainOutput H env summary infrastructure now)"
begin

lemma with_incidentI: "(\<And>i. ws_Incident s = Some i \<Longrightarrow> answers Q (f i)) \<Longrightarrow> answers Q (with_incident s f)"
  by (simp add: with_incident_def split: option.split)

lemma authorizedI:
  assumes "authorizeBrainTool H s env (ts_Now st) = None \<Longrightarrow> answers Q go"
  shows "answers Q (authorized H s env st go)"
proof (cases "authorizeBrainTool H s env (ts_Now st)")
  case (Some denied)
  then show ?thesis using authorize_SomeD [OF Some] refused by (auto simp: authorized_def)
qed (simp add: authorized_def assms)

lemma refuse_ok [simp]: "answers Q (refuse H env st code summary)"
  by (simp add: refuse_def refused)

lemma unavailable_ok [simp]: "answers Q (unavailable H env st summary)"
  by (simp add: unavailable_def failed)

lemma phase_ok [simp]: "answers Q (phaseConstraintOutput H s i st toolName category intent required)"
  by (simp add: phaseConstraintOutput_def)

lemma phasedI:
  assumes "\<And>i. ws_Incident s = Some i \<Longrightarrow> \<not> wrong \<Longrightarrow> authorizeBrainTool H s (env i) (ts_Now st) = None \<Longrightarrow> answers Q (go i)"
  shows "answers Q (with_incident s (\<lambda>i. if wrong then phaseConstraintOutput H s i st' toolName category intent required
                                         else authorized H s (env i) st (go i)))"
  by (rule with_incidentI) (simp add: assms authorizedI)

lemma gatedI:
  assumes "\<And>i. ws_Incident s = Some i \<Longrightarrow> authorizeBrainTool H s (env i) (ts_Now st) = None \<Longrightarrow> answers Q (go i)"
  shows "answers Q (with_incident s (\<lambda>i. authorized H s (env i) st (go i)))"
  by (rule with_incidentI) (simp add: assms authorizedI)

end

section \<open>The authority of an answer\<close>

definition silent :: "brainCapabilityOutput \<Rightarrow> bool" where
  "silent out = (out_Diagnosis out = None \<and> out_Termination out = None \<and> out_Hypotheses out = [] \<and>
     out_BeliefDelta out = None \<and> out_RecoveryPlan out = None \<and> out_Grounding out = None)"

lemma silent_refusal: "silent (constraintBrainOutput H env code summary now)" "silent (errorBrainOutput H env summary infrastructure now)"
  by (simp_all add: silent_def constraintBrainOutput_def errorBrainOutput_def zero_defs)

interpretation quiet: tool_contract silent
  by unfold_locales (simp_all add: silent_refusal)

lemma silent_validation: "silent (validation_output H env st collector artifact status summary new)"
  by (simp add: silent_def validation_output_def zero_defs)

lemma silent_not_activated: "answers silent (not_activated H env st collector code rejected activations)"
  by (simp add: not_activated_def silent_def zero_defs)

lemma silent_evidence: "silent (evidence_output H i source toolName request items)"
  by (simp add: silent_def evidence_output_def zero_defs)

lemma silent_frame [simp]:
  "silent (out\<lparr>out_HistoricalIncidents := a\<rparr>) = silent out" "silent (out\<lparr>out_HybridRetrieval := b\<rparr>) = silent out"
  "silent (out\<lparr>out_Memory := c\<rparr>) = silent out" "silent (out\<lparr>out_Patterns := d\<rparr>) = silent out"
  "silent (out\<lparr>out_Comparisons := e\<rparr>) = silent out" "silent (out\<lparr>out_Understanding := f\<rparr>) = silent out"
  "silent (out\<lparr>out_InvestigationPlan := g\<rparr>) = silent out" "silent (out\<lparr>out_RequestedSkills := h\<rparr>) = silent out"
  "silent (out\<lparr>out_SkillActivations := j\<rparr>) = silent out" "silent (out\<lparr>out_SelectedCategory := k\<rparr>) = silent out"
  "silent (out\<lparr>out_ReferenceContent := l\<rparr>) = silent out" "silent (out\<lparr>out_ReferenceID := m\<rparr>) = silent out"
  "silent (out\<lparr>out_NextPhase := n\<rparr>) = silent out" "silent (out\<lparr>out_Resources := r\<rparr>) = silent out"
  "silent (out\<lparr>out_NewInformation := t\<rparr>) = silent out" "silent (out\<lparr>out_Summary := u\<rparr>) = silent out"
  "silent (out\<lparr>out_Provenance := v\<rparr>) = silent out" "silent (out\<lparr>out_Admissions := w\<rparr>) = silent out"
  "silent (out\<lparr>out_EvidenceAttributions := x\<rparr>) = silent out" "silent (out\<lparr>out_GroundingDelta := y\<rparr>) = silent out"
  "silent (out\<lparr>out_DiagnosisValidation := z\<rparr>) = silent out" "silent (out\<lparr>out_DiagnosisFinalized := q\<rparr>) = silent out"
  by (simp_all add: silent_def)

lemma silent_discovered: "silent out \<Longrightarrow> silent (discovered_output H sprint i out)"
  by (simp add: discovered_output_def Let_def)

lemmas silent_intros = silent_validation silent_not_activated silent_evidence quiet.gatedI quiet.phasedI

subsection \<open>The tools without authority\<close>

lemma evidence_silent: "answers silent (runBrainEvidenceTool H D deps s st source toolName x)"
  unfolding runBrainEvidenceTool_def Let_def
  by (rule quiet.gatedI) (simp add: silent_evidence split: option.split)

lemma discover_silent: "answers silent (runBrainDiscoverResources H D sprint deps s st x)"
proof (cases "runBrainEvidenceTool H D deps s st ''kubernetes'' ''discover_resources'' x")
  case (Inr out)
  then have "silent out" using evidence_silent [of H D deps s st "''kubernetes''" "''discover_resources''" x] by simp
  then show ?thesis unfolding runBrainDiscoverResources_def Inr
    by (simp add: silent_discovered with_incident_def split: option.split)
qed (simp add: runBrainDiscoverResources_def)

lemma retrieval_silent:
  "answers silent (runBrainIncidentRetrieval H deps s st x)" "answers silent (runBrainRunbookRetrieval H deps s st x)"
  "answers silent (runBrainPatternRetrieval H deps s st x)"
  unfolding runBrainIncidentRetrieval_def runBrainRunbookRetrieval_def runBrainPatternRetrieval_def Let_def
  by (rule quiet.gatedI, simp add: silent_validation split: option.split)+

lemma plan_silent:
  "answers silent (runBrainSubmitUnderstanding H s st u)" "answers silent (runBrainSubmitPlan H s st p)"
  "answers silent (runBrainRevisePlan H s st r)"
  unfolding runBrainSubmitUnderstanding_def runBrainSubmitPlan_def runBrainRevisePlan_def Let_def
  by (rule quiet.phasedI, simp add: silent_validation split: option.split)+

lemma compare_silent: "answers silent (runBrainCompareHypotheses H s st x)"
  unfolding runBrainCompareHypotheses_def Let_def
  by (rule quiet.phasedI) (simp add: silent_validation split: sum.split prod.split)

lemma skill_silent:
  "answers silent (runBrainRequestSkills H w r s st q)" "answers silent (runBrainReadSkillReference H w r s st x)"
  "answers silent (runBrainSelectCategory H w r s st y)" "answers silent (runBrainAdvancePhase H s st z)"
  unfolding runBrainRequestSkills_def runBrainReadSkillReference_def runBrainSelectCategory_def runBrainAdvancePhase_def Let_def
  by (rule quiet.gatedI, simp add: silent_validation silent_not_activated split: sum.split prod.split)+

lemmas silent_tools = evidence_silent discover_silent retrieval_silent plan_silent compare_silent skill_silent

subsection \<open>The tools with one kind of authority\<close>

lemmas erase_defs = silent_def constraintBrainOutput_def errorBrainOutput_def validation_output_def zero_defs

lemma silent_erase:
  "silent out \<Longrightarrow> silent (out\<lparr>out_Hypotheses := []\<rparr>)" "silent out \<Longrightarrow> silent (out\<lparr>out_BeliefDelta := None\<rparr>)"
  "silent out \<Longrightarrow> silent (out\<lparr>out_Diagnosis := None\<rparr>)" "silent out \<Longrightarrow> silent (out\<lparr>out_Termination := None\<rparr>)"
  "silent out \<Longrightarrow> silent (out\<lparr>out_RecoveryPlan := None\<rparr>)" "silent out \<Longrightarrow> silent (out\<lparr>out_Grounding := None\<rparr>)"
  by (simp_all add: silent_def)

interpretation hypotheses_only: tool_contract "\<lambda>out. silent (out\<lparr>out_Hypotheses := []\<rparr>)"
  by unfold_locales (simp_all add: erase_defs)

interpretation belief_only: tool_contract "\<lambda>out. silent (out\<lparr>out_BeliefDelta := None\<rparr>)"
  by unfold_locales (simp_all add: erase_defs)

interpretation diagnosis_only: tool_contract "\<lambda>out. silent (out\<lparr>out_Diagnosis := None\<rparr>)"
  by unfold_locales (simp_all add: erase_defs)

interpretation termination_only: tool_contract "\<lambda>out. silent (out\<lparr>out_Termination := None\<rparr>)"
  by unfold_locales (simp_all add: erase_defs)

interpretation plan_only: tool_contract "\<lambda>out. silent (out\<lparr>out_RecoveryPlan := None\<rparr>)"
  by unfold_locales (simp_all add: erase_defs)

interpretation grounding_only: tool_contract "\<lambda>out. silent (out\<lparr>out_Grounding := None\<rparr>)"
  by unfold_locales (simp_all add: erase_defs)

lemma submit_hypotheses_only: "answers (\<lambda>out. silent (out\<lparr>out_Hypotheses := []\<rparr>)) (runBrainSubmitHypotheses H deps s st x)"
  unfolding runBrainSubmitHypotheses_def Let_def
  by (rule hypotheses_only.phasedI) (simp add: silent_validation silent_erase)

lemma revise_hypothesis_only: "answers (\<lambda>out. silent (out\<lparr>out_Hypotheses := []\<rparr>)) (runBrainReviseHypothesis H deps s st x)"
  unfolding runBrainReviseHypothesis_def Let_def
  by (rule hypotheses_only.phasedI) (simp add: silent_validation silent_erase split: list.split prod.split)

lemma commit_belief_only: "answers (\<lambda>out. silent (out\<lparr>out_BeliefDelta := None\<rparr>)) (runBrainCommitBelief H w s st x)"
  unfolding runBrainCommitBelief_def Let_def
  by (rule belief_only.phasedI) (simp add: silent_validation silent_erase split: option.split prod.split sum.split)

lemma submit_diagnosis_only: "answers (\<lambda>out. silent (out\<lparr>out_Diagnosis := None\<rparr>)) (runBrainSubmitDiagnosis H s st x)"
  unfolding runBrainSubmitDiagnosis_def Let_def
  by (rule diagnosis_only.phasedI) (simp add: silent_validation silent_erase split: option.split prod.split)

lemma validate_diagnosis_only: "answers (\<lambda>out. silent (out\<lparr>out_Diagnosis := None\<rparr>)) (runBrainValidateDiagnosis H s st x)"
  unfolding runBrainValidateDiagnosis_def Let_def
  by (rule diagnosis_only.phasedI) (simp add: silent_validation silent_erase split: option.split)

lemma finish_only: "answers (\<lambda>out. silent (out\<lparr>out_Termination := None\<rparr>)) (runBrainFinish H s st x)"
  unfolding runBrainFinish_def Let_def
  by (rule termination_only.gatedI) (simp add: silent_validation silent_erase split: option.split prod.split sum.split)

lemma submit_recovery_only: "answers (\<lambda>out. silent (out\<lparr>out_RecoveryPlan := None\<rparr>)) (runBrainSubmitRecovery H s st x)"
  unfolding runBrainSubmitRecovery_def Let_def
  by (rule plan_only.phasedI) (simp add: silent_validation silent_erase split: option.split)

lemma validate_hypothesis_only: "answers (\<lambda>out. silent (out\<lparr>out_Grounding := None\<rparr>)) (runBrainValidateHypothesis H w s st x)"
  unfolding runBrainValidateHypothesis_def Let_def
  by (rule grounding_only.phasedI) (simp add: silent_validation silent_erase grounded_output_def Let_def split: option.split sum.split prod.split)

lemmas only_tools = submit_hypotheses_only revise_hypothesis_only commit_belief_only submit_diagnosis_only validate_diagnosis_only
  finish_only submit_recovery_only validate_hypothesis_only

lemmas answer_dests = silent_tools [THEN answersD] only_tools [THEN answersD]

lemma authority:
  assumes "runBrainTool H D sprint W deps r s st call = Inr out"
  shows "out_Diagnosis out \<noteq> None \<Longrightarrow> (\<exists>x. call = SubmitDiagnosis x) \<or> (\<exists>x. call = ValidateDiagnosis x)"
    and "out_Hypotheses out \<noteq> [] \<Longrightarrow> (\<exists>x. call = SubmitHypotheses x) \<or> (\<exists>x. call = ReviseHypothesis x)"
    and "out_BeliefDelta out \<noteq> None \<Longrightarrow> \<exists>x. call = CommitBeliefDelta x"
    and "out_Termination out \<noteq> None \<Longrightarrow> \<exists>x. call = FinishInvestigation x"
    and "out_RecoveryPlan out \<noteq> None \<Longrightarrow> \<exists>x. call = SubmitRecovery x"
    and "out_Grounding out \<noteq> None \<Longrightarrow> \<exists>x. call = ValidateHypothesis x"
  by (cases call; insert assms; auto dest: answer_dests simp: silent_def)+

end
