(* ===== verification/Tool_Examples.thy ===== *)
theory Tool_Examples
  imports Tool_Contract
begin

text \<open>Concrete states and calls at which the properties of the tools apply.\<close>

lemma clear_envelope:
  assumes "\<not> bbs_ToolCallsExhausted (bs_BrainBudget s)" "bs_ToolExecutions s = []" "bb_MaxTurns (bbs_Limits (bs_BrainBudget s)) = 0"
    and "env_ToolCategory env \<in> insert BrainToolControl (set (allowedCategoriesForState s))"
    and "TrimSpace (env_ToolName env) \<noteq> []" "TrimSpace (env_ActionID env) \<noteq> []" "TrimSpace (env_IncidentID env) \<noteq> []"
    and "TrimSpace (intent_Intent (env_Intent env)) \<noteq> []" "nonEmpty (intent_ExpectedObservation (env_Intent env)) \<noteq> []"
    and "nonEmpty (intent_HypothesisIDs (env_Intent env)) \<noteq> [] \<or> bs_HypothesisAdmissions s = []"
  shows "authorizeBrainTool H s env now = None"
  using assms
  by (auto simp: authorize_None_iff authorize_decision_def Validate_allowed_iff ToolPolicy_reasons_def stateToolPolicy_def
      effective_policy_def DefaultToolCallingPolicy_def tool_repeats_def no_information_streak_def Let_def)

lemma TrimSpace_letters [simp]: "TrimSpace ''i'' = ''i''" "TrimSpace ''a'' = ''a''" "TrimSpace ''why'' = ''why''"
  by (simp_all add: TrimSpace_def IsSpace_def)

lemma nonEmpty_letters [simp]: "nonEmpty [''seen''] \<noteq> []" "nonEmpty [''h1''] \<noteq> []"
  by (simp_all add: nonEmpty_empty_iff TrimSpace_def IsSpace_def)

definition tool_incident :: Incident where
  "tool_incident = zero_Incident\<lparr>inc_ID := ''i'', inc_Namespace := ''shop'', inc_Service := ''checkout'', inc_Evidence := [zero_Evidence\<lparr>ev_ID := ''e1''\<rparr>]\<rparr>"

definition tool_hypothesis :: AgentHypothesis where
  "tool_hypothesis = zero_AgentHypothesis\<lparr>hyp_ID := ''h1'', hyp_LineageID := ''h1'', hyp_Version := 1, hyp_ModelConfidence := 1/2\<rparr>"

definition tool_state :: "BrainPhase \<Rightarrow> WorkflowState" where
  "tool_state phase = zero_WorkflowState\<lparr>ws_Incident := Some tool_incident, bs_BrainPhase := phase, bs_AgentHypotheses := [tool_hypothesis]\<rparr>"

definition tool_moment :: tool_stamp where
  "tool_moment = \<lparr>ts_Now = 5, ts_Action = ''a'', ts_ID = \<lambda>_. ''x''\<rparr>"

definition no_services :: brainRuntimeDeps where
  "no_services = \<lparr>dep_Collectors = \<lambda>_. None, dep_BrainRetrieval = None, dep_Memory = None, dep_Knowledge = None,
     dep_BuildFeatures = None, dep_ExternalInventory = []\<rparr>"

definition plain_wording :: tool_wording where
  "plain_wording = \<lparr>tw_Attribution = \<lambda>_. [], tw_Belief = \<lambda>_. [], tw_Skill = \<lambda>_. []\<rparr>"

definition no_skills :: BrainSkillResolver where
  "no_skills = \<lparr>bsr_version = 1, bsr_packages = [], bsr_policy = DefaultToolCallingPolicy, bsr_hash = []\<rparr>"

lemmas tool_examples = tool_state_def tool_incident_def tool_hypothesis_def tool_moment_def no_services_def plain_wording_def

end
