(* ===== verification/Tool_Properties.thy ===== *)
theory Tool_Properties
  imports Tool_Examples Brain_State
begin

text \<open>The properties of the Brain tools: a denied call is refused and reaches no service; a diagnosis
  becomes final only on supported, current grounding; hypotheses stay within their limits; the loop ends
  only for a reason the model may give; and two belief changes of one turn collide.\<close>

section \<open>The envelope of a call\<close>

fun call_category :: "brain_call \<Rightarrow> BrainToolCategory" where
  "call_category (CollectEvidence _ _) = BrainToolEvidence"
| "call_category (DiscoverResources _) = BrainToolEvidence"
| "call_category (RetrieveIncidents _) = BrainToolRetrieval"
| "call_category (RetrieveRunbooks _) = BrainToolRetrieval"
| "call_category (RetrievePatterns _) = BrainToolRetrieval"
| "call_category (SubmitUnderstanding _) = BrainToolControl"
| "call_category (SubmitRecovery _) = BrainToolRecovery"
| "call_category (RequestSkills _) = BrainToolControl"
| "call_category (ReadSkillReference _) = BrainToolControl"
| "call_category (SelectCategory _) = BrainToolControl"
| "call_category (AdvancePhase _) = BrainToolControl"
| "call_category (FinishInvestigation _) = BrainToolControl"
| "call_category _ = BrainToolReasoning"

definition diagnosed_hypothesis :: "WorkflowState \<Rightarrow> string" where
  "diagnosed_hypothesis s = (case bs_AgentDiagnosis s of None \<Rightarrow> [] | Some d \<Rightarrow> diag_HypothesisRevisionID d)"

fun call_intent :: "WorkflowState \<Rightarrow> brain_call \<Rightarrow> AgentActionIntent" where
  "call_intent s (CollectEvidence _ x) = evidence_intent x"
| "call_intent s (DiscoverResources x) = evidence_intent x"
| "call_intent s (RetrieveIncidents x) = retrieval_intent x"
| "call_intent s (RetrieveRunbooks x) = retrieval_intent x"
| "call_intent s (RetrievePatterns x) = retrieval_intent x"
| "call_intent s (CompareHypotheses x) = intent_on (cbh_Intent x) (uniqueBrainValues (cbh_HypothesisIDs x)) (cbh_ExpectedObservation x)"
| "call_intent s (SubmitUnderstanding x) =
     (intent_on (siu_Intent x) [] (siu_ExpectedObservation x))\<lparr>intent_TargetScope := siu_AffectedTargets x\<rparr>"
| "call_intent s (ValidateDiagnosis x) = intent_on (vbd_Intent x) [diagnosed_hypothesis s] (vbd_ExpectedObservation x)"
| "call_intent s (SubmitPlan x) = intent_on (sip_Intent x) [] (sip_ExpectedObservation x)"
| "call_intent s (RevisePlan x) = intent_on (rip_Intent x) (uniqueBrainValues (rip_HypothesisIDs x)) (rip_ExpectedObservation x)"
| "call_intent s (SubmitHypotheses x) = intent_on (sbh_Intent x) [] (sbh_ExpectedObservation x)"
| "call_intent s (ReviseHypothesis x) = intent_on (rbh_Intent x) (rbh_ParentIDs x) (rbh_ExpectedObservation x)"
| "call_intent s (ValidateHypothesis x) = intent_on (vbh_Intent x) [vbh_HypothesisID x] (vbh_ExpectedObservation x)"
| "call_intent s (CommitBeliefDelta x) = intent_on (cbb_Intent x) [cbb_HypothesisID x] (cbb_ExpectedObservation x)"
| "call_intent s (SubmitDiagnosis x) =
     (intent_on (sbd_Intent x) [sbd_HypothesisID x] (sbd_ExpectedObservation x))\<lparr>intent_TargetScope := sbd_Targets x\<rparr>"
| "call_intent s (SubmitRecovery x) = intent_on (sbr_Intent x) [] (sbr_ExpectedObservation x)"
| "call_intent s (RequestSkills x) = intent_on (rqs_Intent x) [] (rqs_ExpectedObservation x)"
| "call_intent s (ReadSkillReference x) = intent_on (rsr_Intent x) [] (rsr_ExpectedObservation x)"
| "call_intent s (SelectCategory x) = intent_on (sbc_Intent x) [] (sbc_ExpectedObservation x)"
| "call_intent s (AdvancePhase x) = intent_on (abp_Intent x) [] (abp_ExpectedObservation x)"
| "call_intent s (FinishInvestigation x) = intent_on (fin_Intent x) [fin_HypothesisID x] (fin_ExpectedObservation x)"

definition call_envelope :: "hasher \<Rightarrow> WorkflowState \<Rightarrow> Incident \<Rightarrow> tool_stamp \<Rightarrow> brain_call \<Rightarrow> AgentActionEnvelope" where
  "call_envelope H s i st call = envelope_for H s i st (tool_name call) (call_category call) (call_intent s call)"

definition is_refusal :: "hasher \<Rightarrow> tool_stamp \<Rightarrow> tool_answer \<Rightarrow> bool" where
  "is_refusal H st a = (\<exists>env code summary. a = Inr (constraintBrainOutput H env code summary (ts_Now st)))"

lemma refusalI [simp]: "is_refusal H st (refuse H env st code summary)"
  "is_refusal H st (phaseConstraintOutput H s i st toolName category intent required)"
  by (auto simp: is_refusal_def refuse_def phaseConstraintOutput_def)

lemma denied_refusal:
  assumes "authorizeBrainTool H s env (ts_Now st) = Some denied"
  shows "is_refusal H st (authorized H s env st go)"
  using authorize_SomeD [OF assms] by (auto simp: authorized_def is_refusal_def assms)

lemma denied_phase:
  assumes "ws_Incident s = Some i" "authorizeBrainTool H s (env i) (ts_Now st) = Some denied"
  shows "is_refusal H st (with_incident s (\<lambda>i. if wrong then phaseConstraintOutput H s i st toolName category intent required
                                         else authorized H s (env i) st (go i)))"
    "is_refusal H st (with_incident s (\<lambda>i. authorized H s (env i) st (go i)))"
  using assms denied_refusal by (auto simp: with_incident_def)

lemma constraint_class: "out_Class (constraintBrainOutput H env code summary now) = ToolResultConstraint"
  by (simp add: constraintBrainOutput_def)

lemma denied_discovery: "is_refusal H st (runBrainEvidenceTool H D deps s st ''kubernetes'' ''discover_resources'' x) \<Longrightarrow>
    is_refusal H st (runBrainDiscoverResources H D sprint deps s st x)"
  by (auto simp: is_refusal_def runBrainDiscoverResources_def constraint_class) blast

lemmas run_defs = runBrainEvidenceTool_def runBrainIncidentRetrieval_def runBrainRunbookRetrieval_def runBrainPatternRetrieval_def
  runBrainSubmitUnderstanding_def runBrainSubmitPlan_def runBrainRevisePlan_def runBrainCompareHypotheses_def runBrainSubmitHypotheses_def
  runBrainReviseHypothesis_def runBrainValidateHypothesis_def runBrainCommitBelief_def runBrainSubmitDiagnosis_def
  runBrainValidateDiagnosis_def runBrainSubmitRecovery_def runBrainRequestSkills_def runBrainReadSkillReference_def
  runBrainSelectCategory_def runBrainAdvancePhase_def runBrainFinish_def

lemma denied_evidence:
  assumes "ws_Incident s = Some i" "authorizeBrainTool H s (envelope_for H s i st toolName BrainToolEvidence (evidence_intent x)) (ts_Now st) = Some denied"
  shows "is_refusal H st (runBrainEvidenceTool H D deps s st source toolName x)"
  unfolding runBrainEvidenceTool_def Let_def by (rule denied_phase(2), rule assms(1), rule assms(2))

text \<open>C11. The constraint kernel stands in front of every tool.  A call whose envelope the kernel denies is
  answered by a constraint and by nothing else, whatever the tool, the services and the input are: it
  carries no evidence, no hypothesis, no diagnosis and no end of the loop.\<close>

theorem denied_call_is_refused:
  assumes "ws_Incident s = Some i" "authorizeBrainTool H s (call_envelope H s i st call) (ts_Now st) = Some denied"
  shows "\<exists>env code summary. runBrainTool H D sprint W deps r s st call = Inr (constraintBrainOutput H env code summary (ts_Now st))"
proof -
  note denied = assms(2) [unfolded call_envelope_def]
  have "is_refusal H st (runBrainTool H D sprint W deps r s st call)"
  proof (cases call)
    case (DiscoverResources x)
    then show ?thesis using denied by (simp add: denied_discovery denied_evidence [OF assms(1)])
  next
    case (CollectEvidence source x)
    then show ?thesis using denied by (simp add: denied_evidence [OF assms(1)])
  qed (insert denied, simp only: runBrainTool.simps tool_name.simps call_category.simps call_intent.simps run_defs
      Let_def diagnosed_hypothesis_def, rule denied_phase, rule assms(1), assumption)+
  then show ?thesis by (simp add: is_refusal_def)
qed

definition advance_call :: brain_call where
  "advance_call = AdvancePhase \<lparr>abp_Intent = ''why'', abp_ExpectedObservation = [''seen''], abp_NextPhase = BrainPhaseDiagnosis\<rparr>"

definition spent_state :: WorkflowState where
  "spent_state = (tool_state BrainPhaseInvestigation)\<lparr>bs_BrainBudget := zero_BrainBudgetState\<lparr>bbs_ToolCallsExhausted := True\<rparr>\<rparr>"

lemma denied_call_is_refused_witness:
  "\<exists>env code summary. runBrainTool (\<lambda>_. ''h'') (\<lambda>_. ''d'') (\<lambda>_. []) plain_wording no_services no_skills spent_state tool_moment advance_call =
     Inr (constraintBrainOutput (\<lambda>_. ''h'') env code summary (ts_Now tool_moment))"
proof -
  have i: "ws_Incident spent_state = Some tool_incident" by (simp add: spent_state_def tool_state_def)
  have "authorizeBrainTool (\<lambda>_. ''h'') spent_state (call_envelope (\<lambda>_. ''h'') spent_state tool_incident tool_moment advance_call) (ts_Now tool_moment) \<noteq> None"
    by (simp add: authorizeBrainTool_def spent_state_def call_envelope_def envelope_for_def newBrainEnvelope_def isToolBudgetClosingAction_def advance_call_def)
  then obtain denied where "authorizeBrainTool (\<lambda>_. ''h'') spent_state (call_envelope (\<lambda>_. ''h'') spent_state tool_incident tool_moment advance_call) (ts_Now tool_moment) = Some denied"
    by blast
  from denied_call_is_refused [OF i this] show ?thesis .
qed

section \<open>Services\<close>

definition with_services :: "brainRuntimeDeps \<Rightarrow> brainRuntimeDeps \<Rightarrow> brainRuntimeDeps" where
  "with_services deps deps' = deps\<lparr>dep_Collectors := dep_Collectors deps', dep_BrainRetrieval := dep_BrainRetrieval deps',
     dep_Memory := dep_Memory deps', dep_Knowledge := dep_Knowledge deps'\<rparr>"

fun call_targets :: "brain_call \<Rightarrow> ResourceRef list" where
  "call_targets (CollectEvidence _ x) = bei_Targets x"
| "call_targets (DiscoverResources x) = bei_Targets x"
| "call_targets _ = []"

text \<open>A target an evidence tool may be asked about: it resolves within the scope of the incident.\<close>

definition readable :: "WorkflowState \<Rightarrow> Incident \<Rightarrow> brainRuntimeDeps \<Rightarrow> ResourceRef \<Rightarrow> bool" where
  "readable s i deps t = (let ctx = admission_context s i deps [BrainToolEvidence] in in_scope ctx i (resolveTarget t ctx))"

lemma admitted_readable: "target_admitted s i deps now t \<Longrightarrow> readable s i deps t"
  by (auto simp: target_admitted_def readable_def Admit_decision_iff Admit_reasons_def scope_check_def admission_context_def Let_def
      intro!: resolveTarget_in_scope)

lemma services_admission [simp]:
  "admission_context s i (with_services deps deps') cats = admission_context s i deps cats"
  "target_admitted s i (with_services deps deps') now t = target_admitted s i deps now t"
  by (simp_all add: admission_context_def with_services_def target_admitted_def)

lemma services_admit [simp]:
  "admit_proposal s i (with_services deps deps') st h = admit_proposal s i deps st h"
  "submitted_hypotheses s i (with_services deps deps') st ps = submitted_hypotheses s i deps st ps"
  by (simp_all add: admit_proposal_def submitted_hypotheses_def)

lemma services_handlers [simp]:
  "runBrainSubmitHypotheses H (with_services deps deps') s st x = runBrainSubmitHypotheses H deps s st x"
  "runBrainReviseHypothesis H (with_services deps deps') s st y = runBrainReviseHypothesis H deps s st y"
  unfolding runBrainSubmitHypotheses_def runBrainReviseHypothesis_def services_admit by (rule refl)+

lemma gated_differs:
  assumes "with_incident s (\<lambda>i. authorized H s (env i) st (go i)) \<noteq> with_incident s (\<lambda>i. authorized H s (env i) st (go' i))"
  shows "\<exists>i. ws_Incident s = Some i \<and> authorizeBrainTool H s (env i) (ts_Now st) = None \<and> go i \<noteq> go' i"
  using assms by (auto simp: with_incident_def authorized_def split: option.splits)

lemma evidence_differs:
  assumes "runBrainEvidenceTool H D deps s st source toolName x \<noteq> runBrainEvidenceTool H D (with_services deps deps') s st source toolName x"
  shows "\<exists>i. ws_Incident s = Some i \<and>
    authorizeBrainTool H s (envelope_for H s i st toolName BrainToolEvidence (evidence_intent x)) (ts_Now st) = None \<and>
    list_all (readable s i deps) (bei_Targets x)"
proof -
  from gated_differs [OF assms [unfolded runBrainEvidenceTool_def Let_def]] show ?thesis
    by (auto simp: list_all_iff admitted_readable split: if_splits)
qed

lemma discovery_differs:
  assumes "runBrainDiscoverResources H D sprint deps s st x \<noteq> runBrainDiscoverResources H D sprint (with_services deps deps') s st x"
  shows "runBrainEvidenceTool H D deps s st ''kubernetes'' ''discover_resources'' x \<noteq>
    runBrainEvidenceTool H D (with_services deps deps') s st ''kubernetes'' ''discover_resources'' x"
  using assms by (auto simp: runBrainDiscoverResources_def)

lemma retrieval_differs:
  "runBrainIncidentRetrieval H deps s st x \<noteq> runBrainIncidentRetrieval H (with_services deps deps') s st x \<Longrightarrow>
     \<exists>i. ws_Incident s = Some i \<and> authorizeBrainTool H s (envelope_for H s i st ''retrieve_incidents'' BrainToolRetrieval (retrieval_intent x)) (ts_Now st) = None"
  "runBrainRunbookRetrieval H deps s st x \<noteq> runBrainRunbookRetrieval H (with_services deps deps') s st x \<Longrightarrow>
     \<exists>i. ws_Incident s = Some i \<and> authorizeBrainTool H s (envelope_for H s i st ''retrieve_runbooks'' BrainToolRetrieval (retrieval_intent x)) (ts_Now st) = None"
  "runBrainPatternRetrieval H deps s st x \<noteq> runBrainPatternRetrieval H (with_services deps deps') s st x \<Longrightarrow>
     \<exists>i. ws_Incident s = Some i \<and> authorizeBrainTool H s (envelope_for H s i st ''retrieve_patterns'' BrainToolRetrieval (retrieval_intent x)) (ts_Now st) = None"
  unfolding runBrainIncidentRetrieval_def runBrainRunbookRetrieval_def runBrainPatternRetrieval_def Let_def
  by (drule gated_differs, blast)+

lemma differing_call:
  assumes "runBrainTool H D sprint W deps r s st call \<noteq> runBrainTool H D sprint W (with_services deps deps') r s st call"
  shows "call_category call \<in> {BrainToolEvidence, BrainToolRetrieval} \<and>
    (\<exists>i. ws_Incident s = Some i \<and> authorizeBrainTool H s (call_envelope H s i st call) (ts_Now st) = None \<and>
      list_all (readable s i deps) (call_targets call))"
  using assms
  by (cases call) (auto simp: call_envelope_def dest!: discovery_differs evidence_differs retrieval_differs)

lemma authorized_category:
  assumes "authorizeBrainTool H s env now = None"
  shows "env_ToolCategory env \<in> insert BrainToolControl (set (allowedCategoriesForState s))"
    and "bbs_ToolCallsExhausted (bs_BrainBudget s) \<Longrightarrow> isToolBudgetClosingAction (env_ToolName env)"
proof -
  from assms have "ToolPolicy_reasons H (effective_policy (stateToolPolicy s)) env (bs_ToolExecutions s)
      (list_ex (\<lambda>item. adm_Decision item = ''ADMITTED'') (bs_HypothesisAdmissions s)) (insert BrainToolControl (set (allowedCategoriesForState s))) = []"
    by (simp add: authorize_None_iff authorize_decision_def Validate_allowed_iff)
  then show "env_ToolCategory env \<in> insert BrainToolControl (set (allowedCategoriesForState s))"
    by (auto simp: ToolPolicy_reasons_def Let_def)
  show "bbs_ToolCallsExhausted (bs_BrainBudget s) \<Longrightarrow> isToolBudgetClosingAction (env_ToolName env)"
    using assms by (simp add: authorize_None_iff)
qed

text \<open>C5. No service is reached behind the kernel's back.  If the answer to a call depends at all on a collector,
  the retrieval pipeline, the memory or the causal knowledge, then the call is an evidence or retrieval
  call, its category is the active one and an active skill grants it, the tool budget is not
  exhausted, the kernel authorised its envelope, and every target it names lies in the scope of the incident.\<close>

theorem services_behind_the_kernel:
  assumes "runBrainTool H D sprint W deps r s st call \<noteq> runBrainTool H D sprint W (with_services deps deps') r s st call"
  shows "call_category call \<in> {BrainToolEvidence, BrainToolRetrieval} \<and> call_category call = bs_ActiveToolCategory s \<and>
    call_category call \<in> set (bs_ActiveSkillCategories s) \<and> \<not> bbs_ToolCallsExhausted (bs_BrainBudget s) \<and>
    (\<exists>i. ws_Incident s = Some i \<and> authorizeBrainTool H s (call_envelope H s i st call) (ts_Now st) = None \<and>
      list_all (readable s i deps) (call_targets call))"
proof -
  from differing_call [OF assms] obtain i where cat: "call_category call \<in> {BrainToolEvidence, BrainToolRetrieval}"
    and ok: "ws_Incident s = Some i" "authorizeBrainTool H s (call_envelope H s i st call) (ts_Now st) = None"
      "list_all (readable s i deps) (call_targets call)" by blast
  have env: "env_ToolCategory (call_envelope H s i st call) = call_category call" "env_ToolName (call_envelope H s i st call) = tool_name call"
    by (simp_all add: call_envelope_def envelope_for_def newBrainEnvelope_def)
  note gate = authorized_category [OF ok(2), unfolded env]
  have "call_category call = bs_ActiveToolCategory s \<and> call_category call \<in> set (bs_ActiveSkillCategories s)"
    using gate(1) cat by (auto simp: allowedCategoriesForState_def split: if_splits)
  moreover have "\<not> isToolBudgetClosingAction (tool_name call)"
    using cat by (cases call) (auto simp: isToolBudgetClosingAction_def brainEvidenceToolName_def)
  ultimately show ?thesis using cat ok gate(2) by blast
qed

definition metric_input :: brainEvidenceToolInput where
  "metric_input = \<lparr>bei_Intent = ''why'', bei_ExpectedObservation = [''seen''], bei_Targets = [], bei_HypothesisIDs = [],
     bei_EvidenceNeed = [], bei_SignalKinds = [], bei_WindowMinutes = 5\<rparr>"

abbreviation metric_call :: brain_call where "metric_call \<equiv> CollectEvidence ''metric'' metric_input"

definition evidence_state :: WorkflowState where
  "evidence_state = (tool_state BrainPhaseInvestigation)\<lparr>bs_ActiveToolCategory := BrainToolEvidence, bs_ActiveSkillCategories := [BrainToolEvidence]\<rparr>"

definition metric_services :: brainRuntimeDeps where
  "metric_services = no_services\<lparr>dep_Collectors := (\<lambda>source. if source = ''metric'' then Some (\<lambda>_ _. Some []) else None)\<rparr>"

lemma metric_authorized:
  "authorizeBrainTool H evidence_state (call_envelope H evidence_state tool_incident tool_moment metric_call) now = None"
  by (rule clear_envelope)
     (simp_all add: call_envelope_def envelope_for_def newBrainEnvelope_def metric_input_def evidence_state_def tool_examples zero_defs
        evidence_intent_def allowedCategoriesForState_def brainEvidenceToolName_def TrimSpace_def IsSpace_def)

lemma metric_answer:
  assumes "collector_for deps ''metric'' = c"
  shows "runBrainTool H D sprint W deps r evidence_state tool_moment metric_call =
    (let env = call_envelope H evidence_state tool_incident tool_moment metric_call; request = evidence_request ''metric'' metric_input (ts_Now tool_moment)
     in case c of None \<Rightarrow> unavailable H env tool_moment ''metric collector unavailable''
        | Some collect \<Rightarrow> (case collect (tool_incident\<lparr>inc_EvidenceStartAt := er_WindowStart request\<rparr>) request of
            None \<Rightarrow> unavailable H env tool_moment ''metric collector failed''
          | Some items \<Rightarrow> Inr (evidence_output H tool_incident ''metric'' ''query_metrics'' request
                (normalizeCollectedEvidence D tool_incident (ts_Now tool_moment) items))))"
proof -
  have i: "ws_Incident evidence_state = Some tool_incident" by (simp add: evidence_state_def tool_state_def)
  have targets: "bei_Targets metric_input = []" by (simp add: metric_input_def)
  have env: "authorizeBrainTool H evidence_state (envelope_for H evidence_state tool_incident tool_moment ''query_metrics'' BrainToolEvidence
      (evidence_intent metric_input)) (ts_Now tool_moment) = None"
    using metric_authorized [of H "ts_Now tool_moment"] by (simp add: call_envelope_def brainEvidenceToolName_def)
  show ?thesis
    by (cases c) (simp_all add: runBrainEvidenceTool_def with_incident_def i authorized_def env targets assms call_envelope_def
        brainEvidenceToolName_def Let_def split: option.split)
qed

lemma services_behind_the_kernel_witness:
  "\<not> bbs_ToolCallsExhausted (bs_BrainBudget evidence_state) \<and> call_category metric_call = bs_ActiveToolCategory evidence_state"
proof -
  have "runBrainTool (\<lambda>_. ''h'') (\<lambda>_. ''d'') (\<lambda>_. []) plain_wording no_services no_skills evidence_state tool_moment metric_call \<noteq>
      runBrainTool (\<lambda>_. ''h'') (\<lambda>_. ''d'') (\<lambda>_. []) plain_wording (with_services no_services metric_services) no_skills evidence_state tool_moment metric_call"
    unfolding metric_answer [OF refl]
    by (simp add: Let_def collector_for_def with_services_def metric_services_def no_services_def unavailable_def errorBrainOutput_def evidence_output_def
        normalizeCollectedEvidence_def zero_defs)
  from services_behind_the_kernel [OF this] show ?thesis by blast
qed

section \<open>Diagnosis\<close>

definition certified :: "WorkflowState \<Rightarrow> AgentDiagnosis \<Rightarrow> bool" where
  "certified s d = (\<exists>i h g. ws_Incident s = Some i \<and>
     findAgentHypothesis (bs_AgentHypotheses s) (diag_HypothesisRevisionID d) = Some h \<and>
     is_admitted (findHypothesisAdmission (bs_HypothesisAdmissions s) (diag_HypothesisRevisionID d)) \<and>
     findHypothesisGrounding (bs_HypothesisGroundings s) (diag_HypothesisRevisionID d) = Some g \<and>
     gr_Level g = GroundingSupported \<and> gr_EvidenceSnapshotHash g = bs_EvidenceSnapshotHash s \<and> gr_ID g \<in> set (diag_ValidationResultIDs d) \<and>
     diag_EvidenceSnapshotHash d = bs_EvidenceSnapshotHash s \<and> diag_ExecutionSnapshot d = bs_ExecutionSnapshot s \<and>
     diag_Statement d = hyp_Statement h \<and> diag_Category d = hyp_Category h \<and> diag_Mechanism d = hyp_Mechanism h \<and>
     diag_ModelConfidence d = hyp_ModelConfidence h \<and> set (diag_EvidenceIDs d) \<subseteq> set (map ev_ID (inc_Evidence i)))"

definition final_certified :: "WorkflowState \<Rightarrow> brainCapabilityOutput \<Rightarrow> bool" where
  "final_certified s out = (case out_Diagnosis out of None \<Rightarrow> True | Some d \<Rightarrow> diag_Provisional d \<or> certified s d)"

interpretation final: tool_contract "final_certified s" for s
  by unfold_locales (simp_all add: final_certified_def constraintBrainOutput_def errorBrainOutput_def zero_defs)

lemma validated_certified:
  assumes "ws_Incident s = Some i" "\<not> dv_Provisional (validated H s i st d)"
  shows "certified s (d\<lparr>diag_GroundingLevel := a, diag_Provisional := b\<rparr>)"
proof -
  let ?g = "findHypothesisGrounding (bs_HypothesisGroundings s) (diag_HypothesisRevisionID d)"
    and ?h = "findAgentHypothesis (bs_AgentHypotheses s) (diag_HypothesisRevisionID d)"
  from assms(2) have reasons: "diagnosis_reasons H s i d = []"
    and level: "(case ?g of None \<Rightarrow> GroundingUnknown | Some g \<Rightarrow> gr_Level g) = GroundingSupported"
    by (simp_all add: validated_def Let_def)
  from level obtain g where g: "?g = Some g" "gr_Level g = GroundingSupported" by (cases ?g) auto
  from reasons obtain h where h: "?h = Some h" by (cases ?h) (auto simp: diagnosis_reasons_def Let_def)
  from reasons g h show ?thesis
    unfolding certified_def using assms(1)
    by (auto simp: diagnosis_reasons_def Let_def cites_grounding_def same_semantics_def list_all_iff)
qed

lemma submit_diagnosis_final: "answers (final_certified s) (runBrainSubmitDiagnosis H s st x)"
  unfolding runBrainSubmitDiagnosis_def Let_def
  by (rule final.phasedI) (simp add: final_certified_def submitted_diagnosis_def validation_output_def zero_defs split: option.split prod.split)

lemma validate_diagnosis_final: "answers (final_certified s) (runBrainValidateDiagnosis H s st x)"
  unfolding runBrainValidateDiagnosis_def Let_def
  by (rule final.phasedI)
     (auto simp: final_certified_def validation_output_def zero_defs intro: validated_certified split: option.split)

lemmas final_answers = submit_diagnosis_final [THEN answersD] validate_diagnosis_final [THEN answersD]

text \<open>C4. A diagnosis becomes final only on proof.  Whatever tool is called with whatever input, a
  diagnosis in the answer that is not provisional names an existing, admitted hypothesis whose
  current grounding is SUPPORTED on the current evidence snapshot and is cited by the diagnosis; its statement, category,
  mechanism and confidence are those of the hypothesis, its snapshots are the current ones, and the evidence
  it cites belongs to the incident.\<close>

theorem final_diagnosis_is_certified:
  assumes "runBrainTool H D sprint W deps r s st call = Inr out" "out_Diagnosis out = Some d" "\<not> diag_Provisional d"
  shows "certified s d"
proof -
  have "final_certified s out"
    using authority(1) [OF assms(1)] assms(1,2) by (auto dest: final_answers)
  then show ?thesis using assms(2,3) by (simp add: final_certified_def)
qed

definition grounded_diagnosis :: AgentDiagnosis where
  "grounded_diagnosis = zero_AgentDiagnosis\<lparr>diag_ID := ''d1'', diag_HypothesisRevisionID := ''h1'', diag_ModelConfidence := 1/2,
     diag_EvidenceIDs := [''e1''], diag_ValidationResultIDs := [''g1''], diag_Provisional := True\<rparr>"

definition grounded_state :: WorkflowState where
  "grounded_state = (tool_state BrainPhaseDiagnosis)\<lparr>bs_AgentDiagnosis := Some grounded_diagnosis,
     bs_HypothesisAdmissions := [zero_HypothesisAdmission\<lparr>adm_HypothesisRevisionID := ''h1'', adm_Decision := ''ADMITTED''\<rparr>],
     bs_HypothesisGroundings := [zero_HypothesisGrounding\<lparr>gr_ID := ''g1'', gr_HypothesisRevisionID := ''h1'', gr_Level := GroundingSupported\<rparr>]\<rparr>"

definition validate_call :: brain_call where
  "validate_call = ValidateDiagnosis \<lparr>vbd_Intent = ''why'', vbd_ExpectedObservation = [''seen''], vbd_DiagnosisID = ''d1''\<rparr>"

lemma grounded_authorized:
  "authorizeBrainTool H grounded_state (call_envelope H grounded_state tool_incident tool_moment validate_call) now = None"
  by (rule clear_envelope)
     (simp_all add: call_envelope_def envelope_for_def newBrainEnvelope_def validate_call_def grounded_state_def grounded_diagnosis_def tool_examples
        intent_on_def diagnosed_hypothesis_def allowedCategoriesForState_def zero_defs TrimSpace_def IsSpace_def nonEmpty_empty_iff)

lemma grounded_reasons: "diagnosis_reasons H grounded_state tool_incident grounded_diagnosis = []"
  by (simp add: diagnosis_reasons_def grounded_state_def grounded_diagnosis_def tool_examples cites_grounding_def same_semantics_def
      findAgentHypothesis_def findHypothesisAdmission_def findHypothesisGrounding_def is_admitted_def zero_defs)

lemma final_diagnosis_is_certified_witness:
  "certified grounded_state (grounded_diagnosis\<lparr>diag_GroundingLevel := GroundingSupported, diag_Provisional := False\<rparr>)"
proof -
  let ?d = "grounded_diagnosis\<lparr>diag_GroundingLevel := GroundingSupported, diag_Provisional := False\<rparr>"
  have v: "dv_GroundingLevel (validated (\<lambda>_. ''h'') grounded_state tool_incident tool_moment grounded_diagnosis) = GroundingSupported"
      "\<not> dv_Provisional (validated (\<lambda>_. ''h'') grounded_state tool_incident tool_moment grounded_diagnosis)"
    by (simp_all add: validated_def grounded_reasons) (simp_all add: grounded_state_def grounded_diagnosis_def findHypothesisGrounding_def tool_examples)
  have "ws_Incident grounded_state = Some tool_incident" "bs_BrainPhase grounded_state = BrainPhaseDiagnosis"
      "bs_AgentDiagnosis grounded_state = Some grounded_diagnosis" "diag_ID grounded_diagnosis = ''d1''"
    by (simp_all add: grounded_state_def tool_state_def grounded_diagnosis_def)
  then have "\<exists>out. runBrainTool (\<lambda>_. ''h'') (\<lambda>_. ''d'') (\<lambda>_. []) plain_wording no_services no_skills grounded_state tool_moment validate_call = Inr out \<and>
      out_Diagnosis out = Some ?d"
    using grounded_authorized [of "\<lambda>_. ''h''" "ts_Now tool_moment"] v
    by (simp add: validate_call_def runBrainValidateDiagnosis_def with_incident_def authorized_def call_envelope_def diagnosed_hypothesis_def
        validation_output_def Let_def)
  then obtain out where "runBrainTool (\<lambda>_. ''h'') (\<lambda>_. ''d'') (\<lambda>_. []) plain_wording no_services no_skills grounded_state tool_moment validate_call = Inr out"
      "out_Diagnosis out = Some ?d" by blast
  from final_diagnosis_is_certified [OF this] show ?thesis by simp
qed

section \<open>Hypotheses\<close>

lemma next_version_ge: "v \<le> foldl (\<lambda>version h. if hyp_LineageID h = lineage \<and> hyp_Version h \<ge> version then hyp_Version h + 1 else version) v items"
proof (induction items arbitrary: v)
  case (Cons h items)
  show ?case using Cons.IH [of v] Cons.IH [of "hyp_Version h + 1"] by auto
qed simp

lemma next_version_gt:
  assumes "h \<in> set items" "hyp_LineageID h = lineage"
  shows "hyp_Version h < foldl (\<lambda>version h. if hyp_LineageID h = lineage \<and> hyp_Version h \<ge> version then hyp_Version h + 1 else version) v items"
  using assms
proof (induction items arbitrary: v)
  case (Cons g items)
  show ?case
  proof (cases "h = g")
    case True
    then show ?thesis using Cons.prems(2) next_version_ge [of "hyp_Version h + 1" lineage items] next_version_ge [of v lineage items] by auto
  qed (use Cons in auto)
qed simp

definition fresh_version :: "AgentHypothesis list \<Rightarrow> AgentHypothesis \<Rightarrow> bool" where
  "fresh_version items h = list_all (\<lambda>g. hyp_LineageID g \<noteq> hyp_LineageID h \<or> hyp_Version g < hyp_Version h) items"

definition decided :: "HypothesisAdmission list \<Rightarrow> AgentHypothesis \<Rightarrow> bool" where
  "decided admissions h = (\<exists>a\<in>set admissions. adm_HypothesisRevisionID a = hyp_ID h \<and>
     hyp_Status h = (if adm_Decision a = ''ADMITTED'' then HypothesisAdmitted else HypothesisProposed))"

lemma admit_proposal_fields:
  assumes "admit_proposal s i deps st h = (h', a)"
  shows "hyp_ID h' = hyp_ID h" "hyp_LineageID h' = hyp_LineageID h" "hyp_Version h' = hyp_Version h" "adm_HypothesisRevisionID a = hyp_ID h"
    "hyp_Status h = HypothesisProposed \<Longrightarrow> hyp_Status h' = (if adm_Decision a = ''ADMITTED'' then HypothesisAdmitted else HypothesisProposed)"
  using assms by (auto simp: admit_proposal_def admit_status_def Admit_def Let_def)

lemma proposed_fields [simp]:
  "hyp_ID (proposed_hypothesis s st hid lineage version p) = hid" "hyp_LineageID (proposed_hypothesis s st hid lineage version p) = lineage"
  "hyp_Version (proposed_hypothesis s st hid lineage version p) = version"
  "hyp_Status (proposed_hypothesis s st hid lineage version p) = HypothesisProposed"
  by (simp_all add: proposed_hypothesis_def)

lemma revision_fields [simp]:
  "hyp_LineageID (hypothesis_revision s st lineage version x) = lineage" "hyp_Version (hypothesis_revision s st lineage version x) = version"
  "hyp_Status (hypothesis_revision s st lineage version x) = HypothesisProposed"
  by (simp_all add: hypothesis_revision_def)

text \<open>What a new hypothesis promises, by the way it came about.\<close>

definition new_root :: "WorkflowState \<Rightarrow> AgentHypothesis list \<Rightarrow> AgentHypothesis \<Rightarrow> bool" where
  "new_root s hyps h = (hyp_Version h = 1 \<and> hyp_LineageID h = hyp_ID h \<and>
     bu_ActiveHypotheses (bbs_Usage (bs_BrainBudget s)) + int (length hyps) \<le> bb_MaxActiveHypotheses (bbs_Limits (bs_BrainBudget s)))"

definition new_revision :: "WorkflowState \<Rightarrow> AgentHypothesis list \<Rightarrow> AgentHypothesis \<Rightarrow> bool" where
  "new_revision s hyps h = (hyps = [h] \<and> fresh_version (bs_AgentHypotheses s) h \<and>
     hyp_LineageID h \<in> set (map hyp_LineageID (bs_AgentHypotheses s)) \<and>
     hyp_Version h \<le> bb_MaxRevisionsPerLineage (bbs_Limits (bs_BrainBudget s)) + 1)"

definition lawful_hypotheses :: "WorkflowState \<Rightarrow> brainCapabilityOutput \<Rightarrow> bool" where
  "lawful_hypotheses s out = list_all (\<lambda>h. decided (out_Admissions out) h \<and>
     (new_root s (out_Hypotheses out) h \<or> new_revision s (out_Hypotheses out) h)) (out_Hypotheses out)"

interpretation lawful: tool_contract "lawful_hypotheses s" for s
  by unfold_locales (simp_all add: lawful_hypotheses_def constraintBrainOutput_def errorBrainOutput_def zero_defs)

lemma submitted_lawful:
  assumes "bu_ActiveHypotheses (bbs_Usage (bs_BrainBudget s)) + int (length ps) \<le> bb_MaxActiveHypotheses (bbs_Limits (bs_BrainBudget s))"
    and "h \<in> set (map fst (submitted_hypotheses s i deps st ps))"
  shows "decided (map snd (submitted_hypotheses s i deps st ps)) h \<and> new_root s (map fst (submitted_hypotheses s i deps st ps)) h"
proof -
  from assms(2) obtain a where pair: "(h, a) \<in> set (submitted_hypotheses s i deps st ps)" by auto
  then obtain n p where "admit_proposal s i deps st (proposed_hypothesis s st (''hyp:'' @ ts_ID st n) (''hyp:'' @ ts_ID st n) 1 p) = (h, a)"
    by (auto simp: submitted_hypotheses_def Let_def)
  note f = admit_proposal_fields [OF this]
  have "length (submitted_hypotheses s i deps st ps) = length ps" by (simp add: submitted_hypotheses_def)
  then show ?thesis using f assms(1) pair by (force simp: decided_def new_root_def)
qed

lemma submit_hypotheses_lawful: "answers (lawful_hypotheses s) (runBrainSubmitHypotheses H deps s st x)"
  unfolding runBrainSubmitHypotheses_def Let_def
  by (rule lawful.phasedI) (simp add: lawful_hypotheses_def list_all_iff submitted_lawful del: set_map)

lemma revised_lawful:
  assumes "parent \<in> set (bs_AgentHypotheses s)" "lineage = hyp_LineageID parent" "version = next_version (bs_AgentHypotheses s) lineage"
    "version \<le> bb_MaxRevisionsPerLineage (bbs_Limits (bs_BrainBudget s)) + 1"
    "admit_proposal s i deps st (hypothesis_revision s st lineage version x) = (h, a)"
  shows "decided [a] h \<and> new_revision s [h] h"
  using admit_proposal_fields [OF assms(5)] assms(1-4) next_version_gt [of _ "bs_AgentHypotheses s" lineage 1]
  by (auto simp: decided_def new_revision_def fresh_version_def list_all_iff next_version_def)

lemma known_parent:
  assumes "List.map_filter (findAgentHypothesis (bs_AgentHypotheses s)) ids = parent # rest"
  shows "parent \<in> set (bs_AgentHypotheses s)"
proof -
  have "parent \<in> set (List.map_filter (findAgentHypothesis (bs_AgentHypotheses s)) ids)" by (simp add: assms)
  then show ?thesis by (auto simp: List.map_filter_def dest: findAgentHypothesis_SomeD split: option.splits)
qed

lemma revise_hypothesis_lawful: "answers (lawful_hypotheses s) (runBrainReviseHypothesis H deps s st x)"
  unfolding runBrainReviseHypothesis_def Let_def
  by (rule lawful.phasedI)
     (auto simp: lawful_hypotheses_def not_less intro: revised_lawful [THEN conjunct1] revised_lawful [THEN conjunct2] known_parent
        split: list.split prod.split)

lemmas lawful_answers = submit_hypotheses_lawful [THEN answersD] revise_hypothesis_lawful [THEN answersD]

text \<open>C13. Hypotheses stay within their budgets and keep their lineages linear.  Whatever tool is called, each
  hypothesis of the answer carries the decision of its admission as its status, and is either a new root
  of version 1, submitted within the limit of active hypotheses, or the single revision of an
  existing lineage with a version above all versions of that lineage and within the revision limit.\<close>

theorem hypotheses_are_lawful:
  assumes "runBrainTool H D sprint W deps r s st call = Inr out" "h \<in> set (out_Hypotheses out)"
  shows "decided (out_Admissions out) h \<and> (new_root s (out_Hypotheses out) h \<or> new_revision s (out_Hypotheses out) h)"
proof -
  have "out_Hypotheses out \<noteq> []" using assms(2) by auto
  then have "lawful_hypotheses s out"
    using authority(2) [OF assms(1)] assms(1) by (auto dest: lawful_answers)
  then show ?thesis using assms(2) by (simp add: lawful_hypotheses_def list_all_iff)
qed

definition proposal_input :: submitBrainHypothesesInput where
  "proposal_input = \<lparr>sbh_Intent = ''why'', sbh_ExpectedObservation = [''seen''], sbh_Hypotheses =
     [\<lparr>pbh_Statement = ''pool'', pbh_Category = [], pbh_Mechanism = [], pbh_Targets = [], pbh_EvidenceNeeds = [], pbh_FalsificationConditions = [],
       pbh_ModelConfidence = 1/2\<rparr>]\<rparr>"

definition proposing_state :: WorkflowState where
  "proposing_state = (tool_state BrainPhaseInvestigation)\<lparr>bs_BrainBudget := zero_BrainBudgetState\<lparr>bbs_Limits := zero_BrainBudget\<lparr>bb_MaxActiveHypotheses := 5\<rparr>\<rparr>\<rparr>"

lemma proposing_authorized:
  "authorizeBrainTool H proposing_state (call_envelope H proposing_state tool_incident tool_moment (SubmitHypotheses proposal_input)) now = None"
  by (rule clear_envelope)
     (simp_all add: call_envelope_def envelope_for_def newBrainEnvelope_def proposal_input_def proposing_state_def tool_examples
        intent_on_def allowedCategoriesForState_def zero_defs TrimSpace_def IsSpace_def)

lemma hypotheses_are_lawful_witness:
  "\<exists>h (out :: brainCapabilityOutput). decided (out_Admissions out) h \<and> (new_root proposing_state (out_Hypotheses out) h \<or> new_revision proposing_state (out_Hypotheses out) h)"
proof -
  let ?run = "runBrainTool (\<lambda>_. ''h'') (\<lambda>_. ''d'') (\<lambda>_. []) plain_wording no_services no_skills proposing_state tool_moment (SubmitHypotheses proposal_input)"
  have i: "ws_Incident proposing_state = Some tool_incident" "investigating proposing_state"
    "bu_ActiveHypotheses (bbs_Usage (bs_BrainBudget proposing_state)) + int (length (sbh_Hypotheses proposal_input)) \<le>
       bb_MaxActiveHypotheses (bbs_Limits (bs_BrainBudget proposing_state))"
    by (simp_all add: proposing_state_def tool_state_def investigating_def proposal_input_def zero_defs)
  have "\<exists>out. ?run = Inr out \<and> out_Hypotheses out = map fst (submitted_hypotheses proposing_state tool_incident no_services tool_moment (sbh_Hypotheses proposal_input))"
    using proposing_authorized [of "\<lambda>_. ''h''" "ts_Now tool_moment"] i
    by (simp add: runBrainSubmitHypotheses_def with_incident_def authorized_def call_envelope_def Let_def)
  moreover have "length (submitted_hypotheses proposing_state tool_incident no_services tool_moment (sbh_Hypotheses proposal_input)) = 1"
    by (simp add: submitted_hypotheses_def proposal_input_def)
  ultimately obtain out h where "?run = Inr out" "h \<in> set (out_Hypotheses out)" by (metis length_map length_greater_0_conv nth_mem zero_less_one)
  from hypotheses_are_lawful [OF this] show ?thesis by blast
qed

section \<open>The end of the loop\<close>

definition model_reasons :: "TerminationReason list" where
  "model_reasons = [TerminationHumanEscalation, TerminationDiagnosisConfident, TerminationDiagnosisProvisional, TerminationEvidenceSaturated]"

definition grounds_for :: "WorkflowState \<Rightarrow> TerminationEvent \<Rightarrow> bool" where
  "grounds_for s t = (term_Reason t \<in> set model_reasons \<and> term_EvidenceSnapshotHash t = bs_EvidenceSnapshotHash s \<and>
     (term_Reason t \<in> {TerminationDiagnosisConfident, TerminationDiagnosisProvisional} \<longrightarrow>
        (\<exists>d. bs_AgentDiagnosis s = Some d \<and> diag_HypothesisRevisionID d = term_FinalHypothesisRevisionID t \<and>
             diag_Provisional d = (term_Reason t = TerminationDiagnosisProvisional))) \<and>
     (term_Reason t = TerminationEvidenceSaturated \<longrightarrow> bs_RequestedSkills s = [] \<and>
        tcp_MaxNoInformationStreak (bs_BrainToolPolicy s) \<le> int (trailing_no_information (bs_ToolExecutions s))))"

definition lawful_end :: "WorkflowState \<Rightarrow> brainCapabilityOutput \<Rightarrow> bool" where
  "lawful_end s out = (case out_Termination out of None \<Rightarrow> True | Some t \<Rightarrow> grounds_for s t)"

interpretation ending: tool_contract "lawful_end s" for s
  by unfold_locales (simp_all add: lawful_end_def constraintBrainOutput_def errorBrainOutput_def zero_defs)

lemma request_grounds:
  assumes "validateBrainTerminationRequest s x = None"
    and "NewTermination (fin_Reason x) turn (fin_HypothesisID x) (bs_EvidenceSnapshotHash s) snapshot gaps budget now = Inr t"
  shows "grounds_for s t"
  using assms
  by (auto simp: validateBrainTerminationRequest_def NewTermination_def grounds_for_def model_reasons_def
      split: TerminationReason.splits option.splits if_splits)

lemma finish_lawful: "answers (lawful_end s) (runBrainFinish H s st x)"
  unfolding runBrainFinish_def Let_def
  by (rule ending.gatedI) (auto simp: lawful_end_def validation_output_def zero_defs intro: request_grounds split: option.split sum.split)

text \<open>C14. The model ends the loop only for a reason it owns and has grounds for.  A termination in an answer
  carries one of four reasons and the current evidence snapshot; a confident end names the current diagnosis and
  that diagnosis is final, a provisional end names a provisional one; and saturation needs the configured streak of
  calls without new information and no pending skill request.  Approval, safety, budget, recovery and
  infrastructure outcomes are never the model's.\<close>

theorem model_ends_with_grounds:
  assumes "runBrainTool H D sprint W deps r s st call = Inr out" "out_Termination out = Some t"
  shows "grounds_for s t"
proof -
  have "lawful_end s out"
    using authority(4) [OF assms(1)] assms finish_lawful [THEN answersD] by auto
  then show ?thesis using assms(2) by (simp add: lawful_end_def)
qed

definition escalation_input :: finishBrainInput where
  "escalation_input = \<lparr>fin_Intent = ''why'', fin_ExpectedObservation = [''seen''], fin_Reason = TerminationHumanEscalation,
     fin_HypothesisID = ''h1'', fin_UnresolvedGaps = []\<rparr>"

lemma escalation_authorized:
  "authorizeBrainTool H (tool_state BrainPhaseInvestigation)
     (call_envelope H (tool_state BrainPhaseInvestigation) tool_incident tool_moment (FinishInvestigation escalation_input)) now = None"
  by (rule clear_envelope)
     (simp_all add: call_envelope_def envelope_for_def newBrainEnvelope_def escalation_input_def tool_examples
        intent_on_def zero_defs TrimSpace_def IsSpace_def)

lemma model_ends_with_grounds_witness:
  "\<exists>t. term_Reason t = TerminationHumanEscalation \<and> grounds_for (tool_state BrainPhaseInvestigation) t"
proof -
  let ?s = "tool_state BrainPhaseInvestigation"
  let ?run = "runBrainTool (\<lambda>_. ''h'') (\<lambda>_. ''d'') (\<lambda>_. []) plain_wording no_services no_skills ?s tool_moment (FinishInvestigation escalation_input)"
  have "ws_Incident ?s = Some tool_incident" "fin_Reason escalation_input = TerminationHumanEscalation"
    by (simp_all add: tool_state_def escalation_input_def)
  then have "\<exists>out t. ?run = Inr out \<and> out_Termination out = Some t \<and> term_Reason t = TerminationHumanEscalation"
    using escalation_authorized [of "\<lambda>_. ''h''" "ts_Now tool_moment"]
    by (simp add: runBrainFinish_def with_incident_def authorized_def call_envelope_def validateBrainTerminationRequest_def NewTermination_def
        validation_output_def Let_def)
  then obtain out t where "?run = Inr out" "out_Termination out = Some t" "term_Reason t = TerminationHumanEscalation" by blast
  from model_ends_with_grounds [OF this(1,2)] this(3) show ?thesis by blast
qed

section \<open>Two belief changes in one turn\<close>

text \<open>An accepted change starts from the confidence of the hypothesis it names, and moves it.\<close>

definition from_belief :: "WorkflowState \<Rightarrow> string \<Rightarrow> brainCapabilityOutput \<Rightarrow> bool" where
  "from_belief s hid out = (case out_BeliefDelta out of None \<Rightarrow> True
     | Some d \<Rightarrow> (case findAgentHypothesis (bs_AgentHypotheses s) hid of None \<Rightarrow> False
         | Some h \<Rightarrow> bd_Committed d \<and> bd_HypothesisRevisionID d = hid \<and> bd_PreviousConfidence d = hyp_ModelConfidence h \<and>
             bd_NewConfidence d \<noteq> hyp_ModelConfidence h))"

interpretation belief: tool_contract "from_belief s hid" for s hid
  by unfold_locales (simp_all add: from_belief_def constraintBrainOutput_def errorBrainOutput_def zero_defs)

lemma commit_from_belief: "answers (from_belief s (cbb_HypothesisID x)) (runBrainCommitBelief H w s st x)"
  unfolding runBrainCommitBelief_def Let_def
  by (rule belief.phasedI)
     (auto simp: from_belief_def validation_output_def zero_defs belief_delta_def belief_refusal_def split: option.split prod.split sum.split if_splits)

lemma commit_two_deltas:
  assumes "bd_Committed d1" "bd_Committed d2" "bd_HypothesisRevisionID d1 = hid" "bd_HypothesisRevisionID d2 = hid"
    and "bd_PreviousConfidence d1 = c" "bd_PreviousConfidence d2 = c" "bd_NewConfidence d1 \<noteq> c"
  shows "snd (commit_deltas [d1, d2] s) \<noteq> None"
proof (cases "hypothesis_index hid (bs_AgentHypotheses s)")
  case (Some n)
  have n: "n < length (bs_AgentHypotheses s)" "hyp_ID (bs_AgentHypotheses s ! n) = hid" using hypothesis_index_SomeD [OF Some] by simp_all
  show ?thesis
  proof (cases "CommitBelief (bs_AgentHypotheses s ! n) d1")
    case (Inr h)
    then have h: "hyp_ID h = hid" "hyp_ModelConfidence h = bd_NewConfidence d1"
      using n(2) by (auto simp: CommitBelief_def Let_def split: if_splits BeliefDirection.splits)
    have ids: "map hyp_ID ((bs_AgentHypotheses s)[n := h]) = map hyp_ID (bs_AgentHypotheses s)" using n h(1) by (simp add: map_update list_update_same_conv)
    have "hypothesis_index hid ((bs_AgentHypotheses s)[n := h]) = Some n" using hypothesis_index_ids [OF ids] Some by simp
    then show ?thesis using assms Some Inr h n by (simp add: advance_belief_cursor_def)
  qed (use assms Some in simp)
qed (use assms in simp)

text \<open>Two belief changes of one turn for the same hypothesis break the run.  Both calls are checked against
  the state before the turn, so both can be accepted; whichever state the updates of the turn lead to,
  if their two deltas are the pending ones then the belief commit ends in an error and the graph fails with
  it.\<close>

theorem second_belief_change_fails:
  assumes "runBrainTool H D sprint W deps r s st1 (CommitBeliefDelta x) = Inr out1" "out_BeliefDelta out1 = Some d1"
    and "runBrainTool H D sprint W deps r s st2 (CommitBeliefDelta y) = Inr out2" "out_BeliefDelta out2 = Some d2"
    and "cbb_HypothesisID x = cbb_HypothesisID y" "drop (nat (bs_BeliefDeltaCursor t)) (bs_BeliefDeltas t) = [d1, d2]"
  shows "snd (beliefCommit t) \<noteq> None"
proof -
  have 1: "from_belief s (cbb_HypothesisID x) out1" using assms(1) commit_from_belief [THEN answersD] by simp
  have 2: "from_belief s (cbb_HypothesisID x) out2" using assms(3,5) commit_from_belief [THEN answersD] by simp
  from 1 2 assms(2,4) obtain h where "findAgentHypothesis (bs_AgentHypotheses s) (cbb_HypothesisID x) = Some h"
      "bd_Committed d1" "bd_HypothesisRevisionID d1 = cbb_HypothesisID x" "bd_PreviousConfidence d1 = hyp_ModelConfidence h"
      "bd_NewConfidence d1 \<noteq> hyp_ModelConfidence h" "bd_Committed d2" "bd_HypothesisRevisionID d2 = cbb_HypothesisID x"
      "bd_PreviousConfidence d2 = hyp_ModelConfidence h"
    by (auto simp: from_belief_def split: option.splits)
  then have "snd (commit_deltas [d1, d2] t) \<noteq> None" by (intro commit_two_deltas)
  then show ?thesis unfolding beliefCommit_def assms(6) by (cases "commit_deltas [d1, d2] t") auto
qed

definition change_input :: "rat \<Rightarrow> commitBrainBeliefInput" where
  "change_input c = \<lparr>cbb_Intent = ''why'', cbb_ExpectedObservation = [''seen''], cbb_HypothesisID = ''h1'', cbb_NewConfidence = c,
     cbb_Direction = BeliefIncrease, cbb_EvidenceIDs = [''e1''], cbb_ValidationIDs = [], cbb_RevisionRequired = False, cbb_RevisionReason = []\<rparr>"

abbreviation reflecting_state :: WorkflowState where "reflecting_state \<equiv> tool_state BrainPhaseReflection"

lemma change_authorized:
  "authorizeBrainTool H reflecting_state (call_envelope H reflecting_state tool_incident tool_moment (CommitBeliefDelta (change_input c))) now = None"
  by (rule clear_envelope)
     (simp_all add: call_envelope_def envelope_for_def newBrainEnvelope_def change_input_def tool_examples
        intent_on_def allowedCategoriesForState_def zero_defs TrimSpace_def IsSpace_def)

lemma change_accepted:
  assumes "1/2 < c" "c \<le> 1"
  shows "\<exists>out d. runBrainTool H D sprint W deps r reflecting_state tool_moment (CommitBeliefDelta (change_input c)) = Inr out \<and> out_BeliefDelta out = Some d"
proof -
  have "ws_Incident reflecting_state = Some tool_incident" "bs_BrainPhase reflecting_state = BrainPhaseReflection"
    "findAgentHypothesis (bs_AgentHypotheses reflecting_state) ''h1'' = Some tool_hypothesis"
    by (simp_all add: tool_state_def findAgentHypothesis_def tool_hypothesis_def)
  moreover have "belief_refusal reflecting_state tool_incident tool_hypothesis (change_input c) = None"
    using assms by (simp add: belief_refusal_def change_input_def tool_hypothesis_def tool_incident_def)
  moreover have "\<exists>h. CommitBelief tool_hypothesis (belief_delta tool_hypothesis tool_moment (change_input c)) = Inr h"
    using assms by (simp add: CommitBelief_def belief_delta_def change_input_def tool_hypothesis_def)
  moreover have "cbb_HypothesisID (change_input c) = ''h1''" by (simp add: change_input_def)
  ultimately show ?thesis
    using change_authorized [of H c "ts_Now tool_moment"]
    by (auto simp: runBrainCommitBelief_def with_incident_def authorized_def call_envelope_def validation_output_def Let_def)
qed

lemma second_belief_change_fails_witness:
  "\<exists>t. bs_BeliefDeltas t \<noteq> [] \<and> snd (beliefCommit t) \<noteq> None"
proof -
  let ?run = "\<lambda>c. runBrainTool (\<lambda>_. ''h'') (\<lambda>_. ''d'') (\<lambda>_. []) plain_wording no_services no_skills reflecting_state tool_moment (CommitBeliefDelta (change_input c))"
  obtain out1 d1 where 1: "?run (3/5) = Inr out1" "out_BeliefDelta out1 = Some d1" using change_accepted [of "3/5"] by fastforce
  obtain out2 d2 where 2: "?run (4/5) = Inr out2" "out_BeliefDelta out2 = Some d2" using change_accepted [of "4/5"] by fastforce
  let ?t = "reflecting_state\<lparr>bs_BeliefDeltas := [d1, d2]\<rparr>"
  have "cbb_HypothesisID (change_input (3/5)) = cbb_HypothesisID (change_input (4/5))" by (simp add: change_input_def)
  moreover have "drop (nat (bs_BeliefDeltaCursor ?t)) (bs_BeliefDeltas ?t) = [d1, d2]" by (simp add: tool_state_def)
  ultimately have "snd (beliefCommit ?t) \<noteq> None" by (rule second_belief_change_fails [OF 1 2])
  then show ?thesis by (intro exI [of _ ?t]) simp
qed

end
