(* ===== verification/Incident_Store.thy ===== *)
theory Incident_Store
  imports Incident_Lifecycle "HOL-Library.AList"
begin

text \<open>\<^verbatim>\<open>internal/store/store.go\<close>: the interfaces the incident manager is written against, as a record of
  operations on an abstract store, the contract it relies on as a locale, and the built-in
  \<^verbatim>\<open>MemoryStore\<close>, which fulfils it.  A Go map is a list of pairs with distinct keys in the order in
  which an iteration happens to visit it; only \<^verbatim>\<open>List\<close> and \<^verbatim>\<open>FindByFingerprint\<close> depend on that order.
  The mutex makes each operation atomic.\<close>

section \<open>The interface\<close>

datatype store_error = ErrNotFound | StoreFailure string

text \<open>The events of a workflow run (\<^verbatim>\<open>graph/callback.go\<close>), which a store may keep.\<close>

record WorkflowEvent =
  wev_IncidentID :: string
  wev_RunID :: string
  wev_Type :: string
  wev_Name :: string
  wev_Component :: string
  wev_Error :: string
  wev_InputTokens :: int
  wev_OutputTokens :: int
  wev_OccurredAt :: time
  wev_TimeToFirstChunkMS :: rat
  wev_TimeToToolCallMS :: rat
  wev_StreamDurationMS :: rat

text \<open>\<^verbatim>\<open>IncidentStore\<close> with the three extensions the manager asks for by a type assertion, which a store may lack.\<close>

record 's store =
  st_Create :: "Incident \<Rightarrow> 's \<Rightarrow> store_error option \<times> 's"
  st_Update :: "Incident \<Rightarrow> 's \<Rightarrow> store_error option \<times> 's"
  st_Get :: "string \<Rightarrow> 's \<Rightarrow> store_error + Incident"
  st_List :: "int \<Rightarrow> int \<Rightarrow> 's \<Rightarrow> store_error + Incident list"
  st_FindByFingerprint :: "string \<Rightarrow> 's \<Rightarrow> store_error + Incident"
  st_AppendAudit :: "AuditEvent \<Rightarrow> 's \<Rightarrow> store_error option \<times> 's"
  st_ListAudit :: "string \<Rightarrow> 's \<Rightarrow> store_error + AuditEvent list"
  st_RecordApproval :: "string \<Rightarrow> string \<Rightarrow> string \<Rightarrow> string \<Rightarrow> string \<Rightarrow> 's \<Rightarrow> (store_error + bool) \<times> 's"
  st_AppendAlert :: "(string \<Rightarrow> Alert \<Rightarrow> time \<Rightarrow> 's \<Rightarrow> (store_error + Incident) \<times> 's) option"
  st_UpdateWorkflowStatus :: "(string \<Rightarrow> IncidentStatus \<Rightarrow> time \<Rightarrow> 's \<Rightarrow> store_error option \<times> 's) option"
  st_RecordWorkflowEvent :: "(WorkflowEvent \<Rightarrow> 's \<Rightarrow> store_error option \<times> 's) option"

text \<open>What the manager relies on.  A write that succeeds is what a later read of that incident returns, and no
  write touches another incident; a write that fails changes nothing; an idempotency key is claimed by
  exactly one successful approval record, and nothing else claims keys; what a search finds is what a read of
  it returns.\<close>

definition writes ::
  "'s store \<Rightarrow> ('s \<Rightarrow> bool) \<Rightarrow> ('s \<Rightarrow> string \<Rightarrow> bool) \<Rightarrow> 's \<Rightarrow> Incident option \<Rightarrow> 's \<Rightarrow> bool" where
  "writes S ok claimed s written s' = (ok s' \<and> claimed s' = claimed s \<and>
     (\<forall>k. st_Get S k s' = (case written of None \<Rightarrow> st_Get S k s | Some i \<Rightarrow> if k = inc_ID i then Inr i else st_Get S k s)))"

locale incident_store =
  fixes S :: "'s store" and ok :: "'s \<Rightarrow> bool" and claimed :: "'s \<Rightarrow> string \<Rightarrow> bool"
  assumes create: "ok s \<Longrightarrow> st_Create S i s = (e, s') \<Longrightarrow> writes S ok claimed s (if e = None then Some i else None) s'"
    and update: "ok s \<Longrightarrow> st_Update S i s = (e, s') \<Longrightarrow> writes S ok claimed s (if e = None then Some i else None) s'"
    and audit: "ok s \<Longrightarrow> st_AppendAudit S event s = (e, s') \<Longrightarrow> writes S ok claimed s None s'"
    and append: "ok s \<Longrightarrow> st_AppendAlert S = Some append_alert \<Longrightarrow> append_alert k alert now s = (r, s') \<Longrightarrow>
      (case r of Inl _ \<Rightarrow> writes S ok claimed s None s'
       | Inr i \<Rightarrow> writes S ok claimed s (Some i) s' \<and>
           (case st_Get S k s of Inl _ \<Rightarrow> False | Inr j \<Rightarrow> i = j\<lparr>inc_Alerts := inc_Alerts j @ [alert], inc_UpdatedAt := now\<rparr>))"
    and status: "ok s \<Longrightarrow> st_UpdateWorkflowStatus S = Some move \<Longrightarrow> move k to now s = (e, s') \<Longrightarrow>
      (if e = None then (case st_Get S k s of Inl _ \<Rightarrow> False
          | Inr j \<Rightarrow> writes S ok claimed s (Some (j\<lparr>inc_Status := to, inc_UpdatedAt := now\<rparr>)) s')
       else writes S ok claimed s None s')"
    and observation: "ok s \<Longrightarrow> st_RecordWorkflowEvent S = Some record_event \<Longrightarrow> record_event observed s = (e, s') \<Longrightarrow> writes S ok claimed s None s'"
    and approval: "ok s \<Longrightarrow> st_RecordApproval S key k p d c s = (b, s') \<Longrightarrow> ok s' \<and> st_Get S x s' = st_Get S x s \<and>
      b \<noteq> Inr (claimed s key) \<and> claimed s' = (if b = Inr True then (claimed s)(key := True) else claimed s)"
    and found: "ok s \<Longrightarrow> st_FindByFingerprint S fingerprint s = Inr i \<Longrightarrow> st_Get S (inc_ID i) s = Inr i"
    and listed: "ok s \<Longrightarrow> st_List S limit offset s = Inr items \<Longrightarrow> i \<in> set items \<Longrightarrow> st_Get S (inc_ID i) s = Inr i"
    and keyed: "ok s \<Longrightarrow> st_Get S k s = Inr i \<Longrightarrow> inc_ID i = k"
begin

lemma claims_grow:
  assumes "ok s" "st_RecordApproval S key k p d c s = (r, s')"
  shows "claimed s' x \<longleftrightarrow> claimed s x \<or> (x = key \<and> r = Inr True)" "r = Inr True \<Longrightarrow> \<not> claimed s key"
  using approval [OF assms] by auto

text \<open>A second record of the same key is never a new claim, whatever it approves.\<close>

lemma claimed_once:
  assumes "ok s" "st_RecordApproval S key k p d c s = (Inr True, s')" "ok t" "claimed t = claimed s'"
    and "st_RecordApproval S key k2 p2 d2 c2 t = (r, t')"
  shows "r \<noteq> Inr True"
  using claims_grow(1) [OF assms(1,2), of key] claims_grow(2) [OF assms(3,5)] assms(4) by auto

end

section \<open>MemoryStore\<close>

record MemoryStore =
  mst_Incidents :: "(string \<times> Incident) list"
  mst_Audit :: "string \<Rightarrow> AuditEvent list"
  mst_Approvals :: "string \<Rightarrow> bool"
  mst_MemoryAccess :: "MemoryAccessEvent list"
  mst_ModelUsage :: "ModelUsageEvent list"

definition NewMemoryStore :: MemoryStore where
  "NewMemoryStore = \<lparr>mst_Incidents = [], mst_Audit = \<lambda>_. [], mst_Approvals = \<lambda>_. False, mst_MemoryAccess = [], mst_ModelUsage = []\<rparr>"

definition memory_RecordApproval :: "string \<Rightarrow> string \<Rightarrow> string \<Rightarrow> string \<Rightarrow> string \<Rightarrow> MemoryStore \<Rightarrow> (store_error + bool) \<times> MemoryStore" where
  "memory_RecordApproval key i p d c s =
     (if mst_Approvals s key then (Inr False, s) else (Inr True, s\<lparr>mst_Approvals := (mst_Approvals s)(key := True)\<rparr>))"

definition memory_put :: "Incident \<Rightarrow> MemoryStore \<Rightarrow> MemoryStore" where
  "memory_put i s = s\<lparr>mst_Incidents := AList.update (inc_ID i) i (mst_Incidents s)\<rparr>"

definition memory_Create :: "Incident \<Rightarrow> MemoryStore \<Rightarrow> store_error option \<times> MemoryStore" where
  "memory_Create i s = (None, memory_put i s)"

definition memory_Update :: "Incident \<Rightarrow> MemoryStore \<Rightarrow> store_error option \<times> MemoryStore" where
  "memory_Update i s = (case map_of (mst_Incidents s) (inc_ID i) of None \<Rightarrow> (Some ErrNotFound, s) | Some _ \<Rightarrow> (None, memory_put i s))"

text \<open>The next two write through the pointer of the map; the stored incident has the key as its identifier.\<close>

definition memory_UpdateWorkflowStatus :: "string \<Rightarrow> IncidentStatus \<Rightarrow> time \<Rightarrow> MemoryStore \<Rightarrow> store_error option \<times> MemoryStore" where
  "memory_UpdateWorkflowStatus k status now s = (case map_of (mst_Incidents s) k of
       None \<Rightarrow> (Some ErrNotFound, s)
     | Some i \<Rightarrow> (None, s\<lparr>mst_Incidents := AList.update k (i\<lparr>inc_Status := status, inc_UpdatedAt := now\<rparr>) (mst_Incidents s)\<rparr>))"

definition memory_AppendAlert :: "string \<Rightarrow> Alert \<Rightarrow> time \<Rightarrow> MemoryStore \<Rightarrow> (store_error + Incident) \<times> MemoryStore" where
  "memory_AppendAlert k alert now s = (case map_of (mst_Incidents s) k of
       None \<Rightarrow> (Inl ErrNotFound, s)
     | Some i \<Rightarrow> let j = i\<lparr>inc_Alerts := inc_Alerts i @ [alert], inc_UpdatedAt := now\<rparr>
         in (Inr j, s\<lparr>mst_Incidents := AList.update k j (mst_Incidents s)\<rparr>))"

definition memory_Get :: "string \<Rightarrow> MemoryStore \<Rightarrow> store_error + Incident" where
  "memory_Get k s = (case map_of (mst_Incidents s) k of None \<Rightarrow> Inl ErrNotFound | Some i \<Rightarrow> Inr i)"

text \<open>A slice expression out of range panics.\<close>

definition memory_List :: "int \<Rightarrow> int \<Rightarrow> MemoryStore \<Rightarrow> store_error + Incident list" where
  "memory_List limit offset s =
     (let everything = map snd (mst_Incidents s); n = int (length everything); stop = min (offset + limit) n
      in if offset \<ge> n then Inr []
         else if offset < 0 \<or> stop < offset then Inl (StoreFailure ''slice bounds out of range'')
         else Inr (take (nat (stop - offset)) (drop (nat offset) everything)))"

definition memory_FindByFingerprint :: "string \<Rightarrow> MemoryStore \<Rightarrow> store_error + Incident" where
  "memory_FindByFingerprint fingerprint s =
     (case find (\<lambda>i. list_ex (\<lambda>a. al_Fingerprint a = fingerprint) (inc_Alerts i)) (map snd (mst_Incidents s)) of
        None \<Rightarrow> Inl ErrNotFound | Some i \<Rightarrow> Inr i)"

definition memory_AppendAudit :: "AuditEvent \<Rightarrow> MemoryStore \<Rightarrow> store_error option \<times> MemoryStore" where
  "memory_AppendAudit e s = (None, s\<lparr>mst_Audit := (mst_Audit s)(ae_IncidentID e := mst_Audit s (ae_IncidentID e) @ [e])\<rparr>)"

definition memory_ListAudit :: "string \<Rightarrow> MemoryStore \<Rightarrow> store_error + AuditEvent list" where
  "memory_ListAudit k s = Inr (mst_Audit s k)"

definition RecordMemoryAccess :: "MemoryAccessEvent \<Rightarrow> MemoryStore \<Rightarrow> MemoryStore" where
  "RecordMemoryAccess e s = s\<lparr>mst_MemoryAccess := mst_MemoryAccess s @ [e]\<rparr>"

definition RecordModelUsage :: "ModelUsageEvent \<Rightarrow> MemoryStore \<Rightarrow> MemoryStore" where
  "RecordModelUsage e s = s\<lparr>mst_ModelUsage := mst_ModelUsage s @ [e]\<rparr>"

section \<open>The contract holds\<close>

text \<open>A store that was filled through its operations: distinct keys, each the identifier of its incident.\<close>

definition stored :: "MemoryStore \<Rightarrow> bool" where
  "stored s = (distinct (map fst (mst_Incidents s)) \<and> list_all (\<lambda>(k, i). inc_ID i = k) (mst_Incidents s))"

definition memory_store :: "MemoryStore store" where
  "memory_store = \<lparr>st_Create = memory_Create, st_Update = memory_Update, st_Get = memory_Get, st_List = memory_List,
     st_FindByFingerprint = memory_FindByFingerprint, st_AppendAudit = memory_AppendAudit, st_ListAudit = memory_ListAudit,
     st_RecordApproval = memory_RecordApproval, st_AppendAlert = Some memory_AppendAlert,
     st_UpdateWorkflowStatus = Some memory_UpdateWorkflowStatus, st_RecordWorkflowEvent = None\<rparr>"

lemma memory_ops [simp]:
  "st_Create memory_store = memory_Create" "st_Update memory_store = memory_Update" "st_Get memory_store = memory_Get"
  "st_List memory_store = memory_List" "st_FindByFingerprint memory_store = memory_FindByFingerprint"
  "st_AppendAudit memory_store = memory_AppendAudit" "st_RecordApproval memory_store = memory_RecordApproval"
  "st_AppendAlert memory_store = Some memory_AppendAlert" "st_UpdateWorkflowStatus memory_store = Some memory_UpdateWorkflowStatus"
  "st_RecordWorkflowEvent memory_store = None"
  by (simp_all add: memory_store_def)

lemma stored_new: "stored NewMemoryStore"
  by (simp add: stored_def NewMemoryStore_def)

lemma stored_key: "stored s \<Longrightarrow> map_of (mst_Incidents s) k = Some i \<Longrightarrow> inc_ID i = k"
  by (auto simp: stored_def list_all_iff dest!: map_of_SomeD)

lemma stored_get:
  assumes "stored s" "i \<in> set (map snd (mst_Incidents s))"
  shows "memory_Get (inc_ID i) s = Inr i"
proof -
  from assms(2) obtain k where "(k, i) \<in> set (mst_Incidents s)" by auto
  then have "map_of (mst_Incidents s) (inc_ID i) = Some i"
    using assms(1) by (fastforce simp: stored_def list_all_iff intro!: map_of_is_SomeI)
  then show ?thesis by (simp add: memory_Get_def)
qed

lemma stored_put:
  assumes "stored s" "inc_ID i = k"
  shows "stored (s\<lparr>mst_Incidents := AList.update k i (mst_Incidents s)\<rparr>)"
proof -
  have "set (AList.update k i al) \<subseteq> insert (k, i) (set al)" for al by (induction al) auto
  then show ?thesis using assms by (fastforce simp: stored_def distinct_update list_all_iff)
qed

lemma writes_put:
  assumes "stored s" "inc_ID i = k"
  shows "writes memory_store stored mst_Approvals s (Some i) (s\<lparr>mst_Incidents := AList.update k i (mst_Incidents s)\<rparr>)"
  using stored_put [OF assms] assms(2) by (simp add: writes_def memory_Get_def update_conv')

lemma writes_none [simp]: "stored s \<Longrightarrow> writes memory_store stored mst_Approvals s None s"
  by (simp add: writes_def)

interpretation memory: incident_store memory_store stored mst_Approvals
proof
  fix s s' :: MemoryStore and e event
  assume "stored s" "st_AppendAudit memory_store event s = (e, s')"
  then show "writes memory_store stored mst_Approvals s None s'"
    by (auto simp: memory_AppendAudit_def writes_def memory_Get_def stored_def)
next
  fix s s' :: MemoryStore and e i
  assume "stored s" "st_Create memory_store i s = (e, s')"
  then show "writes memory_store stored mst_Approvals s (if e = None then Some i else None) s'"
    by (auto simp: memory_Create_def memory_put_def intro: writes_put)
next
  fix s s' :: MemoryStore and e i
  assume "stored s" "st_Update memory_store i s = (e, s')"
  then show "writes memory_store stored mst_Approvals s (if e = None then Some i else None) s'"
    by (auto simp: memory_Update_def memory_put_def intro: writes_put split: option.splits)
next
  fix s s' :: MemoryStore and append_alert k alert now r
  assume "stored s" "st_AppendAlert memory_store = Some append_alert" "append_alert k alert now s = (r, s')"
  then show "case r of Inl _ \<Rightarrow> writes memory_store stored mst_Approvals s None s'
      | Inr i \<Rightarrow> writes memory_store stored mst_Approvals s (Some i) s' \<and>
          (case st_Get memory_store k s of Inl _ \<Rightarrow> False | Inr j \<Rightarrow> i = j\<lparr>inc_Alerts := inc_Alerts j @ [alert], inc_UpdatedAt := now\<rparr>)"
    using stored_key [of s k] by (auto simp: memory_AppendAlert_def memory_Get_def Let_def intro!: writes_put split: option.splits)
next
  fix s s' :: MemoryStore and move k to now e
  assume "stored s" "st_UpdateWorkflowStatus memory_store = Some move" "move k to now s = (e, s')"
  then show "if e = None then (case st_Get memory_store k s of Inl _ \<Rightarrow> False
         | Inr j \<Rightarrow> writes memory_store stored mst_Approvals s (Some (j\<lparr>inc_Status := to, inc_UpdatedAt := now\<rparr>)) s')
      else writes memory_store stored mst_Approvals s None s'"
    using stored_key [of s k] by (auto simp: memory_UpdateWorkflowStatus_def memory_Get_def intro!: writes_put split: option.splits)
next
  fix s s' :: MemoryStore and record_event event e
  assume "stored s" "st_RecordWorkflowEvent memory_store = Some record_event"
  then show "writes memory_store stored mst_Approvals s None s'" by simp
next
  fix s s' :: MemoryStore and key k p d c r x
  assume "stored s" "st_RecordApproval memory_store key k p d c s = (r, s')"
  then show "stored s' \<and> st_Get memory_store x s' = st_Get memory_store x s \<and> r \<noteq> Inr (mst_Approvals s key) \<and>
      mst_Approvals s' = (if r = Inr True then (mst_Approvals s)(key := True) else mst_Approvals s)"
    by (auto simp: memory_RecordApproval_def memory_Get_def stored_def split: if_splits)
next
  fix s fingerprint i
  assume "stored s" "st_FindByFingerprint memory_store fingerprint s = Inr i"
  then show "st_Get memory_store (inc_ID i) s = Inr i"
    by (auto simp: memory_FindByFingerprint_def find_Some_iff intro!: stored_get split: option.splits)
next
  fix s limit offset items i
  assume "stored s" "st_List memory_store limit offset s = Inr items" "i \<in> set items"
  then show "st_Get memory_store (inc_ID i) s = Inr i"
    by (auto simp: memory_List_def Let_def intro!: stored_get dest!: in_set_takeD in_set_dropD split: if_splits simp del: set_map)
next
  fix s k i
  assume "stored s" "st_Get memory_store k s = Inr i"
  then show "inc_ID i = k" by (auto simp: memory_Get_def dest: stored_key split: option.splits)
qed

end
