(* ===== verification/Incident_Service.thy ===== *)
theory Incident_Service
  imports Incident_Store Safety_Gates
begin

text \<open>\<^verbatim>\<open>internal/service/incidents.go\<close>: the incident manager, which admits alerts and manual incidents,
  starts the workflow, takes the operator's decision and resumes, and restarts a failed workflow.
  It works on any store with the operations of \<^verbatim>\<open>Incident_Store\<close>.  A goroutine the manager starts is a
  task of its state; the body of a task is an operation of its own, run later and in any order.  The
  supervisor's \<^verbatim>\<open>Run\<close> and \<^verbatim>\<open>Resume\<close>, the correlation fallback, the learner, the model snapshotter
  and the redaction of error texts are parameters; each call of \<^verbatim>\<open>Resume\<close> is logged.  Not modelled:
  the hub of live updates and the JSON it sends.\<close>

section \<open>State\<close>

datatype manager_task = Diagnose string | ResumeWorkflow string bool string string

record 's manager =
  mg_Store :: 's
  mg_Tasks :: "manager_task list"
  mg_Resumed :: "(string \<times> string \<times> ApprovalResumeData) list"
  mg_DeletedCheckpoints :: "string list"
  mg_Learned :: "Incident list"
  mg_Panicked :: bool

record workflow_failure =
  wf_Text :: string
  wf_RetryExhausted :: bool

text \<open>The outcome of a run: \<^verbatim>\<open>Interrupted\<close> carries the interrupt identifier, \<^verbatim>\<open>Failed\<close> the state the engine returned, if any.\<close>

datatype run_outcome = Finished "WorkflowState option" | Interrupted string | Failed workflow_failure "WorkflowState option"

record manager_env =
  me_HasSupervisor :: bool
  me_AllowedNamespaces :: "string list"
  me_RuntimeHashes :: "string \<times> string \<times> string"
  me_BrainSnapshot :: "string \<Rightarrow> ExecutionSnapshot"
  me_ModelIdentity :: "(string \<times> string \<times> string) option"
  me_ModelSnapshot :: "(string \<Rightarrow> string option) option"
  me_Correlate :: "(Alert \<Rightarrow> string \<Rightarrow> string \<Rightarrow> string \<Rightarrow> Incident list \<Rightarrow> string option) option"
  me_Learn :: "(Incident \<Rightarrow> string option) option"
  me_HasCheckpoints :: bool
  me_Redact :: "string \<Rightarrow> string"

record service_stamp =
  sv_Now :: time
  sv_ID :: "nat \<Rightarrow> string"

datatype service_error =
    UnsupportedDiagnosisMethod string
  | UnsupportedCausalMode string
  | StoreFailed store_error
  | NotRetriable IncidentStatus
  | RemovedDiagnosisMethod string
  | InvalidateAttemptFailed store_error
  | TransitionRefused transition_error
  | MigrationUnavailable
  | NotAwaitingApproval
  | CheckpointMissing
  | ProposalMismatch
  | ProposalExpired

section \<open>Shared steps\<close>

definition try_transition :: "Incident \<Rightarrow> IncidentStatus \<Rightarrow> time \<Rightarrow> Incident" where
  "try_transition i to now = (case Transition (Some i) to now of Inl _ \<Rightarrow> i | Inr j \<Rightarrow> j)"

definition audit_event :: "service_stamp \<Rightarrow> string \<Rightarrow> string \<Rightarrow> string \<Rightarrow> any_value table \<Rightarrow> AuditEvent" where
  "audit_event st k kind message data =
     \<lparr>ae_ID = sv_ID st 0, ae_IncidentID = k, ae_Type = kind, ae_Message = message, ae_Data = data, ae_CreatedAt = sv_Now st\<rparr>"

definition audit :: "'s store \<Rightarrow> service_stamp \<Rightarrow> string \<Rightarrow> string \<Rightarrow> string \<Rightarrow> any_value table \<Rightarrow> 's manager \<Rightarrow> 's manager" where
  "audit S st k kind message data m = m\<lparr>mg_Store := snd (st_AppendAudit S (audit_event st k kind message data) (mg_Store m))\<rparr>"

text \<open>\<^verbatim>\<open>_ = m.Store.Update\<close>\<close>

definition save :: "'s store \<Rightarrow> Incident \<Rightarrow> 's manager \<Rightarrow> 's manager" where
  "save S i m = m\<lparr>mg_Store := snd (st_Update S i (mg_Store m))\<rparr>"

definition start :: "manager_task \<Rightarrow> 's manager \<Rightarrow> 's manager" where
  "start task m = m\<lparr>mg_Tasks := mg_Tasks m @ [task]\<rparr>"

definition start_diagnosis :: "manager_env \<Rightarrow> string \<Rightarrow> 's manager \<Rightarrow> 's manager" where
  "start_diagnosis E k m = (if me_HasSupervisor E then start (Diagnose k) m else m)"

definition isTransientWorkflowError :: "workflow_failure \<Rightarrow> bool" where
  "isTransientWorkflowError e = (wf_RetryExhausted e \<or> list_ex (Contains (ToLower (wf_Text e)))
     [''context deadline exceeded'', ''failed to receive stream chunk'', ''connection reset'', ''broken pipe'', ''unexpected eof'', ''request failed after''])"

definition redactWorkflowError :: "manager_env \<Rightarrow> workflow_failure \<Rightarrow> string" where
  "redactWorkflowError E e =
     (if isTransientWorkflowError e then ''transient request failure after retries: '' @ me_Redact E (wf_Text e) else me_Redact E (wf_Text e))"

section \<open>Workflow events\<close>

fun status_string :: "IncidentStatus \<Rightarrow> string" where
  "status_string StatusReceived = ''RECEIVED''"
| "status_string StatusCorrelating = ''CORRELATING''"
| "status_string StatusCollecting = ''COLLECTING''"
| "status_string StatusDiagnosing = ''DIAGNOSING''"
| "status_string StatusProposing = ''PROPOSING''"
| "status_string StatusAwaitingApproval = ''AWAITING_APPROVAL''"
| "status_string StatusRecovering = ''RECOVERING''"
| "status_string StatusVerifying = ''VERIFYING''"
| "status_string StatusResolved = ''RESOLVED''"
| "status_string StatusNeedsAttention = ''NEEDS_ATTENTION''"
| "status_string StatusRejected = ''REJECTED''"
| "status_string StatusRecoveryFailed = ''RECOVERY_FAILED''"
| "status_string StatusCancelled = ''CANCELLED''"
| "status_string (IncidentStatus_other t) = t"

abbreviation status_text :: "IncidentStatus \<Rightarrow> any_value" where
  "status_text status \<equiv> AString (status_string status)"

definition workflowEventStatus :: "string \<Rightarrow> IncidentStatus option" where
  "workflowEventStatus t = find (\<lambda>status. status_string status = t)
     [StatusReceived, StatusCorrelating, StatusCollecting, StatusDiagnosing, StatusProposing, StatusAwaitingApproval, StatusRecovering,
      StatusVerifying, StatusResolved, StatusNeedsAttention, StatusRejected, StatusRecoveryFailed, StatusCancelled]"

definition event_data :: "WorkflowEvent \<Rightarrow> any_value table" where
  "event_data e =
     (let d = [''run_id'' \<mapsto> AString (wev_RunID e), ''name'' \<mapsto> AString (wev_Name e), ''component'' \<mapsto> AString (wev_Component e)];
          d = (if wev_InputTokens e > 0 \<or> wev_OutputTokens e > 0
               then d(''input_tokens'' \<mapsto> AInt (wev_InputTokens e), ''output_tokens'' \<mapsto> AInt (wev_OutputTokens e)) else d);
          d = (if wev_TimeToFirstChunkMS e > 0 then d(''time_to_first_chunk_ms'' \<mapsto> AFloat (wev_TimeToFirstChunkMS e)) else d);
          d = (if wev_TimeToToolCallMS e > 0 then d(''time_to_tool_call_ms'' \<mapsto> AFloat (wev_TimeToToolCallMS e)) else d);
          d = (if wev_StreamDurationMS e > 0 then d(''stream_duration_ms'' \<mapsto> AFloat (wev_StreamDurationMS e)) else d)
      in if wev_Error e \<noteq> [] then d(''error'' \<mapsto> AString (wev_Error e)) else d)"

definition observed_status :: "'s store \<Rightarrow> WorkflowEvent \<Rightarrow> 's manager \<Rightarrow> 's manager" where
  "observed_status S e m = (if wev_Type e \<noteq> ''status_transition'' then m
     else case (workflowEventStatus (wev_Name e), st_UpdateWorkflowStatus S) of
         (Some status, Some update) \<Rightarrow> m\<lparr>mg_Store := snd (update (wev_IncidentID e) status (wev_OccurredAt e) (mg_Store m))\<rparr>
       | _ \<Rightarrow> m)"

definition recorded_event :: "'s store \<Rightarrow> WorkflowEvent \<Rightarrow> 's manager \<Rightarrow> 's manager" where
  "recorded_event S e m = (case st_RecordWorkflowEvent S of None \<Rightarrow> m | Some rec \<Rightarrow> m\<lparr>mg_Store := snd (rec e (mg_Store m))\<rparr>)"

definition ObserveWorkflowEvent :: "'s store \<Rightarrow> service_stamp \<Rightarrow> WorkflowEvent \<Rightarrow> 's manager \<Rightarrow> 's manager" where
  "ObserveWorkflowEvent S st e m =
     audit S st (wev_IncidentID e) (wev_Type e) (wev_Name e) (event_data e) (recorded_event S e (observed_status S e m))"

section \<open>Admission\<close>

record ManualIncident =
  mi_Severity :: string
  mi_Service :: string
  mi_Cluster :: string
  mi_Namespace :: string
  mi_Resource :: string
  mi_Summary :: string
  mi_DiagnosisMethod :: string
  mi_CausalMode :: string
  mi_EvidenceStartAt :: time

definition evidence_start :: "time \<Rightarrow> time \<Rightarrow> time" where
  "evidence_start now t = (if t > now \<or> t < now - 15 * Minute then 0 else t)"

definition manual_incident :: "service_stamp \<Rightarrow> ManualIncident \<Rightarrow> string \<Rightarrow> string \<Rightarrow> Incident" where
  "manual_incident st x method causalMode = zero_Incident\<lparr>inc_ID := sv_ID st 1, inc_Status := StatusReceived,
     inc_Severity := (if mi_Severity x = [] then ''warning'' else mi_Severity x), inc_Service := mi_Service x, inc_Cluster := mi_Cluster x,
     inc_Namespace := mi_Namespace x, inc_Resource := mi_Resource x, inc_Summary := mi_Summary x, inc_DiagnosisMethod := method,
     inc_CausalMode := causalMode, inc_EvidenceStartAt := evidence_start (sv_Now st) (mi_EvidenceStartAt x),
     inc_CreatedAt := sv_Now st, inc_UpdatedAt := sv_Now st\<rparr>"

definition admit_incident ::
  "'s store \<Rightarrow> manager_env \<Rightarrow> service_stamp \<Rightarrow> Incident \<Rightarrow> string \<Rightarrow> string \<Rightarrow> any_value table \<Rightarrow> 's manager \<Rightarrow> (service_error + Incident) \<times> 's manager" where
  "admit_incident S E st i kind message data m = (case st_Create S i (mg_Store m) of
       (Some e, s) \<Rightarrow> (Inl (StoreFailed e), m\<lparr>mg_Store := s\<rparr>)
     | (None, s) \<Rightarrow> (Inr i, start_diagnosis E (inc_ID i) (audit S st (inc_ID i) kind message data (m\<lparr>mg_Store := s\<rparr>))))"

definition CreateIncident :: "'s store \<Rightarrow> manager_env \<Rightarrow> service_stamp \<Rightarrow> ManualIncident \<Rightarrow> 's manager \<Rightarrow> (service_error + Incident) \<times> 's manager" where
  "CreateIncident S E st x m = (case NormalizeDiagnosisMethod (mi_DiagnosisMethod x) of (method, valid) \<Rightarrow>
     if \<not> valid \<or> \<not> IsKubePilotBrainMethod method then (Inl (UnsupportedDiagnosisMethod (mi_DiagnosisMethod x)), m)
     else case NormalizeCausalMode (mi_CausalMode x) of (causalMode, ok) \<Rightarrow>
       if \<not> ok then (Inl (UnsupportedCausalMode (mi_CausalMode x)), m)
       else admit_incident S E st (manual_incident st x method causalMode) ''incident_created'' ''incident created'' Map.empty m)"

text \<open>Stores without an atomic append fall back to an update of the record that was read.\<close>

definition appendAlert :: "'s store \<Rightarrow> service_stamp \<Rightarrow> Incident \<Rightarrow> Alert \<Rightarrow> 's manager \<Rightarrow> (service_error + Incident) \<times> 's manager" where
  "appendAlert S st existing alert m = (case st_AppendAlert S of
       Some append_alert \<Rightarrow> (case append_alert (inc_ID existing) alert (sv_Now st) (mg_Store m) of
           (Inl e, s) \<Rightarrow> (Inl (StoreFailed e), m\<lparr>mg_Store := s\<rparr>)
         | (Inr i, s) \<Rightarrow> (Inr i, m\<lparr>mg_Store := s\<rparr>))
     | None \<Rightarrow> let i = existing\<lparr>inc_Alerts := inc_Alerts existing @ [alert], inc_UpdatedAt := sv_Now st\<rparr> in
         (case st_Update S i (mg_Store m) of
            (Some e, s) \<Rightarrow> (Inl (StoreFailed e), m\<lparr>mg_Store := s\<rparr>)
          | (None, s) \<Rightarrow> (Inr i, m\<lparr>mg_Store := s\<rparr>)))"

definition terminal :: "IncidentStatus \<Rightarrow> bool" where
  "terminal status = (status \<in> {StatusResolved, StatusRejected, StatusRecoveryFailed, StatusCancelled})"

definition sharedLabel :: "string table \<Rightarrow> string table \<Rightarrow> string list \<Rightarrow> bool" where
  "sharedLabel a b keys = list_ex (\<lambda>key. mget [] a key \<noteq> [] \<and> mget [] a key = mget [] b key) keys"

definition directlyConnected :: "string \<Rightarrow> string \<Rightarrow> bool" where
  "directlyConnected a b = (a @ ''/'' @ b \<in> {''gateway-service/order-service'', ''order-service/gateway-service'',
     ''order-service/payment-service'', ''payment-service/order-service''})"

definition close_alert :: "Alert \<Rightarrow> Alert \<Rightarrow> bool" where
  "close_alert alert previous = (IsZero (al_StartsAt alert) \<or> IsZero (al_StartsAt previous) \<or>
     \<bar>al_StartsAt alert - al_StartsAt previous\<bar> \<le> 5 * Minute)"

definition temporallyClose :: "time \<Rightarrow> Alert \<Rightarrow> Incident \<Rightarrow> bool" where
  "temporallyClose now alert candidate = (if inc_Alerts candidate = [] then \<bar>now - inc_CreatedAt candidate\<bar> \<le> 5 * Minute
     else list_ex (close_alert alert) (inc_Alerts candidate))"

definition correlation_rule :: "Alert \<Rightarrow> string \<Rightarrow> string \<Rightarrow> Incident \<Rightarrow> bool" where
  "correlation_rule alert service resource candidate =
     ((resource \<noteq> [] \<and> inc_Resource candidate = resource) \<or> (service \<noteq> [] \<and> inc_Service candidate = service) \<or>
      list_ex (\<lambda>previous. sharedLabel (al_Labels previous) (al_Labels alert) [''trace_id'', ''request_id'', ''revision'', ''deployment_revision'']) (inc_Alerts candidate) \<or>
      directlyConnected (inc_Service candidate) service)"

definition correlates :: "time \<Rightarrow> Alert \<Rightarrow> string \<Rightarrow> string \<Rightarrow> string \<Rightarrow> Incident \<Rightarrow> bool" where
  "correlates now alert service namespace resource candidate =
     (\<not> terminal (inc_Status candidate) \<and> inc_Namespace candidate = namespace \<and> temporallyClose now alert candidate \<and>
      correlation_rule alert service resource candidate)"

definition correlate ::
  "'s store \<Rightarrow> manager_env \<Rightarrow> service_stamp \<Rightarrow> Alert \<Rightarrow> string \<Rightarrow> string \<Rightarrow> string \<Rightarrow> 's manager \<Rightarrow> Incident option" where
  "correlate S E st alert service namespace resource m = (case st_List S 100 0 (mg_Store m) of
       Inl _ \<Rightarrow> None
     | Inr items \<Rightarrow> (case find (correlates (sv_Now st) alert service namespace resource) items of
           Some i \<Rightarrow> Some i
         | None \<Rightarrow> (case me_Correlate E of None \<Rightarrow> None
             | Some ask \<Rightarrow> (case ask alert service namespace resource items of None \<Rightarrow> None
                 | Some candidateID \<Rightarrow> if candidateID = [] then None else find (\<lambda>i. inc_ID i = candidateID) items))))"

definition alert_incident :: "service_stamp \<Rightarrow> Alert \<Rightarrow> string \<Rightarrow> string \<Rightarrow> string \<Rightarrow> string \<Rightarrow> string \<Rightarrow> Incident" where
  "alert_incident st a service namespace severity resource summary = zero_Incident\<lparr>inc_ID := sv_ID st 1, inc_Status := StatusReceived,
     inc_Severity := severity, inc_Service := service, inc_Namespace := namespace, inc_Resource := resource, inc_Summary := summary,
     inc_DiagnosisMethod := ''kubepilot'', inc_CausalMode := ''full'', inc_EvidenceStartAt := evidence_start (sv_Now st) (al_StartsAt a),
     inc_CreatedAt := sv_Now st, inc_UpdatedAt := sv_Now st, inc_Alerts := [a]\<rparr>"

definition fingerprint_data :: "Alert \<Rightarrow> any_value table" where
  "fingerprint_data a = [''fingerprint'' \<mapsto> AString (al_Fingerprint a)]"

definition audited_append ::
  "'s store \<Rightarrow> service_stamp \<Rightarrow> Incident \<Rightarrow> Alert \<Rightarrow> string \<Rightarrow> string \<Rightarrow> 's manager \<Rightarrow> (service_error + Incident) \<times> 's manager" where
  "audited_append S st existing a kind message m = (case appendAlert S st existing a m of
       (Inl e, m') \<Rightarrow> (Inl e, m')
     | (Inr i, m') \<Rightarrow> (Inr i, audit S st (inc_ID i) kind message (fingerprint_data a) m'))"

definition IngestAlert ::
  "'s store \<Rightarrow> manager_env \<Rightarrow> service_stamp \<Rightarrow> Alert \<Rightarrow> string \<Rightarrow> string \<Rightarrow> string \<Rightarrow> string \<Rightarrow> string \<Rightarrow> 's manager
     \<Rightarrow> (service_error + Incident) \<times> 's manager" where
  "IngestAlert S E st a service namespace severity resource summary m =
     (if al_Status a = ''resolved''
      then (case st_FindByFingerprint S (al_Fingerprint a) (mg_Store m) of
              Inl e \<Rightarrow> (Inl (StoreFailed e), m)
            | Inr existing \<Rightarrow> audited_append S st existing a ''alert_resolved'' ''resolved alert recorded without cancelling investigation'' m)
      else case st_FindByFingerprint S (al_Fingerprint a) (mg_Store m) of
          Inr existing \<Rightarrow> appendAlert S st existing a m
        | Inl _ \<Rightarrow> (case correlate S E st a service namespace resource m of
              Some existing \<Rightarrow> audited_append S st existing a ''alert_correlated'' ''alert merged into active incident'' m
            | None \<Rightarrow> admit_incident S E st (alert_incident st a service namespace severity resource summary)
                ''alert_ingested'' ''alert created incident'' (fingerprint_data a) m))"

section \<open>Retry\<close>

definition workflowAttemptArtifacts :: "Incident \<Rightarrow> string list" where
  "workflowAttemptArtifacts i =
     (case inc_Investigation i of None \<Rightarrow> []
      | Some v \<Rightarrow> (case inv_AgentDiagnosis v of None \<Rightarrow> [] | Some d \<Rightarrow> [diag_ID d]) @
                  (case inv_AgentRecoveryPlan v of None \<Rightarrow> [] | Some p \<Rightarrow> [plan_ID p])) @
     (case inc_Proposal i of None \<Rightarrow> [] | Some p \<Rightarrow> [rp_ID p]) @
     (case inc_DryRun i of None \<Rightarrow> [] | Some d \<Rightarrow> if dr_MutationSpecHash d = [] then [] else [''dry-run:'' @ dr_MutationSpecHash d])"

definition invalidated_attempt :: "Incident \<Rightarrow> time \<Rightarrow> WorkflowAttempt \<Rightarrow> WorkflowAttempt" where
  "invalidated_attempt i now a = a\<lparr>wa_Status := WorkflowAttemptInvalidated, wa_CompletedAt := now,
     wa_InvalidatedArtifactIDs := workflowAttemptArtifacts i\<rparr>"

definition next_attempt :: "service_stamp \<Rightarrow> Incident \<Rightarrow> WorkflowAttempt" where
  "next_attempt st i = zero_WorkflowAttempt\<lparr>wa_ID := ''attempt:'' @ sv_ID st 1, wa_IncidentID := inc_ID i,
     wa_Sequence := (case inc_WorkflowAttempt i of None \<Rightarrow> 1 | Some a \<Rightarrow> wa_Sequence a + 1),
     wa_CheckpointID := ''incident:'' @ inc_ID i, wa_Status := WorkflowAttemptActive,
     wa_MigratedFromAttemptID := (case inc_WorkflowAttempt i of None \<Rightarrow> [] | Some a \<Rightarrow> wa_ID a), wa_StartedAt := sv_Now st\<rparr>"

definition restarted :: "service_stamp \<Rightarrow> Incident \<Rightarrow> WorkflowAttempt \<Rightarrow> Incident" where
  "restarted st i a = i\<lparr>inc_RootCause := [], inc_RootCauseCategory := [], inc_RootCauseVariant := [], inc_RootCauseService := [],
     inc_RootCauseResource := [], inc_RootCauseEvidenceIDs := [], inc_Hypotheses := [], inc_Evidence := [], inc_Confidence := 0,
     inc_ReasoningType := [], inc_Proposal := None, inc_DryRun := None, inc_ExecutionContext := None, inc_Verification := None,
     inc_WorkflowInterruptID := [], inc_DiagnosisError := [], inc_SkillSnapshotHash := [], inc_RankingPolicyHash := [],
     inc_RerankerConfigHash := [], inc_AgentBudget := None, inc_DiagnosisLedger := None, inc_Investigation := None,
     inc_ExecutionSnapshot := None, inc_WorkflowAttempt := Some a, inc_UpdatedAt := sv_Now st\<rparr>"

definition attempt_data :: "WorkflowAttempt \<Rightarrow> any_value table" where
  "attempt_data a = [''attempt_id'' \<mapsto> AString (wa_ID a), ''sequence'' \<mapsto> AInt (wa_Sequence a),
     ''migrated_from_attempt_id'' \<mapsto> AString (wa_MigratedFromAttemptID a)]"

definition restart :: "'s store \<Rightarrow> manager_env \<Rightarrow> service_stamp \<Rightarrow> string \<Rightarrow> Incident \<Rightarrow> WorkflowAttempt \<Rightarrow> 's manager \<Rightarrow> (service_error + Incident) \<times> 's manager" where
  "restart S E st k i a m = (case Transition (Some i) StatusReceived (sv_Now st) of
       Inl e \<Rightarrow> (Inl (TransitionRefused e), m)
     | Inr i1 \<Rightarrow>
         let j = restarted st i1 a;
             m1 = (if me_HasCheckpoints E then m\<lparr>mg_DeletedCheckpoints := mg_DeletedCheckpoints m @ [''incident:'' @ k]\<rparr> else m)
         in (case st_Update S j (mg_Store m1) of
               (Some e, s) \<Rightarrow> (Inl (StoreFailed e), m1\<lparr>mg_Store := s\<rparr>)
             | (None, s) \<Rightarrow> (Inr j, start_diagnosis E k (audit S st k ''workflow_attempt_migrated''
                 ''diagnosis workflow restarted with a new immutable attempt'' (attempt_data a) (m1\<lparr>mg_Store := s\<rparr>)))))"

definition Retry :: "'s store \<Rightarrow> manager_env \<Rightarrow> service_stamp \<Rightarrow> string \<Rightarrow> 's manager \<Rightarrow> (service_error + Incident) \<times> 's manager" where
  "Retry S E st k m = (case st_Get S k (mg_Store m) of
       Inl e \<Rightarrow> (Inl (StoreFailed e), m)
     | Inr i \<Rightarrow>
         if inc_Status i \<noteq> StatusNeedsAttention \<and> inc_Status i \<noteq> StatusRecoveryFailed then (Inl (NotRetriable (inc_Status i)), m)
         else if \<not> IsKubePilotBrainMethod (inc_DiagnosisMethod i) then (Inl (RemovedDiagnosisMethod (inc_DiagnosisMethod i)), m)
         else (case inc_WorkflowAttempt i of
             None \<Rightarrow> restart S E st k i (next_attempt st i) m
           | Some a \<Rightarrow>
               let i1 = i\<lparr>inc_WorkflowAttempt := Some (invalidated_attempt i (sv_Now st) a)\<rparr> in
               (case st_Update S i1 (mg_Store m) of
                  (Some e, s) \<Rightarrow> (Inl (InvalidateAttemptFailed e), m\<lparr>mg_Store := s\<rparr>)
                | (None, s) \<Rightarrow> restart S E st k i1 (next_attempt st i) (m\<lparr>mg_Store := s\<rparr>))))"

definition MigrateWorkflowAttempt :: "'s store \<Rightarrow> manager_env \<Rightarrow> service_stamp \<Rightarrow> string \<Rightarrow> 's manager \<Rightarrow> (service_error + Incident) \<times> 's manager" where
  "MigrateWorkflowAttempt S E st k m = (case st_Get S k (mg_Store m) of
       Inl e \<Rightarrow> (Inl (StoreFailed e), m)
     | Inr i \<Rightarrow> if \<not> IsKubePilotBrainMethod (inc_DiagnosisMethod i) then (Inl MigrationUnavailable, m) else Retry S E st k m)"

section \<open>The first run\<close>

definition prepared :: "manager_env \<Rightarrow> Incident \<Rightarrow> Incident" where
  "prepared E i0 =
     (let i = (case me_ModelIdentity E of None \<Rightarrow> i0
            | Some (h, protocol, name) \<Rightarrow> i0\<lparr>inc_ModelConfigHash := h, inc_ModelProtocol := protocol, inc_ModelName := name\<rparr>)
      in case inc_WorkflowAttempt i of None \<Rightarrow> i
         | Some a \<Rightarrow> if IsKubePilotBrainMethod (inc_DiagnosisMethod i) \<and> wa_ExecutionSnapshot a = zero_ExecutionSnapshot
             then let snapshot = me_BrainSnapshot E (inc_ModelConfigHash i)
                  in i\<lparr>inc_ExecutionSnapshot := Some snapshot, inc_WorkflowAttempt := Some (a\<lparr>wa_ExecutionSnapshot := snapshot\<rparr>)\<rparr>
             else i)"

definition failed_incident :: "service_stamp \<Rightarrow> string \<Rightarrow> Incident \<Rightarrow> Incident" where
  "failed_incident st text i =
     (try_transition i StatusNeedsAttention (sv_Now st))\<lparr>inc_DiagnosisError := text, inc_UpdatedAt := sv_Now st\<rparr>"

definition state_incident :: "Incident \<Rightarrow> WorkflowState option \<Rightarrow> Incident" where
  "state_incident i state = (case state of None \<Rightarrow> i | Some s \<Rightarrow> (case ws_Incident s of None \<Rightarrow> i | Some j \<Rightarrow> j))"

definition learn :: "'s store \<Rightarrow> manager_env \<Rightarrow> service_stamp \<Rightarrow> string \<Rightarrow> Incident \<Rightarrow> 's manager \<Rightarrow> 's manager" where
  "learn S E st k i m =
     (case me_Learn E of None \<Rightarrow> m
      | Some teach \<Rightarrow> if inc_Status i \<noteq> StatusResolved then m
          else let m1 = m\<lparr>mg_Learned := mg_Learned m @ [i]\<rparr> in
            (case teach i of None \<Rightarrow> m1
             | Some e \<Rightarrow> audit S st k ''causal_learning_failed'' ''resolved incident was not learned'' [''error'' \<mapsto> AString (me_Redact E e)] m1))"

text \<open>The result of a run, persisted; a result without an incident dereferences nil.\<close>

definition finish_run ::
  "'s store \<Rightarrow> manager_env \<Rightarrow> service_stamp \<Rightarrow> string \<Rightarrow> (Incident \<Rightarrow> Incident) \<Rightarrow> string \<Rightarrow> string \<Rightarrow> (WorkflowState \<Rightarrow> Incident \<Rightarrow> string \<times> string \<times> any_value table)
     \<Rightarrow> WorkflowState option \<Rightarrow> 's manager \<Rightarrow> 's manager" where
  "finish_run S E st k clear kind text done_event state m = (case state of None \<Rightarrow> m\<lparr>mg_Panicked := True\<rparr>
     | Some s \<Rightarrow> (case ws_Incident s of None \<Rightarrow> m\<lparr>mg_Panicked := True\<rparr>
       | Some i0 \<Rightarrow> let i = clear i0 in
           (case st_Update S i (mg_Store m) of
              (Some e, t) \<Rightarrow> audit S st k kind text [''error'' \<mapsto> AString (me_Redact E (case e of ErrNotFound \<Rightarrow> ''not found'' | StoreFailure x \<Rightarrow> x))] (m\<lparr>mg_Store := t\<rparr>)
            | (None, t) \<Rightarrow> (case done_event s i of (ev_kind, message, data) \<Rightarrow>
                audit S st k ev_kind message data (learn S E st k i (m\<lparr>mg_Store := t\<rparr>))))))"

text \<open>\<^verbatim>\<open>run\<close> returns what the pointer handed to the supervisor points to afterwards, and the outcome.\<close>

definition diagnose ::
  "'s store \<Rightarrow> manager_env \<Rightarrow> service_stamp \<Rightarrow> (Incident \<Rightarrow> Incident \<times> run_outcome) \<Rightarrow> string \<Rightarrow> 's manager \<Rightarrow> 's manager" where
  "diagnose S E st run k m = (case st_Get S k (mg_Store m) of
       Inl _ \<Rightarrow> m
     | Inr i0 \<Rightarrow> (case run (prepared E i0) of
         (i, Interrupted interruptID) \<Rightarrow>
           let j = (try_transition i StatusAwaitingApproval (sv_Now st))\<lparr>inc_WorkflowInterruptID := interruptID, inc_UpdatedAt := sv_Now st\<rparr>
           in audit S st k ''workflow_interrupted'' ''Eino workflow is awaiting approval'' [''interrupt_id'' \<mapsto> AString interruptID] (save S j m)
       | (i, Failed e state) \<Rightarrow>
           let j = failed_incident st (redactWorkflowError E e) (state_incident i state)
           in audit S st k ''diagnosis_failed'' (inc_DiagnosisError j) Map.empty (save S j m)
       | (i, Finished state) \<Rightarrow>
           finish_run S E st k (\<lambda>j. j\<lparr>inc_DiagnosisError := []\<rparr>) ''diagnosis_persistence_failed'' ''diagnosis result persistence failed''
             (\<lambda>s j. (''diagnosis_completed'', ''diagnosis workflow completed'',
                [''status'' \<mapsto> status_text (inc_Status j), ''errors'' \<mapsto> AList (map AString (ws_Errors s))])) state m))"

section \<open>The operator's decision\<close>

definition Approve ::
  "'s store \<Rightarrow> service_stamp \<Rightarrow> string \<Rightarrow> string \<Rightarrow> string \<Rightarrow> string \<Rightarrow> string \<Rightarrow> 's manager \<Rightarrow> (service_error + Incident) \<times> 's manager" where
  "Approve S st k proposalID decision comment key m = (case st_Get S k (mg_Store m) of
       Inl e \<Rightarrow> (Inl (StoreFailed e), m)
     | Inr i \<Rightarrow> (case inc_Proposal i of
         None \<Rightarrow> (Inl NotAwaitingApproval, m)
       | Some p \<Rightarrow>
           if inc_Status i \<noteq> StatusAwaitingApproval then (Inl NotAwaitingApproval, m)
           else if inc_WorkflowInterruptID i = []
           then (Inl CheckpointMissing, save S ((try_transition i StatusNeedsAttention (sv_Now st))\<lparr>inc_UpdatedAt := sv_Now st\<rparr>) m)
           else if rp_ID p \<noteq> proposalID then (Inl ProposalMismatch, m)
           else if sv_Now st > rp_ExpiresAt p then (Inl ProposalExpired, m)
           else (case st_RecordApproval S key k proposalID decision comment (mg_Store m) of
               (Inl e, s) \<Rightarrow> (Inl (StoreFailed e), m\<lparr>mg_Store := s\<rparr>)
             | (Inr claimed, s) \<Rightarrow>
                 let m1 = m\<lparr>mg_Store := s\<rparr> in
                 if \<not> claimed then (Inr i, m1)
                 else if decision \<noteq> ''approve''
                 then (Inr i, start (ResumeWorkflow k False key comment) (audit S st k ''proposal_rejected'' comment Map.empty m1))
                 else (Inr i, start (ResumeWorkflow k True key comment)
                        (audit S st k ''proposal_approved'' comment [''proposal_id'' \<mapsto> AString (rp_ID p), ''action'' \<mapsto> AString (action_name (rp_Action p))] m1)))))"

text \<open>The context a resumed run receives; approving an incident whose proposal is gone dereferences nil.\<close>

definition resume_context :: "manager_env \<Rightarrow> service_stamp \<Rightarrow> string \<Rightarrow> string \<Rightarrow> Incident \<Rightarrow> RecoveryProposal \<Rightarrow> ExecutionContext" where
  "resume_context E st key operator i p =
     (let c = zero_ExecutionContext\<lparr>ec_NamespaceAllowlist := me_AllowedNamespaces E, ec_IncidentID := inc_ID i, ec_ProposalID := rp_ID p,
            ec_ApprovalID := sv_ID st 1, ec_IdempotencyKey := key, ec_Operator := operator, ec_TargetUID := rp_TargetUID p,
            ec_ResourceVersion := rp_ResourceVersion p, ec_ApprovedAt := sv_Now st, ec_ExpiresAt := rp_ExpiresAt p\<rparr>;
          c = (case inc_DryRun i of None \<Rightarrow> c
            | Some d \<Rightarrow> c\<lparr>ec_MutationSpecHash := dr_MutationSpecHash d, ec_DryRunValidatedAt := dr_ValidatedAt d\<rparr>)
      in case inc_Investigation i of None \<Rightarrow> c
         | Some v \<Rightarrow> (case inv_AgentRecoveryPlan v of None \<Rightarrow> c
             | Some plan \<Rightarrow> if IsKubePilotBrainMethod (inc_DiagnosisMethod i)
                 then c\<lparr>ec_RecoveryPlanID := plan_ID plan, ec_DiagnosisVersion := plan_DiagnosisVersion plan,
                        ec_EvidenceSnapshotHash := plan_EvidenceSnapshotHash plan, ec_ExecutionSnapshot := Some (plan_ExecutionSnapshot plan)\<rparr>
                 else c))"

definition same_runtime :: "manager_env \<Rightarrow> Incident \<Rightarrow> bool" where
  "same_runtime E i = (me_RuntimeHashes E = (inc_SkillSnapshotHash i, inc_RankingPolicyHash i, inc_RerankerConfigHash i))"

definition refuse_resume :: "'s store \<Rightarrow> service_stamp \<Rightarrow> string \<Rightarrow> string \<Rightarrow> string \<Rightarrow> Incident \<Rightarrow> 's manager \<Rightarrow> 's manager" where
  "refuse_resume S st k kind text i m =
     (let j = failed_incident st text i in audit S st k kind (inc_DiagnosisError j) Map.empty (save S j m))"

definition resume_run ::
  "'s store \<Rightarrow> manager_env \<Rightarrow> service_stamp \<Rightarrow> (string \<Rightarrow> string \<Rightarrow> ApprovalResumeData \<Rightarrow> workflow_failure option \<times> WorkflowState option) \<Rightarrow> string \<Rightarrow> Incident \<Rightarrow> ApprovalResumeData \<Rightarrow> 's manager \<Rightarrow> 's manager" where
  "resume_run S E st resume k i data m =
     (let m1 = m\<lparr>mg_Resumed := mg_Resumed m @ [(k, inc_WorkflowInterruptID i, data)]\<rparr> in
      case resume k (inc_WorkflowInterruptID i) data of
        (None, state) \<Rightarrow> finish_run S E st k (\<lambda>j. j\<lparr>inc_WorkflowInterruptID := []\<rparr>) ''workflow_persistence_failed'' ''workflow result persistence failed''
          (\<lambda>s j. (''workflow_completed'', ''Eino workflow completed after approval'', [''status'' \<mapsto> status_text (inc_Status j)])) state m1
      | (Some e, state) \<Rightarrow> refuse_resume S st k ''workflow_resume_failed'' (redactWorkflowError E e) (state_incident i state) m1)"

definition resumeWorkflow ::
  "'s store \<Rightarrow> manager_env \<Rightarrow> service_stamp \<Rightarrow> (string \<Rightarrow> string \<Rightarrow> ApprovalResumeData \<Rightarrow> workflow_failure option \<times> WorkflowState option) \<Rightarrow> string \<Rightarrow> bool \<Rightarrow> string \<Rightarrow> string \<Rightarrow> 's manager \<Rightarrow> 's manager" where
  "resumeWorkflow S E st resume k approved key operator m = (case st_Get S k (mg_Store m) of
       Inl _ \<Rightarrow> m
     | Inr i \<Rightarrow>
         if \<not> same_runtime E i
         then refuse_resume S st k ''workflow_resume_refused'' ''workflow runtime configuration changed; explicit retry is required'' i m
         else (case (case me_ModelSnapshot E of None \<Rightarrow> None | Some check \<Rightarrow> check (inc_ModelConfigHash i)) of
             Some e \<Rightarrow> refuse_resume S st k ''workflow_resume_failed'' (me_Redact E e) i m
           | None \<Rightarrow>
               if \<not> approved then resume_run S E st resume k i \<lparr>ard_Approved = False, ard_Context = zero_ExecutionContext\<rparr> m
               else (case inc_Proposal i of None \<Rightarrow> m\<lparr>mg_Panicked := True\<rparr>
                   | Some p \<Rightarrow> resume_run S E st resume k i \<lparr>ard_Approved = True, ard_Context = resume_context E st key operator i p\<rparr> m)))"

end
