(* ===== verification/Service_Steps.thy ===== *)
theory Service_Steps
  imports Incident_Service
begin

text \<open>The incident manager as a transition system: the requests of its clients, the workflow events it
  observes, and the goroutines it has started, each taken once and in any order.  Two invariants of its runs
  are proved for every store that keeps the contract of \<^verbatim>\<open>Incident_Store\<close>: what the stored incidents
  satisfy, and that an approval key starts one resumption.\<close>

section \<open>Steps\<close>

text \<open>The engine is any function of the given sets; a task is removed when its goroutine runs.\<close>

type_synonym engine_run = "Incident \<Rightarrow> Incident \<times> run_outcome"
type_synonym engine_resume = "string \<Rightarrow> string \<Rightarrow> ApprovalResumeData \<Rightarrow> workflow_failure option \<times> WorkflowState option"

definition taken :: "manager_task \<Rightarrow> 's manager \<Rightarrow> 's manager" where
  "taken task m = m\<lparr>mg_Tasks := remove1 task (mg_Tasks m)\<rparr>"

inductive manager_step :: "'s store \<Rightarrow> manager_env \<Rightarrow> engine_run set \<Rightarrow> engine_resume set \<Rightarrow> 's manager \<Rightarrow> 's manager \<Rightarrow> bool"
  for S E Runs Resumes where
  Created: "manager_step S E Runs Resumes m (snd (CreateIncident S E st x m))"
| Ingested: "manager_step S E Runs Resumes m (snd (IngestAlert S E st a service namespace severity resource summary m))"
| Observed: "manager_step S E Runs Resumes m (ObserveWorkflowEvent S st e m)"
| Retried: "manager_step S E Runs Resumes m (snd (Retry S E st k m))"
| Migrated: "manager_step S E Runs Resumes m (snd (MigrateWorkflowAttempt S E st k m))"
| Decided: "manager_step S E Runs Resumes m (snd (Approve S st k p decision comment key m))"
| Diagnosed: "Diagnose k \<in> set (mg_Tasks m) \<Longrightarrow> run \<in> Runs \<Longrightarrow>
    manager_step S E Runs Resumes m (diagnose S E st run k (taken (Diagnose k) m))"
| Resumed: "ResumeWorkflow k approved key operator \<in> set (mg_Tasks m) \<Longrightarrow> resume \<in> Resumes \<Longrightarrow>
    manager_step S E Runs Resumes m (resumeWorkflow S E st resume k approved key operator (taken (ResumeWorkflow k approved key operator) m))"

abbreviation manager_run :: "'s store \<Rightarrow> manager_env \<Rightarrow> engine_run set \<Rightarrow> engine_resume set \<Rightarrow> 's manager \<Rightarrow> 's manager \<Rightarrow> bool" where
  "manager_run S E Runs Resumes \<equiv> (manager_step S E Runs Resumes)\<^sup>*\<^sup>*"

definition NewManager :: "'s \<Rightarrow> 's manager" where
  "NewManager s = \<lparr>mg_Store = s, mg_Tasks = [], mg_Resumed = [], mg_DeletedCheckpoints = [], mg_Learned = [], mg_Panicked = False\<rparr>"

section \<open>Keys\<close>

fun task_keys :: "manager_task \<Rightarrow> string list" where
  "task_keys (Diagnose k) = []"
| "task_keys (ResumeWorkflow k approved key operator) = [key]"

fun resumed_keys :: "string \<times> string \<times> ApprovalResumeData \<Rightarrow> string list" where
  "resumed_keys (k, interrupt, data) = (if ard_Approved data then [ec_IdempotencyKey (ard_Context data)] else [])"

text \<open>The keys of the resumptions still to run, and of those that were handed to the engine with an approval.\<close>

definition approval_keys :: "'s manager \<Rightarrow> string list" where
  "approval_keys m = concat (map task_keys (mg_Tasks m)) @ concat (map resumed_keys (mg_Resumed m))"

section \<open>Operations that decide nothing\<close>

text \<open>An operation is calm when it claims no key, resumes nothing and keeps what every stored incident satisfies.\<close>

definition holds :: "'s store \<Rightarrow> (Incident \<Rightarrow> bool) \<Rightarrow> 's \<Rightarrow> bool" where
  "holds S P s = (\<forall>k i. st_Get S k s = Inr i \<longrightarrow> P i)"

lemma holdsD: "holds S P s \<Longrightarrow> st_Get S k s = Inr i \<Longrightarrow> P i"
  by (simp add: holds_def)

lemma writes_holds: "writes S ok claimed s w s' \<Longrightarrow> holds S P s \<Longrightarrow> (\<And>i. w = Some i \<Longrightarrow> P i) \<Longrightarrow> holds S P s'"
  by (auto simp: writes_def holds_def split: option.splits if_splits)

definition good :: "'s store \<Rightarrow> ('s \<Rightarrow> bool) \<Rightarrow> (Incident \<Rightarrow> bool) \<Rightarrow> 's \<Rightarrow> bool" where
  "good S ok P s = (ok s \<and> holds S P s)"

definition calm_step :: "('s \<Rightarrow> bool) \<Rightarrow> ('s \<Rightarrow> string \<Rightarrow> bool) \<Rightarrow> 's manager \<Rightarrow> 's manager \<Rightarrow> bool" where
  "calm_step fine claimed m m' = (fine (mg_Store m) \<longrightarrow> fine (mg_Store m') \<and> claimed (mg_Store m') = claimed (mg_Store m) \<and>
     approval_keys m' = approval_keys m \<and> mg_Resumed m' = mg_Resumed m)"

text \<open>The keys of the resumptions are distinct and claimed, and the store is good; a key is ready when it is
  claimed and not yet used.\<close>

definition sound_keys :: "('s \<Rightarrow> bool) \<Rightarrow> ('s \<Rightarrow> string \<Rightarrow> bool) \<Rightarrow> 's manager \<Rightarrow> bool" where
  "sound_keys fine claimed m = (fine (mg_Store m) \<and> distinct (approval_keys m) \<and> list_all (claimed (mg_Store m)) (approval_keys m))"

definition ready_key :: "('s \<Rightarrow> bool) \<Rightarrow> ('s \<Rightarrow> string \<Rightarrow> bool) \<Rightarrow> string \<Rightarrow> 's manager \<Rightarrow> bool" where
  "ready_key fine claimed key m = (sound_keys fine claimed m \<and> key \<notin> set (approval_keys m) \<and> claimed (mg_Store m) key)"

lemma keys_calm:
  assumes "calm_step fine claimed m m'"
  shows "sound_keys fine claimed m \<Longrightarrow> sound_keys fine claimed m'" "ready_key fine claimed key m \<Longrightarrow> ready_key fine claimed key m'"
  using assms by (auto simp: sound_keys_def ready_key_def calm_step_def)

lemma keys_started:
  "ready_key fine claimed key m \<Longrightarrow> sound_keys fine claimed (start (ResumeWorkflow k approved key operator) m)"
  by (auto simp: ready_key_def sound_keys_def start_def approval_keys_def)

lemma keys_taken:
  assumes "task \<in> set (mg_Tasks m)" "sound_keys fine claimed m"
  shows "sound_keys fine claimed (taken task m)" "task_keys task = [key] \<Longrightarrow> ready_key fine claimed key (taken task m)"
proof -
  obtain xs ys where "mg_Tasks m = xs @ task # ys" "task \<notin> set xs" using assms(1) by (meson split_list_first)
  then show "sound_keys fine claimed (taken task m)" "task_keys task = [key] \<Longrightarrow> ready_key fine claimed key (taken task m)"
    using assms(2) by (auto simp: sound_keys_def ready_key_def taken_def approval_keys_def remove1_append)
qed

lemma keys_resumed:
  assumes "ready_key fine claimed key m" "ard_Approved data \<longrightarrow> ec_IdempotencyKey (ard_Context data) = key"
  shows "sound_keys fine claimed (m\<lparr>mg_Resumed := mg_Resumed m @ [(k, interrupt, data)]\<rparr>)"
  using assms by (auto simp: ready_key_def sound_keys_def approval_keys_def)

context incident_store
begin

lemma correlate_stored: "ok (mg_Store m) \<Longrightarrow> correlate S E st a service namespace resource m = Some i \<Longrightarrow> st_Get S (inc_ID i) (mg_Store m) = Inr i"
  by (auto simp: correlate_def find_Some_iff split: sum.splits option.splits if_splits intro!: listed)

end

locale manager_invariant = incident_store S ok claimed
  for S :: "'s store" and ok claimed +
  fixes E :: manager_env and P :: "Incident \<Rightarrow> bool" and Runs :: "engine_run set" and Resumes :: "engine_resume set"
  assumes created: "P (manual_incident st x method mode)" "P (alert_incident st a service namespace severity resource summary)"
    and alerted: "P i \<Longrightarrow> P (i\<lparr>inc_Alerts := alerts, inc_UpdatedAt := t\<rparr>)"
    and moved: "P i \<Longrightarrow> P (i\<lparr>inc_Status := status, inc_UpdatedAt := t\<rparr>)"
    and explained: "P i \<Longrightarrow> P (i\<lparr>inc_DiagnosisError := text, inc_UpdatedAt := t\<rparr>)" "P i \<Longrightarrow> P (i\<lparr>inc_DiagnosisError := []\<rparr>)"
    and interrupted: "P i \<Longrightarrow> P (i\<lparr>inc_WorkflowInterruptID := interrupt, inc_UpdatedAt := t\<rparr>)" "P i \<Longrightarrow> P (i\<lparr>inc_WorkflowInterruptID := []\<rparr>)"
    and touched: "P i \<Longrightarrow> P (i\<lparr>inc_UpdatedAt := t\<rparr>)"
    and invalidated: "P i \<Longrightarrow> P (i\<lparr>inc_WorkflowAttempt := attempt\<rparr>)"
    and restart: "P i \<Longrightarrow> P (restarted st i new)"
    and prepare: "P i \<Longrightarrow> P (prepared E i)"
    and runs: "run \<in> Runs \<Longrightarrow> P i \<Longrightarrow> run i = (j, result) \<Longrightarrow> P j \<and>
      (\<forall>e s. result = Failed e (Some s) \<or> result = Finished (Some s) \<longrightarrow> pred_option P (ws_Incident s))"
    and resumes: "resume \<in> Resumes \<Longrightarrow> resume k interrupt data = (e, Some s) \<Longrightarrow> pred_option P (ws_Incident s)"
begin

abbreviation fine :: "'s \<Rightarrow> bool" where
  "fine \<equiv> good S ok P"

abbreviation calm :: "'s manager \<Rightarrow> 's manager \<Rightarrow> bool" where
  "calm \<equiv> calm_step fine claimed"

lemma calm_refl [simp]: "calm m m"
  by (simp add: calm_step_def)

lemma calm_trans: "calm m m' \<Longrightarrow> calm m' m'' \<Longrightarrow> calm m m''"
  by (simp add: calm_step_def)

lemma calm_fields [simp]:
  "calm m (m'\<lparr>mg_DeletedCheckpoints := x\<rparr>) = calm m m'" "calm m (m'\<lparr>mg_Learned := y\<rparr>) = calm m m'" "calm m (m'\<lparr>mg_Panicked := b\<rparr>) = calm m m'"
  by (simp_all add: calm_step_def approval_keys_def)

lemma fineD: "fine s \<Longrightarrow> ok s" "fine s \<Longrightarrow> st_Get S k s = Inr i \<Longrightarrow> P i"
  by (auto simp: good_def holds_def)

lemma calm_writes:
  assumes "ok (mg_Store m) \<Longrightarrow> writes S ok claimed (mg_Store m) w s" "\<And>i. w = Some i \<Longrightarrow> fine (mg_Store m) \<Longrightarrow> P i"
  shows "calm m (m\<lparr>mg_Store := s\<rparr>)"
  using assms writes_holds [of S ok claimed "mg_Store m" w s P]
  by (auto simp: calm_step_def approval_keys_def good_def writes_def)

lemma calm_create: "st_Create S i (mg_Store m) = (e, s) \<Longrightarrow> P i \<Longrightarrow> calm m (m\<lparr>mg_Store := s\<rparr>)"
  by (rule calm_writes, erule (1) create) (simp split: if_splits)

lemma calm_update: "st_Update S i (mg_Store m) = (e, s) \<Longrightarrow> P i \<Longrightarrow> calm m (m\<lparr>mg_Store := s\<rparr>)"
  by (rule calm_writes, erule (1) update) (simp split: if_splits)

lemma calm_append:
  assumes "st_AppendAlert S = Some add" "add k alert now (mg_Store m) = (r, s)"
  shows "calm m (m\<lparr>mg_Store := s\<rparr>)"
proof (rule calm_writes [where w = "case r of Inl _ \<Rightarrow> None | Inr i \<Rightarrow> Some i"])
  show "writes S ok claimed (mg_Store m) (case r of Inl _ \<Rightarrow> None | Inr i \<Rightarrow> Some i) s" if "ok (mg_Store m)"
    using append [OF that assms] by (auto split: sum.splits)
  show "P i" if "(case r of Inl _ \<Rightarrow> None | Inr i \<Rightarrow> Some i) = Some i" "fine (mg_Store m)" for i
    using append [OF fineD(1) [OF that(2)] assms] that by (auto split: sum.splits dest: fineD(2) intro: alerted)
qed

lemma calm_move:
  assumes "st_UpdateWorkflowStatus S = Some move" "move k to now (mg_Store m) = (e, s)"
  shows "calm m (m\<lparr>mg_Store := s\<rparr>)"
proof (rule calm_writes [where w = "if e = None then (case st_Get S k (mg_Store m) of Inl _ \<Rightarrow> None | Inr j \<Rightarrow> Some (j\<lparr>inc_Status := to, inc_UpdatedAt := now\<rparr>)) else None"])
  show "writes S ok claimed (mg_Store m) (if e = None then (case st_Get S k (mg_Store m) of Inl _ \<Rightarrow> None
      | Inr j \<Rightarrow> Some (j\<lparr>inc_Status := to, inc_UpdatedAt := now\<rparr>)) else None) s" if "ok (mg_Store m)"
    using status [OF that assms] by (auto split: sum.splits if_splits)
qed (auto split: sum.splits if_splits dest: fineD(2) intro: moved)

lemma calm_record: "st_RecordWorkflowEvent S = Some keep \<Longrightarrow> calm m (m\<lparr>mg_Store := snd (keep event (mg_Store m))\<rparr>)"
  by (rule calm_writes [where w = None]) (auto intro: observation surjective_pairing)

lemma calm_audit: "calm m (audit S st k kind message data m)"
  unfolding audit_def by (rule calm_writes [where w = None]) (auto intro: audit surjective_pairing)

lemma calm_save: "P i \<Longrightarrow> calm m (save S i m)"
  unfolding save_def by (rule calm_update [OF surjective_pairing])

lemma calm_diagnosis: "calm m (start_diagnosis E k m)"
  by (simp add: start_diagnosis_def start_def calm_step_def approval_keys_def)

text \<open>The same rules at the end of a chain of steps.\<close>

lemmas calm_chain = calm_trans [OF _ calm_audit] calm_trans [OF _ calm_save] calm_trans [OF _ calm_diagnosis]

section \<open>The operations\<close>

lemma try_kept: "P i \<Longrightarrow> P (try_transition i to now)"
  by (auto simp: try_transition_def Transition_def split: sum.splits intro: moved)

lemma admit_calm: "P i \<Longrightarrow> calm m (snd (admit_incident S E st i kind message data m))"
  by (auto simp: admit_incident_def split: prod.splits option.splits intro!: calm_chain calm_create)

lemma Create_calm: "calm m (snd (CreateIncident S E st x m))"
  by (auto simp: CreateIncident_def split: prod.splits intro!: admit_calm created)

lemma append_calm:
  assumes "fine (mg_Store m)" "st_Get S (inc_ID existing) (mg_Store m) = Inr existing"
  shows "calm m (snd (appendAlert S st existing alert m))"
  using fineD(2) [OF assms]
  by (auto simp: appendAlert_def Let_def split: option.splits prod.splits sum.splits intro: calm_append calm_update alerted)

lemma audited_calm:
  assumes "fine (mg_Store m)" "st_Get S (inc_ID existing) (mg_Store m) = Inr existing"
  shows "calm m (snd (audited_append S st existing a kind message m))"
  using append_calm [OF assms, of st a]
  by (auto simp: audited_append_def split: prod.splits sum.splits intro!: calm_chain)

lemma Ingest_calm:
  assumes "fine (mg_Store m)"
  shows "calm m (snd (IngestAlert S E st a service namespace severity resource summary m))"
  using found [OF fineD(1) [OF assms]]
  by (auto simp: IngestAlert_def split: sum.splits option.splits
      intro: audited_calm [OF assms] append_calm [OF assms] admit_calm created correlate_stored [OF fineD(1) [OF assms]])

lemma Observe_calm: "calm m (ObserveWorkflowEvent S st e m)"
proof -
  have "calm m (observed_status S e m)"
    by (auto simp: observed_status_def split: option.splits intro: calm_move surjective_pairing)
  moreover have "calm m' (recorded_event S e m')" for m'
    by (auto simp: recorded_event_def split: option.splits intro: calm_record)
  ultimately show ?thesis unfolding ObserveWorkflowEvent_def by (blast intro: calm_trans calm_audit)
qed

lemma transition_kept: "P i \<Longrightarrow> Transition (Some i) to now = Inr j \<Longrightarrow> P j"
  by (auto simp: Transition_def split: if_splits intro: moved)

lemma restart_calm:
  assumes "P i"
  shows "calm m (snd (restart S E st k i a m))"
proof (cases "Transition (Some i) StatusReceived (sv_Now st)")
  case (Inr j)
  let ?m = "if me_HasCheckpoints E then m\<lparr>mg_DeletedCheckpoints := mg_DeletedCheckpoints m @ [''incident:'' @ k]\<rparr> else m"
  have "P (restarted st j a)" using transition_kept [OF assms Inr] by (rule restart)
  then have "calm m (?m\<lparr>mg_Store := s\<rparr>)" if "st_Update S (restarted st j a) (mg_Store ?m) = (e, s)" for e s
    using calm_trans [OF _ calm_update [OF that]] by simp
  then show ?thesis using Inr by (auto simp: restart_def Let_def split: prod.splits option.splits intro!: calm_chain)
qed (simp add: restart_def)

lemma Retry_calm:
  assumes "fine (mg_Store m)"
  shows "calm m (snd (Retry S E st k m))"
proof (cases "st_Get S k (mg_Store m)")
  case (Inr i)
  note i = fineD(2) [OF assms Inr]
  have "calm m (snd (restart S E st k (i\<lparr>inc_WorkflowAttempt := w\<rparr>) a (m\<lparr>mg_Store := s\<rparr>)))"
    if "st_Update S (i\<lparr>inc_WorkflowAttempt := w\<rparr>) (mg_Store m) = (e, s)" for a w e s
    by (rule calm_trans [OF calm_update [OF that] restart_calm]) (rule invalidated [OF i])+
  then show ?thesis using Inr i
    by (auto simp: Retry_def Let_def split: option.splits prod.splits intro: restart_calm calm_update invalidated)
qed (simp add: Retry_def)

lemma Migrate_calm: "fine (mg_Store m) \<Longrightarrow> calm m (snd (MigrateWorkflowAttempt S E st k m))"
  by (auto simp: MigrateWorkflowAttempt_def intro: Retry_calm split: sum.splits)

lemma learn_calm: "calm m (learn S E st k i m)"
  by (auto simp: learn_def Let_def split: option.splits intro!: calm_chain)

lemma finish_calm:
  assumes "\<And>s i. state = Some s \<Longrightarrow> ws_Incident s = Some i \<Longrightarrow> P (clear i)"
  shows "calm m (finish_run S E st k clear kind text done_event state m)"
  using assms
  by (auto simp: finish_run_def Let_def split: option.splits prod.splits intro!: calm_chain calm_trans [OF _ learn_calm] intro: calm_update)

lemma failed_kept: "P i \<Longrightarrow> P (failed_incident st text i)"
  by (simp add: failed_incident_def explained try_kept)

lemma refuse_calm: "P i \<Longrightarrow> calm m (refuse_resume S st k kind text i m)"
  by (simp add: refuse_resume_def Let_def calm_chain failed_kept)

lemma state_kept: "P i \<Longrightarrow> (\<And>s. state = Some s \<Longrightarrow> pred_option P (ws_Incident s)) \<Longrightarrow> P (state_incident i state)"
  by (auto simp: state_incident_def split: option.splits)

lemma diagnose_calm:
  assumes "fine (mg_Store m)" "run \<in> Runs"
  shows "calm m (diagnose S E st run k m)"
proof (cases "st_Get S k (mg_Store m)")
  case (Inr i)
  obtain j result where r: "run (prepared E i) = (j, result)" by fastforce
  note kept = runs [OF assms(2) prepare [OF fineD(2) [OF assms(1) Inr]] r]
  show ?thesis
  proof (cases result)
    case (Finished state)
    have fin: "calm m (finish_run S E st k (\<lambda>j. j\<lparr>inc_DiagnosisError := []\<rparr>) kind msg f state m)" for kind msg f
      by (rule finish_calm) (use kept Finished in \<open>auto intro: explained\<close>)
    show ?thesis using Inr r Finished unfolding diagnose_def by (simp add: fin)
  next
    case (Failed e state)
    have "P (state_incident j state)" using kept Failed by (auto intro!: state_kept)
    then show ?thesis using Inr r Failed by (simp add: diagnose_def Let_def calm_chain failed_kept)
  qed (use Inr r kept in \<open>simp add: diagnose_def Let_def calm_chain interrupted try_kept\<close>)
qed (simp add: diagnose_def)

section \<open>The invariant\<close>

lemma resume_run_sound:
  assumes "ready_key fine claimed key m" "P i" "resume \<in> Resumes" "ard_Approved data \<longrightarrow> ec_IdempotencyKey (ard_Context data) = key"
  shows "sound_keys fine claimed (resume_run S E st resume k i data m)"
proof -
  let ?m = "m\<lparr>mg_Resumed := mg_Resumed m @ [(k, inc_WorkflowInterruptID i, data)]\<rparr>"
  obtain e state where r: "resume k (inc_WorkflowInterruptID i) data = (e, state)" by fastforce
  have state: "pred_option P (ws_Incident s)" if "state = Some s" for s using resumes [OF assms(3)] r that by blast
  have fin: "calm ?m (finish_run S E st k (\<lambda>j. j\<lparr>inc_WorkflowInterruptID := []\<rparr>) kind msg f state ?m)" for kind msg f
    by (rule finish_calm) (use state in \<open>auto intro: interrupted\<close>)
  have "calm ?m (refuse_resume S st k kind msg (state_incident i state) ?m)" for kind msg
    by (rule refuse_calm) (use state assms(2) in \<open>auto intro: state_kept\<close>)
  with fin have "calm ?m (resume_run S E st resume k i data m)"
    unfolding resume_run_def Let_def r by (simp split: option.split)
  then show ?thesis using keys_calm(1) keys_resumed [OF assms(1,4)] by blast
qed

lemma resume_sound:
  assumes "ready_key fine claimed key m" "resume \<in> Resumes"
  shows "sound_keys fine claimed (resumeWorkflow S E st resume k approved key operator m)"
proof (cases "st_Get S k (mg_Store m)")
  case (Inl e)
  then show ?thesis using assms(1) by (simp add: resumeWorkflow_def ready_key_def)
next
  case (Inr i)
  have sound: "sound_keys fine claimed m" using assms(1) by (simp add: ready_key_def)
  then have i: "P i" using Inr by (auto simp: sound_keys_def dest: fineD(2))
  have key: "ec_IdempotencyKey (resume_context E st key operator i p) = key" for p
    by (simp add: resume_context_def Let_def split: option.split)
  show ?thesis using Inr
    by (auto simp: resumeWorkflow_def key intro: keys_calm(1) [OF refuse_calm [OF i] sound] resume_run_sound [OF assms(1) i assms(2)]
        keys_calm(1) [OF _ sound] split: option.split)
qed

lemma Approve_sound:
  assumes "sound_keys fine claimed m"
  shows "sound_keys fine claimed (snd (Approve S st k p decision comment key m))"
proof (cases "st_Get S k (mg_Store m)")
  case (Inr i)
  note fine = assms [unfolded sound_keys_def, THEN conjunct1]
  obtain r s where a: "st_RecordApproval S key k p decision comment (mg_Store m) = (r, s)" by fastforce
  have "st_Get S x s = st_Get S x (mg_Store m)" "ok s" for x using approval [OF fineD(1) [OF fine] a] by auto
  then have "fine s" using fine by (simp add: good_def holds_def)
  moreover note grow = claims_grow [OF fineD(1) [OF fine] a]
  ultimately have sound: "sound_keys fine claimed (m\<lparr>mg_Store := s\<rparr>)"
    and ready: "r = Inr True \<Longrightarrow> ready_key fine claimed key (m\<lparr>mg_Store := s\<rparr>)"
    using assms by (auto simp: sound_keys_def ready_key_def approval_keys_def list_all_iff)
  have "calm m (save S ((try_transition i StatusNeedsAttention t)\<lparr>inc_UpdatedAt := t\<rparr>) m)" for t
    by (rule calm_save) (rule touched, rule try_kept, rule fineD(2) [OF fine Inr])
  then show ?thesis using Inr assms sound ready a
    by (auto simp: Approve_def Let_def intro: keys_calm(1) keys_started keys_calm(2) [OF calm_audit] split: option.split sum.split)
qed (use assms in \<open>simp add: Approve_def\<close>)

text \<open>Every reachable state is sound.\<close>

lemma step_sound:
  assumes "manager_step S E Runs Resumes m m'" "sound_keys fine claimed m"
  shows "sound_keys fine claimed m'"
  using assms(1)
proof cases
  case (Diagnosed k run st)
  note sound = keys_taken(1) [OF Diagnosed(2) assms(2)]
  then have "calm (taken (Diagnose k) m) m'"
    unfolding Diagnosed(1) using Diagnosed(3) by (simp add: diagnose_calm sound_keys_def)
  then show ?thesis using sound by (rule keys_calm(1))
next
  case (Resumed k approved key operator resume st)
  show ?thesis unfolding Resumed(1) using keys_taken(2) [OF Resumed(2) assms(2)] Resumed(3) by (simp add: resume_sound)
next
  case Decided
  then show ?thesis using Approve_sound [OF assms(2)] by simp
next
  case Created
  then show ?thesis using keys_calm(1) [OF Create_calm assms(2)] by simp
next
  case Observed
  then show ?thesis using keys_calm(1) [OF Observe_calm assms(2)] by simp
qed (use assms(2) in \<open>simp_all add: sound_keys_def keys_calm(1) [OF Ingest_calm, unfolded sound_keys_def]
    keys_calm(1) [OF Retry_calm, unfolded sound_keys_def] keys_calm(1) [OF Migrate_calm, unfolded sound_keys_def]\<close>)

lemma run_sound:
  assumes "manager_run S E Runs Resumes (NewManager s) m" "fine s"
  shows "sound_keys fine claimed m"
  using assms(1)
proof (induction rule: rtranclp_induct)
  case base
  show ?case using assms(2) by (simp add: sound_keys_def NewManager_def approval_keys_def)
qed (rule step_sound)

text \<open>Only the goroutine of a decision calls the engine's \<^verbatim>\<open>Resume\<close>.\<close>

lemma Approve_resumed: "mg_Resumed (snd (Approve S st k p decision comment key m)) = mg_Resumed m"
  by (auto simp: Approve_def Let_def start_def audit_def save_def split: sum.splits option.splits prod.splits)

lemma step_resumed:
  assumes "manager_step S E Runs Resumes m m'" "sound_keys fine claimed m"
    and "\<And>k approved key operator resume st. resume \<in> Resumes \<Longrightarrow>
      m' = resumeWorkflow S E st resume k approved key operator (taken (ResumeWorkflow k approved key operator) m) \<Longrightarrow> mg_Resumed m' = mg_Resumed m"
  shows "mg_Resumed m' = mg_Resumed m"
proof -
  have fine: "fine (mg_Store m)" using assms(2) by (simp add: sound_keys_def)
  have same: "calm m m'' \<Longrightarrow> mg_Resumed m'' = mg_Resumed m" for m'' using fine by (simp add: calm_step_def)
  show ?thesis
    using assms(1)
  proof cases
    case (Diagnosed k run st)
    then have "calm (taken (Diagnose k) m) m'" using fine by (simp add: taken_def diagnose_calm)
    then show ?thesis using fine by (simp add: calm_step_def taken_def)
  next
    case Resumed
    then show ?thesis using assms(3) by blast
  qed (simp_all add: same [OF Ingest_calm [OF fine]] Approve_resumed same [OF Create_calm] same [OF Observe_calm] same [OF Retry_calm [OF fine]] same [OF Migrate_calm [OF fine]])
qed

end

end
