(* ===== verification/Service_Properties.thy ===== *)
theory Service_Properties
  imports Service_Steps
begin

text \<open>What the incident manager promises, on the built-in store: an approval key resumes one workflow, an
  accepted alert is stored once, a retry starts from nothing, and the context of a resumed run is exactly
  what the safety kernel demands.  Three more properties show what it does not promise.\<close>

section \<open>The two invariants on the built-in store\<close>

interpretation anything: manager_invariant memory_store stored mst_Approvals E "\<lambda>_. True" Runs Resumes for E Runs Resumes
  by unfold_locales (auto simp: option.pred_True)

text \<open>An engine that hands back incidents without a ranking policy hash, as the supervisor does: no statement
  of the program stores one.\<close>

definition unranked :: "Incident \<Rightarrow> bool" where
  "unranked i = (inc_RankingPolicyHash i = [])"

fun result_state :: "run_outcome \<Rightarrow> WorkflowState option" where
  "result_state (Finished s) = s"
| "result_state (Failed e s) = s"
| "result_state (run_outcome.Interrupted t) = None"

definition unranked_state :: "WorkflowState option \<Rightarrow> bool" where
  "unranked_state s = pred_option (\<lambda>s. pred_option unranked (ws_Incident s)) s"

definition unranked_run :: "engine_run \<Rightarrow> bool" where
  "unranked_run run = (\<forall>i. unranked i \<longrightarrow> unranked (fst (run i)) \<and> unranked_state (result_state (snd (run i))))"

definition unranked_resume :: "engine_resume \<Rightarrow> bool" where
  "unranked_resume resume = (\<forall>k interrupt data. unranked_state (snd (resume k interrupt data)))"

lemma unranked_prepared: "unranked i \<Longrightarrow> unranked (prepared E i)"
  by (simp add: unranked_def prepared_def Let_def split: option.split prod.split)

lemma unranked_created:
  "unranked (manual_incident st x method mode)" "unranked (alert_incident st a service namespace severity resource summary)"
proof -
  have "inc_RankingPolicyHash zero_Incident = []" by (simp add: zero_Incident_def)
  then show "unranked (manual_incident st x method mode)" "unranked (alert_incident st a service namespace severity resource summary)"
    by (simp_all add: unranked_def manual_incident_def alert_incident_def)
qed

lemma unranked_fields [simp]:
  "unranked (i\<lparr>inc_Alerts := a\<rparr>) = unranked i" "unranked (i\<lparr>inc_UpdatedAt := t\<rparr>) = unranked i" "unranked (i\<lparr>inc_Status := status\<rparr>) = unranked i"
  "unranked (i\<lparr>inc_DiagnosisError := msg\<rparr>) = unranked i" "unranked (i\<lparr>inc_WorkflowInterruptID := msg\<rparr>) = unranked i"
  "unranked (i\<lparr>inc_WorkflowAttempt := w\<rparr>) = unranked i" "unranked (restarted st i new)"
  by (simp_all add: unranked_def restarted_def)

lemma unranked_result:
  assumes "unranked_run run" "unranked i" "run i = (j, result)"
  shows "unranked j \<and> (\<forall>e s. result = Failed e (Some s) \<or> result = Finished (Some s) \<longrightarrow> pred_option unranked (ws_Incident s))"
proof -
  have "unranked j" "unranked_state (result_state result)" using assms unfolding unranked_run_def by force+
  then show ?thesis by (auto simp: unranked_state_def)
qed

lemma unranked_answer:
  assumes "unranked_resume resume" "resume k interrupt data = (e, Some s)"
  shows "pred_option unranked (ws_Incident s)"
  using assms unfolding unranked_resume_def unranked_state_def by (metis snd_conv option.pred_inject(2))

interpretation unranked: manager_invariant memory_store stored mst_Approvals E unranked "Collect unranked_run" "Collect unranked_resume" for E
  by unfold_locales (simp_all add: unranked_created unranked_prepared unranked_result unranked_answer)

section \<open>Decisions\<close>

definition awaiting :: "Incident \<Rightarrow> RecoveryProposal \<Rightarrow> time \<Rightarrow> bool" where
  "awaiting i p now = (inc_Status i = StatusAwaitingApproval \<and> inc_Proposal i = Some p \<and> inc_WorkflowInterruptID i \<noteq> [] \<and> now \<le> rp_ExpiresAt p)"

lemma approve_fresh:
  assumes "memory_Get k (mg_Store m) = Inr i" "awaiting i p (sv_Now st)" "\<not> mst_Approvals (mg_Store m) key"
  shows "\<exists>m'. Approve memory_store st k (rp_ID p) decision comment key m = (Inr i, m') \<and>
    mg_Tasks m' = mg_Tasks m @ [ResumeWorkflow k (decision = ''approve'') key comment] \<and>
    memory_Get x (mg_Store m') = memory_Get x (mg_Store m) \<and> mst_Approvals (mg_Store m') = (mst_Approvals (mg_Store m))(key := True)"
proof -
  let ?m = "m\<lparr>mg_Store := (mg_Store m)\<lparr>mst_Approvals := (mst_Approvals (mg_Store m))(key := True)\<rparr>\<rparr>"
  have "\<exists>kind data. Approve memory_store st k (rp_ID p) decision comment key m =
      (Inr i, start (ResumeWorkflow k (decision = ''approve'') key comment) (audit memory_store st k kind comment data ?m))"
    using assms by (auto simp: Approve_def awaiting_def memory_RecordApproval_def Let_def)
  then show ?thesis by (auto simp: start_def audit_def memory_AppendAudit_def memory_Get_def)
qed

section \<open>An example\<close>

definition shop_env :: manager_env where
  "shop_env = \<lparr>me_HasSupervisor = True, me_AllowedNamespaces = [''shop''], me_RuntimeHashes = (''skills'', ''policy'', []),
     me_BrainSnapshot = (\<lambda>_. zero_ExecutionSnapshot), me_ModelIdentity = None, me_ModelSnapshot = None, me_Correlate = None, me_Learn = None,
     me_HasCheckpoints = True, me_Redact = id\<rparr>"

definition shop_stamp :: service_stamp where
  "shop_stamp = \<lparr>sv_Now = 10, sv_ID = \<lambda>_. ''k''\<rparr>"

definition shop_proposal :: RecoveryProposal where
  "shop_proposal = zero_RecoveryProposal\<lparr>rp_ID := ''p'', rp_ExpiresAt := 100\<rparr>"

definition waiting_incident :: Incident where
  "waiting_incident = zero_Incident\<lparr>inc_ID := ''k'', inc_Status := StatusAwaitingApproval, inc_DiagnosisMethod := ''kubepilot'', inc_Namespace := ''shop'',
     inc_WorkflowInterruptID := ''t'', inc_Proposal := Some shop_proposal, inc_UpdatedAt := 10\<rparr>"

definition shop_request :: ManualIncident where
  "shop_request = \<lparr>mi_Severity = [], mi_Service = ''checkout'', mi_Cluster = [], mi_Namespace = ''shop'', mi_Resource = [], mi_Summary = [],
     mi_DiagnosisMethod = [], mi_CausalMode = [], mi_EvidenceStartAt = 0\<rparr>"

definition waiting_store :: MemoryStore where
  "waiting_store = NewMemoryStore\<lparr>mst_Incidents := [(''k'', waiting_incident)]\<rparr>"

lemma shop_fields [simp]:
  "sv_Now shop_stamp = 10" "sv_ID shop_stamp n = ''k''" "me_HasSupervisor shop_env" "fst (snd (me_RuntimeHashes shop_env)) = ''policy''"
  "me_ModelIdentity shop_env = None" "me_HasCheckpoints shop_env" "me_AllowedNamespaces shop_env = [''shop'']"
  "rp_ID shop_proposal = ''p''" "rp_ExpiresAt shop_proposal = 100"
  by (simp_all add: shop_stamp_def shop_env_def shop_proposal_def)

lemma waiting_fields [simp]:
  "inc_ID waiting_incident = ''k''" "inc_Status waiting_incident = StatusAwaitingApproval" "inc_Proposal waiting_incident = Some shop_proposal"
  "inc_WorkflowInterruptID waiting_incident = ''t''" "inc_DiagnosisMethod waiting_incident = ''kubepilot''"
  "waiting_incident\<lparr>inc_WorkflowInterruptID := ''t'', inc_UpdatedAt := 10\<rparr> = waiting_incident"
  "unranked waiting_incident" "inc_Alerts waiting_incident = []" "inc_WorkflowAttempt waiting_incident = None" "inc_Namespace waiting_incident = ''shop''"
  by (simp_all add: waiting_incident_def unranked_def zero_Incident_def)

lemma waiting_awaits [simp]: "awaiting waiting_incident shop_proposal 10"
  by (simp add: awaiting_def)

lemma waiting_stored [simp]: "stored waiting_store" "memory_Get ''k'' waiting_store = Inr waiting_incident" "\<not> mst_Approvals waiting_store key"
  by (simp_all add: waiting_store_def stored_def memory_Get_def NewMemoryStore_def)

lemma shop_created:
  defines "i \<equiv> manual_incident shop_stamp shop_request ''kubepilot'' ''full''"
  defines "m1 \<equiv> snd (CreateIncident memory_store shop_env shop_stamp shop_request (NewManager NewMemoryStore))"
  shows "map_of (mst_Incidents (mg_Store m1)) = [''k'' \<mapsto> i]" "mst_Approvals (mg_Store m1) = (\<lambda>_. False)"
    "mg_Tasks m1 = [Diagnose ''k'']" "mg_Resumed m1 = []"
proof -
  have "m1 = snd (admit_incident memory_store shop_env shop_stamp i ''incident_created'' ''incident created'' Map.empty (NewManager NewMemoryStore))"
    by (simp add: m1_def i_def CreateIncident_def NormalizeDiagnosisMethod_def NormalizeCausalMode_def IsKubePilotBrainMethod_def shop_request_def)
  moreover have "inc_ID i = ''k''" by (simp add: i_def manual_incident_def)
  ultimately show "map_of (mst_Incidents (mg_Store m1)) = [''k'' \<mapsto> i]" "mst_Approvals (mg_Store m1) = (\<lambda>_. False)"
      "mg_Tasks m1 = [Diagnose ''k'']" "mg_Resumed m1 = []"
    by (simp_all add: admit_incident_def memory_Create_def audit_def memory_AppendAudit_def start_diagnosis_def start_def NewManager_def memory_put_def
        NewMemoryStore_def)
qed

lemma shop_diagnosed:
  assumes "map_of (mst_Incidents (mg_Store m)) ''k'' = Some i"
  defines "m2 \<equiv> diagnose memory_store shop_env shop_stamp (\<lambda>i. (waiting_incident, run_outcome.Interrupted ''t'')) ''k'' m"
  shows "memory_Get ''k'' (mg_Store m2) = Inr waiting_incident" "mst_Approvals (mg_Store m2) = mst_Approvals (mg_Store m)"
    "mg_Tasks m2 = mg_Tasks m" "mg_Resumed m2 = mg_Resumed m"
proof -
  have "try_transition waiting_incident StatusAwaitingApproval 10 = waiting_incident" by (simp add: try_transition_def Transition_def)
  then show "memory_Get ''k'' (mg_Store m2) = Inr waiting_incident" "mst_Approvals (mg_Store m2) = mst_Approvals (mg_Store m)"
      "mg_Tasks m2 = mg_Tasks m" "mg_Resumed m2 = mg_Resumed m"
    using assms(1)
    by (simp_all add: m2_def diagnose_def memory_Get_def Let_def audit_def memory_AppendAudit_def save_def memory_Update_def memory_put_def update_conv')
qed

text \<open>A manual incident is created, diagnosed and interrupted for an approval.\<close>

lemma shop_run:
  "\<exists>m. manager_run memory_store shop_env (Collect unranked_run) (Collect unranked_resume) (NewManager NewMemoryStore) m \<and>
     memory_Get ''k'' (mg_Store m) = Inr waiting_incident \<and> mg_Tasks m = [] \<and> mg_Resumed m = [] \<and> mst_Approvals (mg_Store m) = (\<lambda>_. False)"
proof -
  let ?run = "\<lambda>i. (waiting_incident, run_outcome.Interrupted ''t'')"
  let ?step = "manager_step memory_store shop_env (Collect unranked_run) (Collect unranked_resume)"
  let ?m0 = "NewManager NewMemoryStore"
  let ?m1 = "snd (CreateIncident memory_store shop_env shop_stamp shop_request ?m0)"
  let ?m2 = "diagnose memory_store shop_env shop_stamp ?run ''k'' (taken (Diagnose ''k'') ?m1)"
  have "?step ?m0 ?m1" by (rule manager_step.Created)
  moreover have "?step ?m1 ?m2"
    by (rule manager_step.Diagnosed) (simp_all add: shop_created unranked_run_def unranked_state_def)
  ultimately have "?step\<^sup>*\<^sup>* ?m0 ?m2" by (meson rtranclp.rtrancl_into_rtrancl rtranclp.rtrancl_refl)
  moreover have "map_of (mst_Incidents (mg_Store (taken (Diagnose ''k'') ?m1))) ''k'' = Some (manual_incident shop_stamp shop_request ''kubepilot'' ''full'')"
    by (simp add: taken_def shop_created)
  note shop_diagnosed [OF this]
  ultimately show ?thesis by (auto simp: taken_def shop_created)
qed

section \<open>An approval key resumes one workflow\<close>

text \<open>C6. However requests, workflow events and started goroutines interleave, an approval key is used once:
  in every reachable state of the manager the keys of the resumptions still to run and of the approved
  resumptions already handed to the engine are distinct, and each is claimed in the store.\<close>

theorem approval_resumes_once:
  assumes "manager_run memory_store E Runs Resumes (NewManager NewMemoryStore) m"
  shows "distinct (approval_keys m) \<and> list_all (mst_Approvals (mg_Store m)) (approval_keys m)"
  using anything.run_sound [OF assms] by (simp_all add: sound_keys_def good_def holds_def stored_new)

lemma approval_resumes_once_witness:
  "\<exists>m :: MemoryStore manager. approval_keys m = [''key''] \<and> distinct (approval_keys m) \<and> list_all (mst_Approvals (mg_Store m)) (approval_keys m)"
proof -
  obtain m where m: "manager_run memory_store shop_env (Collect unranked_run) (Collect unranked_resume) (NewManager NewMemoryStore) m"
    "memory_Get ''k'' (mg_Store m) = Inr waiting_incident" "mg_Tasks m = []" "mg_Resumed m = []" "\<not> mst_Approvals (mg_Store m) ''key''"
    using shop_run by auto
  let ?m = "snd (Approve memory_store shop_stamp ''k'' ''p'' ''approve'' ''me'' ''key'' m)"
  have "mg_Tasks ?m = [ResumeWorkflow ''k'' True ''key'' ''me'']"
    using approve_fresh [OF m(2) _ m(5), of shop_proposal shop_stamp "''approve''" "''me''" "[]"] m(3) by auto
  moreover have "mg_Resumed ?m = []" using m(4) by (simp add: anything.Approve_resumed)
  ultimately have "approval_keys ?m = [''key'']" by (simp add: approval_keys_def)
  moreover have "manager_run memory_store shop_env (Collect unranked_run) (Collect unranked_resume) (NewManager NewMemoryStore) ?m"
    by (rule rtranclp.rtrancl_into_rtrancl [OF m(1) manager_step.Decided])
  note approval_resumes_once [OF this]
  ultimately show ?thesis by (intro exI [of _ ?m]) simp
qed

section \<open>An accepted alert is stored once\<close>

text \<open>A write that succeeds leaves the incident behind, and all others as they were.\<close>

definition only_wrote :: "'s store \<Rightarrow> ('s \<Rightarrow> bool) \<Rightarrow> Incident \<Rightarrow> 's manager \<Rightarrow> 's manager \<Rightarrow> bool" where
  "only_wrote S ok i m m' = (ok (mg_Store m') \<and> (\<forall>k. st_Get S k (mg_Store m') = (if k = inc_ID i then Inr i else st_Get S k (mg_Store m))))"

definition with_alert :: "Alert \<Rightarrow> time \<Rightarrow> Incident \<Rightarrow> Incident" where
  "with_alert a now i = i\<lparr>inc_Alerts := inc_Alerts i @ [a], inc_UpdatedAt := now\<rparr>"

lemma with_alert_ID [simp]: "inc_ID (with_alert a now i) = inc_ID i"
  by (simp add: with_alert_def)

context incident_store
begin

lemma wrote: "writes S ok claimed (mg_Store m) (Some i) s \<Longrightarrow> only_wrote S ok i m (m\<lparr>mg_Store := s\<rparr>)"
  by (simp add: only_wrote_def writes_def)

lemma wrote_create: "ok (mg_Store m) \<Longrightarrow> st_Create S i (mg_Store m) = (None, s) \<Longrightarrow> only_wrote S ok i m (m\<lparr>mg_Store := s\<rparr>)"
  using create [of "mg_Store m" i None s] by (simp add: wrote)

lemma wrote_update: "ok (mg_Store m) \<Longrightarrow> st_Update S i (mg_Store m) = (None, s) \<Longrightarrow> only_wrote S ok i m (m\<lparr>mg_Store := s\<rparr>)"
  using update [of "mg_Store m" i None s] by (simp add: wrote)

lemma wrote_audit: "only_wrote S ok i m m' \<Longrightarrow> only_wrote S ok i m (audit S st k kind message data m')"
  using audit [OF _ surjective_pairing, of "mg_Store m'" "audit_event st k kind message data"]
  by (simp add: only_wrote_def audit_def writes_def)

lemma wrote_diagnosis: "only_wrote S ok i m m' \<Longrightarrow> only_wrote S ok i m (start_diagnosis E k m')"
  by (simp add: only_wrote_def start_diagnosis_def start_def)

lemma admit_wrote:
  "ok (mg_Store m) \<Longrightarrow> admit_incident S E st i kind message data m = (Inr j, m') \<Longrightarrow> j = i \<and> only_wrote S ok i m m'"
  by (auto simp: admit_incident_def split: prod.splits option.splits intro!: wrote_diagnosis wrote_audit wrote_create)

lemma append_wrote:
  assumes "ok (mg_Store m)" "st_Get S (inc_ID existing) (mg_Store m) = Inr existing"
    and "appendAlert S st existing a m = (Inr j, m')"
  shows "j = with_alert a (sv_Now st) existing \<and> only_wrote S ok j m m'"
proof (cases "st_AppendAlert S")
  case None
  then show ?thesis using assms(3)
    by (auto simp: appendAlert_def Let_def with_alert_def split: prod.splits option.splits intro!: wrote_update [OF assms(1)])
next
  case (Some add)
  then obtain s where s: "add (inc_ID existing) a (sv_Now st) (mg_Store m) = (Inr j, s)" "m' = m\<lparr>mg_Store := s\<rparr>"
    using assms(3) by (auto simp: appendAlert_def split: prod.splits sum.splits)
  show ?thesis using append [OF assms(1) Some s(1)] assms(2) s(2) by (auto simp: with_alert_def intro: wrote)
qed

lemma audited_wrote:
  assumes "ok (mg_Store m)" "st_Get S (inc_ID existing) (mg_Store m) = Inr existing"
    and "audited_append S st existing a kind message m = (Inr j, m')"
  shows "j = with_alert a (sv_Now st) existing \<and> only_wrote S ok j m m'"
proof -
  obtain n where "appendAlert S st existing a m = (Inr j, n)" "m' = audit S st (inc_ID j) kind message (fingerprint_data a) n"
    using assms(3) by (auto simp: audited_append_def split: prod.splits sum.splits)
  then show ?thesis using append_wrote [OF assms(1,2)] wrote_audit by blast
qed

lemma ingest_wrote:
  assumes "ok (mg_Store m)" "IngestAlert S E st a service namespace severity resource summary m = (Inr j, m')"
  shows "only_wrote S ok j m m' \<and> ((\<exists>i. st_Get S (inc_ID j) (mg_Store m) = Inr i \<and> j = with_alert a (sv_Now st) i) \<or>
    j = alert_incident st a service namespace severity resource summary)"
proof -
  note seen = found [OF assms(1)] correlate_stored [OF assms(1)]
  have "(\<exists>i. st_Get S (inc_ID i) (mg_Store m) = Inr i \<and> j = with_alert a (sv_Now st) i \<and> only_wrote S ok j m m') \<or>
      (j = alert_incident st a service namespace severity resource summary \<and> only_wrote S ok j m m')"
    using assms(2)
    by (auto simp: IngestAlert_def split: if_splits sum.splits option.splits
        dest!: append_wrote [OF assms(1), rotated] audited_wrote [OF assms(1), rotated] admit_wrote [OF assms(1)] seen)
  then show ?thesis by auto
qed

end

text \<open>An alert the manager accepts is stored once: the answered incident is the stored one, every other
  incident is untouched, and it either is a new incident that carries exactly this alert, or a stored one
  with the alert appended and nothing else changed but the time of the update.\<close>

theorem alert_stored_once:
  assumes "stored (mg_Store m)"
    and "IngestAlert memory_store E st a service namespace severity resource summary m = (Inr j, m')"
  shows "stored (mg_Store m') \<and>
    (\<forall>k. memory_Get k (mg_Store m') = (if k = inc_ID j then Inr j else memory_Get k (mg_Store m))) \<and>
    ((\<exists>i. memory_Get (inc_ID j) (mg_Store m) = Inr i \<and> j = i\<lparr>inc_Alerts := inc_Alerts i @ [a], inc_UpdatedAt := sv_Now st\<rparr>) \<or>
     (j = alert_incident st a service namespace severity resource summary))"
  using memory.ingest_wrote [OF assms] by (simp add: only_wrote_def with_alert_def)

lemma alert_stored_once_witness:
  "\<exists>a j m'. IngestAlert memory_store shop_env shop_stamp a ''checkout'' ''shop'' ''warning'' [] ''slow'' (NewManager NewMemoryStore) = (Inr j, m') \<and>
     memory_Get (inc_ID j) (mg_Store m') = Inr j \<and> stored (mg_Store m')"
proof -
  let ?a = "zero_Alert\<lparr>al_Fingerprint := ''f''\<rparr>" and ?m = "NewManager NewMemoryStore"
  let ?r = "IngestAlert memory_store shop_env shop_stamp ?a ''checkout'' ''shop'' ''warning'' [] ''slow'' ?m"
  have store: "mg_Store ?m = NewMemoryStore" by (simp add: NewManager_def)
  have "memory_FindByFingerprint ''f'' NewMemoryStore = Inl ErrNotFound" "memory_List 100 0 NewMemoryStore = Inr []" "me_Correlate shop_env = None"
    by (simp_all add: memory_FindByFingerprint_def memory_List_def NewMemoryStore_def shop_env_def)
  then have "fst ?r = Inr (alert_incident shop_stamp ?a ''checkout'' ''shop'' ''warning'' [] ''slow'')"
    by (simp add: IngestAlert_def correlate_def admit_incident_def memory_Create_def store zero_Alert_def)
  then obtain j m' where r: "?r = (Inr j, m')" by (metis prod.collapse)
  have "stored (mg_Store ?m)" by (simp add: store stored_new)
  then show ?thesis using alert_stored_once [OF _ r] r by fastforce
qed

section \<open>A recurring alert\<close>

text \<open>An alert that fires again after its incident was closed is swallowed: whatever the status of the
  incident that first carried the fingerprint is, a firing alert with this fingerprint is appended to it, no
  incident is created and no diagnosis is started.\<close>

theorem recurring_alert_is_swallowed:
  assumes "stored (mg_Store m)" "al_Status a \<noteq> ''resolved''" "memory_FindByFingerprint (al_Fingerprint a) (mg_Store m) = Inr i"
  shows "\<exists>m'. IngestAlert memory_store E st a service namespace severity resource summary m =
      (Inr (i\<lparr>inc_Alerts := inc_Alerts i @ [a], inc_UpdatedAt := sv_Now st\<rparr>), m') \<and>
    mg_Tasks m' = mg_Tasks m \<and> (\<forall>k. k \<noteq> inc_ID i \<longrightarrow> memory_Get k (mg_Store m') = memory_Get k (mg_Store m))"
proof -
  have "memory_Get (inc_ID i) (mg_Store m) = Inr i" using memory.found [of "mg_Store m" "al_Fingerprint a" i] assms(1,3) by simp
  then obtain s where s: "memory_AppendAlert (inc_ID i) a (sv_Now st) (mg_Store m) =
      (Inr (i\<lparr>inc_Alerts := inc_Alerts i @ [a], inc_UpdatedAt := sv_Now st\<rparr>), s)"
    by (auto simp: memory_Get_def memory_AppendAlert_def Let_def split: option.splits)
  then have "IngestAlert memory_store E st a service namespace severity resource summary m =
      (Inr (i\<lparr>inc_Alerts := inc_Alerts i @ [a], inc_UpdatedAt := sv_Now st\<rparr>), m\<lparr>mg_Store := s\<rparr>)"
    using assms(2,3) by (simp add: IngestAlert_def appendAlert_def)
  with memory.ingest_wrote [of m] assms(1) show ?thesis by (fastforce simp: only_wrote_def)
qed

lemma recurring_alert_is_swallowed_witness:
  "\<exists>m i a m'. mg_Tasks m = [] \<and> memory_Get ''k'' (mg_Store m) = Inr i \<and> inc_Status i = StatusResolved \<and>
     IngestAlert memory_store shop_env shop_stamp a ''checkout'' ''shop'' ''warning'' [] ''slow'' m =
       (Inr (i\<lparr>inc_Alerts := inc_Alerts i @ [a], inc_UpdatedAt := 10\<rparr>), m') \<and> mg_Tasks m' = []"
proof -
  let ?a = "zero_Alert\<lparr>al_Fingerprint := ''f''\<rparr>"
  let ?i = "waiting_incident\<lparr>inc_Status := StatusResolved, inc_Alerts := [?a]\<rparr>"
  let ?m = "NewManager (NewMemoryStore\<lparr>mst_Incidents := [(''k'', ?i)]\<rparr>)"
  have "stored (mg_Store ?m)" "al_Status ?a \<noteq> ''resolved''" "memory_FindByFingerprint (al_Fingerprint ?a) (mg_Store ?m) = Inr ?i"
    "memory_Get ''k'' (mg_Store ?m) = Inr ?i" "mg_Tasks ?m = []"
    by (simp_all add: NewManager_def stored_def memory_FindByFingerprint_def memory_Get_def zero_Alert_def)
  then show ?thesis
    using recurring_alert_is_swallowed [of ?m ?a ?i shop_env shop_stamp "''checkout''" "''shop''" "''warning''" "[]" "''slow''"] by fastforce
qed

section \<open>Two decisions\<close>

text \<open>C33. A proposal can be rejected and approved: two decisions of one proposal that carry different
  idempotency keys are both accepted, and both start a resumption of the same interrupted workflow.\<close>

theorem conflicting_decisions_both_start:
  assumes "memory_Get k (mg_Store m) = Inr i" "awaiting i p (sv_Now st)"
    and "\<not> mst_Approvals (mg_Store m) key1" "\<not> mst_Approvals (mg_Store m) key2" "key1 \<noteq> key2"
  shows "\<exists>m1 m2. Approve memory_store st k (rp_ID p) ''reject'' why1 key1 m = (Inr i, m1) \<and>
    Approve memory_store st k (rp_ID p) ''approve'' why2 key2 m1 = (Inr i, m2) \<and>
    mg_Tasks m2 = mg_Tasks m @ [ResumeWorkflow k False key1 why1, ResumeWorkflow k True key2 why2]"
proof -
  obtain m1 where 1: "Approve memory_store st k (rp_ID p) ''reject'' why1 key1 m = (Inr i, m1)"
    "mg_Tasks m1 = mg_Tasks m @ [ResumeWorkflow k False key1 why1]" "memory_Get k (mg_Store m1) = Inr i"
    "\<not> mst_Approvals (mg_Store m1) key2"
    using approve_fresh [OF assms(1,2,3), of "''reject''" why1 k] assms(1,4,5) by auto
  then show ?thesis using approve_fresh [OF 1(3) assms(2) 1(4), of "''approve''" why2] by auto
qed

lemma conflicting_decisions_both_start_witness:
  "\<exists>m1 m2. Approve memory_store shop_stamp ''k'' ''p'' ''reject'' ''no'' ''key1'' (NewManager waiting_store) = (Inr waiting_incident, m1) \<and>
     Approve memory_store shop_stamp ''k'' ''p'' ''approve'' ''yes'' ''key2'' m1 = (Inr waiting_incident, m2) \<and>
     mg_Tasks m2 = [ResumeWorkflow ''k'' False ''key1'' ''no'', ResumeWorkflow ''k'' True ''key2'' ''yes'']"
proof -
  have "mg_Store (NewManager waiting_store) = waiting_store" "mg_Tasks (NewManager waiting_store) = []" by (simp_all add: NewManager_def)
  then show ?thesis
    using conflicting_decisions_both_start [of "''k''" "NewManager waiting_store" waiting_incident shop_proposal shop_stamp "''key1''" "''key2''" "''no''" "''yes''"]
    by simp
qed

section \<open>The context of a resumed run\<close>

text \<open>C27. The manager builds the context of an approved run so that the safety kernel accepts it exactly when the
  recovery chain is still the one that was approved: for a persisted Brain incident with its proposal, dry
  run, diagnosis and plan, the kernel's check passes if and only if the plan is bound to the diagnosis and to the
  current snapshots, the dry run was validated, the approval and its key have identifiers, the proposal has not
  expired and the namespace of the incident is allowed.\<close>

theorem approved_context_accepted_exactly:
  assumes "IsKubePilotBrainMethod (inc_DiagnosisMethod i)" "inc_Proposal i = Some p" "inc_DryRun i = Some d"
    and "inc_Investigation i = Some v" "inv_AgentDiagnosis v = Some diagnosis" "inv_AgentRecoveryPlan v = Some plan"
  shows "context_error (Some (resume_context E st key operator i p)) i (Some d) None None es evidence now = None \<longleftrightarrow>
    plan_DiagnosisVersion plan = diag_ID diagnosis \<and> (evidence = [] \<or> plan_EvidenceSnapshotHash plan = evidence) \<and>
    plan_ExecutionSnapshot plan = frozen_snapshot es i \<and> \<not> IsZero (dr_ValidatedAt d) \<and> sv_ID st 1 \<noteq> [] \<and> key \<noteq> [] \<and>
    now \<le> rp_ExpiresAt p \<and> inc_Namespace i \<in> set (me_AllowedNamespaces E)"
  using assms
  by (auto simp: context_error_def version_error_def resume_context_def Let_def frozen_diagnosis_def frozen_plan_def)

lemma approved_context_accepted_exactly_witness:
  "\<exists>i p d. context_error (Some (resume_context shop_env shop_stamp ''key'' ''me'' i p)) i (Some d) None None zero_ExecutionSnapshot [] 50 = None"
proof -
  let ?x = "zero_AgentDiagnosis\<lparr>diag_ID := ''d''\<rparr>" and ?p = "zero_AgentRecoveryPlan\<lparr>plan_DiagnosisVersion := ''d''\<rparr>"
  let ?v = "zero_Investigation\<lparr>inv_AgentDiagnosis := Some ?x, inv_AgentRecoveryPlan := Some ?p\<rparr>"
  let ?d = "zero_DryRunResult\<lparr>dr_ValidatedAt := 5\<rparr>"
  let ?i = "waiting_incident\<lparr>inc_DryRun := Some ?d, inc_Investigation := Some ?v\<rparr>"
  have i: "IsKubePilotBrainMethod (inc_DiagnosisMethod ?i)" "inc_Proposal ?i = Some shop_proposal" "inc_DryRun ?i = Some ?d" "inc_Investigation ?i = Some ?v"
    "inv_AgentDiagnosis ?v = Some ?x" "inv_AgentRecoveryPlan ?v = Some ?p"
    by (simp_all add: IsKubePilotBrainMethod_def NormalizeDiagnosisMethod_def)
  have "frozen_snapshot zero_ExecutionSnapshot ?i = zero_ExecutionSnapshot"
    by (simp add: frozen_snapshot_def waiting_incident_def zero_Incident_def)
  moreover have "plan_ExecutionSnapshot zero_AgentRecoveryPlan = zero_ExecutionSnapshot" by (simp add: zero_AgentRecoveryPlan_def)
  ultimately have "context_error (Some (resume_context shop_env shop_stamp ''key'' ''me'' ?i shop_proposal)) ?i (Some ?d) None None zero_ExecutionSnapshot [] 50 = None"
    unfolding approved_context_accepted_exactly [OF i] by (simp add: IsZero_def)
  then show ?thesis by (intro exI)
qed

section \<open>Resumption is always refused\<close>

lemma good_new: "good memory_store stored unranked NewMemoryStore"
  by (simp add: good_def holds_def stored_new memory_Get_def) (simp add: NewMemoryStore_def)

lemma unranked_reachable:
  assumes "manager_run memory_store E (Collect unranked_run) (Collect unranked_resume) (NewManager NewMemoryStore) m"
  shows "stored (mg_Store m)" "memory_Get k (mg_Store m) = Inr i \<Longrightarrow> unranked i"
proof -
  from unranked.run_sound [OF assms good_new] have "good memory_store stored unranked (mg_Store m)" by (simp add: sound_keys_def)
  then show "stored (mg_Store m)" "memory_Get k (mg_Store m) = Inr i \<Longrightarrow> unranked i" by (auto simp: good_def holds_def)
qed

lemma unranked_refused: "unranked i \<Longrightarrow> fst (snd (me_RuntimeHashes E)) \<noteq> [] \<Longrightarrow> \<not> same_runtime E i"
  by (auto simp: same_runtime_def unranked_def)

lemma refused_resume:
  assumes "fst (snd (me_RuntimeHashes E)) \<noteq> []" "\<And>i. memory_Get k (mg_Store m) = Inr i \<Longrightarrow> unranked i"
  shows "resumeWorkflow memory_store E st resume k approved key operator m =
    (case memory_Get k (mg_Store m) of Inl _ \<Rightarrow> m
     | Inr i \<Rightarrow> refuse_resume memory_store st k ''workflow_resume_refused'' ''workflow runtime configuration changed; explicit retry is required'' i m)"
  using assms(2) unranked_refused [OF _ assms(1)] by (auto simp: resumeWorkflow_def split: sum.split)

lemma refuse_log [simp]: "mg_Resumed (refuse_resume S st k kind msg i m) = mg_Resumed m"
  by (simp add: refuse_resume_def Let_def audit_def save_def)

text \<open>C12. No approved recovery is ever carried out.  The manager compares the ranking policy hash stored with the incident with the
  policy hash of the runtime, and no statement of the program stores one; with an engine that does not either,
  in every reachable state no resumption has been handed to the engine, and running the goroutine of a decision
  on an incident that awaits approval, approved or rejected, moves it to NEEDS_ATTENTION without calling the engine.\<close>

theorem approval_never_resumes:
  assumes "manager_run memory_store E (Collect unranked_run) (Collect unranked_resume) (NewManager NewMemoryStore) m"
    and "fst (snd (me_RuntimeHashes E)) \<noteq> []"
    and "memory_Get k (mg_Store m) = Inr i" "inc_Status i = StatusAwaitingApproval"
  shows "mg_Resumed m = [] \<and>
    (let m' = resumeWorkflow memory_store E st resume k approved key operator m in
       mg_Resumed m' = [] \<and> map_sum id inc_Status (memory_Get k (mg_Store m')) = Inr StatusNeedsAttention)"
proof -
  have none: "mg_Resumed m = []" using assms(1)
  proof (induction rule: rtranclp_induct)
    case base
    show ?case by (simp add: NewManager_def)
  next
    case (step m m')
    have "mg_Resumed m' = mg_Resumed m"
    proof (rule unranked.step_resumed [OF step(2)])
      show "sound_keys (good memory_store stored unranked) mst_Approvals m"
        using unranked.run_sound [OF step(1)] by (simp add: good_new)
    next
      fix k approved key operator resume st
      let ?t = "taken (ResumeWorkflow k approved key operator) m"
      assume "m' = resumeWorkflow memory_store E st resume k approved key operator ?t"
      moreover have "unranked i" if "memory_Get k (mg_Store ?t) = Inr i" for i
        using unranked_reachable(2) [OF step(1)] that by (simp add: taken_def)
      ultimately show "mg_Resumed m' = mg_Resumed m"
        using refused_resume [OF assms(2), of k ?t] by (simp add: taken_def split: sum.split)
    qed
    then show ?case using step(3) by simp
  qed
  have j: "inc_ID i = k" using assms(3) unranked_reachable(1) [OF assms(1)] memory.keyed [of "mg_Store m" k i] by simp
  let ?j = "failed_incident st ''workflow runtime configuration changed; explicit retry is required'' i"
  have "map_of (mst_Incidents (mg_Store m)) k = Some i" using assms(3) by (simp add: memory_Get_def split: option.splits)
  moreover have "inc_ID ?j = k" "inc_Status ?j = StatusNeedsAttention"
    using j assms(4) by (simp_all add: failed_incident_def try_transition_def Transition_def CanTransition_def)
  ultimately have "memory_Get k (mg_Store (refuse_resume memory_store st k kind ''workflow runtime configuration changed; explicit retry is required'' i m)) = Inr ?j" for kind
    by (simp add: refuse_resume_def Let_def audit_def save_def memory_AppendAudit_def memory_Get_def memory_Update_def memory_put_def update_conv')
  then show ?thesis using none assms(3) \<open>inc_Status ?j = StatusNeedsAttention\<close> unranked_reachable(2) [OF assms(1)]
    by (simp add: refused_resume [OF assms(2)] Let_def)
qed

lemma approval_never_resumes_witness:
  "\<exists>m resume. memory_Get ''k'' (mg_Store m) = Inr waiting_incident \<and>
     (let m' = resumeWorkflow memory_store shop_env shop_stamp resume ''k'' True ''key'' ''me'' m
      in mg_Resumed m' = [] \<and> map_sum id inc_Status (memory_Get ''k'' (mg_Store m')) = Inr StatusNeedsAttention)"
proof -
  obtain m where m: "manager_run memory_store shop_env (Collect unranked_run) (Collect unranked_resume) (NewManager NewMemoryStore) m"
    "memory_Get ''k'' (mg_Store m) = Inr waiting_incident"
    using shop_run by auto
  then show ?thesis using approval_never_resumes [OF m(1) _ m(2)] by (intro exI [of _ m]) simp
qed

section \<open>A retry\<close>

lemma tasks_kept [simp]: "mg_Tasks (audit S st k kind message data m) = mg_Tasks m"
  by (simp add: audit_def)

context incident_store
begin

lemma restart_wrote:
  assumes "ok (mg_Store m)" "restart S E st k i a m = (Inr j, m')"
  shows "j = restarted st (i\<lparr>inc_Status := StatusReceived\<rparr>) a \<and> only_wrote S ok j m m' \<and>
    mg_Tasks m' = mg_Tasks m @ (if me_HasSupervisor E then [Diagnose k] else [])"
proof -
  let ?m = "if me_HasCheckpoints E then m\<lparr>mg_DeletedCheckpoints := mg_DeletedCheckpoints m @ [''incident:'' @ k]\<rparr> else m"
  obtain i1 s where t: "Transition (Some i) StatusReceived (sv_Now st) = Inr i1" and j: "j = restarted st i1 a"
    and s: "st_Update S j (mg_Store ?m) = (None, s)"
    and m': "m' = start_diagnosis E k (audit S st k ''workflow_attempt_migrated''
        ''diagnosis workflow restarted with a new immutable attempt'' (attempt_data a) (?m\<lparr>mg_Store := s\<rparr>))"
    using assms(2) by (auto simp: restart_def Let_def split: sum.splits prod.splits option.splits)
  have store: "mg_Store ?m = mg_Store m" by simp
  have "only_wrote S ok j ?m m'"
    unfolding m' by (intro wrote_diagnosis wrote_audit wrote_update [OF _ s]) (simp add: assms(1))
  then have "only_wrote S ok j m m'" by (simp add: only_wrote_def)
  moreover have "restarted st i1 a = restarted st (i\<lparr>inc_Status := StatusReceived\<rparr>) a"
    using t by (cases i) (auto simp: Transition_def restarted_def split: if_splits)
  moreover have "mg_Tasks m' = mg_Tasks m @ (if me_HasSupervisor E then [Diagnose k] else [])" by (simp add: m' start_diagnosis_def start_def)
  ultimately show ?thesis using j by simp
qed

lemma retry_wrote:
  assumes "ok (mg_Store m)" "st_Get S k (mg_Store m) = Inr i" "Retry S E st k m = (Inr j, m')"
  shows "\<exists>w. j = restarted st (i\<lparr>inc_WorkflowAttempt := w, inc_Status := StatusReceived\<rparr>) (next_attempt st i) \<and>
    only_wrote S ok j m m' \<and> mg_Tasks m' = mg_Tasks m @ (if me_HasSupervisor E then [Diagnose k] else [])"
proof (cases "inc_WorkflowAttempt i")
  case None
  then have "restart S E st k i (next_attempt st i) m = (Inr j, m')" using assms(2,3) by (simp add: Retry_def split: if_splits)
  moreover have "i\<lparr>inc_WorkflowAttempt := None\<rparr> = i" using None by (cases i) simp
  ultimately show ?thesis using restart_wrote [OF assms(1)] by metis
next
  case (Some b)
  let ?i = "i\<lparr>inc_WorkflowAttempt := Some (invalidated_attempt i (sv_Now st) b)\<rparr>"
  obtain s where s: "st_Update S ?i (mg_Store m) = (None, s)" and r: "restart S E st k ?i (next_attempt st i) (m\<lparr>mg_Store := s\<rparr>) = (Inr j, m')"
    using assms(2,3) Some by (auto simp: Retry_def Let_def split: if_splits prod.splits option.splits)
  note first = wrote_update [OF assms(1) s]
  have "ok (mg_Store (m\<lparr>mg_Store := s\<rparr>))" using first by (simp add: only_wrote_def)
  note second = restart_wrote [OF this r]
  have "inc_ID j = inc_ID ?i" using second by (simp add: restarted_def)
  then have "only_wrote S ok j m m'" using first second by (simp add: only_wrote_def)
  then show ?thesis using second by auto
qed

end

text \<open>Nothing of the earlier diagnosis and recovery is left.\<close>

definition afresh :: "Incident \<Rightarrow> bool" where
  "afresh j = (inc_Proposal j = None \<and> inc_DryRun j = None \<and> inc_ExecutionContext j = None \<and> inc_Verification j = None \<and>
     inc_Investigation j = None \<and> inc_ExecutionSnapshot j = None \<and> inc_WorkflowInterruptID j = [] \<and> inc_Evidence j = [] \<and>
     inc_Hypotheses j = [] \<and> inc_RootCause j = [] \<and> inc_Confidence j = 0 \<and> inc_AgentBudget j = None)"

definition follows :: "WorkflowAttempt option \<Rightarrow> WorkflowAttempt \<Rightarrow> bool" where
  "follows old new = (wa_Status new = WorkflowAttemptActive \<and>
     (case old of None \<Rightarrow> wa_Sequence new = 1 \<and> wa_MigratedFromAttemptID new = []
      | Some b \<Rightarrow> wa_Sequence new = wa_Sequence b + 1 \<and> wa_MigratedFromAttemptID new = wa_ID b))"

text \<open>A retry starts from nothing.  It is taken only from NEEDS_ATTENTION or RECOVERY_FAILED; the stored
  incident is then RECEIVED, keeps its identity and alerts but nothing of the earlier diagnosis, proposal, approval or
  checkpoint, and carries an active attempt that follows the earlier one; a diagnosis is started if there is a
  supervisor; and a decision on the earlier proposal is refused from then on.\<close>

theorem retry_starts_afresh:
  assumes "stored (mg_Store m)" "memory_Get k (mg_Store m) = Inr i" "Retry memory_store E st k m = (Inr j, m')"
  shows "inc_Status i \<in> {StatusNeedsAttention, StatusRecoveryFailed} \<and> memory_Get k (mg_Store m') = Inr j \<and> inc_Status j = StatusReceived \<and>
    inc_ID j = inc_ID i \<and> inc_Alerts j = inc_Alerts i \<and> afresh j \<and> pred_option (follows (inc_WorkflowAttempt i)) (inc_WorkflowAttempt j) \<and>
    mg_Tasks m' = mg_Tasks m @ (if me_HasSupervisor E then [Diagnose k] else []) \<and>
    Approve memory_store st' k q decision comment key m' = (Inl NotAwaitingApproval, m')"
proof -
  obtain w where j: "j = restarted st (i\<lparr>inc_WorkflowAttempt := w, inc_Status := StatusReceived\<rparr>) (next_attempt st i)"
    and w: "only_wrote memory_store stored j m m'" and t: "mg_Tasks m' = mg_Tasks m @ (if me_HasSupervisor E then [Diagnose k] else [])"
    using memory.retry_wrote [of m k i E st j m'] assms by auto
  have "inc_Status i \<in> {StatusNeedsAttention, StatusRecoveryFailed}" using assms(2,3) by (auto simp: Retry_def split: if_splits)
  moreover have id: "inc_ID j = inc_ID i" "inc_ID i = k" using j memory.keyed [of "mg_Store m" k i] assms(1,2) by (simp_all add: restarted_def)
  moreover have get: "memory_Get k (mg_Store m') = Inr j" using w id by (simp add: only_wrote_def)
  moreover have "afresh j" "inc_Status j = StatusReceived" "inc_Alerts j = inc_Alerts i" "inc_Proposal j = None"
    by (simp_all add: j restarted_def afresh_def)
  moreover have "pred_option (follows (inc_WorkflowAttempt i)) (inc_WorkflowAttempt j)"
    by (simp add: j restarted_def follows_def next_attempt_def split: option.split)
  moreover have "Approve memory_store st' k q decision comment key m' = (Inl NotAwaitingApproval, m')"
    using get \<open>inc_Proposal j = None\<close> by (simp add: Approve_def)
  ultimately show ?thesis using t by auto
qed

lemma retry_starts_afresh_witness:
  "\<exists>m i j m'. Retry memory_store shop_env shop_stamp ''k'' m = (Inr j, m') \<and> memory_Get ''k'' (mg_Store m) = Inr i \<and> inc_Proposal i \<noteq> None \<and>
     inc_Status j = StatusReceived \<and> afresh j \<and> mg_Tasks m' = [Diagnose ''k''] \<and>
     Approve memory_store shop_stamp ''k'' ''p'' ''approve'' ''me'' ''key'' m' = (Inl NotAwaitingApproval, m')"
proof -
  let ?i = "waiting_incident\<lparr>inc_Status := StatusNeedsAttention\<rparr>"
  let ?m = "NewManager (NewMemoryStore\<lparr>mst_Incidents := [(''k'', ?i)]\<rparr>)"
  have m: "stored (mg_Store ?m)" "memory_Get ''k'' (mg_Store ?m) = Inr ?i" "mg_Tasks ?m = []"
    by (simp_all add: NewManager_def stored_def memory_Get_def)
  have "IsKubePilotBrainMethod ''kubepilot''" by (simp add: IsKubePilotBrainMethod_def NormalizeDiagnosisMethod_def)
  then have "\<exists>j. fst (Retry memory_store shop_env shop_stamp ''k'' ?m) = Inr j"
    using m by (simp add: Retry_def restart_def Transition_def CanTransition_def Let_def memory_Update_def NewManager_def restarted_def split: option.split prod.split)
  then obtain j m' where r: "Retry memory_store shop_env shop_stamp ''k'' ?m = (Inr j, m')" by (metis prod.collapse)
  show ?thesis
    using retry_starts_afresh [OF m(1,2) r, of shop_stamp "''p''" "''approve''" "''me''" "''key''"] m(2,3) r
    by (intro exI [of _ ?m] exI [of _ ?i] exI [of _ j] exI [of _ m']) simp
qed

end
