(* ===== verification/Causal_Knowledge.thy ===== *)
theory Causal_Knowledge
  imports Brain_State Safety_Kernel "HOL-Library.AList"
begin

text \<open>\<^verbatim>\<open>internal/causal/knowledge/model.go\<close>: the causal patterns learned from resolved incidents, their identity,
  how observations of one pattern are merged, when a pattern becomes active, and the extraction of a
  proposal from an incident.  The hexadecimal digest of the JSON form of a pattern is a parameter \<open>D\<close>; \<^verbatim>\<open>sort.Slice\<close>
  is modelled by a stable sort.  The slices \<^verbatim>\<open>Canonicalize\<close> rewrites in place are shared with
  the caller; every caller continues with the returned pattern.\<close>

section \<open>Identity\<close>

type_synonym pattern_digest = "CausalPattern \<Rightarrow> string"

definition erased :: "CausalPattern \<Rightarrow> CausalPattern" where
  "erased p = p\<lparr>cp_ID := [], cp_Category := [], cp_Source := [], cp_Confidence := 0, cp_SourceIncidents := [], cp_SupportingEvidence := [],
     cp_ContradictingEvidence := [], cp_CreatedAt := 0, cp_UpdatedAt := 0, cp_Status := [], cp_Version := 0, cp_SupportCount := 0,
     cp_Nodes := map (\<lambda>n. n\<lparr>cn_Confidence := 0, cn_SourceEvidenceIDs := []\<rparr>) (cp_Nodes p),
     cp_Edges := map (\<lambda>e. e\<lparr>ce_Confidence := 0\<rparr>) (cp_Edges p)\<rparr>"

definition PatternID :: "pattern_digest \<Rightarrow> CausalPattern \<Rightarrow> string" where
  "PatternID D p = ''causal-'' @ D (erased p)"

section \<open>Canonical form\<close>

definition canonical_node :: "CausalNode \<Rightarrow> CausalNode" where
  "canonical_node n = n\<lparr>cn_ID := TrimSpace (cn_ID n), cn_Type := ToLower (TrimSpace (cn_Type n)), cn_Name := ToLower (TrimSpace (cn_Name n))\<rparr>"

definition canonical_edge :: "CausalEdge \<Rightarrow> CausalEdge" where
  "canonical_edge e = e\<lparr>ce_Relation := ToLower (TrimSpace (ce_Relation e))\<rparr>"

definition causal_edge_key :: "CausalEdge \<Rightarrow> string" where
  "causal_edge_key e = ce_From e @ ce_To e @ ce_Relation e"

definition evidence_key :: "CausalEvidencePattern \<Rightarrow> string" where
  "evidence_key v = cep_Source v @ '':'' @ cep_Type v @ '':'' @ Join (cep_Tokens v) '' ''"

text \<open>The first value of every key is kept.\<close>

fun unique_by :: "('a \<Rightarrow> string) \<Rightarrow> string set \<Rightarrow> 'a list \<Rightarrow> 'a list" where
  "unique_by key seen [] = []"
| "unique_by key seen (v # vs) = (if key v \<in> seen then unique_by key seen vs else v # unique_by key (insert (key v) seen) vs)"

definition uniqueEvidence :: "CausalEvidencePattern list \<Rightarrow> CausalEvidencePattern list" where
  "uniqueEvidence vs = sort_key (\<lambda>v. cep_Source v @ cep_Type v) (unique_by evidence_key {} vs)"

definition normal_pattern :: "CausalPattern \<Rightarrow> CausalPattern" where
  "normal_pattern p = p\<lparr>cp_Cause := ToLower (TrimSpace (cp_Cause p)), cp_Nodes := sort_key cn_ID (map canonical_node (cp_Nodes p)),
     cp_Edges := sort_key causal_edge_key (map canonical_edge (cp_Edges p)),
     cp_SupportingEvidence := uniqueEvidence (cp_SupportingEvidence p), cp_ContradictingEvidence := uniqueEvidence (cp_ContradictingEvidence p)\<rparr>"

definition Canonicalize :: "pattern_digest \<Rightarrow> CausalPattern \<Rightarrow> CausalPattern" where
  "Canonicalize D p = (let q = normal_pattern p in q\<lparr>cp_ID := PatternID D q\<rparr>)"

section \<open>Merging\<close>

definition evidence_sources :: "CausalEvidencePattern list \<Rightarrow> string list" where
  "evidence_sources vs = remdups (filter (\<lambda>source. source \<noteq> []) (map cep_Source vs))"

definition eligibleForActivation :: "CausalPattern \<Rightarrow> bool" where
  "eligibleForActivation p =
     (\<not> (length (unique (cp_SourceIncidents p)) < 3 \<or> cp_Confidence p < 4/5) \<and> \<not> length (evidence_sources (cp_SupportingEvidence p)) < 2 \<and>
      rat_of_nat (length (cp_ContradictingEvidence p)) / rat_of_nat (max 1 (length (cp_SupportingEvidence p))) \<le> 1/10)"

definition new_support :: "CausalPattern \<Rightarrow> CausalPattern \<Rightarrow> nat" where
  "new_support left right = length (filter (\<lambda>k. k \<noteq> [] \<and> k \<notin> set (cp_SourceIncidents left)) (cp_SourceIncidents right))"

definition combined_confidence :: "CausalPattern \<Rightarrow> CausalPattern \<Rightarrow> rat" where
  "combined_confidence left right =
     (let l = length (unique (cp_SourceIncidents left)); r = new_support left right
      in if l + r > 0 then (cp_Confidence left * of_nat l + cp_Confidence right * of_nat r) / of_nat (l + r) else cp_Confidence left)"

definition next_pattern_version :: "bool \<Rightarrow> CausalPattern \<Rightarrow> CausalPattern \<Rightarrow> int" where
  "next_pattern_version existing left right =
     (let v = max (cp_Version left) (cp_Version right) in if existing then v + 1 else if v \<le> 0 then 1 else v)"

definition joined :: "pattern_digest \<Rightarrow> bool \<Rightarrow> CausalPattern \<Rightarrow> CausalPattern \<Rightarrow> CausalPattern" where
  "joined D existing left right =
     (let p = Canonicalize D left; incidents = unique (cp_SourceIncidents p @ cp_SourceIncidents right) in
      p\<lparr>cp_SourceIncidents := incidents,
        cp_SupportingEvidence := uniqueEvidence (cp_SupportingEvidence p @ cp_SupportingEvidence right),
        cp_ContradictingEvidence := uniqueEvidence (cp_ContradictingEvidence p @ cp_ContradictingEvidence right),
        cp_UpdatedAt := (if cp_UpdatedAt right > cp_UpdatedAt p then cp_UpdatedAt right else cp_UpdatedAt p),
        cp_CreatedAt := (if IsZero (cp_CreatedAt p) then cp_CreatedAt right else cp_CreatedAt p),
        cp_Confidence := combined_confidence left right, cp_SupportCount := int (length incidents),
        cp_Version := next_pattern_version existing left right\<rparr>)"

definition MergePatterns :: "pattern_digest \<Rightarrow> CausalPattern \<Rightarrow> CausalPattern \<Rightarrow> CausalPattern" where
  "MergePatterns D left0 right =
     (let existing = (cp_ID left0 \<noteq> []); p = joined D existing (if existing then left0 else right) right
      in p\<lparr>cp_Status := (if eligibleForActivation p then ''active'' else if cp_Status p \<noteq> ''disabled'' then ''validating'' else cp_Status p)\<rparr>)"

section \<open>The built-in store\<close>

type_synonym causal_store = "(string \<times> CausalPattern) list"

definition causal_List :: "string \<Rightarrow> int \<Rightarrow> causal_store \<Rightarrow> CausalPattern list" where
  "causal_List status limit s =
     (let out = sort_key (\<lambda>p. - cp_Confidence p) (filter (\<lambda>p. status = [] \<or> cp_Status p = status) (map snd s))
      in if limit > 0 \<and> int (length out) > limit then take (nat limit) out else out)"

definition first_pattern :: "CausalPattern \<Rightarrow> CausalPattern" where
  "first_pattern p = p\<lparr>cp_Version := (if cp_Version p \<le> 0 then 1 else cp_Version p), cp_SupportCount := int (length (unique (cp_SourceIncidents p))),
     cp_Status := (if eligibleForActivation p then ''active'' else ''candidate'')\<rparr>"

definition causal_Merge :: "pattern_digest \<Rightarrow> CausalPattern \<Rightarrow> causal_store \<Rightarrow> CausalPattern \<times> causal_store" where
  "causal_Merge D p0 s =
     (let p = Canonicalize D p0;
          q = (case map_of s (cp_ID p) of Some old \<Rightarrow> MergePatterns D old p | None \<Rightarrow> first_pattern p)
      in (q, AList.update (cp_ID q) q s))"

section \<open>Extraction\<close>

record Proposal =
  pro_Pattern :: CausalPattern
  pro_IncidentID :: string

definition observation_source :: "Evidence \<Rightarrow> string" where
  "observation_source e = (if ev_Source e = [] then ev_Type e else ev_Source e)"

definition observation_quality :: "rat \<Rightarrow> Evidence \<Rightarrow> rat" where
  "observation_quality prior e =
     (let q = (case ev_Attribution e of None \<Rightarrow> ev_Confidence e
            | Some a \<Rightarrow> if ea_AttributionScore a > ev_Confidence e then ea_AttributionScore a else ev_Confidence e)
      in if q \<le> 0 then prior else q)"

definition observation_pattern :: "Evidence \<Rightarrow> CausalEvidencePattern" where
  "observation_pattern e = \<lparr>cep_Source = observation_source e, cep_Type = ev_Type e, cep_Tokens = take 6 (Fields (ToLower (ev_Summary e)))\<rparr>"

text \<open>A later item of the incident with the same identifier replaces an earlier one.\<close>

definition cited_evidence :: "Incident \<Rightarrow> string list \<Rightarrow> Evidence list" where
  "cited_evidence i ids = List.map_filter (map_of (rev (map (\<lambda>e. (ev_ID e, e)) (inc_Evidence i)))) ids"

definition path_nodes :: "string list \<Rightarrow> CausalNode list" where
  "path_nodes path = map (\<lambda>(i, name). zero_CausalNode\<lparr>cn_ID := ''n'' @ Itoa (int i), cn_Type := (if i = 0 then ''cause'' else ''symptom''), cn_Name := name\<rparr>)
     (enumerate 0 path)"

definition path_edges :: "string list \<Rightarrow> CausalEdge list" where
  "path_edges path = map (\<lambda>i. zero_CausalEdge\<lparr>ce_From := ''n'' @ Itoa (int (i - 1)), ce_To := ''n'' @ Itoa (int i), ce_Relation := ''causes''\<rparr>) [1..<length path]"

definition action_nodes :: "Incident \<Rightarrow> CausalNode list" where
  "action_nodes i = (case inc_Proposal i of None \<Rightarrow> []
     | Some p \<Rightarrow> if action_name (rp_Action p) = [] then [] else [zero_CausalNode\<lparr>cn_ID := ''a0'', cn_Type := ''action'', cn_Name := action_name (rp_Action p)\<rparr>])"

definition action_edges :: "Incident \<Rightarrow> CausalEdge list" where
  "action_edges i = (if action_nodes i = [] then [] else [zero_CausalEdge\<lparr>ce_From := ''a0'', ce_To := ''n0'', ce_Relation := ''mitigates''\<rparr>])"

definition observation_nodes :: "Evidence list \<Rightarrow> CausalNode list" where
  "observation_nodes es = map (\<lambda>(i, e). zero_CausalNode\<lparr>cn_ID := ''e'' @ Itoa (int i), cn_Type := ''observation'', cn_Name := ev_Type e,
     cn_Source := observation_source e, cn_SourceEvidenceIDs := [ev_ID e]\<rparr>) (enumerate 0 es)"

definition observation_edges :: "string list \<Rightarrow> Evidence list \<Rightarrow> CausalEdge list" where
  "observation_edges path es = map (\<lambda>(i, e). zero_CausalEdge\<lparr>ce_From := ''e'' @ Itoa (int i),
     ce_To := ''n'' @ Itoa (int (min i (length path - 1))), ce_Relation := ''supports''\<rparr>) (enumerate 0 es)"

definition draft_pattern :: "Incident \<Rightarrow> string \<Rightarrow> string list \<Rightarrow> Evidence list \<Rightarrow> rat \<Rightarrow> time \<Rightarrow> CausalPattern" where
  "draft_pattern i cause path es prior now = zero_CausalPattern\<lparr>cp_Cause := cause, cp_Nodes := path_nodes path @ action_nodes i @ observation_nodes es,
     cp_Edges := path_edges path @ action_edges i @ observation_edges path es, cp_SupportingEvidence := map observation_pattern es,
     cp_Cluster := inc_Cluster i, cp_Namespace := inc_Namespace i, cp_Source := ''learned'',
     cp_Confidence := sum_list (map (observation_quality prior) es) / of_nat (length es), cp_SourceIncidents := [inc_ID i],
     cp_CreatedAt := now, cp_UpdatedAt := now, cp_Status := ''validating'', cp_Version := 1, cp_SupportCount := 1\<rparr>"

definition ProposalFromDraft :: "pattern_digest \<Rightarrow> Incident \<Rightarrow> string \<Rightarrow> string list \<Rightarrow> string list \<Rightarrow> rat \<Rightarrow> time \<Rightarrow> Proposal option" where
  "ProposalFromDraft D i cause path ids prior now =
     (if TrimSpace cause = [] \<or> length path < 2 then None
      else let es = cited_evidence i ids in
        if length (remdups (map observation_source es)) < 2 then None
        else Some \<lparr>pro_Pattern = Canonicalize D (draft_pattern i cause path es prior now), pro_IncidentID = inc_ID i\<rparr>)"

definition ProposalFromIncident :: "pattern_digest \<Rightarrow> Incident option \<Rightarrow> time \<Rightarrow> Proposal option" where
  "ProposalFromIncident D i0 now = (case i0 of None \<Rightarrow> None
     | Some i \<Rightarrow> (case inc_DiagnosisLedger i of None \<Rightarrow> None
       | Some ledger \<Rightarrow>
           if inc_Status i \<noteq> StatusResolved \<or> led_SelectedHypothesisID ledger = [] then None
           else (case find (\<lambda>v. hd_ID (vh_Draft v) = led_SelectedHypothesisID ledger) (led_Verified ledger) of
               None \<Rightarrow> None
             | Some v \<Rightarrow>
                 if vh_FinalScore v < 4/5 \<or> vh_ContradictionScore v > 1/10 then None
                 else if length (vh_VerifiedEvidenceIDs v) < 2 \<or> length (hd_ExpectedCausalPath (vh_Draft v)) < 2 then None
                 else ProposalFromDraft D i (hd_Cause (vh_Draft v)) (hd_ExpectedCausalPath (vh_Draft v)) (vh_VerifiedEvidenceIDs v) (vh_FinalScore v) now)))"

lemma set_map_filter: "set (List.map_filter f xs) = {y. \<exists>x\<in>set xs. f x = Some y}"
  by (auto simp: List.map_filter_def image_iff) force

text \<open>An entry of an updated store is the new one or an old one under another key.\<close>

lemma update_entry:
  assumes "distinct (map fst s)" "(k, v) \<in> set (AList.update key q s)"
  shows "(k = key \<and> v = q) \<or> (k \<noteq> key \<and> (k, v) \<in> set s)"
proof -
  have "map_of (AList.update key q s) k = Some v" using assms by (simp add: distinct_update)
  then show ?thesis by (auto simp: update_conv' split: if_splits dest: map_of_SomeD)
qed

section \<open>The canonical form is a fixed point\<close>

lemma canonical_parts [simp]: "canonical_node (canonical_node n) = canonical_node n" "canonical_edge (canonical_edge e) = canonical_edge e"
  by (simp_all add: canonical_node_def canonical_edge_def TrimSpace_ToLower)

lemma unique_by_set: "set (unique_by key seen vs) \<subseteq> set vs"
  by (induction vs arbitrary: seen) auto

lemma unique_by_keys:
  "distinct (map key (unique_by key seen vs)) \<and> key ` set (unique_by key seen vs) = key ` set vs - seen"
  by (induction vs arbitrary: seen) auto

lemma unique_by_id: "distinct (map key vs) \<Longrightarrow> key ` set vs \<inter> seen = {} \<Longrightarrow> unique_by key seen vs = vs"
  by (induction vs arbitrary: seen) auto

lemma uniqueEvidence_keys: "distinct (map evidence_key (uniqueEvidence vs))" "evidence_key ` set (uniqueEvidence vs) = evidence_key ` set vs"
  using unique_by_keys [of evidence_key "{}" vs] by (simp_all add: uniqueEvidence_def distinct_map)

lemma uniqueEvidence_set: "set (uniqueEvidence vs) \<subseteq> set vs"
  using unique_by_set by (simp add: uniqueEvidence_def)

lemma uniqueEvidence_idem [simp]: "uniqueEvidence (uniqueEvidence vs) = uniqueEvidence vs"
proof -
  have "unique_by evidence_key {} (uniqueEvidence vs) = uniqueEvidence vs"
    by (rule unique_by_id) (simp_all add: uniqueEvidence_keys)
  then show ?thesis by (simp add: uniqueEvidence_def sort_key_id_if_sorted)
qed

lemma sorted_parts [simp]:
  "map canonical_node (sort_key cn_ID (map canonical_node ns)) = sort_key cn_ID (map canonical_node ns)"
  "map canonical_edge (sort_key causal_edge_key (map canonical_edge es)) = sort_key causal_edge_key (map canonical_edge es)"
  by (rule map_idI; auto)+

lemma normal_idem [simp]: "normal_pattern (normal_pattern p) = normal_pattern p"
  by (simp add: normal_pattern_def sort_key_id_if_sorted TrimSpace_ToLower)

text \<open>Neither the identity nor the canonical form depends on what the incidents contribute.\<close>

lemma erased_fields [simp]:
  "erased (p\<lparr>cp_ID := x\<rparr>) = erased p" "erased (p\<lparr>cp_Source := x\<rparr>) = erased p" "erased (p\<lparr>cp_Confidence := c\<rparr>) = erased p" "erased (p\<lparr>cp_SourceIncidents := xs\<rparr>) = erased p"
  "erased (p\<lparr>cp_SupportingEvidence := vs\<rparr>) = erased p" "erased (p\<lparr>cp_ContradictingEvidence := vs\<rparr>) = erased p"
  "erased (p\<lparr>cp_CreatedAt := t\<rparr>) = erased p" "erased (p\<lparr>cp_UpdatedAt := t\<rparr>) = erased p" "erased (p\<lparr>cp_Status := x\<rparr>) = erased p"
  "erased (p\<lparr>cp_Version := n\<rparr>) = erased p" "erased (p\<lparr>cp_SupportCount := n\<rparr>) = erased p"
  by (simp_all add: erased_def)

lemma PatternID_fields [simp]:
  "PatternID D (p\<lparr>cp_ID := x\<rparr>) = PatternID D p" "PatternID D (p\<lparr>cp_Confidence := c\<rparr>) = PatternID D p" "PatternID D (p\<lparr>cp_SourceIncidents := xs\<rparr>) = PatternID D p"
  "PatternID D (p\<lparr>cp_SupportingEvidence := vs\<rparr>) = PatternID D p" "PatternID D (p\<lparr>cp_ContradictingEvidence := vs\<rparr>) = PatternID D p"
  "PatternID D (p\<lparr>cp_CreatedAt := t\<rparr>) = PatternID D p" "PatternID D (p\<lparr>cp_UpdatedAt := t\<rparr>) = PatternID D p" "PatternID D (p\<lparr>cp_Status := x\<rparr>) = PatternID D p"
  "PatternID D (p\<lparr>cp_Version := n\<rparr>) = PatternID D p" "PatternID D (p\<lparr>cp_SupportCount := n\<rparr>) = PatternID D p" "PatternID D p \<noteq> []"
  by (simp_all add: PatternID_def)

definition canonical :: "pattern_digest \<Rightarrow> CausalPattern \<Rightarrow> bool" where
  "canonical D p = (normal_pattern p = p \<and> cp_ID p = PatternID D p)"

lemma normal_fields:
  "normal_pattern (p\<lparr>cp_ID := x\<rparr>) = (normal_pattern p)\<lparr>cp_ID := x\<rparr>" "normal_pattern (p\<lparr>cp_Confidence := c\<rparr>) = (normal_pattern p)\<lparr>cp_Confidence := c\<rparr>"
  "normal_pattern (p\<lparr>cp_SourceIncidents := xs\<rparr>) = (normal_pattern p)\<lparr>cp_SourceIncidents := xs\<rparr>"
  "normal_pattern (p\<lparr>cp_CreatedAt := t\<rparr>) = (normal_pattern p)\<lparr>cp_CreatedAt := t\<rparr>" "normal_pattern (p\<lparr>cp_UpdatedAt := t\<rparr>) = (normal_pattern p)\<lparr>cp_UpdatedAt := t\<rparr>"
  "normal_pattern (p\<lparr>cp_Status := x\<rparr>) = (normal_pattern p)\<lparr>cp_Status := x\<rparr>" "normal_pattern (p\<lparr>cp_Version := n\<rparr>) = (normal_pattern p)\<lparr>cp_Version := n\<rparr>"
  "normal_pattern (p\<lparr>cp_SupportCount := n\<rparr>) = (normal_pattern p)\<lparr>cp_SupportCount := n\<rparr>"
  by (simp_all add: normal_pattern_def)

lemma canonical_Canonicalize [simp]: "canonical D (Canonicalize D p)"
  by (simp add: canonical_def Canonicalize_def Let_def normal_fields)

lemma Canonicalize_canonical: "canonical D p \<Longrightarrow> Canonicalize D p = p"
  by (simp add: canonical_def Canonicalize_def)

lemma canonical_fields [simp]:
  "canonical D p \<Longrightarrow> canonical D (p\<lparr>cp_Confidence := c\<rparr>)" "canonical D p \<Longrightarrow> canonical D (p\<lparr>cp_SourceIncidents := xs\<rparr>)"
  "canonical D p \<Longrightarrow> canonical D (p\<lparr>cp_CreatedAt := t\<rparr>)" "canonical D p \<Longrightarrow> canonical D (p\<lparr>cp_UpdatedAt := t\<rparr>)"
  "canonical D p \<Longrightarrow> canonical D (p\<lparr>cp_Status := x\<rparr>)" "canonical D p \<Longrightarrow> canonical D (p\<lparr>cp_Version := n\<rparr>)"
  "canonical D p \<Longrightarrow> canonical D (p\<lparr>cp_SupportCount := n\<rparr>)"
  by (simp_all add: canonical_def normal_fields)

lemma normal_iff:
  "normal_pattern p = p \<longleftrightarrow> ToLower (TrimSpace (cp_Cause p)) = cp_Cause p \<and> sort_key cn_ID (map canonical_node (cp_Nodes p)) = cp_Nodes p \<and>
     sort_key causal_edge_key (map canonical_edge (cp_Edges p)) = cp_Edges p \<and>
     uniqueEvidence (cp_SupportingEvidence p) = cp_SupportingEvidence p \<and> uniqueEvidence (cp_ContradictingEvidence p) = cp_ContradictingEvidence p"
  unfolding normal_pattern_def by (cases p) simp

lemma canonical_evidence [simp]:
  "canonical D p \<Longrightarrow> canonical D (p\<lparr>cp_SupportingEvidence := uniqueEvidence vs\<rparr>)" "canonical D p \<Longrightarrow> canonical D (p\<lparr>cp_ContradictingEvidence := uniqueEvidence vs\<rparr>)"
  unfolding canonical_def normal_iff by simp_all

section \<open>Activation\<close>

lemma Canonicalize_fields [simp]:
  "cp_SourceIncidents (Canonicalize D p) = cp_SourceIncidents p" "cp_Confidence (Canonicalize D p) = cp_Confidence p"
  "cp_Status (Canonicalize D p) = cp_Status p" "cp_Version (Canonicalize D p) = cp_Version p"
  by (simp_all add: Canonicalize_def normal_pattern_def Let_def)

lemma canonical_joined:
  assumes "canonical D left"
  shows "canonical D (joined D existing left right)" "cp_ID (joined D existing left right) = cp_ID left"
    "cp_SourceIncidents (joined D existing left right) = unique (cp_SourceIncidents left @ cp_SourceIncidents right)"
  by (simp_all add: joined_def Let_def Canonicalize_canonical [OF assms] assms)

text \<open>The incidents the merged proposals of one identity name, and what a stored pattern owes to them.\<close>

definition merged_all :: "pattern_digest \<Rightarrow> CausalPattern list \<Rightarrow> causal_store" where
  "merged_all D ps = foldl (\<lambda>s p. snd (causal_Merge D p s)) [] ps"

definition naming_incidents :: "pattern_digest \<Rightarrow> CausalPattern list \<Rightarrow> string \<Rightarrow> string list" where
  "naming_incidents D ps k = unique (concat (map cp_SourceIncidents (filter (\<lambda>p. cp_ID (Canonicalize D p) = k) ps)))"

definition owed :: "pattern_digest \<Rightarrow> CausalPattern list \<Rightarrow> string \<times> CausalPattern \<Rightarrow> bool" where
  "owed D ps = (\<lambda>(k, p). canonical D p \<and> cp_ID p = k \<and> set (unique (cp_SourceIncidents p)) \<subseteq> set (naming_incidents D ps k) \<and>
     (cp_Status p = ''active'' \<longrightarrow> eligibleForActivation p))"

lemma naming_grows: "set (naming_incidents D ps k) \<subseteq> set (naming_incidents D (ps @ qs) k)"
  by (auto simp: naming_incidents_def)

lemma owed_mono: "owed D ps kp \<Longrightarrow> owed D (ps @ qs) kp"
  using naming_grows by (fastforce simp: owed_def)

lemma eligible_status [simp]: "eligibleForActivation (p\<lparr>cp_Status := x\<rparr>) = eligibleForActivation p"
  by (simp add: eligibleForActivation_def)

lemma owed_merge:
  assumes "map_of s (cp_ID (Canonicalize D p)) = Some old" "list_all (owed D ps) s"
  shows "owed D (ps @ [p]) (cp_ID (Canonicalize D p), MergePatterns D old (Canonicalize D p))"
proof -
  let ?k = "cp_ID (Canonicalize D p)"
  have old: "owed D ps (?k, old)" using assms by (auto dest!: map_of_SomeD simp: list_all_iff)
  then have c: "canonical D old" "cp_ID old = ?k" by (simp_all add: owed_def)
  then have ne: "cp_ID old \<noteq> []" by (simp add: canonical_def)
  have "set (unique (cp_SourceIncidents p)) \<subseteq> set (naming_incidents D (ps @ [p]) ?k)" by (auto simp: naming_incidents_def)
  moreover have "set (unique (cp_SourceIncidents old)) \<subseteq> set (naming_incidents D (ps @ [p]) ?k)"
    using owed_mono [OF old] by (simp add: owed_def)
  ultimately show ?thesis
    using ne c(2) canonical_joined [OF c(1), where existing = True and right = "Canonicalize D p"]
    by (auto simp: owed_def MergePatterns_def Let_def)
qed

lemma first_fields:
  "canonical D q \<Longrightarrow> canonical D (first_pattern q)" "cp_ID (first_pattern q) = cp_ID q" "cp_SourceIncidents (first_pattern q) = cp_SourceIncidents q"
  "cp_Status (first_pattern q) = ''active'' \<longleftrightarrow> eligibleForActivation q" "eligibleForActivation (first_pattern q) \<longleftrightarrow> eligibleForActivation q"
proof -
  show "canonical D q \<Longrightarrow> canonical D (first_pattern q)" unfolding first_pattern_def by (intro canonical_fields)
  show "eligibleForActivation (first_pattern q) \<longleftrightarrow> eligibleForActivation q" by (simp add: first_pattern_def eligibleForActivation_def)
qed (simp_all add: first_pattern_def)

lemma owed_first: "owed D (ps @ [p]) (cp_ID (Canonicalize D p), first_pattern (Canonicalize D p))"
  by (simp add: owed_def first_fields) (auto simp: naming_incidents_def)

lemma merged_owed: "list_all (owed D ps) (merged_all D ps)"
proof (induction ps rule: rev_induct)
  case Nil
  show ?case by (simp add: merged_all_def)
next
  case (snoc p ps)
  let ?s = "merged_all D ps" and ?k = "cp_ID (Canonicalize D p)"
  obtain q where q: "causal_Merge D p ?s = (q, AList.update (cp_ID q) q ?s)" "owed D (ps @ [p]) (?k, q)"
    using owed_merge [OF _ snoc.IH, of p] owed_first [of D ps p]
    by (cases "map_of ?s ?k") (auto simp: causal_Merge_def Let_def)
  then have "cp_ID q = ?k" by (simp add: owed_def)
  moreover have "set (AList.update k x al) \<subseteq> insert (k, x) (set al)" for k and x :: CausalPattern and al by (induction al) auto
  moreover have "merged_all D (ps @ [p]) = AList.update (cp_ID q) q ?s" by (simp add: merged_all_def [of D "ps @ [p]"] q(1) flip: merged_all_def)
  ultimately show ?case using q(2) snoc.IH owed_mono by (fastforce simp: list_all_iff)
qed

text \<open>C34. Knowledge becomes active only on repeated observation.  After any sequence of merges into an empty store, an active
  pattern rests on at least three different incidents among the merged proposals of its identity, a confidence
  of at least 0.8, two independent evidence sources, and at most one contradiction for ten supports.\<close>

theorem activation_needs_three_incidents:
  assumes "(k, p) \<in> set (merged_all D ps)" "cp_Status p = ''active''"
  shows "3 \<le> length (naming_incidents D ps k) \<and> 4/5 \<le> cp_Confidence p \<and> 2 \<le> length (evidence_sources (cp_SupportingEvidence p)) \<and>
    10 * length (cp_ContradictingEvidence p) \<le> max 1 (length (cp_SupportingEvidence p))"
proof -
  have owed: "set (unique (cp_SourceIncidents p)) \<subseteq> set (naming_incidents D ps k)" "eligibleForActivation p"
    using merged_owed [of D ps] assms by (auto simp: list_all_iff owed_def)
  have "length (unique (cp_SourceIncidents p)) \<le> length (naming_incidents D ps k)"
    using owed(1) distinct_card [OF distinct_unique(1)] card_mono [OF finite_set owed(1)] by (metis naming_incidents_def)
  moreover have "10 * length (cp_ContradictingEvidence p) \<le> max 1 (length (cp_SupportingEvidence p))"
  proof -
    let ?m = "max 1 (length (cp_SupportingEvidence p))"
    have "rat_of_nat (length (cp_ContradictingEvidence p)) / rat_of_nat ?m \<le> 1/10" using owed(2) by (simp add: eligibleForActivation_def)
    then have "rat_of_nat (10 * length (cp_ContradictingEvidence p)) \<le> rat_of_nat ?m" by (simp add: field_simps del: of_nat_max)
    then show ?thesis using of_nat_le_iff by blast
  qed
  ultimately show ?thesis using owed(2) by (simp add: eligibleForActivation_def)
qed

definition probe_pattern :: "string \<Rightarrow> CausalPattern" where
  "probe_pattern incident = zero_CausalPattern\<lparr>cp_Confidence := 1, cp_SourceIncidents := [incident],
     cp_SupportingEvidence := [\<lparr>cep_Source = ''log'', cep_Type = [], cep_Tokens = []\<rparr>, \<lparr>cep_Source = ''metric'', cep_Type = [], cep_Tokens = []\<rparr>]\<rparr>"

lemma probe_merged:
  "map (\<lambda>(k, p). (k, cp_Status p, cp_SourceIncidents p, length (cp_SupportingEvidence p), length (cp_ContradictingEvidence p)))
     (merged_all (\<lambda>_. ''x'') [probe_pattern ''a'', probe_pattern ''b'', probe_pattern ''c'']) = [(''causal-x'', ''active'', [''a'', ''b'', ''c''], 2, 0)]"
  by code_simp

lemma activation_needs_three_incidents_witness:
  "3 \<le> length (naming_incidents (\<lambda>_. ''x'') [probe_pattern ''a'', probe_pattern ''b'', probe_pattern ''c''] ''causal-x'')"
proof -
  let ?D = "\<lambda>_ :: CausalPattern. ''x''" and ?ps = "[probe_pattern ''a'', probe_pattern ''b'', probe_pattern ''c'']"
  from probe_merged obtain p where "merged_all ?D ?ps = [(''causal-x'', p)]" "cp_Status p = ''active''" by (auto simp: map_eq_Cons_conv)
  then have "(''causal-x'', p) \<in> set (merged_all ?D ?ps)" by simp
  from activation_needs_three_incidents [OF this \<open>cp_Status p = ''active''\<close>] show ?thesis by blast
qed

section \<open>An operator's decision\<close>



end
