(* ===== verification/Causal_Validation.thy ===== *)
theory Causal_Validation
  imports Causal_Knowledge
begin

text \<open>\<^verbatim>\<open>internal/causal/validator/validator.go\<close>: the gate between a proposed causal pattern and the store.  The patterns the store
  lists are an argument, \<open>Some (Inl e)\<close> when listing fails and \<open>None\<close> when the validator has no store.\<close>

record ValidationResult =
  vr_Valid :: bool
  vr_Accepted :: bool
  vr_PatternID :: string
  vr_SupportCount :: int
  vr_Confidence :: rat
  vr_Contradiction :: rat
  vr_FailedChecks :: "string list"
  vr_Reason :: string

record Validator =
  val_MinimumIndependentSources :: int
  val_MinimumSupport :: int

definition NewValidator :: Validator where
  "NewValidator = \<lparr>val_MinimumIndependentSources = 2, val_MinimumSupport = 3\<rparr>"

definition rejected :: "string \<Rightarrow> rat \<Rightarrow> string list \<Rightarrow> string \<Rightarrow> ValidationResult" where
  "rejected k contradiction failed reason = \<lparr>vr_Valid = False, vr_Accepted = False, vr_PatternID = k, vr_SupportCount = 0, vr_Confidence = 0,
     vr_Contradiction = contradiction, vr_FailedChecks = failed, vr_Reason = reason\<rparr>"

definition evaluation_label :: "string \<Rightarrow> bool" where
  "evaluation_label v = (EqualFold v ''true'' \<or> v = ''1'')"

definition evaluation_alert :: "Alert \<Rightarrow> bool" where
  "evaluation_alert a = list_ex (\<lambda>k. evaluation_label (mget [] (al_Labels a) k)) [''evaluation'', ''benchmark'', ''kubepilot.io/evaluation'']"

definition excluded :: "Incident \<Rightarrow> bool" where
  "excluded i = (EqualFold (inc_Namespace i) ''kubepilot-benchmark'' \<or> list_ex evaluation_alert (inc_Alerts i))"

definition node_types :: "string list" where
  "node_types = [''cause'', ''mechanism'', ''symptom'', ''observation'', ''action'', ''outcome'']"

definition edge_relations :: "string list" where
  "edge_relations = [''causes'', ''manifests_as'', ''supports'', ''contradicts'', ''mitigates'', ''verifies'', ''correlates'']"

definition structure_checks :: "CausalPattern \<Rightarrow> string list" where
  "structure_checks p =
     code_if (TrimSpace (cp_Cause p) = []) ''cause_missing'' @
     code_if (length (cp_Nodes p) < 2 \<or> length (cp_Edges p) < 1) ''causal_path_incomplete'' @
     concat (map (\<lambda>n. code_if (cn_Type n \<notin> set node_types) ''node_type_invalid'') (cp_Nodes p)) @
     concat (map (\<lambda>e. code_if (ce_From e \<notin> set (map cn_ID (cp_Nodes p)) \<or> ce_To e \<notin> set (map cn_ID (cp_Nodes p))) ''edge_target_missing'' @
                      code_if (ce_Relation e \<notin> set edge_relations) ''edge_relation_invalid'') (cp_Edges p))"

definition observed_pattern :: "Incident \<Rightarrow> CausalEvidencePattern \<Rightarrow> bool" where
  "observed_pattern i v = list_ex (\<lambda>e. ev_Source e = cep_Source v \<and> (cep_Type v = [] \<or> ev_Type e = cep_Type v \<or> ev_Kind e = cep_Type v)) (inc_Evidence i)"

definition grounding_checks :: "Validator \<Rightarrow> Incident \<Rightarrow> CausalPattern \<Rightarrow> string list" where
  "grounding_checks v i p =
     code_if (length (filter (observed_pattern i) (cp_SupportingEvidence p)) < 2) ''evidence_not_grounded'' @
     code_if (int (length (evidence_sources (cp_SupportingEvidence p))) < max (val_MinimumIndependentSources v) 2) ''independent_sources_missing''"

definition unobserved_checks :: "Incident \<Rightarrow> CausalPattern \<Rightarrow> string list" where
  "unobserved_checks i p = concat (map (\<lambda>n. if cn_Type n = ''observation''
     then concat (map (\<lambda>k. code_if (k \<notin> set (map ev_ID (inc_Evidence i))) ''observation_node_unobserved'') (cn_SourceEvidenceIDs n)) else []) (cp_Nodes p))"

definition contradiction_share :: "Incident \<Rightarrow> CausalPattern \<Rightarrow> rat" where
  "contradiction_share i p = (if cp_SupportingEvidence p = [] then 0
     else of_nat (length (filter (observed_pattern i) (cp_ContradictingEvidence p))) / of_nat (length (cp_SupportingEvidence p)))"

definition store_support :: "Incident \<Rightarrow> CausalPattern \<Rightarrow> CausalPattern list \<Rightarrow> int" where
  "store_support i p patterns = (case find (\<lambda>old. cp_ID old = cp_ID p) patterns of None \<Rightarrow> 1
     | Some old \<Rightarrow> max 1 (int (length (cp_SourceIncidents old)) + (if inc_ID i \<in> set (cp_SourceIncidents old) then 0 else 1)))"

definition Validate ::
  "pattern_digest \<Rightarrow> Validator \<Rightarrow> (string + CausalPattern list) option \<Rightarrow> Incident option \<Rightarrow> Proposal \<Rightarrow> ValidationResult \<times> string option" where
  "Validate D v patterns i0 x = (case i0 of
       None \<Rightarrow> (rejected (cp_ID (pro_Pattern x)) 0 [''incident_missing''] ''incident is required'', None)
     | Some i \<Rightarrow>
         if excluded i
         then (rejected (cp_ID (pro_Pattern x)) 0 [''evaluation_isolation''] ''evaluation incidents cannot update causal knowledge'', None)
         else if inc_Status i \<notin> {StatusResolved, StatusDiagnosing, StatusProposing}
         then (rejected (cp_ID (pro_Pattern x)) 0 [''incident_not_resolved''] ''only resolved incidents can update causal knowledge'', None)
         else let p = Canonicalize D (pro_Pattern x); failed = structure_checks p @ grounding_checks v i p in
           if failed \<noteq> [] then (rejected (cp_ID p) 0 failed ''causal proposal failed deterministic validation'', None)
           else if pro_IncidentID x \<noteq> [] \<and> pro_IncidentID x \<noteq> inc_ID i
           then (rejected (cp_ID p) 0 [''incident_identity_mismatch''] ''proposal incident does not match current incident'', None)
           else if unobserved_checks i p \<noteq> []
           then (rejected (cp_ID p) 0 (unobserved_checks i p) ''causal proposal references unobserved evidence'', None)
           else let contradiction = contradiction_share i p in
             if contradiction > 1/10
             then (rejected (cp_ID p) contradiction [''contradiction_too_high''] ''causal proposal contains grounded contradictory observations'', None)
             else let result = (rejected (cp_ID p) contradiction [] [])\<lparr>vr_Valid := True\<rparr> in
               (case patterns of
                  Some (Inl e) \<Rightarrow> (result, Some e)
                | _ \<Rightarrow> let support = (case patterns of Some (Inr ps) \<Rightarrow> store_support i p ps | _ \<Rightarrow> 1) in
                    (result\<lparr>vr_SupportCount := support, vr_Confidence := cp_Confidence p,
                       vr_Accepted := (support \<ge> max (val_MinimumSupport v) 3 \<and> cp_Confidence p \<ge> 4/5),
                       vr_Reason := ''proposal validated; repeated resolved incidents are required before activation''\<rparr>, None)))"

section \<open>What a valid proposal certifies\<close>

definition closed_pattern :: "CausalPattern \<Rightarrow> bool" where
  "closed_pattern p = (list_all (\<lambda>n. cn_Type n \<in> set node_types) (cp_Nodes p) \<and>
     list_all (\<lambda>e. ce_From e \<in> cn_ID ` set (cp_Nodes p) \<and> ce_To e \<in> cn_ID ` set (cp_Nodes p) \<and> ce_Relation e \<in> set edge_relations) (cp_Edges p))"

definition backed_pattern :: "Incident \<Rightarrow> CausalPattern \<Rightarrow> bool" where
  "backed_pattern i p = (2 \<le> length (filter (observed_pattern i) (cp_SupportingEvidence p)) \<and> 2 \<le> length (evidence_sources (cp_SupportingEvidence p)) \<and>
     contradiction_share i p \<le> 1/10 \<and>
     list_all (\<lambda>n. cn_Type n = ''observation'' \<longrightarrow> set (cn_SourceEvidenceIDs n) \<subseteq> ev_ID ` set (inc_Evidence i)) (cp_Nodes p))"

lemma rejected_invalid [simp]: "\<not> vr_Valid (rejected k c failed reason)"
  by (simp add: rejected_def)

lemma code_if_Nil: "concat (map (\<lambda>x. code_if (c x) r) xs) = [] \<longleftrightarrow> list_all (\<lambda>x. \<not> c x) xs"
  by (auto simp: list_all_iff)

lemma structure_checks_Nil:
  "structure_checks p = [] \<longleftrightarrow> TrimSpace (cp_Cause p) \<noteq> [] \<and> 2 \<le> length (cp_Nodes p) \<and> cp_Edges p \<noteq> [] \<and> closed_pattern p"
  by (auto simp: structure_checks_def closed_pattern_def list_all_iff Suc_le_eq)

lemma grounding_checks_Nil:
  "grounding_checks v i p = [] \<longleftrightarrow> 2 \<le> length (filter (observed_pattern i) (cp_SupportingEvidence p)) \<and>
     max (val_MinimumIndependentSources v) 2 \<le> int (length (evidence_sources (cp_SupportingEvidence p)))"
  by (auto simp: grounding_checks_def)

lemma unobserved_checks_Nil:
  "unobserved_checks i p = [] \<longleftrightarrow> list_all (\<lambda>n. cn_Type n = ''observation'' \<longrightarrow> set (cn_SourceEvidenceIDs n) \<subseteq> ev_ID ` set (inc_Evidence i)) (cp_Nodes p)"
proof -
  have "concat (map (\<lambda>k. code_if (k \<notin> A) r) ks) = [] \<longleftrightarrow> set ks \<subseteq> A" for A :: "string set" and r :: string and ks
    by (induction ks) auto
  note this [simp]
  have "concat (map (\<lambda>n. if cn_Type n = ''observation''
      then concat (map (\<lambda>k. code_if (k \<notin> set (map ev_ID (inc_Evidence i))) ''observation_node_unobserved'') (cn_SourceEvidenceIDs n)) else []) ns) = [] \<longleftrightarrow>
    list_all (\<lambda>n. cn_Type n = ''observation'' \<longrightarrow> set (cn_SourceEvidenceIDs n) \<subseteq> ev_ID ` set (inc_Evidence i)) ns" for ns
    by (induction ns) (simp_all del: concat_eq_Nil_conv split del: if_split, auto)
  then show ?thesis by (simp only: unobserved_checks_def)
qed

lemma Validate_valid_iff:
  "vr_Valid (fst (Validate D v patterns (Some i) x)) \<longleftrightarrow>
     (let p = Canonicalize D (pro_Pattern x) in
      \<not> excluded i \<and> inc_Status i \<in> {StatusResolved, StatusDiagnosing, StatusProposing} \<and>
      structure_checks p = [] \<and> grounding_checks v i p = [] \<and> (pro_IncidentID x = [] \<or> pro_IncidentID x = inc_ID i) \<and>
      unobserved_checks i p = [] \<and> contradiction_share i p \<le> 1/10)"
  by (auto simp: Validate_def Let_def split: option.split sum.split)


section \<open>What the extractor proposes is valid\<close>

lemma TrimSpace_id: "list_all (\<lambda>c. \<not> IsSpace c) s \<Longrightarrow> TrimSpace s = s"
proof -
  have drop: "dropWhile IsSpace t = t" if "\<forall>c\<in>set t. \<not> IsSpace c" for t using that by (cases t) auto
  show "list_all (\<lambda>c. \<not> IsSpace c) s \<Longrightarrow> TrimSpace s = s" by (simp add: TrimSpace_def drop list_all_iff)
qed

lemma numbered_trim [simp]: "\<not> IsSpace c \<Longrightarrow> TrimSpace (c # Itoa (int n)) = c # Itoa (int n)"
proof (rule TrimSpace_id)
  assume "\<not> IsSpace c"
  moreover have "\<not> IsSpace d" if "d \<in> set (digits n)" for d
    using digits_chars [OF that] by (auto simp: IsSpace_code)
  ultimately show "list_all (\<lambda>c. \<not> IsSpace c) (c # Itoa (int n))" by (simp add: Itoa_def list_all_iff)
qed

lemma vocabulary [simp]:
  "ToLower (TrimSpace ''cause'') = ''cause''" "ToLower (TrimSpace ''symptom'') = ''symptom''" "ToLower (TrimSpace ''action'') = ''action''"
  "ToLower (TrimSpace ''observation'') = ''observation''" "ToLower (TrimSpace ''causes'') = ''causes''" "ToLower (TrimSpace ''mitigates'') = ''mitigates''"
  "ToLower (TrimSpace ''supports'') = ''supports''" "TrimSpace ''a0'' = ''a0''"
  by code_simp+

lemma letters [simp]: "\<not> IsSpace CHR ''n''" "\<not> IsSpace CHR ''e''"
  by code_simp+

lemma canonical_fields_of [simp]:
  "cn_ID (canonical_node n) = TrimSpace (cn_ID n)" "cn_Type (canonical_node n) = ToLower (TrimSpace (cn_Type n))"
  "cn_SourceEvidenceIDs (canonical_node n) = cn_SourceEvidenceIDs n" "ce_From (canonical_edge e) = ce_From e" "ce_To (canonical_edge e) = ce_To e"
  "ce_Relation (canonical_edge e) = ToLower (TrimSpace (ce_Relation e))"
  by (simp_all add: canonical_node_def canonical_edge_def)

lemma canonical_shape:
  "set (cp_Nodes (Canonicalize D p)) = canonical_node ` set (cp_Nodes p)" "length (cp_Nodes (Canonicalize D p)) = length (cp_Nodes p)"
  "set (cp_Edges (Canonicalize D p)) = canonical_edge ` set (cp_Edges p)" "cp_Edges (Canonicalize D p) = [] \<longleftrightarrow> cp_Edges p = []"
  "cp_Cause (Canonicalize D p) = ToLower (TrimSpace (cp_Cause p))"
  "cp_SupportingEvidence (Canonicalize D p) = uniqueEvidence (cp_SupportingEvidence p)"
  "cp_ContradictingEvidence (Canonicalize D p) = uniqueEvidence (cp_ContradictingEvidence p)"
proof -
  have "sort_key f xs = [] \<longleftrightarrow> xs = []" for f :: "CausalEdge \<Rightarrow> string" and xs by (metis length_0_conv length_sort)
  then show "cp_Edges (Canonicalize D p) = [] \<longleftrightarrow> cp_Edges p = []" by (simp add: Canonicalize_def normal_pattern_def Let_def)
qed (simp_all add: Canonicalize_def normal_pattern_def Let_def)

lemma cited_in: "e \<in> set (cited_evidence i ids) \<Longrightarrow> e \<in> set (inc_Evidence i)"
proof -
  have "y \<in> set (List.map_filter f xs) \<Longrightarrow> \<exists>x. f x = Some y" for f :: "string \<Rightarrow> Evidence option" and xs y
    by (induction xs) (auto simp: List.map_filter_simps split: option.splits)
  then show "e \<in> set (cited_evidence i ids) \<Longrightarrow> e \<in> set (inc_Evidence i)"
    unfolding cited_evidence_def by (fastforce dest!: map_of_SomeD)
qed

text \<open>The identifiers of the nodes, as they stand in the canonical pattern.\<close>

lemma node_IDs:
  "map (TrimSpace \<circ> cn_ID) (path_nodes path) = map (\<lambda>j. CHR ''n'' # Itoa (int j)) [0..<length path]"
  "map (TrimSpace \<circ> cn_ID) (observation_nodes es) = map (\<lambda>j. CHR ''e'' # Itoa (int j)) [0..<length es]"
  by (rule nth_equalityI; simp add: path_nodes_def observation_nodes_def nth_enumerate_eq)+

lemma node_ID_sets:
  "(TrimSpace \<circ> cn_ID) ` set (path_nodes path) = (\<lambda>j. CHR ''n'' # Itoa (int j)) ` {..<length path}"
  "(TrimSpace \<circ> cn_ID) ` set (observation_nodes es) = (\<lambda>j. CHR ''e'' # Itoa (int j)) ` {..<length es}"
  using node_IDs(1) [of path, THEN arg_cong, of set] node_IDs(2) [of es, THEN arg_cong, of set] by (simp_all add: lessThan_atLeast0)

lemma draft_nodes:
  "n \<in> set (path_nodes path) \<Longrightarrow> cn_Type n = ''cause'' \<or> cn_Type n = ''symptom''" "n \<in> set (action_nodes i) \<Longrightarrow> cn_Type n = ''action'' \<and> cn_ID n = ''a0''"
  "n \<in> set (observation_nodes es) \<Longrightarrow> cn_Type n = ''observation'' \<and> (\<exists>e\<in>set es. cn_SourceEvidenceIDs n = [ev_ID e])"
  by (auto simp: path_nodes_def action_nodes_def observation_nodes_def in_set_enumerate_eq split: option.splits if_splits)

lemma path_edge:
  assumes "e \<in> set (path_edges path)"
  shows "ce_Relation e = ''causes'' \<and> (\<exists>i j. i < length path \<and> j < length path \<and> ce_From e = CHR ''n'' # Itoa (int i) \<and> ce_To e = CHR ''n'' # Itoa (int j))"
proof -
  obtain j where "1 \<le> j" "j < length path" and e: "e = zero_CausalEdge\<lparr>ce_From := ''n'' @ Itoa (int (j - 1)), ce_To := ''n'' @ Itoa (int j), ce_Relation := ''causes''\<rparr>"
    using assms by (auto simp: path_edges_def simp del: of_nat_diff)
  then show ?thesis by (intro conjI exI [of _ "j - 1"] exI [of _ j]) simp_all
qed

lemma Itoa_0: "Itoa (int 0) = ''0''"
  by code_simp

lemma action_edge: "e \<in> set (action_edges i) \<Longrightarrow> ce_Relation e = ''mitigates'' \<and> ce_From e = ''a0'' \<and> ce_To e = CHR ''n'' # Itoa (int 0) \<and> action_nodes i \<noteq> []"
  unfolding Itoa_0 by (auto simp: action_edges_def split: if_splits)

lemma observation_edge:
  assumes "path \<noteq> []" "e \<in> set (observation_edges path es)"
  shows "ce_Relation e = ''supports'' \<and> (\<exists>i j. i < length es \<and> j < length path \<and> ce_From e = CHR ''e'' # Itoa (int i) \<and> ce_To e = CHR ''n'' # Itoa (int j))"
proof -
  obtain i where i: "i < length es"
    and e: "e = zero_CausalEdge\<lparr>ce_From := ''e'' @ Itoa (int i), ce_To := ''n'' @ Itoa (int (min i (length path - 1))), ce_Relation := ''supports''\<rparr>"
    using assms(2) by (auto simp: observation_edges_def in_set_enumerate_eq)
  have "min i (length path - 1) < length path" using assms(1) by (simp add: min_less_iff_disj)
  with i e show ?thesis by (intro conjI exI [of _ i] exI [of _ "min i (length path - 1)"]) simp_all
qed

lemma draft_closed:
  assumes "2 \<le> length path"
  shows "closed_pattern (Canonicalize D (draft_pattern i cause path es prior now))" (is "closed_pattern ?p")
proof -
  have path: "path \<noteq> []" "0 < length path" using assms by auto
  have shape: "cp_Nodes (draft_pattern i cause path es prior now) = path_nodes path @ action_nodes i @ observation_nodes es"
    "cp_Edges (draft_pattern i cause path es prior now) = path_edges path @ action_edges i @ observation_edges path es"
    by (simp_all add: draft_pattern_def)
  have "cn_ID ` set (cp_Nodes ?p) = (TrimSpace \<circ> cn_ID) ` set (path_nodes path) \<union> (TrimSpace \<circ> cn_ID) ` set (action_nodes i) \<union> (TrimSpace \<circ> cn_ID) ` set (observation_nodes es)"
    by (simp add: canonical_shape shape image_Un image_image Un_assoc)
  then have ids: "cn_ID ` set (cp_Nodes ?p) = (\<lambda>j. CHR ''n'' # Itoa (int j)) ` {..<length path} \<union> (TrimSpace \<circ> cn_ID) ` set (action_nodes i) \<union> (\<lambda>j. CHR ''e'' # Itoa (int j)) ` {..<length es}"
    by (simp only: node_ID_sets)
  have a0: "action_nodes i \<noteq> [] \<Longrightarrow> ''a0'' \<in> (TrimSpace \<circ> cn_ID) ` set (action_nodes i)"
    using draft_nodes(2) [of "hd (action_nodes i)" i] by (intro image_eqI [of _ _ "hd (action_nodes i)"]) simp_all
  have "list_all (\<lambda>n. cn_Type n \<in> set node_types) (cp_Nodes ?p)"
    using draft_nodes by (fastforce simp: list_all_iff canonical_shape shape node_types_def)
  moreover have "ce_From (canonical_edge e) \<in> cn_ID ` set (cp_Nodes ?p) \<and> ce_To (canonical_edge e) \<in> cn_ID ` set (cp_Nodes ?p) \<and>
      ce_Relation (canonical_edge e) \<in> set edge_relations" if "e \<in> set (path_edges path @ action_edges i @ observation_edges path es)" for e
    using that path_edge [of e path] action_edge [of e i] observation_edge [OF path(1), of e es] a0 path(2)
    unfolding ids by (auto simp: edge_relations_def)
  ultimately show ?thesis by (auto simp: closed_pattern_def list_all_iff canonical_shape shape)
qed

text \<open>The key of an evidence pattern tells its source when no source contains a colon.\<close>

definition plain_source :: "Evidence \<Rightarrow> bool" where
  "plain_source e = (ev_Source e \<noteq> [] \<and> CHR '':'' \<notin> set (ev_Source e))"

lemma plain_pattern: "plain_source e \<Longrightarrow> cep_Source (observation_pattern e) = ev_Source e \<and> observation_source e = ev_Source e"
  by (simp add: plain_source_def observation_pattern_def observation_source_def)

lemma key_source: "CHR '':'' \<notin> set (cep_Source v) \<Longrightarrow> takeWhile (\<lambda>c. c \<noteq> CHR '':'') (evidence_key v) = cep_Source v"
  unfolding evidence_key_def by (subst takeWhile_append2) auto

lemma unique_sources:
  assumes "list_all (\<lambda>v. CHR '':'' \<notin> set (cep_Source v)) vs"
  shows "cep_Source ` set (uniqueEvidence vs) = cep_Source ` set vs"
proof -
  have source: "cep_Source ` A = (\<lambda>k. takeWhile (\<lambda>c. c \<noteq> CHR '':'') k) ` evidence_key ` A" if "A \<subseteq> set vs" for A
    using that assms by (force simp: list_all_iff image_image key_source)
  show ?thesis using source [OF uniqueEvidence_set] source [of "set vs"] by (simp only: uniqueEvidence_keys(2) subset_refl)
qed

lemma draft_grounded:
  assumes "list_all plain_source es" "set es \<subseteq> set (inc_Evidence i)" "2 \<le> length (remdups (map observation_source es))"
  shows "2 \<le> length (evidence_sources (uniqueEvidence (map observation_pattern es)))"
    "2 \<le> length (filter (observed_pattern i) (uniqueEvidence (map observation_pattern es)))"
proof -
  let ?vs = "map observation_pattern es"
  have plain: "plain_source e" if "e \<in> set es" for e using assms(1) that by (simp add: list_all_iff)
  have "list_all (\<lambda>v. CHR '':'' \<notin> set (cep_Source v)) ?vs"
    using assms(1) by (auto simp: list_all_iff plain_pattern) (simp add: plain_source_def)
  from unique_sources [OF this] have "cep_Source ` set (uniqueEvidence ?vs) = observation_source ` set es"
    using plain plain_pattern by (simp add: image_image)
  moreover have "observation_source e \<noteq> []" if "e \<in> set es" for e
    using plain [OF that] plain_pattern [OF plain [OF that]] by (simp add: plain_source_def)
  then have "[] \<notin> observation_source ` set es" by force
  ultimately have sources: "set (filter (\<lambda>s. s \<noteq> []) (map cep_Source (uniqueEvidence ?vs))) = set (map observation_source es)"
    by (auto simp: image_iff) 
  then have "length (evidence_sources (uniqueEvidence ?vs)) = length (remdups (map observation_source es))"
    unfolding evidence_sources_def length_remdups_card_conv by simp
  then show many: "2 \<le> length (evidence_sources (uniqueEvidence ?vs))" using assms(3) by simp
  have "observed_pattern i v" if "v \<in> set (uniqueEvidence ?vs)" for v
    using that uniqueEvidence_set [of ?vs] plain plain_pattern assms(2)
    by (fastforce simp: observed_pattern_def list_ex_iff observation_pattern_def)
  then have "filter (observed_pattern i) (uniqueEvidence ?vs) = uniqueEvidence ?vs" by (simp add: filter_id_conv)
  moreover have "length (evidence_sources vs) \<le> length vs" for vs
    unfolding evidence_sources_def by (metis length_filter_le length_map length_remdups_leq order_trans)
  ultimately show "2 \<le> length (filter (observed_pattern i) (uniqueEvidence ?vs))" using many order_trans by metis
qed

text \<open>The extractor and the validator agree.  A proposal drawn from a resolved incident that is no evaluation is valid, whatever
  cause, causal path and evidence it was drawn from, if the cited evidence names its sources; so
  nothing the learner extracts is lost for a formal reason.\<close>

theorem extracted_proposal_is_valid:
  assumes "ProposalFromDraft D i cause path ids prior now = Some x"
    and "inc_Status i = StatusResolved" "\<not> excluded i" "list_all plain_source (cited_evidence i ids)"
  shows "vr_Valid (fst (Validate D NewValidator patterns (Some i) x))"
proof -
  let ?es = "cited_evidence i ids"
  let ?q = "draft_pattern i cause path ?es prior now"
  have x: "pro_Pattern x = Canonicalize D ?q" "pro_IncidentID x = inc_ID i" and path: "2 \<le> length path" and cause: "TrimSpace cause \<noteq> []"
    and many: "2 \<le> length (remdups (map observation_source ?es))"
    using assms(1) by (auto simp: ProposalFromDraft_def Let_def split: if_splits)
  have p: "Canonicalize D (pro_Pattern x) = Canonicalize D ?q" by (simp add: x(1) Canonicalize_canonical)
  have in_i: "set ?es \<subseteq> set (inc_Evidence i)" using cited_in by blast
  have shape: "cp_Cause ?q = cause" "cp_Nodes ?q = path_nodes path @ action_nodes i @ observation_nodes ?es" "cp_Edges ?q \<noteq> []"
    "cp_SupportingEvidence ?q = map observation_pattern ?es" "cp_ContradictingEvidence ?q = []"
    using path by (auto simp: draft_pattern_def path_edges_def zero_CausalPattern_def)
  have "structure_checks (Canonicalize D ?q) = []"
    using cause path draft_closed [OF path] by (simp add: structure_checks_Nil canonical_shape shape TrimSpace_ToLower path_nodes_def) (simp add: ToLower_def)
  moreover have "grounding_checks NewValidator i (Canonicalize D ?q) = []"
    using draft_grounded [OF assms(4) in_i many] by (simp add: grounding_checks_Nil canonical_shape shape NewValidator_def)
  moreover have "unobserved_checks i (Canonicalize D ?q) = []"
    using draft_nodes in_i by (fastforce simp: unobserved_checks_Nil list_all_iff canonical_shape shape)
  moreover have "contradiction_share i (Canonicalize D ?q) = 0"
    by (simp add: contradiction_share_def canonical_shape shape uniqueEvidence_def)
  ultimately show ?thesis using assms(2,3) x(2) by (simp add: Validate_valid_iff p Let_def)
qed

text \<open>An incident with a log line and a metric.\<close>

definition learned_incident :: Incident where
  "learned_incident = zero_Incident\<lparr>inc_ID := ''i'', inc_Status := StatusResolved,
     inc_Evidence := [zero_Evidence\<lparr>ev_ID := ''e1'', ev_Source := ''log''\<rparr>, zero_Evidence\<lparr>ev_ID := ''e2'', ev_Source := ''metric''\<rparr>]\<rparr>"

lemma learned_fields:
  "inc_Status learned_incident = StatusResolved" "inc_ID learned_incident = ''i''" "\<not> excluded learned_incident"
  "map ev_ID (cited_evidence learned_incident [''e1'', ''e2'']) = [''e1'', ''e2'']"
  "list_all plain_source (cited_evidence learned_incident [''e1'', ''e2''])"
  by code_simp+

lemma learned_drawn:
  "\<exists>x. ProposalFromDraft (\<lambda>_. ''x'') learned_incident ''leak'' [''leak'', ''oom''] [''e1'', ''e2''] 1 5 = Some x"
proof -
  have "TrimSpace ''leak'' \<noteq> []" "\<not> length (remdups (map observation_source (cited_evidence learned_incident [''e1'', ''e2'']))) < 2" by code_simp+
  then show ?thesis by (simp add: ProposalFromDraft_def)
qed

lemma extracted_proposal_is_valid_witness:
  "\<exists>x. ProposalFromDraft (\<lambda>_. ''x'') learned_incident ''leak'' [''leak'', ''oom''] [''e1'', ''e2''] 1 5 = Some x \<and>
     vr_Valid (fst (Validate (\<lambda>_. ''x'') NewValidator None (Some learned_incident) x))"
proof -
  obtain x where "ProposalFromDraft (\<lambda>_. ''x'') learned_incident ''leak'' [''leak'', ''oom''] [''e1'', ''e2''] 1 5 = Some x" using learned_drawn by blast
  then show ?thesis using extracted_proposal_is_valid learned_fields by blast
qed

definition learned_proposal :: Proposal where
  "learned_proposal = the (ProposalFromDraft (\<lambda>_. ''x'') learned_incident ''leak'' [''leak'', ''oom''] [''e1'', ''e2''] 1 5)"

lemma learned_valid: "vr_Valid (fst (Validate (\<lambda>_. ''x'') NewValidator None (Some learned_incident) learned_proposal))"
  by code_simp


end
