(* ===== verification/Topology_Conversion.thy ===== *)
theory Topology_Conversion
  imports Topology
begin

text \<open>The two forms of a topology in \<^verbatim>\<open>internal/topology/graph.go\<close>: \<^verbatim>\<open>ToDependencyGraph\<close> stores the graph of an incident
  in its features, \<^verbatim>\<open>FromDependencyGraph\<close> reads it back.  The lemmas follow the kinds of nodes and edges
  through \<^verbatim>\<open>Build\<close>; what \<^verbatim>\<open>Build\<close> returns survives the round trip.\<close>

definition builder_types :: "string list" where
  "builder_types = [''service'', ''database'', ''cache'', ''queue'', ''pod'', ''deployment'']"

definition plain_graph :: "IncidentGraph \<Rightarrow> bool" where
  "plain_graph g = ((\<forall>n\<in>set (ig_Nodes g). gn_Type n \<in> set builder_types \<and> gn_Metadata n ''role'' \<noteq> Some ''critical_dependency'') \<and>
     (\<forall>e\<in>set (ig_Edges g). ge_Relation e \<in> {''calls'', ''owns'', ''runs_on'', ''depends_on''} \<and> ge_Weight e = 1))"

lemma inferType_plain [simp]: "inferType i \<in> set builder_types"
  by (simp add: inferType_def builder_types_def Let_def)

lemma relation_plain [simp]: "relationForEvidence key \<in> {''calls'', ''owns'', ''runs_on'', ''depends_on''}"
  by (simp add: relationForEvidence_def)

lemma named_types [simp]: "''service'' \<in> set builder_types" "''pod'' \<in> set builder_types" "''deployment'' \<in> set builder_types"
  by (simp_all add: builder_types_def)

lemma plain_add_node [intro]: "plain_graph g \<Longrightarrow> typ \<in> set builder_types \<Longrightarrow> m ''role'' \<noteq> Some ''critical_dependency'' \<Longrightarrow> plain_graph (add_node i nid typ m g)"
  by (auto simp: add_node_def plain_graph_def Let_def map_add_def split: option.splits)

lemma plain_add_edge [intro]:
  assumes "plain_graph g" "relation \<in> {''calls'', ''owns'', ''runs_on'', ''depends_on''}"
  shows "plain_graph (add_edge i source target relation g)"
proof -
  have "plain_graph (add_node i target (inferType target) Map.empty (add_node i source ''service'' Map.empty g))"
    using assms(1) by (intro plain_add_node) simp_all
  then show ?thesis using assms unfolding add_edge_def Let_def plain_graph_def by auto
qed

lemma foldl_plain: "plain_graph g \<Longrightarrow> (\<And>g x. plain_graph g \<Longrightarrow> plain_graph (f g x)) \<Longrightarrow> plain_graph (foldl f g xs)"
  by (induction xs arbitrary: g) auto

lemma plain_dependency: "plain_graph g \<Longrightarrow> plain_graph (add_dependency i source payload g key)"
  using relation_plain [of key] unfolding add_dependency_def by (cases "text_at payload key") (simp_all only: option.case plain_add_edge)

lemma plain_owned: "plain_graph g \<Longrightarrow> typ \<in> set builder_types \<Longrightarrow> relation \<in> {''calls'', ''owns'', ''runs_on'', ''depends_on''} \<Longrightarrow>
    plain_graph (add_owned i source payload typ relation g key)"
  unfolding add_owned_def by (cases "text_at payload key") (simp_all only: option.case, intro plain_add_edge plain_add_node, simp_all)

lemma plain_payload: "plain_graph g \<Longrightarrow> plain_graph (add_payload i source g payload)"
  unfolding add_payload_def Let_def by (intro foldl_plain plain_dependency plain_owned) simp_all

lemma plain_evidence: "plain_graph g \<Longrightarrow> plain_graph (add_evidence sprint i g ev)"
  unfolding add_evidence_def Let_def
  by (intro foldl_plain plain_add_node plain_payload) (auto intro: plain_payload)

lemma normal_types: "typ \<in> set builder_types \<Longrightarrow> normalizeType typ = typ"
  by (auto simp: builder_types_def) (code_simp)+

lemma normal_relations: "r \<in> {''calls'', ''owns'', ''runs_on'', ''depends_on''} \<Longrightarrow> normalizeRelation r = r"
  by auto (code_simp)+

lemma plain_normalized: "plain_graph g \<Longrightarrow> plain_graph (NormalizeGraph g)"
  by (auto simp: plain_graph_def NormalizeGraph_def normal_node_def normal_edge_def normal_types normal_relations)

lemma built_plain: "plain_graph (BuildTopology sprint incident evidence)"
proof -
  have "plain_graph \<lparr>ig_IncidentID = n, ig_Nodes = [], ig_Edges = []\<rparr>" for n by (simp add: plain_graph_def)
  then show ?thesis unfolding BuildTopology_def
    by (auto split: option.split intro!: plain_normalized foldl_plain plain_evidence plain_add_node)
qed

lemma read_back_node:
  assumes "gn_Type n \<in> set builder_types"
    "gn_Metadata n ''role'' \<noteq> Some ''critical_dependency''"
  shows "dependency_node \<lparr>dn_ID = gn_ID n, dn_Kind = gn_Type n, dn_Service = mget [] (gn_Metadata n) ''service'',
    dn_Resource = mget [] (gn_Metadata n) ''resource'', dn_Role = mget [] (gn_Metadata n) ''role'', dn_Metadata = gn_Metadata n\<rparr> = n"
  using assms by (cases n) (auto simp: dependency_node_def dependency_type_def builder_types_def mget_def fun_eq_iff Let_def split: option.splits)

lemma normal_form_stable: "NormalizeGraph (NormalizeGraph g) = NormalizeGraph g"
proof -
  have "normalizeType (normalizeType t) = normalizeType t" for t
  proof -
    have "ToLower (TrimSpace ''database'') = ''database''" by code_simp
    then show ?thesis by (simp add: normalizeType_def Let_def TrimSpace_ToLower)
  qed
  moreover have "normalizeRelation (normalizeRelation r) = normalizeRelation r" for r
    using normal_relations [of "normalizeRelation r"] by (simp add: normalizeRelation_def Let_def)
  ultimately have "normal_node (normal_node n) = normal_node n" "normal_edge (normal_edge e) = normal_edge e" for n e
    by (simp_all add: normal_node_def normal_edge_def)
  then have "map normal_node (ig_Nodes (NormalizeGraph g)) = ig_Nodes (NormalizeGraph g)"
    "map normal_edge (ig_Edges (NormalizeGraph g)) = ig_Edges (NormalizeGraph g)"
    by (auto simp: NormalizeGraph_def intro!: map_ident_on)
  then show ?thesis
    unfolding NormalizeGraph_def [of "NormalizeGraph g"] by (simp add: NormalizeGraph_def sort_key_id_if_sorted)
qed

text \<open>C19. The topology stored in the features of an incident reads back as the topology that was built: for every incident
  and every evidence, converting what \<^verbatim>\<open>Build\<close> returns to a dependency graph and that back to an incident graph
  gives the same nodes with their types and metadata, the same edges with their relations and weights, in the
  same order.  The types \<^verbatim>\<open>FromDependencyGraph\<close> infers and the weights it computes never differ from the built ones.\<close>

theorem built_topology_reads_back:
  "FromDependencyGraph (ig_IncidentID (BuildTopology sprint incident evidence))
     (ToDependencyGraph (BuildTopology sprint incident evidence) rootService) = BuildTopology sprint incident evidence"
proof -
  let ?g = "BuildTopology sprint incident evidence"
  have g: "plain_graph ?g" by (rule built_plain)
  have "map dependency_node (idg_Nodes (ToDependencyGraph ?g rootService)) = ig_Nodes ?g"
    using g read_back_node by (auto simp: ToDependencyGraph_def plain_graph_def intro!: map_ident_on)
  moreover have "dependency_edge (zero_DependencyEdge\<lparr>de_From := ge_Source e, de_To := ge_Target e, de_Kind := ge_Relation e\<rparr>) = e"
    if "e \<in> set (ig_Edges ?g)" for e
  proof -
    have "ge_Relation e \<noteq> []" "ge_Weight e = 1" using g that by (auto simp: plain_graph_def)
    then show ?thesis by (simp add: dependency_edge_def zero_DependencyEdge_def)
  qed
  then have "map dependency_edge (idg_Edges (ToDependencyGraph ?g rootService)) = ig_Edges ?g"
    by (auto simp: ToDependencyGraph_def intro!: map_ident_on)
  moreover have "NormalizeGraph ?g = ?g"
    by (cases incident) (simp_all add: BuildTopology_def normal_form_stable, simp add: NormalizeGraph_def)
  moreover have "\<lparr>ig_IncidentID = ig_IncidentID ?g, ig_Nodes = ig_Nodes ?g, ig_Edges = ig_Edges ?g\<rparr> = ?g" by simp
  ultimately show ?thesis unfolding FromDependencyGraph_def by (simp only:)
qed

end
