(* ===== verification/Causal_Discovery.thy ===== *)
theory Causal_Discovery
  imports Causal_Validation
begin

text \<open>\<^verbatim>\<open>internal/causal/discovery\<close>: the mining of causal patterns from resolved incidents.  An incident becomes a causal graph
  (\<^verbatim>\<open>graph_builder.go\<close>), the paths of all graphs are counted and scored (\<^verbatim>\<open>miner.go\<close>, \<^verbatim>\<open>scorer.go\<close>), and a candidate with enough support
  is validated and merged into the causal knowledge (\<^verbatim>\<open>engine.go\<close>).  The digest of a path and the explanation of the model are
  parameters; the reader and the pattern store of the engine are one store, as the server wires them.  A map whose
  order of iteration Go leaves open is an association list, and \<open>prune\<close> takes the order as an argument.\<close>

record IncidentCausalGraph =
  icg_IncidentID :: string
  icg_Nodes :: "CausalNode list"
  icg_Edges :: "CausalEdge list"

record CausalPatternCandidate =
  cand_PatternID :: string
  cand_CausalPath :: "string list"
  cand_SupportingIncidents :: "string list"
  cand_Frequency :: int
  cand_Coverage :: rat
  cand_EvidenceConfidence :: rat
  cand_CausalConsistency :: rat
  cand_ContradictionPenalty :: rat
  cand_Confidence :: rat
  cand_Contradictions :: "string list"
  cand_Status :: string
  cand_Explanation :: string
  cand_CreatedAt :: time
  cand_UpdatedAt :: time

definition zero_CausalPatternCandidate :: CausalPatternCandidate where [zero_defs]:
  "zero_CausalPatternCandidate = \<lparr>cand_PatternID = [], cand_CausalPath = [], cand_SupportingIncidents = [], cand_Frequency = 0,
     cand_Coverage = 0, cand_EvidenceConfidence = 0, cand_CausalConsistency = 0, cand_ContradictionPenalty = 0, cand_Confidence = 0,
     cand_Contradictions = [], cand_Status = [], cand_Explanation = [], cand_CreatedAt = 0, cand_UpdatedAt = 0\<rparr>"

section \<open>Candidates\<close>

definition normalizeName :: "string \<Rightarrow> string" where
  "normalizeName value = Join (Fields (ToLower (TrimSpace value))) '' ''"

definition pathKey :: "string list \<Rightarrow> string" where
  "pathKey path = Join path ''->''"

type_synonym path_digest = "string \<Rightarrow> string"

definition DiscoveredID :: "path_digest \<Rightarrow> string list \<Rightarrow> string" where
  "DiscoveredID D path = ''discovered-causal-'' @ D (Join (map normalizeName path) ''->'')"

definition NormalizeCandidate :: "path_digest \<Rightarrow> time \<Rightarrow> CausalPatternCandidate \<Rightarrow> CausalPatternCandidate" where
  "NormalizeCandidate D now c =
     (let path = filter (\<lambda>v. v \<noteq> []) (map normalizeName (cand_CausalPath c));
          created = (if IsZero (cand_CreatedAt c) then now else cand_CreatedAt c)
      in c\<lparr>cand_CausalPath := path, cand_PatternID := DiscoveredID D path, cand_SupportingIncidents := unique (cand_SupportingIncidents c),
           cand_Contradictions := unique (cand_Contradictions c), cand_Status := (if cand_Status c = [] then ''DISCOVERED'' else cand_Status c),
           cand_CreatedAt := created, cand_UpdatedAt := (if IsZero (cand_UpdatedAt c) then created else cand_UpdatedAt c)\<rparr>)"

section \<open>The causal graph of an incident\<close>

definition clamp_rate :: "rat \<Rightarrow> rat" where
  "clamp_rate v = (if v < 0 then 0 else if v > 1 then 1 else v)"

definition excludedIncident :: "Incident \<Rightarrow> bool" where
  "excludedIncident i = (EqualFold (TrimSpace (inc_Namespace i)) ''kubepilot-benchmark'' \<or> list_ex evaluation_alert (inc_Alerts i))"

definition selectedHypothesis :: "Incident \<Rightarrow> VerifiedHypothesis option" where
  "selectedHypothesis i = (case inc_DiagnosisLedger i of None \<Rightarrow> None
     | Some l \<Rightarrow> find (\<lambda>v. hd_ID (vh_Draft v) = led_SelectedHypothesisID l \<and> vh_Status v \<noteq> HypothesisRefuted) (led_Verified l))"

definition latestConfidence :: "VerifiedHypothesis \<Rightarrow> rat" where
  "latestConfidence h = (if vh_ConfidenceHistory h = [] then vh_FinalScore h else hcr_Score (last (vh_ConfidenceHistory h)))"

definition hypothesis_confidence :: "VerifiedHypothesis \<Rightarrow> rat" where
  "hypothesis_confidence h = (if latestConfidence h \<le> 0 then vh_FinalScore h else latestConfidence h)"

definition append_name :: "string list \<Rightarrow> string \<Rightarrow> string list" where
  "append_name out item = (let name = normalizeName item in if name = [] \<or> (out \<noteq> [] \<and> last out = name) then out else out @ [name])"

definition normalizePath :: "string list \<Rightarrow> string list" where
  "normalizePath path = foldl append_name [] path"

definition causal_path :: "HypothesisDraft \<Rightarrow> string list" where
  "causal_path d = (let path = hd_ExpectedCausalPath d; cause = TrimSpace (hd_Cause d) in
     normalizePath (if cause \<noteq> [] \<and> normalizeName cause \<noteq> normalizeName (hd path) then cause # path else path))"

definition path_id :: "nat \<Rightarrow> string \<Rightarrow> string" where
  "path_id i name = ''path:'' @ Itoa (int i) @ '':'' @ name"

definition path_ids :: "string list \<Rightarrow> string list" where
  "path_ids path = map (\<lambda>(i, name). path_id i name) (enumerate 0 path)"

definition mined_nodes :: "string list \<Rightarrow> rat \<Rightarrow> CausalNode list" where
  "mined_nodes path confidence = map (\<lambda>(i, name). zero_CausalNode\<lparr>cn_ID := path_id i name,
     cn_Type := (if i = 0 then ''cause'' else if i = length path - 1 then ''symptom'' else ''mechanism''), cn_Name := name, cn_Confidence := confidence\<rparr>)
     (enumerate 0 path)"

definition mined_edges :: "string list \<Rightarrow> rat \<Rightarrow> CausalEdge list" where
  "mined_edges path confidence = map (\<lambda>i. \<lparr>ce_From = path_ids path ! (i - 1), ce_To = path_ids path ! i,
     ce_Relation = (if i = length path - 1 then ''manifests_as'' else ''causes''), ce_Confidence = confidence\<rparr>) [1..<length path]"

definition evidenceName :: "Evidence \<Rightarrow> string" where
  "evidenceName e = (let v = TrimSpace (ev_Summary e) in if v \<noteq> [] then normalizeName v else normalizeName (ev_Source e @ '' '' @ ev_Type e))"

definition evidenceNodeID :: "Evidence \<Rightarrow> string" where
  "evidenceNodeID e = (if ev_ID e \<noteq> [] then ''evidence:'' @ ev_ID e else ''evidence:'' @ ToLower (TrimSpace (ev_Source e)) @ '':'' @ evidenceName e)"

definition evidence_quality :: "Evidence \<Rightarrow> rat" where
  "evidence_quality e = clamp_rate (observation_quality (1/2) e)"

definition cited_by_hypothesis :: "VerifiedHypothesis \<Rightarrow> Incident \<Rightarrow> Evidence list" where
  "cited_by_hypothesis h i = (let ids = unique (hd_SupportingEvidenceIDs (vh_Draft h) @ inc_RootCauseEvidenceIDs i)
     in filter (\<lambda>e. ids = [] \<or> ev_ID e \<in> set ids) (inc_Evidence i))"

definition support_nodes :: "Evidence list \<Rightarrow> CausalNode list" where
  "support_nodes es = map (\<lambda>e. zero_CausalNode\<lparr>cn_ID := evidenceNodeID e, cn_Type := ''observation'', cn_Name := evidenceName e,
     cn_Source := ev_Source e, cn_Confidence := evidence_quality e, cn_SourceEvidenceIDs := [ev_ID e]\<rparr>) es"

definition support_edges :: "string list \<Rightarrow> Evidence list \<Rightarrow> CausalEdge list" where
  "support_edges path es = map (\<lambda>e. \<lparr>ce_From = evidenceNodeID e,
     ce_To = (if ev_Type e = ''symptom'' \<or> ev_Type e = ''business'' then last (path_ids path) else hd (path_ids path)),
     ce_Relation = ''supports'', ce_Confidence = evidence_quality e\<rparr>) es"

text \<open>The action of the proposal, \<open>None\<close> when there is none.\<close>

definition proposed_action :: "Incident \<Rightarrow> (string \<times> rat) option" where
  "proposed_action i = (case inc_Proposal i of None \<Rightarrow> None
     | Some p \<Rightarrow> if TrimSpace (action_name (rp_Action p)) = [] then None
         else Some (ToLower (TrimSpace (action_name (rp_Action p))), clamp_rate (rp_Confidence p)))"

definition mitigation_nodes :: "Incident \<Rightarrow> CausalNode list" where
  "mitigation_nodes i = (case proposed_action i of None \<Rightarrow> []
     | Some (name, c) \<Rightarrow> [zero_CausalNode\<lparr>cn_ID := ''action:'' @ name, cn_Type := ''action'', cn_Name := name, cn_Confidence := c\<rparr>])"

definition mitigation_edges :: "Incident \<Rightarrow> string list \<Rightarrow> CausalEdge list" where
  "mitigation_edges i path = (case proposed_action i of None \<Rightarrow> []
     | Some (name, c) \<Rightarrow> [\<lparr>ce_From = ''action:'' @ name, ce_To = hd (path_ids path), ce_Relation = ''mitigates'', ce_Confidence = c\<rparr>])"

definition boolName :: "bool \<Rightarrow> string" where
  "boolName value = (if value then ''verification_success'' else ''verification_failed'')"

definition outcome_node :: "Verification \<Rightarrow> CausalNode" where
  "outcome_node v = zero_CausalNode\<lparr>cn_ID := ''recovery:'' @ boolName (ver_Success v), cn_Type := ''outcome'', cn_Name := boolName (ver_Success v), cn_Confidence := 1\<rparr>"

definition outcome_edge :: "Incident \<Rightarrow> Verification \<Rightarrow> string list \<Rightarrow> CausalEdge" where
  "outcome_edge i v path = \<lparr>ce_From = (case proposed_action i of None \<Rightarrow> last (path_ids path) | Some (name, c) \<Rightarrow> ''action:'' @ name),
     ce_To = ''recovery:'' @ boolName (ver_Success v), ce_Relation = (if proposed_action i = None then ''supports'' else ''verifies''), ce_Confidence = 1\<rparr>"

text \<open>The observed dependencies are context: their edges only correlate.\<close>

definition observed_topology :: "Incident \<Rightarrow> IncidentDependencyGraph option" where
  "observed_topology i = (case inc_DiagnosisLedger i of None \<Rightarrow> None
     | Some l \<Rightarrow> (case led_Candidates l of [] \<Rightarrow> None | c # _ \<Rightarrow> Some (if_TopologyGraph (rc_Features c))))"

definition context_nodes :: "Incident \<Rightarrow> CausalNode list" where
  "context_nodes i = (case observed_topology i of None \<Rightarrow> []
     | Some g \<Rightarrow> map (\<lambda>name. zero_CausalNode\<lparr>cn_ID := ''topology:'' @ name, cn_Type := ''observation'', cn_Name := name, cn_Confidence := 1/2\<rparr>)
         (filter (\<lambda>name. name \<noteq> []) (map (normalizeName \<circ> dn_ID) (idg_Nodes g))))"

definition context_edges :: "Incident \<Rightarrow> CausalEdge list" where
  "context_edges i = (case observed_topology i of None \<Rightarrow> []
     | Some g \<Rightarrow> map (\<lambda>e. \<lparr>ce_From = ''topology:'' @ normalizeName (de_From e), ce_To = ''topology:'' @ normalizeName (de_To e),
         ce_Relation = ''correlates'', ce_Confidence = 1/2\<rparr>) (idg_Edges g))"

definition graph_edge_key :: "CausalEdge \<Rightarrow> string" where
  "graph_edge_key e = ce_From e @ '':'' @ ce_To e @ '':'' @ ce_Relation e"

definition normalize_causal_graph :: "IncidentCausalGraph \<Rightarrow> IncidentCausalGraph" where
  "normalize_causal_graph g = g\<lparr>icg_Nodes := sort_key cn_ID (icg_Nodes g), icg_Edges := sort_key graph_edge_key (icg_Edges g)\<rparr>"

definition outEvidence :: "IncidentCausalGraph \<Rightarrow> CausalNode list" where
  "outEvidence g = filter (\<lambda>n. cn_Type n = ''observation'' \<and> cn_SourceEvidenceIDs n \<noteq> []) (icg_Nodes g)"

definition fused_graph :: "Incident \<Rightarrow> VerifiedHypothesis \<Rightarrow> Verification \<Rightarrow> string list \<Rightarrow> IncidentCausalGraph" where
  "fused_graph i h v path =
     (let c = hypothesis_confidence h; confidence = clamp_rate (if c \<le> 0 then inc_Confidence i else c); es = cited_by_hypothesis h i
      in \<lparr>icg_IncidentID = inc_ID i,
          icg_Nodes = mined_nodes path confidence @ support_nodes es @ mitigation_nodes i @ [outcome_node v] @ context_nodes i,
          icg_Edges = mined_edges path confidence @ support_edges path es @ mitigation_edges i path @ [outcome_edge i v path] @ context_edges i\<rparr>)"

definition build_error :: "Incident \<Rightarrow> string \<Rightarrow> string" where
  "build_error i what = ''incident '' @ inc_ID i @ '' '' @ what"

definition BuildIncidentCausalGraph :: "Incident option \<Rightarrow> string + IncidentCausalGraph" where
  "BuildIncidentCausalGraph i0 = (case i0 of None \<Rightarrow> Inl ''incident is required''
     | Some i \<Rightarrow>
         if inc_Status i \<noteq> StatusResolved then Inl (build_error i ''is not resolved'')
         else if excludedIncident i then Inl (build_error i ''is excluded from knowledge discovery'')
         else (case inc_Verification i of None \<Rightarrow> Inl (build_error i ''has no successful verification'')
           | Some v \<Rightarrow>
               if \<not> ver_Success v then Inl (build_error i ''has no successful verification'')
               else (case selectedHypothesis i of None \<Rightarrow> Inl (build_error i ''has no selected verified hypothesis'')
                 | Some h \<Rightarrow>
                     if vh_ContradictionScore h > 1/10 then Inl (build_error i ''selected hypothesis has excessive contradiction'')
                     else if hypothesis_confidence h < 4/5 then Inl (build_error i ''selected hypothesis is below discovery confidence threshold'')
                     else if hd_ExpectedCausalPath (vh_Draft h) = [] then Inl (build_error i ''has no causal path'')
                     else let path = causal_path (vh_Draft h) in
                       if length path < 2 then Inl (build_error i ''causal path is too short'')
                       else let g = fused_graph i h v path in
                         if outEvidence g = [] then Inl (build_error i ''causal graph has no grounded Evidence'')
                         else Inr (normalize_causal_graph g))))"

definition ExtractMany :: "Incident option list \<Rightarrow> IncidentCausalGraph list" where
  "ExtractMany incidents = List.map_filter (\<lambda>i. case BuildIncidentCausalGraph i of Inl e \<Rightarrow> None | Inr g \<Rightarrow> Some g) incidents"

section \<open>Paths\<close>

definition causal_relation :: "CausalEdge \<Rightarrow> bool" where
  "causal_relation e = (ce_Relation e = ''causes'' \<or> ce_Relation e = ''manifests_as'')"

definition node_names :: "IncidentCausalGraph \<Rightarrow> string \<rightharpoonup> string" where
  "node_names g = foldl (\<lambda>m n. if cn_Name n \<noteq> [] then m(cn_ID n \<mapsto> normalizeName (cn_Name n)) else m) Map.empty (icg_Nodes g)"

definition mined_relations :: "IncidentCausalGraph \<Rightarrow> CausalEdge list" where
  "mined_relations g = filter (\<lambda>e. causal_relation e \<and> mget [] (node_names g) (ce_From e) \<noteq> [] \<and> mget [] (node_names g) (ce_To e) \<noteq> []) (icg_Edges g)"

definition successors :: "IncidentCausalGraph \<Rightarrow> string \<Rightarrow> string list" where
  "successors g u = sort (map ce_To (filter (\<lambda>e. ce_From e = u) (mined_relations g)))"

definition path_starts :: "IncidentCausalGraph \<Rightarrow> string list" where
  "path_starts g = sort (remdups (map ce_From (mined_relations g)))"

text \<open>Every path from \<open>nodes\<close>, whose last node is \<open>current\<close>, that visits no node twice; the bound on its length ends
  the recursion.\<close>

function dfsPaths :: "(string \<Rightarrow> string list) \<Rightarrow> nat \<Rightarrow> string \<Rightarrow> string list \<Rightarrow> string list list" where
  "dfsPaths adj maxLength current nodes =
     (if length nodes \<ge> 2 then [nodes] else []) @
     (if length nodes \<ge> maxLength then []
      else concat (map (\<lambda>next. if next \<in> set nodes then [] else dfsPaths adj maxLength next (nodes @ [next])) (adj current)))"
  by pat_completeness auto
termination by (relation "measure (\<lambda>(adj, maxLength, current, nodes). maxLength - length nodes)") auto

declare dfsPaths.simps [simp del]

definition causalPaths :: "IncidentCausalGraph \<Rightarrow> nat \<Rightarrow> string list list" where
  "causalPaths g maxLength = map (map (mget [] (node_names g))) (concat (map (\<lambda>start. dfsPaths (successors g) maxLength start [start]) (path_starts g)))"

definition relation_confidences :: "IncidentCausalGraph \<Rightarrow> string list \<Rightarrow> rat list" where
  "relation_confidences g path =
     (let names = foldl (\<lambda>m n. m(cn_ID n \<mapsto> normalizeName (cn_Name n))) Map.empty (icg_Nodes g)
      in map (clamp_rate \<circ> ce_Confidence)
        (filter (\<lambda>e. causal_relation e \<and> (mget [] names (ce_From e), mget [] names (ce_To e)) \<in> set (zip path (tl path))) (icg_Edges g)))"

definition node_confidences :: "IncidentCausalGraph \<Rightarrow> string list \<Rightarrow> rat list" where
  "node_confidences g path = concat (map (\<lambda>n. map (\<lambda>name. clamp_rate (cn_Confidence n))
     (filter (\<lambda>name. normalizeName (cn_Name n) = name \<and> cn_Confidence n > 0) path)) (icg_Nodes g))"

definition pathEvidenceConfidence :: "IncidentCausalGraph \<Rightarrow> string list \<Rightarrow> rat" where
  "pathEvidenceConfidence g path = (let confidence = relation_confidences g path @ node_confidences g path in
     if confidence = [] then 1/2 else clamp_rate (sum_list confidence / of_nat (length confidence)))"

definition graphHasNode :: "IncidentCausalGraph \<Rightarrow> string \<Rightarrow> bool" where
  "graphHasNode g name = list_ex (\<lambda>n. normalizeName (cn_Name n) = normalizeName name) (icg_Nodes g)"

definition isSubpath :: "string list \<Rightarrow> string list \<Rightarrow> bool" where
  "isSubpath needle path = (length needle < length path \<and>
     list_ex (\<lambda>start. take (length needle) (drop start path) = needle) [0..<Suc (length path - length needle)])"

definition sameSupport :: "string list \<Rightarrow> string list \<Rightarrow> bool" where
  "sameSupport left right = (length left = length right \<and> list_all (\<lambda>v. v \<in> set right) left)"

section \<open>Score\<close>

definition contradiction_ratio :: "CausalPatternCandidate \<Rightarrow> rat" where
  "contradiction_ratio c = (if cand_Frequency c > 0 then clamp_rate (of_nat (length (cand_Contradictions c)) / of_int (cand_Frequency c)) else 0)"

definition ScoreCandidate :: "CausalPatternCandidate \<Rightarrow> int \<Rightarrow> rat \<times> rat" where
  "ScoreCandidate c maxFrequency0 =
     (let maxFrequency = (if maxFrequency0 \<le> 0 then 1 else maxFrequency0);
          frequency = clamp_rate (of_int (cand_Frequency c) / of_int maxFrequency);
          contradictions = contradiction_ratio c;
          penalty = 1/5 * contradictions
      in (clamp_rate (7/20 * frequency + 1/4 * clamp_rate (cand_Coverage c) + 1/5 * clamp_rate (cand_EvidenceConfidence c) +
            1/5 * clamp_rate (1 - contradictions) - penalty), penalty))"

section \<open>Mining\<close>

record aggregate =
  agg_Candidate :: CausalPatternCandidate
  agg_Evidence :: rat
  agg_Observed :: int

type_synonym aggregates = "(string \<times> aggregate) list"

definition fresh_aggregate :: "path_digest \<Rightarrow> time \<Rightarrow> string list \<Rightarrow> aggregate" where
  "fresh_aggregate D now path = \<lparr>agg_Candidate = zero_CausalPatternCandidate\<lparr>cand_PatternID := DiscoveredID D path, cand_CausalPath := path,
     cand_Status := ''DISCOVERED'', cand_CreatedAt := now, cand_UpdatedAt := now\<rparr>, agg_Evidence = 0, agg_Observed = 0\<rparr>"

definition supported_by :: "string \<Rightarrow> CausalPatternCandidate \<Rightarrow> CausalPatternCandidate" where
  "supported_by incident c = (if incident \<in> set (cand_SupportingIncidents c) then c
     else c\<lparr>cand_SupportingIncidents := cand_SupportingIncidents c @ [incident], cand_Frequency := cand_Frequency c + 1\<rparr>)"

definition observe_path :: "path_digest \<Rightarrow> time \<Rightarrow> IncidentCausalGraph \<Rightarrow> aggregates \<Rightarrow> string list \<Rightarrow> aggregates" where
  "observe_path D now g aggs path =
     (let key = pathKey path; item = (case map_of aggs key of None \<Rightarrow> fresh_aggregate D now path | Some a \<Rightarrow> a)
      in AList.update key (item\<lparr>agg_Candidate := supported_by (icg_IncidentID g) (agg_Candidate item),
           agg_Evidence := agg_Evidence item + pathEvidenceConfidence g path, agg_Observed := agg_Observed item + 1\<rparr>) aggs)"

definition contradicted_by :: "string \<Rightarrow> CausalPatternCandidate \<Rightarrow> CausalPatternCandidate" where
  "contradicted_by incident c = (if incident \<in> set (cand_Contradictions c) then c else c\<lparr>cand_Contradictions := cand_Contradictions c @ [incident]\<rparr>)"

definition counter_observation :: "IncidentCausalGraph \<Rightarrow> string set \<Rightarrow> string \<times> aggregate \<Rightarrow> string \<times> aggregate" where
  "counter_observation g present = (\<lambda>(key, item).
     (key, if key \<notin> present \<and> graphHasNode g (hd (cand_CausalPath (agg_Candidate item)))
           then item\<lparr>agg_Candidate := contradicted_by (icg_IncidentID g) (agg_Candidate item)\<rparr> else item))"

definition mine_graph :: "path_digest \<Rightarrow> time \<Rightarrow> nat \<Rightarrow> aggregates \<times> int \<Rightarrow> IncidentCausalGraph \<Rightarrow> aggregates \<times> int" where
  "mine_graph D now maxLength = (\<lambda>(aggs, eligible) g.
     if icg_IncidentID g = [] then (aggs, eligible)
     else let paths = causalPaths g maxLength in
       (map (counter_observation g (set (map pathKey paths))) (foldl (observe_path D now g) aggs paths), eligible + 1))"

definition dominates :: "string \<times> aggregate \<Rightarrow> string \<times> aggregate \<Rightarrow> bool" where
  "dominates y x = (fst x \<noteq> fst y \<and> length (cand_CausalPath (agg_Candidate (snd x))) < length (cand_CausalPath (agg_Candidate (snd y))) \<and>
     sameSupport (cand_SupportingIncidents (agg_Candidate (snd x))) (cand_SupportingIncidents (agg_Candidate (snd y))) \<and>
     isSubpath (cand_CausalPath (agg_Candidate (snd x))) (cand_CausalPath (agg_Candidate (snd y))))"

definition redundant :: "aggregates \<Rightarrow> string \<times> aggregate \<Rightarrow> bool" where
  "redundant aggs x = list_ex (\<lambda>y. dominates y x) aggs"

text \<open>The keys are visited in the order of the first argument; an entry is deleted while the map is iterated.\<close>

definition prune_step :: "aggregates \<Rightarrow> string \<Rightarrow> aggregates" where
  "prune_step aggs key = (case map_of aggs key of None \<Rightarrow> aggs | Some item \<Rightarrow> if redundant aggs (key, item) then AList.delete key aggs else aggs)"

definition prune :: "string list \<Rightarrow> aggregates \<Rightarrow> aggregates" where
  "prune order aggs = foldl prune_step aggs order"

definition max_frequency :: "aggregates \<Rightarrow> int" where
  "max_frequency aggs = foldl (\<lambda>m (key, item). max m (cand_Frequency (agg_Candidate item))) 1 aggs"

definition finished :: "int \<Rightarrow> int \<Rightarrow> time \<Rightarrow> aggregate \<Rightarrow> CausalPatternCandidate" where
  "finished eligible maxFrequency now item =
     (let c = agg_Candidate item; ratio = contradiction_ratio c;
          c = c\<lparr>cand_Coverage := clamp_rate (of_int (cand_Frequency c) / of_int (max eligible 1)),
                cand_EvidenceConfidence := (if agg_Observed item > 0 then clamp_rate (agg_Evidence item / of_int (agg_Observed item)) else cand_EvidenceConfidence c),
                cand_CausalConsistency := clamp_rate (1 - ratio), cand_ContradictionPenalty := 1/5 * ratio\<rparr>
      in c\<lparr>cand_Confidence := fst (ScoreCandidate c maxFrequency), cand_SupportingIncidents := unique (cand_SupportingIncidents c),
           cand_Contradictions := unique (cand_Contradictions c), cand_UpdatedAt := now\<rparr>)"

definition ranked_candidates :: "CausalPatternCandidate list \<Rightarrow> CausalPatternCandidate list" where
  "ranked_candidates cs = sort_key (\<lambda>c. - cand_Confidence c) (sort_key cand_PatternID cs)"

definition aggregated :: "path_digest \<Rightarrow> time \<Rightarrow> nat \<Rightarrow> IncidentCausalGraph list \<Rightarrow> aggregates \<times> int" where
  "aggregated D now maxLength graphs = foldl (mine_graph D now maxLength) ([], 0) graphs"

definition Mine :: "path_digest \<Rightarrow> time \<Rightarrow> nat \<Rightarrow> IncidentCausalGraph list \<Rightarrow> CausalPatternCandidate list" where
  "Mine D now maxPathLength graphs =
     (let maxLength = (if maxPathLength < 2 then 6 else maxPathLength);
          (aggs, eligible) = aggregated D now maxLength graphs;
          kept = prune (map fst aggs) aggs
      in ranked_candidates (map (finished eligible (max_frequency kept) now)
           (filter (\<lambda>item. cand_Frequency (agg_Candidate item) \<noteq> 0) (map snd kept))))"

section \<open>The candidate store\<close>

type_synonym candidate_store = "(string \<times> CausalPatternCandidate) list"

definition candidate_Upsert :: "path_digest \<Rightarrow> time \<Rightarrow> CausalPatternCandidate \<Rightarrow> candidate_store \<Rightarrow> candidate_store" where
  "candidate_Upsert D now c0 s =
     (let c = NormalizeCandidate D now c0;
          c = (case map_of s (cand_PatternID c) of None \<Rightarrow> c
               | Some old \<Rightarrow> if IsZero (cand_CreatedAt c) then c\<lparr>cand_CreatedAt := cand_CreatedAt old\<rparr> else c)
      in AList.update (cand_PatternID c) c s)"

definition candidate_List :: "string \<Rightarrow> int \<Rightarrow> candidate_store \<Rightarrow> CausalPatternCandidate list" where
  "candidate_List status limit s =
     (let items = ranked_candidates (filter (\<lambda>c. status = [] \<or> cand_Status c = status) (map snd s))
      in if limit > 0 \<and> int (length items) > limit then take (nat limit) items else items)"

definition candidate_Search :: "string list \<Rightarrow> int \<Rightarrow> candidate_store \<Rightarrow> CausalPatternCandidate list" where
  "candidate_Search terms limit s =
     (let items = candidate_List ''ACCEPTED'' 0 s;
          found = (if terms = [] then items
             else filter (\<lambda>c. list_ex (\<lambda>term. Contains (Join (cand_CausalPath c) '' '') (ToLower (TrimSpace term))) terms) items)
      in if limit > 0 \<and> int (length found) > limit then take (nat limit) found else found)"

section \<open>The engine\<close>

record Engine =
  eng_Knowledge :: bool
  eng_Patterns :: bool
  eng_Explainer :: "(CausalPatternCandidate \<Rightarrow> string + string) option"
  eng_MaxPathLength :: nat

definition NewEngine :: Engine where
  "NewEngine = \<lparr>eng_Knowledge = True, eng_Patterns = False, eng_Explainer = None, eng_MaxPathLength = 6\<rparr>"

definition graphHasCausalPath :: "IncidentCausalGraph \<Rightarrow> string list \<Rightarrow> bool" where
  "graphHasCausalPath g path = list_ex (\<lambda>mined. pathKey mined = pathKey path) (causalPaths g 6)"

definition graphEvidenceTypes :: "IncidentCausalGraph \<Rightarrow> string list" where
  "graphEvidenceTypes g = remdups (map cn_Source (filter (\<lambda>n. cn_Type n = ''observation'' \<and> cn_Source n \<noteq> [] \<and> cn_SourceEvidenceIDs n \<noteq> []) (icg_Nodes g)))"

definition graphEvidenceIDs :: "IncidentCausalGraph \<Rightarrow> string list" where
  "graphEvidenceIDs g = foldl appendUnique [] (concat (map cn_SourceEvidenceIDs (icg_Nodes g)))"

definition anchor_proposal :: "pattern_digest \<Rightarrow> time \<Rightarrow> Incident \<Rightarrow> IncidentCausalGraph \<Rightarrow> CausalPatternCandidate \<Rightarrow> Proposal option" where
  "anchor_proposal D now anchor g c = ProposalFromDraft D anchor (hd (cand_CausalPath c)) (cand_CausalPath c) (graphEvidenceIDs g) (cand_Confidence c) now"

definition supported_path :: "(string \<rightharpoonup> IncidentCausalGraph) \<Rightarrow> CausalPatternCandidate \<Rightarrow> bool" where
  "supported_path graphs c = list_all (\<lambda>i. case graphs i of None \<Rightarrow> False
     | Some g \<Rightarrow> graphHasCausalPath g (cand_CausalPath c) \<and> 2 \<le> length (graphEvidenceTypes g)) (cand_SupportingIncidents c)"

definition validCandidate :: "pattern_digest \<Rightarrow> time \<Rightarrow> CausalPatternCandidate \<Rightarrow> (string \<rightharpoonup> IncidentCausalGraph) \<Rightarrow> (string \<rightharpoonup> Incident) \<Rightarrow>
    causal_store option \<Rightarrow> bool" where
  "validCandidate D now c graphs incidents knowledge =
     (\<not> (length (cand_CausalPath c) < 2 \<or> length (cand_SupportingIncidents c) < 3 \<or>
         (cand_Frequency c > 0 \<and> of_nat (length (cand_Contradictions c)) / of_int (cand_Frequency c) > (1/10 :: rat))) \<and>
      cand_Confidence c > 0 \<and> supported_path graphs c \<and>
      (case knowledge of None \<Rightarrow> True
       | Some s \<Rightarrow> let k = hd (cand_SupportingIncidents c) in
           (case incidents k of None \<Rightarrow> False
            | Some anchor \<Rightarrow> (case graphs k of None \<Rightarrow> False
              | Some g \<Rightarrow> (case anchor_proposal D now anchor g c of None \<Rightarrow> False
                | Some x \<Rightarrow> let (r, err) = Validate D (NewValidator\<lparr>val_MinimumSupport := 1\<rparr>) (Some (Inr (causal_List [] 0 s))) (Some anchor) x
                    in err = None \<and> vr_Valid r \<and> vr_Contradiction r \<le> 1/10)))))"

definition discovered_pattern :: "CausalPatternCandidate \<Rightarrow> CausalPattern \<Rightarrow> CausalPattern" where
  "discovered_pattern c p = p\<lparr>cp_Status := ''active'', cp_Confidence := cand_Confidence c, cp_SourceIncidents := unique (cand_SupportingIncidents c)\<rparr>"

definition mergeAcceptedPattern :: "pattern_digest \<Rightarrow> time \<Rightarrow> CausalPatternCandidate \<Rightarrow> (string \<rightharpoonup> IncidentCausalGraph) \<Rightarrow> (string \<rightharpoonup> Incident) \<Rightarrow>
    causal_store \<Rightarrow> causal_store" where
  "mergeAcceptedPattern D now c graphs incidents s =
     (case cand_SupportingIncidents c of [] \<Rightarrow> s
      | k # _ \<Rightarrow> (case (incidents k, graphs k) of
           (Some anchor, Some g) \<Rightarrow> (case anchor_proposal D now anchor g c of None \<Rightarrow> s
              | Some x \<Rightarrow> snd (causal_Merge D (discovered_pattern c (pro_Pattern x)) s))
         | _ \<Rightarrow> s))"

text \<open>The graphs and the incidents by identifier; a later one replaces an earlier one.\<close>

definition graphs_by_id :: "IncidentCausalGraph list \<Rightarrow> string \<rightharpoonup> IncidentCausalGraph" where
  "graphs_by_id graphs = map_of (rev (map (\<lambda>g. (icg_IncidentID g, g)) graphs))"

definition incidents_by_id :: "Incident option list \<Rightarrow> string \<rightharpoonup> Incident" where
  "incidents_by_id incidents = map_of (rev (List.map_filter (map_option (\<lambda>i. (inc_ID i, i))) incidents))"

definition discover_step ::
  "pattern_digest \<Rightarrow> path_digest \<Rightarrow> Engine \<Rightarrow> time \<Rightarrow> (string \<rightharpoonup> IncidentCausalGraph) \<Rightarrow> (string \<rightharpoonup> Incident) \<Rightarrow> CausalPatternCandidate \<Rightarrow>
    candidate_store \<times> causal_store \<Rightarrow> CausalPatternCandidate \<times> candidate_store \<times> causal_store" where
  "discover_step D P E now graphs incidents c0 = (\<lambda>(cands, s).
     let c = (NormalizeCandidate P now c0)\<lparr>cand_Status := ''DISCOVERED'', cand_UpdatedAt := now\<rparr>;
         cands = candidate_Upsert P now c cands;
         c = c\<lparr>cand_Status := ''VALIDATING'', cand_UpdatedAt := now\<rparr>;
         c = (case eng_Explainer E of None \<Rightarrow> c | Some explain \<Rightarrow> (case explain c of Inl e \<Rightarrow> c | Inr v \<Rightarrow> c\<lparr>cand_Explanation := v\<rparr>));
         cands = candidate_Upsert P now c cands;
         ok = validCandidate D now c graphs incidents (if eng_Knowledge E then Some s else None);
         c = c\<lparr>cand_Status := (if ok then ''ACCEPTED'' else ''REJECTED'')\<rparr>;
         s = (if ok \<and> eng_Patterns E then mergeAcceptedPattern D now c graphs incidents s else s)
     in (c, candidate_Upsert P now c cands, s))"

definition Discover ::
  "pattern_digest \<Rightarrow> path_digest \<Rightarrow> Engine \<Rightarrow> time \<Rightarrow> Incident option list \<Rightarrow> candidate_store \<times> causal_store \<Rightarrow>
    CausalPatternCandidate list \<times> candidate_store \<times> causal_store" where
  "Discover D P E now incidents state =
     (let graphs = ExtractMany incidents
      in foldl (\<lambda>(done, st) c. let (c', st') = discover_step D P E now (graphs_by_id graphs) (incidents_by_id incidents) c st in (done @ [c'], st'))
           ([], state) (Mine P now (eng_MaxPathLength E) graphs))"

end
