(* ===== verification/Discovery_Properties.thy ===== *)
theory Discovery_Properties
  imports Causal_Discovery "HOL-Library.Sublist"
begin

text \<open>What the mining of causal patterns guarantees: the path search finds exactly the simple chains of causal edges, pruning keeps
  the maximal paths whatever the order of iteration, the figures of a candidate lie in [0,1], its support consists of
  distinct incidents, and an accepted candidate is backed by each of them.  Counter-observations depend on the
  order of the incidents, as the last section shows.\<close>

section \<open>The path search\<close>

definition causal_chain :: "(string \<Rightarrow> string list) \<Rightarrow> string list \<Rightarrow> bool" where
  "causal_chain adj p = (distinct p \<and> successively (\<lambda>u v. v \<in> set (adj u)) p)"

lemma causal_chain_snoc:
  "p \<noteq> [] \<Longrightarrow> causal_chain adj (p @ [v]) \<longleftrightarrow> causal_chain adj p \<and> v \<notin> set p \<and> v \<in> set (adj (last p))"
  by (auto simp: causal_chain_def successively_append_iff)

lemma causal_chain_prefix: "causal_chain adj (p @ s) \<Longrightarrow> causal_chain adj p"
  by (auto simp: causal_chain_def successively_append_iff)

lemma dfsPaths_set:
  assumes "p \<noteq> []" "u = last p" "causal_chain adj p"
  shows "set (dfsPaths adj L u p) = {p @ s | s. causal_chain adj (p @ s) \<and> 2 \<le> length (p @ s) \<and> length (p @ s) \<le> max L (length p)}"
  using assms
proof (induction adj L u p rule: dfsPaths.induct)
  case (1 adj L u p)
  define ok where "ok s \<longleftrightarrow> causal_chain adj (p @ s) \<and> 2 \<le> length (p @ s) \<and> length (p @ s) \<le> max L (length p)" for s
  have "set (dfsPaths adj L u p) = {p @ s | s. ok s}"
  proof (cases "length p < L")
    case False
    then have "ok s \<longleftrightarrow> s = [] \<and> 2 \<le> length p" for s using "1.prems" by (auto simp: ok_def)
    then show ?thesis using False by (subst dfsPaths.simps) auto
  next
    case True
    have step: "set (dfsPaths adj L v (p @ [v])) = {p @ v # s | s. ok (v # s)}" if "v \<in> set (adj u)" "v \<notin> set p" for v
    proof -
      have "causal_chain adj (p @ [v])" using "1.prems" that by (simp add: causal_chain_snoc)
      moreover have "max L (length (p @ [v])) = max L (length p)" using True by simp
      ultimately show ?thesis using "1.IH" [of v] that True by (simp add: ok_def)
    qed
    have next_node: "v \<in> set (adj u) \<and> v \<notin> set p" if "ok (v # s)" for v s
      using causal_chain_prefix [of adj "p @ [v]" s] that "1.prems" by (simp add: causal_chain_snoc ok_def)
    have self: "ok [] \<longleftrightarrow> 2 \<le> length p" using "1.prems" by (simp add: ok_def)
    have "set (dfsPaths adj L u p) = (if 2 \<le> length p then {p} else {}) \<union> (\<Union>v \<in> set (adj u) - set p. set (dfsPaths adj L v (p @ [v])))"
      using True by (subst dfsPaths.simps) auto
    also have "\<dots> = (if ok [] then {p} else {}) \<union> {p @ v # s | v s. ok (v # s)}"
    proof -
      have "(\<Union>v \<in> set (adj u) - set p. set (dfsPaths adj L v (p @ [v]))) = (\<Union>v \<in> set (adj u) - set p. {p @ v # s | s. ok (v # s)})"
        using step by simp
      also have "\<dots> = {p @ v # s | v s. ok (v # s)}" using next_node by blast
      finally show ?thesis by (simp only: self)
    qed
    also have "\<dots> = {p @ s | s. ok s}"
    proof (intro set_eqI iffI)
      fix x assume "x \<in> {p @ s | s. ok s}"
      then obtain s where "x = p @ s" "ok s" by blast
      then show "x \<in> (if ok [] then {p} else {}) \<union> {p @ v # s | v s. ok (v # s)}" by (cases s) auto
    next
      fix x assume "x \<in> (if ok [] then {p} else {}) \<union> {p @ v # s | v s. ok (v # s)}"
      then consider "ok []" "x = p" | v s where "x = p @ v # s" "ok (v # s)" by (auto split: if_splits)
      then show "x \<in> {p @ s | s. ok s}" by cases (force, blast)
    qed
    finally show ?thesis .
  qed
  then show ?case by (simp only: ok_def)
qed

lemma successors_edge: "v \<in> set (successors g u) \<longleftrightarrow> (\<exists>e \<in> set (mined_relations g). ce_From e = u \<and> ce_To e = v)"
  by (auto simp: successors_def)

text \<open>C21. The miner finds exactly the causal paths.  The search returns the names along every chain of causal edges that visits no
  node twice and has between two and \<open>L\<close> nodes, and nothing else; it ends on cyclic graphs too.\<close>

theorem causal_paths_are_simple_chains:
  "set (causalPaths g L) = map (mget [] (node_names g)) `
     {p. distinct p \<and> successively (\<lambda>u v. \<exists>e \<in> set (mined_relations g). ce_From e = u \<and> ce_To e = v) p \<and> 2 \<le> length p \<and> length p \<le> L}"
proof -
  let ?adj = "successors g"
  have chain: "causal_chain ?adj p \<longleftrightarrow> distinct p \<and> successively (\<lambda>u v. \<exists>e \<in> set (mined_relations g). ce_From e = u \<and> ce_To e = v) p" for p
    by (simp add: causal_chain_def successors_edge)
  have start: "set (dfsPaths ?adj L u [u]) = {p. p \<noteq> [] \<and> hd p = u \<and> causal_chain ?adj p \<and> 2 \<le> length p \<and> length p \<le> L}" for u
  proof -
    have "set (dfsPaths ?adj L u [u]) = {[u] @ s | s. causal_chain ?adj ([u] @ s) \<and> 2 \<le> length ([u] @ s) \<and> length ([u] @ s) \<le> max L (length [u])}"
      by (rule dfsPaths_set) (simp_all add: causal_chain_def)
    also have "\<dots> = {p. p \<noteq> [] \<and> hd p = u \<and> causal_chain ?adj p \<and> 2 \<le> length p \<and> length p \<le> L}" (is "?l = ?r")
    proof (intro set_eqI iffI)
      fix p assume "p \<in> ?r"
      then show "p \<in> ?l" by (cases p) auto
    qed auto
    finally show ?thesis .
  qed
  have "p \<noteq> [] \<and> hd p \<in> set (path_starts g)" if c: "causal_chain ?adj p" and l: "2 \<le> length p" for p
  proof -
    obtain u v w where "p = u # v # w" using l by (cases p; cases "tl p") auto
    then show ?thesis using c by (auto simp: causal_chain_def successors_edge path_starts_def)
  qed
  then have all: "(\<Union>u \<in> set (path_starts g). set (dfsPaths ?adj L u [u])) = {p. causal_chain ?adj p \<and> 2 \<le> length p \<and> length p \<le> L}"
    unfolding start by blast
  have "set (causalPaths g L) = map (mget [] (node_names g)) ` (\<Union>u \<in> set (path_starts g). set (dfsPaths ?adj L u [u]))"
    by (simp add: causalPaths_def)
  then show ?thesis by (simp only: all chain conj_assoc)
qed

section \<open>Pruning\<close>

lemma isSubpath_iff: "isSubpath n p \<longleftrightarrow> length n < length p \<and> sublist n p"
proof -
  have "(\<exists>k. k \<le> length p - length n \<and> take (length n) (drop k p) = n) \<longleftrightarrow> sublist n p" if "length n < length p"
  proof
    assume "\<exists>k. k \<le> length p - length n \<and> take (length n) (drop k p) = n"
    then obtain k where "take (length n) (drop k p) = n" by blast
    then have "p = take k p @ n @ drop (length n) (drop k p)" by (metis append_take_drop_id)
    then show "sublist n p" by (metis sublist_appendI)
  next
    assume "sublist n p"
    then obtain a b where "p = a @ n @ b" by (auto simp: sublist_def)
    then show "\<exists>k. k \<le> length p - length n \<and> take (length n) (drop k p) = n" by (intro exI [of _ "length a"]) simp
  qed
  moreover have "list_ex P [0..<Suc m] \<longleftrightarrow> (\<exists>k. k \<le> m \<and> P k)" for P m
    by (auto simp: list_ex_iff less_Suc_eq_le simp del: upt_Suc)
  ultimately show ?thesis by (auto simp: isSubpath_def simp del: upt_Suc)
qed

lemma redundant_iff: "redundant aggs x \<longleftrightarrow> (\<exists>y \<in> set aggs. dominates y x)"
  by (simp add: redundant_def list_ex_iff)

lemma sameSupport_trans: "sameSupport a b \<Longrightarrow> sameSupport b c \<Longrightarrow> sameSupport a c"
  by (auto simp: sameSupport_def list_all_iff)

lemma dominates_trans:
  assumes "dominates z y" "dominates y x" "fst z = fst x \<Longrightarrow> z = x"
  shows "dominates z x"
proof -
  have "isSubpath (cand_CausalPath (agg_Candidate (snd x))) (cand_CausalPath (agg_Candidate (snd z)))"
    using assms(1,2) sublist_order.order_trans unfolding dominates_def isSubpath_iff by (meson less_trans)
  moreover have "sameSupport (cand_SupportingIncidents (agg_Candidate (snd x))) (cand_SupportingIncidents (agg_Candidate (snd z)))"
    using assms(1,2) sameSupport_trans unfolding dominates_def by meson
  moreover have "length (cand_CausalPath (agg_Candidate (snd x))) < length (cand_CausalPath (agg_Candidate (snd z)))"
    using assms(1,2) unfolding dominates_def by linarith
  ultimately show ?thesis using assms(3) unfolding dominates_def by fastforce
qed

lemma maximal_dominator:
  assumes "distinct (map fst aggs)" "x \<in> set aggs" "redundant aggs x"
  shows "\<exists>y \<in> set aggs. dominates y x \<and> \<not> redundant aggs y"
proof -
  let ?len = "\<lambda>y. length (cand_CausalPath (agg_Candidate (snd y)))"
  let ?D = "{y \<in> set aggs. dominates y x}"
  have "finite ?D" "?D \<noteq> {}" using assms(3) by (auto simp: redundant_iff)
  then have "Max (?len ` ?D) \<in> ?len ` ?D" by (intro Max_in) auto
  then obtain y where "Max (?len ` ?D) = ?len y" "y \<in> ?D" by (rule imageE)
  moreover have "?len z \<le> Max (?len ` ?D)" if "z \<in> ?D" for z using that \<open>finite ?D\<close> by (intro Max_ge finite_imageI imageI)
  ultimately have y: "y \<in> ?D" "\<And>z. z \<in> ?D \<Longrightarrow> ?len z \<le> ?len y" by (simp_all only:)
  have "\<not> redundant aggs y"
  proof
    assume "redundant aggs y"
    then obtain z where z: "z \<in> set aggs" "dominates z y" by (auto simp: redundant_iff)
    have "fst z = fst x \<Longrightarrow> z = x" using assms(1,2) z(1) by (metis distinct_map inj_onD)
    then have "dominates z x" using y(1) by (intro dominates_trans [OF z(2)]) auto
    then have "z \<in> ?D" using z(1) by simp
    then have "?len z \<le> ?len y" by (rule y(2))
    then show False using z(2) by (simp add: dominates_def)
  qed
  then show ?thesis using y(1) by auto
qed

lemma prune_filter:
  assumes "distinct (map fst aggs)" "distinct order" "set order \<subseteq> fst ` set aggs"
  shows "prune order aggs = filter (\<lambda>x. \<not> (fst x \<in> set order \<and> redundant aggs x)) aggs"
  using assms(2,3)
proof (induction order rule: rev_induct)
  case Nil
  show ?case by (simp add: prune_def)
next
  case (snoc k order)
  let ?now = "filter (\<lambda>x. \<not> (fst x \<in> set order \<and> redundant aggs x)) aggs"
  have now: "prune order aggs = ?now" using snoc by simp
  obtain item where item: "(k, item) \<in> set aggs" using snoc.prems by auto
  then have "(k, item) \<in> set ?now" using snoc.prems(1) by simp
  moreover have "distinct (map fst ?now)" using assms(1) by (rule distinct_map_filter)
  ultimately have lookup: "map_of ?now k = Some item" by simp
  have "redundant ?now (k, item) \<longleftrightarrow> redundant aggs (k, item)"
  proof
    assume "redundant aggs (k, item)"
    from maximal_dominator [OF assms(1) item this] show "redundant ?now (k, item)" unfolding redundant_iff [of ?now] by auto
  qed (auto simp: redundant_iff)
  moreover have "x = (k, item)" if "x \<in> set aggs" "fst x = k" for x
    using assms(1) item that by (metis distinct_map fst_conv inj_onD)
  ultimately have "prune_step ?now k = filter (\<lambda>x. \<not> (fst x \<in> set (order @ [k]) \<and> redundant aggs x)) aggs"
    unfolding prune_step_def lookup option.case AList.delete_eq filter_filter if_distrib
    by (auto intro!: filter_cong split: prod.splits)
  then show ?case using now by (simp add: prune_def)
qed

section \<open>Support and counter-observations\<close>

text \<open>The incidents whose graph has a path of the key, and those whose graph has its cause without the path.\<close>

definition having :: "nat \<Rightarrow> IncidentCausalGraph list \<Rightarrow> string \<Rightarrow> string set" where
  "having L graphs key = {icg_IncidentID g | g. g \<in> set graphs \<and> icg_IncidentID g \<noteq> [] \<and> key \<in> pathKey ` set (causalPaths g L)}"

definition lacking :: "nat \<Rightarrow> IncidentCausalGraph list \<Rightarrow> string \<Rightarrow> string \<Rightarrow> string set" where
  "lacking L graphs cause key = {icg_IncidentID g | g. g \<in> set graphs \<and> icg_IncidentID g \<noteq> [] \<and> graphHasNode g cause \<and> key \<notin> pathKey ` set (causalPaths g L)}"

definition sound_aggregate :: "string set \<Rightarrow> string set \<Rightarrow> string \<times> aggregate \<Rightarrow> bool" where
  "sound_aggregate support against = (\<lambda>(key, item). let c = agg_Candidate item in
     pathKey (cand_CausalPath c) = key \<and> 2 \<le> length (cand_CausalPath c) \<and> distinct (cand_SupportingIncidents c) \<and>
     set (cand_SupportingIncidents c) = support \<and> support \<noteq> {} \<and> cand_Frequency c = int (length (cand_SupportingIncidents c)) \<and>
     distinct (cand_Contradictions c) \<and> set (cand_Contradictions c) \<subseteq> against \<and> 0 < agg_Observed item)"

definition sound_aggregates :: "(string \<Rightarrow> string set) \<Rightarrow> (string \<Rightarrow> string \<Rightarrow> string set) \<Rightarrow> aggregates \<Rightarrow> bool" where
  "sound_aggregates support against aggs = (distinct (map fst aggs) \<and> (\<forall>k. map_of aggs k = None \<longrightarrow> support k = {}) \<and>
     (\<forall>x \<in> set aggs. sound_aggregate (support (fst x)) (against (hd (cand_CausalPath (agg_Candidate (snd x)))) (fst x)) x))"

lemma supported_fields [simp]:
  "cand_CausalPath (supported_by i c) = cand_CausalPath c" "cand_Contradictions (supported_by i c) = cand_Contradictions c"
  "set (cand_SupportingIncidents (supported_by i c)) = insert i (set (cand_SupportingIncidents c))"
  by (auto simp: supported_by_def)

lemma supported_distinct: "distinct (cand_SupportingIncidents c) \<Longrightarrow> distinct (cand_SupportingIncidents (supported_by i c))"
  by (simp add: supported_by_def)

lemma supported_frequency:
  "cand_Frequency c = int (length (cand_SupportingIncidents c)) \<Longrightarrow> cand_Frequency (supported_by i c) = int (length (cand_SupportingIncidents (supported_by i c)))"
  by (simp add: supported_by_def)

lemma contradicted_fields [simp]:
  "cand_CausalPath (contradicted_by i c) = cand_CausalPath c" "cand_SupportingIncidents (contradicted_by i c) = cand_SupportingIncidents c"
  "cand_Frequency (contradicted_by i c) = cand_Frequency c" "set (cand_Contradictions (contradicted_by i c)) = insert i (set (cand_Contradictions c))"
  by (auto simp: contradicted_by_def)

lemma contradicted_distinct: "distinct (cand_Contradictions c) \<Longrightarrow> distinct (cand_Contradictions (contradicted_by i c))"
  by (simp add: contradicted_by_def)

lemma causalPaths_length: "path \<in> set (causalPaths g L) \<Longrightarrow> 2 \<le> length path"
  using dfsPaths_set [of "[u]" u "successors g" L for u] by (auto simp: causalPaths_def causal_chain_def)

lemma observe_sound:
  assumes "sound_aggregates support against aggs" "2 \<le> length path"
  shows "sound_aggregates (\<lambda>k. support k \<union> (if k = pathKey path then {icg_IncidentID g} else {})) against (observe_path D now g aggs path)"
proof -
  let ?key = "pathKey path" and ?support = "\<lambda>k. support k \<union> (if k = pathKey path then {icg_IncidentID g} else {})"
  define item where "item = (case map_of aggs ?key of None \<Rightarrow> fresh_aggregate D now path | Some a \<Rightarrow> a)"
  define new where "new = item\<lparr>agg_Candidate := supported_by (icg_IncidentID g) (agg_Candidate item),
      agg_Evidence := agg_Evidence item + pathEvidenceConfidence g path, agg_Observed := agg_Observed item + 1\<rparr>"
  have d: "distinct (map fst aggs)" using assms(1) by (simp add: sound_aggregates_def)
  have "sound_aggregate (?support ?key) (against (hd (cand_CausalPath (agg_Candidate new))) ?key) (?key, new)"
  proof (cases "map_of aggs ?key")
    case None
    then have "support ?key = {}" using assms(1) by (simp add: sound_aggregates_def)
    then show ?thesis using assms(2) None
      by (simp add: new_def item_def sound_aggregate_def fresh_aggregate_def supported_by_def zero_CausalPatternCandidate_def Let_def)
  next
    case (Some old)
    then have "sound_aggregate (support ?key) (against (hd (cand_CausalPath (agg_Candidate old))) ?key) (?key, old)"
      using assms(1) by (auto simp: sound_aggregates_def dest!: map_of_SomeD)
    then show ?thesis using Some
      by (simp add: new_def item_def sound_aggregate_def supported_distinct supported_frequency Let_def)
  qed
  moreover have "observe_path D now g aggs path = AList.update ?key new aggs" by (simp add: observe_path_def new_def item_def Let_def)
  ultimately show ?thesis
    unfolding sound_aggregates_def
  proof (intro conjI ballI)
    fix x assume "x \<in> set (observe_path D now g aggs path)"
    then have "x \<in> set (AList.update ?key new aggs)" by (simp only: \<open>observe_path D now g aggs path = _\<close>)
    then have "x = (?key, new) \<or> (fst x \<noteq> ?key \<and> x \<in> set aggs)"
      using update_entry [OF d, of "fst x" "snd x" ?key new] by (metis prod.collapse)
    then show "sound_aggregate (?support (fst x)) (against (hd (cand_CausalPath (agg_Candidate (snd x)))) (fst x)) x"
      using \<open>sound_aggregate _ _ (?key, new)\<close> assms(1) by (auto simp: sound_aggregates_def)
  qed (use assms(1) d in \<open>auto simp: sound_aggregates_def distinct_update update_conv'\<close>)
qed

lemma observe_all_sound:
  assumes "sound_aggregates support against aggs" "\<forall>path \<in> set paths. 2 \<le> length path"
  shows "sound_aggregates (\<lambda>k. support k \<union> (if k \<in> pathKey ` set paths then {icg_IncidentID g} else {})) against (foldl (observe_path D now g) aggs paths)"
  using assms
proof (induction paths rule: rev_induct)
  case (snoc path paths)
  then have "sound_aggregates (\<lambda>k. support k \<union> (if k \<in> pathKey ` set paths then {icg_IncidentID g} else {})) against (foldl (observe_path D now g) aggs paths)"
    by simp
  from observe_sound [OF this, of path g D now] snoc.prems
  have "sound_aggregates (\<lambda>k. support k \<union> (if k \<in> pathKey ` set paths then {icg_IncidentID g} else {}) \<union>
      (if k = pathKey path then {icg_IncidentID g} else {})) against (foldl (observe_path D now g) aggs (paths @ [path]))" by simp
  moreover have "(\<lambda>k. support k \<union> (if k \<in> pathKey ` set paths then {icg_IncidentID g} else {}) \<union> (if k = pathKey path then {icg_IncidentID g} else {})) =
      (\<lambda>k. support k \<union> (if k \<in> pathKey ` set (paths @ [path]) then {icg_IncidentID g} else {}))" by (auto simp: fun_eq_iff)
  ultimately show ?case by (simp only:)
qed simp

lemma counter_sound:
  assumes "sound_aggregates support against aggs"
  shows "sound_aggregates support (\<lambda>cause k. against cause k \<union> (if graphHasNode g cause \<and> k \<notin> present then {icg_IncidentID g} else {}))
    (map (counter_observation g present) aggs)"
proof -
  let ?against = "\<lambda>cause k. against cause k \<union> (if graphHasNode g cause \<and> k \<notin> present then {icg_IncidentID g} else {})"
  have fst: "fst (counter_observation g present x) = fst x" for x by (simp add: counter_observation_def split: prod.split)
  then have "map fst (map (counter_observation g present) aggs) = map fst aggs" by (induction aggs) simp_all
  moreover have "map_of (map (counter_observation g present) aggs) k = None \<longleftrightarrow> map_of aggs k = None" for k
    by (metis calculation map_of_eq_None_iff set_map)
  moreover have "sound_aggregate (support k) (?against (hd (cand_CausalPath (agg_Candidate (snd (counter_observation g present (k, item)))))) k)
      (counter_observation g present (k, item))" if "(k, item) \<in> set aggs" for k item
  proof -
    have "sound_aggregate (support k) (against (hd (cand_CausalPath (agg_Candidate item))) k) (k, item)"
      using assms that by (auto simp: sound_aggregates_def)
    then show ?thesis by (auto simp: counter_observation_def sound_aggregate_def contradicted_distinct Let_def)
  qed
  ultimately show ?thesis
    unfolding sound_aggregates_def
  proof (intro conjI ballI)
    fix y assume "y \<in> set (map (counter_observation g present) aggs)"
    then obtain k item where "(k, item) \<in> set aggs" "y = counter_observation g present (k, item)" by auto
    then show "sound_aggregate (support (fst y)) (?against (hd (cand_CausalPath (agg_Candidate (snd y)))) (fst y)) y"
      using \<open>\<And>k item. (k, item) \<in> set aggs \<Longrightarrow> _\<close> fst by simp
  qed (use assms in \<open>auto simp only: sound_aggregates_def\<close>)
qed

lemma mine_graph_eligible: "snd (mine_graph D now L s g) = snd s + (if icg_IncidentID g = [] then 0 else 1)"
  by (simp add: mine_graph_def Let_def split: prod.split)

lemma aggregated_sound: "sound_aggregates (having L graphs) (lacking L graphs) (fst (aggregated D now L graphs))"
proof (induction graphs rule: rev_induct)
  case Nil
  show ?case by (simp add: aggregated_def sound_aggregates_def having_def)
next
  case (snoc g graphs)
  let ?s = "aggregated D now L graphs" and ?paths = "causalPaths g L"
  have run: "aggregated D now L (graphs @ [g]) = mine_graph D now L ?s g" by (simp add: aggregated_def)
  show ?case
  proof (cases "icg_IncidentID g = []")
    case True
    then have "having L (graphs @ [g]) = having L graphs" by (auto simp: having_def fun_eq_iff)
    moreover have "lacking L (graphs @ [g]) = lacking L graphs" using True by (auto simp: lacking_def fun_eq_iff)
    ultimately show ?thesis using snoc True by (cases ?s) (simp add: run mine_graph_def)
  next
    case False
    have "(\<lambda>k. having L graphs k \<union> (if k \<in> pathKey ` set ?paths then {icg_IncidentID g} else {})) = having L (graphs @ [g])"
      using False by (auto simp: having_def fun_eq_iff)
    moreover have "(\<lambda>cause k. lacking L graphs cause k \<union> (if graphHasNode g cause \<and> k \<notin> set (map pathKey ?paths) then {icg_IncidentID g} else {})) =
        lacking L (graphs @ [g])"
      using False by (auto simp: lacking_def fun_eq_iff)
    moreover have "\<forall>path \<in> set ?paths. 2 \<le> length path" using causalPaths_length by blast
    ultimately show ?thesis
      using counter_sound [OF observe_all_sound [OF snoc.IH, of ?paths g D now], of g "set (map pathKey ?paths)"] False
      by (cases ?s) (simp add: run mine_graph_def Let_def)
  qed
qed

lemma aggregated_distinct: "distinct (map fst (fst (aggregated D now L graphs)))"
  using aggregated_sound [of L graphs D now] by (simp add: sound_aggregates_def)

text \<open>Pruning does not depend on the order in which Go iterates the map it deletes from.  Whatever the order, exactly the
  dominated paths go, those with a longer path around them that the same incidents support, and each of them is covered
  by a path that stays.\<close>

theorem pruning_keeps_maximal_paths:
  assumes "mset order = mset (map fst (fst (aggregated D now L graphs)))"
  shows "prune order (fst (aggregated D now L graphs)) =
      filter (\<lambda>x. \<not> redundant (fst (aggregated D now L graphs)) x) (fst (aggregated D now L graphs)) \<and>
    (\<forall>x \<in> set (fst (aggregated D now L graphs)). x \<in> set (prune order (fst (aggregated D now L graphs))) \<or>
      (\<exists>y \<in> set (prune order (fst (aggregated D now L graphs))). dominates y x))"
proof -
  let ?aggs = "fst (aggregated D now L graphs)"
  have "set order = set (map fst ?aggs)" using assms by (rule mset_eq_setD)
  then have keys: "set order = fst ` set ?aggs" by simp
  have "distinct order" using assms aggregated_distinct by (metis mset_eq_imp_distinct_iff)
  then have eq: "prune order ?aggs = filter (\<lambda>x. \<not> redundant ?aggs x) ?aggs"
    using prune_filter [OF aggregated_distinct, of order D now L graphs] by (simp add: keys cong: filter_cong)
  show ?thesis
  proof (intro conjI ballI)
    fix x assume "x \<in> set ?aggs"
    then show "x \<in> set (prune order ?aggs) \<or> (\<exists>y \<in> set (prune order ?aggs). dominates y x)"
      using maximal_dominator [OF aggregated_distinct, of x D now L graphs] unfolding eq by (cases "redundant ?aggs x") auto
  qed (rule eq)
qed

section \<open>The figures of a candidate\<close>

lemma clamp_rate_unit: "0 \<le> clamp_rate v" "clamp_rate v \<le> 1"
  by (simp_all add: clamp_rate_def)

lemma contradiction_ratio_unit: "0 \<le> contradiction_ratio c" "contradiction_ratio c \<le> 1"
  using clamp_rate_unit by (simp_all add: contradiction_ratio_def)

lemma finished_fields:
  "cand_CausalPath (finished e m now item) = cand_CausalPath (agg_Candidate item)"
  "cand_SupportingIncidents (finished e m now item) = unique (cand_SupportingIncidents (agg_Candidate item))"
  "cand_Contradictions (finished e m now item) = unique (cand_Contradictions (agg_Candidate item))"
  "cand_Frequency (finished e m now item) = cand_Frequency (agg_Candidate item)"
  by (simp_all add: finished_def Let_def)

lemma finished_bounds:
  assumes "agg_Observed item > 0"
  shows "\<forall>v \<in> {cand_Coverage, cand_EvidenceConfidence, cand_CausalConsistency, cand_Confidence}.
    0 \<le> v (finished e m now item) \<and> v (finished e m now item) \<le> 1"
    and "0 \<le> cand_ContradictionPenalty (finished e m now item)" "cand_ContradictionPenalty (finished e m now item) \<le> 1/5"
  using assms contradiction_ratio_unit [of "agg_Candidate item"] clamp_rate_unit
  by (simp_all add: finished_def ScoreCandidate_def Let_def)

lemma Mine_origin:
  assumes "c \<in> set (Mine D now m graphs)"
  shows "\<exists>key item e mf. (key, item) \<in> set (fst (aggregated D now (if m < 2 then 6 else m) graphs)) \<and> c = finished e mf now item"
proof -
  let ?L = "if m < 2 then 6 else m"
  obtain aggs e where s: "aggregated D now ?L graphs = (aggs, e)" by (cases "aggregated D now ?L graphs")
  have d: "distinct (map fst aggs)" using aggregated_distinct [of D now ?L graphs] by (simp add: s)
  then have "set (prune (map fst aggs) aggs) \<subseteq> set aggs" using prune_filter [OF d d] by auto
  moreover obtain item where "item \<in> snd ` set (prune (map fst aggs) aggs)" "c = finished e (max_frequency (prune (map fst aggs) aggs)) now item"
    using assms by (auto simp: Mine_def s ranked_candidates_def Let_def)
  ultimately show ?thesis by (fastforce simp: s)
qed

text \<open>C20. What the miner reports of a path is what the incidents say.  Its support is the set of the incidents whose graph
  has the path, each counted once; its contradictions are incidents that show its cause without the path; and its
  figures lie in [0,1], the penalty in [0,1/5].\<close>

theorem mined_support_counts_incidents:
  assumes "c \<in> set (Mine D now m graphs)"
  shows "set (cand_SupportingIncidents c) = having (if m < 2 then 6 else m) graphs (pathKey (cand_CausalPath c)) \<and>
    distinct (cand_SupportingIncidents c) \<and> cand_Frequency c = int (length (cand_SupportingIncidents c)) \<and> 0 < cand_Frequency c \<and>
    set (cand_Contradictions c) \<subseteq> lacking (if m < 2 then 6 else m) graphs (hd (cand_CausalPath c)) (pathKey (cand_CausalPath c)) \<and>
    (\<forall>v \<in> {cand_Coverage, cand_EvidenceConfidence, cand_CausalConsistency, cand_Confidence}. 0 \<le> v c \<and> v c \<le> 1) \<and>
    0 \<le> cand_ContradictionPenalty c \<and> cand_ContradictionPenalty c \<le> 1/5"
proof -
  let ?L = "if m < 2 then 6 else m"
  obtain key item e mf where origin: "(key, item) \<in> set (fst (aggregated D now ?L graphs))" "c = finished e mf now item"
    using Mine_origin [OF assms] by blast
  let ?a = "agg_Candidate item"
  have "sound_aggregate (having ?L graphs key) (lacking ?L graphs (hd (cand_CausalPath ?a)) key) (key, item)"
    using aggregated_sound [of ?L graphs D now] origin(1) by (auto simp: sound_aggregates_def)
  then have a: "pathKey (cand_CausalPath ?a) = key" "distinct (cand_SupportingIncidents ?a)" "set (cand_SupportingIncidents ?a) = having ?L graphs key"
    "having ?L graphs key \<noteq> {}" "cand_Frequency ?a = int (length (cand_SupportingIncidents ?a))"
    "set (cand_Contradictions ?a) \<subseteq> lacking ?L graphs (hd (cand_CausalPath ?a)) key" "0 < agg_Observed item"
    by (simp_all add: sound_aggregate_def Let_def)
  have ids: "[] \<notin> set (cand_SupportingIncidents ?a)" unfolding a(3) by (auto simp: having_def)
  have "length (unique (cand_SupportingIncidents ?a)) = length (cand_SupportingIncidents ?a)"
    using a(2) ids by (simp add: uniq.norm_length distinct_card)
  moreover have "cand_SupportingIncidents ?a \<noteq> []" using a(3,4) by auto
  ultimately show ?thesis
    using a ids finished_bounds [OF a(7), of e mf now] unfolding origin(2)
    by (simp add: finished_fields uniq.set_norm uniq.distinct_norm) auto
qed

section \<open>Accepted candidates\<close>

lemma validCandidate_status [simp]:
  "validCandidate D now (c\<lparr>cand_Status := x\<rparr>) graphs incidents k = validCandidate D now c graphs incidents k"
proof -
  have "anchor_proposal D now i g (c\<lparr>cand_Status := x\<rparr>) = anchor_proposal D now i g c" for i g by (simp add: anchor_proposal_def)
  then show ?thesis by (simp add: validCandidate_def supported_path_def cong: option.case_cong)
qed

lemma discover_step_accepted:
  assumes "discover_step D P E now graphs incidents c0 st = (c, st')" "cand_Status c = ''ACCEPTED''"
  shows "\<exists>k. validCandidate D now c graphs incidents k"
  using assms by (auto simp: discover_step_def Let_def split: prod.splits if_splits)

lemma discover_step_distinct:
  "discover_step D P E now graphs incidents c0 st = (c, st') \<Longrightarrow> distinct (cand_SupportingIncidents c)"
  by (auto simp: discover_step_def NormalizeCandidate_def uniq.distinct_norm Let_def split: prod.splits option.splits sum.splits)

lemma Discover_accepted:
  assumes "c \<in> set (fst (Discover D P E now incidents st))" "cand_Status c = ''ACCEPTED''"
  shows "(\<exists>k. validCandidate D now c (graphs_by_id (ExtractMany incidents)) (incidents_by_id incidents) k) \<and> distinct (cand_SupportingIncidents c)"
proof -
  let ?step = "\<lambda>(done, st) c. let (c', st') = discover_step D P E now (graphs_by_id (ExtractMany incidents)) (incidents_by_id incidents) c st in (done @ [c'], st')"
  let ?ok = "\<lambda>c. cand_Status c = ''ACCEPTED'' \<longrightarrow>
      (\<exists>k. validCandidate D now c (graphs_by_id (ExtractMany incidents)) (incidents_by_id incidents) k) \<and> distinct (cand_SupportingIncidents c)"
  have "\<forall>c \<in> set (fst (foldl ?step ([], st) cs)). ?ok c" for cs
  proof (induction cs rule: rev_induct)
    case (snoc c0 cs)
    obtain don s where s: "foldl ?step ([], st) cs = (don, s)" by (cases "foldl ?step ([], st) cs")
    obtain c' s' where c': "discover_step D P E now (graphs_by_id (ExtractMany incidents)) (incidents_by_id incidents) c0 s = (c', s')"
      by (cases "discover_step D P E now (graphs_by_id (ExtractMany incidents)) (incidents_by_id incidents) c0 s")
    have "?ok c'" using discover_step_accepted [OF c'] discover_step_distinct [OF c'] by blast
    then show ?case using snoc s c' by auto
  qed simp
  then show ?thesis using assms unfolding Discover_def Let_def by blast
qed

lemma built_graph:
  assumes "BuildIncidentCausalGraph i0 = Inr g"
  shows "\<exists>i. i0 = Some i \<and> icg_IncidentID g = inc_ID i \<and> inc_Status i = StatusResolved \<and> \<not> excludedIncident i \<and>
    (\<exists>v h. inc_Verification i = Some v \<and> ver_Success v \<and> selectedHypothesis i = Some h \<and> vh_ContradictionScore h \<le> 1/10 \<and>
       4/5 \<le> hypothesis_confidence h \<and> 2 \<le> length (causal_path (vh_Draft h)))"
  using assms
  by (auto simp: BuildIncidentCausalGraph_def normalize_causal_graph_def fused_graph_def not_less not_le Let_def split: option.splits if_splits)

lemma graphs_by_id_origin:
  assumes "graphs_by_id (ExtractMany incidents) k = Some g"
  shows "\<exists>i. Some i \<in> set incidents \<and> inc_ID i = k \<and> BuildIncidentCausalGraph (Some i) = Inr g"
proof -
  have "g \<in> set (ExtractMany incidents)" "icg_IncidentID g = k"
    using assms by (auto simp: graphs_by_id_def dest!: map_of_SomeD)
  then obtain i0 where "i0 \<in> set incidents" "BuildIncidentCausalGraph i0 = Inr g"
    by (auto simp: ExtractMany_def set_map_filter split: sum.splits) (metis sum.exhaust)
  with built_graph [OF this(2)] \<open>icg_IncidentID g = k\<close> show ?thesis by auto
qed

text \<open>C18. Only what several incidents show becomes causal knowledge.  A candidate is accepted only with three different supporting
  incidents and at most one contradiction for ten of them, and each of the supporting incidents is one of the resolved, verified,
  non-evaluation incidents of the run whose own graph has the whole path and two kinds of evidence.\<close>

theorem accepted_candidate_is_backed:
  assumes "c \<in> set (fst (Discover D P E now incidents st))" "cand_Status c = ''ACCEPTED''"
  shows "3 \<le> length (cand_SupportingIncidents c) \<and> distinct (cand_SupportingIncidents c) \<and>
    (0 < cand_Frequency c \<longrightarrow> 10 * int (length (cand_Contradictions c)) \<le> cand_Frequency c) \<and>
    (\<forall>k \<in> set (cand_SupportingIncidents c). \<exists>i g v. Some i \<in> set incidents \<and> inc_ID i = k \<and> inc_Status i = StatusResolved \<and> \<not> excludedIncident i \<and>
       inc_Verification i = Some v \<and> ver_Success v \<and> BuildIncidentCausalGraph (Some i) = Inr g \<and> graphHasCausalPath g (cand_CausalPath c) \<and>
       2 \<le> length (graphEvidenceTypes g))"
proof -
  obtain k where v: "validCandidate D now c (graphs_by_id (ExtractMany incidents)) (incidents_by_id incidents) k"
    and d: "distinct (cand_SupportingIncidents c)"
    using Discover_accepted [OF assms] by blast
  have contra: "10 * int (length (cand_Contradictions c)) \<le> cand_Frequency c" if "0 < cand_Frequency c"
  proof -
    have "rat_of_nat (length (cand_Contradictions c)) / of_int (cand_Frequency c) \<le> 1/10" using v that by (simp add: validCandidate_def not_less)
    then have "rat_of_int (10 * int (length (cand_Contradictions c))) \<le> of_int (cand_Frequency c)" using that by (simp add: field_simps)
    then show ?thesis by (simp only: of_int_le_iff)
  qed
  have "supported_path (graphs_by_id (ExtractMany incidents)) c" using v by (simp add: validCandidate_def)
  then have support: "\<exists>g. graphs_by_id (ExtractMany incidents) k = Some g \<and> graphHasCausalPath g (cand_CausalPath c) \<and> 2 \<le> length (graphEvidenceTypes g)"
    if "k \<in> set (cand_SupportingIncidents c)" for k
    using that by (force simp: supported_path_def list_all_iff split: option.splits)
  have backed: "\<exists>i g v. Some i \<in> set incidents \<and> inc_ID i = k \<and> inc_Status i = StatusResolved \<and> \<not> excludedIncident i \<and>
       inc_Verification i = Some v \<and> ver_Success v \<and> BuildIncidentCausalGraph (Some i) = Inr g \<and> graphHasCausalPath g (cand_CausalPath c) \<and>
       2 \<le> length (graphEvidenceTypes g)" if k: "k \<in> set (cand_SupportingIncidents c)" for k
  proof -
    obtain g where g: "graphs_by_id (ExtractMany incidents) k = Some g" "graphHasCausalPath g (cand_CausalPath c)" "2 \<le> length (graphEvidenceTypes g)"
      using support [OF k] by blast
    obtain i where i: "Some i \<in> set incidents" "inc_ID i = k" "BuildIncidentCausalGraph (Some i) = Inr g"
      using graphs_by_id_origin [OF g(1)] by blast
    with built_graph [OF i(3)] g show ?thesis by blast
  qed
  show ?thesis using v d contra backed by (simp add: validCandidate_def)
qed

section \<open>Counter-observations depend on the order\<close>

lemma observe_contradictions:
  assumes "distinct (map fst aggs)" "(key, item) \<in> set (observe_path D now g aggs path)"
  shows "cand_Contradictions (agg_Candidate item) = [] \<or> (\<exists>old. (key, old) \<in> set aggs \<and> cand_Contradictions (agg_Candidate old) = cand_Contradictions (agg_Candidate item))"
proof -
  define old where "old = (case map_of aggs (pathKey path) of None \<Rightarrow> fresh_aggregate D now path | Some a \<Rightarrow> a)"
  let ?new = "old\<lparr>agg_Candidate := supported_by (icg_IncidentID g) (agg_Candidate old),
      agg_Evidence := agg_Evidence old + pathEvidenceConfidence g path, agg_Observed := agg_Observed old + 1\<rparr>"
  have "(key, item) \<in> set (AList.update (pathKey path) ?new aggs)" using assms(2) by (simp add: observe_path_def old_def Let_def)
  from update_entry [OF assms(1) this] consider "key = pathKey path" "item = ?new" | "(key, item) \<in> set aggs" by blast
  then show ?thesis
  proof cases
    case 1
    then show ?thesis
      by (cases "map_of aggs key") (auto simp: old_def fresh_aggregate_def zero_CausalPatternCandidate_def dest: map_of_SomeD)
  qed blast
qed

lemma observe_all_contradictions:
  assumes "distinct (map fst aggs)" "(key, item) \<in> set (foldl (observe_path D now g) aggs paths)"
  shows "cand_Contradictions (agg_Candidate item) = [] \<or> (\<exists>old. (key, old) \<in> set aggs \<and> cand_Contradictions (agg_Candidate old) = cand_Contradictions (agg_Candidate item))"
  using assms(2)
proof (induction paths arbitrary: item rule: rev_induct)
  case (snoc path paths)
  have "distinct (map fst (foldl (observe_path D now g) aggs paths))"
    by (induction paths rule: rev_induct) (simp_all add: assms(1) observe_path_def distinct_update Let_def)
  from observe_contradictions [OF this, of key item D now g path] snoc show ?case by fastforce
qed auto

lemma mine_contradictions:
  assumes "distinct (map fst (fst s))" "(key, item) \<in> set (fst (mine_graph D now L s g))"
  shows "set (cand_Contradictions (agg_Candidate item)) \<subseteq> {icg_IncidentID g} \<or>
    (\<exists>old. (key, old) \<in> set (fst s) \<and> set (cand_Contradictions (agg_Candidate item)) \<subseteq> insert (icg_IncidentID g) (set (cand_Contradictions (agg_Candidate old))))"
proof (cases "icg_IncidentID g = []")
  case True
  then show ?thesis using assms(2) by (cases s) (auto simp: mine_graph_def)
next
  case False
  then obtain mid where m: "(key, mid) \<in> set (foldl (observe_path D now g) (fst s) (causalPaths g L))"
      "(key, item) = counter_observation g (set (map pathKey (causalPaths g L))) (key, mid)"
    using assms(2) by (cases s) (force simp: mine_graph_def counter_observation_def Let_def)
  then have "set (cand_Contradictions (agg_Candidate item)) \<subseteq> insert (icg_IncidentID g) (set (cand_Contradictions (agg_Candidate mid)))"
    by (auto simp: counter_observation_def split: if_splits)
  then show ?thesis using observe_all_contradictions [OF assms(1) m(1)] by fastforce
qed

text \<open>C40. What counts against a path depends on the order of the incidents.  An incident that shows the cause of a path without the path
  is counted only if it comes after the first incident that has the path: whatever comes before is no contradiction.\<close>

theorem early_counterexamples_are_lost:
  assumes "\<forall>g \<in> set early. key \<notin> pathKey ` set (causalPaths g L)" "(key, item) \<in> set (fst (aggregated D now L (early @ late)))"
  shows "set (cand_Contradictions (agg_Candidate item)) \<subseteq> icg_IncidentID ` set late"
  using assms(2)
proof (induction late arbitrary: item rule: rev_induct)
  case Nil
  have "having L early key \<noteq> {}"
    using aggregated_sound [of L early D now] Nil by (auto simp: sound_aggregates_def sound_aggregate_def Let_def)
  then show ?case using assms(1) by (auto simp: having_def)
next
  case (snoc g late)
  have "aggregated D now L (early @ late @ [g]) = mine_graph D now L (aggregated D now L (early @ late)) g" by (simp add: aggregated_def)
  from mine_contradictions [OF aggregated_distinct snoc.prems [unfolded this]] snoc.IH show ?case by fastforce
qed

definition chain_graph :: "string \<Rightarrow> string list \<Rightarrow> IncidentCausalGraph" where
  "chain_graph incident names = \<lparr>icg_IncidentID = incident,
     icg_Nodes = map (\<lambda>n. zero_CausalNode\<lparr>cn_ID := n, cn_Name := n, cn_Confidence := 1\<rparr>) names,
     icg_Edges = map (\<lambda>(a, b). \<lparr>ce_From = a, ce_To = b, ce_Relation = ''causes'', ce_Confidence = 1\<rparr>) (zip names (tl names))\<rparr>"

lemma orders_compared:
  "map (\<lambda>(k, item). (k, cand_Contradictions (agg_Candidate item))) (fst (aggregated (\<lambda>s. s) 1 6 [chain_graph ''i1'' [''a'', ''c''], chain_graph ''i2'' [''a'', ''b'']])) =
     [(''a->c'', [''i2'']), (''a->b'', [])]"
  "map (\<lambda>(k, item). (k, cand_Contradictions (agg_Candidate item))) (fst (aggregated (\<lambda>s. s) 1 6 [chain_graph ''i2'' [''a'', ''b''], chain_graph ''i1'' [''a'', ''c'']])) =
     [(''a->b'', [''i1'']), (''a->c'', [])]"
  by code_simp+

lemma early_counterexamples_are_lost_witness:
  "\<exists>item item'. (''a->b'', item) \<in> set (fst (aggregated (\<lambda>s. s) 1 6 ([chain_graph ''i1'' [''a'', ''c'']] @ [chain_graph ''i2'' [''a'', ''b'']]))) \<and>
     ''i1'' \<notin> set (cand_Contradictions (agg_Candidate item)) \<and>
     (''a->b'', item') \<in> set (fst (aggregated (\<lambda>s. s) 1 6 [chain_graph ''i2'' [''a'', ''b''], chain_graph ''i1'' [''a'', ''c'']])) \<and>
     ''i1'' \<in> set (cand_Contradictions (agg_Candidate item'))"
proof -
  let ?early = "[chain_graph ''i1'' [''a'', ''c'']]" and ?late = "[chain_graph ''i2'' [''a'', ''b'']]"
  obtain item where item: "(''a->b'', item) \<in> set (fst (aggregated (\<lambda>s. s) 1 6 (?early @ ?late)))"
    using orders_compared(1) by (auto simp: map_eq_Cons_conv)
  moreover obtain item' where "(''a->b'', item') \<in> set (fst (aggregated (\<lambda>s. s) 1 6 (?late @ ?early)))"
      "cand_Contradictions (agg_Candidate item') = [''i1'']"
    using orders_compared(2) by (auto simp: map_eq_Cons_conv)
  moreover have "\<forall>g \<in> set ?early. ''a->b'' \<notin> pathKey ` set (causalPaths g 6)" by code_simp
  from early_counterexamples_are_lost [OF this item] have "''i1'' \<notin> set (cand_Contradictions (agg_Candidate item))" by (auto simp: chain_graph_def)
  ultimately show ?thesis by (intro exI [of _ item] exI [of _ item']) simp
qed

section \<open>Examples\<close>

lemma chain_aggregated:
  "map (\<lambda>(k, item). (k, cand_SupportingIncidents (agg_Candidate item))) (fst (aggregated (\<lambda>s. s) 1 6 [chain_graph ''i1'' [''a'', ''b'', ''c'']])) =
     [(''a->b'', [''i1'']), (''a->b->c'', [''i1'']), (''b->c'', [''i1''])]"
  by code_simp

lemma pruning_keeps_maximal_paths_witness:
  "map fst (prune [''b->c'', ''a->b->c'', ''a->b''] (fst (aggregated (\<lambda>s. s) 1 6 [chain_graph ''i1'' [''a'', ''b'', ''c'']]))) = [''a->b->c'']"
proof -
  let ?aggs = "fst (aggregated (\<lambda>s. s) 1 6 [chain_graph ''i1'' [''a'', ''b'', ''c'']])"
  have keys: "map fst ?aggs = [''a->b'', ''a->b->c'', ''b->c'']"
    using arg_cong [OF chain_aggregated, of "map fst"] by (simp add: comp_def case_prod_beta)
  have "map fst (filter (\<lambda>x. \<not> redundant ?aggs x) ?aggs) = [''a->b->c'']" by code_simp
  moreover have "mset [''b->c'', ''a->b->c'', ''a->b''] = mset (map fst ?aggs)" by (simp add: keys)
  ultimately show ?thesis using pruning_keeps_maximal_paths by metis
qed

lemma mined_support_counts_incidents_witness:
  "\<exists>c. c \<in> set (Mine (\<lambda>s. s) 1 6 [chain_graph ''i1'' [''a'', ''b'']]) \<and> set (cand_SupportingIncidents c) = having 6 [chain_graph ''i1'' [''a'', ''b'']] ''a->b''"
proof -
  have "map cand_CausalPath (Mine (\<lambda>s. s) 1 6 [chain_graph ''i1'' [''a'', ''b'']]) = [[''a'', ''b'']]" by code_simp
  then obtain c where c: "c \<in> set (Mine (\<lambda>s. s) 1 6 [chain_graph ''i1'' [''a'', ''b'']])" "cand_CausalPath c = [''a'', ''b'']"
    by (auto simp: map_eq_Cons_conv)
  then show ?thesis using mined_support_counts_incidents [OF c(1)] by (intro exI [of _ c]) (simp add: pathKey_def)
qed

definition solved_incident :: "string \<Rightarrow> Incident" where
  "solved_incident k = zero_Incident\<lparr>inc_ID := k, inc_Status := StatusResolved,
     inc_Evidence := [zero_Evidence\<lparr>ev_ID := ''l'', ev_Source := ''log'', ev_Summary := ''x'', ev_Confidence := 1\<rparr>,
                      zero_Evidence\<lparr>ev_ID := ''m'', ev_Source := ''metric'', ev_Summary := ''y'', ev_Confidence := 1\<rparr>],
     inc_Verification := Some (zero_Verification\<lparr>ver_Success := True\<rparr>),
     inc_DiagnosisLedger := Some (zero_DiagnosisLedger\<lparr>led_SelectedHypothesisID := ''h'',
        led_Verified := [zero_VerifiedHypothesis\<lparr>vh_Draft := zero_HypothesisDraft\<lparr>hd_ID := ''h'', hd_ExpectedCausalPath := [''a'', ''b'']\<rparr>, vh_FinalScore := 1\<rparr>]\<rparr>)\<rparr>"

lemma solved_path: "causal_path (zero_HypothesisDraft\<lparr>hd_ID := ''h'', hd_ExpectedCausalPath := [''a'', ''b'']\<rparr>) = [''a'', ''b'']" by code_simp

lemma solved_not_excluded: "excludedIncident (solved_incident k) = False" by (simp add: excludedIncident_def solved_incident_def zero_defs EqualFold_def ToLower_def)

definition solved_graph :: "string \<Rightarrow> IncidentCausalGraph" where
  "solved_graph k = normalize_causal_graph (fused_graph (solved_incident k)
     (zero_VerifiedHypothesis\<lparr>vh_Draft := zero_HypothesisDraft\<lparr>hd_ID := ''h'', hd_ExpectedCausalPath := [''a'', ''b'']\<rparr>, vh_FinalScore := 1\<rparr>) (zero_Verification\<lparr>ver_Success := True\<rparr>) [''a'', ''b''])"

lemma solved_built: "BuildIncidentCausalGraph (Some (solved_incident k)) = Inr (solved_graph k)"
proof -
  have sel: "selectedHypothesis (solved_incident k) = Some (zero_VerifiedHypothesis\<lparr>vh_Draft := zero_HypothesisDraft\<lparr>hd_ID := ''h'', hd_ExpectedCausalPath := [''a'', ''b'']\<rparr>, vh_FinalScore := 1\<rparr>)"
    by (simp add: selectedHypothesis_def solved_incident_def zero_defs)
  have v: "inc_Verification (solved_incident k) = Some (zero_Verification\<lparr>ver_Success := True\<rparr>)" "inc_Status (solved_incident k) = StatusResolved"
    by (simp_all add: solved_incident_def)
  have "outEvidence (fused_graph (solved_incident k) h w p) \<noteq> []"
    if "h = zero_VerifiedHypothesis\<lparr>vh_Draft := zero_HypothesisDraft\<lparr>hd_ID := ''h'', hd_ExpectedCausalPath := [''a'', ''b'']\<rparr>, vh_FinalScore := 1\<rparr>" for h w p
    using that by (simp add: outEvidence_def fused_graph_def support_nodes_def cited_by_hypothesis_def solved_incident_def unique_def zero_defs Let_def)
  then show ?thesis
    unfolding BuildIncidentCausalGraph_def option.case sel v solved_not_excluded solved_graph_def
    by (simp add: solved_path hypothesis_confidence_def latestConfidence_def Let_def zero_VerifiedHypothesis_def zero_Verification_def)
qed

lemma solved_extracted: "ExtractMany [Some (solved_incident ''1''), Some (solved_incident ''2''), Some (solved_incident ''3'')] = [solved_graph ''1'', solved_graph ''2'', solved_graph ''3'']"
  by (simp add: ExtractMany_def solved_built map_filter_simps)

lemma solved_mined: "map (\<lambda>c. (cand_CausalPath c, cand_SupportingIncidents c, cand_Frequency c, cand_Contradictions c, 0 < cand_Confidence c))
    (Mine (\<lambda>s. s) 1 6 [solved_graph ''1'', solved_graph ''2'', solved_graph ''3'']) = [([''a'', ''b''], [''1'', ''2'', ''3''], 3, [], True)]" by code_simp

lemma solved_support: "graphHasCausalPath (solved_graph k) [''a'', ''b'']" "length (graphEvidenceTypes (solved_graph k)) = 2" by code_simp+

lemma solved_graph_id: "icg_IncidentID (solved_graph k) = k" by (simp add: solved_graph_def normalize_causal_graph_def fused_graph_def solved_incident_def Let_def)

lemma solved_names: "filter (\<lambda>v. v \<noteq> []) (map normalizeName [''a'', ''b'']) = [''a'', ''b'']" "unique [''1'', ''2'', ''3''] = [''1'', ''2'', ''3'']" by code_simp+

lemma solved_accepted: "\<exists>c. fst (Discover D (\<lambda>s. s) (NewEngine\<lparr>eng_Knowledge := False\<rparr>) 1 [Some (solved_incident ''1''), Some (solved_incident ''2''), Some (solved_incident ''3'')] ([], [])) = [c] \<and>
    cand_Status c = ''ACCEPTED'' \<and> cand_SupportingIncidents c = [''1'', ''2'', ''3'']"
proof -
  let ?gs = "[solved_graph ''1'', solved_graph ''2'', solved_graph ''3'']"
  obtain c where c: "Mine (\<lambda>s. s) 1 6 ?gs = [c]" "cand_CausalPath c = [''a'', ''b'']" "cand_SupportingIncidents c = [''1'', ''2'', ''3'']" "cand_Frequency c = 3"
      "cand_Contradictions c = []" "0 < cand_Confidence c"
    using solved_mined by (auto simp: map_eq_Cons_conv)
  let ?n = "NormalizeCandidate (\<lambda>s. s) 1 c"
  have n: "cand_CausalPath ?n = [''a'', ''b'']" "cand_SupportingIncidents ?n = [''1'', ''2'', ''3'']" "cand_Frequency ?n = 3"
      "cand_Contradictions ?n = []" "0 < cand_Confidence ?n"
    using c solved_names by (simp_all add: NormalizeCandidate_def Let_def unique_def)
  have "graphs_by_id ?gs k = Some (solved_graph k)" if "k \<in> {''1'', ''2'', ''3''}" for k
    using that by (auto simp: graphs_by_id_def solved_graph_id)
  then have v: "validCandidate D 1 (?n\<lparr>cand_Status := a, cand_UpdatedAt := u\<rparr>) (graphs_by_id ?gs) incidents None" for incidents a u
    using n by (simp add: validCandidate_def supported_path_def solved_support)
  show ?thesis
    using v n by (simp add: Discover_def solved_extracted NewEngine_def c(1) discover_step_def Let_def split: prod.split)
qed

lemma accepted_candidate_is_backed_witness:
  "\<exists>c. c \<in> set (fst (Discover (\<lambda>_. ''x'') (\<lambda>s. s) (NewEngine\<lparr>eng_Knowledge := False\<rparr>) 1
       [Some (solved_incident ''1''), Some (solved_incident ''2''), Some (solved_incident ''3'')] ([], []))) \<and> 3 \<le> length (cand_SupportingIncidents c)"
proof -
  obtain c where "fst (Discover (\<lambda>_. ''x'') (\<lambda>s. s) (NewEngine\<lparr>eng_Knowledge := False\<rparr>) 1
      [Some (solved_incident ''1''), Some (solved_incident ''2''), Some (solved_incident ''3'')] ([], [])) = [c]" "cand_Status c = ''ACCEPTED''"
    using solved_accepted by blast
  then have c: "c \<in> set (fst (Discover (\<lambda>_. ''x'') (\<lambda>s. s) (NewEngine\<lparr>eng_Knowledge := False\<rparr>) 1
      [Some (solved_incident ''1''), Some (solved_incident ''2''), Some (solved_incident ''3'')] ([], [])))" "cand_Status c = ''ACCEPTED''" by simp_all
  then show ?thesis using accepted_candidate_is_backed [OF c] by blast
qed

end
