(* ===== verification/Topology_Knowledge.thy ===== *)
theory Topology_Knowledge
  imports Causal_Validation Topology
begin

text \<open>\<^verbatim>\<open>internal/topology/knowledge/model.go\<close> and \<^verbatim>\<open>internal/topology/extractor/extractor.go\<close>: the service topologies learned
  from resolved incidents.  \<^verbatim>\<open>Normalize\<close> generalises the topology of one incident to roles; the store counts how often
  a generalised pattern was seen and derives a confidence from the count by a truncated exponential series.  The
  digest of the JSON form is a parameter; \<^verbatim>\<open>sort.Slice\<close> is modelled by a stable sort.\<close>

record TopologyNode =
  tn_Name :: string
  tn_Type :: string
  tn_Role :: string
  tn_Metadata :: "string table"

record TopologyEdge =
  te_Source :: string
  te_Target :: string
  te_Type :: string
  te_Weight :: rat

record ServiceTopologyPattern =
  stp_PatternID :: string
  stp_Nodes :: "TopologyNode list"
  stp_Edges :: "TopologyEdge list"
  stp_Frequency :: int
  stp_Confidence :: rat
  stp_SourceIncidents :: "string list"
  stp_LastObserved :: time

definition zero_ServiceTopologyPattern :: ServiceTopologyPattern where
  "zero_ServiceTopologyPattern = \<lparr>stp_PatternID = [], stp_Nodes = [], stp_Edges = [], stp_Frequency = 0, stp_Confidence = 0,
     stp_SourceIncidents = [], stp_LastObserved = 0\<rparr>"

section \<open>Generalisation\<close>

definition knowledge_type :: "string \<Rightarrow> string \<Rightarrow> string" where
  "knowledge_type value0 k =
     (let v = ToLower (TrimSpace value0);
          v = (if v = [] then ''service'' else v);
          v = (if v = ''datastore'' \<or> v = ''critical_dependency'' then ''database'' else v);
          v = (if v = ''external'' \<or> v = ''external_service'' then ''external-api'' else v)
      in if v = ''service'' \<and> Contains (ToLower k) ''redis'' then ''cache'' else v)"

definition canonicalName :: "string \<Rightarrow> string \<Rightarrow> string" where
  "canonicalName typ k =
     (let lower = ToLower (TrimSpace k) in
      if typ = ''service'' then ''business-service''
      else if typ = ''database'' then (if Contains lower ''mysql'' then ''mysql'' else if Contains lower ''postgres'' then ''postgres'' else ''database'')
      else if typ = ''cache'' then (if Contains lower ''redis'' then ''redis'' else ''cache'')
      else typ)"

definition uniqueNodes :: "TopologyNode list \<Rightarrow> TopologyNode list" where
  "uniqueNodes vs = sort_key (\<lambda>v. tn_Type v @ tn_Name v) (unique_by (\<lambda>v. tn_Type v @ '':'' @ tn_Name v) {} vs)"

definition topology_edge_key :: "TopologyEdge \<Rightarrow> string" where
  "topology_edge_key v = te_Source v @ ''>'' @ te_Target v @ '':'' @ te_Type v"

definition uniqueEdges :: "TopologyEdge list \<Rightarrow> TopologyEdge list" where
  "uniqueEdges vs = sort_key (\<lambda>v. te_Source v @ te_Target v @ te_Type v) (unique_by topology_edge_key {} vs)"

text \<open>Workload instances carry no role of their own.\<close>

definition role_node :: "GraphNode \<Rightarrow> TopologyNode option" where
  "role_node n = (let typ = knowledge_type (gn_Type n) (gn_ID n) in
     if typ = ''pod'' \<or> typ = ''deployment'' then None
     else Some \<lparr>tn_Name = canonicalName typ (gn_ID n), tn_Type = typ, tn_Role = mget [] (gn_Metadata n) ''role'', tn_Metadata = Map.empty\<rparr>)"

definition role_names :: "GraphNode list \<Rightarrow> string \<rightharpoonup> string" where
  "role_names nodes = foldl (\<lambda>m n. case role_node n of None \<Rightarrow> m | Some t \<Rightarrow> m(gn_ID n \<mapsto> tn_Name t)) Map.empty nodes"

definition role_edge :: "(string \<rightharpoonup> string) \<Rightarrow> GraphEdge \<Rightarrow> TopologyEdge option" where
  "role_edge names e = (case (names (ge_Source e), names (ge_Target e)) of
       (Some source, Some target) \<Rightarrow> if source = target then None
         else Some \<lparr>te_Source = source, te_Target = target, te_Type = ToLower (TrimSpace (ge_Relation e)), te_Weight = ge_Weight e\<rparr>
     | _ \<Rightarrow> None)"

type_synonym topology_digest = "ServiceTopologyPattern \<Rightarrow> string"

definition TopologyID :: "topology_digest \<Rightarrow> ServiceTopologyPattern \<Rightarrow> string" where
  "TopologyID D p = ''topology-'' @ D (p\<lparr>stp_PatternID := [], stp_Frequency := 0, stp_Confidence := 0, stp_SourceIncidents := [], stp_LastObserved := 0\<rparr>)"

definition NormalizePattern :: "topology_digest \<Rightarrow> IncidentGraph \<Rightarrow> time \<Rightarrow> ServiceTopologyPattern" where
  "NormalizePattern D graph0 now =
     (let graph = NormalizeGraph graph0 in
      if ig_Nodes graph = [] then zero_ServiceTopologyPattern
      else let p = zero_ServiceTopologyPattern\<lparr>stp_Nodes := uniqueNodes (List.map_filter role_node (ig_Nodes graph)),
                     stp_Edges := uniqueEdges (List.map_filter (role_edge (role_names (ig_Nodes graph))) (ig_Edges graph)), stp_LastObserved := now\<rparr>
           in p\<lparr>stp_PatternID := TopologyID D p\<rparr>)"

section \<open>Confidence\<close>

text \<open>The local \<^verbatim>\<open>exp\<close>: seventeen terms after the first.\<close>

definition exp_terms :: "rat \<Rightarrow> rat" where
  "exp_terms v = snd (foldl (\<lambda>(term, total) i. let t = term * (v / of_nat i) in (t, total + t)) (1, 1) [1..<18])"

definition topology_confidence :: "int \<Rightarrow> rat" where
  "topology_confidence frequency =
     (if frequency \<le> 0 then 0 else let value = 1 - exp_terms (- of_int frequency / 5) in if value > 1 then 1 else value)"

section \<open>Counting\<close>

definition new_incidents :: "ServiceTopologyPattern \<Rightarrow> ServiceTopologyPattern \<Rightarrow> int" where
  "new_incidents left right = (if stp_SourceIncidents right = [] then max 1 (stp_Frequency right)
     else int (length (filter (\<lambda>k. k \<notin> set (stp_SourceIncidents left)) (stp_SourceIncidents right))))"

definition MergeTopology :: "topology_digest \<Rightarrow> ServiceTopologyPattern \<Rightarrow> ServiceTopologyPattern \<Rightarrow> time \<Rightarrow> ServiceTopologyPattern" where
  "MergeTopology D left right now =
     (if stp_PatternID left = []
      then let f = max 1 (stp_Frequency right) in right\<lparr>stp_Frequency := f,
             stp_LastObserved := (if IsZero (stp_LastObserved right) then now else stp_LastObserved right), stp_Confidence := topology_confidence f\<rparr>
      else let incidents = unique (stp_SourceIncidents left @ stp_SourceIncidents right);
               f = max (stp_Frequency left + new_incidents left right) (int (length incidents))
           in left\<lparr>stp_PatternID := TopologyID D left, stp_SourceIncidents := incidents, stp_Frequency := f,
                stp_LastObserved := (if stp_LastObserved right > stp_LastObserved left then stp_LastObserved right else stp_LastObserved left),
                stp_Confidence := topology_confidence f\<rparr>)"

type_synonym topology_store = "(string \<times> ServiceTopologyPattern) list"

definition topology_Merge :: "topology_digest \<Rightarrow> time \<Rightarrow> ServiceTopologyPattern \<Rightarrow> topology_store \<Rightarrow> (string + ServiceTopologyPattern) \<times> topology_store" where
  "topology_Merge D now p0 s =
     (if stp_PatternID p0 = [] then (Inl ''topology knowledge pattern not found'', s)
      else let p = p0\<lparr>stp_Frequency := max 1 (stp_Frequency p0), stp_LastObserved := (if IsZero (stp_LastObserved p0) then now else stp_LastObserved p0)\<rparr>;
               q = (case map_of s (stp_PatternID p) of Some old \<Rightarrow> MergeTopology D old p now
                    | None \<Rightarrow> p\<lparr>stp_Confidence := topology_confidence (stp_Frequency p)\<rparr>)
           in (Inr q, AList.update (stp_PatternID q) q s))"

text \<open>Ties are broken by the identifier, so the order is total.\<close>

definition topology_List :: "int \<Rightarrow> topology_store \<Rightarrow> ServiceTopologyPattern list" where
  "topology_List limit s = (let out = sort_key (\<lambda>p. - stp_Confidence p) (sort_key stp_PatternID (map snd s))
     in if limit > 0 \<and> int (length out) > limit then take (nat limit) out else out)"

definition pattern_similarity :: "ServiceTopologyPattern \<Rightarrow> ServiceTopologyPattern \<Rightarrow> rat" where
  "pattern_similarity a b = jaccard (remdups (map topology_edge_key (stp_Edges a))) (remdups (map topology_edge_key (stp_Edges b)))"

definition topology_Search :: "topology_digest \<Rightarrow> time \<Rightarrow> IncidentGraph \<Rightarrow> int \<Rightarrow> topology_store \<Rightarrow> ServiceTopologyPattern list" where
  "topology_Search D now query limit s =
     (let q = NormalizePattern D query now; out = sort_key (\<lambda>p. - pattern_similarity q p) (sort_key stp_PatternID (map snd s))
      in if limit > 0 \<and> int (length out) > limit then take (nat limit) out else out)"

section \<open>Extraction\<close>

definition observedAt :: "Incident \<Rightarrow> time \<Rightarrow> time" where
  "observedAt i now = (if \<not> IsZero (inc_UpdatedAt i) then inc_UpdatedAt i else if \<not> IsZero (inc_CreatedAt i) then inc_CreatedAt i else now)"

definition ExtractTopology :: "topology_digest \<Rightarrow> Incident option \<Rightarrow> IncidentGraph \<Rightarrow> time \<Rightarrow> string + ServiceTopologyPattern" where
  "ExtractTopology D i0 graph now = (case i0 of None \<Rightarrow> Inl ''incident is required''
     | Some i \<Rightarrow>
         if inc_Status i \<noteq> StatusResolved then Inl ''only resolved incidents can produce topology knowledge''
         else if excluded i then Inl ''evaluation incidents cannot produce topology knowledge''
         else let p = NormalizePattern D graph now in
           if stp_PatternID p = [] \<or> stp_Edges p = [] then Inl ''incident has no reusable dependency edges''
           else Inr (p\<lparr>stp_Frequency := 1, stp_SourceIncidents := [inc_ID i], stp_LastObserved := observedAt i now\<rparr>))"

section \<open>The confidence curve\<close>

text \<open>\<open>exp_terms\<close> is a partial sum of the exponential series; at negative arguments the series alternates, so a
  partial sum of odd degree lies below the exponential function and one of even degree above it.\<close>

definition exp_sum :: "nat \<Rightarrow> real \<Rightarrow> real" where
  "exp_sum n x = (\<Sum>m<n. x ^ m / fact m)"

lemma exp_terms_foldl:
  "foldl (\<lambda>(term, total) i. let t = term * (v / of_nat i) in (t, total + t)) (1, 1) [1..<Suc n] =
     (v ^ n / fact n, (\<Sum>m\<le>n. v ^ m / (fact m :: rat)))"
  by (induction n) (simp_all add: Let_def mult_ac)

lemma fact_of_rat: "of_rat (fact n) = (fact n :: real)"
  by (metis of_nat_fact of_rat_of_nat_eq)

lemma exp_terms_sum: "of_rat (exp_terms v) = exp_sum 18 (of_rat v)"
proof -
  have "(18 :: nat) = Suc 17" by simp
  then have "exp_terms v = (\<Sum>m\<le>17. v ^ m / (fact m :: rat))" by (simp only: exp_terms_def exp_terms_foldl snd_conv)
  moreover have "{..17 :: nat} = {..<18}" by auto
  ultimately show ?thesis by (simp only: exp_sum_def of_rat_sum of_rat_divide of_rat_power fact_of_rat)
qed

lemma exp_sum_below: "x \<le> 0 \<Longrightarrow> exp_sum 18 x \<le> exp x"
proof -
  obtain t where "exp x = exp_sum 18 x + exp t / fact 18 * x ^ 18"
    using Maclaurin_exp_le [of x 18] by (auto simp: exp_sum_def)
  moreover have "0 \<le> exp t / fact 18 * x ^ 18" by (simp add: zero_le_even_power)
  ultimately show ?thesis by simp
qed

lemma exp_sum_positive: "x \<le> 0 \<Longrightarrow> 0 < exp_sum 17 x"
proof -
  assume "x \<le> 0"
  obtain t where "exp x = exp_sum 17 x + exp t / fact 17 * x ^ 17"
    using Maclaurin_exp_le [of x 17] by (auto simp: exp_sum_def)
  moreover have "exp t / fact 17 * x ^ 17 \<le> 0"
    using \<open>x \<le> 0\<close> by (intro mult_nonneg_nonpos) (simp_all add: power_le_zero_eq)
  ultimately show ?thesis using exp_gt_zero [of x] by linarith
qed

lemma exp_sum_deriv: "(exp_sum (Suc n) has_real_derivative exp_sum n x) (at x)"
proof (induction n)
  case 0
  show ?case by (simp add: exp_sum_def [abs_def])
next
  case (Suc n)
  have eq: "exp_sum (Suc (Suc n)) = (\<lambda>x. exp_sum (Suc n) x + x ^ Suc n / fact (Suc n))" by (auto simp: exp_sum_def)
  have "((\<lambda>x. x ^ Suc n / fact (Suc n)) has_real_derivative x ^ n / fact n) (at x)"
    using DERIV_cdivide [OF DERIV_pow [of "Suc n" x], of "fact (Suc n)"] by (simp del: of_nat_Suc)
  from DERIV_add [OF Suc.IH this] show ?case unfolding eq by (simp add: exp_sum_def)
qed

lemma exp_sum_mono: "x \<le> y \<Longrightarrow> y \<le> 0 \<Longrightarrow> exp_sum 18 x \<le> exp_sum 18 y"
  using exp_sum_deriv [of 17] exp_sum_positive
  by (intro DERIV_nonneg_imp_nondecreasing [of x y "exp_sum 18"]) (auto simp: eval_nat_numeral intro!: exI less_imp_le)

lemma exp_terms_below_one:
  assumes "v < 0"
  shows "exp_terms v < 1"
proof -
  have "real_of_rat v < 0" using assms by simp
  then have "exp_sum 18 (of_rat v) < 1" using exp_sum_below [of "of_rat v"] exp_less_one_iff [of "of_rat v :: real"] by linarith
  then have "real_of_rat (exp_terms v) < of_rat 1" by (simp add: exp_terms_sum)
  then show ?thesis by (simp only: of_rat_less)
qed

lemma exp_terms_mono:
  assumes "v \<le> w" "w \<le> 0"
  shows "exp_terms v \<le> exp_terms w"
proof -
  have "real_of_rat v \<le> of_rat w" "real_of_rat w \<le> 0" using assms by (simp_all add: of_rat_less_eq)
  from exp_sum_mono [OF this] have "real_of_rat (exp_terms v) \<le> of_rat (exp_terms w)" by (simp add: exp_terms_sum)
  then show ?thesis by (simp only: of_rat_less_eq)
qed

text \<open>The confidence of a learned topology is a figure in (0,1] for every positive count, 0 otherwise, and never falls as the
  count grows, although the truncated series behind it diverges from the exponential function for large counts.\<close>

theorem topology_confidence_curve:
  shows "topology_confidence f \<in> (if f \<le> 0 then {0} else {0<..1}) \<and> topology_confidence f \<le> topology_confidence (max f g)"
proof -
  have pos: "0 < topology_confidence n" if "0 < n" for n
    using exp_terms_below_one [of "- of_int n / 5"] that by (simp add: topology_confidence_def Let_def)
  have "topology_confidence n \<le> topology_confidence m" if "0 < n" "n \<le> m" for n m
    using exp_terms_mono [of "- of_int m / 5" "- of_int n / 5"] that by (simp add: topology_confidence_def Let_def)
  moreover have "topology_confidence n = 0" if "n \<le> 0" for n using that by (simp add: topology_confidence_def)
  moreover have "topology_confidence n \<le> 1" for n by (simp add: topology_confidence_def Let_def)
  ultimately show ?thesis using pos [of f] pos [of g] by (cases "f \<le> 0"; cases "g \<le> 0") (auto simp: max_def less_imp_le)
qed

section \<open>A reusable pattern is closed\<close>

lemma role_names_node:
  "role_names ns k = Some name \<Longrightarrow> \<exists>n\<in>set ns. \<exists>t. gn_ID n = k \<and> role_node n = Some t \<and> tn_Name t = name"
  by (induction ns rule: rev_induct) (auto simp: role_names_def split: option.splits if_splits)

definition node_key :: "TopologyNode \<Rightarrow> string" where
  "node_key v = tn_Type v @ '':'' @ tn_Name v"

definition role_pair :: "string \<Rightarrow> string \<Rightarrow> bool" where
  "role_pair typ name = (if typ = ''service'' then name = ''business-service''
     else if typ = ''database'' then name \<in> {''mysql'', ''postgres'', ''database''}
     else if typ = ''cache'' then name \<in> {''redis'', ''cache''} else name = typ)"

lemma role_node_pair: "role_node n = Some t \<Longrightarrow> role_pair (tn_Type t) (tn_Name t) \<and> tn_Type t \<noteq> ''pod'' \<and> tn_Type t \<noteq> ''deployment''"
  by (auto simp: role_node_def role_pair_def canonicalName_def Let_def split: if_splits)

lemma double_key: "(x :: string) @ '':'' @ x = s \<Longrightarrow> x = take (length s div 2) s"
  by auto

definition role_pairs :: "(string \<times> string) list" where
  "role_pairs = [(''service'', ''business-service''), (''database'', ''mysql''), (''database'', ''postgres''), (''database'', ''database''),
     (''cache'', ''redis''), (''cache'', ''cache'')]"

lemma role_pair_cases: "role_pair typ name \<Longrightarrow> (typ, name) \<in> set role_pairs \<or> (typ = name \<and> typ \<notin> fst ` set role_pairs)"
  by (simp add: role_pair_def role_pairs_def split: if_splits)

lemma role_pairs_key: "p \<in> set role_pairs \<Longrightarrow> q \<in> set role_pairs \<Longrightarrow> fst p @ '':'' @ snd p = fst q @ '':'' @ snd q \<Longrightarrow> p = q"
  by (simp add: role_pairs_def) (elim disjE; simp)

lemma role_pairs_single: "p \<in> set role_pairs \<Longrightarrow> x @ '':'' @ x = fst p @ '':'' @ snd p \<Longrightarrow> x \<in> fst ` set role_pairs"
  using double_key [of x "fst p @ '':'' @ snd p"] by (auto simp: role_pairs_def)

lemma role_pair_key:
  assumes "role_pair s a" "role_pair t b" "s @ '':'' @ a = t @ '':'' @ b"
  shows "a = b"
proof -
  consider "(s, a) \<in> set role_pairs" "(t, b) \<in> set role_pairs" | "(s, a) \<in> set role_pairs" "t = b" "t \<notin> fst ` set role_pairs"
    | "s = a" "s \<notin> fst ` set role_pairs" "(t, b) \<in> set role_pairs" | "s = a" "t = b"
    using role_pair_cases assms(1,2) by blast
  then show ?thesis
  proof cases
    case 1
    then show ?thesis using role_pairs_key [of "(s, a)" "(t, b)"] assms(3) by simp
  next
    case 2
    then show ?thesis using role_pairs_single [of "(s, a)" t] assms(3) by simp
  next
    case 3
    then show ?thesis using role_pairs_single [of "(t, b)" s] assms(3) by simp
  next
    case 4
    then show ?thesis using double_key [of s "t @ '':'' @ t"] double_key [of t "t @ '':'' @ t"] assms(3) by simp
  qed
qed

lemma uniqueNodes_names:
  assumes "\<And>v. v \<in> set vs \<Longrightarrow> role_pair (tn_Type v) (tn_Name v)"
  shows "tn_Name ` set (uniqueNodes vs) = tn_Name ` set vs"
proof
  let ?u = "unique_by node_key {} vs"
  have u: "set (uniqueNodes vs) = set ?u" by (simp add: uniqueNodes_def node_key_def [abs_def])
  have sub: "set ?u \<subseteq> set vs" by (rule unique_by_set)
  then show "tn_Name ` set (uniqueNodes vs) \<subseteq> tn_Name ` set vs" by (auto simp: u)
  show "tn_Name ` set vs \<subseteq> tn_Name ` set (uniqueNodes vs)"
  proof
    fix name assume "name \<in> tn_Name ` set vs"
    then obtain v where v: "v \<in> set vs" "name = tn_Name v" by auto
    then have "node_key v \<in> node_key ` set ?u" using unique_by_keys [of node_key "{}" vs] by simp
    then obtain w where w: "w \<in> set ?u" "node_key v = node_key w" by auto
    then have "w \<in> set vs" using sub by blast
    from role_pair_key [OF assms [OF v(1)] assms [OF this]] have "tn_Name v = tn_Name w" using w(2) by (simp only: node_key_def)
    then show "name \<in> tn_Name ` set (uniqueNodes vs)" using w(1) v(2) by (simp add: u)
  qed
qed

lemma extract_form:
  assumes "ExtractTopology D i graph now = Inr p"
  shows "\<exists>j. i = Some j \<and> inc_Status j = StatusResolved \<and> \<not> excluded j \<and> stp_Edges p \<noteq> [] \<and>
    stp_Nodes p = uniqueNodes (List.map_filter role_node (ig_Nodes (NormalizeGraph graph))) \<and>
    stp_Edges p = uniqueEdges (List.map_filter (role_edge (role_names (ig_Nodes (NormalizeGraph graph)))) (ig_Edges (NormalizeGraph graph))) \<and>
    stp_PatternID p = TopologyID D p \<and> stp_Frequency p = 1 \<and> stp_SourceIncidents p = [inc_ID j]"
  using assms by (auto simp: ExtractTopology_def NormalizePattern_def zero_ServiceTopologyPattern_def TopologyID_def Let_def split: option.splits if_splits)

text \<open>What is learned from an incident is a closed pattern of roles, free of workload instances, and only a resolved
  incident that is not an evaluation teaches anything: every edge joins two different listed roles.\<close>

theorem extracted_topology_is_closed:
  assumes "ExtractTopology D (Some i) graph now = Inr p"
  shows "inc_Status i = StatusResolved \<and> \<not> excluded i \<and> stp_Edges p \<noteq> [] \<and>
    (\<forall>e\<in>set (stp_Edges p). te_Source e \<noteq> te_Target e \<and> {te_Source e, te_Target e} \<subseteq> tn_Name ` set (stp_Nodes p)) \<and>
    (\<forall>v\<in>set (stp_Nodes p). tn_Type v \<noteq> ''pod'' \<and> tn_Type v \<noteq> ''deployment'') \<and>
    distinct (map topology_edge_key (stp_Edges p))"
proof -
  let ?ns = "ig_Nodes (NormalizeGraph graph)" and ?es = "ig_Edges (NormalizeGraph graph)"
  have p: "inc_Status i = StatusResolved" "\<not> excluded i" "stp_Edges p \<noteq> []" "stp_Nodes p = uniqueNodes (List.map_filter role_node ?ns)"
    "stp_Edges p = uniqueEdges (List.map_filter (role_edge (role_names ?ns)) ?es)"
    using extract_form [OF assms] by auto
  let ?vs = "List.map_filter role_node ?ns"
  have names: "tn_Name ` set (stp_Nodes p) = tn_Name ` set ?vs"
    unfolding p(4) by (rule uniqueNodes_names) (auto simp: set_map_filter role_node_pair)
  have "tn_Type v \<noteq> ''pod'' \<and> tn_Type v \<noteq> ''deployment''" if "v \<in> set (stp_Nodes p)" for v
  proof -
    have "v \<in> set ?vs" using that unique_by_set [of _ "{}" ?vs] by (auto simp: p(4) uniqueNodes_def)
    then show ?thesis using role_node_pair by (auto simp: set_map_filter)
  qed
  moreover have "te_Source e \<noteq> te_Target e \<and> {te_Source e, te_Target e} \<subseteq> tn_Name ` set (stp_Nodes p)" if "e \<in> set (stp_Edges p)" for e
  proof -
    have "e \<in> set (List.map_filter (role_edge (role_names ?ns)) ?es)"
      using that unique_by_set [of topology_edge_key "{}"] by (auto simp: p(5) uniqueEdges_def)
    then obtain g where g: "role_edge (role_names ?ns) g = Some e" by (auto simp: set_map_filter)
    then have "te_Source e \<noteq> te_Target e" "role_names ?ns (ge_Source g) = Some (te_Source e)" "role_names ?ns (ge_Target g) = Some (te_Target e)"
      by (auto simp: role_edge_def split: option.splits if_splits)
    then show ?thesis unfolding names by (auto dest!: role_names_node simp: set_map_filter image_iff)
  qed
  moreover have "distinct (map topology_edge_key (stp_Edges p))"
    using unique_by_keys [of topology_edge_key "{}"] by (simp add: p(5) uniqueEdges_def distinct_map)
  ultimately show ?thesis using p(1-3) by blast
qed

definition shop_incident :: Incident where
  "shop_incident = zero_Incident\<lparr>inc_ID := ''i1'', inc_Status := StatusResolved\<rparr>"

definition shop_graph :: IncidentGraph where
  "shop_graph = \<lparr>ig_IncidentID = ''i1'', ig_Nodes = [\<lparr>gn_ID = ''ui'', gn_Type = ''service'', gn_Metadata = Map.empty\<rparr>,
       \<lparr>gn_ID = ''p1'', gn_Type = ''pod'', gn_Metadata = Map.empty\<rparr>, \<lparr>gn_ID = ''db'', gn_Type = ''database'', gn_Metadata = Map.empty\<rparr>],
     ig_Edges = [\<lparr>ge_Source = ''ui'', ge_Target = ''db'', ge_Relation = ''calls'', ge_Weight = 1\<rparr>,
       \<lparr>ge_Source = ''ui'', ge_Target = ''p1'', ge_Relation = ''runs_on'', ge_Weight = 1\<rparr>]\<rparr>"

lemma shop_words: "knowledge_type ''service'' ''ui'' = ''service''" "knowledge_type ''pod'' ''p1'' = ''pod''" "knowledge_type ''database'' ''db'' = ''database''"
  "canonicalName ''service'' ''ui'' = ''business-service''" "canonicalName ''database'' ''db'' = ''database''" 
  "normalizeType ''service'' = ''service''" "normalizeType ''pod'' = ''pod''" "normalizeType ''database'' = ''database''"
  "normalizeRelation ''calls'' = ''calls''" "normalizeRelation ''runs_on'' = ''runs_on''"
  "TrimSpace ''ui'' = ''ui''" "TrimSpace ''db'' = ''db''" "TrimSpace ''p1'' = ''p1''" "ToLower ''calls'' = ''calls''" "TrimSpace ''calls'' = ''calls''"
  by code_simp+

lemma shop_graph_normal: "NormalizeGraph shop_graph = \<lparr>ig_IncidentID = ''i1'', ig_Nodes = [\<lparr>gn_ID = ''db'', gn_Type = ''database'', gn_Metadata = Map.empty\<rparr>,
        \<lparr>gn_ID = ''p1'', gn_Type = ''pod'', gn_Metadata = Map.empty\<rparr>, \<lparr>gn_ID = ''ui'', gn_Type = ''service'', gn_Metadata = Map.empty\<rparr>],
      ig_Edges = [\<lparr>ge_Source = ''ui'', ge_Target = ''db'', ge_Relation = ''calls'', ge_Weight = 1\<rparr>,
        \<lparr>ge_Source = ''ui'', ge_Target = ''p1'', ge_Relation = ''runs_on'', ge_Weight = 1\<rparr>]\<rparr>"
  by (simp add: NormalizeGraph_def shop_graph_def normal_node_def normal_edge_def shop_words edge_key_def
       less_eq_char_def less_char_def)

lemma shop_normal: "let p = NormalizePattern (\<lambda>_. ''x'') shop_graph 7 in (stp_PatternID p, map tn_Name (stp_Nodes p), map (\<lambda>e. (te_Source e, te_Target e)) (stp_Edges p)) =
      (''topology-x'', [''database'', ''business-service''], [(''business-service'', ''database'')])"
  by (simp add: NormalizePattern_def shop_graph_normal role_node_def role_edge_def role_names_def shop_words map_filter_simps
       TopologyID_def uniqueNodes_def uniqueEdges_def Let_def less_eq_char_def less_char_def)
lemma shop_extracted:
  "\<exists>p. ExtractTopology (\<lambda>_. ''x'') (Some shop_incident) shop_graph 7 = Inr p \<and> map tn_Name (stp_Nodes p) = [''database'', ''business-service''] \<and>
     map (\<lambda>e. (te_Source e, te_Target e)) (stp_Edges p) = [(''business-service'', ''database'')]"
proof -
  have "excluded shop_incident = False" "inc_Status shop_incident = StatusResolved"
    by (simp_all add: excluded_def shop_incident_def zero_defs) (simp add: EqualFold_def ToLower_def)
  then show ?thesis using shop_normal by (auto simp: ExtractTopology_def Let_def)
qed

lemma extracted_topology_is_closed_witness:
  "\<exists>p. ExtractTopology (\<lambda>_. ''x'') (Some shop_incident) shop_graph 7 = Inr p \<and>
    {te_Source (hd (stp_Edges p)), te_Target (hd (stp_Edges p))} \<subseteq> tn_Name ` set (stp_Nodes p)"
proof -
  from shop_extracted obtain p where p: "ExtractTopology (\<lambda>_. ''x'') (Some shop_incident) shop_graph 7 = Inr p" by blast
  then show ?thesis using extracted_topology_is_closed [OF p] by (intro exI [of _ p]) (cases "stp_Edges p"; simp)
qed

section \<open>Counting incidents\<close>

text \<open>The knowledge learned from a sequence of observations, each an incident with its topology and the clock.\<close>

type_synonym observation = "Incident \<times> IncidentGraph \<times> time"

definition TopologyMerge :: "topology_digest \<Rightarrow> Incident option \<Rightarrow> IncidentGraph \<Rightarrow> time \<Rightarrow> topology_store \<Rightarrow>
    (string + ServiceTopologyPattern) \<times> topology_store" where
  "TopologyMerge D i graph now s = (case ExtractTopology D i graph now of Inl e \<Rightarrow> (Inl e, s) | Inr p \<Rightarrow> topology_Merge D now p s)"

definition learned_topologies :: "topology_digest \<Rightarrow> observation list \<Rightarrow> topology_store" where
  "learned_topologies D obs = foldl (\<lambda>s (i, graph, now). snd (TopologyMerge D (Some i) graph now s)) [] obs"

definition supporters :: "topology_digest \<Rightarrow> observation list \<Rightarrow> string \<Rightarrow> string set" where
  "supporters D obs k = {inc_ID i | i graph now. (i, graph, now) \<in> set obs \<and>
     (\<exists>p. ExtractTopology D (Some i) graph now = Inr p \<and> stp_PatternID p = k)}"

definition counted :: "topology_digest \<Rightarrow> string set \<Rightarrow> string \<times> ServiceTopologyPattern \<Rightarrow> bool" where
  "counted D ids = (\<lambda>(k, p). stp_PatternID p = k \<and> TopologyID D p = k \<and> distinct (stp_SourceIncidents p) \<and>
     set (stp_SourceIncidents p) = ids \<and> stp_Frequency p = int (length (stp_SourceIncidents p)) \<and>
     stp_Confidence p = topology_confidence (stp_Frequency p))"

lemma TopologyID_fields [simp]:
  "TopologyID D (p\<lparr>stp_Frequency := a\<rparr>) = TopologyID D p" "TopologyID D (p\<lparr>stp_Confidence := b\<rparr>) = TopologyID D p"
  "TopologyID D (p\<lparr>stp_PatternID := k\<rparr>) = TopologyID D p" "TopologyID D (p\<lparr>stp_SourceIncidents := l\<rparr>) = TopologyID D p"
  "TopologyID D (p\<lparr>stp_LastObserved := t\<rparr>) = TopologyID D p"
  by (simp_all add: TopologyID_def)

lemma TopologyID_not_empty [simp]: "TopologyID D p \<noteq> []"
  by (simp add: TopologyID_def)

lemma counted_merge:
  assumes "counted D ids (k, old)" "stp_SourceIncidents p = [i]" "i \<noteq> []" "[] \<notin> ids"
  shows "counted D (insert i ids) (k, MergeTopology D old p now)"
proof -
  have ne: "stp_PatternID old \<noteq> []" using assms(1) by (auto simp: counted_def)
  have l: "length (unique (stp_SourceIncidents old @ [i])) = card (insert i ids)"
    using assms by (simp add: uniq.norm_length counted_def insert_commute)
  have card: "int (length (stp_SourceIncidents old)) = int (card ids)" using assms(1) distinct_card by (fastforce simp: counted_def)
  have "finite ids" using assms(1) by (auto simp: counted_def)
  then have "max (stp_Frequency old + new_incidents old p) (int (length (unique (stp_SourceIncidents old @ [i])))) =
      int (length (unique (stp_SourceIncidents old @ [i])))"
    using assms(1,2) card l by (auto simp: new_incidents_def counted_def card_insert_if)
  then show ?thesis using ne assms by (auto simp: MergeTopology_def counted_def Let_def)
qed

lemma merge_extracted:
  assumes "ExtractTopology D (Some i) graph now = Inr p" "inc_ID i \<noteq> []"
    and sound: "\<forall>(k, q) \<in> set s. counted D (ids k) (k, q)" "distinct (map fst s)" and ids: "[] \<notin> ids (stp_PatternID p)"
      "map_of s (stp_PatternID p) = None \<Longrightarrow> ids (stp_PatternID p) = {}"
  shows "(\<forall>(k, q) \<in> set (snd (topology_Merge D now p s)). counted D (ids k \<union> (if k = stp_PatternID p then {inc_ID i} else {})) (k, q)) \<and>
    distinct (map fst (snd (topology_Merge D now p s))) \<and> map_of (snd (topology_Merge D now p s)) (stp_PatternID p) \<noteq> None \<and>
    (\<forall>k. k \<noteq> stp_PatternID p \<longrightarrow> map_of (snd (topology_Merge D now p s)) k = map_of s k)"
proof -
  let ?k = "stp_PatternID p"
  let ?p = "p\<lparr>stp_Frequency := max 1 (stp_Frequency p), stp_LastObserved := (if IsZero (stp_LastObserved p) then now else stp_LastObserved p)\<rparr>"
  have p: "?k = TopologyID D p" "stp_Frequency p = 1" "stp_SourceIncidents p = [inc_ID i]" using extract_form [OF assms(1)] by auto
  define q where "q = (case map_of s ?k of Some old \<Rightarrow> MergeTopology D old ?p now
      | None \<Rightarrow> ?p\<lparr>stp_Confidence := topology_confidence (stp_Frequency ?p)\<rparr>)"
  have q: "counted D (insert (inc_ID i) (ids ?k)) (?k, q)"
  proof (cases "map_of s ?k")
    case None
    then show ?thesis using p ids(2) by (simp add: q_def counted_def)
  next
    case (Some old)
    then have "counted D (ids ?k) (?k, old)" using sound(1) by (auto dest!: map_of_SomeD)
    from counted_merge [OF this, of ?p "inc_ID i" now] show ?thesis using Some p assms(2) ids(1) by (simp add: q_def)
  qed
  then have "stp_PatternID q = ?k" by (simp add: counted_def)
  moreover have "?k \<noteq> []" by (simp add: p(1))
  ultimately have m: "snd (topology_Merge D now p s) = AList.update ?k q s"
    by (auto simp: topology_Merge_def q_def Let_def split: option.splits)
  have "counted D (ids k \<union> (if k = ?k then {inc_ID i} else {})) (k, v)" if "(k, v) \<in> set (AList.update ?k q s)" for k v
    using update_entry [OF sound(2) that] q sound(1) by auto
  then show ?thesis using sound(2) by (auto simp: m distinct_update update_conv)
qed

text \<open>Frequencies count incidents, not deliveries.  After any sequence of observations, repeated ones included, the
  frequency of a stored topology is the number of different incidents that taught it, they are its sources, and its
  confidence is the curve at that number.\<close>

theorem topology_counts_incidents:
  assumes "\<forall>(i, graph, now) \<in> set obs. inc_ID i \<noteq> []" "(k, p) \<in> set (learned_topologies D obs)"
  shows "set (stp_SourceIncidents p) = supporters D obs k \<and> distinct (stp_SourceIncidents p) \<and> stp_Frequency p = int (card (supporters D obs k)) \<and>
    stp_Confidence p = topology_confidence (int (card (supporters D obs k))) \<and> stp_PatternID p = k"
proof -
  have "(\<forall>(k, q) \<in> set (learned_topologies D obs). counted D (supporters D obs k) (k, q)) \<and> distinct (map fst (learned_topologies D obs)) \<and>
    (\<forall>k. map_of (learned_topologies D obs) k = None \<longrightarrow> supporters D obs k = {})"
    using assms(1)
  proof (induction obs rule: rev_induct)
    case Nil
    show ?case by (simp add: learned_topologies_def supporters_def)
  next
    case (snoc ob obs)
    obtain i graph now where ob: "ob = (i, graph, now)" by (cases ob) auto
    let ?s = "learned_topologies D obs"
    have "\<forall>(i, graph, now) \<in> set obs. inc_ID i \<noteq> []" using snoc.prems by auto
    note IH = snoc.IH [OF this]
    have s: "\<forall>(k, q) \<in> set ?s. counted D (supporters D obs k) (k, q)" using IH by (rule conjunct1)
    have s2: "distinct (map fst ?s)" using IH by blast
    have s3: "map_of ?s k = None \<Longrightarrow> supporters D obs k = {}" for k using IH by blast
    have next_s: "learned_topologies D (obs @ [ob]) = snd (TopologyMerge D (Some i) graph now ?s)" by (simp add: learned_topologies_def ob)
    show ?case
    proof (cases "ExtractTopology D (Some i) graph now")
      case (Inl e)
      then have "supporters D (obs @ [ob]) k = supporters D obs k" for k by (auto simp: supporters_def ob)
      then show ?thesis using s s2 s3 by (simp add: next_s TopologyMerge_def Inl)
    next
      case (Inr p)
      have sup: "supporters D (obs @ [ob]) k = supporters D obs k \<union> (if k = stp_PatternID p then {inc_ID i} else {})" for k
        using Inr by (auto simp: supporters_def ob)
      have "inc_ID i \<noteq> []" "[] \<notin> supporters D obs (stp_PatternID p)" using snoc.prems by (auto simp: supporters_def ob)
      note m = merge_extracted [OF Inr this(1) s s2 this(2) s3]
      have run: "learned_topologies D (obs @ [ob]) = snd (topology_Merge D now p ?s)" by (simp add: next_s TopologyMerge_def Inr)
      have "supporters D (obs @ [ob]) k = {}" if "map_of (snd (topology_Merge D now p ?s)) k = None" for k
      proof -
        have "k \<noteq> stp_PatternID p" using m that by auto
        then have "map_of ?s k = None" using m that by simp
        then show ?thesis using s3 \<open>k \<noteq> stp_PatternID p\<close> by (simp add: sup)
      qed
      then show ?thesis unfolding run sup using m by blast
    qed
  qed
  then have c: "counted D (supporters D obs k) (k, p)" using assms(2) by blast
  then have "length (stp_SourceIncidents p) = card (supporters D obs k)" using distinct_card by (fastforce simp: counted_def)
  then show ?thesis using c by (simp add: counted_def)
qed

lemma topology_counts_incidents_witness:
  "\<exists>p. (''topology-x'', p) \<in> set (learned_topologies (\<lambda>_. ''x'') [(shop_incident, shop_graph, 7), (shop_incident, shop_graph, 7)]) \<and>
    stp_Frequency p = 1 \<and> stp_SourceIncidents p = [''i1'']"
proof -
  let ?D = "\<lambda>_ :: ServiceTopologyPattern. ''x''"
  let ?ob = "(shop_incident, shop_graph, 7 :: time)"
  from shop_extracted obtain q where q: "ExtractTopology ?D (Some shop_incident) shop_graph 7 = Inr q" by blast
  then have id: "stp_PatternID q = ''topology-x''" using extract_form [OF q] by (auto simp: TopologyID_def)
  have "supporters ?D [?ob, ?ob] ''topology-x'' = {''i1''}" using q id by (auto simp: supporters_def shop_incident_def)
  moreover have "map fst (learned_topologies ?D [?ob, ?ob]) = [''topology-x'']"
    using id by (simp add: learned_topologies_def TopologyMerge_def q topology_Merge_def MergeTopology_def TopologyID_def Let_def)
  then obtain p where p: "(''topology-x'', p) \<in> set (learned_topologies ?D [?ob, ?ob])" by (auto simp: map_eq_Cons_conv)
  moreover have "inc_ID shop_incident \<noteq> []" by (simp add: shop_incident_def)
  ultimately show ?thesis
    using topology_counts_incidents [of "[?ob, ?ob]" "''topology-x''" p ?D]
    by (intro exI [of _ p]) (cases "stp_SourceIncidents p"; cases "tl (stp_SourceIncidents p)"; auto)
qed

end
