(* ===== verification/Causal_Learning.thy ===== *)
theory Causal_Learning
  imports Causal_Discovery Topology_Knowledge
begin

text \<open>\<^verbatim>\<open>internal/service/causal_learning.go\<close>: what the service learns from a resolved incident.  The knowledge store, the embedder, the
  vector store and the history of incidents are the fields of the learner, functions over a world \<^typ>\<open>'w\<close> they may change; the
  topology and causal patterns and the discovery engine are the models of their packages.  \<open>learning_env\<close> holds the
  digests, the printed form of a payload, the clock, and the listing of the keys of a map.\<close>

section \<open>Interfaces\<close>

record Document =
  doc_ID :: string
  doc_Service :: string
  doc_Cluster :: string
  doc_Namespace :: string
  doc_Category :: string
  doc_Template :: string
  doc_RootCause :: string
  doc_Recovery :: string
  doc_Level :: string
  doc_OccurrenceCount :: int
  doc_Vector :: "rat list"
  doc_Score :: rat

record 'w KnowledgeStore =
  ks_UpsertIncidentKnowledge :: "Incident \<Rightarrow> IncidentFeatures \<Rightarrow> string \<Rightarrow> 'w \<Rightarrow> string option \<times> 'w"
  ks_SeedCausalPatterns :: "CausalPattern list \<Rightarrow> 'w \<Rightarrow> string option \<times> 'w"
  ks_GetCausalPattern :: "string \<Rightarrow> 'w \<Rightarrow> string + CausalPattern"
  ks_SetCausalPatternStatus :: "string \<Rightarrow> string \<Rightarrow> string \<Rightarrow> 'w \<Rightarrow> string option \<times> 'w"
  ks_RecordCausalPatternEvent :: "string \<Rightarrow> string \<Rightarrow> string \<Rightarrow> string \<Rightarrow> any_value table \<Rightarrow> 'w \<Rightarrow> string option \<times> 'w"
  ks_CountCausalPatternSupport :: "string \<Rightarrow> 'w \<Rightarrow> string + int"

record 'w CausalLearner =
  cl_Store :: "'w KnowledgeStore option"
  cl_ConfidenceThreshold :: rat
  cl_Namespaces :: "string list"
  cl_EmbeddingVersion :: string
  cl_Embedder :: "(string list \<Rightarrow> string + rat list list) option"
  cl_Vectors :: "(Document list \<Rightarrow> 'w \<Rightarrow> string option \<times> 'w) option"
  cl_TopologyPatterns :: bool
  cl_CausalPatterns :: bool
  cl_Discovery :: "Engine option"
  cl_IncidentHistory :: "(string list \<Rightarrow> int \<Rightarrow> 'w \<Rightarrow> string + Incident option list) option"

record 'w learning_state =
  lst_Topology :: topology_store
  lst_Causal :: causal_store
  lst_Candidates :: candidate_store
  lst_World :: 'w

record learning_env =
  le_PatternDigest :: pattern_digest
  le_TopologyDigest :: topology_digest
  le_PathDigest :: path_digest
  le_NameDigest :: "string \<Rightarrow> string"
  le_Sprint :: "Evidence \<Rightarrow> string"
  le_Keys :: "bool table \<Rightarrow> string list"
  le_Now :: time

section \<open>The gate\<close>

definition namespaceAllowed :: "'w CausalLearner \<Rightarrow> string \<Rightarrow> bool" where
  "namespaceAllowed L namespace = (namespace \<in> set (cl_Namespaces L))"

definition learning_threshold :: "'w CausalLearner \<Rightarrow> rat" where
  "learning_threshold L = (if cl_ConfidenceThreshold L \<le> 0 then 9/10 else cl_ConfidenceThreshold L)"

definition passed_checks :: "learning_env \<Rightarrow> Verification \<Rightarrow> nat" where
  "passed_checks E v = length (filter (\<lambda>k. ver_Checks v k = Some True) (le_Keys E (ver_Checks v)))"

definition cause_sources :: "Incident \<Rightarrow> string list" where
  "cause_sources i = remdups (map ev_Source (filter (\<lambda>e. ev_ID e \<in> set (inc_RootCauseEvidenceIDs i)) (inc_Evidence i)))"

definition recovered :: "learning_env \<Rightarrow> Incident \<Rightarrow> bool" where
  "recovered E i = ((case inc_ExecutionContext i of None \<Rightarrow> False | Some x \<Rightarrow> ec_ApprovalID x \<noteq> []) \<and> inc_Proposal i \<noteq> None \<and>
     (case inc_Verification i of None \<Rightarrow> False | Some v \<Rightarrow> ver_Success v \<and> \<not> passed_checks E v < 3))"

definition learnable :: "learning_env \<Rightarrow> 'w CausalLearner \<Rightarrow> Incident \<Rightarrow> bool" where
  "learnable E L i = (\<not> (\<not> namespaceAllowed L (inc_Namespace i) \<or> inc_Namespace i = ''kubepilot-benchmark'' \<or> list_ex evaluation_alert (inc_Alerts i)) \<and>
     \<not> (inc_Status i \<noteq> StatusResolved \<or> inc_Confidence i < learning_threshold L \<or> inc_DiagnosisError i \<noteq> []) \<and>
     recovered E i \<and> \<not> length (cause_sources i) < 2)"

section \<open>The diagnosis that is learned\<close>

definition brain_diagnosis :: "Incident \<Rightarrow> (Investigation \<times> AgentDiagnosis) option" where
  "brain_diagnosis i = (case inc_Investigation i of None \<Rightarrow> None
     | Some study \<Rightarrow> if inv_Architecture study \<noteq> ''eino-native-self-reflective-brain'' then None
         else (case (inv_AgentDiagnosis study, inv_Termination study, inc_ExecutionSnapshot i) of
             (Some d, Some t, Some snapshot) \<Rightarrow>
               if term_Reason t \<noteq> TerminationRecoverySucceeded \<or> diag_Provisional d \<or> diag_GroundingLevel d \<noteq> GroundingSupported \<or>
                  diag_ExecutionSnapshot d \<noteq> snapshot
               then None else Some (study, d)
           | _ \<Rightarrow> None))"

definition diagnosis_validated :: "Investigation \<Rightarrow> AgentDiagnosis \<Rightarrow> bool" where
  "diagnosis_validated study d = list_ex (\<lambda>v. dv_DiagnosisID v = diag_ID d \<and> dv_HypothesisRevisionID v = diag_HypothesisRevisionID d \<and> dv_Valid v \<and>
     \<not> dv_Provisional v \<and> dv_GroundingLevel v = GroundingSupported \<and> dv_EvidenceSnapshotHash v = diag_EvidenceSnapshotHash d \<and>
     dv_ExecutionSnapshot v = diag_ExecutionSnapshot d) (inv_DiagnosisValidations study)"

definition hypothesis_admitted :: "Investigation \<Rightarrow> AgentDiagnosis \<Rightarrow> bool" where
  "hypothesis_admitted study d = list_ex (\<lambda>a. adm_HypothesisRevisionID a = diag_HypothesisRevisionID d \<and> adm_Decision a = ''ADMITTED'' \<and>
     adm_GroundingLevel a \<noteq> AdmissionUnresolved) (inv_HypothesisAdmissions study)"

definition hypothesis_supported :: "Investigation \<Rightarrow> AgentDiagnosis \<Rightarrow> bool" where
  "hypothesis_supported study d = list_ex (\<lambda>h. hyp_ID h = diag_HypothesisRevisionID d \<and> hyp_Status h = HypothesisSupported \<and>
     hyp_LastValidatedSnapshotHash h = diag_EvidenceSnapshotHash d) (inv_AgentHypotheses study)"

definition current_grounding :: "Investigation \<Rightarrow> AgentDiagnosis \<Rightarrow> HypothesisGrounding option" where
  "current_grounding study d = find (\<lambda>g. gr_HypothesisRevisionID g = diag_HypothesisRevisionID d \<and> gr_Level g = GroundingSupported \<and>
     gr_EvidenceSnapshotHash g = diag_EvidenceSnapshotHash d) (inv_HypothesisGroundings study)"

definition weak_grounding :: "HypothesisGrounding \<Rightarrow> bool" where
  "weak_grounding g = (gre_EvidenceSupport (gr_Evidence g) < 13/20 \<or> gre_ContradictionRatio (gr_Evidence g) > 1/10 \<or>
     gcov_EvidenceNeedCoverage (gr_Coverage g) < 4/5 \<or> gcov_TargetScopeCoverage (gr_Coverage g) < 1 \<or> gcov_TemporalCoverage (gr_Coverage g) < 4/5)"

definition validatedBrainLearningContext :: "Incident \<Rightarrow> (AgentDiagnosis \<times> HypothesisGrounding) option" where
  "validatedBrainLearningContext i = (case brain_diagnosis i of None \<Rightarrow> None
     | Some (study, d) \<Rightarrow>
         if \<not> diagnosis_validated study d \<or> \<not> hypothesis_admitted study d \<or> \<not> hypothesis_supported study d then None
         else (case current_grounding study d of None \<Rightarrow> None
           | Some g \<Rightarrow> if weak_grounding g then None
               else if list_ex (\<lambda>x. trr_Infrastructure (bte_Result x)) (inv_ToolExecutions study) then None
               else Some (d, g)))"

definition ledger_selection :: "Incident \<Rightarrow> VerifiedHypothesis option" where
  "ledger_selection i = (case inc_DiagnosisLedger i of None \<Rightarrow> None
     | Some l \<Rightarrow> if led_InfrastructureErrors l \<noteq> [] then None
         else (case find (\<lambda>v. hd_ID (vh_Draft v) = led_SelectedHypothesisID l) (led_Verified l) of None \<Rightarrow> None
           | Some v \<Rightarrow> if vh_ContradictionScore v > 1/10 then None else Some v))"

section \<open>What is stored\<close>

definition uniqueLearningStrings :: "string list \<Rightarrow> string list" where
  "uniqueLearningStrings vs = unique_by ToLower {} (filter (\<lambda>v. v \<noteq> []) (map TrimSpace vs))"

definition learningCausalProposal :: "learning_env \<Rightarrow> Incident \<Rightarrow> (AgentDiagnosis \<times> HypothesisGrounding) option \<Rightarrow> Proposal option" where
  "learningCausalProposal E i brain = (case brain of
       None \<Rightarrow> ProposalFromIncident (le_PatternDigest E) (Some i) (le_Now E)
     | Some (d, g) \<Rightarrow> let path = uniqueLearningStrings [diag_Mechanism d, diag_Statement d, diag_Category d] in
         if length path < 2 then None
         else ProposalFromDraft (le_PatternDigest E) i (hd path) path (gre_SupportingEvidenceIDs (gr_Evidence g)) (gre_EvidenceSupport (gr_Evidence g)) (le_Now E))"

definition selectedContradiction :: "VerifiedHypothesis option \<Rightarrow> HypothesisGrounding option \<Rightarrow> rat" where
  "selectedContradiction selected grounding = (case grounding of Some g \<Rightarrow> gre_ContradictionRatio (gr_Evidence g)
     | None \<Rightarrow> (case selected of Some v \<Rightarrow> vh_ContradictionScore v | None \<Rightarrow> 1))"

definition first_candidate :: "Incident \<Rightarrow> RetrievalCandidate option" where
  "first_candidate i = (case inc_DiagnosisLedger i of None \<Rightarrow> None | Some l \<Rightarrow> (case led_Candidates l of [] \<Rightarrow> None | c # _ \<Rightarrow> Some c))"

definition featuresFromLedger :: "Incident \<Rightarrow> IncidentFeatures" where
  "featuresFromLedger i = zero_IncidentFeatures\<lparr>if_IncidentID := inc_ID i, if_Cluster := inc_Cluster i, if_Namespace := inc_Namespace i,
     if_Service := inc_Service i, if_Resource := inc_Resource i,
     if_TopologyServices := (case first_candidate i of None \<Rightarrow> [] | Some c \<Rightarrow> if_TopologyServices (rc_Features c)) @
       filter (\<lambda>v. v \<noteq> []) (map ev_Service (inc_Evidence i)),
     if_EvidenceTypes := map ev_Type (inc_Evidence i), if_Terms := concat (map (\<lambda>e. Fields (ToLower (ev_Summary e))) (inc_Evidence i)),
     if_CausalNodeIDs := concat (map ev_CausalNodeIDs (inc_Evidence i))\<rparr>"

definition widened :: "time \<times> time \<Rightarrow> OperationalEvent \<Rightarrow> time \<times> time" where
  "widened = (\<lambda>(start, stop) event. if IsZero (oe2_OccurredAt event) then (start, stop)
     else (if IsZero start \<or> oe2_OccurredAt event < start then oe2_OccurredAt event else start,
           if IsZero stop \<or> oe2_OccurredAt event > stop then oe2_OccurredAt event else stop))"

definition model_features :: "OperationalWorldModel \<Rightarrow> IncidentFeatures \<Rightarrow> IncidentFeatures" where
  "model_features model f =
     (let (start, stop) = foldl widened (owm_BuiltAt model, owm_BuiltAt model) (owm_Timeline model)
      in f\<lparr>if_WindowStart := start, if_WindowEnd := stop,
           if_TopologyServices := if_TopologyServices f @ concat (map (\<lambda>e. [oe_Service e, oe_Resource e]) (owm_Entities model)),
           if_Terms := if_Terms f @ concat (map (\<lambda>s. Fields (ToLower (os_Category s @ '' '' @ os_Signal s @ '' '' @ os_Direction s))) (owm_AbnormalSignals model)),
           if_Observed := foldl (\<lambda>m s. m(ms2_Name s \<mapsto> (if ms2_Value s = 0 then ms2_Strength s else ms2_Value s))) (if_Observed f) (owm_MetricSignatures model)\<rparr>)"

definition featuresFromBrain :: "learning_env \<Rightarrow> Incident \<Rightarrow> IncidentFeatures" where
  "featuresFromBrain E i =
     (let f = (featuresFromLedger i)\<lparr>if_Observed := Map.empty\<rparr> in
      case inc_Investigation i of None \<Rightarrow> f
      | Some study \<Rightarrow>
          let f = (case inv_WorldModel study of None \<Rightarrow> f | Some model \<Rightarrow> model_features model f);
              graph = BuildTopology (le_Sprint E) (Some i) (inc_Evidence i)
          in f\<lparr>if_TopologyGraph := ToDependencyGraph graph (inc_Service i), if_TopologyServices := uniqueLearningStrings (if_TopologyServices f),
               if_Terms := uniqueLearningStrings (if_Terms f)\<rparr>)"

definition learned_nodes :: "Incident \<Rightarrow> VerifiedHypothesis \<Rightarrow> CausalNode list" where
  "learned_nodes i v = (let path = hd_ExpectedCausalPath (vh_Draft v) in
     map (\<lambda>(k, node). zero_CausalNode\<lparr>cn_ID := ''node_'' @ Itoa (int k),
       cn_Type := (if k = 0 then ''cause'' else if k = length path - 1 then ''symptom'' else ''mechanism''), cn_Name := node, cn_Match := [node],
       cn_Confidence := inc_Confidence i, cn_SourceEvidenceIDs := vh_VerifiedEvidenceIDs v\<rparr>) (enumerate 0 path))"

definition learned_edges :: "Incident \<Rightarrow> VerifiedHypothesis \<Rightarrow> CausalEdge list" where
  "learned_edges i v = (let path = hd_ExpectedCausalPath (vh_Draft v) in
     map (\<lambda>k. \<lparr>ce_From = ''node_'' @ Itoa (int (k - 1)), ce_To = ''node_'' @ Itoa (int k),
       ce_Relation = (if k = length path - 1 then ''manifests_as'' else ''causes''), ce_Confidence = inc_Confidence i\<rparr>) [1..<length path])"

definition selectLearnedPattern :: "learning_env \<Rightarrow> Incident \<Rightarrow> DiagnosisLedger \<Rightarrow> VerifiedHypothesis \<Rightarrow> CausalPattern" where
  "selectLearnedPattern E i ledger v =
     (case find (\<lambda>p. cp_Category p = hd_Category (vh_Draft v)) (led_CausalPatterns ledger) of
        Some p \<Rightarrow> p\<lparr>cp_Cluster := inc_Cluster i, cp_Namespace := inc_Namespace i\<rparr>
      | None \<Rightarrow> zero_CausalPattern\<lparr>
          cp_ID := ''learned-'' @ le_NameDigest E (ToLower (inc_Cluster i @ ''|'' @ inc_Namespace i @ ''|'' @ hd_Category (vh_Draft v) @ ''|'' @
              Join (hd_ExpectedCausalPath (vh_Draft v)) ''->'')),
          cp_Category := hd_Category (vh_Draft v), cp_Cause := hd_Cause (vh_Draft v), cp_Nodes := learned_nodes i v, cp_Edges := learned_edges i v,
          cp_Cluster := inc_Cluster i, cp_Namespace := inc_Namespace i, cp_Source := ''learned'', cp_Confidence := inc_Confidence i,
          cp_Status := ''candidate'', cp_Version := 1\<rparr>)"

section \<open>The steps of learning\<close>

type_synonym 'w learning_step = "'w learning_state \<Rightarrow> string option \<times> 'w learning_state"

definition and_then :: "'w learning_step \<Rightarrow> 'w learning_step \<Rightarrow> 'w learning_step" where
  "and_then f g s = (case f s of (Some err, s') \<Rightarrow> (Some err, s') | (None, s') \<Rightarrow> g s')"

definition in_world :: "('w \<Rightarrow> string option \<times> 'w) \<Rightarrow> 'w learning_step" where
  "in_world f s = (case f (lst_World s) of (err, w) \<Rightarrow> (err, s\<lparr>lst_World := w\<rparr>))"

definition wrapped :: "string \<Rightarrow> string option \<Rightarrow> string option" where
  "wrapped what err = map_option (\<lambda>e. what @ e) err"

definition learning_topology :: "learning_env \<Rightarrow> Incident \<Rightarrow> IncidentGraph" where
  "learning_topology E i =
     (let graph = BuildTopology (le_Sprint E) (Some i) (inc_Evidence i) in
      case first_candidate i of None \<Rightarrow> graph
      | Some c \<Rightarrow> let observed = if_TopologyGraph (rc_Features c) in
          if idg_Nodes observed \<noteq> [] \<or> idg_Edges observed \<noteq> [] then MergeGraphs [graph, FromDependencyGraph (inc_ID i) observed] else graph)"

definition evolve_topology :: "learning_env \<Rightarrow> 'w CausalLearner \<Rightarrow> Incident \<Rightarrow> 'w learning_step" where
  "evolve_topology E L i s = (if \<not> cl_TopologyPatterns L then (None, s)
     else (case TopologyMerge (le_TopologyDigest E) (Some i) (learning_topology E i) (le_Now E) (lst_Topology s) of
         (Inl err, store) \<Rightarrow> (Some (''evolve topology knowledge: '' @ err), s\<lparr>lst_Topology := store\<rparr>)
       | (Inr _, store) \<Rightarrow> (None, s\<lparr>lst_Topology := store\<rparr>)))"

definition support_event :: "'w KnowledgeStore \<Rightarrow> Incident \<Rightarrow> CausalPattern \<Rightarrow> 'w \<Rightarrow> string option \<times> 'w" where
  "support_event K i p = ks_RecordCausalPatternEvent K (cp_ID p) (inc_ID i) ''incident_support'' ''resolved incident met causal knowledge gates''
     [''confidence'' \<mapsto> AFloat (cp_Confidence p), ''support_count'' \<mapsto> AInt (cp_SupportCount p), ''status'' \<mapsto> AString (cp_Status p)]"

definition evolve_causal :: "learning_env \<Rightarrow> 'w CausalLearner \<Rightarrow> 'w KnowledgeStore \<Rightarrow> Incident \<Rightarrow> Proposal option \<Rightarrow> 'w learning_step" where
  "evolve_causal E L K i proposal s = (case (cl_CausalPatterns L, proposal) of
       (True, Some x) \<Rightarrow>
         (let (r, err) = Validate (le_PatternDigest E) NewValidator (Some (Inr (causal_List [] 0 (lst_Causal s)))) (Some i) x in
          case err of Some e \<Rightarrow> (Some (''validate causal knowledge proposal: '' @ e), s)
          | None \<Rightarrow> if \<not> vr_Valid r then (None, s)
              else let (merged, store) = causal_Merge (le_PatternDigest E) ((pro_Pattern x)\<lparr>cp_Confidence := vr_Confidence r, cp_Status := ''candidate''\<rparr>) (lst_Causal s)
                in in_world (support_event K i merged) (s\<lparr>lst_Causal := store\<rparr>))
     | _ \<Rightarrow> (None, s))"

definition run_discovery :: "learning_env \<Rightarrow> 'w CausalLearner \<Rightarrow> 'w learning_step" where
  "run_discovery E L s = (case (cl_Discovery L, cl_IncidentHistory L) of
       (Some engine, Some history) \<Rightarrow> (case history (cl_Namespaces L) 500 (lst_World s) of
           Inl e \<Rightarrow> (Some (''load resolved incidents for causal discovery: '' @ e), s)
         | Inr resolved \<Rightarrow> (case Discover (le_PatternDigest E) (le_PathDigest E) engine (le_Now E) resolved (lst_Candidates s, lst_Causal s) of
               (_, cands, store) \<Rightarrow> (None, s\<lparr>lst_Candidates := cands, lst_Causal := store\<rparr>)))
     | _ \<Rightarrow> (None, s))"

definition learned_document :: "Incident \<Rightarrow> rat list \<Rightarrow> Document" where
  "learned_document i vector = \<lparr>doc_ID = inc_ID i, doc_Service = inc_Service i, doc_Cluster = inc_Cluster i, doc_Namespace = inc_Namespace i,
     doc_Category = inc_RootCauseCategory i, doc_Template = inc_Summary i, doc_RootCause = inc_RootCause i,
     doc_Recovery = (case inc_Proposal i of None \<Rightarrow> [] | Some p \<Rightarrow> action_name (rp_Action p)), doc_Level = [], doc_OccurrenceCount = 0, doc_Vector = vector, doc_Score = 0\<rparr>"

definition index_incident :: "'w CausalLearner \<Rightarrow> Incident \<Rightarrow> IncidentFeatures \<Rightarrow> 'w learning_step" where
  "index_incident L i f s = (case (cl_Embedder L, cl_Vectors L) of
       (Some encode, Some upsert) \<Rightarrow>
         (case encode [Join ([inc_Summary i, inc_RootCause i, inc_RootCauseCategory i, inc_RootCauseVariant i, inc_Service i, inc_Resource i] @ if_Terms f) '' ''] of
            Inl e \<Rightarrow> (Some (''index learned incident embedding: '' @ e), s)
          | Inr vectors \<Rightarrow>
              if length vectors \<noteq> 1
              then (Some (''index learned incident embedding: expected one vector, got '' @ Itoa (int (length vectors))), s)
              else (case in_world (upsert [learned_document i (hd vectors)]) s of (err, s') \<Rightarrow> (wrapped ''index learned incident vector: '' err, s')))
     | _ \<Rightarrow> (None, s))"

definition promote_pattern :: "'w KnowledgeStore \<Rightarrow> Incident \<Rightarrow> CausalPattern \<Rightarrow> 'w learning_step" where
  "promote_pattern K i p s = (case ks_CountCausalPatternSupport K (cp_ID p) (lst_World s) of Inl err \<Rightarrow> (Some err, s)
     | Inr supports \<Rightarrow> (case ks_GetCausalPattern K (cp_ID p) (lst_World s) of Inl err \<Rightarrow> (Some err, s)
       | Inr current \<Rightarrow>
           if supports < 3 then
             (if cp_Status current = ''candidate''
              then and_then (in_world (ks_SetCausalPatternStatus K (cp_ID p) ''validating'' ''causal-pattern-learner''))
                (in_world (ks_RecordCausalPatternEvent K (cp_ID p) (inc_ID i) ''validation_started''
                   ''first qualified production incident moved the candidate into validation'' [''support_count'' \<mapsto> AInt supports])) s
              else (None, s))
           else if cp_Status current \<noteq> ''active''
           then and_then (in_world (ks_SetCausalPatternStatus K (cp_ID p) ''active'' ''causal-auto-learner''))
             (in_world (ks_RecordCausalPatternEvent K (cp_ID p) (inc_ID i) ''auto_activated''
                (Itoa supports @ '' independent resolved incidents support the normalized pattern'') [''support_count'' \<mapsto> AInt supports])) s
           else (None, s)))"

definition seed_pattern :: "'w KnowledgeStore \<Rightarrow> Incident \<Rightarrow> rat \<Rightarrow> CausalPattern \<Rightarrow> 'w learning_step" where
  "seed_pattern K i contradiction p0 =
     (let p = p0\<lparr>cp_Status := ''candidate''\<rparr> in
      and_then (in_world (ks_SeedCausalPatterns K [p]))
        (and_then (in_world (ks_RecordCausalPatternEvent K (cp_ID p) (inc_ID i) ''incident_support''
            ''resolved incident met high-confidence causal learning gates''
            [''confidence'' \<mapsto> AFloat (inc_Confidence i), ''evidence_sources'' \<mapsto> AInt (int (length (cause_sources i))),
             ''contradiction_score'' \<mapsto> AFloat contradiction]))
          (promote_pattern K i p)))"

definition unmanaged_pattern :: "learning_env \<Rightarrow> Incident \<Rightarrow> (AgentDiagnosis \<times> HypothesisGrounding) option \<Rightarrow> VerifiedHypothesis option \<Rightarrow>
    Proposal option \<Rightarrow> CausalPattern option" where
  "unmanaged_pattern E i brain selected proposal = (case brain of
       Some _ \<Rightarrow> map_option pro_Pattern proposal
     | None \<Rightarrow> (case (inc_DiagnosisLedger i, selected) of (Some l, Some v) \<Rightarrow> Some (selectLearnedPattern E i l v) | _ \<Rightarrow> None))"

definition learn_from :: "learning_env \<Rightarrow> 'w CausalLearner \<Rightarrow> 'w KnowledgeStore \<Rightarrow> Incident \<Rightarrow> (AgentDiagnosis \<times> HypothesisGrounding) option \<Rightarrow>
    VerifiedHypothesis option \<Rightarrow> 'w learning_step" where
  "learn_from E L K i brain selected =
     (let proposal = learningCausalProposal E i brain;
          f = (if brain = None then featuresFromLedger i else featuresFromBrain E i)
      in and_then (evolve_topology E L i)
         (and_then (evolve_causal E L K i proposal)
         (and_then (run_discovery E L)
         (and_then (in_world (ks_UpsertIncidentKnowledge K i f (cl_EmbeddingVersion L)))
         (and_then (index_incident L i f)
           (if cl_CausalPatterns L then Pair None
            else (case unmanaged_pattern E i brain selected proposal of None \<Rightarrow> Pair None
              | Some p \<Rightarrow> seed_pattern K i (selectedContradiction selected (map_option snd brain)) p)))))))"

definition Learn :: "learning_env \<Rightarrow> 'w CausalLearner \<Rightarrow> Incident option \<Rightarrow> 'w learning_step" where
  "Learn E L i0 s = (case (cl_Store L, i0) of
       (Some K, Some i) \<Rightarrow>
         if \<not> learnable E L i then (None, s)
         else (case validatedBrainLearningContext i of
             Some brain \<Rightarrow> learn_from E L K i (Some brain) None s
           | None \<Rightarrow> (case ledger_selection i of None \<Rightarrow> (None, s) | Some v \<Rightarrow> learn_from E L K i None (Some v) s))
     | _ \<Rightarrow> (None, s))"

definition WriteVerifiedIncident :: "learning_env \<Rightarrow> 'w CausalLearner \<Rightarrow> Incident option \<Rightarrow> 'w learning_step" where
  "WriteVerifiedIncident = Learn"

section \<open>What reaches the causal store\<close>

lemma and_then_causal:
  assumes "\<And>s. P s (snd (f s))" "\<And>s. P s (snd (g s))" "\<And>r s t. P r s \<Longrightarrow> P s t \<Longrightarrow> P r t"
  shows "P s (snd (and_then f g s))"
  using assms(1) [of s] assms(2) [of "snd (f s)"] assms(3)
  by (auto simp: and_then_def split: prod.splits option.splits)

lemma and_then_ok: "f s = (None, t) \<Longrightarrow> and_then f g s = g t"
  by (simp add: and_then_def)

lemma in_world_causal [simp]: "lst_Causal (snd (in_world f s)) = lst_Causal s"
  by (simp add: in_world_def split: prod.split)

lemma evolve_topology_causal [simp]: "lst_Causal (snd (evolve_topology E L i s)) = lst_Causal s"
  by (simp add: evolve_topology_def split: prod.split sum.split)

lemma index_incident_causal [simp]: "lst_Causal (snd (index_incident L i f s)) = lst_Causal s"
  by (auto simp: index_incident_def split: option.split sum.split prod.split) (metis in_world_causal snd_conv)

lemma and_then_kept:
  "(\<And>s. lst_Causal (snd (f s)) = lst_Causal s) \<Longrightarrow> (\<And>s. lst_Causal (snd (g s)) = lst_Causal s) \<Longrightarrow> lst_Causal (snd (and_then f g s)) = lst_Causal s"
  by (rule and_then_causal [where P = "\<lambda>s t. lst_Causal t = lst_Causal s"]) simp_all

lemma promote_pattern_causal [simp]: "lst_Causal (snd (promote_pattern K i p s)) = lst_Causal s"
  by (auto simp: promote_pattern_def and_then_kept split: sum.split)

lemma seed_pattern_causal [simp]: "lst_Causal (snd (seed_pattern K i c p s)) = lst_Causal s"
  by (simp add: seed_pattern_def and_then_kept Let_def)

lemma draft_sources: "ProposalFromDraft D i cause path ids prior now = Some x \<Longrightarrow> cp_SourceIncidents (pro_Pattern x) = [inc_ID i]"
  by (auto simp: ProposalFromDraft_def Canonicalize_def normal_pattern_def draft_pattern_def Let_def split: if_splits)

lemma proposal_sources: "learningCausalProposal E i brain = Some x \<Longrightarrow> cp_SourceIncidents (pro_Pattern x) = [inc_ID i]"
  by (auto simp: learningCausalProposal_def ProposalFromIncident_def Let_def dest!: draft_sources split: option.splits if_splits prod.splits)

text \<open>The patterns merged into the store by learning from one incident, at most one.\<close>

lemma evolve_causal_merges:
  assumes "learningCausalProposal E i brain = proposal"
  shows "\<exists>ps. lst_Causal (snd (evolve_causal E L K i proposal s)) = foldl (\<lambda>s p. snd (causal_Merge (le_PatternDigest E) p s)) (lst_Causal s) ps \<and>
    (\<forall>p \<in> set ps. cp_SourceIncidents p = [inc_ID i])"
proof (cases "\<exists>x r. cl_CausalPatterns L \<and> proposal = Some x \<and>
    Validate (le_PatternDigest E) NewValidator (Some (Inr (causal_List [] 0 (lst_Causal s)))) (Some i) x = (r, None) \<and> vr_Valid r")
  case True
  then obtain x r where x: "cl_CausalPatterns L" "proposal = Some x"
    "Validate (le_PatternDigest E) NewValidator (Some (Inr (causal_List [] 0 (lst_Causal s)))) (Some i) x = (r, None)" "vr_Valid r" by blast
  let ?p = "(pro_Pattern x)\<lparr>cp_Confidence := vr_Confidence r, cp_Status := ''candidate''\<rparr>"
  have "lst_Causal (snd (evolve_causal E L K i proposal s)) = foldl (\<lambda>s p. snd (causal_Merge (le_PatternDigest E) p s)) (lst_Causal s) [?p]"
    using x by (simp add: evolve_causal_def split: prod.split)
  moreover have "cp_SourceIncidents ?p = [inc_ID i]" using proposal_sources assms x(2) by simp
  ultimately show ?thesis by (intro exI [of _ "[?p]"]) simp
next
  case False
  then have "lst_Causal (snd (evolve_causal E L K i proposal s)) = lst_Causal s"
    by (auto simp: evolve_causal_def split: option.split prod.split bool.split)
  then show ?thesis by (intro exI [of _ "[]"]) simp
qed

lemma Learn_merges:
  assumes "cl_Discovery L = None"
  shows "\<exists>ps. lst_Causal (snd (Learn E L i0 s)) = foldl (\<lambda>s p. snd (causal_Merge (le_PatternDigest E) p s)) (lst_Causal s) ps \<and>
    (\<forall>p \<in> set ps. \<exists>i. i0 = Some i \<and> learnable E L i \<and> cp_SourceIncidents p = [inc_ID i])"
proof -
  let ?merges = "\<lambda>i s t. \<exists>ps. lst_Causal t = foldl (\<lambda>s p. snd (causal_Merge (le_PatternDigest E) p s)) (lst_Causal s) ps \<and>
      (\<forall>p \<in> set ps. cp_SourceIncidents p = [inc_ID i])"
  have keep: "?merges i s t" if "lst_Causal t = lst_Causal s" for i s t
    using that by (intro exI [of _ "[]"]) simp
  have trans: "?merges i r t" if "?merges i r s" "?merges i s t" for i r s t
  proof -
    obtain ps qs where ps: "lst_Causal s = foldl (\<lambda>s p. snd (causal_Merge (le_PatternDigest E) p s)) (lst_Causal r) ps"
        "\<forall>p \<in> set ps. cp_SourceIncidents p = [inc_ID i]"
      and qs: "lst_Causal t = foldl (\<lambda>s p. snd (causal_Merge (le_PatternDigest E) p s)) (lst_Causal s) qs" "\<forall>p \<in> set qs. cp_SourceIncidents p = [inc_ID i]"
      using \<open>?merges i r s\<close> \<open>?merges i s t\<close> by blast
    then show ?thesis by (intro exI [of _ "ps @ qs"]) auto
  qed
  have kept: "lst_Causal (snd (run_discovery E L s)) = lst_Causal s" for s using assms by (simp add: run_discovery_def)
  have learned: "?merges i s (snd (learn_from E L K i brain selected s))" for K i brain selected s
    unfolding learn_from_def Let_def
  proof (rule and_then_causal [where P = "?merges i", OF keep and_then_causal [where P = "?merges i"]])
    show "?merges i s (snd (evolve_causal E L K i (learningCausalProposal E i brain) s))" for s
      by (rule evolve_causal_merges) simp
    show "?merges i s (snd (and_then (run_discovery E L) (and_then (in_world (ks_UpsertIncidentKnowledge K i
        (if brain = None then featuresFromLedger i else featuresFromBrain E i) (cl_EmbeddingVersion L)))
        (and_then (index_incident L i (if brain = None then featuresFromLedger i else featuresFromBrain E i))
          (if cl_CausalPatterns L then Pair None
           else case unmanaged_pattern E i brain selected (learningCausalProposal E i brain) of None \<Rightarrow> Pair None
             | Some p \<Rightarrow> seed_pattern K i (selectedContradiction selected (map_option snd brain)) p))) s))" for s
      by (rule keep, intro and_then_kept) (auto simp: kept split: option.split)
  qed (auto intro: trans)
  show ?thesis
  proof (cases "\<exists>K i. cl_Store L = Some K \<and> i0 = Some i \<and> learnable E L i")
    case True
    then obtain K i where i: "cl_Store L = Some K" "i0 = Some i" "learnable E L i" by blast
    then have "snd (Learn E L i0 s) = s \<or> (\<exists>brain selected. snd (Learn E L i0 s) = snd (learn_from E L K i brain selected s))"
      by (auto simp: Learn_def split: option.split)
    then have "?merges i s (snd (Learn E L i0 s))"
    proof
      assume "snd (Learn E L i0 s) = s"
      then show ?thesis by (intro keep) simp
    next
      assume "\<exists>brain selected. snd (Learn E L i0 s) = snd (learn_from E L K i brain selected s)"
      then show ?thesis using learned by fastforce
    qed
    then show ?thesis using i by blast
  next
    case False
    then have "snd (Learn E L i0 s) = s" by (auto simp: Learn_def split: option.split)
    then show ?thesis by (intro exI [of _ "[]"]) simp
  qed
qed

text \<open>The knowledge after a sequence of incidents, each with the environment of its call.\<close>

definition learn_all :: "'w CausalLearner \<Rightarrow> (learning_env \<times> Incident option) list \<Rightarrow> 'w learning_state \<Rightarrow> 'w learning_state" where
  "learn_all L calls s = foldl (\<lambda>s (E, i). snd (Learn E L i s)) s calls"

lemma learn_all_merges:
  assumes "cl_Discovery L = None" "lst_Causal s = []" "\<forall>(E, i) \<in> set calls. le_PatternDigest E = D"
  shows "\<exists>ps. lst_Causal (learn_all L calls s) = merged_all D ps \<and>
    (\<forall>p \<in> set ps. \<exists>E i. (E, Some i) \<in> set calls \<and> learnable E L i \<and> cp_SourceIncidents p = [inc_ID i])"
  using assms(3)
proof (induction calls rule: rev_induct)
  case Nil
  then show ?case using assms(2) by (intro exI [of _ "[]"]) (simp add: learn_all_def merged_all_def)
next
  case (snoc call calls)
  obtain E i where call: "call = (E, i)" by (cases call)
  then have D: "le_PatternDigest E = D" using snoc.prems by simp
  obtain ps where ps: "lst_Causal (learn_all L calls s) = merged_all D ps"
      "\<forall>p \<in> set ps. \<exists>E i. (E, Some i) \<in> set calls \<and> learnable E L i \<and> cp_SourceIncidents p = [inc_ID i]"
    using snoc by auto
  obtain qs where qs: "lst_Causal (snd (Learn E L i (learn_all L calls s))) = foldl (\<lambda>s p. snd (causal_Merge D p s)) (merged_all D ps) qs"
      "\<forall>p \<in> set qs. \<exists>j. i = Some j \<and> learnable E L j \<and> cp_SourceIncidents p = [inc_ID j]"
    using Learn_merges [OF assms(1), of E i "learn_all L calls s"] by (auto simp: D ps(1))
  have "lst_Causal (learn_all L (calls @ [call]) s) = merged_all D (ps @ qs)"
    using qs(1) by (simp add: learn_all_def call merged_all_def)
  moreover have "\<forall>p \<in> set (ps @ qs). \<exists>E i. (E, Some i) \<in> set (calls @ [call]) \<and> learnable E L i \<and> cp_SourceIncidents p = [inc_ID i]"
  proof
    fix p assume "p \<in> set (ps @ qs)"
    then consider "p \<in> set ps" | "p \<in> set qs" by auto
    then show "\<exists>E i. (E, Some i) \<in> set (calls @ [call]) \<and> learnable E L i \<and> cp_SourceIncidents p = [inc_ID i]"
    proof cases
      case 1
      then obtain E' j where "(E', Some j) \<in> set calls" "learnable E' L j" "cp_SourceIncidents p = [inc_ID j]" using ps(2) by blast
      then show ?thesis by (intro exI [of _ E'] exI [of _ j]) simp
    next
      case 2
      then obtain j where "i = Some j" "learnable E L j" "cp_SourceIncidents p = [inc_ID j]" using qs(2) by blast
      then show ?thesis by (intro exI [of _ E] exI [of _ j]) (simp add: call)
    qed
  qed
  ultimately show ?case by blast
qed

text \<open>The incidents among the calls that a human approved, that were repaired and verified, and that the learner may use.\<close>

definition repaired :: "'w CausalLearner \<Rightarrow> (learning_env \<times> Incident option) list \<Rightarrow> string set" where
  "repaired L calls = {inc_ID i | E i x v. (E, Some i) \<in> set calls \<and> inc_Status i = StatusResolved \<and> inc_Namespace i \<in> set (cl_Namespaces L) \<and>
     \<not> list_ex evaluation_alert (inc_Alerts i) \<and> inc_ExecutionContext i = Some x \<and> ec_ApprovalID x \<noteq> [] \<and>
     inc_Verification i = Some v \<and> ver_Success v \<and> 3 \<le> passed_checks E v \<and> 2 \<le> length (cause_sources i) \<and> learning_threshold L \<le> inc_Confidence i}"

lemma learnable_repaired: "(E, Some i) \<in> set calls \<Longrightarrow> learnable E L i \<Longrightarrow> inc_ID i \<in> repaired L calls"
  by (auto simp: repaired_def learnable_def recovered_def namespaceAllowed_def not_less split: option.splits)


section \<open>Incidents without dependencies\<close>

text \<open>An incident of a service without reusable dependencies teaches nothing at all.  When the topology patterns are configured and
  the topology of the incident has no edge between two roles, learning stops with an error before the causal
  pattern, the features and the vector of the incident are stored, whatever the diagnosis and the recovery were.\<close>

theorem incident_without_dependencies_teaches_nothing:
  assumes "cl_Store L = Some K" "cl_TopologyPatterns L" "learnable E L i" "validatedBrainLearningContext i \<noteq> None \<or> ledger_selection i \<noteq> None"
    and "stp_Edges (NormalizePattern (le_TopologyDigest E) (learning_topology E i) (le_Now E)) = []"
  shows "\<exists>err. Learn E L (Some i) s = (Some (''evolve topology knowledge: '' @ err), s)"
proof -
  have "\<exists>err. ExtractTopology (le_TopologyDigest E) (Some i) (learning_topology E i) (le_Now E) = Inl err"
    using assms(5) by (simp add: ExtractTopology_def Let_def)
  then obtain err where "ExtractTopology (le_TopologyDigest E) (Some i) (learning_topology E i) (le_Now E) = Inl err" by blast
  then have "evolve_topology E L i s = (Some (''evolve topology knowledge: '' @ err), s)"
    using assms(2) by (simp add: evolve_topology_def TopologyMerge_def)
  then have "learn_from E L K i brain selected s = (Some (''evolve topology knowledge: '' @ err), s)" for brain selected
    by (simp add: learn_from_def and_then_def Let_def)
  then show ?thesis using assms(1,3,4) by (auto simp: Learn_def split: option.split)
qed

section \<open>Examples\<close>

definition null_store :: "unit KnowledgeStore" where
  "null_store = \<lparr>ks_UpsertIncidentKnowledge = (\<lambda>_ _ _ w. (None, w)), ks_SeedCausalPatterns = (\<lambda>_ w. (None, w)),
     ks_GetCausalPattern = (\<lambda>_ _. Inr zero_CausalPattern), ks_SetCausalPatternStatus = (\<lambda>_ _ _ w. (None, w)),
     ks_RecordCausalPatternEvent = (\<lambda>_ _ _ _ _ w. (None, w)), ks_CountCausalPatternSupport = (\<lambda>_ _. Inr 0)\<rparr>"

definition managed_learner :: "bool \<Rightarrow> unit CausalLearner" where
  "managed_learner topology = \<lparr>cl_Store = Some null_store, cl_ConfidenceThreshold = 0, cl_Namespaces = [''n''], cl_EmbeddingVersion = [], cl_Embedder = None,
     cl_Vectors = None, cl_TopologyPatterns = topology, cl_CausalPatterns = True, cl_Discovery = None, cl_IncidentHistory = None\<rparr>"

definition plain_env :: learning_env where
  "plain_env = \<lparr>le_PatternDigest = (\<lambda>_. ''x''), le_TopologyDigest = (\<lambda>_. ''y''), le_PathDigest = (\<lambda>s. s), le_NameDigest = (\<lambda>s. s),
     le_Sprint = (\<lambda>_. []), le_Keys = (\<lambda>_. [''a'', ''b'', ''c'']), le_Now = 1\<rparr>"

definition repaired_incident :: "string \<Rightarrow> Incident" where
  "repaired_incident k = zero_Incident\<lparr>inc_ID := k, inc_Status := StatusResolved, inc_Namespace := ''n'', inc_Confidence := 1,
     inc_RootCauseEvidenceIDs := [''l'', ''m''],
     inc_Evidence := [zero_Evidence\<lparr>ev_ID := ''l'', ev_Source := ''log'', ev_Confidence := 1\<rparr>, zero_Evidence\<lparr>ev_ID := ''m'', ev_Source := ''metric'', ev_Confidence := 1\<rparr>],
     inc_Proposal := Some zero_RecoveryProposal, inc_ExecutionContext := Some (zero_ExecutionContext\<lparr>ec_ApprovalID := ''a''\<rparr>),
     inc_Verification := Some (zero_Verification\<lparr>ver_Success := True, ver_Checks := [''a'' \<mapsto> True, ''b'' \<mapsto> True, ''c'' \<mapsto> True]\<rparr>),
     inc_DiagnosisLedger := Some (zero_DiagnosisLedger\<lparr>led_SelectedHypothesisID := ''h'',
        led_Verified := [zero_VerifiedHypothesis\<lparr>vh_Draft := zero_HypothesisDraft\<lparr>hd_ID := ''h'', hd_Cause := ''a'', hd_ExpectedCausalPath := [''a'', ''b'']\<rparr>,
          vh_VerifiedEvidenceIDs := [''l'', ''m''], vh_FinalScore := 1\<rparr>]\<rparr>)\<rparr>"

definition repaired_pattern :: "string \<Rightarrow> CausalPattern" where
  "repaired_pattern k = zero_CausalPattern\<lparr>cp_ID := ''causal-x'', cp_Cause := ''a'', cp_Nodes := 
    [zero_CausalNode\<lparr>cn_ID := ''e0'', cn_Type := ''observation'', cn_Source := ''log'', cn_SourceEvidenceIDs := [''l'']\<rparr>,
     zero_CausalNode\<lparr>cn_ID := ''e1'', cn_Type := ''observation'', cn_Source := ''metric'', cn_SourceEvidenceIDs := [''m'']\<rparr>,
     zero_CausalNode\<lparr>cn_ID := ''n0'', cn_Type := ''cause'', cn_Name := ''a''\<rparr>, zero_CausalNode\<lparr>cn_ID := ''n1'', cn_Type := ''symptom'', cn_Name := ''b''\<rparr>],
    cp_Edges := [zero_CausalEdge\<lparr>ce_From := ''e0'', ce_To := ''n0'', ce_Relation := ''supports''\<rparr>,
      zero_CausalEdge\<lparr>ce_From := ''e1'', ce_To := ''n1'', ce_Relation := ''supports''\<rparr>,
      zero_CausalEdge\<lparr>ce_From := ''n0'', ce_To := ''n1'', ce_Relation := ''causes''\<rparr>],
    cp_SupportingEvidence := [\<lparr>cep_Source = ''log'', cep_Type = [], cep_Tokens = []\<rparr>, \<lparr>cep_Source = ''metric'', cep_Type = [], cep_Tokens = []\<rparr>],
    cp_Namespace := ''n'', cp_Source := ''learned'', cp_Confidence := 1, cp_SourceIncidents := [k], cp_CreatedAt := 1, cp_UpdatedAt := 1, cp_Status := ''validating'', cp_Version := 1, cp_SupportCount := 1\<rparr>"

lemma repaired_facts:
  "learnable plain_env (managed_learner t) (repaired_incident k)" "validatedBrainLearningContext (repaired_incident k) = None"
  "ledger_selection (repaired_incident k) \<noteq> None" "\<not> excluded (repaired_incident k)"
  "list_all plain_source (cited_evidence (repaired_incident k) [''l'', ''m''])"
  "stp_Edges (NormalizePattern (\<lambda>_. ''y'') (learning_topology plain_env (repaired_incident k)) 1) = []"
  by code_simp+

lemma repaired_proposal: "learningCausalProposal plain_env (repaired_incident k) None = Some \<lparr>pro_Pattern = repaired_pattern k, pro_IncidentID = k\<rparr>"
  by code_simp

lemma incident_without_dependencies_teaches_nothing_witness:
  "\<exists>err. Learn plain_env (managed_learner True) (Some (repaired_incident ''1'')) \<lparr>lst_Topology = [], lst_Causal = [], lst_Candidates = [], lst_World = ()\<rparr> =
     (Some (''evolve topology knowledge: '' @ err), \<lparr>lst_Topology = [], lst_Causal = [], lst_Candidates = [], lst_World = ()\<rparr>)"
  by (rule incident_without_dependencies_teaches_nothing [where K = null_store])
    (simp_all add: repaired_facts, simp_all add: managed_learner_def plain_env_def repaired_facts(6) [unfolded plain_env_def])

lemma repaired_canonical: "canonical (\<lambda>_. ''x'') (repaired_pattern k)"
proof -
  have "ToLower (TrimSpace (cp_Cause (repaired_pattern k))) = cp_Cause (repaired_pattern k)"
    "sort_key cn_ID (map canonical_node (cp_Nodes (repaired_pattern k))) = cp_Nodes (repaired_pattern k)"
    "sort_key causal_edge_key (map canonical_edge (cp_Edges (repaired_pattern k))) = cp_Edges (repaired_pattern k)"
    "uniqueEvidence (cp_SupportingEvidence (repaired_pattern k)) = cp_SupportingEvidence (repaired_pattern k)"
    "uniqueEvidence (cp_ContradictingEvidence (repaired_pattern k)) = cp_ContradictingEvidence (repaired_pattern k)"
    "cp_ID (repaired_pattern k) = PatternID (\<lambda>_. ''x'') (repaired_pattern k)"
    by code_simp+
  then show ?thesis unfolding canonical_def normal_iff by blast
qed

lemma Validate_confidence:
  "Validate D v (Some (Inr ps)) i x = (r, e) \<Longrightarrow> vr_Valid r \<Longrightarrow> e = None \<and> vr_Confidence r = cp_Confidence (pro_Pattern x)"
  by (auto simp: Validate_def Let_def split: option.splits if_splits)

definition submitted_pattern :: "string \<Rightarrow> CausalPattern" where
  "submitted_pattern k = (repaired_pattern k)\<lparr>cp_Status := ''candidate''\<rparr>"

lemma repaired_learned:
  "lst_Causal (snd (Learn plain_env (managed_learner False) (Some (repaired_incident k)) s)) = snd (causal_Merge (\<lambda>_. ''x'') (submitted_pattern k) (lst_Causal s))"
proof -
  let ?i = "repaired_incident k" and ?D = "\<lambda>_ :: CausalPattern. ''x''"
  let ?x = "\<lparr>pro_Pattern = repaired_pattern k, pro_IncidentID = k\<rparr>"
  let ?r = "Validate ?D NewValidator (Some (Inr (causal_List [] 0 (lst_Causal s)))) (Some ?i) ?x"
  have "ProposalFromDraft ?D ?i ''a'' [''a'', ''b''] [''l'', ''m''] 1 1 = Some ?x" by code_simp
  moreover have "inc_Status ?i = StatusResolved" by code_simp
  ultimately have "vr_Valid (fst ?r)" using extracted_proposal_is_valid repaired_facts(4,5) by blast
  moreover have c: "cp_Confidence (repaired_pattern k) = 1" by code_simp
  moreover obtain r e where "?r = (r, e)" by (cases ?r)
  ultimately have r: "?r = (r, None)" "vr_Valid r" "vr_Confidence r = 1" using Validate_confidence [of ?D NewValidator] by fastforce+
  have "(repaired_pattern k)\<lparr>cp_Confidence := 1, cp_Status := ''candidate''\<rparr> = submitted_pattern k"
    by (simp add: submitted_pattern_def repaired_pattern_def)
  then have evolved: "lst_Causal (snd (evolve_causal plain_env (managed_learner False) null_store ?i (Some ?x) s)) = snd (causal_Merge ?D (submitted_pattern k) (lst_Causal s))"
      "fst (evolve_causal plain_env (managed_learner False) null_store ?i (Some ?x) s) = None"
    using r by (simp_all add: evolve_causal_def plain_env_def managed_learner_def in_world_def support_event_def null_store_def split: prod.split)
  obtain v where "ledger_selection ?i = Some v" using repaired_facts(3) by blast
  then have "Learn plain_env (managed_learner False) (Some ?i) s = learn_from plain_env (managed_learner False) null_store ?i None (Some v) s"
    using repaired_facts(1,2) by (simp add: Learn_def managed_learner_def)
  moreover have topology: "evolve_topology plain_env (managed_learner False) ?i s = (None, s)" by (simp add: evolve_topology_def managed_learner_def)
  moreover obtain t where t: "evolve_causal plain_env (managed_learner False) null_store ?i (Some ?x) s = (None, t)"
    using evolved(2) by (metis prod.collapse)
  moreover have "lst_Causal (snd (run_discovery plain_env (managed_learner False) s)) = lst_Causal s" for s by (simp add: run_discovery_def managed_learner_def)
  moreover have "cl_CausalPatterns (managed_learner False)" by (simp add: managed_learner_def)
  ultimately have "lst_Causal (snd (Learn plain_env (managed_learner False) (Some ?i) s)) = lst_Causal t"
    by (simp add: learn_from_def repaired_proposal and_then_kept Let_def
      and_then_ok [where f = "evolve_topology plain_env (managed_learner False) ?i" and s = s, OF topology]
      and_then_ok [where f = "evolve_causal plain_env (managed_learner False) null_store ?i (Some ?x)" and s = s, OF t])
  then show ?thesis using evolved(1) by (simp add: t)
qed

lemma merged_fields:
  assumes "canonical D left" "cp_ID left \<noteq> []"
  shows "cp_SourceIncidents (MergePatterns D left right) = unique (cp_SourceIncidents left @ cp_SourceIncidents right)"
    "cp_SupportingEvidence (MergePatterns D left right) = uniqueEvidence (cp_SupportingEvidence left @ cp_SupportingEvidence right)"
    "cp_ContradictingEvidence (MergePatterns D left right) = uniqueEvidence (cp_ContradictingEvidence left @ cp_ContradictingEvidence right)"
    "cp_Confidence (MergePatterns D left right) = combined_confidence left right" "canonical D (MergePatterns D left right)"
    "cp_ID (MergePatterns D left right) = cp_ID left"
    "eligibleForActivation (MergePatterns D left right) \<Longrightarrow> cp_Status (MergePatterns D left right) = ''active''"
  using assms canonical_joined [OF assms(1), where existing = True and right = right]
  by (simp_all add: MergePatterns_def joined_def Canonicalize_canonical Let_def)

lemma submitted_fields [simp]:
  "cp_SourceIncidents (submitted_pattern k) = [k]" "cp_ContradictingEvidence (submitted_pattern k) = []" "cp_Confidence (submitted_pattern k) = 1"
  "cp_ID (submitted_pattern k) = ''causal-x''" "canonical (\<lambda>_. ''x'') (submitted_pattern k)"
  using repaired_canonical by (simp_all add: submitted_pattern_def) (simp_all add: repaired_pattern_def zero_CausalPattern_def)

lemma submitted_evidence: "cp_SupportingEvidence (submitted_pattern k) = cp_SupportingEvidence (repaired_pattern [])"
  by (simp add: submitted_pattern_def repaired_pattern_def)

lemma submitted_merged:
  "\<exists>p. merged_all (\<lambda>_. ''x'') [submitted_pattern ''1'', submitted_pattern ''2'', submitted_pattern ''3''] = [(''causal-x'', p)] \<and> cp_Status p = ''active''"
proof -
  let ?D = "\<lambda>_ :: CausalPattern. ''x''" and ?S = "cp_SupportingEvidence (repaired_pattern [])"
  have S: "uniqueEvidence (?S @ ?S) = ?S" "2 \<le> length (evidence_sources ?S)" by code_simp+
  have U: "unique [''1'', ''2''] = [''1'', ''2'']" "unique [''1''] = [''1'']" "unique [''1'', ''2'', ''3''] = [''1'', ''2'', ''3'']" "uniqueEvidence [] = []" by code_simp+
  define a where "a = first_pattern (submitted_pattern ''1'')"
  define b where "b = MergePatterns ?D a (submitted_pattern ''2'')"
  define c where "c = MergePatterns ?D b (submitted_pattern ''3'')"
  have a: "canonical ?D a" "cp_ID a = ''causal-x''" "cp_SourceIncidents a = [''1'']" "cp_SupportingEvidence a = ?S" "cp_ContradictingEvidence a = []" "cp_Confidence a = 1"
    unfolding a_def by (simp_all add: first_fields) (simp_all add: first_pattern_def submitted_evidence)
  have b: "canonical ?D b" "cp_ID b = ''causal-x''" "cp_SourceIncidents b = [''1'', ''2'']" "cp_SupportingEvidence b = ?S" "cp_ContradictingEvidence b = []" "cp_Confidence b = 1"
    using a merged_fields [OF a(1), of "submitted_pattern ''2''"] unfolding b_def by (simp_all add: submitted_evidence S U combined_confidence_def new_support_def)
  have c: "cp_ID c = ''causal-x''" "cp_SourceIncidents c = [''1'', ''2'', ''3'']" "cp_SupportingEvidence c = ?S" "cp_ContradictingEvidence c = []" "cp_Confidence c = 1"
    using b merged_fields [OF b(1), of "submitted_pattern ''3''"] unfolding c_def by (simp_all add: submitted_evidence S U combined_confidence_def new_support_def)
  have "eligibleForActivation c" using S(2) by (simp add: eligibleForActivation_def c U)
  then have "cp_Status c = ''active''" using merged_fields(7) [OF b(1), of "submitted_pattern ''3''"] b(2) by (simp add: c_def)
  moreover have "Canonicalize ?D (submitted_pattern k) = submitted_pattern k" for k by (simp add: Canonicalize_canonical)
  then have "merged_all ?D [submitted_pattern ''1'', submitted_pattern ''2'', submitted_pattern ''3''] = [(''causal-x'', c)]"
    using a(2) b(2) c(1) by (simp add: merged_all_def causal_Merge_def a_def [symmetric] b_def [symmetric] c_def [symmetric])
  ultimately show ?thesis by blast
qed


end
