(* ===== verification/Policy_Learning.thy ===== *)
theory Policy_Learning
  imports Domain_Incident
begin

text \<open>\<^verbatim>\<open>internal/learning/service.go\<close> and \<^verbatim>\<open>internal/domain/policy.go\<close>: how a learned policy is proposed, judged on a replay, rolled out in
  stages and rolled back.  The generator, the replay evaluator and the store are the fields of the service, functions that
  answer or fail; a result comes with the calls made to the store.  A weight map is an association list in the
  order Go iterates it, on which only the text of an error depends.\<close>

record PolicyDefinition =
  pd_PlannerTaskWeights :: "(string \<times> rat) list"
  pd_MemoryRankingWeights :: "(string \<times> rat) list"
  pd_HypothesisWeights :: "(string \<times> rat) list"
  pd_DebateConfidenceGate :: rat
  pd_DebateMarginGate :: rat
  pd_MaximumDebateRounds :: int

record PolicyVersion =
  pv_ID :: string
  pv_Status :: string
  pv_Definition :: PolicyDefinition
  pv_PreviousPolicyID :: string
  pv_RolloutFraction :: rat
  pv_ApprovedBy :: string
  pv_CreatedAt :: time
  pv_PromotedAt :: time

record PolicyMetrics =
  pm_StrictDiagnosisAccuracy :: rat
  pm_AccuracyDifferenceLower :: rat
  pm_RecoverySuccess :: rat
  pm_MeanCost :: rat
  pm_P95LatencySeconds :: rat
  pm_ApprovalBypasses :: int
  pm_NamespaceViolations :: int
  pm_DuplicateMutations :: int

record PolicyEvaluation =
  pe_PolicyID :: string
  pe_RunID :: string
  pe_Metrics :: PolicyMetrics
  pe_Accepted :: bool
  pe_Reason :: string
  pe_CreatedAt :: time

record PromotionDecision =
  pr_Accepted :: bool
  pr_Reason :: string
  pr_RolloutStages :: "rat list"
  pr_RollbackPolicy :: string

definition zero_PolicyDefinition :: PolicyDefinition where [zero_defs]:
  "zero_PolicyDefinition = \<lparr>pd_PlannerTaskWeights = [], pd_MemoryRankingWeights = [], pd_HypothesisWeights = [], pd_DebateConfidenceGate = 0,
     pd_DebateMarginGate = 0, pd_MaximumDebateRounds = 0\<rparr>"

definition zero_PolicyVersion :: PolicyVersion where [zero_defs]:
  "zero_PolicyVersion = \<lparr>pv_ID = [], pv_Status = [], pv_Definition = zero_PolicyDefinition, pv_PreviousPolicyID = [], pv_RolloutFraction = 0,
     pv_ApprovedBy = [], pv_CreatedAt = 0, pv_PromotedAt = 0\<rparr>"

definition zero_PolicyMetrics :: PolicyMetrics where [zero_defs]:
  "zero_PolicyMetrics = \<lparr>pm_StrictDiagnosisAccuracy = 0, pm_AccuracyDifferenceLower = 0, pm_RecoverySuccess = 0, pm_MeanCost = 0,
     pm_P95LatencySeconds = 0, pm_ApprovalBypasses = 0, pm_NamespaceViolations = 0, pm_DuplicateMutations = 0\<rparr>"

definition zero_PolicyEvaluation :: PolicyEvaluation where [zero_defs]:
  "zero_PolicyEvaluation = \<lparr>pe_PolicyID = [], pe_RunID = [], pe_Metrics = zero_PolicyMetrics, pe_Accepted = False, pe_Reason = [], pe_CreatedAt = 0\<rparr>"

definition zero_PromotionDecision :: PromotionDecision where [zero_defs]:
  "zero_PromotionDecision = \<lparr>pr_Accepted = False, pr_Reason = [], pr_RolloutStages = [], pr_RollbackPolicy = []\<rparr>"

section \<open>The promotion gates\<close>

definition promotion_reasons :: "PolicyMetrics \<Rightarrow> PolicyMetrics \<Rightarrow> bool \<Rightarrow> string list" where
  "promotion_reasons baseline candidate allowCostOverride =
     code_if (pm_StrictDiagnosisAccuracy candidate - pm_StrictDiagnosisAccuracy baseline < 3/100)
       ''strict diagnosis accuracy improved by less than three percentage points'' @
     code_if (pm_AccuracyDifferenceLower candidate \<le> 0) ''accuracy improvement confidence interval includes zero'' @
     code_if (pm_RecoverySuccess candidate < pm_RecoverySuccess baseline) ''recovery success regressed'' @
     code_if (pm_ApprovalBypasses candidate \<noteq> 0 \<or> pm_NamespaceViolations candidate \<noteq> 0 \<or> pm_DuplicateMutations candidate \<noteq> 0)
       ''a protected safety invariant was violated'' @
     code_if (\<not> allowCostOverride \<and> pm_MeanCost baseline > 0 \<and> pm_MeanCost candidate > pm_MeanCost baseline * (5/4))
       ''mean cost increased by more than twenty-five percent'' @
     code_if (pm_P95LatencySeconds baseline > 0 \<and> pm_P95LatencySeconds candidate > pm_P95LatencySeconds baseline * (5/4))
       ''p95 latency exceeded the rollout guardrail''"

definition rollout_stages :: "rat list" where
  "rollout_stages = [1/20, 1/4, 1]"

definition DecidePromotion :: "string \<Rightarrow> PolicyMetrics \<Rightarrow> PolicyMetrics \<Rightarrow> bool \<Rightarrow> PromotionDecision" where
  "DecidePromotion currentPolicyID baseline candidate allowCostOverride =
     (let reasons = promotion_reasons baseline candidate allowCostOverride; decision = zero_PromotionDecision\<lparr>pr_RollbackPolicy := currentPolicyID\<rparr>
      in if reasons \<noteq> [] then decision\<lparr>pr_Reason := Join reasons ''; ''\<rparr>
         else decision\<lparr>pr_Accepted := True, pr_Reason := ''candidate passed offline replay gates and may enter shadow evaluation'',
                pr_RolloutStages := rollout_stages\<rparr>)"

section \<open>Candidates\<close>

definition unit_gate :: "rat \<Rightarrow> bool" where
  "unit_gate v = (0 \<le> v \<and> v \<le> 1)"

definition bad_weight :: "string \<times> rat \<Rightarrow> bool" where
  "bad_weight kv = (TrimSpace (fst kv) = [] \<or> \<not> unit_gate (snd kv))"

definition weight_error :: "(string \<Rightarrow> string) \<Rightarrow> string \<Rightarrow> (string \<times> rat) list \<Rightarrow> string option" where
  "weight_error quote name weights = map_option (\<lambda>kv. name @ '' policy weight '' @ quote (fst kv) @ '' is invalid'') (find bad_weight weights)"

text \<open>\<^verbatim>\<open>%q\<close> is the parameter \<open>quote\<close>.  The three groups are a map as well; their order decides which error is reported.\<close>

definition validateCandidate :: "(string \<Rightarrow> string) \<Rightarrow> PolicyVersion \<Rightarrow> string option" where
  "validateCandidate quote c =
     (let d = pv_Definition c in
      if TrimSpace (pv_ID c) = [] then Some ''candidate policy ID is required''
      else if \<not> unit_gate (pd_DebateConfidenceGate d) \<or> \<not> unit_gate (pd_DebateMarginGate d) then Some ''debate gates must be within zero and one''
      else if pd_MaximumDebateRounds d < 0 \<or> pd_MaximumDebateRounds d > 2 then Some ''maximum debate rounds cannot exceed two''
      else (case weight_error quote ''planner'' (pd_PlannerTaskWeights d) of Some e \<Rightarrow> Some e
        | None \<Rightarrow> (case weight_error quote ''memory'' (pd_MemoryRankingWeights d) of Some e \<Rightarrow> Some e
          | None \<Rightarrow> weight_error quote ''hypothesis'' (pd_HypothesisWeights d))))"

definition eligible_incident :: "Incident \<Rightarrow> bool" where
  "eligible_incident i = (\<not> (inc_Namespace i = ''kubepilot-benchmark'' \<or> inc_Status i \<noteq> StatusResolved \<or>
     (case inc_Verification i of None \<Rightarrow> True | Some v \<Rightarrow> \<not> ver_Success v) \<or>
     (case inc_ExecutionContext i of None \<Rightarrow> True | Some e \<Rightarrow> ec_ApprovalID e = [])))"

definition eligibleFeedback :: "Incident list \<Rightarrow> Incident list" where
  "eligibleFeedback items = filter eligible_incident items"

section \<open>The service\<close>

datatype policy_call = SavePolicyVersion PolicyVersion | SavePolicyEvaluation PolicyEvaluation

record learning_service =
  ls_Generator :: "(Incident list \<Rightarrow> PolicyVersion \<Rightarrow> string + PolicyVersion) option"
  ls_Evaluator :: "(PolicyVersion \<Rightarrow> string + string \<times> PolicyMetrics) option"
  ls_Store :: "(policy_call \<Rightarrow> string option) option"
  ls_Quote :: "string \<Rightarrow> string"

type_synonym improvement = "PolicyVersion \<times> PolicyEvaluation \<times> PromotionDecision \<times> string option \<times> policy_call list"

definition no_improvement :: "string \<Rightarrow> improvement" where
  "no_improvement err = (zero_PolicyVersion, zero_PolicyEvaluation, zero_PromotionDecision, Some err, [])"

definition judged :: "(policy_call \<Rightarrow> string option) \<Rightarrow> PolicyVersion \<Rightarrow> PolicyVersion \<Rightarrow> PolicyMetrics \<Rightarrow> bool \<Rightarrow> string \<Rightarrow> PolicyMetrics \<Rightarrow> time \<Rightarrow>
    policy_call list \<Rightarrow> improvement" where
  "judged save current candidate0 baseline allowCostOverride runID metrics now calls =
     (let decision = DecidePromotion (pv_ID current) baseline metrics allowCostOverride;
          evaluation = \<lparr>pe_PolicyID = pv_ID candidate0, pe_RunID = runID, pe_Metrics = metrics, pe_Accepted = pr_Accepted decision,
              pe_Reason = pr_Reason decision, pe_CreatedAt = now\<rparr>;
          candidate = (if pr_Accepted decision then candidate0\<lparr>pv_Status := ''shadow'', pv_PreviousPolicyID := pv_ID current\<rparr>
              else candidate0\<lparr>pv_Status := ''rejected''\<rparr>);
          calls = calls @ [SavePolicyEvaluation evaluation]
      in case save (SavePolicyEvaluation evaluation) of Some err \<Rightarrow> (candidate, evaluation, decision, Some err, calls)
         | None \<Rightarrow> (candidate, evaluation, decision, save (SavePolicyVersion candidate), calls @ [SavePolicyVersion candidate]))"

definition submitted :: "time \<Rightarrow> PolicyVersion \<Rightarrow> PolicyVersion" where
  "submitted now v = v\<lparr>pv_Status := ''candidate'', pv_CreatedAt := (if IsZero (pv_CreatedAt v) then now else pv_CreatedAt v)\<rparr>"

definition Improve :: "learning_service \<Rightarrow> Incident list \<Rightarrow> PolicyVersion \<Rightarrow> PolicyMetrics \<Rightarrow> bool \<Rightarrow> time \<Rightarrow> improvement" where
  "Improve S verified current baseline allowCostOverride now =
     (case (ls_Generator S, ls_Evaluator S, ls_Store S) of
        (Some propose, Some evaluate, Some save) \<Rightarrow>
          (let eligible = eligibleFeedback verified in
           if eligible = [] then no_improvement ''no verified production feedback is eligible''
           else (case propose eligible current of Inl err \<Rightarrow> no_improvement err
             | Inr proposed \<Rightarrow> (case validateCandidate (ls_Quote S) proposed of Some err \<Rightarrow> no_improvement err
               | None \<Rightarrow>
                   let candidate = submitted now proposed; call = SavePolicyVersion candidate
                   in (case save call of Some err \<Rightarrow> (zero_PolicyVersion, zero_PolicyEvaluation, zero_PromotionDecision, Some err, [call])
                      | None \<Rightarrow> (case evaluate candidate of
                            Inl err \<Rightarrow> (candidate, zero_PolicyEvaluation, zero_PromotionDecision, Some err, [call])
                          | Inr (runID, metrics) \<Rightarrow> judged save current candidate baseline allowCostOverride runID metrics now [call])))))
      | _ \<Rightarrow> no_improvement ''learning service dependencies are incomplete'')"

definition next_stage :: "rat \<Rightarrow> rat" where
  "next_stage fraction = (case find (\<lambda>stage. stage > fraction) rollout_stages of None \<Rightarrow> 0 | Some stage \<Rightarrow> stage)"

definition stage_text :: "rat \<Rightarrow> string" where
  "stage_text v = (if v = 1/20 then ''0.05'' else if v = 1/4 then ''0.25'' else if v = 1 then ''1.00'' else ''0.00'')"

definition AdvanceRollout :: "learning_service \<Rightarrow> PolicyVersion \<Rightarrow> rat \<Rightarrow> string \<Rightarrow> time \<Rightarrow> PolicyVersion \<times> string option \<times> policy_call list" where
  "AdvanceRollout S candidate fraction operator now =
     (case ls_Store S of None \<Rightarrow> (candidate, Some ''learning store is unavailable'', [])
      | Some save \<Rightarrow>
          if TrimSpace operator = [] then (candidate, Some ''human rollout approval is required'', [])
          else if pv_Status candidate \<noteq> ''shadow'' \<and> pv_Status candidate \<noteq> ''active'' then (candidate, Some ''only a shadow or active candidate can advance'', [])
          else let expected = next_stage (pv_RolloutFraction candidate) in
            if \<bar>fraction - expected\<bar> > 1/1000000000 then (candidate, Some (''next rollout stage must be '' @ stage_text expected), [])
            else let c = candidate\<lparr>pv_RolloutFraction := fraction, pv_ApprovedBy := operator\<rparr>;
                     c = (if fraction = 1 then c\<lparr>pv_Status := ''active'', pv_PromotedAt := now\<rparr> else c\<lparr>pv_Status := ''shadow''\<rparr>)
                 in (c, save (SavePolicyVersion c), [SavePolicyVersion c]))"

definition Rollback :: "learning_service \<Rightarrow> PolicyVersion \<Rightarrow> PolicyVersion \<Rightarrow> string \<Rightarrow> time \<Rightarrow>
    PolicyVersion \<times> PolicyVersion \<times> string option \<times> policy_call list" where
  "Rollback S candidate previous operator now =
     (case ls_Store S of None \<Rightarrow> (candidate, previous, Some ''learning store is unavailable'', [])
      | Some save \<Rightarrow>
          if TrimSpace operator = [] then (candidate, previous, Some ''human rollback approval is required'', [])
          else if pv_PreviousPolicyID candidate = [] \<or> pv_PreviousPolicyID candidate \<noteq> pv_ID previous
          then (candidate, previous, Some ''rollback target does not match the candidate predecessor'', [])
          else let c = candidate\<lparr>pv_Status := ''retired'', pv_RolloutFraction := 0, pv_ApprovedBy := operator\<rparr>;
                   p = previous\<lparr>pv_Status := ''active'', pv_RolloutFraction := 1, pv_ApprovedBy := operator, pv_PromotedAt := now\<rparr>
               in (case save (SavePolicyVersion c) of Some err \<Rightarrow> (c, p, Some err, [SavePolicyVersion c])
                  | None \<Rightarrow> (c, p, save (SavePolicyVersion p), [SavePolicyVersion c, SavePolicyVersion p])))"

section \<open>Promotion\<close>

lemma promotion_accepted_iff:
  "pr_Accepted (DecidePromotion k baseline m override) \<longleftrightarrow> promotion_reasons baseline m override = []"
  by (simp add: DecidePromotion_def zero_PromotionDecision_def Let_def)

text \<open>The calls of an improvement are exactly the saves the stage reached allows, in this order.\<close>

lemma judged_calls:
  "judged save current c baseline override runID metrics now calls = (c', e, d, err, calls') \<Longrightarrow>
     (\<forall>v. SavePolicyVersion v \<in> set calls' \<longrightarrow> SavePolicyVersion v \<in> set calls \<or> v = c') \<and> d = DecidePromotion (pv_ID current) baseline metrics override \<and>
     pv_Status c' = (if pr_Accepted d then ''shadow'' else ''rejected'') \<and> (pr_Accepted d \<longrightarrow> pv_PreviousPolicyID c' = pv_ID current) \<and>
     pv_ID c' = pv_ID c \<and> pv_Definition c' = pv_Definition c \<and> pv_RolloutFraction c' = pv_RolloutFraction c"
  by (auto simp: judged_def Let_def split: option.splits if_splits)

lemma promotion_reasons_Nil:
  "promotion_reasons b m override = [] \<longleftrightarrow> 3/100 \<le> pm_StrictDiagnosisAccuracy m - pm_StrictDiagnosisAccuracy b \<and> 0 < pm_AccuracyDifferenceLower m \<and>
     pm_RecoverySuccess b \<le> pm_RecoverySuccess m \<and> pm_ApprovalBypasses m = 0 \<and> pm_NamespaceViolations m = 0 \<and> pm_DuplicateMutations m = 0 \<and>
     (override \<or> pm_MeanCost b \<le> 0 \<or> pm_MeanCost m \<le> pm_MeanCost b * (5/4)) \<and> (pm_P95LatencySeconds b \<le> 0 \<or> pm_P95LatencySeconds m \<le> pm_P95LatencySeconds b * (5/4))"
  by (auto simp: promotion_reasons_def not_less not_le)

lemma validateCandidate_fields [simp]:
  "validateCandidate q (v\<lparr>pv_Status := a\<rparr>) = validateCandidate q v" "validateCandidate q (v\<lparr>pv_CreatedAt := b\<rparr>) = validateCandidate q v"
  "validateCandidate q (v\<lparr>pv_PreviousPolicyID := k\<rparr>) = validateCandidate q v"
  by (simp_all add: validateCandidate_def Let_def)

text \<open>An improvement that reaches the store, stage by stage.\<close>

lemma candidate_fields [simp]: "pv_Status (submitted now v) = ''candidate''" "validateCandidate q (submitted now v) = validateCandidate q v"
  by (simp_all add: submitted_def)

lemma Improve_cases:
  assumes "Improve S verified current baseline override now = (c, e, d, err, calls)" "calls \<noteq> []"
  shows "\<exists>evaluate save v. ls_Evaluator S = Some evaluate \<and> ls_Store S = Some save \<and> eligibleFeedback verified \<noteq> [] \<and>
    validateCandidate (ls_Quote S) v = None \<and>
    (calls = [SavePolicyVersion (submitted now v)] \<or>
     (\<exists>run m. evaluate (submitted now v) = Inr (run, m) \<and>
        judged save current (submitted now v) baseline override run m now [SavePolicyVersion (submitted now v)] = (c, e, d, err, calls)))"
  using assms
  by (simp add: Improve_def no_improvement_def Let_def split: option.splits sum.splits if_splits prod.splits) blast+


definition replay_service :: learning_service where
  "replay_service = \<lparr>ls_Generator = Some (\<lambda>_ _. Inr (zero_PolicyVersion\<lparr>pv_ID := ''p2''\<rparr>)),
     ls_Evaluator = Some (\<lambda>_. Inr (''r1'', zero_PolicyMetrics\<lparr>pm_StrictDiagnosisAccuracy := 1, pm_AccuracyDifferenceLower := 1/2, pm_RecoverySuccess := 1\<rparr>)),
     ls_Store = Some (\<lambda>_. None), ls_Quote = (\<lambda>k. k)\<rparr>"

definition fed_incident :: Incident where
  "fed_incident = zero_Incident\<lparr>inc_Status := StatusResolved, inc_Verification := Some (zero_Verification\<lparr>ver_Success := True\<rparr>),
     inc_ExecutionContext := Some (zero_ExecutionContext\<lparr>ec_ApprovalID := ''a''\<rparr>)\<rparr>"

lemma replayed:
  "\<exists>c e d err. Improve replay_service [fed_incident] (zero_PolicyVersion\<lparr>pv_ID := ''p1''\<rparr>) zero_PolicyMetrics False 5 =
     (c, e, d, err, [SavePolicyVersion (c\<lparr>pv_Status := ''candidate'', pv_PreviousPolicyID := []\<rparr>), SavePolicyEvaluation e, SavePolicyVersion c]) \<and>
     pv_Status c = ''shadow''"
proof -
  have "eligibleFeedback [fed_incident] = [fed_incident]"
    by (simp add: eligibleFeedback_def eligible_incident_def fed_incident_def zero_defs)
  moreover have "validateCandidate q (zero_PolicyVersion\<lparr>pv_ID := ''p2''\<rparr>) = None" for q by (simp add: validateCandidate_def unit_gate_def weight_error_def zero_defs) code_simp
  ultimately show ?thesis
    by (simp add: Improve_def replay_service_def judged_def submitted_def IsZero_def DecidePromotion_def promotion_reasons_def zero_defs Let_def)
qed


section \<open>Rollout\<close>

definition rollout_state :: "PolicyVersion \<Rightarrow> bool" where
  "rollout_state v = ((pv_Status v = ''active'') = (pv_RolloutFraction v = 1))"

lemma AdvanceRollout_cases:
  assumes "AdvanceRollout S v fraction operator now = (v', err, calls)"
  shows "(v' = v \<and> err \<noteq> None \<and> calls = []) \<or>
    (TrimSpace operator \<noteq> [] \<and> pv_Status v \<in> {''shadow'', ''active''} \<and> \<bar>fraction - next_stage (pv_RolloutFraction v)\<bar> \<le> 1/1000000000 \<and>
     pv_RolloutFraction v' = fraction \<and> pv_ApprovedBy v' = operator \<and> pv_Status v' = (if fraction = 1 then ''active'' else ''shadow'') \<and>
     calls = [SavePolicyVersion v'])"
  using assms by (auto simp: AdvanceRollout_def not_less Let_def split: option.splits if_splits)

text \<open>A finished rollout can be restarted by mistake.  For an active policy at full rollout no stage is left, the expected
  fraction is then 0, and advancing to 0 is accepted: the active policy falls back to a shadow that serves nothing, without a
  rollback and without an active successor.\<close>

theorem finished_rollout_restarts:
  assumes "ls_Store S = Some save" "TrimSpace operator \<noteq> []" "pv_Status v = ''active''" "pv_RolloutFraction v = 1"
  shows "\<exists>v'. AdvanceRollout S v 0 operator now = (v', save (SavePolicyVersion v'), [SavePolicyVersion v']) \<and>
    pv_Status v' = ''shadow'' \<and> pv_RolloutFraction v' = 0 \<and> pv_PromotedAt v' = pv_PromotedAt v"
  using assms by (simp add: AdvanceRollout_def next_stage_def rollout_stages_def Let_def)

lemma finished_rollout_restarts_witness:
  "\<exists>v'. AdvanceRollout replay_service (zero_PolicyVersion\<lparr>pv_Status := ''active'', pv_RolloutFraction := 1\<rparr>) 0 ''ops'' 7 = (v', None, [SavePolicyVersion v']) \<and>
    pv_Status v' = ''shadow'' \<and> pv_RolloutFraction v' = 0"
proof -
  have "TrimSpace ''ops'' \<noteq> []" by code_simp
  from finished_rollout_restarts [of replay_service "\<lambda>_. None", OF _ this, of "zero_PolicyVersion\<lparr>pv_Status := ''active'', pv_RolloutFraction := 1\<rparr>" 7]
  show ?thesis by (auto simp: replay_service_def)
qed

end
