(* ===== verification/Evidence_Signals.thy ===== *)
theory Evidence_Signals
  imports Causal_Knowledge
begin

text \<open>\<^verbatim>\<open>internal/reasoning/evidence/signals.go\<close>: how abnormal an observation is, and which signals of a closed vocabulary it
  shows.  Everything downstream (assertions, causal patterns, the support of a hypothesis) rests on these signals.  A value of
  a payload is an \<^typ>\<open>any_value\<close>; \<open>[]any\<close>, \<open>[]string\<close> and \<open>[]map[string]any\<close> are the same list, and \<open>AnyOther\<close> is a typed value
  of a client library.  An \<open>observer\<close> holds what the code takes from libraries: the parser of decimal numbers, the
  printed form of a value, the logarithm, the digest of a signal, what a typed value looks like after a JSON
  round trip, and the order in which Go visits the entries of a map.\<close>

section \<open>Reading a payload\<close>

record observer =
  obs_ParseFloat :: "string \<Rightarrow> rat option"
  obs_Print :: "any_value \<Rightarrow> string"
  obs_PrintMap :: "any_value table \<Rightarrow> string"
  obs_Entries :: "any_value table \<Rightarrow> (string \<times> any_value) list"
  obs_Items :: "string \<Rightarrow> (string \<times> any_value) list list"
  obs_Labels :: "string \<Rightarrow> (string \<times> string) list"
  obs_Empty :: "string \<Rightarrow> bool"
  obs_Log2 :: "rat \<Rightarrow> rat"
  obs_Digest :: "string \<Rightarrow> string"

definition clampScore :: "rat \<Rightarrow> rat" where
  "clampScore value = (if value < 0 then 0 else if value > 1 then 1 else value)"

text \<open>\<^verbatim>\<open>fmt.Sprint\<close> prints a string as it is and nil as \<open><nil>\<close>.\<close>

definition Sprint :: "observer \<Rightarrow> any_value \<Rightarrow> string" where
  "Sprint B value = (case value of AString s \<Rightarrow> s | AnyNil \<Rightarrow> ''<nil>'' | _ \<Rightarrow> obs_Print B value)"

definition fact :: "any_value table \<Rightarrow> string \<Rightarrow> any_value" where
  "fact facts key = mget AnyNil facts key"

definition number :: "observer \<Rightarrow> any_value \<Rightarrow> rat option" where
  "number B value = (case value of AFloat r \<Rightarrow> Some r | AInt n \<Rightarrow> Some (of_int n) | AInt32 n \<Rightarrow> Some (of_int n) | AInt64 n \<Rightarrow> Some (of_int n)
     | ANumber s \<Rightarrow> obs_ParseFloat B s | AString s \<Rightarrow> obs_ParseFloat B s | _ \<Rightarrow> None)"

fun namedNumber :: "observer \<Rightarrow> any_value table \<Rightarrow> string list \<Rightarrow> rat option" where
  "namedNumber B facts [] = None"
| "namedNumber B facts (key # keys) = (case facts key of None \<Rightarrow> namedNumber B facts keys
     | Some value \<Rightarrow> (case number B value of Some r \<Rightarrow> Some r | None \<Rightarrow> namedNumber B facts keys))"

definition stringValues :: "any_value \<Rightarrow> string list" where
  "stringValues value = (case value of AList xs \<Rightarrow> List.map_filter (\<lambda>x. case x of AString s \<Rightarrow> Some s | _ \<Rightarrow> None) xs | _ \<Rightarrow> [])"

definition mapItems :: "observer \<Rightarrow> any_value \<Rightarrow> (string \<times> any_value) list list" where
  "mapItems B value = (case value of AList xs \<Rightarrow> List.map_filter (\<lambda>x. case x of AObject m \<Rightarrow> Some m | _ \<Rightarrow> None) xs
     | AnyOther s \<Rightarrow> obs_Items B s | _ \<Rightarrow> [])"

definition stringMap :: "observer \<Rightarrow> any_value \<Rightarrow> (string \<times> string) list" where
  "stringMap B value = (case value of
       AObject m \<Rightarrow> filter (\<lambda>(k, s). s \<noteq> [] \<and> s \<noteq> ''<nil>'') (map (\<lambda>(k, v). (k, TrimSpace (Sprint B v))) m)
     | AnyOther s \<Rightarrow> obs_Labels B s | _ \<Rightarrow> [])"

definition isEmptyCollection :: "observer \<Rightarrow> any_value \<Rightarrow> bool" where
  "isEmptyCollection B value = (case value of AnyNil \<Rightarrow> True | AList xs \<Rightarrow> xs = [] | AObject m \<Rightarrow> m = [] | AnyOther s \<Rightarrow> obs_Empty B s | _ \<Rightarrow> False)"

definition nonEmptyString :: "observer \<Rightarrow> any_value \<Rightarrow> bool" where
  "nonEmptyString B value = (TrimSpace (Sprint B value) \<noteq> [] \<and> Sprint B value \<noteq> ''<nil>'')"

definition labelsMatch :: "(string \<times> string) list \<Rightarrow> (string \<times> string) list \<Rightarrow> bool" where
  "labelsMatch selector labels = (selector \<noteq> [] \<and> list_all (\<lambda>(k, expected). mget [] (map_of labels) k = expected) selector)"

definition uniqueStringValues :: "string list \<Rightarrow> string list" where
  "uniqueStringValues vs = sort (unique_loop {} vs)"

text \<open>The entries of all maps below a value, in the order \<^verbatim>\<open>visitMaps\<close> meets them.\<close>

fun visited :: "any_value \<Rightarrow> (string \<times> any_value) list"
  and visited_items :: "any_value list \<Rightarrow> (string \<times> any_value) list"
  and visited_entries :: "(string \<times> any_value) list \<Rightarrow> (string \<times> any_value) list" where
  "visited (AObject m) = visited_entries m"
| "visited (AList xs) = visited_items xs"
| "visited v = []"
| "visited_items [] = []"
| "visited_items (x # xs) = visited x @ visited_items xs"
| "visited_entries [] = []"
| "visited_entries ((k, v) # m) = (k, v) # visited v @ visited_entries m"

definition visitMaps :: "observer \<Rightarrow> any_value table \<Rightarrow> (string \<times> any_value) list" where
  "visitMaps B facts = visited_entries (obs_Entries B facts)"

definition failure_markers :: "string list" where
  "failure_markers = [''error'', ''exception'', ''timeout'', ''killed'', ''failed'', ''failure'', ''oom'', ''refused'', ''unavailable'', ''throttl'', ''crashloop'',
     ''imagepull'', ''probe failed'']"

definition mentions :: "string \<Rightarrow> string list \<Rightarrow> bool" where
  "mentions text markers = list_ex (Contains text) markers"

fun reports_failure :: "any_value \<Rightarrow> bool"
  and item_reports_failure :: "any_value list \<Rightarrow> bool"
  and entry_reports_failure :: "(string \<times> any_value) list \<Rightarrow> bool" where
  "reports_failure (AString s) = mentions (ToLower s) failure_markers"
| "reports_failure (AList xs) = item_reports_failure xs"
| "reports_failure (AObject m) = entry_reports_failure m"
| "reports_failure v = False"
| "item_reports_failure [] = False"
| "item_reports_failure (x # xs) = (reports_failure x \<or> item_reports_failure xs)"
| "entry_reports_failure [] = False"
| "entry_reports_failure ((k, v) # m) = (reports_failure v \<or> entry_reports_failure m)"

definition containsFailureObservation :: "observer \<Rightarrow> any_value table \<Rightarrow> bool" where
  "containsFailureObservation B facts = entry_reports_failure (obs_Entries B facts)"

section \<open>Samples of a metric\<close>

definition looksLikeUnixTimestamp :: "rat \<Rightarrow> bool" where
  "looksLikeUnixTimestamp value = (value \<ge> 946684800 \<and> value \<le> 4102444800)"

definition stamped_sample :: "observer \<Rightarrow> any_value list \<Rightarrow> rat option" where
  "stamped_sample B xs = (case xs of [stamp, value] \<Rightarrow>
       (case number B stamp of None \<Rightarrow> None | Some t \<Rightarrow> if looksLikeUnixTimestamp t then number B value else None) | _ \<Rightarrow> None)"

fun samples :: "observer \<Rightarrow> any_value \<Rightarrow> rat list"
  and sample_items :: "observer \<Rightarrow> any_value list \<Rightarrow> rat list"
  and sample_entries :: "observer \<Rightarrow> (string \<times> any_value) list \<Rightarrow> rat list" where
  "samples B (AList xs) = (case stamped_sample B xs of Some m \<Rightarrow> [m] | None \<Rightarrow> sample_items B xs)"
| "samples B (AObject m) = sample_entries B m"
| "samples B v = (case number B v of Some m \<Rightarrow> [m] | None \<Rightarrow> [])"
| "sample_items B [] = []"
| "sample_items B (x # xs) = samples B x @ sample_items B xs"
| "sample_entries B [] = []"
| "sample_entries B ((k, v) # m) = (if k \<noteq> ''timestamp'' \<and> k \<noteq> ''time'' then samples B v else []) @ sample_entries B m"

fun measurements :: "observer \<Rightarrow> any_value \<Rightarrow> rat list"
  and measured_entries :: "observer \<Rightarrow> (string \<times> any_value) list \<Rightarrow> rat list" where
  "measurements B (AObject m) = measured_entries B m"
| "measurements B (AList xs) = samples B (AList xs)"
| "measurements B v = (case number B v of Some m \<Rightarrow> [m] | None \<Rightarrow> [])"
| "measured_entries B [] = []"
| "measured_entries B ((k, v) # m) =
     (if ToLower k \<in> {''timestamp'', ''time''} then [] else if ToLower k \<in> {''value'', ''values''} then samples B v else measurements B v) @
     measured_entries B m"

definition maxAbs :: "rat list \<Rightarrow> rat" where
  "maxAbs values = foldl (\<lambda>m v. max m \<bar>v\<bar>) 0 values"

definition minAbs :: "rat list \<Rightarrow> rat" where
  "minAbs values = (case values of [] \<Rightarrow> 0 | v # vs \<Rightarrow> foldl (\<lambda>m v. min m \<bar>v\<bar>) \<bar>v\<bar> vs)"

section \<open>How abnormal an observation is\<close>

definition up_metric :: "string \<Rightarrow> bool" where
  "up_metric kind = (Contains kind ''availability'' \<or> kind = ''up'' \<or> HasSuffix kind ''_up'')"

definition directionalMetricChange :: "string \<Rightarrow> rat \<Rightarrow> rat" where
  "directionalMetricChange kind0 change = (let kind = ToLower kind0 in if up_metric kind then clampScore (- change) else clampScore change)"

definition metric_change :: "observer \<Rightarrow> any_value table \<Rightarrow> rat option" where
  "metric_change B facts = (case (namedNumber B facts [''current'', ''current_value'', ''value''], namedNumber B facts [''baseline'', ''baseline_value'']) of
       (Some current, Some baseline) \<Rightarrow> Some ((current - baseline) / max \<bar>baseline\<bar> (1 / 1000000000))
     | _ \<Rightarrow> namedNumber B facts [''change_rate'', ''change_ratio'', ''increase''])"

definition memory_anomaly :: "string \<Rightarrow> rat list \<Rightarrow> rat" where
  "memory_anomaly kind numbers =
     (let maximum = maxAbs numbers; minimum = minAbs numbers; level = (if maximum \<ge> 0 \<and> maximum \<le> 1 then clampScore ((maximum - 60/100) / (40/100)) else 0)
      in if Contains kind ''trend'' \<and> length numbers \<ge> 2
         then (if maximum < 60/100 then 0 else if minimum > 0 then clampScore ((maximum - minimum) / minimum) else level)
         else level)"

definition sample_anomaly :: "string \<Rightarrow> rat list \<Rightarrow> rat" where
  "sample_anomaly kind numbers =
     (let maximum = maxAbs numbers in
      if up_metric kind then clampScore (1 - maximum)
      else if Contains kind ''restart'' then clampScore (maximum / 3)
      else if Contains kind ''goroutine'' \<or> Contains kind ''thread'' \<or> Contains kind ''worker'' then 0
      else if Contains kind ''throttl'' then clampScore ((maximum - 10/100) / (20/100))
      else if Contains kind ''error'' then clampScore (maximum / (10/100))
      else if Contains kind ''latency'' \<or> Contains kind ''duration'' then clampScore maximum
      else if Contains kind ''cpu'' \<or> Contains kind ''saturation'' then (if maximum > 1 then 0 else clampScore ((maximum - 60/100) / (40/100)))
      else if Contains kind ''memory'' then memory_anomaly kind numbers
      else 0)"

definition metricAnomaly :: "observer \<Rightarrow> string \<Rightarrow> any_value table \<Rightarrow> rat" where
  "metricAnomaly B kind facts =
     (let current = namedNumber B facts [''current'', ''current_value'', ''value''] in
      case metric_change B facts of
        Some change \<Rightarrow>
          if Contains kind ''cpu'' \<and> HasSuffix kind ''_change''
          then (if \<not> EqualFold (Sprint B (fact facts ''normalization'')) ''ratio_to_cpu_limit'' then 0
                else clampScore (((case current of None \<Rightarrow> 0 | Some c \<Rightarrow> c) - 60/100) / (40/100)))
          else directionalMetricChange kind change
      | None \<Rightarrow>
          (let numbers = measurements B (fact facts ''result'');
               numbers = (if numbers = [] then (case current of None \<Rightarrow> [] | Some c \<Rightarrow> [c]) else numbers)
           in if numbers = [] then 0 else sample_anomaly kind numbers))"

definition log_markers :: "string list" where
  "log_markers = [''exception'', ''timeout'', ''killed'', ''failed'', ''failure'', ''oom'', ''refused'', ''unavailable'', ''throttl'', ''crashloop'', ''imagepull'', ''probe'']"

definition level_score :: "string \<Rightarrow> rat" where
  "level_score level = (if level = ''critical'' \<or> level = ''fatal'' then 1 else if level = ''error'' then 9/10
     else if level = ''warn'' \<or> level = ''warning'' then 6/10 else 0)"

definition logAnomaly :: "observer \<Rightarrow> Evidence \<Rightarrow> any_value table \<Rightarrow> rat" where
  "logAnomaly B item facts =
     (let level = ToLower (Sprint B (fact facts ''level''));
          text = ToLower (ev_Summary item @ '' '' @ obs_PrintMap B facts);
          base = foldl (\<lambda>b marker. if Contains text marker then max b (if level = [] then 35/100 else 8/10) else b) (level_score level) log_markers
      in case namedNumber B facts [''occurrence_count'', ''count''] of
           Some n \<Rightarrow> if n > 1 then max base (clampScore (obs_Log2 B (n + 1) / 5)) else base
         | None \<Rightarrow> base)"

definition traceAnomaly :: "observer \<Rightarrow> any_value table \<Rightarrow> rat" where
  "traceAnomaly B facts =
     (if nonEmptyString B (fact facts ''error_service'') \<or> nonEmptyString B (fact facts ''failed_operation'') then 1
      else if containsFailureObservation B facts then 9/10
      else (case namedNumber B facts [''duration_micros'', ''duration_us''] of None \<Rightarrow> 0 | Some d \<Rightarrow> clampScore ((d - 250000) / 750000)))"

section \<open>The state of a workload\<close>

definition policy_denies :: "observer \<Rightarrow> (string \<times> any_value) list \<Rightarrow> string \<Rightarrow> bool" where
  "policy_denies B policy policyType = (let direction = ToLower policyType in
     (direction = ''egress'' \<or> direction = ''ingress'') \<and>
     (case map_of policy direction of None \<Rightarrow> False | Some rules \<Rightarrow> isEmptyCollection B rules))"

definition listed_objects :: "any_value \<Rightarrow> (string \<times> any_value) list list" where
  "listed_objects value = (case value of AList xs \<Rightarrow> List.map_filter (\<lambda>x. case x of AObject m \<Rightarrow> Some m | _ \<Rightarrow> None) xs | _ \<Rightarrow> [])"

definition networkPolicyDeniesSelectedTraffic :: "observer \<Rightarrow> any_value \<Rightarrow> bool" where
  "networkPolicyDeniesSelectedTraffic B value =
     list_ex (\<lambda>policy. list_ex (policy_denies B policy) (stringValues (fact (map_of policy) ''policy_types''))) (listed_objects value)"

definition networkPolicyEffectsDenySelectedTraffic :: "observer \<Rightarrow> any_value \<Rightarrow> bool" where
  "networkPolicyEffectsDenySelectedTraffic B value =
     list_ex (\<lambda>effect. EqualFold (Sprint B (fact (map_of effect) ''mode'')) ''deny_all'' \<and>
        ToLower (Sprint B (fact (map_of effect) ''direction'')) \<in> {''ingress'', ''egress''} \<and>
        stringValues (fact (map_of effect) ''selected_pods'') \<noteq> []) (listed_objects value)"

definition serviceSelectorMismatch :: "observer \<Rightarrow> any_value table \<Rightarrow> bool" where
  "serviceSelectorMismatch B facts = (case fact facts ''service'' of
       AObject service \<Rightarrow>
         (let selector = stringMap B (fact (map_of service) ''selector''); pods = mapItems B (fact facts ''pods'')
          in selector \<noteq> [] \<and> pods \<noteq> [] \<and>
             \<not> list_ex (\<lambda>pod. labelsMatch selector (stringMap B (fact (map_of pod) ''labels''))) pods)
     | _ \<Rightarrow> False)"

definition configuredEndpointUnresolvable :: "observer \<Rightarrow> any_value table \<Rightarrow> bool" where
  "configuredEndpointUnresolvable B facts =
     list_ex (\<lambda>item. EqualFold (TrimSpace (Sprint B (fact (map_of item) ''status''))) ''service_not_found'' \<and>
        TrimSpace (Sprint B (fact (map_of item) ''host'')) \<noteq> []) (mapItems B (fact facts ''configured_endpoint_resolution''))"

definition database_markers :: "string list" where
  "database_markers = [''mysql'', ''postgres'', ''mongo'', ''cassandra'', ''mariadb'', ''redis'', ''memcached'', ''elasticsearch'']"

definition database_port :: "observer \<Rightarrow> (string \<times> any_value) list \<Rightarrow> bool" where
  "database_port B port = (mentions (ToLower (TrimSpace (Sprint B (fact (map_of port) ''name'')))) database_markers \<or>
     (case number B (fact (map_of port) ''port'') of None \<Rightarrow> False
      | Some r \<Rightarrow> (if r < 0 then \<lceil>r\<rceil> else \<lfloor>r\<rfloor>) \<in> {3306, 5432, 27017, 9042, 6379, 11211, 9200}))"

definition databaseService :: "observer \<Rightarrow> any_value table \<Rightarrow> bool" where
  "databaseService B facts = (case fact facts ''service'' of
       AObject service \<Rightarrow> list_ex (database_port B) (mapItems B (fact (map_of service) ''ports'')) | _ \<Rightarrow> False)"

definition no_endpoints :: "observer \<Rightarrow> any_value table \<Rightarrow> bool" where
  "no_endpoints B facts = (case facts ''endpoints'' of None \<Rightarrow> False | Some endpoints \<Rightarrow> isEmptyCollection B endpoints)"

definition state_score :: "observer \<Rightarrow> string \<times> any_value \<Rightarrow> rat \<Rightarrow> rat" where
  "state_score B entry score =
     (let key = ToLower (fst entry); value = snd entry in
      if key = ''ready'' then (if value = ABool False then max score 1 else score)
      else if key = ''restart_count'' \<or> key = ''unavailable_replicas''
      then (case number B value of Some n \<Rightarrow> if n > 0 then max score (clampScore (n / 3)) else score | None \<Rightarrow> score)
      else if key = ''available_replicas'' then (case number B value of Some n \<Rightarrow> if n = 0 then max score (9/10) else score | None \<Rightarrow> score)
      else if key = ''reason'' \<or> key = ''phase'' \<or> key = ''type''
      then foldl (\<lambda>b marker. if Contains (ToLower (Sprint B value)) marker then max b (9/10) else b) score
             [''warning'', ''backoff'', ''oomkilled'', ''failed'', ''crashloop'', ''pending'', ''imagepull'']
      else score)"

definition raise_to :: "rat \<Rightarrow> bool \<Rightarrow> rat \<Rightarrow> rat" where
  "raise_to bound condition score = (if condition then max score bound else score)"

definition kubernetesAnomaly :: "observer \<Rightarrow> any_value table \<Rightarrow> rat" where
  "kubernetesAnomaly B facts =
     (let score = foldl (\<lambda>b entry. state_score B entry b) 0 (visitMaps B facts);
          score = raise_to 1 (no_endpoints B facts) score;
          score = raise_to (9/10) (serviceSelectorMismatch B facts \<or> configuredEndpointUnresolvable B facts) score;
          score = raise_to 1 (networkPolicyDeniesSelectedTraffic B (fact facts ''network_policies'') \<or>
                    networkPolicyEffectsDenySelectedTraffic B (fact facts ''network_policy_effects'')) score
      in raise_to (9/10) (containsFailureObservation B facts) score)"

section \<open>Signals\<close>

definition metricSignal :: "string \<Rightarrow> string" where
  "metricSignal kind =
     (if Contains kind ''throttl'' then ''cpu_throttling''
      else if Contains kind ''cpu'' \<or> Contains kind ''saturation'' then ''cpu_pressure''
      else if Contains kind ''memory'' then ''memory_pressure''
      else if Contains kind ''latency'' \<or> Contains kind ''duration'' then ''request_latency''
      else if Contains kind ''error'' then ''error_rate''
      else if Contains kind ''restart'' then ''pod_restarts''
      else if Contains kind ''connection'' then ''connection_pressure''
      else if Contains kind ''qps'' \<or> Contains kind ''rps'' \<or> Contains kind ''throughput'' \<or> Contains kind ''request_rate'' then ''request_rate''
      else if Contains kind ''availability'' \<or> HasSuffix kind ''_up'' then ''availability''
      else ''metric_observation'')"

definition image_failure :: "string \<Rightarrow> bool" where
  "image_failure text = mentions text [''imagepull'', ''image pull'', ''pulling image'', ''pull image'', ''failed to pull'', ''failed pull'']"

definition failureSignalKinds :: "string \<Rightarrow> string list" where
  "failureSignalKinds value =
     (let text = ToLower value in
      if image_failure text
      then ''image_pull_failure'' # (if mentions text [''failed to resolve reference'', ''manifest unknown'', ''no matching manifest'', ''invalid reference format'',
             ''image not found''] then [''image_reference_unresolvable''] else [])
      else if mentions text [''oomkilled'', ''out of memory''] then [''oom_killed'']
      else if mentions text [''crashloop''] then [''crash_loop'']
      else if mentions text [''probe failed'', ''readiness probe'', ''liveness probe''] then [''probe_failure'']
      else if mentions text [''connection refused''] then [''connection_refused'']
      else if mentions text [''no route to host'', ''network is unreachable''] then [''network_unreachable'']
      else if mentions text [''connection timeout'', ''dial tcp''] then [''connection_timeout'']
      else if mentions text [''connection pool'', ''too many connections''] then [''connection_pressure'']
      else if mentions text [''sqlstate'', ''slow query'', ''database error''] then [''database_error'']
      else [])"

definition logSignalKinds :: "observer \<Rightarrow> Evidence \<Rightarrow> any_value table \<Rightarrow> string list" where
  "logSignalKinds B item facts = failureSignalKinds (ev_Summary item @ '' '' @ Sprint B (fact facts ''error_signature'') @ '' '' @
     Sprint B (fact facts ''message'') @ '' '' @ Sprint B (fact facts ''error''))"

definition positive :: "observer \<Rightarrow> any_value \<Rightarrow> bool" where
  "positive B value = (case number B value of Some n \<Rightarrow> n > 0 | None \<Rightarrow> False)"

definition entry_signals :: "observer \<Rightarrow> string \<times> any_value \<Rightarrow> string list" where
  "entry_signals B entry =
     (let key = ToLower (fst entry); value = snd entry; text = Sprint B value in
      if key = ''ready'' then code_if (value = ABool False) ''workload_unavailable''
      else if key = ''restart_count'' then code_if (positive B value) ''pod_restarts''
      else if key = ''unavailable_replicas'' then code_if (positive B value) ''workload_unavailable''
      else if key = ''reason'' \<or> key = ''phase'' \<or> key = ''type'' \<or> key = ''message''
      then failureSignalKinds text @ code_if (key = ''reason'' \<and> (EqualFold (TrimSpace text) ''ScalingReplicaSet'' \<or> EqualFold (TrimSpace text) ''SuccessfulCreate''))
             ''deployment_change''
      else [])"

definition endpoint_signals :: "observer \<Rightarrow> any_value table \<Rightarrow> string list" where
  "endpoint_signals B facts = (if no_endpoints B facts
     then ''endpoint_unavailable'' # code_if (serviceSelectorMismatch B facts) ''service_selector_mismatch'' @ code_if (databaseService B facts) ''database_endpoint_unavailable''
     else [])"

definition kubernetesSignalKinds :: "observer \<Rightarrow> any_value table \<Rightarrow> string list" where
  "kubernetesSignalKinds B facts = uniqueStringValues
     ((if networkPolicyEffectsDenySelectedTraffic B (fact facts ''network_policy_effects'') then [''network_policy_configured'', ''network_policy_denial'']
       else code_if (networkPolicyDeniesSelectedTraffic B (fact facts ''network_policies'')) ''network_policy_denial'') @
      endpoint_signals B facts @ code_if (configuredEndpointUnresolvable B facts) ''configured_endpoint_unresolvable'' @
      concat (map (entry_signals B) (visitMaps B facts)))"

definition signalCategory :: "string \<Rightarrow> string" where
  "signalCategory signal =
     (if signal \<in> {''cpu_pressure'', ''cpu_throttling'', ''request_rate''} then ''resource''
      else if signal \<in> {''memory_pressure'', ''memory_growth'', ''oom_killed''} then ''memory''
      else if signal \<in> {''connection_pressure'', ''database_error''} then ''database''
      else if signal \<in> {''network_policy_configured'', ''network_policy_denial'', ''connection_refused'', ''connection_timeout'', ''network_unreachable'',
         ''endpoint_unavailable'', ''service_selector_mismatch'', ''configured_endpoint_unresolvable''} then ''network''
      else if signal = ''database_endpoint_unavailable'' then ''database''
      else if signal \<in> {''image_pull_failure'', ''image_reference_unresolvable'', ''crash_loop'', ''probe_failure'', ''workload_unavailable'',
         ''deployment_change'', ''pod_restarts''} then ''workload''
      else ''application'')"

definition signalDirection :: "string \<Rightarrow> string \<Rightarrow> string" where
  "signalDirection signal fallback = (if signal = ''deployment_change'' then ''observed'' else fallback)"

definition newSignal :: "observer \<Rightarrow> Evidence \<Rightarrow> string \<Rightarrow> string \<Rightarrow> string \<Rightarrow> rat \<Rightarrow> string \<Rightarrow> string \<Rightarrow> time \<Rightarrow> EvidenceSignal" where
  "newSignal B item source category signal reliability extraction direction observed =
     \<lparr>sig_ID = ''signal-'' @ obs_Digest B (Join [ev_ID item, category, signal] ''|''), sig_EvidenceID = ev_ID item, sig_Source = source,
      sig_Category = category, sig_Signal = signal, sig_Value = ev_AnomalyScore item, sig_Strength = ev_AnomalyScore item, sig_Direction = direction,
      sig_Reliability = reliability, sig_Independence = 1, sig_TemporalAlignment = 0, sig_DiagnosticWeight = 1, sig_Extraction = extraction,
      sig_WindowStart = ev_WindowStart item, sig_WindowEnd = ev_WindowEnd item, sig_ObservedAt = observed, sig_Namespace = ev_Namespace item,
      sig_Service = ev_Service item, sig_Resource = ev_Resource item\<rparr>"

definition uniqueSignals :: "EvidenceSignal list \<Rightarrow> EvidenceSignal list" where
  "uniqueSignals = unique_by sig_Signal {}"

text \<open>What a source says: category, signal, reliability, parser, and further signals.\<close>

record signal_reading =
  rd_Category :: string
  rd_Signal :: string
  rd_Reliability :: rat
  rd_Extraction :: string
  rd_Additional :: "string list"

definition firstSignal :: "string \<Rightarrow> string \<Rightarrow> string" where
  "firstSignal a b = (if a \<noteq> [] then a else if b \<noteq> [] then b else ''unknown'')"

definition metric_reading :: "observer \<Rightarrow> string \<Rightarrow> any_value table \<Rightarrow> signal_reading" where
  "metric_reading B kind facts =
     \<lparr>rd_Category = metricSignal kind, rd_Signal = metricSignal kind,
      rd_Reliability = (if namedNumber B facts [''baseline'', ''baseline_value''] = None \<and> \<not> Contains kind ''throttl'' \<and> \<not> Contains kind ''availability''
        then 75/100 else 95/100),
      rd_Extraction = ''prometheus_metric_parser'',
      rd_Additional = code_if (Contains kind ''memory'' \<and> Contains kind ''trend'') ''memory_growth''\<rparr>"

definition log_reading :: "observer \<Rightarrow> Evidence \<Rightarrow> any_value table \<Rightarrow> signal_reading" where
  "log_reading B item facts =
     (let level = ToLower (Sprint B (fact facts ''level'')) in
      \<lparr>rd_Category = ''application'', rd_Signal = ''log_error'',
       rd_Reliability = (if level = ''critical'' \<or> level = ''fatal'' then 95/100 else if level = ''error'' then 90/100
         else if level = ''warn'' \<or> level = ''warning'' then 65/100 else 35/100),
       rd_Extraction = ''loki_log_parser'', rd_Additional = logSignalKinds B item facts\<rparr>)"

definition trace_reading :: "observer \<Rightarrow> any_value table \<Rightarrow> signal_reading" where
  "trace_reading B facts =
     (if nonEmptyString B (fact facts ''error_service'') \<or> nonEmptyString B (fact facts ''failed_operation'')
      then \<lparr>rd_Category = ''request'', rd_Signal = ''trace_error'', rd_Reliability = 95/100, rd_Extraction = ''jaeger_trace_parser'',
        rd_Additional = failureSignalKinds (Sprint B (fact facts ''error_service'') @ '' '' @ Sprint B (fact facts ''failed_operation''))\<rparr>
      else \<lparr>rd_Category = ''request'', rd_Signal = ''trace_latency'', rd_Reliability = 85/100, rd_Extraction = ''jaeger_trace_parser'', rd_Additional = []\<rparr>)"

definition workload_reading :: "observer \<Rightarrow> any_value table \<Rightarrow> signal_reading" where
  "workload_reading B facts =
     (let additional = kubernetesSignalKinds B facts; denied = ''network_policy_denial'' \<in> set additional in
      \<lparr>rd_Category = (if denied then ''network'' else ''workload''), rd_Signal = (if denied then ''network_policy_denial'' else ''workload_health''),
       rd_Reliability = 95/100, rd_Extraction = ''kubernetes_state_parser'', rd_Additional = additional\<rparr>)"

definition reading_of :: "observer \<Rightarrow> Evidence \<Rightarrow> any_value table \<Rightarrow> signal_reading" where
  "reading_of B item facts =
     (let source = ToLower (ev_Source item); kind = ToLower (firstSignal (ev_Type item) (ev_Kind item)) in
      if source = ''prometheus'' \<or> source = ''metric'' then metric_reading B kind facts
      else if source = ''loki'' \<or> source = ''log'' then log_reading B item facts
      else if source = ''jaeger'' \<or> source = ''trace'' then trace_reading B facts
      else if source = ''kubernetes'' \<or> source = ''topology'' then workload_reading B facts
      else \<lparr>rd_Category = ''observation'', rd_Signal = kind, rd_Reliability = 1/2, rd_Extraction = ''deterministic_observation_parser'', rd_Additional = []\<rparr>)"

definition deriveSignals :: "observer \<Rightarrow> Evidence \<Rightarrow> any_value table \<Rightarrow> EvidenceSignal list" where
  "deriveSignals B item facts =
     (let source = ToLower (ev_Source item); r = reading_of B item facts; signal = rd_Signal r in
      if signal = [] then []
      else let observed = (if IsZero (ev_ObservedAt item) then ev_Timestamp item else ev_ObservedAt item);
               direction = (if ev_AnomalyScore item > 0 then ''abnormal'' else ''normal'');
               first = newSignal B item source (rd_Category r) signal (rd_Reliability r) (rd_Extraction r) direction observed;
               more = map (\<lambda>a. newSignal B item source (signalCategory a) a (rd_Reliability r) (rd_Extraction r) (signalDirection a direction) observed)
                        (filter (\<lambda>a. \<not> (a = [] \<or> a = signal)) (rd_Additional r))
           in uniqueSignals (sort_key sig_Signal (first # more)))"

section \<open>Analysis\<close>

definition analysed_facts :: "observer \<Rightarrow> Evidence \<Rightarrow> any_value table" where
  "analysed_facts B item = (if obs_Entries B (ev_Facts item) \<noteq> [] then ev_Facts item
     else if obs_Entries B (ev_Content item) \<noteq> [] then ev_Content item else ev_Data item)"

definition anomaly_score :: "observer \<Rightarrow> Evidence \<Rightarrow> any_value table \<Rightarrow> rat" where
  "anomaly_score B item facts =
     (let source = ToLower (ev_Source item); kind = ToLower (firstSignal (ev_Type item) (ev_Kind item)) in
      if source = ''prometheus'' \<or> source = ''metric'' then metricAnomaly B kind facts
      else if source = ''loki'' \<or> source = ''log'' then logAnomaly B item facts
      else if source = ''jaeger'' \<or> source = ''trace'' then traceAnomaly B facts
      else if source = ''kubernetes'' \<or> source = ''topology'' then kubernetesAnomaly B facts
      else clampScore (ev_AnomalyScore item))"

definition AnalyzeEvidence :: "observer \<Rightarrow> Evidence \<Rightarrow> Evidence" where
  "AnalyzeEvidence B item0 =
     (let facts = analysed_facts B item0;
          item = item0\<lparr>ev_AnomalyScore := clampScore (anomaly_score B item0 facts), ev_CausalNodeIDs := appendUnique (ev_CausalNodeIDs item0) (''obs:'' @ ev_ID item0)\<rparr>
      in item\<lparr>ev_Signals := deriveSignals B item facts\<rparr>)"

end
