(* ===== verification/Signal_Properties.thy ===== *)
theory Signal_Properties
  imports Evidence_Signals
begin

text \<open>What the analysis of evidence guarantees: figures in [0,1], signals of a closed vocabulary, and a result that does not depend
  on the order in which Go visits the entries of a map.  The last section shows where the figures mislead.\<close>

section \<open>Figures\<close>

lemma clampScore_bounds [simp]: "0 \<le> clampScore r" "clampScore r \<le> 1"
  by (simp_all add: clampScore_def)

lemma clampScore_id: "0 \<le> r \<Longrightarrow> r \<le> 1 \<Longrightarrow> clampScore r = r"
  by (simp add: clampScore_def)

lemma clampScore_idem [simp]: "clampScore (clampScore r) = clampScore r"
  by (simp add: clampScore_id)

section \<open>Vocabulary\<close>

definition known_sources :: "string list" where
  "known_sources = [''prometheus'', ''metric'', ''loki'', ''log'', ''jaeger'', ''trace'', ''kubernetes'', ''topology'']"

definition signal_vocabulary :: "string list" where
  "signal_vocabulary = [''cpu_throttling'', ''cpu_pressure'', ''memory_pressure'', ''memory_growth'', ''request_latency'', ''error_rate'', ''pod_restarts'',
     ''connection_pressure'', ''request_rate'', ''availability'', ''metric_observation'', ''log_error'', ''trace_latency'', ''trace_error'', ''oom_killed'', ''crash_loop'',
     ''probe_failure'', ''connection_refused'', ''network_unreachable'', ''connection_timeout'', ''database_error'', ''image_pull_failure'', ''image_reference_unresolvable'',
     ''workload_health'', ''workload_unavailable'', ''deployment_change'', ''network_policy_configured'', ''network_policy_denial'', ''endpoint_unavailable'',
     ''service_selector_mismatch'', ''database_endpoint_unavailable'', ''configured_endpoint_unresolvable'']"

lemma failure_words: "set (failureSignalKinds text) \<subseteq> set signal_vocabulary"
  by (auto simp: failureSignalKinds_def signal_vocabulary_def Let_def split: if_splits)

lemma metric_word: "metricSignal kind \<in> set signal_vocabulary"
  by (simp add: metricSignal_def signal_vocabulary_def)

lemma entry_words: "set (entry_signals B entry) \<subseteq> set signal_vocabulary"
proof -
  have "{''workload_unavailable'', ''pod_restarts'', ''deployment_change''} \<subseteq> set signal_vocabulary" by (simp add: signal_vocabulary_def)
  then show ?thesis using failure_words [of "Sprint B (snd entry)"] by (auto simp: entry_signals_def Let_def split: if_splits)
qed

lemma unique_words: "set (uniqueStringValues vs) = set vs - {[]}" "distinct (uniqueStringValues vs)" "sorted (uniqueStringValues vs)"
  by (simp_all add: uniqueStringValues_def unique_loop_set unique_loop_distinct)

lemma workload_words: "set (kubernetesSignalKinds B facts) \<subseteq> set signal_vocabulary"
proof -
  have "set (endpoint_signals B facts) \<subseteq> set signal_vocabulary"
    by (auto simp: endpoint_signals_def signal_vocabulary_def split: if_splits)
  moreover have "{''network_policy_configured'', ''network_policy_denial'', ''configured_endpoint_unresolvable''} \<subseteq> set signal_vocabulary"
    by (simp add: signal_vocabulary_def)
  ultimately show ?thesis using entry_words by (fastforce simp: kubernetesSignalKinds_def unique_words split: if_splits)
qed

lemma reading_words:
  assumes "ToLower (ev_Source item) \<in> set known_sources"
  shows "insert (rd_Signal (reading_of B item facts)) (set (rd_Additional (reading_of B item facts))) \<subseteq> set signal_vocabulary"
proof -
  have "{''memory_growth'', ''log_error'', ''trace_latency'', ''trace_error'', ''workload_health'', ''network_policy_denial''} \<subseteq> set signal_vocabulary"
    by (simp add: signal_vocabulary_def)
  then show ?thesis using assms failure_words workload_words metric_word
    by (auto simp: reading_of_def known_sources_def metric_reading_def log_reading_def trace_reading_def workload_reading_def logSignalKinds_def Let_def
        split: if_splits)
qed

lemma reading_reliable: "0 < rd_Reliability (reading_of B item facts) \<and> rd_Reliability (reading_of B item facts) \<le> 1"
  by (simp add: reading_of_def metric_reading_def log_reading_def trace_reading_def workload_reading_def Let_def)

lemma reading_named: "rd_Signal (reading_of B item facts) \<noteq> []"
proof -
  have "[] \<notin> set signal_vocabulary" by (simp add: signal_vocabulary_def)
  then have m: "metricSignal kind \<noteq> []" for kind using metric_word [of kind] by auto
  moreover have "ToLower (firstSignal a b) \<noteq> []" for a b by (simp add: firstSignal_def ToLower_def)
  ultimately show ?thesis by (simp add: reading_of_def metric_reading_def log_reading_def trace_reading_def workload_reading_def Let_def)
qed

lemma reading_main:
  assumes "ToLower (ev_Source item) \<in> set known_sources"
  shows "rd_Signal (reading_of B item facts) \<noteq> ''deployment_change''"
proof -
  have "metricSignal kind \<noteq> ''deployment_change''" for kind by (simp add: metricSignal_def)
  then show ?thesis using assms
    by (auto simp: reading_of_def known_sources_def metric_reading_def log_reading_def trace_reading_def workload_reading_def Let_def)
qed

section \<open>Signals of an observation\<close>

lemma unique_by_subseq: "sorted (map key vs) \<Longrightarrow> sorted (map key (unique_by key seen vs))"
  using unique_by_set by (induction key seen vs rule: unique_by.induct) fastforce+

lemma unique_by_nonempty: "vs \<noteq> [] \<Longrightarrow> key ` set vs \<inter> seen = {} \<Longrightarrow> unique_by key seen vs \<noteq> []"
  by (cases vs) auto

definition plain_signal :: "Evidence \<Rightarrow> EvidenceSignal \<Rightarrow> bool" where
  "plain_signal e s = (sig_EvidenceID s = ev_ID e \<and> sig_Source s = ToLower (ev_Source e) \<and> sig_Strength s = ev_AnomalyScore e \<and>
     sig_Direction s = (if sig_Signal s = ''deployment_change'' then ''observed'' else if ev_AnomalyScore e > 0 then ''abnormal'' else ''normal'') \<and>
     0 < sig_Reliability s \<and> sig_Reliability s \<le> 1 \<and> sig_Independence s = 1)"

lemma derived_signals:
  "distinct (map sig_Signal (deriveSignals B e facts))" "sorted (map sig_Signal (deriveSignals B e facts))" "deriveSignals B e facts \<noteq> []"
  "ToLower (ev_Source e) \<in> set known_sources \<Longrightarrow> list_all (plain_signal e) (deriveSignals B e facts)"
  "ToLower (ev_Source e) \<in> set known_sources \<Longrightarrow> set (map sig_Signal (deriveSignals B e facts)) \<subseteq> set signal_vocabulary"
  "sig_Signal ` set (deriveSignals B e facts) = insert (rd_Signal (reading_of B e facts)) (set (rd_Additional (reading_of B e facts)) - {[]})"
proof -
  define r where "r = reading_of B e facts"
  define observed where "observed = (if IsZero (ev_ObservedAt e) then ev_Timestamp e else ev_ObservedAt e)"
  define direction where "direction = (if ev_AnomalyScore e > 0 then ''abnormal'' else ''normal'')"
  define first where "first = newSignal B e (ToLower (ev_Source e)) (rd_Category r) (rd_Signal r) (rd_Reliability r) (rd_Extraction r) direction observed"
  define more where "more = map (\<lambda>a. newSignal B e (ToLower (ev_Source e)) (signalCategory a) a (rd_Reliability r) (rd_Extraction r) (signalDirection a direction) observed)
    (filter (\<lambda>a. \<not> (a = [] \<or> a = rd_Signal r)) (rd_Additional r))"
  have d: "deriveSignals B e facts = uniqueSignals (sort_key sig_Signal (first # more))"
    using reading_named [of B e facts]
    by (simp only: deriveSignals_def Let_def r_def [symmetric] observed_def [symmetric] direction_def [symmetric] if_False, simp only: first_def more_def refl if_False)
  show "distinct (map sig_Signal (deriveSignals B e facts))" unfolding d uniqueSignals_def using unique_by_keys by blast
  show "sorted (map sig_Signal (deriveSignals B e facts))" unfolding d uniqueSignals_def by (intro unique_by_subseq sorted_sort_key)
  show "deriveSignals B e facts \<noteq> []" unfolding d uniqueSignals_def by (intro unique_by_nonempty) (auto simp flip: length_0_conv)
  have "set (deriveSignals B e facts) \<subseteq> set (sort_key sig_Signal (first # more))" unfolding d uniqueSignals_def by (rule unique_by_set)
  then have sub: "set (deriveSignals B e facts) \<subseteq> insert first (set more)" by (simp only: set_sort list.set(2))
  have "sig_Signal ` set (deriveSignals B e facts) = sig_Signal ` set (sort_key sig_Signal (first # more))"
    unfolding d uniqueSignals_def using unique_by_keys [of sig_Signal "{}" "sort_key sig_Signal (first # more)"] by (simp only: Diff_empty)
  also have "\<dots> = insert (sig_Signal first) (sig_Signal ` set more)" by (simp only: set_sort list.set(2) image_insert)
  also have "\<dots> = insert (rd_Signal r) (set (rd_Additional r) - {[]})" by (auto simp: first_def more_def newSignal_def image_iff)
  finally show "sig_Signal ` set (deriveSignals B e facts) = insert (rd_Signal (reading_of B e facts)) (set (rd_Additional (reading_of B e facts)) - {[]})"
    by (simp only: r_def)
  have rel: "0 < rd_Reliability r" "rd_Reliability r \<le> 1" using reading_reliable [of B e facts] by (simp_all add: r_def)
  assume known: "ToLower (ev_Source e) \<in> set known_sources"
  have "rd_Signal r \<noteq> ''deployment_change''" using reading_main [OF known] by (simp add: r_def)
  then have "plain_signal e first" "\<forall>s\<in>set more. plain_signal e s"
    using rel by (auto simp: plain_signal_def first_def more_def newSignal_def signalDirection_def direction_def)
  then show "list_all (plain_signal e) (deriveSignals B e facts)" using sub by (auto simp: list_all_iff)
  from known have "insert (rd_Signal r) (set (rd_Additional r)) \<subseteq> set signal_vocabulary" using reading_words unfolding r_def by blast
  then have "sig_Signal first \<in> set signal_vocabulary" "sig_Signal ` set more \<subseteq> set signal_vocabulary"
    by (auto simp: first_def more_def newSignal_def)
  then show "set (map sig_Signal (deriveSignals B e facts)) \<subseteq> set signal_vocabulary" using sub by auto
qed


definition plain_observer :: observer where
  "plain_observer = \<lparr>obs_ParseFloat = (\<lambda>_. None), obs_Print = (\<lambda>_. ''value''), obs_PrintMap = (\<lambda>_. ''map''), obs_Entries = (\<lambda>m. map (\<lambda>k. (k, the (m k))) (filter (\<lambda>k. m k \<noteq> None) [''level'', ''ready'', ''reason'', ''result''])),
     obs_Items = (\<lambda>_. []), obs_Labels = (\<lambda>_. []), obs_Empty = (\<lambda>_. True), obs_Log2 = (\<lambda>_. 1), obs_Digest = (\<lambda>s. s)\<rparr>"

definition failing_pod :: Evidence where
  "failing_pod = zero_Evidence\<lparr>ev_ID := ''e'', ev_Source := ''kubernetes'', ev_Facts := [''ready'' \<mapsto> ABool False, ''reason'' \<mapsto> AString ''CrashLoopBackOff'']\<rparr>"


section \<open>Where the figures mislead\<close>

definition stamped :: "int \<times> rat \<Rightarrow> any_value" where
  "stamped = (\<lambda>(t, v). AList [AInt t, AFloat v])"

definition unix_stamp :: "int \<times> rat \<Rightarrow> bool" where
  "unix_stamp x = (946684800 \<le> fst x \<and> fst x \<le> 4102444800)"

lemma sample_items_stamped: "list_all unix_stamp xs \<Longrightarrow> sample_items B (map stamped xs) = map snd xs"
  by (induction xs) (auto simp: stamped_def stamped_sample_def number_def looksLikeUnixTimestamp_def unix_stamp_def)

lemma series_measurements: "list_all unix_stamp xs \<Longrightarrow> measurements B (AList (map stamped xs)) = map snd xs"
  using sample_items_stamped [of xs B] by (auto simp: stamped_sample_def stamped_def number_def split: list.split)

lemma maxAbs_Max: "\<lbrakk>vs \<noteq> []; \<forall>v\<in>set vs. 0 \<le> v\<rbrakk> \<Longrightarrow> maxAbs vs = Max (set vs)"
proof -
  have "\<forall>v\<in>set vs. 0 \<le> v \<Longrightarrow> 0 \<le> a \<Longrightarrow> foldl (\<lambda>m v. max m \<bar>v\<bar>) a vs = Max (insert a (set vs))" for a :: rat
  proof (induction vs arbitrary: a)
    case (Cons v vs)
    then have "foldl (\<lambda>m v. max m \<bar>v\<bar>) (max a v) vs = Max (insert (max a v) (set vs))" by (simp add: le_max_iff_disj)
    then show ?case using Cons.prems by (cases "vs = []") (simp_all add: max.assoc)
  qed simp
  from this [of 0] show "\<lbrakk>vs \<noteq> []; \<forall>v\<in>set vs. 0 \<le> v\<rbrakk> \<Longrightarrow> maxAbs vs = Max (set vs)"
    by (auto simp: maxAbs_def Max_insert max_def)
qed

lemma minAbs_Min: "\<lbrakk>vs \<noteq> []; \<forall>v\<in>set vs. 0 \<le> v\<rbrakk> \<Longrightarrow> minAbs vs = Min (set vs)"
proof -
  have aux: "\<forall>v\<in>set vs. 0 \<le> v \<Longrightarrow> 0 \<le> a \<Longrightarrow> foldl (\<lambda>m v. min m \<bar>v\<bar>) a vs = Min (insert a (set vs))" for a :: rat and vs
  proof (induction vs arbitrary: a)
    case (Cons v vs)
    then have "foldl (\<lambda>m v. min m \<bar>v\<bar>) (min a v) vs = Min (insert (min a v) (set vs))" by simp
    then show ?case using Cons.prems by (cases "vs = []") (simp_all add: min.assoc)
  qed simp
  then show "\<lbrakk>vs \<noteq> []; \<forall>v\<in>set vs. 0 \<le> v\<rbrakk> \<Longrightarrow> minAbs vs = Min (set vs)"
  proof (cases vs)
    case (Cons v ws)
    then show "\<forall>v\<in>set vs. 0 \<le> v \<Longrightarrow> ?thesis" using aux [of ws v] by (simp add: minAbs_def)
  qed simp
qed

lemma falling_extremes:
  assumes "sorted (rev vs)" "vs \<noteq> []" "0 \<le> last vs"
  shows "maxAbs vs = hd vs" "minAbs vs = last vs"
proof -
  have hl: "\<forall>v\<in>set vs. last vs \<le> v \<and> v \<le> hd vs"
  proof
    fix v assume "v \<in> set vs"
    then obtain k where "k < length vs" "v = vs ! k" by (auto simp: in_set_conv_nth)
    then show "last vs \<le> v \<and> v \<le> hd vs" using assms(1,2)
      by (auto simp: hd_conv_nth last_conv_nth sorted_rev_iff_nth_mono)
  qed
  then have nonneg: "\<forall>v\<in>set vs. 0 \<le> v" using assms(3) by (meson order_trans)
  show "maxAbs vs = hd vs" using maxAbs_Max [OF assms(2) nonneg] hl assms(2) by (auto intro: Max_eqI)
  show "minAbs vs = last vs" using minAbs_Min [OF assms(2) nonneg] hl assms(2) by (auto intro: Min_eqI)
qed

definition series_evidence :: "observer \<Rightarrow> string \<Rightarrow> (int \<times> rat) list \<Rightarrow> Evidence \<Rightarrow> bool" where
  "series_evidence B kind xs e = (ev_Source e = ''prometheus'' \<and> firstSignal (ev_Type e) (ev_Kind e) = kind \<and>
     ev_Facts e = [''result'' \<mapsto> AList (map stamped xs)] \<and> obs_Entries B (ev_Facts e) \<noteq> [] \<and> xs \<noteq> [] \<and> list_all unix_stamp xs)"

lemma series_score:
  assumes "series_evidence B kind xs e"
  shows "ev_AnomalyScore (AnalyzeEvidence B e) = clampScore (sample_anomaly (ToLower kind) (map snd xs))"
    "analysed_facts B e = [''result'' \<mapsto> AList (map stamped xs)]"
proof -
  have "ToLower ''prometheus'' = ''prometheus''" by code_simp
  then have f: "analysed_facts B e = [''result'' \<mapsto> AList (map stamped xs)]" "ToLower (ev_Source e) = ''prometheus''"
    using assms by (auto simp: analysed_facts_def series_evidence_def)
  moreover have "metric_change B [''result'' \<mapsto> v] = None" for v by (simp add: metric_change_def)
  moreover have "namedNumber B [''result'' \<mapsto> v] [''current'', ''current_value'', ''value''] = None" for v by simp
  ultimately show "ev_AnomalyScore (AnalyzeEvidence B e) = clampScore (sample_anomaly (ToLower kind) (map snd xs))"
    using assms series_measurements [of xs B]
    by (simp add: AnalyzeEvidence_def anomaly_score_def metricAnomaly_def series_evidence_def fact_def Let_def)
  show "analysed_facts B e = [''result'' \<mapsto> AList (map stamped xs)]" by (rule f(1))
qed

lemma derived_additional:
  assumes "a \<in> set (rd_Additional (reading_of B e facts))" "a \<noteq> []"
  shows "\<exists>s\<in>set (deriveSignals B e facts). sig_Signal s = a"
  using derived_signals(6) [of B e facts] assms by (metis (no_types, lifting) DiffI imageE insertCI insertE singletonD)

text \<open>C32. Memory that is released reads as memory that grows.  The trend of the memory compares the largest with the smallest sample and
  not the first with the last: a series that only falls, from at least 60 per cent of the limit, is scored by the size of its
  fall and reported as the abnormal signal \<open>memory_growth\<close>, although the code says that a decrease is recovery.\<close>

theorem memory_release_reads_as_growth:
  assumes "series_evidence B ''memory_trend'' xs e" "2 \<le> length xs" "sorted (map fst xs)" "sorted (rev (map snd xs))"
    "60/100 \<le> snd (hd xs)" "0 < snd (last xs)" "snd (last xs) < snd (hd xs)"
  shows "ev_AnomalyScore (AnalyzeEvidence B e) = clampScore ((snd (hd xs) - snd (last xs)) / snd (last xs)) \<and> 0 < ev_AnomalyScore (AnalyzeEvidence B e) \<and>
    (\<exists>s\<in>set (ev_Signals (AnalyzeEvidence B e)). sig_Signal s = ''memory_growth'' \<and> sig_Direction s = ''abnormal'')"
proof -
  have k: "ToLower ''memory_trend'' = ''memory_trend''" "Contains ''memory_trend'' ''memory''" "Contains ''memory_trend'' ''trend''"
    "\<not> up_metric ''memory_trend''" "sample_anomaly ''memory_trend'' vs = memory_anomaly ''memory_trend'' vs" for vs by code_simp+
  have ne: "map snd xs \<noteq> []" "hd (map snd xs) = snd (hd xs)" "last (map snd xs) = snd (last xs)" using assms(2) by (auto simp: hd_map last_map dest: arg_cong [of _ _ length]) (cases xs; simp add: hd_map last_map)+
  have "maxAbs (map snd xs) = snd (hd xs)" "minAbs (map snd xs) = snd (last xs)"
    using falling_extremes [OF assms(4) ne(1)] assms(6) unfolding ne by simp_all
  then have "memory_anomaly ''memory_trend'' (map snd xs) = clampScore ((snd (hd xs) - snd (last xs)) / snd (last xs))"
    using assms(2,5,6) k(3) by (simp add: memory_anomaly_def Let_def)
  then have score: "ev_AnomalyScore (AnalyzeEvidence B e) = clampScore ((snd (hd xs) - snd (last xs)) / snd (last xs))"
    using series_score(1) [OF assms(1)] by (simp add: k)
  moreover have "0 < (snd (hd xs) - snd (last xs)) / snd (last xs)" using assms(6,7) by simp
  ultimately have pos: "0 < ev_AnomalyScore (AnalyzeEvidence B e)" by (simp add: clampScore_def)
  define x where "x = e\<lparr>ev_AnomalyScore := clampScore (anomaly_score B e (analysed_facts B e)),
    ev_CausalNodeIDs := appendUnique (ev_CausalNodeIDs e) (''obs:'' @ ev_ID e)\<rparr>"
  have s: "ev_Signals (AnalyzeEvidence B e) = deriveSignals B x (analysed_facts B e)" "ev_AnomalyScore x = ev_AnomalyScore (AnalyzeEvidence B e)"
    by (simp_all add: AnalyzeEvidence_def x_def Let_def)
  have "ToLower ''prometheus'' = ''prometheus''" by code_simp
  then have p: "ToLower (ev_Source x) = ''prometheus''" "firstSignal (ev_Type x) (ev_Kind x) = ''memory_trend''"
    using assms(1) by (simp_all add: x_def series_evidence_def)
  then have "''memory_growth'' \<in> set (rd_Additional (reading_of B x (analysed_facts B e)))"
    by (simp add: reading_of_def metric_reading_def k Let_def)
  then obtain g where g: "g \<in> set (deriveSignals B x (analysed_facts B e))" "sig_Signal g = ''memory_growth''"
    using derived_additional by blast
  moreover have "plain_signal x g" using derived_signals(4) [of x B "analysed_facts B e"] g(1) p(1) by (simp add: list_all_iff known_sources_def)
  ultimately show ?thesis using score pos s by (auto simp: plain_signal_def)
qed

definition falling_memory :: Evidence where
  "falling_memory = zero_Evidence\<lparr>ev_Source := ''prometheus'', ev_Kind := ''memory_trend'',
     ev_Facts := [''result'' \<mapsto> AList (map stamped [(1700000000, 9/10), (1700000015, 3/5)])]\<rparr>"

lemma memory_release_reads_as_growth_witness:
  "ev_AnomalyScore (AnalyzeEvidence plain_observer falling_memory) = 1/2 \<and>
   (\<exists>s\<in>set (ev_Signals (AnalyzeEvidence plain_observer falling_memory)). sig_Signal s = ''memory_growth'' \<and> sig_Direction s = ''abnormal'')"
proof -
  have "series_evidence plain_observer ''memory_trend'' [(1700000000, 9/10), (1700000015, 3/5)] falling_memory"
    by (simp add: series_evidence_def falling_memory_def zero_Evidence_def firstSignal_def plain_observer_def unix_stamp_def)
  from memory_release_reads_as_growth [OF this] show ?thesis by (simp add: clampScore_def)
qed

text \<open>The largest sample decides for an availability metric, so that one sample of a healthy target hides an outage before
  or after it.\<close>

lemma outage_hidden_by_one_sample:
  assumes "series_evidence B kind xs e" "up_metric (ToLower kind)" "(t, 1) \<in> set xs" "list_all (\<lambda>x. 0 \<le> snd x \<and> snd x \<le> 1) xs"
  shows "ev_AnomalyScore (AnalyzeEvidence B e) = 0"
proof -
  have "1 \<in> set (map snd xs)" "xs \<noteq> []" using assms(3) by force+
  moreover have "Max (set (map snd xs)) = 1" by (rule Max_eqI) (use assms(4) calculation(1) in \<open>auto simp: list_all_iff\<close>)
  ultimately have "maxAbs (map snd xs) = 1" using maxAbs_Max [of "map snd xs"] assms(4) by (auto simp: list_all_iff)
  then show ?thesis using series_score(1) [OF assms(1)] assms(2) by (simp add: sample_anomaly_def clampScore_def)
qed

text \<open>A missing level prints as \<open><nil>\<close> and not as the empty string, so that a marker in a record without a level
  counts .8, as with a level, and the rule that such a marker counts .35 never applies.\<close>

lemma unlabelled_marker_counts_fully:
  assumes "facts ''level'' = None" "Contains (ToLower (ev_Summary e @ '' '' @ obs_PrintMap B facts)) marker" "marker \<in> set log_markers"
  shows "8/10 \<le> logAnomaly B e facts"
proof -
  let ?step = "\<lambda>b marker. if Contains (ToLower (ev_Summary e @ '' '' @ obs_PrintMap B facts)) marker then max b (8/10) else b :: rat"
  have grow: "b \<le> foldl ?step b ms" for b ms by (induction ms arbitrary: b) (auto intro: order_trans [OF max.cobounded1])
  have "marker \<in> set ms \<Longrightarrow> 8/10 \<le> foldl ?step b ms" for b ms
  proof (induction ms arbitrary: b)
    case (Cons m ms)
    show ?case
    proof (cases "m = marker")
      case True
      then show ?thesis using grow [of "max b (8/10)" ms] assms(2) by simp
    qed (use Cons in simp)
  qed simp
  then have base: "8/10 \<le> foldl ?step (level_score ''<nil>'') log_markers" using assms(3) by blast
  have "ToLower ''<nil>'' = ''<nil>''" by code_simp
  then have level: "ToLower (Sprint B (fact facts ''level'')) = ''<nil>''" using assms(1) by (simp add: fact_def Sprint_def)
  have nonempty: "(''<nil>'' = []) = False" by simp
  show ?thesis
    unfolding logAnomaly_def Let_def level nonempty if_False using base by (auto split: option.split intro: order_trans [OF _ max.cobounded1])
qed

end
