(* ===== verification/Evidence_Ranking.thy ===== *)
theory Evidence_Ranking
  imports Evidence_Signals Evidence_Contract
begin

text \<open>\<^verbatim>\<open>internal/reasoning/evidence/ranking.go\<close> and the evidence part of \<^verbatim>\<open>reasoning/engine.go\<close>: how relevant an observation is to an
  incident, and which observations the model gets to see.  A ranking policy is a set of weighted features, loaded from a
  file and validated.  A \<open>ranker\<close> holds the observer of the signals, the printed form of a figure, the square root, the JSON
  text of a value, the two regular expressions that blank out timestamps and identifiers, and what the
  normaliser needs.  The sizes for the ledger and the process metrics are not modelled beyond the counts.\<close>

section \<open>Policies\<close>

record Policy =
  pol_Version :: int
  pol_Evidence :: "(string \<times> rat) list"
  pol_Incident :: "(string \<times> rat) list"
  pol_Topology :: "(string \<times> rat) list"
  pol_Hash :: string

definition DefaultPolicy :: Policy where
  "DefaultPolicy = \<lparr>pol_Version = 1,
     pol_Evidence = [(''neural_similarity'', 30/100), (''temporal_alignment'', 20/100), (''service_resource_attribution'', 20/100),
       (''trace_request_pod_attribution'', 15/100), (''causal_contribution'', 10/100), (''source_quality_and_rarity'', 5/100)],
     pol_Incident = [(''neural_similarity'', 40/100), (''topology_similarity'', 20/100), (''normalized_rrf'', 15/100), (''evidence_feature_overlap'', 10/100),
       (''causal_path_coverage'', 5/100), (''service_resource_proximity'', 5/100), (''revision_temporal_context'', 5/100)],
     pol_Topology = [(''directed_edge_jaccard'', 40/100), (''shared_critical_dependency'', 30/100), (''root_to_symptom_path_similarity'', 20/100),
       (''failing_node_role_similarity'', 10/100)],
     pol_Hash = []\<rparr>"

definition bad_ranking_weight :: "string \<times> rat \<Rightarrow> bool" where
  "bad_ranking_weight kv = (TrimSpace (fst kv) = [] \<or> snd kv < 0 \<or> snd kv > 1)"

definition weight_total :: "(string \<times> rat) list \<Rightarrow> rat" where
  "weight_total weights = sum_list (map snd weights)"

definition validateWeights :: "(nat \<Rightarrow> rat \<Rightarrow> string) \<Rightarrow> string \<Rightarrow> (string \<times> rat) list \<Rightarrow> string option" where
  "validateWeights fixed name weights =
     (if weights = [] then Some (name @ '' ranking weights are required'')
      else case find bad_ranking_weight weights of
        Some kv \<Rightarrow> Some (''invalid '' @ name @ '' weight '' @ [CHR 0x22] @ fst kv @ [CHR 0x22])
      | None \<Rightarrow> if weight_total weights < 999999/1000000 \<or> weight_total weights > 1000001/1000000
                then Some (name @ '' ranking weights must sum to 1, got '' @ fixed 6 (weight_total weights)) else None)"

text \<open>\<^verbatim>\<open>LoadPolicy\<close> on the bytes of the file, with the YAML decoder and the digest as arguments.  Go visits the three sets of weights
  in any order; the error reported here is the one of the first bad set in the order of the file.\<close>

definition LoadPolicy :: "(nat \<Rightarrow> rat \<Rightarrow> string) \<Rightarrow> (string \<Rightarrow> string + Policy) \<Rightarrow> (string \<Rightarrow> string) \<Rightarrow> string + string \<Rightarrow> string + Policy" where
  "LoadPolicy fixed decode digest file = (case file of Inl err \<Rightarrow> Inl err
     | Inr raw \<Rightarrow> (case decode raw of Inl err \<Rightarrow> Inl err
       | Inr policy \<Rightarrow>
           (case List.map_filter (\<lambda>(name, weights). validateWeights fixed name weights)
                   [(''evidence'', pol_Evidence policy), (''incident'', pol_Incident policy), (''topology'', pol_Topology policy)] of
              err # _ \<Rightarrow> Inl err
            | [] \<Rightarrow> Inr (policy\<lparr>pol_Hash := digest raw\<rparr>))))"

section \<open>Features of an observation\<close>

record ranker =
  rk_Observer :: observer
  rk_Fixed :: "nat \<Rightarrow> rat \<Rightarrow> string"
  rk_Sqrt :: "int \<Rightarrow> rat"
  rk_JSON :: "any_value \<Rightarrow> string"
  rk_FactsJSON :: "any_value table \<Rightarrow> string"
  rk_ReadJSON :: "string \<Rightarrow> any_value option"
  rk_Timestamps :: "string \<Rightarrow> string"
  rk_Identifiers :: "string \<Rightarrow> string"
  rk_ReadLine :: "string \<Rightarrow> any_value table option"
  rk_Identity :: id_digest
  rk_Codec :: value_codec
  rk_Bytes :: "Evidence list \<Rightarrow> int"

definition observation_time :: "Evidence \<Rightarrow> time" where
  "observation_time item = (if IsZero (ev_Timestamp item) then ev_ObservedAt item else ev_Timestamp item)"

definition temporalAlignment :: "time \<Rightarrow> Incident \<Rightarrow> Evidence \<Rightarrow> rat" where
  "temporalAlignment now incident item =
     (let t = observation_time item in
      if IsZero t then 25/100
      else let target = (if IsZero (inc_CreatedAt incident) then now else inc_CreatedAt incident);
               delta = \<bar>target - t\<bar>;
               window = (if \<not> IsZero (ev_WindowStart item) \<and> \<not> IsZero (ev_WindowEnd item) \<and> ev_WindowEnd item > ev_WindowStart item
                         then ev_WindowEnd item - ev_WindowStart item else 5 * Minute)
           in if delta \<ge> window then 0 else clampScore (1 - of_int delta / of_int window))"

definition serviceResourceMatch :: "Incident \<Rightarrow> Evidence \<Rightarrow> rat" where
  "serviceResourceMatch incident item = clampScore
     ((if ev_Namespace item = inc_Namespace incident then 25/100 else 0) + (if ev_Service item = inc_Service incident then 45/100 else 0) +
      (if ev_Resource item \<noteq> [] \<and> ev_Resource item = inc_Resource incident then 30/100 else 0))"

definition tracePodMatch :: "observer \<Rightarrow> Incident \<Rightarrow> Evidence \<Rightarrow> rat" where
  "tracePodMatch B incident item =
     (let text = ToLower (ev_Summary item @ '' '' @ obs_PrintMap B (ev_Content item)) in
      clampScore ((if ev_TraceID item \<noteq> [] \<and> (inc_TraceID incident = [] \<or> ev_TraceID item = inc_TraceID incident) then 60/100 else 0) +
        (if inc_Resource incident \<noteq> [] \<and> Contains text (ToLower (inc_Resource incident)) then 40/100 else 0)))"

definition causalValue :: "Evidence \<Rightarrow> rat" where
  "causalValue item = (let n = length (filter (\<lambda>node. \<not> HasPrefix node ''obs:'' \<and> \<not> HasPrefix node ''signal:'') (ev_CausalNodeIDs item))
     in if n = 0 then 0 else clampScore (of_nat n / 3))"

definition anomalyValue :: "Evidence \<Rightarrow> rat" where
  "anomalyValue item =
     (if ev_AnomalyScore item > 0 then clampScore (ev_AnomalyScore item)
      else if ev_Confidence item > 0 \<and> ev_Source item \<notin> {''prometheus'', ''loki'', ''jaeger'', ''kubernetes''} then clampScore (ev_Confidence item)
      else 0)"

definition sourceQuality :: "Evidence \<Rightarrow> rat" where
  "sourceQuality item = (if ev_Source item = ''kubernetes'' then 1 else if ev_Source item = ''prometheus'' then 95/100
     else if ev_Source item = ''jaeger'' then 9/10 else if ev_Source item = ''loki'' then 85/100 else 6/10)"

definition Attribute :: "ranker \<Rightarrow> time \<Rightarrow> Incident option \<Rightarrow> Evidence \<Rightarrow> rat \<Rightarrow> rat \<Rightarrow> EvidenceAttribution" where
  "Attribute R now incident item causalContribution anomalySpecificity = (case incident of None \<Rightarrow> zero_EvidenceAttribution
     | Some i \<Rightarrow>
         (let temporal = temporalAlignment now i item; service = serviceResourceMatch i item; trace = tracePodMatch (rk_Observer R) i item;
              causal = clampScore causalContribution; anomaly = clampScore anomalySpecificity;
              score = 25/100 * temporal + 30/100 * service + 20/100 * trace + 15/100 * causal + 10/100 * anomaly
          in \<lparr>ea_TemporalAlignment = temporal, ea_ServiceResourceMatch = service, ea_TraceRequestPodMatch = trace, ea_CausalContribution = causal,
              ea_AnomalySpecificity = anomaly, ea_AttributionScore = clampScore score,
              ea_Reasons = [''temporal_alignment='' @ rk_Fixed R 3 temporal, ''service_resource_match='' @ rk_Fixed R 3 service,
                ''trace_request_pod_match='' @ rk_Fixed R 3 trace, ''causal_contribution='' @ rk_Fixed R 3 causal, ''anomaly_specificity='' @ rk_Fixed R 3 anomaly]\<rparr>))"

section \<open>Weighted scores\<close>

definition weighted :: "rat table \<Rightarrow> (string \<times> rat) list \<Rightarrow> rat" where
  "weighted figures weights = clampScore (sum_list (map (\<lambda>(key, weight). weight * clampScore (mget 0 figures key)) weights))"

definition scale_weights :: "(string \<times> rat) list \<Rightarrow> (string \<times> rat) list" where
  "scale_weights weights = (let total = weight_total weights in if total > 0 then map (\<lambda>(key, w). (key, w / total)) weights else weights)"

definition applicableEvidenceWeights :: "(string \<times> rat) list \<Rightarrow> Evidence \<Rightarrow> (string \<times> rat) list" where
  "applicableEvidenceWeights weights item = scale_weights (filter (\<lambda>(key, w). \<not> (key = ''neural_similarity'' \<or>
     ev_Source item \<noteq> ''jaeger'' \<and> ev_Source item \<noteq> ''trace'' \<and> key = ''trace_request_pod_attribution'' \<or>
     causalValue item = 0 \<and> key = ''causal_contribution'')) weights)"

definition withoutAndNormalize :: "(string \<times> rat) list \<Rightarrow> string \<Rightarrow> (string \<times> rat) list" where
  "withoutAndNormalize weights excluded_key = scale_weights (filter (\<lambda>(key, w). key \<noteq> excluded_key) weights)"

section \<open>Quality of signals\<close>

definition signalFamily :: "Evidence \<Rightarrow> EvidenceSignal \<Rightarrow> string" where
  "signalFamily item s = Join [ToLower (sig_Source s), sig_Category s, sig_Signal s, ev_Namespace item, ev_Service item, ev_Resource item,
     (if ev_TemplateID item = [] then ToLower (TrimSpace (ev_Summary item)) else ev_TemplateID item)] ''|''"

definition family_size :: "Evidence list \<Rightarrow> string \<Rightarrow> nat" where
  "family_size items family = length (filter (\<lambda>f. f = family) (concat (map (\<lambda>item. map (signalFamily item) (ev_Signals item)) items)))"

definition qualify_signal :: "ranker \<Rightarrow> time \<Rightarrow> Incident \<Rightarrow> Evidence list \<Rightarrow> Evidence \<Rightarrow> EvidenceSignal \<Rightarrow> EvidenceSignal" where
  "qualify_signal R now incident items item s =
     (let n = max 1 (int (family_size items (signalFamily item s))) in
      s\<lparr>sig_Independence := max (10/100) (1 / rk_Sqrt R n), sig_TemporalAlignment := temporalAlignment now incident item\<rparr>)"

definition signal_quality :: "EvidenceSignal \<Rightarrow> rat" where
  "signal_quality s = clampScore (sig_Strength s * sig_Reliability s * sig_TemporalAlignment s * sig_Independence s)"

definition largest :: "rat list \<Rightarrow> rat" where
  "largest = foldl (\<lambda>best v. if v > best then v else best) 0"

definition applySignalQuality :: "ranker \<Rightarrow> time \<Rightarrow> Incident \<Rightarrow> Evidence list \<Rightarrow> Evidence list" where
  "applySignalQuality R now incident items = map (\<lambda>item.
     let qualified = map (qualify_signal R now incident items item) (ev_Signals item)
     in item\<lparr>ev_Signals := qualified, ev_QualityScore := largest (map signal_quality qualified)\<rparr>) items"

section \<open>Ranking\<close>

definition rank_figures :: "Evidence \<Rightarrow> EvidenceAttribution \<Rightarrow> rat table" where
  "rank_figures item a = [''neural_similarity'' \<mapsto> ev_NeuralScore item, ''temporal_alignment'' \<mapsto> ea_TemporalAlignment a,
     ''service_resource_attribution'' \<mapsto> ea_ServiceResourceMatch a, ''trace_request_pod_attribution'' \<mapsto> ea_TraceRequestPodMatch a,
     ''causal_contribution'' \<mapsto> ea_CausalContribution a, ''source_quality_and_rarity'' \<mapsto> 35/100 * sourceQuality item + 65/100 * ea_AnomalySpecificity a]"

definition bool_text :: "bool \<Rightarrow> string" where
  "bool_text b = (if b then ''true'' else ''false'')"

definition rank_item :: "ranker \<Rightarrow> Policy \<Rightarrow> time \<Rightarrow> Incident \<Rightarrow> Evidence \<Rightarrow> Evidence" where
  "rank_item R policy now incident item =
     (let a = Attribute R now (Some incident) item (causalValue item) (anomalyValue item);
          figures = rank_figures item a;
          deterministic = weighted figures (applicableEvidenceWeights (pol_Evidence policy) item);
          final = (if ev_NeuralRanked item then clampScore (70/100 * deterministic + 30/100 * clampScore (ev_NeuralScore item)) else deterministic)
      in item\<lparr>ev_Attribution := Some a,
           ev_RankBreakdown := Some \<lparr>erb_EvidenceID = ev_ID item, erb_DeterministicScore = deterministic, erb_NeuralScore = ev_NeuralScore item,
             erb_DeterministicWeight = 70/100, erb_NeuralWeight = 30/100, erb_FinalScore = final, erb_NeuralUsed = ev_NeuralRanked item,
             erb_SignalStrength = largest (map sig_Strength (ev_Signals item)), erb_SourceReliability = largest (map sig_Reliability (ev_Signals item)),
             erb_TemporalAlignment = largest (map sig_TemporalAlignment (ev_Signals item)), erb_EvidenceQuality = ev_QualityScore item,
             erb_Factors = figures(''deterministic_score'' \<mapsto> deterministic, ''final_score'' \<mapsto> final)\<rparr>,
           ev_RelevanceScore := final,
           ev_RankingReasons := ev_RankingReasons item @ ea_Reasons a @ [''evidence_deterministic='' @ rk_Fixed R 3 deterministic,
             ''evidence_neural_used='' @ bool_text (ev_NeuralRanked item), ''final_relevance='' @ rk_Fixed R 3 final]\<rparr>)"

definition by_relevance :: "Evidence list \<Rightarrow> Evidence list" where
  "by_relevance items = sort_key (\<lambda>e. - ev_RelevanceScore e) (sort_key ev_ID items)"

definition Rank :: "ranker \<Rightarrow> Policy \<Rightarrow> time \<Rightarrow> Incident \<Rightarrow> Evidence list \<Rightarrow> Evidence list" where
  "Rank R policy now incident items =
     by_relevance (map (rank_item R policy now incident) (applySignalQuality R now incident (map (AnalyzeEvidence (rk_Observer R)) items)))"

definition candidate_figures :: "RankBreakdown \<Rightarrow> rat table" where
  "candidate_figures r = [''neural_similarity'' \<mapsto> rb_NeuralSimilarity r, ''topology_similarity'' \<mapsto> rb_TopologySimilarity r, ''normalized_rrf'' \<mapsto> rb_NormalizedRRF r,
     ''evidence_feature_overlap'' \<mapsto> rb_EvidenceFeatureOverlap r, ''causal_path_coverage'' \<mapsto> rb_CausalPathCoverage r,
     ''service_resource_proximity'' \<mapsto> rb_ServiceResourceProximity r, ''revision_temporal_context'' \<mapsto> rb_RevisionTemporalContext r]"

definition rank_candidate :: "ranker \<Rightarrow> Policy \<Rightarrow> RetrievalCandidate \<Rightarrow> RetrievalCandidate" where
  "rank_candidate R policy c =
     (let r = rc_Rank c; figures = candidate_figures r;
          deterministic = (if rb_DeterministicScore r \<noteq> 0 then rb_DeterministicScore r
                           else weighted figures (withoutAndNormalize (pol_Incident policy) ''neural_similarity''));
          final = (if rb_NeuralRanked r then clampScore (45/100 * deterministic + 55/100 * clampScore (rb_NeuralSimilarity r)) else deterministic)
      in c\<lparr>rc_Rank := r\<lparr>rb_DeterministicScore := deterministic, rb_FinalScore := final,
             rb_IncidentRank := Some (zero_IncidentRankBreakdown\<lparr>irb_IncidentID := rc_IncidentID c, irb_DeterministicScore := deterministic,
               irb_TopologyScore := rb_TopologySimilarity r, irb_NeuralScore := rb_NeuralSimilarity r, irb_DeterministicWeight := 45/100,
               irb_NeuralWeight := 55/100, irb_FinalScore := final, irb_NeuralUsed := rb_NeuralRanked r,
               irb_Factors := figures(''deterministic_score'' \<mapsto> deterministic, ''final_score'' \<mapsto> final)\<rparr>)\<rparr>,
           rc_RankingReasons := rc_RankingReasons c @ [''incident_deterministic='' @ rk_Fixed R 3 deterministic,
             ''incident_neural_used='' @ bool_text (rb_NeuralRanked r), ''policy_final='' @ rk_Fixed R 3 final]\<rparr>)"

definition by_final_score :: "RetrievalCandidate list \<Rightarrow> RetrievalCandidate list" where
  "by_final_score cs = sort_key (\<lambda>c. - rb_FinalScore (rc_Rank c)) (sort_key rc_IncidentID cs)"

definition RankCandidates :: "ranker \<Rightarrow> Policy \<Rightarrow> RetrievalCandidate list \<Rightarrow> RetrievalCandidate list" where
  "RankCandidates R policy items = by_final_score (map (rank_candidate R policy) items)"

end
