(* ===== verification/Evidence_Selection.thy ===== *)
theory Evidence_Selection
  imports Evidence_Ranking
begin

text \<open>The first part of \<^verbatim>\<open>reasoning/engine.go\<close>: \<^verbatim>\<open>RankEvidence\<close> normalises, analyses, deduplicates, scores and ranks the evidence of an incident
  and selects what the model gets to see, at least one observation of each modality that is there.  The map of
  observations by identifier is an association list: its order does not matter, since what it holds is sorted by score and
  identifier afterwards.  An empty map counts as nil, which is how the normaliser leaves it.\<close>

section \<open>Configuration\<close>

record Config =
  cfg_SemanticTopK :: int
  cfg_LexicalTopK :: int
  cfg_TopologyTopK :: int
  cfg_RRFK :: int
  cfg_RerankTopK :: int
  cfg_ModelEvidenceMaxItems :: int
  cfg_ModelContextMaxBytes :: int
  cfg_RankingPolicy :: "Policy option"

definition DefaultConfig :: Config where
  "DefaultConfig = \<lparr>cfg_SemanticTopK = 50, cfg_LexicalTopK = 50, cfg_TopologyTopK = 50, cfg_RRFK = 60, cfg_RerankTopK = 5,
     cfg_ModelEvidenceMaxItems = 12, cfg_ModelContextMaxBytes = 32768, cfg_RankingPolicy = None\<rparr>"

definition or_default :: "int \<Rightarrow> int \<Rightarrow> int" where
  "or_default v d = (if v > 0 then v else d)"

definition NewReasoning :: "Config \<Rightarrow> Config" where
  "NewReasoning c = \<lparr>cfg_SemanticTopK = or_default (cfg_SemanticTopK c) (cfg_SemanticTopK DefaultConfig),
     cfg_LexicalTopK = or_default (cfg_LexicalTopK c) (cfg_LexicalTopK DefaultConfig),
     cfg_TopologyTopK = or_default (cfg_TopologyTopK c) (cfg_TopologyTopK DefaultConfig), cfg_RRFK = or_default (cfg_RRFK c) (cfg_RRFK DefaultConfig),
     cfg_RerankTopK = or_default (cfg_RerankTopK c) (cfg_RerankTopK DefaultConfig),
     cfg_ModelEvidenceMaxItems = or_default (cfg_ModelEvidenceMaxItems c) (cfg_ModelEvidenceMaxItems DefaultConfig),
     cfg_ModelContextMaxBytes = or_default (cfg_ModelContextMaxBytes c) (cfg_ModelContextMaxBytes DefaultConfig), cfg_RankingPolicy = cfg_RankingPolicy c\<rparr>"

record RankedEvidence =
  re_Evidence :: "Evidence list"
  re_RuntimeEvidence :: "Evidence list"
  re_Ledger :: DiagnosisLedger

section \<open>The score of an observation\<close>

definition sourceIn :: "string \<Rightarrow> string list \<Rightarrow> bool" where
  "sourceIn v names = list_ex (EqualFold v) names"

definition hasSource :: "Evidence list \<Rightarrow> string \<Rightarrow> bool" where
  "hasSource items source = list_ex (\<lambda>item. EqualFold (ev_Source item) source) items"

definition hasAnySource :: "Evidence list \<Rightarrow> string list \<Rightarrow> bool" where
  "hasAnySource items sources = list_ex (\<lambda>item. sourceIn (ev_Source item) sources) items"

definition evidenceFacts :: "ranker \<Rightarrow> Evidence \<Rightarrow> any_value table" where
  "evidenceFacts R item = (if obs_Entries (rk_Observer R) (ev_Facts item) \<noteq> [] then ev_Facts item
     else if obs_Entries (rk_Observer R) (ev_Content item) \<noteq> [] then ev_Content item else ev_Data item)"

definition stringify :: "ranker \<Rightarrow> any_value \<Rightarrow> string" where
  "stringify R v = (if v = AnyNil then [] else if rk_JSON R v = ''null'' then [] else rk_JSON R v)"

definition findString :: "any_value table \<Rightarrow> string list \<Rightarrow> string" where
  "findString m names = (case List.map_filter (\<lambda>k. case m k of Some (AString s) \<Rightarrow> Some s | _ \<Rightarrow> None) names of [] \<Rightarrow> [] | s # _ \<Rightarrow> s)"

definition numeric :: "ranker \<Rightarrow> any_value \<Rightarrow> rat option" where
  "numeric R v = (case v of AFloat r \<Rightarrow> Some r | AInt n \<Rightarrow> Some (of_int n) | AInt64 n \<Rightarrow> Some (of_int n)
     | ANumber s \<Rightarrow> obs_ParseFloat (rk_Observer R) s | _ \<Rightarrow> None)"

definition insideWindow :: "Evidence \<Rightarrow> time \<Rightarrow> time \<Rightarrow> bool" where
  "insideWindow e start finish =
     (let t = observation_time e; t = (if IsZero t then ev_CollectedAt e else t)
      in IsZero t \<or> \<not> t < start \<and> \<not> t > finish + 30 * Second)"

definition window_score :: "Incident \<Rightarrow> Evidence \<Rightarrow> time \<Rightarrow> time \<Rightarrow> rat" where
  "window_score i e start finish =
     (let t = observation_time e in
      if IsZero t then 1/2
      else let target = (if IsZero (inc_CreatedAt i) \<or> inc_CreatedAt i < start \<or> inc_CreatedAt i > finish then finish else inc_CreatedAt i);
               span = max (finish - start) 1
           in clampScore (1 - of_int \<bar>t - target\<bar> / of_int span))"

definition match_score :: "Incident \<Rightarrow> Evidence \<Rightarrow> rat" where
  "match_score i e = clampScore ((if ev_Namespace e = [] \<or> ev_Namespace e = inc_Namespace i then 35/100 else 0) +
     (if ev_Service e = inc_Service i then 4/10 else if ev_Service e = [] then 15/100 else 0) +
     (if ev_Resource e = inc_Resource i \<and> ev_Resource e \<noteq> [] then 25/100 else 0))"

definition evidence_text :: "ranker \<Rightarrow> Evidence \<Rightarrow> string" where
  "evidence_text R e = ToLower (ev_Summary e @ '' '' @ rk_FactsJSON R (evidenceFacts R e))"

definition correlation_score :: "ranker \<Rightarrow> Incident \<Rightarrow> Evidence \<Rightarrow> rat" where
  "correlation_score R i e = clampScore
     ((if ev_TraceID e \<noteq> [] \<and> (inc_TraceID i = [] \<or> ev_TraceID e = inc_TraceID i) then 4/10 else 0) +
      (if inc_Resource i \<noteq> [] \<and> Contains (evidence_text R e) (ToLower (inc_Resource i)) then 3/10 else 0) +
      (if inc_Service i \<noteq> [] \<and> Contains (evidence_text R e) (ToLower (inc_Service i)) then 3/10 else 0))"

definition observation_text :: "ranker \<Rightarrow> Evidence \<Rightarrow> string" where
  "observation_text R e = (if sourceIn (ev_Source e) [''metric'', ''prometheus''] then ToLower (stringify R (fact (evidenceFacts R e) ''result'')) else evidence_text R e)"

definition discriminativeness :: "string \<Rightarrow> rat" where
  "discriminativeness text = clampScore (of_nat (length (filter (Contains text) [''oomkilled'', ''crashloopbackoff'', ''imagepullbackoff'', ''connection refused'', ''timeout'',
     ''throttl'', ''probe'', ''selector'', ''revision'', ''credential'', ''lock wait'', ''endpoint''])) / 3 + 2/10)"

definition source_trust :: "string \<Rightarrow> rat" where
  "source_trust source = (let s = ToLower source in
     if s = ''kubernetes'' then 1 else if s = ''prometheus'' \<or> s = ''metric'' then 95/100 else if s = ''jaeger'' \<or> s = ''trace'' then 9/10
     else if s = ''loki'' \<or> s = ''log'' then 85/100 else if s = ''historical'' then 65/100 else 1/2)"

definition containsFailureMarker :: "string \<Rightarrow> bool" where
  "containsFailureMarker value = mentions (ToLower value) [''error'', ''exception'', ''timeout'', ''killed'', ''failed'', ''failure'', ''oom'', ''refused'', ''unavailable'',
     ''throttl'', ''crashloop'', ''imagepull'', ''probe'']"

definition level_mention :: "string \<Rightarrow> string \<Rightarrow> bool" where
  "level_mention text level = (Contains text (CHR 0x22 # ''level'' @ [CHR 0x22] @ '':'' @ [CHR 0x22] @ level @ [CHR 0x22]) \<or> Contains text (''level='' @ level))"

definition severity_level :: "ranker \<Rightarrow> Evidence \<Rightarrow> string \<Rightarrow> string" where
  "severity_level R e text =
     (let level = ToLower (findString (evidenceFacts R e) [''level'', ''severity'']) in
      if level \<noteq> [] then level
      else (case find (level_mention text) [''critical'', ''fatal'', ''error'', ''warn'', ''info'', ''debug''] of None \<Rightarrow> [] | Some l \<Rightarrow> l))"

definition severity_score :: "string \<Rightarrow> rat" where
  "severity_score level = (if level = [] then 3/10 else if level = ''critical'' \<or> level = ''fatal'' then 1 else if level = ''error'' then 9/10
     else if level = ''warn'' \<or> level = ''warning'' then 55/100 else if level = ''info'' then 8/100 else if level = ''debug'' then 2/100 else 0)"

definition severityRarity :: "ranker \<Rightarrow> Evidence \<Rightarrow> string \<Rightarrow> rat" where
  "severityRarity R e text =
     (let score = severity_score (severity_level R e text);
          score = (case numeric R (fact (evidenceFacts R e) ''occurrence_count'') of None \<Rightarrow> score
             | Some n \<Rightarrow> if n \<le> 2 then max score (9/10) else if n \<le> 10 then max score (7/10) else if n \<le> 100 then max score (45/100) else score);
          score = (if containsFailureMarker text then max score (8/10) else score)
      in clampScore score)"

definition evidenceScore :: "ranker \<Rightarrow> Incident \<Rightarrow> Evidence \<Rightarrow> time \<Rightarrow> time \<Rightarrow> rat \<times> string list" where
  "evidenceScore R i e start finish =
     (let window = window_score i e start finish; match = match_score i e; correlation = correlation_score R i e;
          discriminative = discriminativeness (observation_text R e); quality = source_trust (ev_Source e);
          rarity = severityRarity R e (observation_text R e)
      in (25/100 * window + 20/100 * match + 20/100 * correlation + 15/100 * discriminative + 10/100 * quality + 10/100 * rarity,
          [''window='' @ rk_Fixed R 3 window, ''resource_match='' @ rk_Fixed R 3 match, ''correlation='' @ rk_Fixed R 3 correlation,
           ''discriminativeness='' @ rk_Fixed R 3 discriminative, ''source_quality='' @ rk_Fixed R 3 quality, ''severity_rarity='' @ rk_Fixed R 3 rarity]))"

section \<open>What the model gets to see\<close>

definition evidenceModality :: "Evidence \<Rightarrow> string" where
  "evidenceModality item = (let s = ToLower (TrimSpace (ev_Source item)) in
     if s = ''metric'' \<or> s = ''prometheus'' then ''metric'' else if s = ''log'' \<or> s = ''loki'' then ''log''
     else if s = ''trace'' \<or> s = ''jaeger'' then ''trace'' else if s = ''kubernetes'' then ''topology'' else [])"

definition TrimSuffix :: "string \<Rightarrow> string \<Rightarrow> string" where
  "TrimSuffix s ending = (if HasSuffix s ending then take (length s - length ending) s else s)"

definition metricEvidenceFamily :: "Evidence \<Rightarrow> string" where
  "metricEvidenceFamily item =
     (if evidenceModality item \<noteq> ''metric'' then []
      else let kind = ToLower (TrimSpace (if ev_Kind item \<noteq> [] then ev_Kind item else ev_Type item))
           in if kind = [] then [] else TrimSuffix (TrimSuffix kind ''_current'') ''_trend'')"

definition dynamic_field :: "string \<Rightarrow> bool" where
  "dynamic_field key = (ToLower key \<in> {''time'', ''timestamp'', ''trace_id'', ''request_id'', ''user_id'', ''order_id'', ''pod'', ''pod_name''})"

fun removeDynamicFields :: "any_value \<Rightarrow> any_value"
  and static_items :: "any_value list \<Rightarrow> any_value list"
  and static_entries :: "(string \<times> any_value) list \<Rightarrow> (string \<times> any_value) list" where
  "removeDynamicFields (AObject m) = AObject (static_entries m)"
| "removeDynamicFields (AList xs) = AList (static_items xs)"
| "removeDynamicFields v = v"
| "static_items [] = []"
| "static_items (x # xs) = removeDynamicFields x # static_items xs"
| "static_entries [] = []"
| "static_entries ((k, v) # m) = (k, if dynamic_field k then AString ''<dynamic>'' else removeDynamicFields v) # static_entries m"

definition canonicalEvidenceSummary :: "ranker \<Rightarrow> string \<Rightarrow> string" where
  "canonicalEvidenceSummary R summary = (case rk_ReadJSON R summary of
       Some v \<Rightarrow> ToLower (rk_JSON R (removeDynamicFields v)) | None \<Rightarrow> ToLower (TrimSpace summary))"

definition evidenceSignature :: "ranker \<Rightarrow> Evidence \<Rightarrow> string" where
  "evidenceSignature R item =
     (let summary = Join (Fields (rk_Identifiers R (rk_Timestamps R (canonicalEvidenceSummary R (ev_Summary item))))) '' ''
      in ToLower (ev_Source item @ [CHR 0x00] @ (if ev_Type item \<noteq> [] then ev_Type item else ev_Kind item) @ [CHR 0x00] @ summary))"

record selection =
  sel_Out :: "Evidence list"
  sel_Chosen :: "string list"
  sel_Signatures :: "string list"
  sel_Families :: "string list"

definition fresh_pick :: "ranker \<Rightarrow> selection \<Rightarrow> Evidence \<Rightarrow> bool" where
  "fresh_pick R s item = (ev_ID item \<notin> set (sel_Chosen s) \<and> evidenceSignature R item \<notin> set (sel_Signatures s))"

definition pick :: "ranker \<Rightarrow> Evidence \<Rightarrow> string list \<Rightarrow> string list \<Rightarrow> selection \<Rightarrow> selection" where
  "pick R item families reasons s = \<lparr>sel_Out = sel_Out s @ [item\<lparr>ev_RankingReasons := ev_RankingReasons item @ reasons\<rparr>],
     sel_Chosen = ev_ID item # sel_Chosen s, sel_Signatures = evidenceSignature R item # sel_Signatures s, sel_Families = families @ sel_Families s\<rparr>"

definition append_best :: "ranker \<Rightarrow> Evidence list \<Rightarrow> int \<Rightarrow> selection \<Rightarrow> string \<times> (Evidence \<Rightarrow> bool) \<Rightarrow> selection" where
  "append_best R items maxItems s = (\<lambda>(reason, wanted).
     if int (length (sel_Out s)) \<ge> maxItems then s
     else (case find (\<lambda>item. fresh_pick R s item \<and> wanted item) items of None \<Rightarrow> s
       | Some item \<Rightarrow> pick R item (filter (\<lambda>f. f \<noteq> []) [metricEvidenceFamily item]) [reason] s))"

definition append_family :: "ranker \<Rightarrow> int \<Rightarrow> selection \<Rightarrow> Evidence \<Rightarrow> selection" where
  "append_family R maxItems s item =
     (let family = metricEvidenceFamily item in
      if int (length (sel_Out s)) \<ge> maxItems \<or> family = [] \<or> family \<in> set (sel_Families s) \<or> \<not> fresh_pick R s item then s
      else pick R item [family] [''retained_metric_signal_family''] s)"

definition append_rest :: "ranker \<Rightarrow> int \<Rightarrow> selection \<Rightarrow> Evidence \<Rightarrow> selection" where
  "append_rest R maxItems s item = (if int (length (sel_Out s)) \<ge> maxItems \<or> \<not> fresh_pick R s item then s else pick R item [] [] s)"

definition required_sources :: "(string \<times> (Evidence \<Rightarrow> bool)) list" where
  "required_sources = [(''required_kubernetes_source'', \<lambda>v. EqualFold (ev_Source v) ''kubernetes''), (''required_metric_source'', \<lambda>v. evidenceModality v = ''metric''),
     (''required_log_source'', \<lambda>v. evidenceModality v = ''log''), (''required_trace_source'', \<lambda>v. evidenceModality v = ''trace'')]"

definition preserveRequiredSources :: "ranker \<Rightarrow> Evidence list \<Rightarrow> int \<Rightarrow> Evidence list" where
  "preserveRequiredSources R items maxItems =
     (if maxItems \<le> 0 then []
      else let s = foldl (append_best R items maxItems) \<lparr>sel_Out = [], sel_Chosen = [], sel_Signatures = [], sel_Families = []\<rparr> required_sources;
               s = foldl (append_family R maxItems) s items
           in by_relevance (sel_Out (foldl (append_rest R maxItems) s items)))"

definition evidenceForModelContext :: "ranker \<Rightarrow> Evidence \<Rightarrow> Evidence" where
  "evidenceForModelContext R item = item\<lparr>ev_Facts := (evidenceFacts R item)(''query'' := None), ev_Content := Map.empty, ev_Data := Map.empty\<rparr>"

section \<open>Ranking the evidence of an incident\<close>

definition ranking_request :: "Incident \<Rightarrow> time \<Rightarrow> EvidenceRequest" where
  "ranking_request i now = zero_EvidenceRequest\<lparr>er_Source := ''mixed'',
     er_Targets := [zero_ResourceRef\<lparr>ref_Namespace := inc_Namespace i, ref_Service := inc_Service i, ref_Resource := inc_Resource i\<rparr>],
     er_WindowStart := inc_EvidenceStartAt i, er_WindowEnd := now\<rparr>"

definition evidence_start :: "Incident \<Rightarrow> time \<Rightarrow> time" where
  "evidence_start i now = (if IsZero (inc_EvidenceStartAt i) then now - 5 * Minute else inc_EvidenceStartAt i)"

definition scored :: "ranker \<Rightarrow> Incident \<Rightarrow> time \<Rightarrow> Evidence \<Rightarrow> Evidence" where
  "scored R i now item0 = (let item = AnalyzeEvidence (rk_Observer R) item0; (score, reasons) = evidenceScore R i item (evidence_start i now) now
     in item\<lparr>ev_RelevanceScore := score, ev_RankingReasons := reasons\<rparr>)"

definition keep_better :: "(string \<times> Evidence) list \<Rightarrow> Evidence \<Rightarrow> (string \<times> Evidence) list" where
  "keep_better known item = (case map_of known (ev_ID item) of
       Some previous \<Rightarrow> if ev_RelevanceScore item > ev_RelevanceScore previous then AList.update (ev_ID item) item known else known
     | None \<Rightarrow> AList.update (ev_ID item) item known)"

definition deduplicated :: "ranker \<Rightarrow> Incident \<Rightarrow> time \<Rightarrow> Evidence list \<Rightarrow> Evidence list" where
  "deduplicated R i now input = map snd (foldl keep_better [] (map (scored R i now)
     (filter (\<lambda>e. ev_ID e \<noteq> [] \<and> insideWindow e (evidence_start i now) now) input)))"

definition ranked_items :: "ranker \<Rightarrow> Config \<Rightarrow> Incident \<Rightarrow> time \<Rightarrow> Evidence list \<Rightarrow> Evidence list" where
  "ranked_items R E i now input = by_relevance (case cfg_RankingPolicy E of None \<Rightarrow> deduplicated R i now input
     | Some policy \<Rightarrow> Rank R policy now i (deduplicated R i now input))"

definition selected_items :: "ranker \<Rightarrow> Config \<Rightarrow> Evidence list \<Rightarrow> Evidence list" where
  "selected_items R E items = map (\<lambda>e. evidenceForModelContext R (e\<lparr>ev_RankingReasons := ev_RankingReasons e @ [''retained_for_model_context'']\<rparr>))
     (preserveRequiredSources R items (cfg_ModelEvidenceMaxItems E))"

definition telemetry_sources :: "string list" where
  "telemetry_sources = [''metric'', ''prometheus'', ''log'', ''loki'', ''trace'', ''jaeger'']"

definition rank_normalized :: "ranker \<Rightarrow> Config \<Rightarrow> time \<Rightarrow> Incident \<Rightarrow> Evidence list \<Rightarrow> string + RankedEvidence" where
  "rank_normalized R E now i input =
     (let items = ranked_items R E i now input; selected = selected_items R E items
      in if \<not> hasSource selected ''kubernetes'' then Inl ''ranked evidence is missing Kubernetes evidence''
         else if \<not> hasAnySource selected telemetry_sources then Inl ''ranked evidence is missing metric, log, or trace evidence''
         else Inr \<lparr>re_Evidence = selected, re_RuntimeEvidence = items,
                re_Ledger = zero_DiagnosisLedger\<lparr>led_EvidenceOriginalCount := int (length input), led_EvidenceOriginalBytes := rk_Bytes R input,
                  led_EvidenceRetainedCount := int (length selected),
                  led_EvidenceRetainedBytes := vc_Views (rk_Codec R) (Views (rk_Codec R) selected (cfg_ModelContextMaxBytes E) 2048 (cfg_ModelEvidenceMaxItems E))\<rparr>\<rparr>)"

definition RankEvidence :: "ranker \<Rightarrow> Config \<Rightarrow> time \<Rightarrow> Incident option \<Rightarrow> Evidence list \<Rightarrow> string + RankedEvidence" where
  "RankEvidence R E now incident input = (case incident of None \<Rightarrow> Inl ''incident is required''
     | Some i \<Rightarrow> rank_normalized R E now i (Normalize (rk_ReadLine R) (rk_Identity R) (Some i) (ranking_request i now) now input))"

end
