(* ===== verification/Ranking_Properties.thy ===== *)
theory Ranking_Properties
  imports Evidence_Selection Signal_Properties
begin

text \<open>What \<^verbatim>\<open>RankEvidence\<close> guarantees: one observation per identifier, figures in [0,1], and a selection for the model that
  represents every modality of the evidence, however the observations are scored.\<close>

section \<open>Figures\<close>

lemma weighted_bounds [simp]: "0 \<le> weighted figures weights" "weighted figures weights \<le> 1"
  by (simp_all add: weighted_def)

lemma score_parts [simp]:
  "0 \<le> window_score i e a b" "window_score i e a b \<le> 1" "0 \<le> match_score i e" "match_score i e \<le> 1"
  "0 \<le> correlation_score R i e" "correlation_score R i e \<le> 1" "0 \<le> discriminativeness text" "discriminativeness text \<le> 1"
  "0 \<le> severityRarity R e text" "severityRarity R e text \<le> 1" "0 \<le> source_trust s" "source_trust s \<le> 1"
  by (simp_all add: window_score_def match_score_def correlation_score_def discriminativeness_def severityRarity_def source_trust_def Let_def)

lemma evidenceScore_bounds: "0 \<le> fst (evidenceScore R i e a b) \<and> fst (evidenceScore R i e a b) \<le> 1"
proof -
  let ?t = "observation_text R e"
  have "fst (evidenceScore R i e a b) = 25/100 * window_score i e a b + 20/100 * match_score i e + 20/100 * correlation_score R i e +
      15/100 * discriminativeness ?t + 10/100 * source_trust (ev_Source e) + 10/100 * severityRarity R e ?t"
    by (simp add: evidenceScore_def Let_def)
  then show ?thesis
    using score_parts(1,2) [of i e a b] score_parts(3,4) [of i e] score_parts(5,6) [of R i e] score_parts(7,8) [of ?t]
      score_parts(9,10) [of R e ?t] score_parts(11,12) [of "ev_Source e"]
    by linarith
qed

definition bounded_evidence :: "Evidence \<Rightarrow> bool" where
  "bounded_evidence e = (0 \<le> ev_RelevanceScore e \<and> ev_RelevanceScore e \<le> 1 \<and> 0 \<le> ev_AnomalyScore e \<and> ev_AnomalyScore e \<le> 1)"

lemma analysed_fields [simp]:
  "ev_ID (AnalyzeEvidence B e) = ev_ID e" "ev_Source (AnalyzeEvidence B e) = ev_Source e"
  "0 \<le> ev_AnomalyScore (AnalyzeEvidence B e)" "ev_AnomalyScore (AnalyzeEvidence B e) \<le> 1"
  by (simp_all add: AnalyzeEvidence_def Let_def)

lemma scored_bounded: "bounded_evidence (scored R i now e)" "ev_ID (scored R i now e) = ev_ID e" "ev_Source (scored R i now e) = ev_Source e"
  using evidenceScore_bounds [of R i "AnalyzeEvidence (rk_Observer R) e" "evidence_start i now" now]
  by (cases "evidenceScore R i (AnalyzeEvidence (rk_Observer R) e) (evidence_start i now) now"; simp add: bounded_evidence_def scored_def Let_def)+

lemma rank_item_fields:
  "ev_ID (rank_item R policy now i e) = ev_ID e" "0 \<le> ev_RelevanceScore (rank_item R policy now i e)" "ev_RelevanceScore (rank_item R policy now i e) \<le> 1"
  "ev_AnomalyScore (rank_item R policy now i e) = ev_AnomalyScore e"
  by (simp_all add: rank_item_def Let_def)

section \<open>Orders\<close>

lemma by_relevance_set [simp]: "set (by_relevance items) = set items" "length (by_relevance items) = length items"
  by (simp_all add: by_relevance_def)

lemma by_relevance_ids: "distinct (map ev_ID (by_relevance items)) = distinct (map ev_ID items)"
proof -
  have "mset (map ev_ID (by_relevance items)) = mset (map ev_ID items)" by (simp add: by_relevance_def)
  then show ?thesis by (metis mset_eq_imp_distinct_iff)
qed

lemma by_relevance_sorted: "sorted (map (\<lambda>e. - ev_RelevanceScore e) (by_relevance items))"
  unfolding by_relevance_def by (rule sorted_sort_key)

lemma Rank_props:
  "ev_ID ` set (Rank R policy now i items) = ev_ID ` set items"
  "distinct (map ev_ID (Rank R policy now i items)) = distinct (map ev_ID items)" "\<forall>e\<in>set (Rank R policy now i items). bounded_evidence e"
proof -
  let ?f = "\<lambda>e. AnalyzeEvidence (rk_Observer R) e"
  let ?q = "applySignalQuality R now i (map ?f items)"
  have ids: "map ev_ID (map (rank_item R policy now i) ?q) = map ev_ID items"
    by (simp add: applySignalQuality_def rank_item_fields comp_def Let_def)
  show "distinct (map ev_ID (Rank R policy now i items)) = distinct (map ev_ID items)"
    using by_relevance_ids [of "map (rank_item R policy now i) ?q"] unfolding ids Rank_def by simp
  show "ev_ID ` set (Rank R policy now i items) = ev_ID ` set items"
    using arg_cong [OF ids, of set] unfolding Rank_def by (simp only: by_relevance_set set_map image_image)
  show "\<forall>e\<in>set (Rank R policy now i items). bounded_evidence e"
    by (auto simp: Rank_def bounded_evidence_def rank_item_fields applySignalQuality_def Let_def)
qed

section \<open>One observation for each identifier\<close>

definition by_id :: "(string \<times> Evidence) list \<Rightarrow> bool" where
  "by_id known = (distinct (map fst known) \<and> (\<forall>x\<in>set known. ev_ID (snd x) = fst x \<and> bounded_evidence (snd x)))"

lemma keep_better_props:
  assumes "by_id known" "bounded_evidence item"
  shows "by_id (keep_better known item)" "fst ` set (keep_better known item) = insert (ev_ID item) (fst ` set known)"
proof -
  let ?u = "AList.update (ev_ID item) item known"
  have d: "distinct (map fst known)" using assms(1) by (simp add: by_id_def)
  have "set ?u \<subseteq> insert (ev_ID item, item) (set known)" by (induction known) auto
  then have "by_id ?u" using assms by (auto simp: by_id_def distinct_update)
  moreover have "fst ` set ?u = insert (ev_ID item) (fst ` set known)" using dom_update [of "ev_ID item" item known] by simp
  moreover have "map_of known (ev_ID item) = Some x \<Longrightarrow> ev_ID item \<in> fst ` set known" for x by (force dest: map_of_SomeD)
  ultimately show "by_id (keep_better known item)" "fst ` set (keep_better known item) = insert (ev_ID item) (fst ` set known)"
    using assms by (auto simp: keep_better_def split: option.split)
qed

lemma keep_better_fold:
  assumes "by_id known" "\<forall>e\<in>set items. bounded_evidence e"
  shows "by_id (foldl keep_better known items) \<and> fst ` set (foldl keep_better known items) = fst ` set known \<union> ev_ID ` set items"
  using assms
proof (induction items arbitrary: known)
  case (Cons e items)
  then have k: "by_id (keep_better known e)" "fst ` set (keep_better known e) = insert (ev_ID e) (fst ` set known)" using keep_better_props by simp_all
  show ?case using Cons.IH [OF k(1)] Cons.prems(2) unfolding k(2) by auto
qed simp

definition recent_ids :: "Incident \<Rightarrow> time \<Rightarrow> Evidence list \<Rightarrow> string set" where
  "recent_ids i now input = ev_ID ` {e \<in> set input. ev_ID e \<noteq> [] \<and> insideWindow e (evidence_start i now) now}"

lemma deduplicated_props:
  "distinct (map ev_ID (deduplicated R i now input))" "ev_ID ` set (deduplicated R i now input) = recent_ids i now input"
  "\<forall>e\<in>set (deduplicated R i now input). bounded_evidence e"
proof -
  let ?xs = "map (scored R i now) (filter (\<lambda>e. ev_ID e \<noteq> [] \<and> insideWindow e (evidence_start i now) now) input)"
  let ?k = "foldl keep_better [] ?xs"
  have k: "by_id ?k" "fst ` set ?k = ev_ID ` set ?xs" using keep_better_fold [of "[]" ?xs] by (auto simp: by_id_def scored_bounded)
  then have ids: "map ev_ID (map snd ?k) = map fst ?k" by (auto simp: by_id_def)
  show "distinct (map ev_ID (deduplicated R i now input))" unfolding deduplicated_def ids using k(1) by (simp add: by_id_def)
  have "ev_ID ` set (map snd ?k) = fst ` set ?k" using arg_cong [OF ids, of set] by (simp only: set_map image_image)
  then show "ev_ID ` set (deduplicated R i now input) = recent_ids i now input"
    unfolding deduplicated_def k(2) by (auto simp: recent_ids_def scored_bounded image_image)
  show "\<forall>e\<in>set (deduplicated R i now input). bounded_evidence e" using k(1) by (auto simp: deduplicated_def by_id_def)
qed

lemma ranked_items_props:
  "distinct (map ev_ID (ranked_items R E i now input))" "ev_ID ` set (ranked_items R E i now input) = recent_ids i now input"
  "\<forall>e\<in>set (ranked_items R E i now input). bounded_evidence e" "sorted (map (\<lambda>e. - ev_RelevanceScore e) (ranked_items R E i now input))"
  using deduplicated_props [of R i now input] Rank_props [where items = "deduplicated R i now input" and R = R and i = i and now = now]
  by (auto simp: ranked_items_def by_relevance_ids by_relevance_sorted split: option.split)

section \<open>The selection\<close>

definition selection_ok :: "ranker \<Rightarrow> Evidence list \<Rightarrow> int \<Rightarrow> selection \<Rightarrow> bool" where
  "selection_ok R items maxItems s = (distinct (sel_Chosen s) \<and> sel_Chosen s = rev (map ev_ID (sel_Out s)) \<and>
     sel_Signatures s = rev (map (evidenceSignature R) (sel_Out s)) \<and> int (length (sel_Out s)) \<le> maxItems \<and>
     (\<forall>e\<in>set (sel_Out s). \<exists>x\<in>set items. \<exists>rs. e = x\<lparr>ev_RankingReasons := rs\<rparr>))"

lemma reasons_irrelevant [simp]:
  "evidenceSignature R (e\<lparr>ev_RankingReasons := rs\<rparr>) = evidenceSignature R e" "evidenceModality (e\<lparr>ev_RankingReasons := rs\<rparr>) = evidenceModality e"
  by (simp_all add: evidenceSignature_def evidenceModality_def Let_def)

lemma pick_ok:
  assumes "selection_ok R items maxItems s" "item \<in> set items" "fresh_pick R s item" "int (length (sel_Out s)) < maxItems"
  shows "selection_ok R items maxItems (pick R item fs rs s)"
  using assms by (auto simp: selection_ok_def pick_def fresh_pick_def)

lemma append_best_ok: "selection_ok R items maxItems s \<Longrightarrow> selection_ok R items maxItems (append_best R items maxItems s want)"
  by (cases want) (auto simp: append_best_def split: option.split dest!: find_SomeD intro!: pick_ok)

lemma append_family_ok: "selection_ok R items maxItems s \<Longrightarrow> item \<in> set items \<Longrightarrow> selection_ok R items maxItems (append_family R maxItems s item)"
  by (auto simp: append_family_def Let_def intro!: pick_ok)

lemma append_rest_ok: "selection_ok R items maxItems s \<Longrightarrow> item \<in> set items \<Longrightarrow> selection_ok R items maxItems (append_rest R maxItems s item)"
  by (auto simp: append_rest_def intro!: pick_ok)

lemma picks_grow:
  "set (sel_Out s) \<subseteq> set (sel_Out (append_best R items maxItems s want))" "set (sel_Out s) \<subseteq> set (sel_Out (append_family R maxItems s item))"
  "set (sel_Out s) \<subseteq> set (sel_Out (append_rest R maxItems s item))"
  by (cases want; auto simp: append_best_def pick_def split: option.split) (auto simp: append_family_def append_rest_def pick_def Let_def)

lemma foldl_grow:
  assumes "\<And>s x. P s \<Longrightarrow> x \<in> set xs \<Longrightarrow> P (f s x)" "\<And>s x. set (sel_Out s) \<subseteq> set (sel_Out (f s x))" "P s"
  shows "P (foldl f s xs) \<and> set (sel_Out s) \<subseteq> set (sel_Out (foldl f s xs))"
  using assms(1,3)
proof (induction xs arbitrary: s)
  case (Cons x xs)
  have "P (foldl f (f s x) xs) \<and> set (sel_Out (f s x)) \<subseteq> set (sel_Out (foldl f (f s x) xs))" using Cons by simp
  then show ?case using assms(2) [of s x] by auto
qed simp

section \<open>Every modality is represented\<close>

lemma in_dropWhile: "c \<in> set xs \<Longrightarrow> \<not> P c \<Longrightarrow> c \<in> set (dropWhile P xs)"
  by (induction xs) auto

lemma in_TrimSpace: "c \<in> set s \<Longrightarrow> \<not> IsSpace c \<Longrightarrow> c \<in> set (TrimSpace s)"
  by (simp add: TrimSpace_def in_dropWhile)

lemma lower_NUL: "ToLowerChar c = CHR 0x00 \<longleftrightarrow> c = CHR 0x00"
proof (cases "65 \<le> (of_char c :: nat) \<and> (of_char c :: nat) \<le> 90")
  case True
  then have "(of_char (ToLowerChar c) :: nat) = of_char c + 32" by (simp add: ToLowerChar_def Let_def)
  then have "(of_char (ToLowerChar c) :: nat) \<noteq> of_char (CHR 0x00)" "(of_char c :: nat) \<noteq> of_char (CHR 0x00)" using True by auto
  then show ?thesis by metis
next
  case False
  then have "ToLowerChar c = c" unfolding ToLowerChar_def Let_def by (rule if_not_P)
  then show ?thesis by simp
qed

lemma modality_clean:
  assumes "evidenceModality e \<noteq> []"
  shows "CHR 0x00 \<notin> set (ev_Source e)"
proof
  assume "CHR 0x00 \<in> set (ev_Source e)"
  then have "CHR 0x00 \<in> set (TrimSpace (ev_Source e))" by (intro in_TrimSpace) (simp_all add: IsSpace_def)
  then have "ToLowerChar (CHR 0x00) \<in> set (ToLower (TrimSpace (ev_Source e)))" unfolding ToLower_def set_map by (rule imageI)
  then have "CHR 0x00 \<in> set (ToLower (TrimSpace (ev_Source e)))" using lower_NUL [of "CHR 0x00"] by simp
  then show False using assms by (auto simp: evidenceModality_def Let_def split: if_splits)
qed

lemma same_signature_modality:
  assumes "evidenceSignature R x = evidenceSignature R y" "evidenceModality x \<noteq> []" "evidenceModality y \<noteq> []"
  shows "evidenceModality x = evidenceModality y"
proof -
  let ?cut = "takeWhile (\<lambda>c. c \<noteq> CHR 0x00)"
  have low: "?cut (ToLower (ev_Source e @ [CHR 0x00] @ r)) = ToLower (ev_Source e)" if "CHR 0x00 \<notin> set (ev_Source e)" for e r
    using that by (auto simp: ToLower_def takeWhile_append lower_NUL)
  obtain r r' where "evidenceSignature R x = ToLower (ev_Source x @ [CHR 0x00] @ r)" "evidenceSignature R y = ToLower (ev_Source y @ [CHR 0x00] @ r')"
    by (simp add: evidenceSignature_def Let_def)
  then have "ToLower (ev_Source x) = ToLower (ev_Source y)"
    using low [OF modality_clean [OF assms(2)], of r] low [OF modality_clean [OF assms(3)], of r'] assms(1) by simp
  then have "ToLower (TrimSpace (ev_Source x)) = ToLower (TrimSpace (ev_Source y))" by (simp flip: TrimSpace_ToLower)
  then show ?thesis by (simp add: evidenceModality_def)
qed

lemma kubernetes_modality: "EqualFold (ev_Source e) ''kubernetes'' \<Longrightarrow> evidenceModality e = ''topology''"
proof -
  assume "EqualFold (ev_Source e) ''kubernetes''"
  moreover have "ToLower ''kubernetes'' = ''kubernetes''" "TrimSpace ''kubernetes'' = ''kubernetes''" by code_simp+
  ultimately have "ToLower (TrimSpace (ev_Source e)) = ''kubernetes''" by (simp add: EqualFold_def flip: TrimSpace_ToLower)
  then show ?thesis by (simp add: evidenceModality_def)
qed

definition picked_before :: "string list \<Rightarrow> selection \<Rightarrow> bool" where
  "picked_before ms s = ((\<forall>e\<in>set (sel_Out s). evidenceModality e \<in> set ms) \<and> length (sel_Out s) \<le> length ms)"

lemma best_represents:
  assumes ok: "selection_ok R items maxItems s" and ids: "distinct (map ev_ID items)" and before: "picked_before ms s" "int (length ms) < maxItems"
    and m: "m \<notin> set ms" "m \<noteq> []" "[] \<notin> set ms"
    and want: "\<And>e. wanted e \<Longrightarrow> evidenceModality e = m" "\<And>e rs. wanted (e\<lparr>ev_RankingReasons := rs\<rparr>) = wanted e"
  shows "picked_before (m # ms) (append_best R items maxItems s (reason, wanted))"
    "x \<in> set items \<Longrightarrow> wanted x \<Longrightarrow> list_ex wanted (sel_Out (append_best R items maxItems s (reason, wanted)))"
proof -
  have free: "int (length (sel_Out s)) < maxItems" using before by (simp add: picked_before_def)
  have fresh: "fresh_pick R s x" if x: "x \<in> set items" "wanted x" for x
  proof -
    have other: "evidenceModality e \<noteq> evidenceModality x \<and> evidenceModality e \<noteq> [] \<and> evidenceModality x \<noteq> []" if "e \<in> set (sel_Out s)" for e
      using before(1) that m want(1) [OF x(2)] by (auto simp: picked_before_def)
    have "ev_ID e \<noteq> ev_ID x" if "e \<in> set (sel_Out s)" for e
    proof
      assume "ev_ID e = ev_ID x"
      moreover have "\<exists>y\<in>set items. \<exists>rs. e = y\<lparr>ev_RankingReasons := rs\<rparr>" using ok that unfolding selection_ok_def by blast
      then obtain y rs where y: "y \<in> set items" "e = y\<lparr>ev_RankingReasons := rs\<rparr>" by blast
      ultimately have "y = x" using ids x(1) by (auto simp: distinct_map dest: inj_onD)
      then show False using other [OF that] y(2) by simp
    qed
    moreover have "evidenceSignature R e \<noteq> evidenceSignature R x" if "e \<in> set (sel_Out s)" for e
      using same_signature_modality other [OF that] by blast
    ultimately show ?thesis using ok by (force simp: fresh_pick_def selection_ok_def)
  qed
  show "picked_before (m # ms) (append_best R items maxItems s (reason, wanted))"
    using before(1) want(1) by (auto simp: append_best_def picked_before_def pick_def split: option.split dest!: find_SomeD)
  show "list_ex wanted (sel_Out (append_best R items maxItems s (reason, wanted)))" if x: "x \<in> set items" "wanted x"
  proof (cases "find (\<lambda>item. fresh_pick R s item \<and> wanted item) items")
    case None
    then show ?thesis using x fresh by (auto simp: find_None_iff)
  next
    case (Some y)
    then have "wanted y" by (auto dest: find_SomeD)
    then show ?thesis using Some free by (simp add: append_best_def pick_def want(2))
  qed
qed

definition telemetry_modalities :: "string set" where
  "telemetry_modalities = {''metric'', ''log'', ''trace''}"

lemma list_ex_modality: "list_ex (\<lambda>v. evidenceModality v = m) out \<Longrightarrow> set out \<subseteq> S \<Longrightarrow> m \<in> evidenceModality ` S"
  by (auto simp: list_ex_iff)

lemma required_represented:
  fixes R :: ranker
  assumes "distinct (map ev_ID items)" "4 \<le> maxItems"
  defines "s \<equiv> foldl (append_best R items maxItems) \<lparr>sel_Out = [], sel_Chosen = [], sel_Signatures = [], sel_Families = []\<rparr> required_sources"
  shows "selection_ok R items maxItems s" "telemetry_modalities \<inter> evidenceModality ` set items \<subseteq> evidenceModality ` set (sel_Out s)"
proof -
  define s0 where "s0 = \<lparr>sel_Out = [], sel_Chosen = [], sel_Signatures = [], sel_Families = []\<rparr>"
  define s1 where "s1 = append_best R items maxItems s0 (''required_kubernetes_source'', \<lambda>v. EqualFold (ev_Source v) ''kubernetes'')"
  define s2 where "s2 = append_best R items maxItems s1 (''required_metric_source'', \<lambda>v. evidenceModality v = ''metric'')"
  define s3 where "s3 = append_best R items maxItems s2 (''required_log_source'', \<lambda>v. evidenceModality v = ''log'')"
  have s: "s = append_best R items maxItems s3 (''required_trace_source'', \<lambda>v. evidenceModality v = ''trace'')"
    by (simp add: s_def required_sources_def s3_def s2_def s1_def s0_def)
  have ok0: "selection_ok R items maxItems s0" using assms(2) by (simp add: s0_def selection_ok_def)
  then have ok1: "selection_ok R items maxItems s1" unfolding s1_def by (rule append_best_ok)
  then have ok2: "selection_ok R items maxItems s2" unfolding s2_def by (rule append_best_ok)
  then have ok3: "selection_ok R items maxItems s3" unfolding s3_def by (rule append_best_ok)
  then show "selection_ok R items maxItems s" unfolding s by (rule append_best_ok)
  have "picked_before [] s0" by (simp add: picked_before_def s0_def)
  then have p1: "picked_before [''topology''] s1" unfolding s1_def
    by (intro best_represents(1) [OF ok0 assms(1)]) (use assms(2) kubernetes_modality in simp_all)
  then have p2: "picked_before [''metric'', ''topology''] s2" unfolding s2_def
    by (intro best_represents(1) [OF ok1 assms(1)]) (use assms(2) in simp_all)
  then have p3: "picked_before [''log'', ''metric'', ''topology''] s3" unfolding s3_def
    by (intro best_represents(1) [OF ok2 assms(1)]) (use assms(2) in simp_all)
  have metric: "x \<in> set items \<Longrightarrow> evidenceModality x = ''metric'' \<Longrightarrow> list_ex (\<lambda>v. evidenceModality v = ''metric'') (sel_Out s2)" for x
    unfolding s2_def by (intro best_represents(2) [OF ok1 assms(1) p1]) (use assms(2) in simp_all)
  have log: "x \<in> set items \<Longrightarrow> evidenceModality x = ''log'' \<Longrightarrow> list_ex (\<lambda>v. evidenceModality v = ''log'') (sel_Out s3)" for x
    unfolding s3_def by (intro best_represents(2) [OF ok2 assms(1) p2]) (use assms(2) in simp_all)
  have trace: "x \<in> set items \<Longrightarrow> evidenceModality x = ''trace'' \<Longrightarrow> list_ex (\<lambda>v. evidenceModality v = ''trace'') (sel_Out s)" for x
    unfolding s by (intro best_represents(2) [OF ok3 assms(1) p3]) (use assms(2) in simp_all)
  have grow: "set (sel_Out s3) \<subseteq> set (sel_Out s)" "set (sel_Out s2) \<subseteq> set (sel_Out s3)" unfolding s s3_def by (rule picks_grow(1))+
  have "evidenceModality x \<in> evidenceModality ` set (sel_Out s)" if x: "x \<in> set items" "evidenceModality x \<in> telemetry_modalities" for x
  proof -
    consider "evidenceModality x = ''metric''" | "evidenceModality x = ''log''" | "evidenceModality x = ''trace''" using x(2) by (auto simp: telemetry_modalities_def)
    then show ?thesis
    proof cases
      case 1
      then show ?thesis using list_ex_modality [OF metric [OF x(1) 1]] grow by auto
    next
      case 2
      then show ?thesis using list_ex_modality [OF log [OF x(1) 2]] grow by auto
    next
      case 3
      then show ?thesis using list_ex_modality [OF trace [OF x(1) 3]] by auto
    qed
  qed
  then show "telemetry_modalities \<inter> evidenceModality ` set items \<subseteq> evidenceModality ` set (sel_Out s)" by auto
qed

lemma preserved_props:
  fixes R :: ranker
  assumes "distinct (map ev_ID items)" "4 \<le> maxItems"
  defines "out \<equiv> preserveRequiredSources R items maxItems"
  shows "distinct (map ev_ID out)" "ev_ID ` set out \<subseteq> ev_ID ` set items" "int (length out) \<le> maxItems" "sorted (map (\<lambda>e. - ev_RelevanceScore e) out)"
    "telemetry_modalities \<inter> evidenceModality ` set items \<subseteq> evidenceModality ` set out"
proof -
  define s where "s = foldl (append_best R items maxItems) \<lparr>sel_Out = [], sel_Chosen = [], sel_Signatures = [], sel_Families = []\<rparr> required_sources"
  define t where "t = foldl (append_family R maxItems) s items"
  define u where "u = foldl (append_rest R maxItems) t items"
  have out: "out = by_relevance (sel_Out u)" using assms(2) by (simp add: out_def preserveRequiredSources_def s_def t_def u_def Let_def)
  have s: "selection_ok R items maxItems s" "telemetry_modalities \<inter> evidenceModality ` set items \<subseteq> evidenceModality ` set (sel_Out s)"
    using required_represented [OF assms(1,2)] unfolding s_def by blast+
  have t: "selection_ok R items maxItems t \<and> set (sel_Out s) \<subseteq> set (sel_Out t)"
    unfolding t_def by (rule foldl_grow) (use s(1) append_family_ok picks_grow(2) in blast)+
  have u: "selection_ok R items maxItems u \<and> set (sel_Out t) \<subseteq> set (sel_Out u)"
    unfolding u_def by (rule foldl_grow) (use t append_rest_ok picks_grow(3) in blast)+
  then have "distinct (rev (map ev_ID (sel_Out u)))" unfolding selection_ok_def by metis
  then show "distinct (map ev_ID out)" unfolding out by_relevance_ids by (simp only: distinct_rev)
  show "int (length out) \<le> maxItems" using u by (simp add: out selection_ok_def)
  have "\<forall>e\<in>set (sel_Out u). \<exists>x\<in>set items. \<exists>rs. e = x\<lparr>ev_RankingReasons := rs\<rparr>" using u unfolding selection_ok_def by blast
  then show "ev_ID ` set out \<subseteq> ev_ID ` set items" unfolding out by fastforce
  show "sorted (map (\<lambda>e. - ev_RelevanceScore e) out)" unfolding out by (rule by_relevance_sorted)
  have "set (sel_Out s) \<subseteq> set out" using t u unfolding out by_relevance_set by blast
  then have "evidenceModality ` set (sel_Out s) \<subseteq> evidenceModality ` set out" by (rule image_mono)
  then show "telemetry_modalities \<inter> evidenceModality ` set items \<subseteq> evidenceModality ` set out" using s(2) by blast
qed

lemma context_fields [simp]:
  "ev_ID (evidenceForModelContext R e) = ev_ID e" "ev_RelevanceScore (evidenceForModelContext R e) = ev_RelevanceScore e"
  "evidenceModality (evidenceForModelContext R e) = evidenceModality e"
  by (simp_all add: evidenceForModelContext_def evidenceModality_def Let_def)

lemma selected_props:
  "map ev_ID (selected_items R E items) = map ev_ID (preserveRequiredSources R items (cfg_ModelEvidenceMaxItems E))"
  "map (\<lambda>e. - ev_RelevanceScore e) (selected_items R E items) = map (\<lambda>e. - ev_RelevanceScore e) (preserveRequiredSources R items (cfg_ModelEvidenceMaxItems E))"
  "map evidenceModality (selected_items R E items) = map evidenceModality (preserveRequiredSources R items (cfg_ModelEvidenceMaxItems E))"
  by (simp_all add: selected_items_def)


definition plain_ranker :: ranker where
  "plain_ranker = \<lparr>rk_Observer = plain_observer, rk_Fixed = (\<lambda>_ _. ''0.500''), rk_Sqrt = (\<lambda>n. of_int n), rk_JSON = (\<lambda>_. ''{}''), rk_FactsJSON = (\<lambda>_. ''{}''),
     rk_ReadJSON = (\<lambda>_. None), rk_Timestamps = (\<lambda>s. s), rk_Identifiers = (\<lambda>s. s), rk_ReadLine = (\<lambda>_. None), rk_Identity = (\<lambda>_. ''x''),
     rk_Codec = \<lparr>vc_JSON = (\<lambda>_. None), vc_Sprint = (\<lambda>_. ''x''), vc_Views = (\<lambda>vs. 0)\<rparr>, rk_Bytes = (\<lambda>es. int (length es))\<rparr>"

definition observed :: "string \<Rightarrow> string \<Rightarrow> Evidence" where
  "observed i source = zero_Evidence\<lparr>ev_ID := i, ev_Source := source, ev_Type := ''t'', ev_Kind := ''t'', ev_Timestamp := 5, ev_ObservedAt := 5, ev_WindowStart := 1,
     ev_WindowEnd := 9, ev_Namespace := ''n'', ev_Service := ''s'', ev_Resource := ''r''\<rparr>"

definition observed_incident :: Incident where
  "observed_incident = zero_Incident\<lparr>inc_ID := ''i'', inc_EvidenceStartAt := 1, inc_CreatedAt := 2\<rparr>"

lemma observed_normal: "normalize_item P D (Some observed_incident) request now (observed ''k'' ''kubernetes'') = observed ''k'' ''kubernetes''"
  "normalize_item P D (Some observed_incident) request now (observed ''t'' ''jaeger'') = observed ''t'' ''jaeger''"
  by (simp_all add: normalize_item_def observed_def zero_Evidence_def mergeFacts_def enrichStructuredLogFacts_def set_facts_def fill_kind_def fill_times_def
      observe_now_def applyScope_def IsZero_def TrimSpace_def ToLower_def ToLowerChar_def IsSpace_def Let_def split: list.split)

lemma observed_recent: "insideWindow (observed k src) (evidence_start observed_incident 9) 9" "ev_ID (observed k src) = k"
  by (simp_all add: observed_def observed_incident_def evidence_start_def insideWindow_def observation_time_def IsZero_def Second_def zero_Evidence_def Let_def)


end
