(* ===== verification/State_Assertions.thy ===== *)
theory State_Assertions
  imports Evidence_Signals
begin

text \<open>\<^verbatim>\<open>reasoning/assertions.go\<close>: the state assertions of an incident, one for each subject and property, built from the signals of
  the evidence and the assertions of the round before.  The map of assertions is an association list by key with what the
  round has seen of the key; the result is sorted, and no two entries share subject and property, so that Go's order of
  iteration has no influence.  The digest of an identifier is an argument.\<close>

section \<open>Keys\<close>

definition assertionProperty :: "EvidenceSignal \<Rightarrow> string" where
  "assertionProperty s = (let name = ToLower (sig_Signal s) in
     if Contains name ''cpu_throttl'' then ''cpu_throttling''
     else if Contains name ''cpu'' then ''cpu_pressure''
     else if Contains name ''memory_growth'' then ''memory_growth''
     else if Contains name ''memory'' then ''memory_pressure''
     else if Contains name ''trace_error'' then ''trace_error''
     else if Contains name ''latency'' then ''request_latency''
     else if Contains name ''error'' \<or> Contains name ''log'' then ''application_errors''
     else if Contains name ''restart'' then ''pod_restarts''
     else if Contains name ''connection'' then ''connection_pressure''
     else if Contains name ''endpoint'' \<or> Contains name ''dependency'' then ''dependency_availability''
     else if Contains name ''availability'' then ''dependency_availability''
     else if Contains name ''network'' then ''network_connectivity''
     else if Contains name ''workload'' then ''workload_health''
     else [])"

definition first_non_blank :: "string list \<Rightarrow> string option" where
  "first_non_blank vs = find (\<lambda>v. TrimSpace v \<noteq> []) vs"

definition firstNonBlank :: "string list \<Rightarrow> string" where
  "firstNonBlank vs = (case first_non_blank vs of None \<Rightarrow> [] | Some v \<Rightarrow> v)"

definition assertionSubject :: "Incident option \<Rightarrow> Evidence \<Rightarrow> EvidenceSignal \<Rightarrow> string" where
  "assertionSubject incident item s = (case first_non_blank [sig_Resource s, ev_Resource item, sig_Service s, ev_Service item] of
       Some v \<Rightarrow> v
     | None \<Rightarrow> (case incident of None \<Rightarrow> ''incident'' | Some i \<Rightarrow> firstNonBlank [inc_Resource i, inc_Service i, ''incident'']))"

definition assertionKey :: "string \<Rightarrow> string \<Rightarrow> string" where
  "assertionKey subject property = ToLower (TrimSpace subject) @ ''|'' @ ToLower (TrimSpace property)"

definition stableAssertionID :: "(string \<Rightarrow> string) \<Rightarrow> string \<Rightarrow> string \<Rightarrow> string" where
  "stableAssertionID digest subject property = ''assertion-'' @ digest (assertionKey subject property)"

definition nonZero :: "rat \<Rightarrow> rat \<Rightarrow> rat" where
  "nonZero value fallback = (if value = 0 then fallback else value)"

section \<open>One round\<close>

text \<open>What a round knows of a key: the assertion, when the round before had last seen it, and whether an abnormal and a normal
  observation have come since.\<close>

record assertion_group =
  ag_Assertion :: StateAssertion
  ag_Prior :: "time option"
  ag_Abnormal :: bool
  ag_Normal :: bool

definition prior_group :: "StateAssertion \<Rightarrow> assertion_group" where
  "prior_group a = \<lparr>ag_Assertion = a, ag_Prior = Some (sa_LastSeen a), ag_Abnormal = False, ag_Normal = False\<rparr>"

definition prior_groups :: "StateAssertion list \<Rightarrow> (string \<times> assertion_group) list" where
  "prior_groups previous = foldl (\<lambda>gs a. AList.update (assertionKey (sa_Subject a) (sa_Property a)) (prior_group a) gs) [] previous"

definition new_group :: "(string \<Rightarrow> string) \<Rightarrow> time \<Rightarrow> string \<Rightarrow> string \<Rightarrow> EvidenceSignal \<Rightarrow> assertion_group" where
  "new_group digest now subject property s =
     \<lparr>ag_Assertion = \<lparr>sa_ID = stableAssertionID digest subject property, sa_Subject = subject, sa_Property = property, sa_State = ''normal'', sa_Confidence = 0,
        sa_SupportingSignalIDs = [], sa_ContradictingSignalIDs = [], sa_FirstSeen = (if IsZero (sig_ObservedAt s) then now else sig_ObservedAt s),
        sa_LastSeen = 0, sa_Status = StateAssertionActive\<rparr>,
      ag_Prior = None, ag_Abnormal = False, ag_Normal = False\<rparr>"

definition seen_at :: "time \<Rightarrow> StateAssertion \<Rightarrow> StateAssertion" where
  "seen_at t a = (if IsZero (sa_LastSeen a) \<or> t > sa_LastSeen a then a\<lparr>sa_LastSeen := t\<rparr> else a)"

definition signal_confidence :: "EvidenceSignal \<Rightarrow> rat" where
  "signal_confidence s = sig_Strength s * sig_Reliability s * nonZero (sig_Independence s) 1"

definition abnormal_evidence :: "EvidenceSignal \<Rightarrow> StateAssertion \<Rightarrow> StateAssertion" where
  "abnormal_evidence s a =
     (let a = (if signal_confidence s \<ge> sa_Confidence a then a\<lparr>sa_State := ''abnormal'', sa_Confidence := signal_confidence s\<rparr> else a)
      in a\<lparr>sa_SupportingSignalIDs := appendUnique (sa_SupportingSignalIDs a) (sig_ID s), sa_Status := StateAssertionActive\<rparr>)"

definition observe_signal :: "time \<Rightarrow> EvidenceSignal \<Rightarrow> assertion_group \<Rightarrow> assertion_group" where
  "observe_signal now s g =
     (let t = (if IsZero (sig_ObservedAt s) then now else sig_ObservedAt s);
          a = seen_at t (ag_Assertion g);
          since = (case ag_Prior g of None \<Rightarrow> True | Some prior \<Rightarrow> IsZero prior \<or> t > prior)
      in if sig_Direction s = ''abnormal'' then g\<lparr>ag_Assertion := abnormal_evidence s a, ag_Abnormal := ag_Abnormal g \<or> since\<rparr>
         else if sig_Direction s = ''normal''
         then g\<lparr>ag_Assertion := a\<lparr>sa_ContradictingSignalIDs := appendUnique (sa_ContradictingSignalIDs a) (sig_ID s)\<rparr>, ag_Normal := ag_Normal g \<or> since\<rparr>
         else g\<lparr>ag_Assertion := a\<rparr>)"

definition assert_signal :: "(string \<Rightarrow> string) \<Rightarrow> time \<Rightarrow> Incident option \<Rightarrow> (string \<times> assertion_group) list \<Rightarrow> Evidence \<times> EvidenceSignal \<Rightarrow>
    (string \<times> assertion_group) list" where
  "assert_signal digest now incident gs = (\<lambda>(item, s).
     let property = assertionProperty s in
     if property = [] then gs
     else let subject = assertionSubject incident item s; key = assertionKey subject property;
              g = (case map_of gs key of None \<Rightarrow> new_group digest now subject property s | Some g \<Rightarrow> g)
          in AList.update key (observe_signal now s g) gs)"

definition closed_by_normal :: "assertion_group \<Rightarrow> bool" where
  "closed_by_normal g = ((case ag_Prior g of None \<Rightarrow> False | Some prior \<Rightarrow> \<not> IsZero prior) \<and> sa_State (ag_Assertion g) = ''abnormal'' \<and> ag_Normal g \<and> \<not> ag_Abnormal g)"

definition close_assertion :: "time \<Rightarrow> assertion_group \<Rightarrow> StateAssertion" where
  "close_assertion now g =
     (let a = ag_Assertion g;
          a = (if IsZero (sa_LastSeen a) then a\<lparr>sa_LastSeen := sa_FirstSeen a\<rparr> else a);
          a = (if closed_by_normal g then a\<lparr>sa_Status := StateAssertionContradicted\<rparr> else a)
      in if sa_Status a = StateAssertionActive \<and> sa_LastSeen a < now - 10 * Minute then a\<lparr>sa_Status := StateAssertionStale\<rparr> else a)"

definition asserted_groups :: "(string \<Rightarrow> string) \<Rightarrow> time \<Rightarrow> Incident option \<Rightarrow> Evidence list \<Rightarrow> StateAssertion list \<Rightarrow> (string \<times> assertion_group) list" where
  "asserted_groups digest now incident evidence previous =
     foldl (assert_signal digest now incident) (prior_groups previous) (concat (map (\<lambda>item. map (Pair item) (ev_Signals item)) evidence))"

definition BuildStateAssertions :: "(string \<Rightarrow> string) \<Rightarrow> time \<Rightarrow> Incident option \<Rightarrow> Evidence list \<Rightarrow> StateAssertion list \<Rightarrow> time \<Rightarrow> StateAssertion list" where
  "BuildStateAssertions digest clock incident evidence previous now0 =
     (let now = (if IsZero now0 then clock else now0)
      in sort_key sa_Subject (sort_key sa_Property (map (close_assertion now \<circ> snd) (asserted_groups digest now incident evidence previous))))"

section \<open>What an assertion rests on\<close>

definition evidence_signals :: "Evidence list \<Rightarrow> (Evidence \<times> EvidenceSignal) list" where
  "evidence_signals evidence = concat (map (\<lambda>item. map (Pair item) (ev_Signals item)) evidence)"

definition assertion_of :: "StateAssertion \<Rightarrow> string" where
  "assertion_of a = assertionKey (sa_Subject a) (sa_Property a)"

definition signal_about :: "Incident option \<Rightarrow> string \<Rightarrow> Evidence \<times> EvidenceSignal \<Rightarrow> bool" where
  "signal_about incident k = (\<lambda>(item, s). assertionProperty s \<noteq> [] \<and> assertionKey (assertionSubject incident item s) (assertionProperty s) = k)"

definition observed_after :: "time \<Rightarrow> time option \<Rightarrow> EvidenceSignal \<Rightarrow> bool" where
  "observed_after now prior s = (case prior of None \<Rightarrow> True
     | Some t \<Rightarrow> IsZero t \<or> (if IsZero (sig_ObservedAt s) then now else sig_ObservedAt s) > t)"

text \<open>The invariant of a key after some signals: the group belongs to the key, its flags say exactly what has come since, its state
  is abnormal only when it was or when an abnormal signal made it so, and only an assertion of before can be other than
  active.\<close>

definition heard :: "time \<Rightarrow> Incident option \<Rightarrow> string \<Rightarrow> (Evidence \<times> EvidenceSignal) list \<Rightarrow> time option \<Rightarrow> string \<Rightarrow> bool" where
  "heard now incident k xs prior direction =
     (\<exists>x\<in>set xs. signal_about incident k x \<and> sig_Direction (snd x) = direction \<and> observed_after now prior (snd x))"

definition group_of :: "time \<Rightarrow> Incident option \<Rightarrow> StateAssertion list \<Rightarrow> (Evidence \<times> EvidenceSignal) list \<Rightarrow> string \<Rightarrow> assertion_group \<Rightarrow> bool" where
  "group_of now incident previous xs k g =
     (assertion_of (ag_Assertion g) = k \<and>
      ag_Abnormal g = heard now incident k xs (ag_Prior g) ''abnormal'' \<and> ag_Normal g = heard now incident k xs (ag_Prior g) ''normal'' \<and>
      (sa_State (ag_Assertion g) = ''abnormal'' \<longrightarrow> heard now incident k xs None ''abnormal'' \<or>
         (\<exists>p\<in>set previous. assertion_of p = k \<and> sa_State p = ''abnormal'')) \<and>
      (case ag_Prior g of None \<Rightarrow> sa_Status (ag_Assertion g) = StateAssertionActive
       | Some t \<Rightarrow> \<exists>p\<in>set previous. assertion_of p = k \<and> sa_LastSeen p = t \<and> (sa_Status (ag_Assertion g) = StateAssertionActive \<or> sa_Status (ag_Assertion g) = sa_Status p)))"

definition groups_of :: "time \<Rightarrow> Incident option \<Rightarrow> StateAssertion list \<Rightarrow> (Evidence \<times> EvidenceSignal) list \<Rightarrow> (string \<times> assertion_group) list \<Rightarrow> bool" where
  "groups_of now incident previous xs gs =
     (distinct (map fst gs) \<and> (\<forall>k g. map_of gs k = Some g \<longrightarrow> group_of now incident previous xs k g) \<and>
      (\<forall>k. map_of gs k = None \<longrightarrow> (\<forall>p\<in>set previous. assertion_of p \<noteq> k) \<and> (\<forall>x\<in>set xs. \<not> signal_about incident k x)))"

lemma heard_snoc: "heard now incident k (xs @ [x]) prior d =
   (heard now incident k xs prior d \<or> signal_about incident k x \<and> sig_Direction (snd x) = d \<and> observed_after now prior (snd x))"
  by (auto simp: heard_def)

lemma heard_Nil [simp]: "\<not> heard now incident k [] prior d"
  by (simp add: heard_def)

lemma observed_after_None [simp]: "observed_after now None s"
  by (simp add: observed_after_def)

lemma observe_signal_fields:
  "ag_Prior (observe_signal now s g) = ag_Prior g" "assertion_of (ag_Assertion (observe_signal now s g)) = assertion_of (ag_Assertion g)"
  "ag_Abnormal (observe_signal now s g) = (ag_Abnormal g \<or> sig_Direction s = ''abnormal'' \<and> observed_after now (ag_Prior g) s)"
  "ag_Normal (observe_signal now s g) = (ag_Normal g \<or> sig_Direction s = ''normal'' \<and> observed_after now (ag_Prior g) s)"
  "sa_State (ag_Assertion (observe_signal now s g)) = ''abnormal'' \<Longrightarrow> sa_State (ag_Assertion g) = ''abnormal'' \<or> sig_Direction s = ''abnormal''"
  "sa_Status (ag_Assertion (observe_signal now s g)) = (if sig_Direction s = ''abnormal'' then StateAssertionActive else sa_Status (ag_Assertion g))"
  by (auto simp: observe_signal_def abnormal_evidence_def seen_at_def assertion_of_def observed_after_def Let_def split: if_splits option.splits)

lemma groups_update:
  assumes "groups_of now incident previous xs gs" "group_of now incident previous' xs' k g'"
    and "\<And>k' g. k' \<noteq> k \<Longrightarrow> group_of now incident previous xs k' g \<Longrightarrow> group_of now incident previous' xs' k' g"
    and "\<And>p. p \<in> set previous' \<Longrightarrow> p \<in> set previous \<or> assertion_of p = k"
    and "\<And>x k'. x \<in> set xs' \<Longrightarrow> k' \<noteq> k \<Longrightarrow> signal_about incident k' x \<Longrightarrow> x \<in> set xs"
  shows "groups_of now incident previous' xs' (AList.update k g' gs)"
proof -
  have "group_of now incident previous' xs' k' g" if "map_of (AList.update k g' gs) k' = Some g" for k' g
    using that assms(1-3) by (cases "k' = k") (auto simp: groups_of_def update_conv')
  moreover have "(\<forall>p\<in>set previous'. assertion_of p \<noteq> k') \<and> (\<forall>x\<in>set xs'. \<not> signal_about incident k' x)"
    if "map_of (AList.update k g' gs) k' = None" for k'
  proof -
    have other: "k' \<noteq> k" and "map_of gs k' = None" using that by (auto simp: update_conv' simp del: map_of_eq_None_iff split: if_splits)
    then have "\<forall>p\<in>set previous. assertion_of p \<noteq> k'" "\<forall>x\<in>set xs. \<not> signal_about incident k' x"
      using assms(1) unfolding groups_of_def by blast+
    then show ?thesis using other assms(4,5) by metis
  qed
  ultimately show ?thesis
    using assms(1) by (auto simp: groups_of_def distinct_update)
qed

lemma group_of_more_previous: "group_of now incident previous xs k g \<Longrightarrow> group_of now incident (previous @ [p]) xs k g"
  by (auto simp: group_of_def split: option.splits)

lemma prior_group_of: "group_of now incident (previous @ [p]) [] (assertionKey (sa_Subject p) (sa_Property p)) (prior_group p)"
  by (simp add: group_of_def prior_group_def assertion_of_def)

lemma prior_groups_of: "groups_of now incident previous [] (prior_groups previous)"
proof -
  define f where "f = (\<lambda>gs a. AList.update (assertionKey (sa_Subject a) (sa_Property a)) (prior_group a) gs)"
  have step: "groups_of now incident (ps @ [a]) [] (f gs a)" if "groups_of now incident ps [] gs" for ps a gs
    unfolding f_def using that
    by (rule groups_update [OF _ prior_group_of]) (auto intro: group_of_more_previous simp: assertion_of_def)
  have "groups_of now incident (ps @ qs) [] (foldl f gs qs)" if "groups_of now incident ps [] gs" for ps qs gs
    using that
  proof (induction qs arbitrary: ps gs)
    case (Cons q qs)
    show ?case using Cons.IH [OF step [OF Cons.prems, of q]] by simp
  qed simp
  from this [of "[]" "[]" previous] show ?thesis by (simp add: prior_groups_def groups_of_def f_def)
qed

lemma group_of_other: "\<not> signal_about incident k x \<Longrightarrow> group_of now incident previous xs k g \<Longrightarrow> group_of now incident previous (xs @ [x]) k g"
  by (simp add: group_of_def heard_snoc)

lemma group_of_observed:
  assumes "group_of now incident previous xs k g" "signal_about incident k (item, s)"
  shows "group_of now incident previous (xs @ [(item, s)]) k (observe_signal now s g)"
  using assms observe_signal_fields(5) [of now s g]
  by (auto simp: group_of_def heard_snoc observe_signal_fields(1-4,6) split: option.splits)

lemma new_group_of:
  assumes "signal_about incident k (item, s)" "\<forall>x\<in>set xs. \<not> signal_about incident k x"
  shows "group_of now incident previous xs k (new_group digest now (assertionSubject incident item s) (assertionProperty s) s)"
  using assms by (auto simp: group_of_def new_group_def assertion_of_def signal_about_def heard_def)

lemma assert_signal_of:
  assumes "groups_of now incident previous xs gs"
  shows "groups_of now incident previous (xs @ [x]) (assert_signal digest now incident gs x)"
proof (cases x)
  case (Pair item s)
  define k where "k = assertionKey (assertionSubject incident item s) (assertionProperty s)"
  define g where "g = (case map_of gs k of None \<Rightarrow> new_group digest now (assertionSubject incident item s) (assertionProperty s) s | Some g \<Rightarrow> g)"
  show ?thesis
  proof (cases "assertionProperty s = []")
    case True
    then have "\<not> signal_about incident k' x" for k' by (simp add: signal_about_def Pair)
    then show ?thesis using assms True
      by (auto simp: assert_signal_def Pair groups_of_def Let_def intro: group_of_other simp del: map_of_eq_None_iff)
  next
    case False
    then have about: "signal_about incident k x" and only: "\<And>k'. signal_about incident k' x \<Longrightarrow> k' = k"
      by (simp_all add: signal_about_def Pair k_def)
    have "group_of now incident previous xs k g"
      using assms about unfolding g_def
      by (auto simp: groups_of_def Pair intro: new_group_of simp del: map_of_eq_None_iff split: option.splits)
    then have "group_of now incident previous (xs @ [x]) k (observe_signal now s g)"
      using about group_of_observed Pair by blast
    then have "groups_of now incident previous (xs @ [x]) (AList.update k (observe_signal now s g) gs)"
      by (rule groups_update [OF assms]) (use only in \<open>auto intro: group_of_other\<close>)
    then show ?thesis using False by (simp add: assert_signal_def Pair Let_def g_def k_def)
  qed
qed

lemma asserted_groups_of:
  "groups_of now incident previous (evidence_signals evidence) (asserted_groups digest now incident evidence previous)"
proof -
  have "groups_of now incident previous (xs @ ys) (foldl (assert_signal digest now incident) gs ys)"
    if "groups_of now incident previous xs gs" for xs ys gs
    using that
  proof (induction ys arbitrary: xs gs)
    case (Cons y ys)
    show ?case using Cons.IH [OF assert_signal_of [OF Cons.prems, of y digest]] by simp
  qed simp
  from this [OF prior_groups_of, where ys = "evidence_signals evidence"] show ?thesis
    by (simp add: asserted_groups_def evidence_signals_def)
qed

lemma close_assertion_fields:
  "assertion_of (close_assertion now g) = assertion_of (ag_Assertion g)" "sa_State (close_assertion now g) = sa_State (ag_Assertion g)"
  "sa_Status (close_assertion now g) = StateAssertionContradicted \<longleftrightarrow> closed_by_normal g \<or> sa_Status (ag_Assertion g) = StateAssertionContradicted"
  by (auto simp: close_assertion_def assertion_of_def Let_def)

section \<open>Properties\<close>


definition usage_signal :: "string \<Rightarrow> string \<Rightarrow> time \<Rightarrow> EvidenceSignal" where
  "usage_signal i direction t = zero_EvidenceSignal\<lparr>sig_ID := i, sig_Signal := ''memory_usage'', sig_Strength := 1, sig_Reliability := 1, sig_Direction := direction,
     sig_ObservedAt := t, sig_Resource := ''orders''\<rparr>"

definition usage_evidence :: "EvidenceSignal list \<Rightarrow> Evidence" where
  "usage_evidence ss = zero_Evidence\<lparr>ev_ID := ''ev-1'', ev_Signals := ss\<rparr>"

definition usage_round :: "EvidenceSignal list \<Rightarrow> StateAssertion list \<Rightarrow> time \<Rightarrow> StateAssertion list" where
  "usage_round ss previous now = BuildStateAssertions (\<lambda>k. k) 1 None [usage_evidence ss] previous now"

lemma usage_rounds:
  "map (\<lambda>a. (sa_State a, sa_Status a)) (usage_round [usage_signal ''s1'' ''abnormal'' 50, usage_signal ''s2'' ''normal'' 60] [] 100)
     = [(''abnormal'', StateAssertionActive)]"
  "map (\<lambda>a. (sa_State a, sa_Status a)) (usage_round [usage_signal ''s3'' ''normal'' 150]
       (usage_round [usage_signal ''s1'' ''abnormal'' 50] [] 100) 200) = [(''abnormal'', StateAssertionContradicted)]"
  by code_simp+

lemma first_round_not_contradicted:
  "\<forall>p\<in>set (usage_round [usage_signal ''s1'' ''abnormal'' 50] [] 100). sa_Status p \<noteq> StateAssertionContradicted"
  by code_simp


end
