(* ===== verification/Spec2Isabelle.thy ===== *)
theory Spec2Isabelle
  imports Incident_Lifecycle Agent_Budget Hypothesis_Lifecycle Tool_Policy Admission Grounding Belief Skills Outer_Graph Brain_Refinement World_Model Evidence_Contract Tool_Properties Service_Properties Causal_Validation
    Topology_Conversion Discovery_Properties Causal_Learning Policy_Learning Signal_Properties Ranking_Properties State_Assertions
begin

text \<open>
KubePilot is an incident-response service for Kubernetes.  An incident is diagnosed by an agent
(the Brain), which asks a chat model for tool calls turn by turn; a recovery the Brain proposes
passes a dry run, a validator and a human approval before one action is executed against the cluster
and verified.  This library models the part of the program that decides: the domain records, the
rules of the Brain runtime, the state updates of a turn, the turn graph, the safety kernel and the
workflow graph around them.

\<^bold>\<open>Theories and sources\<close>

\<^item> \<open>Prelude\<close>: the Go conventions shared by all parts (clock, strings, maps, results, merge of slices).
\<^item> \<open>Domain_Evidence\<close>, \<open>Domain_Diagnosis\<close>, \<open>Domain_Brain\<close>, \<open>Domain_Incident\<close>: the structs and
  enumerations of \<^verbatim>\<open>internal/domain\<close>, \<^verbatim>\<open>internal/topology/graph.go\<close> and \<^verbatim>\<open>agent/types.go\<close> as
  records and datatypes, field for field, with the source's field order.
\<^item> \<open>Incident_Lifecycle\<close> (\<^verbatim>\<open>internal/domain/incident.go\<close>): the status table and \<^verbatim>\<open>Transition\<close>.
\<^item> \<open>Agent_Budget\<close>, \<open>Hypothesis_Lifecycle\<close> (\<^verbatim>\<open>internal/safety\<close>): the budget controller and the
  hypothesis transition service with its audit trail.
\<^item> \<open>String_Sets\<close>, \<open>Runtime_Hash\<close>, \<open>Tool_Policy\<close>, \<open>Admission\<close>, \<open>Grounding\<close>, \<open>Belief\<close>
  (\<^verbatim>\<open>internal/brainruntime/runtime.go\<close>): fingerprints, loop control for tool calls, admission of
  hypotheses, grounding on evidence, belief commits, recovery eligibility, termination events.
\<^item> \<open>Skill_Order\<close>, \<open>Skills\<close> (\<^verbatim>\<open>agent/brain_skills.go\<close>): the skill catalog and the bundle of a turn.
\<^item> \<open>Recovery_Executor\<close> (\<^verbatim>\<open>agent/recovery.go\<close>): preparation, dry run, execution and verification
  of a recovery, as a function of the answers of the cluster with the calls it makes.
\<^item> \<open>Brain_Common\<close>, \<open>Brain_Context\<close>, \<open>Brain_State\<close>, \<open>Brain_Messages\<close>, \<open>Brain_Graph\<close>
  (\<^verbatim>\<open>agent/brain_state.go\<close>, \<^verbatim>\<open>agent/brain_context.go\<close>, \<^verbatim>\<open>agent/brain_graph.go\<close>,
  \<^verbatim>\<open>agent/brain_tools.go\<close>): the state updates of a turn, the conversation sent to the model and
  the compiled turn graph.  \<open>Brain_Budget\<close> and \<open>Brain_Refinement\<close> hold the invariants of its runs.
\<^item> \<open>Topology\<close>, \<open>World_Model\<close>, \<open>Evidence_Contract\<close> (\<^verbatim>\<open>internal/topology\<close>, \<^verbatim>\<open>internal/worldmodel\<close>,
  \<^verbatim>\<open>internal/evidence\<close>): what is derived from the evidence of an incident, its graph, the
  operational world model, and the normal form and bounded views of the evidence itself.
\<^item> \<open>Tool_Inputs\<close>, \<open>Tool_Observation\<close>, \<open>Tool_Reasoning\<close>, \<open>Tool_Control\<close> (\<^verbatim>\<open>agent/brain_tools.go\<close>): one function per
  tool of the model, put together in \<open>runBrainTool\<close>.  \<open>Tool_Contract\<close> is the locale that says how
  a handler refuses, and which part of an answer each handler may fill; \<open>Tool_Properties\<close> rests on it.
\<^item> \<open>Incident_Store\<close>, \<open>Incident_Service\<close>, \<open>Service_Steps\<close>, \<open>Service_Properties\<close> (\<^verbatim>\<open>internal/store/store.go\<close>,
  \<^verbatim>\<open>internal/service/incidents.go\<close>): the store behind the service, as a record of operations with the contract
  \<open>incident_store\<close> that the built-in store fulfils; the incident manager; and its transition system, in which a
  goroutine is a task that runs later.
\<^item> \<open>Causal_Knowledge\<close>, \<open>Causal_Validation\<close>, \<open>Topology_Knowledge\<close> (\<^verbatim>\<open>internal/causal/knowledge\<close>, \<^verbatim>\<open>internal/causal/validator\<close>,
  \<^verbatim>\<open>internal/topology/knowledge\<close>, \<^verbatim>\<open>internal/topology/extractor\<close>): what is learned from resolved incidents, the causal
  patterns and the service topologies, with the identity that merges repeated observations, the built-in stores
  and the gate a proposal has to pass.
\<^item> \<open>Causal_Discovery\<close>, \<open>Discovery_Properties\<close> (\<^verbatim>\<open>internal/causal/discovery\<close>): the causal graph of a resolved incident, the
  mining of the paths of many, and the engine that accepts a mined candidate.  The map of aggregates is an
  association list; pruning takes the order in which Go visits the map as an argument.
\<^item> \<open>Causal_Learning\<close> (\<^verbatim>\<open>internal/service/causal_learning.go\<close>): the learner the service calls after a verified recovery, which puts the
  three knowledge packages together, as a step over their stores and the world behind its interfaces.
\<^item> \<open>Policy_Learning\<close> (\<^verbatim>\<open>internal/learning/service.go\<close>, \<^verbatim>\<open>internal/domain/policy.go\<close>): the improvement, rollout and rollback of policies.
\<^item> \<open>Topology_Conversion\<close> (\<^verbatim>\<open>internal/topology/graph.go\<close>): the round trip of a topology through the features of an incident.
\<^item> \<open>Evidence_Signals\<close>, \<open>Signal_Properties\<close>, \<open>Evidence_Ranking\<close> (\<^verbatim>\<open>internal/reasoning/evidence\<close>): how abnormal an observation is, the
  typed signals it shows, and the ranking of observations and retrieved incidents by a policy of weights.  What the
  code takes from libraries is a record of functions (\<open>observer\<close>, \<open>ranker\<close>).
\<^item> \<open>Evidence_Selection\<close>, \<open>Ranking_Properties\<close>, \<open>State_Assertions\<close> (\<^verbatim>\<open>reasoning/engine.go\<close>, \<^verbatim>\<open>reasoning/assertions.go\<close>): the evidence
  the model gets to see, and the assertions a round keeps from signals and the round before.
\<^item> \<open>Safety_Kernel\<close>, \<open>Safety_Gates\<close>, \<open>Recovery_Verification\<close>, \<open>Outer_Graph\<close>
  (\<^verbatim>\<open>agent/supervisor.go\<close>, \<^verbatim>\<open>agent/brain_recovery.go\<close>,
  \<^verbatim>\<open>internal/execution/action_executor.go\<close>): the nodes and routes of the workflow graph.

\<^bold>\<open>How the parts interact\<close>

The state of everything is \<open>WorkflowState\<close>, which embeds the Brain's state and points to the
incident.  A node is a function from the state (with the clock, the fresh identifiers and the answers
of external services as arguments) to the new state and an optional error, \<open>node_result\<close>; nodes that
call the cluster also return their calls, so that the absence of a mutation can be stated.
\<open>brain_step\<close> composes the nodes of the turn graph and \<open>brain_run\<close> iterates it; \<open>outer_run\<close> composes
the nodes of the workflow graph and treats a finished turn graph as one step, which
\<open>Brain_Refinement\<close> justifies: a run of the turn graph changes no incident status, so that it is
one of the steps \<open>outer_run\<close> allows.  The incident manager starts such runs, stores what they return and
resumes them with an execution context; for it a run of the engine is a function it is given, and
\<open>approved_context_accepted_exactly\<close> relates the context it builds to the check of the safety kernel.

\<^bold>\<open>Conventions\<close>

\<^item> A pointer is an option value; aliasing is written out where a mutation is seen through two
  references (the channels of a stored retrieval, the persisted assistant message).
\<^item> A time is an \<open>int\<close> of nanoseconds with 0 for the zero time; a handler reads the clock once.
\<^item> A \<open>float64\<close> is an exact rational: rounding is not modelled.  \<open>int\<close> counters are unbounded
  except where a conversion can overflow (replica counts, the JSON numbers of an intent).
\<^item> Strings are lists of ASCII characters, so that a byte, a rune and a character are the same.
\<^item> A Go map is a partial map, or an association list where its order of iteration or its JSON
  form matters; sorting is written out where the source sorts.
\<^item> SHA-256 over the JSON encoding is a function parameter \<open>H\<close>; collision freedom is never assumed.
  JSON parsing and printing, ULIDs, the embedding search, the graph database and the chat model are
  parameters too.

\<^bold>\<open>What the lemmas show\<close>

Safety of the mutation boundary: at most one mutation per workflow run and per key, never before an
approval of exactly the frozen recovery, and never replayed after an ambiguous outcome.  Soundness of
the diagnosis chain: hypotheses stay in the incident's scope, a confidence changes only by a belief
commit, changed evidence takes back what rested on the old, and a proposal needs an eligible chain; a
tool answers only behind the constraint kernel, and a diagnosis is final only with a current grounding.
Service: an approval key is used once in every interleaving, an alert is stored once, and a retry
starts from nothing; the properties named as errors show what the service does not promise.
Knowledge: a pattern becomes active on three different incidents, which for the learner are three verified
recoveries; counts are counts of incidents; the search for causal paths finds exactly the simple chains; an
accepted candidate is backed by evidence of every incident behind it; and an improved policy never becomes
active without the rollout an operator approves.
Evidence: an analysed observation carries typed signals of a closed vocabulary, the selection for the model
represents every modality there is, and an assertion is contradicted only by newer normal observations.
Bounds and termination: every turn consumes its budget and the turn graph ends after at most
11 steps a turn (11 * 50 + 3 = 553 for the 50 turns of \<open>DefaultMaxTurns\<close>), below the 616
steps the engine allows; the verification loop is a list of rounds, and as many as the timeout
holds intervals, with two more, are enough for a decision.  Equivalence and round trips: the two
string-set normalisers agree, the verdict of a verification round does not depend on arrival order,
and normalising the conversation is idempotent; a built topology reads back from the features it is stored in.

\<^bold>\<open>Not modelled\<close>

The Eino engine (checkpoints, interrupts as such, callbacks), goroutine scheduling inside a node
except for the arrival order of verification probes, telemetry, HTTP and storage drivers,
configuration files and the model clients; the retrieval pipelines, the explanation a model writes for a mined pattern, the causal candidates and the
verification of hypotheses in the reasoning engine, and the benchmark programs, which the Brain
only reaches through tools whose answers are parameters here.
\<close>

end
